(* ===== verification/CalPrelude.thy ===== *)
theory CalPrelude
  imports Complex_Main "HOL-Library.List_Lexorder" "HOL-Library.Char_ord"
begin

text \<open>
  Shared vocabulary of the development: the types of identifiers and instants, the errors the
  services throw, the state-and-error computations that model a Prisma transaction (an error
  discards the state, which is the rollback), and the generic facts on lists and on those
  computations that the component theories use.
\<close>

section \<open>Types shared by the components\<close>

type_synonym ident = string

text \<open>An instant is the number of milliseconds since the epoch: what \<open>Date.getTime()\<close> and
  \<open>moment.valueOf()\<close> return.\<close>

type_synonym instant = int

abbreviation minute_ms :: int where "minute_ms \<equiv> 60000"

text \<open>The entries of the error catalogue that the modelled services throw
  (\<open>ErrorCatalogByDomain.booking\<close>), an error thrown by Prisma itself, and a plain \<open>Error\<close>.\<close>

datatype catalog_code =
    BOOKING_ERR_VALIDATION_INPUT
  | BOOKING_ERR_GENERIC
  | BOOKING_ERR_OVERLAP_CONFLICT
  | BOOKING_ERR_NOT_OWNER
  | BOOKING_ERR_MAX_SERVICES
  | BOOKING_ERR_UNEXPECTED

datatype app_error =
    CatalogError catalog_code string
  | PrismaError string
  | PlainError string
  | Wrapped string app_error  \<comment> \<open>\<open>new CustomError(service, error)\<close>\<close>

section \<open>Computations with state and errors\<close>

type_synonym ('s, 'a) comp = "'s \<Rightarrow> app_error + 'a \<times> 's"

definition ret :: "'a \<Rightarrow> ('s, 'a) comp" where
  "ret x = (\<lambda>s. Inr (x, s))"

definition throw :: "app_error \<Rightarrow> ('s, 'a) comp" where
  "throw e = (\<lambda>s. Inl e)"

definition andThen :: "('s, 'a) comp \<Rightarrow> ('a \<Rightarrow> ('s, 'b) comp) \<Rightarrow> ('s, 'b) comp" where
  "andThen m f = (\<lambda>s. case m s of Inl e \<Rightarrow> Inl e | Inr (x, s') \<Rightarrow> f x s')"

definition readState :: "('s \<Rightarrow> 'a) \<Rightarrow> ('s, 'a) comp" where
  "readState f = (\<lambda>s. Inr (f s, s))"

definition modState :: "('s \<Rightarrow> 's) \<Rightarrow> ('s, unit) comp" where
  "modState f = (\<lambda>s. Inr ((), f s))"

text \<open>A \<open>for ... of\<close> loop that awaits one computation per element and collects the results.\<close>

fun forEach :: "('x \<Rightarrow> ('s, 'a) comp) \<Rightarrow> 'x list \<Rightarrow> ('s, 'a list) comp" where
  "forEach f [] = ret []"
| "forEach f (x # xs) =
     andThen (f x) (\<lambda>y. andThen (forEach f xs) (\<lambda>ys. ret (y # ys)))"

named_theorems comp_simps \<open>unfolding of computations\<close>

lemma ret_apply [simp, comp_simps]: "ret x s = Inr (x, s)"
  by (simp add: ret_def)

lemma throw_apply [simp, comp_simps]: "throw e s = Inl e"
  by (simp add: throw_def)

lemma readState_apply [simp, comp_simps]: "readState f s = Inr (f s, s)"
  by (simp add: readState_def)

lemma modState_apply [simp, comp_simps]: "modState f s = Inr ((), f s)"
  by (simp add: modState_def)

lemma andThen_apply [comp_simps]:
  "andThen m f s = (case m s of Inl e \<Rightarrow> Inl e | Inr (x, s') \<Rightarrow> f x s')"
  by (simp add: andThen_def)

lemma andThen_Inr_iff:
  "andThen m f s = Inr (y, t) \<longleftrightarrow> (\<exists>x s'. m s = Inr (x, s') \<and> f x s' = Inr (y, t))"
  by (auto simp: andThen_def split: sum.splits prod.splits)

lemma andThen_Inl_iff:
  "andThen m f s = Inl e \<longleftrightarrow>
     m s = Inl e \<or> (\<exists>x s'. m s = Inr (x, s') \<and> f x s' = Inl e)"
  by (auto simp: andThen_def split: sum.splits prod.splits)

lemma forEach_length:
  "forEach f xs s = Inr (ys, t) \<Longrightarrow> length ys = length xs"
  by (induction xs arbitrary: s ys t) (auto simp: andThen_Inr_iff)

text \<open>What every step of a loop keeps, the loop keeps.\<close>

lemma forEach_invariant:
  assumes "\<And>x s y t. x \<in> set xs \<Longrightarrow> I s \<Longrightarrow> f x s = Inr (y, t) \<Longrightarrow> I t"
    and "I s" and "forEach f xs s = Inr (ys, t)"
  shows "I t"
  using assms
proof (induction xs arbitrary: s ys t)
  case Nil
  then show ?case by simp
next
  case (Cons x xs)
  from Cons.prems(3) obtain y u zs where
    step: "f x s = Inr (y, u)" and rest: "forEach f xs u = Inr (zs, t)"
    by (auto simp: andThen_Inr_iff)
  have "I u" using Cons.prems(1)[of x s y u] Cons.prems(2) step by simp
  moreover have "\<And>x' s y t. x' \<in> set xs \<Longrightarrow> I s \<Longrightarrow> f x' s = Inr (y, t) \<Longrightarrow> I t"
    using Cons.prems(1) by (meson list.set_intros(2))
  ultimately show ?case using Cons.IH rest by blast
qed

section \<open>Requests: the state survives an error\<close>

text \<open>Outside a transaction a throw does not undo what was done before it (a cache write, a hold):
  the result is an error or a value, together with the state reached.\<close>

type_synonym ('s, 'a) eff = "'s \<Rightarrow> (app_error + 'a) \<times> 's"

definition eret :: "'a \<Rightarrow> ('s, 'a) eff" where
  "eret x = (\<lambda>s. (Inr x, s))"

definition ethrow :: "app_error \<Rightarrow> ('s, 'a) eff" where
  "ethrow e = (\<lambda>s. (Inl e, s))"

definition ebind :: "('s, 'a) eff \<Rightarrow> ('a \<Rightarrow> ('s, 'b) eff) \<Rightarrow> ('s, 'b) eff" where
  "ebind m f = (\<lambda>s. case m s of (Inl e, s') \<Rightarrow> (Inl e, s') | (Inr x, s') \<Rightarrow> f x s')"

definition eread :: "('s \<Rightarrow> 'a) \<Rightarrow> ('s, 'a) eff" where
  "eread f = (\<lambda>s. (Inr (f s), s))"

definition emod :: "('s \<Rightarrow> 's) \<Rightarrow> ('s, unit) eff" where
  "emod f = (\<lambda>s. (Inr (), f s))"

text \<open>\<open>try { m } catch (error) { h error }\<close>\<close>

definition ecatch :: "('s, 'a) eff \<Rightarrow> (app_error \<Rightarrow> ('s, 'a) eff) \<Rightarrow> ('s, 'a) eff" where
  "ecatch m h = (\<lambda>s. case m s of (Inl e, s') \<Rightarrow> h e s' | (Inr x, s') \<Rightarrow> (Inr x, s'))"

lemma eff_simps [simp, comp_simps]:
  "eret x s = (Inr x, s)" "ethrow e s = (Inl e, s)" "eread f s = (Inr (f s), s)"
  "emod g s = (Inr (), g s)"
  by (simp_all add: eret_def ethrow_def eread_def emod_def)

lemma ebind_Inr_iff:
  "ebind m f s = (Inr y, t) \<longleftrightarrow> (\<exists>x s'. m s = (Inr x, s') \<and> f x s' = (Inr y, t))"
  by (auto simp: ebind_def split: sum.splits prod.splits)

lemma ebind_Inl_iff:
  "ebind m f s = (Inl e, t) \<longleftrightarrow>
     m s = (Inl e, t) \<or> (\<exists>x s'. m s = (Inr x, s') \<and> f x s' = (Inl e, t))"
  by (auto simp: ebind_def split: sum.splits prod.splits)

lemma ebind_keeps:
  "(\<And>s. k (snd (m s)) = k s) \<Longrightarrow> (\<And>x s. k (snd (f x s)) = k s) \<Longrightarrow> k (snd (ebind m f s)) = k s"
  by (auto simp: ebind_def split: sum.splits prod.splits) (metis snd_conv)+

section \<open>JavaScript values\<close>

text \<open>A non-empty string is truthy, \<open>null\<close> and \<open>undefined\<close> are \<open>None\<close>.\<close>

definition truthy :: "string option \<Rightarrow> bool" where
  "truthy v = (case v of None \<Rightarrow> False | Some s \<Rightarrow> s \<noteq> [])"

lemma truthy_simps [simp]:
  "\<not> truthy None" "truthy (Some s) \<longleftrightarrow> s \<noteq> []"
  by (simp_all add: truthy_def)

text \<open>\<open>a ?? b\<close>\<close>

definition orElse :: "'a option \<Rightarrow> 'a \<Rightarrow> 'a" where
  "orElse v d = (case v of None \<Rightarrow> d | Some x \<Rightarrow> x)"

lemma orElse_simps [simp]: "orElse None d = d" "orElse (Some x) d = x"
  by (simp_all add: orElse_def)

text \<open>\<open>Array.from(new Set(xs))\<close>: the elements in the order of their first occurrence.\<close>

fun uniq :: "'a list \<Rightarrow> 'a list" where
  "uniq [] = []"
| "uniq (x # xs) = x # filter (\<lambda>y. y \<noteq> x) (uniq xs)"

lemma set_uniq [simp]: "set (uniq xs) = set xs"
  by (induction xs) auto

lemma distinct_uniq [simp]: "distinct (uniq xs)"
  by (induction xs) auto

lemma uniq_distinct: "distinct xs \<Longrightarrow> uniq xs = xs"
proof (induction xs)
  case (Cons x xs)
  then have "filter (\<lambda>y. y \<noteq> x) xs = xs" by (metis (mono_tags) distinct.simps(2) filter_True)
  with Cons show ?case by simp
qed simp

text \<open>\<open>find\<close> over a table.\<close>

lemma find_Some_D: "List.find P xs = Some x \<Longrightarrow> x \<in> set xs \<and> P x"
  by (induction xs) (auto split: if_splits)

lemma find_None_iff_all: "List.find P xs = None \<longleftrightarrow> (\<forall>x \<in> set xs. \<not> P x)"
  by (induction xs) auto

lemma sum_list_map_update:
  fixes f g :: "'a \<Rightarrow> 'b::ab_group_add"
  assumes "distinct xs" and "x \<in> set xs" and "\<And>y. y \<in> set xs \<Longrightarrow> y \<noteq> x \<Longrightarrow> g y = f y"
  shows "sum_list (map g xs) = sum_list (map f xs) - f x + g x"
  using assms
proof (induction xs)
  case (Cons a xs)
  show ?case
  proof (cases "a = x")
    case True
    then have "map g xs = map f xs" using Cons.prems by auto
    then have "sum_list (map g xs) = sum_list (map f xs)" by (rule arg_cong)
    with True show ?thesis by simp
  next
    case False
    with Cons show ?thesis by (simp add: algebra_simps)
  qed
qed simp

section \<open>After a computation\<close>

text \<open>What holds after a request, for its result and the state it leaves; one rule per construct.\<close>

definition after :: "('s, 'a) eff \<Rightarrow> 's \<Rightarrow> (app_error + 'a \<Rightarrow> 's \<Rightarrow> bool) \<Rightarrow> bool" where
  "after m s Q \<longleftrightarrow> Q (fst (m s)) (snd (m s))"

named_theorems after_rules \<open>one rule for each way a request is built\<close>

lemma afterD: "after m s Q \<Longrightarrow> m s = (r, t) \<Longrightarrow> Q r t"
  by (simp add: after_def)

lemma after_basic [after_rules]:
  "Q (Inr x) s \<Longrightarrow> after (eret x) s Q" "Q (Inl e) s \<Longrightarrow> after (ethrow e) s Q"
  "R (Inr (f s)) s \<Longrightarrow> after (eread f) s R" "S (Inr ()) (g s) \<Longrightarrow> after (emod g) s S"
  by (simp_all add: after_def)

lemma after_ebind [after_rules]:
  "after m s (\<lambda>r t. case r of Inl e \<Rightarrow> Q (Inl e) t | Inr x \<Rightarrow> after (f x) t Q) \<Longrightarrow> after (ebind m f) s Q"
  by (auto simp: after_def ebind_def split: prod.splits sum.splits)

lemma after_ecatch [after_rules]:
  "after m s (\<lambda>r t. case r of Inl e \<Rightarrow> after (h e) t Q | Inr x \<Rightarrow> Q (Inr x) t) \<Longrightarrow> after (ecatch m h) s Q"
  by (auto simp: after_def ecatch_def split: prod.splits sum.splits)

lemma after_if [after_rules]:
  "(b \<Longrightarrow> after m s Q) \<Longrightarrow> (\<not> b \<Longrightarrow> after n s Q) \<Longrightarrow> after (if b then m else n) s Q"
  by simp

lemma after_option [after_rules]:
  "(v = None \<Longrightarrow> after m s Q) \<Longrightarrow> (\<And>x. v = Some x \<Longrightarrow> after (f x) s Q) \<Longrightarrow>
   after (case v of None \<Rightarrow> m | Some x \<Rightarrow> f x) s Q"
  by (cases v) auto

lemma after_sum [after_rules]:
  "(\<And>x. v = Inl x \<Longrightarrow> after (f x) s Q) \<Longrightarrow> (\<And>y. v = Inr y \<Longrightarrow> after (g y) s Q) \<Longrightarrow>
   after (case v of Inl x \<Rightarrow> f x | Inr y \<Rightarrow> g y) s Q"
  by (cases v) auto

lemma after_prod [after_rules]:
  "(\<And>x y. v = (x, y) \<Longrightarrow> after (f x y) s Q) \<Longrightarrow> after (case v of (x, y) \<Rightarrow> f x y) s Q"
  by (cases v) auto

lemma after_let [after_rules]: "after (f x) s Q \<Longrightarrow> after (Let x f) s Q"
  by simp

lemma after_opaque:
  "(\<And>e t. m s = (Inl e, t) \<Longrightarrow> Q (Inl e) t) \<Longrightarrow> (\<And>x t. m s = (Inr x, t) \<Longrightarrow> Q (Inr x) t) \<Longrightarrow> after m s Q"
  by (cases "m s"; cases "fst (m s)") (auto simp: after_def)

lemma after_mono: "after m s P \<Longrightarrow> (\<And>r t. P r t \<Longrightarrow> Q r t) \<Longrightarrow> after m s Q"
  by (simp add: after_def)

section \<open>What a transaction preserves\<close>

definition preserves :: "('s \<Rightarrow> bool) \<Rightarrow> ('s, 'a) comp \<Rightarrow> bool" where
  "preserves I m \<longleftrightarrow> (\<forall>s x t. I s \<longrightarrow> m s = Inr (x, t) \<longrightarrow> I t)"

named_theorems preserves_rules \<open>one rule for each way a transaction is built\<close>

lemma preservesD: "preserves I m \<Longrightarrow> I s \<Longrightarrow> m s = Inr (x, t) \<Longrightarrow> I t"
  by (auto simp: preserves_def)

lemma preservesI: "(\<And>s x t. I s \<Longrightarrow> m s = Inr (x, t) \<Longrightarrow> I t) \<Longrightarrow> preserves I m"
  by (auto simp: preserves_def)

lemma preserves_basic [preserves_rules]:
  "preserves I (ret x)" "preserves I (throw e)" "preserves I (readState f)"
  by (auto simp: preserves_def)

lemma preserves_andThen [preserves_rules]:
  "preserves I m \<Longrightarrow> (\<And>x. preserves I (f x)) \<Longrightarrow> preserves I (andThen m f)"
  unfolding preserves_def andThen_Inr_iff by metis

lemma preserves_forEach [preserves_rules]:
  "(\<And>x. x \<in> set xs \<Longrightarrow> preserves I (f x)) \<Longrightarrow> preserves I (forEach f xs)"
  by (rule preservesI, rule forEach_invariant[where I = I]) (auto dest: preservesD)

lemma preserves_if [preserves_rules]:
  "(b \<Longrightarrow> preserves I m) \<Longrightarrow> (\<not> b \<Longrightarrow> preserves I n) \<Longrightarrow> preserves I (if b then m else n)"
  by simp

lemma preserves_let [preserves_rules]: "preserves I (f x) \<Longrightarrow> preserves I (Let x f)"
  by simp

lemma preserves_prod [preserves_rules]:
  "(\<And>x y. v = (x, y) \<Longrightarrow> preserves I (f x y)) \<Longrightarrow> preserves I (case v of (x, y) \<Rightarrow> f x y)"
  by (cases v) auto


end
