(* ===== verification/CalTime.thy ===== *)
theory CalTime
  imports CalPrelude
begin

text \<open>
  Time. Instants are milliseconds since the epoch; adding minutes to a moment and comparing two
  moments is arithmetic on them. What depends on a time zone (parsing a local date-time, the
  limits of the local day, the local weekday, formatting) is code of the package moment-timezone,
  which is not in the repository: it is the parameter \<open>tzlib\<close> of the definitions that use it,
  \<open>tz_ok\<close> states what the services rely on, and \<open>utc_tz\<close> is one concrete instance, the zone UTC.
  \<open>Date.toISOString\<close> is JavaScript's own and is defined here.
\<close>

section \<open>The time-zone functions the services call\<close>

record tzlib =
  z_parse :: "string \<Rightarrow> ident \<Rightarrow> instant option"  \<comment> \<open>\<open>moment.tz(s, "YYYY-MM-DDTHH:mm:ss", zone)\<close>, \<open>None\<close> when invalid\<close>
  z_sod :: "ident \<Rightarrow> instant \<Rightarrow> instant"  \<comment> \<open>\<open>startOf("day")\<close>\<close>
  z_eod :: "ident \<Rightarrow> instant \<Rightarrow> instant"  \<comment> \<open>\<open>endOf("day")\<close>\<close>
  z_floor :: "ident \<Rightarrow> instant \<Rightarrow> instant"  \<comment> \<open>\<open>seconds(0).milliseconds(0)\<close>\<close>
  z_hour :: "ident \<Rightarrow> instant \<Rightarrow> int"
  z_minute :: "ident \<Rightarrow> instant \<Rightarrow> int"
  z_date :: "ident \<Rightarrow> instant \<Rightarrow> string"  \<comment> \<open>\<open>format("YYYY-MM-DD")\<close>\<close>
  z_weekday :: "ident \<Rightarrow> instant \<Rightarrow> string"  \<comment> \<open>\<open>format("dddd").toUpperCase()\<close>\<close>
  z_fmt :: "ident \<Rightarrow> instant \<Rightarrow> string"  \<comment> \<open>\<open>format("YYYY-MM-DDTHH:mm:ss")\<close>\<close>
  z_addDays :: "ident \<Rightarrow> instant \<Rightarrow> int \<Rightarrow> instant"  \<comment> \<open>\<open>add(n, "days")\<close>\<close>

text \<open>The documented behaviour relied on: the local day holds the instant, clearing the seconds
  goes down to the start of the minute, minutes start a whole number of minutes apart (the offsets
  of the zones in use are whole minutes), the clock fields are in range.\<close>

definition tz_ok :: "tzlib \<Rightarrow> bool" where
  "tz_ok Z \<longleftrightarrow>
     (\<forall>z t. z_sod Z z t \<le> t \<and> t \<le> z_eod Z z t) \<and>
     (\<forall>z t. z_floor Z z t \<le> t \<and> t < z_floor Z z t + minute_ms) \<and>
     (\<forall>z t u. minute_ms dvd z_floor Z z t - z_floor Z z u) \<and>
     (\<forall>z t. 0 \<le> z_minute Z z t \<and> z_minute Z z t < 60 \<and> 0 \<le> z_hour Z z t \<and> z_hour Z z t < 24)"

text \<open>\<open>m.clone().add(n, "minutes")\<close>\<close>

definition addMinutes :: "instant \<Rightarrow> int \<Rightarrow> instant" where
  "addMinutes t n = t + n * minute_ms"

lemma addMinutes_simps [simp]:
  "addMinutes t 0 = t"
  "addMinutes (addMinutes t m) n = addMinutes t (m + n)"
  "addMinutes t m \<le> addMinutes t n \<longleftrightarrow> m \<le> n"
  "addMinutes t m < addMinutes t n \<longleftrightarrow> m < n"
  by (auto simp: addMinutes_def algebra_simps)

lemma addMinutes_ge: "0 \<le> n \<Longrightarrow> t \<le> addMinutes t n"
  by (simp add: addMinutes_def)

lemma tz_day: "tz_ok Z \<Longrightarrow> z_sod Z z t \<le> t" "tz_ok Z \<Longrightarrow> z_eod Z z t \<ge> t"
  by (auto simp: tz_ok_def)

lemma tz_floor:
  "tz_ok Z \<Longrightarrow> z_floor Z z t \<le> t" "tz_ok Z \<Longrightarrow> z_floor Z z t + minute_ms > t"
  by (auto simp: tz_ok_def)

lemma tz_floor_dvd: "tz_ok Z \<Longrightarrow> minute_ms dvd z_floor Z z t - z_floor Z z u"
  by (auto simp: tz_ok_def)

text \<open>Whatever is a whole number of minutes from the start of a minute and less than a minute below
  an instant is the start of that instant's minute.\<close>

lemma tz_floor_unique:
  assumes "tz_ok Z" and "minute_ms dvd r - z_floor Z z u" and "r \<le> t" and "t < r + minute_ms"
  shows "z_floor Z z t = r"
proof -
  have "minute_ms dvd (z_floor Z z t - z_floor Z z u) - (r - z_floor Z z u)"
    using tz_floor_dvd[OF assms(1)] assms(2) by (rule dvd_diff)
  then have "minute_ms dvd z_floor Z z t - r" by simp
  then obtain k where k: "z_floor Z z t - r = minute_ms * k" by (elim dvdE)
  moreover have "- minute_ms < z_floor Z z t - r" "z_floor Z z t - r < minute_ms"
    using tz_floor[OF assms(1), where z = z and t = t] assms(3,4) by linarith+
  ultimately have "k = 0" by auto
  with k show ?thesis by simp
qed

lemma tz_floor_add:
  assumes "tz_ok Z"
  shows "z_floor Z z (addMinutes t n) = addMinutes (z_floor Z z t) n"
  by (rule tz_floor_unique[OF assms, where u = t])
    (use tz_floor[OF assms, where z = z and t = t] in \<open>auto simp: addMinutes_def\<close>)

lemma tz_floor_idem: "tz_ok Z \<Longrightarrow> z_floor Z z (z_floor Z z t) = z_floor Z z t"
  by (rule tz_floor_unique[where u = t]) auto

lemma tz_minute: "tz_ok Z \<Longrightarrow> 0 \<le> z_minute Z z t" "tz_ok Z \<Longrightarrow> z_minute Z z t < 60"
  by (auto simp: tz_ok_def)

lemma tz_hour: "tz_ok Z \<Longrightarrow> 0 \<le> z_hour Z z t" "tz_ok Z \<Longrightarrow> z_hour Z z t < 24"
  by (auto simp: tz_ok_def)

section \<open>Decimal fields and civil dates\<close>

definition digitChar :: "int \<Rightarrow> char" where
  "digitChar d = char_of (48 + nat d)"

fun padDigits :: "nat \<Rightarrow> int \<Rightarrow> string" where
  "padDigits 0 n = []"
| "padDigits (Suc k) n = padDigits k (n div 10) @ [digitChar (n mod 10)]"

definition isDigit :: "char \<Rightarrow> bool" where
  "isDigit c \<longleftrightarrow> 48 \<le> (of_char c :: nat) \<and> (of_char c :: nat) \<le> 57"

definition digitVal :: "char \<Rightarrow> int" where
  "digitVal c = int (of_char c) - 48"

definition readDigits :: "string \<Rightarrow> int" where
  "readDigits s = foldl (\<lambda>acc c. acc * 10 + digitVal c) 0 s"

lemma length_padDigits [simp]: "length (padDigits k n) = k"
  by (induction k n rule: padDigits.induct) auto

lemma digitVal_digitChar: "0 \<le> d \<Longrightarrow> d < 10 \<Longrightarrow> digitVal (digitChar d) = d"
  by (simp add: digitVal_def digitChar_def)

lemma isDigit_digitChar: "0 \<le> d \<Longrightarrow> d < 10 \<Longrightarrow> isDigit (digitChar d)"
  by (simp add: isDigit_def digitChar_def)

lemma padDigits_isDigit: "list_all isDigit (padDigits k n)"
  by (induction k n rule: padDigits.induct) (auto simp: isDigit_digitChar)

lemma readDigits_padDigits:
  "0 \<le> n \<Longrightarrow> n < 10 ^ k \<Longrightarrow> readDigits (padDigits k n) = n"
proof (induction k n rule: padDigits.induct)
  case (2 k n)
  then have "n div 10 < 10 ^ k" by (simp add: div_less_iff_less_mult mult.commute)
  with 2 have "readDigits (padDigits k (n div 10)) = n div 10" by simp
  then show ?case by (simp add: readDigits_def digitVal_digitChar)
qed (simp add: readDigits_def)

text \<open>Days since 1970-01-01 to year, month and day in the proleptic Gregorian calendar, and
  back, as the ECMAScript date functions compute them.\<close>

definition civilFromDays :: "int \<Rightarrow> int \<times> int \<times> int" where
  "civilFromDays z0 =
     (let z = z0 + 719468;
          era = z div 146097;
          doe = z mod 146097;
          yoe = (doe - doe div 1460 + doe div 36524 - doe div 146096) div 365;
          doy = doe - (365 * yoe + yoe div 4 - yoe div 100);
          mp = (5 * doy + 2) div 153;
          d = doy - (153 * mp + 2) div 5 + 1;
          m = (if mp < 10 then mp + 3 else mp - 9);
          y = yoe + era * 400 + (if m \<le> 2 then 1 else 0)
      in (y, m, d))"

definition daysFromCivil :: "int \<Rightarrow> int \<Rightarrow> int \<Rightarrow> int" where
  "daysFromCivil y0 m d =
     (let y = (if m \<le> 2 then y0 - 1 else y0);
          era = y div 400;
          yoe = y mod 400;
          doy = (153 * (if m > 2 then m - 3 else m + 9) + 2) div 5 + d - 1;
          doe = yoe * 365 + yoe div 4 - yoe div 100 + doy
      in era * 146097 + doe - 719468)"

abbreviation day_ms :: int where "day_ms \<equiv> 86400000"

definition yearField :: "int \<Rightarrow> string" where
  "yearField y = (if 0 \<le> y \<and> y \<le> 9999 then padDigits 4 y
                  else if y < 0 then ''-'' @ padDigits 6 (- y) else ''+'' @ padDigits 6 y)"

definition dateField :: "int \<Rightarrow> string" where
  "dateField days = (case civilFromDays days of (y, m, d) \<Rightarrow>
     yearField y @ ''-'' @ padDigits 2 m @ ''-'' @ padDigits 2 d)"

definition clockField :: "int \<Rightarrow> string" where
  "clockField ms = padDigits 2 (ms div 3600000) @ '':'' @ padDigits 2 (ms div 60000 mod 60)
     @ '':'' @ padDigits 2 (ms div 1000 mod 60)"

text \<open>\<open>Date.prototype.toISOString\<close>\<close>

definition toISOString :: "instant \<Rightarrow> string" where
  "toISOString t = dateField (t div day_ms) @ ''T'' @ clockField (t mod day_ms)
     @ ''.'' @ padDigits 3 (t mod 1000) @ ''Z''"

section \<open>A concrete zone: UTC\<close>

text \<open>\<open>YYYY-MM-DDTHH:mm:ss\<close> read as UTC; missing seconds are read as zero, as moment does when it
  parses \<open>2024-05-06T09:00\<close> with that format.\<close>

definition utcParse :: "string \<Rightarrow> instant option" where
  "utcParse s =
     (if length s < 16 then None
      else let y = readDigits (take 4 s); mo = readDigits (take 2 (drop 5 s));
               d = readDigits (take 2 (drop 8 s)); h = readDigits (take 2 (drop 11 s));
               mi = readDigits (take 2 (drop 14 s)); se = readDigits (take 2 (drop 17 s))
           in if 1 \<le> mo \<and> mo \<le> 12 \<and> 1 \<le> d \<and> d \<le> 31 \<and> h < 24 \<and> mi < 60 \<and> se < 60
              then Some (daysFromCivil y mo d * day_ms + h * 3600000 + mi * 60000 + se * 1000)
              else None)"

definition weekdayNames :: "string list" where
  "weekdayNames = [''SUNDAY'', ''MONDAY'', ''TUESDAY'', ''WEDNESDAY'', ''THURSDAY'',
     ''FRIDAY'', ''SATURDAY'']"

definition utc_tz :: tzlib where
  "utc_tz = \<lparr>
     z_parse = (\<lambda>s z. utcParse s),
     z_sod = (\<lambda>z t. t - t mod day_ms),
     z_eod = (\<lambda>z t. t - t mod day_ms + (day_ms - 1)),
     z_floor = (\<lambda>z t. t - t mod minute_ms),
     z_hour = (\<lambda>z t. t mod day_ms div 3600000),
     z_minute = (\<lambda>z t. t div minute_ms mod 60),
     z_date = (\<lambda>z t. dateField (t div day_ms)),
     z_weekday = (\<lambda>z t. weekdayNames ! nat ((t div day_ms + 4) mod 7)),
     z_fmt = (\<lambda>z t. dateField (t div day_ms) @ ''T'' @ clockField (t mod day_ms)),
     z_addDays = (\<lambda>z t n. t + n * day_ms) \<rparr>"

lemma utc_tz_ok: "tz_ok utc_tz"
proof -
  have sod: "t - t mod day_ms \<le> t" "t \<le> t - t mod day_ms + (day_ms - 1)" for t :: int
    using pos_mod_bound[of day_ms t] pos_mod_sign[of day_ms t] by linarith+
  have fl: "t - t mod minute_ms \<le> t" "t < t - t mod minute_ms + minute_ms" for t :: int
    using pos_mod_bound[of minute_ms t] pos_mod_sign[of minute_ms t] by linarith+
  have fd: "minute_ms dvd (t - t mod minute_ms) - (u - u mod minute_ms)" for t u :: int
    by (simp add: minus_mod_eq_mult_div)
  have hr: "0 \<le> t mod day_ms div 3600000" "t mod day_ms div 3600000 < 24" for t :: int
    using pos_mod_bound[of day_ms t] pos_mod_sign[of day_ms t]
    by (auto simp: div_less_iff_less_mult)
  show ?thesis
    unfolding tz_ok_def utc_tz_def using sod fl fd hr by simp
qed

lemmas utc_simps = utc_tz_def utcParse_def readDigits_def digitVal_def daysFromCivil_def

section \<open>Days\<close>

text \<open>Further documented behaviour, used only where it is named: the local days are disjoint
  intervals, the limits of a day are those of its start, and a day starts on a minute.\<close>

definition days_ok :: "tzlib \<Rightarrow> ident \<Rightarrow> bool" where
  "days_ok Z z \<longleftrightarrow>
     (\<forall>t u. z_sod Z z t \<le> u \<and> u \<le> z_eod Z z t \<longrightarrow> z_sod Z z u = z_sod Z z t \<and> z_eod Z z u = z_eod Z z t) \<and>
     (\<forall>t. z_sod Z z t \<le> z_floor Z z t)"

lemma utc_days_ok: "days_ok utc_tz z"
  unfolding days_ok_def
proof (intro conjI allI impI)
  fix t u
  assume a: "z_sod utc_tz z t \<le> u \<and> u \<le> z_eod utc_tz z t"
  define q where "q = t div day_ms"
  have t: "t - t mod day_ms = day_ms * q" by (simp add: q_def minus_mod_eq_mult_div)
  have "u div day_ms = q"
    by (rule int_div_pos_eq[of u day_ms q "u - day_ms * q"]) (use a t in \<open>simp_all add: utc_tz_def\<close>)
  then have "u - u mod day_ms = t - t mod day_ms" unfolding t by (simp add: minus_mod_eq_mult_div)
  then show "z_sod utc_tz z u = z_sod utc_tz z t" "z_eod utc_tz z u = z_eod utc_tz z t"
    by (simp_all add: utc_tz_def)
next
  fix t
  have "minute_ms dvd day_ms" by (simp add: dvd_def exI[of _ 1440])
  then have "t mod minute_ms = (t mod day_ms) mod minute_ms" by (simp add: mod_mod_cancel)
  also have "\<dots> \<le> t mod day_ms" by (rule zmod_le_nonneg_dividend) simp
  finally show "z_sod utc_tz z t \<le> z_floor utc_tz z t" by (simp add: utc_tz_def)
qed

end
