(* ===== verification/CalWindows.thy ===== *)
theory CalWindows
  imports CalTime
begin

text \<open>
  Free windows (\<open>services/@database/event/availability-special.service.ts\<close>): the sweep that
  subtracts the busy events of a professional from a shift, the merge of touching windows, the
  containment test, the construction of the shifts of a day, the slot grid and the list of slots.
  A set of windows is read as the set of instants it covers; the two sweeps are shown to compute
  set difference and to produce maximal windows, so that an appointment fits into one window
  exactly when every instant of it is covered.
\<close>

section \<open>Windows and the instants they cover\<close>

record window =
  wstart :: instant
  wend :: instant

abbreviation win :: "instant \<Rightarrow> instant \<Rightarrow> window" where
  "win s e \<equiv> \<lparr>wstart = s, wend = e\<rparr>"

definition inWin :: "window \<Rightarrow> instant \<Rightarrow> bool" where
  "inWin w t \<longleftrightarrow> wstart w \<le> t \<and> t < wend w"

definition covers :: "window list \<Rightarrow> instant \<Rightarrow> bool" where
  "covers ws t \<longleftrightarrow> (\<exists>w \<in> set ws. inWin w t)"

lemma covers_simps [simp]:
  "\<not> covers [] t"
  "covers (w # ws) t \<longleftrightarrow> inWin w t \<or> covers ws t"
  "covers (us @ ws) t \<longleftrightarrow> covers us t \<or> covers ws t"
  by (auto simp: covers_def)

lemma covers_set_cong: "set us = set ws \<Longrightarrow> covers us t = covers ws t"
  by (simp add: covers_def)

lemma covers_concat: "covers (concat wss) t \<longleftrightarrow> (\<exists>ws \<in> set wss. covers ws t)"
  by (auto simp: covers_def)

definition proper :: "window \<Rightarrow> bool" where
  "proper w \<longleftrightarrow> wstart w < wend w"

text \<open>Strictly separated windows in ascending order.\<close>

definition separated :: "window list \<Rightarrow> bool" where
  "separated ws \<longleftrightarrow> sorted_wrt (\<lambda>a b. wend a < wstart b) ws"

section \<open>Subtracting busy time from a shift\<close>

definition clampBusy :: "instant \<Rightarrow> instant \<Rightarrow> window list \<Rightarrow> window list" where
  "clampBusy s e busy =
     sort_key wstart
       (filter (\<lambda>b. wstart b < wend b)
         (map (\<lambda>b. win (max (wstart b) s) (min (wend b) e)) busy))"

text \<open>The loop over the clamped events with its early \<open>break\<close>: the windows pushed and the final
  value of \<open>cur\<close>.\<close>

fun sweepBusy :: "instant \<Rightarrow> instant \<Rightarrow> window list \<Rightarrow> window list \<times> instant" where
  "sweepBusy e cur [] = ([], cur)"
| "sweepBusy e cur (b # bs) =
     (let pre = (if wstart b > cur then [win cur (wstart b)] else []);
          cur' = max cur (wend b)
      in if cur' \<ge> e then (pre, cur')
         else (case sweepBusy e cur' bs of (ws, c) \<Rightarrow> (pre @ ws, c)))"

definition subtractBusyFromShift :: "instant \<Rightarrow> instant \<Rightarrow> window list \<Rightarrow> window list" where
  "subtractBusyFromShift s e busy =
     (case sweepBusy e s (clampBusy s e busy) of (free, cur) \<Rightarrow>
        if cur < e then free @ [win cur e] else free)"

lemma covers_clampBusy: "covers (clampBusy s e busy) t \<longleftrightarrow> s \<le> t \<and> t < e \<and> covers busy t"
proof -
  have "(\<exists>b \<in> set busy. max (wstart b) s < min (wend b) e \<and> max (wstart b) s \<le> t \<and> t < min (wend b) e)
      \<longleftrightarrow> (\<exists>b \<in> set busy. s \<le> t \<and> t < e \<and> wstart b \<le> t \<and> t < wend b)"
    by (intro bex_cong refl) auto
  then show ?thesis by (auto simp: clampBusy_def covers_def inWin_def)
qed

lemma clampBusy_props:
  "sorted (map wstart (clampBusy s e busy))"
  "b \<in> set (clampBusy s e busy) \<Longrightarrow> s \<le> wstart b \<and> wstart b < wend b \<and> wend b \<le> e"
  by (auto simp: clampBusy_def)

lemma sweepBusy_covers:
  assumes "sorted (map wstart bs)"
    and "\<forall>b \<in> set bs. wstart b < wend b \<and> wend b \<le> e" and "cur \<le> e"
    and "sweepBusy e cur bs = (ws, c)"
  shows "c \<le> e \<and> ((covers ws t \<or> (c \<le> t \<and> t < e)) \<longleftrightarrow> (cur \<le> t \<and> t < e \<and> \<not> covers bs t))"
  using assms
proof (induction bs arbitrary: cur ws c)
  case Nil
  then show ?case by auto
next
  case (Cons b bs)
  have later: "wstart b \<le> u" if "covers bs u" for u
    using that Cons.prems(1) by (force simp: covers_def inWin_def)
  let ?cur = "max cur (wend b)"
  let ?pre = "if wstart b > cur then [win cur (wstart b)] else []"
  show ?case
  proof (cases "?cur \<ge> e")
    case True
    with Cons.prems have "ws = ?pre" "c = ?cur" "c = e" by auto
    with Cons.prems later[of t] show ?thesis by (auto simp: inWin_def)
  next
    case False
    obtain ws' where rec: "sweepBusy e ?cur bs = (ws', c)" and ws: "ws = ?pre @ ws'"
      using Cons.prems(4) False by (auto simp: Let_def split: prod.splits)
    have "c \<le> e \<and> ((covers ws' t \<or> (c \<le> t \<and> t < e)) \<longleftrightarrow> (?cur \<le> t \<and> t < e \<and> \<not> covers bs t))"
      by (rule Cons.IH[OF _ _ _ rec]) (use Cons.prems False in auto)
    with ws Cons.prems(2,3) later[of t] show ?thesis by (auto simp: inWin_def)
  qed
qed

text \<open>The windows of the sweep are proper, in ascending order, separated from one another and from
  the remainder.\<close>

lemma sweepBusy_shape:
  assumes "\<forall>b \<in> set bs. wstart b < wend b" and "sweepBusy e cur bs = (ws, c)"
  shows "cur \<le> c \<and> separated ws \<and> (\<forall>w \<in> set ws. proper w \<and> cur \<le> wstart w \<and> wend w < c)"
  using assms
proof (induction bs arbitrary: cur ws c)
  case Nil
  then show ?case by (simp add: separated_def)
next
  case (Cons b bs)
  let ?cur = "max cur (wend b)"
  let ?pre = "if wstart b > cur then [win cur (wstart b)] else []"
  have b: "wstart b < wend b" using Cons.prems(1) by simp
  show ?case
  proof (cases "?cur \<ge> e")
    case True
    with Cons.prems b show ?thesis by (auto simp: separated_def proper_def)
  next
    case False
    obtain ws' where rec: "sweepBusy e ?cur bs = (ws', c)" and ws: "ws = ?pre @ ws'"
      using Cons.prems(2) False by (auto simp: Let_def split: prod.splits)
    have "?cur \<le> c \<and> separated ws' \<and> (\<forall>w \<in> set ws'. proper w \<and> ?cur \<le> wstart w \<and> wend w < c)"
      by (rule Cons.IH[OF _ rec]) (use Cons.prems in auto)
    with ws b show ?thesis by (fastforce simp: separated_def proper_def sorted_wrt_append)
  qed
qed

lemma subtractBusy_covers:
  "covers (subtractBusyFromShift s e busy) t \<longleftrightarrow> s \<le> t \<and> t < e \<and> \<not> covers busy t"
proof (cases "s \<le> e")
  case True
  obtain ws c where sw: "sweepBusy e s (clampBusy s e busy) = (ws, c)" by fastforce
  have "c \<le> e \<and> ((covers ws t \<or> (c \<le> t \<and> t < e)) \<longleftrightarrow>
      (s \<le> t \<and> t < e \<and> \<not> covers (clampBusy s e busy) t))"
    by (rule sweepBusy_covers[OF _ _ True sw]) (use clampBusy_props in auto)
  then show ?thesis
    by (auto simp: subtractBusyFromShift_def sw covers_clampBusy inWin_def)
next
  case False
  have "clampBusy s e busy = []"
  proof (rule ccontr)
    assume "clampBusy s e busy \<noteq> []"
    then obtain b where "b \<in> set (clampBusy s e busy)" by fastforce
    from clampBusy_props(2)[OF this] False show False by simp
  qed
  with False show ?thesis by (simp add: subtractBusyFromShift_def)
qed

lemma subtractBusy_shape:
  shows "separated (subtractBusyFromShift s e busy)"
    and "w \<in> set (subtractBusyFromShift s e busy) \<Longrightarrow> proper w \<and> s \<le> wstart w \<and> wend w \<le> e"
proof -
  obtain ws c where sw: "sweepBusy e s (clampBusy s e busy) = (ws, c)" by fastforce
  have sh: "s \<le> c \<and> separated ws \<and> (\<forall>w \<in> set ws. proper w \<and> s \<le> wstart w \<and> wend w < c)"
    by (rule sweepBusy_shape[OF _ sw]) (use clampBusy_props(2) in blast)
  from sh show "separated (subtractBusyFromShift s e busy)"
    by (auto simp: subtractBusyFromShift_def sw separated_def sorted_wrt_append)
  assume w: "w \<in> set (subtractBusyFromShift s e busy)"
  then have p: "proper w \<and> s \<le> wstart w"
    using sh by (auto simp: subtractBusyFromShift_def sw proper_def split: if_splits)
  then have "covers (subtractBusyFromShift s e busy) (wend w - 1)"
    using w by (auto simp: covers_def inWin_def proper_def)
  then show "proper w \<and> s \<le> wstart w \<and> wend w \<le> e"
    using p by (simp add: subtractBusy_covers)
qed

section \<open>Merging touching windows\<close>

fun mergeSweep :: "window \<Rightarrow> window list \<Rightarrow> window list" where
  "mergeSweep cur [] = [cur]"
| "mergeSweep cur (x # xs) =
     (if \<not> wstart x > wend cur
      then mergeSweep (cur\<lparr>wend := max (wend cur) (wend x)\<rparr>) xs
      else cur # mergeSweep x xs)"

definition mergeTouchingWindows :: "window list \<Rightarrow> window list" where
  "mergeTouchingWindows w =
     (if length w \<le> 1 then w
      else (case sort_key wstart w of [] \<Rightarrow> [] | s0 # rest \<Rightarrow> mergeSweep s0 rest))"

lemma mergeSweep_covers:
  assumes "sorted (map wstart (cur # xs))"
  shows "covers (mergeSweep cur xs) t \<longleftrightarrow> covers (cur # xs) t"
  using assms
proof (induction cur xs rule: mergeSweep.induct)
  case (2 cur x xs)
  show ?case
  proof (cases "wstart x > wend cur")
    case True
    with 2 show ?thesis by simp
  next
    case False
    let ?cur = "cur\<lparr>wend := max (wend cur) (wend x)\<rparr>"
    have "covers (mergeSweep ?cur xs) t \<longleftrightarrow> covers (?cur # xs) t"
      using False 2 by simp
    also have "\<dots> \<longleftrightarrow> covers (cur # x # xs) t"
      using False 2(3) by (auto simp: inWin_def)
    finally show ?thesis using False by simp
  qed
qed simp

lemma mergeSweep_shape:
  assumes "sorted (map wstart (cur # xs))"
  shows "separated (mergeSweep cur xs) \<and> (\<forall>w \<in> set (mergeSweep cur xs). wstart cur \<le> wstart w)"
  using assms
proof (induction cur xs rule: mergeSweep.induct)
  case (2 cur x xs)
  show ?case
  proof (cases "wstart x > wend cur")
    case True
    with 2 show ?thesis by (force simp: separated_def)
  next
    case False
    with 2 show ?thesis by simp
  qed
qed (simp add: separated_def)

lemma mergeSweep_proper:
  assumes "\<forall>w \<in> set (cur # xs). proper w" and "w \<in> set (mergeSweep cur xs)"
  shows "proper w"
  using assms
proof (induction cur xs rule: mergeSweep.induct)
  case (2 cur x xs)
  show ?case
  proof (cases "wstart x > wend cur")
    case True
    with 2 show ?thesis by auto
  next
    case False
    then have "w \<in> set (mergeSweep (cur\<lparr>wend := max (wend cur) (wend x)\<rparr>) xs)"
      using 2(4) by simp
    then show ?thesis using 2(1)[OF False] 2(3) by (auto simp: proper_def)
  qed
qed simp

lemma sort_key_nonempty:
  assumes "\<not> length w \<le> 1"
  obtains s0 rest where "sort_key wstart w = s0 # rest"
proof -
  have "sort_key wstart w \<noteq> []" using assms by (metis length_0_conv length_sort zero_le)
  then show ?thesis using that by (meson neq_Nil_conv)
qed

lemma merge_covers: "covers (mergeTouchingWindows w) t \<longleftrightarrow> covers w t"
proof (cases "length w \<le> 1")
  case False
  then obtain s0 rest where s: "sort_key wstart w = s0 # rest" by (rule sort_key_nonempty)
  have "sorted (map wstart (s0 # rest))" using s by (metis sorted_sort_key)
  then have "covers (mergeSweep s0 rest) t \<longleftrightarrow> covers (s0 # rest) t" by (rule mergeSweep_covers)
  also have "\<dots> \<longleftrightarrow> covers w t" using s by (metis covers_set_cong set_sort)
  finally show ?thesis using False s by (simp add: mergeTouchingWindows_def)
qed (simp add: mergeTouchingWindows_def)

lemma merge_separated: "separated (mergeTouchingWindows w)"
proof (cases "length w \<le> 1")
  case True
  then show ?thesis by (cases w) (auto simp: mergeTouchingWindows_def separated_def)
next
  case False
  then obtain s0 rest where s: "sort_key wstart w = s0 # rest" by (rule sort_key_nonempty)
  have "sorted (map wstart (s0 # rest))" using s by (metis sorted_sort_key)
  then show ?thesis using False s mergeSweep_shape by (simp add: mergeTouchingWindows_def)
qed

lemma merge_proper:
  assumes "\<forall>x \<in> set w. proper x" and "x \<in> set (mergeTouchingWindows w)"
  shows "proper x"
proof (cases "length w \<le> 1")
  case False
  then obtain s0 rest where s: "sort_key wstart w = s0 # rest" by (rule sort_key_nonempty)
  have "set (s0 # rest) = set w" using s by (metis set_sort)
  then show ?thesis using assms False s mergeSweep_proper[of s0 rest x]
    by (simp add: mergeTouchingWindows_def)
qed (use assms in \<open>simp add: mergeTouchingWindows_def\<close>)

text \<open>A stretch of time every instant of which is covered by separated windows lies in one of
  them: between two of them there is an instant that none covers.\<close>

lemma separated_connected:
  assumes "separated ws" and "a < b" and "\<And>t. a \<le> t \<Longrightarrow> t < b \<Longrightarrow> covers ws t"
  shows "\<exists>w \<in> set ws. wstart w \<le> a \<and> b \<le> wend w"
  using assms
proof (induction ws)
  case (Cons w ws)
  have sep: "wend w < wstart v" if "v \<in> set ws" for v
    using Cons.prems(1) that by (simp add: separated_def)
  have tl: "separated ws" using Cons.prems(1) by (simp add: separated_def)
  show ?case
  proof (cases "inWin w a")
    case True
    have "b \<le> wend w"
    proof (rule ccontr)
      assume "\<not> b \<le> wend w"
      then have "covers (w # ws) (wend w)"
        using Cons.prems(3)[of "wend w"] True by (simp add: inWin_def)
      then obtain v where "v \<in> set ws" "inWin v (wend w)"
        by (auto simp: inWin_def covers_def)
      with sep show False by (force simp: inWin_def)
    qed
    with True show ?thesis by (auto simp: inWin_def)
  next
    case False
    have "covers ws a" using False Cons.prems(2) Cons.prems(3)[of a] by simp
    then obtain v where v: "v \<in> set ws" "inWin v a" by (auto simp: covers_def)
    have "wend w < a" using sep[OF v(1)] v(2) by (simp add: inWin_def)
    then have "covers ws t" if "a \<le> t" "t < b" for t
      using Cons.prems(3)[OF that] that by (simp add: inWin_def)
    then show ?thesis using Cons.IH[OF tl Cons.prems(2)] by auto
  qed
next
  case Nil
  then show ?case using Nil(3)[of a] by simp
qed

definition fitsWindow :: "window list \<Rightarrow> instant \<Rightarrow> instant \<Rightarrow> bool" where
  "fitsWindow ws a b \<longleftrightarrow> list_ex (\<lambda>w. wstart w \<le> a \<and> b \<le> wend w) ws"

lemma fitsWindow_iff: "fitsWindow ws a b \<longleftrightarrow> (\<exists>w \<in> set ws. wstart w \<le> a \<and> b \<le> wend w)"
  by (simp add: fitsWindow_def list_ex_iff)

lemma fits_merged_iff:
  assumes "a < b"
  shows "fitsWindow (mergeTouchingWindows ws) a b \<longleftrightarrow> (\<forall>t. a \<le> t \<and> t < b \<longrightarrow> covers ws t)"
proof
  assume "fitsWindow (mergeTouchingWindows ws) a b"
  then obtain w where "w \<in> set (mergeTouchingWindows ws)" "wstart w \<le> a" "b \<le> wend w"
    by (auto simp: fitsWindow_iff)
  then have "covers (mergeTouchingWindows ws) t" if "a \<le> t \<and> t < b" for t
    using that by (auto simp: covers_def inWin_def intro!: bexI[of _ w])
  then show "\<forall>t. a \<le> t \<and> t < b \<longrightarrow> covers ws t" by (simp add: merge_covers)
next
  assume "\<forall>t. a \<le> t \<and> t < b \<longrightarrow> covers ws t"
  then show "fitsWindow (mergeTouchingWindows ws) a b"
    unfolding fitsWindow_iff using separated_connected[OF merge_separated assms]
    by (simp add: merge_covers)
qed

section \<open>Properties\<close>

text \<open>Subtracting busy time from a shift leaves exactly the instants of the shift that no
  busy event covers, as separated, non-empty windows inside the shift; an unordered or overlapping
  list of busy events makes no difference.\<close>

theorem subtract_exact:
  "(covers (subtractBusyFromShift s e busy) t \<longleftrightarrow> s \<le> t \<and> t < e \<and> \<not> covers busy t) \<and>
   separated (subtractBusyFromShift s e busy) \<and>
   list_all (\<lambda>w. proper w \<and> s \<le> wstart w \<and> wend w \<le> e) (subtractBusyFromShift s e busy)"
  using subtractBusy_covers subtractBusy_shape by (auto simp: list_all_iff)

text \<open>Merging touching windows keeps the instants covered and leaves windows that neither
  overlap nor touch, so a slot fits in one merged window exactly when every instant of it was covered
  before.\<close>

theorem merge_exact:
  assumes "a < b"
  shows "(covers (mergeTouchingWindows ws) t \<longleftrightarrow> covers ws t) \<and> separated (mergeTouchingWindows ws) \<and>
    (fitsWindow (mergeTouchingWindows ws) a b \<longleftrightarrow> (\<forall>u. a \<le> u \<and> u < b \<longrightarrow> covers ws u))"
  using merge_covers merge_separated fits_merged_iff[OF assms] by blast

theorem merge_exact_witness:
  "fitsWindow (mergeTouchingWindows [win 10 20, win 0 10]) 5 15"
proof -
  have "(5::int) < 15" by simp
  from merge_exact[OF this, of "[win 10 20, win 0 10]" 0]
  show ?thesis by (auto simp: inWin_def)
qed

end
