(* ===== verification/CalSlots.thy ===== *)
theory CalSlots
  imports CalWindows
begin

text \<open>
  The slot grid and the shifts of a day (\<open>availability-special.service.ts\<close>): index ranges,
  alignment to the grid, the configuration of the grid for a day, the choice between temporary,
  worker and business hours, the grouping of events by professional, and the list of slots without
  duplicates.
\<close>

section \<open>Grid arithmetic\<close>

definition minutesFromMidnight :: "tzlib \<Rightarrow> ident \<Rightarrow> instant \<Rightarrow> int" where
  "minutesFromMidnight Z z m = z_hour Z z m * 60 + z_minute Z z m"

definition ceilDiv :: "int \<Rightarrow> int \<Rightarrow> int" where
  "ceilDiv a b = - ((- a) div b)"

lemma ceilDiv_mult: "ceilDiv a b * b = a + (- a) mod b"
  by (simp add: ceilDiv_def minus_mod_eq_mult_div[symmetric] mult.commute)

lemma ceilDiv_bounds: "0 < b \<Longrightarrow> a \<le> ceilDiv a b * b \<and> ceilDiv a b * b < a + b"
  unfolding ceilDiv_mult using pos_mod_sign[of b "- a"] pos_mod_bound[of b "- a"] by simp

lemma ceilDiv_nonneg: "0 < b \<Longrightarrow> 0 \<le> a \<Longrightarrow> 0 \<le> ceilDiv a b"
  using ceilDiv_bounds[of b a] by (smt (verit) mult_neg_pos)

text \<open>Rounding up by the remainder, as the code writes it.\<close>

lemma ceilDiv_by_rem:
  assumes "0 < b"
  shows "a + (if a mod b = 0 then 0 else b - a mod b) = ceilDiv a b * b"
  unfolding ceilDiv_mult using zmod_zminus1_eq_if[of a b] by simp

definition toIdxRange :: "tzlib \<Rightarrow> ident \<Rightarrow> instant \<Rightarrow> instant \<Rightarrow> int \<Rightarrow> int \<times> int" where
  "toIdxRange Z z s e stepMinutes =
     (let sMin = minutesFromMidnight Z z s;
          eMin = minutesFromMidnight Z z e;
          slotsPerDay = ceilDiv (24 * 60) stepMinutes
      in (max 0 (min slotsPerDay (sMin div stepMinutes)),
          max 0 (min slotsPerDay (ceilDiv eMin stepMinutes))))"

lemma toIdxRange_bounds:
  assumes "0 < step" and "toIdxRange Z z s e step = (i, j)"
  shows "0 \<le> i" and "i \<le> ceilDiv 1440 step" and "0 \<le> j" and "j \<le> ceilDiv 1440 step"
  using assms ceilDiv_nonneg[of step 1440] by (auto simp: toIdxRange_def Let_def)

definition alignToGridCeil :: "tzlib \<Rightarrow> ident \<Rightarrow> instant \<Rightarrow> int \<Rightarrow> instant \<Rightarrow> instant" where
  "alignToGridCeil Z z m stepMinutes gridOrigin =
     (let ref = z_floor Z z gridOrigin;
          diffMs = m - ref;
          diffMin = max 0 (diffMs div minute_ms);
          rem = diffMin mod stepMinutes
      in z_floor Z z (addMinutes m (if rem = 0 then 0 else stepMinutes - rem)))"

lemma z_floor_from_aligned:
  assumes "tz_ok Z" and "z_floor Z z g \<le> m"
  shows "z_floor Z z m = addMinutes (z_floor Z z g) ((m - z_floor Z z g) div minute_ms)"
proof (rule tz_floor_unique[OF assms(1), where u = g])
  let ?x = "m - z_floor Z z g"
  have "?x div minute_ms * minute_ms + ?x mod minute_ms = ?x" by simp
  then show "addMinutes (z_floor Z z g) (?x div minute_ms) \<le> m"
    and "m < addMinutes (z_floor Z z g) (?x div minute_ms) + minute_ms"
    using pos_mod_sign[of minute_ms ?x] pos_mod_bound[of minute_ms ?x]
    unfolding addMinutes_def by linarith+
qed (simp add: addMinutes_def)

text \<open>The result is the first grid point that is not before the start of the minute of \<open>m\<close>.\<close>

lemma alignToGridCeil_eq:
  assumes "tz_ok Z" and "0 < step" and "z_floor Z z g \<le> m"
  shows "alignToGridCeil Z z m step g =
    addMinutes (z_floor Z z g) (ceilDiv ((m - z_floor Z z g) div minute_ms) step * step)"
proof -
  let ?d = "(m - z_floor Z z g) div minute_ms"
  have "0 \<le> ?d" using assms(3) by (simp add: pos_imp_zdiv_nonneg_iff)
  then have "alignToGridCeil Z z m step g =
      addMinutes (z_floor Z z m) (if ?d mod step = 0 then 0 else step - ?d mod step)"
    by (simp add: alignToGridCeil_def Let_def tz_floor_add[OF assms(1)])
  also have "\<dots> = addMinutes (z_floor Z z g) (ceilDiv ?d step * step)"
    unfolding z_floor_from_aligned[OF assms(1,3)] addMinutes_simps(2) ceilDiv_by_rem[OF assms(2)] ..
  finally show ?thesis .
qed

section \<open>Configuration of the grid for a day\<close>

record slot_config =
  stepMinutes :: int
  slotsPerDay :: int
  roundedNow :: instant
  isToday :: bool

text \<open>\<open>moment.isSame(other, "day")\<close>\<close>

definition isSameDay :: "tzlib \<Rightarrow> ident \<Rightarrow> instant \<Rightarrow> instant \<Rightarrow> bool" where
  "isSameDay Z z a b \<longleftrightarrow> z_sod Z z a \<le> b \<and> b \<le> z_eod Z z a"

text \<open>\<open>intervalMinutes\<close> is \<open>None\<close> when it is not a finite number; \<open>now\<close> is the clock.\<close>

definition computeSlotConfig :: "tzlib \<Rightarrow> instant \<Rightarrow> int option \<Rightarrow> ident \<Rightarrow> instant \<Rightarrow> slot_config" where
  "computeSlotConfig Z now intervalMinutes timeZoneWorkspace dayStartLocal =
     (let step = (case intervalMinutes of Some n \<Rightarrow> if n > 0 then n else 30 | None \<Rightarrow> 30);
          nowLocal = z_floor Z timeZoneWorkspace now;
          today = isSameDay Z timeZoneWorkspace dayStartLocal nowLocal;
          rem = z_minute Z timeZoneWorkspace nowLocal mod step;
          rounded = (if \<not> today then nowLocal
                     else if rem \<noteq> 0 then addMinutes nowLocal (step - rem) else nowLocal)
      in \<lparr>stepMinutes = step, slotsPerDay = ceilDiv (24 * 60) step,
          roundedNow = rounded, isToday = today\<rparr>)"

lemma computeSlotConfig_step_pos: "0 < stepMinutes (computeSlotConfig Z now i z d)"
  by (auto simp: computeSlotConfig_def Let_def split: option.splits)

lemma computeSlotConfig_rounded:
  fixes Z now i z d
  defines "cfg \<equiv> computeSlotConfig Z now i z d"
  assumes "tz_ok Z"
  shows "z_floor Z z now \<le> roundedNow cfg"
    and "roundedNow cfg < addMinutes (z_floor Z z now) (stepMinutes cfg)"
    and "isToday cfg \<Longrightarrow>
      roundedNow cfg = addMinutes (z_floor Z z now)
        (ceilDiv (z_minute Z z (z_floor Z z now)) (stepMinutes cfg) * stepMinutes cfg
         - z_minute Z z (z_floor Z z now))"
proof -
  let ?m = "z_minute Z z (z_floor Z z now)"
  have pos: "0 < stepMinutes cfg" unfolding cfg_def by (rule computeSlotConfig_step_pos)
  have r: "0 \<le> ?m mod stepMinutes cfg" "?m mod stepMinutes cfg < stepMinutes cfg"
    using pos by simp_all
  have rn: "roundedNow cfg = (if isToday cfg \<and> ?m mod stepMinutes cfg \<noteq> 0
      then addMinutes (z_floor Z z now) (stepMinutes cfg - ?m mod stepMinutes cfg)
      else z_floor Z z now)"
    by (auto simp: cfg_def computeSlotConfig_def Let_def)
  show "z_floor Z z now \<le> roundedNow cfg"
    and "roundedNow cfg < addMinutes (z_floor Z z now) (stepMinutes cfg)"
    unfolding rn using r pos by (auto simp: addMinutes_def order.strict_iff_order)
  show "isToday cfg \<Longrightarrow> roundedNow cfg = addMinutes (z_floor Z z now)
        (ceilDiv ?m (stepMinutes cfg) * stepMinutes cfg - ?m)"
    using ceilDiv_by_rem[OF pos, of ?m] unfolding rn
    by (auto simp: algebra_simps intro!: arg_cong[where f = "addMinutes (z_floor Z z now)"])
qed

section \<open>The list of slots\<close>

record slot =
  startLocalISO :: string
  endLocalISO :: string
  label :: string
  labelParticipant :: "string option"

definition slotKey :: "slot \<Rightarrow> string" where
  "slotKey s = startLocalISO s @ ''|'' @ endLocalISO s"

text \<open>The \<open>Map\<close> keeps the first slot inserted under a key and its values in insertion order.\<close>

fun firstPerKey :: "string list \<Rightarrow> slot list \<Rightarrow> slot list" where
  "firstPerKey seen [] = []"
| "firstPerKey seen (s # ss) =
     (if slotKey s \<in> set seen then firstPerKey seen ss
      else s # firstPerKey (slotKey s # seen) ss)"

definition dedupeAndSortSlots :: "slot list \<Rightarrow> slot list" where
  "dedupeAndSortSlots slots = sort_key startLocalISO (firstPerKey [] slots)"

lemma firstPerKey_keys:
  "distinct (map slotKey (firstPerKey seen ss)) \<and>
   slotKey ` set (firstPerKey seen ss) = slotKey ` set ss - set seen \<and>
   set (firstPerKey seen ss) \<subseteq> set ss"
proof (induction ss arbitrary: seen)
  case (Cons s ss)
  show ?case
  proof (cases "slotKey s \<in> set seen")
    case True
    with Cons[of seen] show ?thesis by auto
  next
    case False
    have "slotKey s \<notin> slotKey ` set (firstPerKey (slotKey s # seen) ss)"
      using Cons[of "slotKey s # seen"] by auto
    with False Cons[of "slotKey s # seen"] show ?thesis by auto
  qed
qed simp

lemma dedupeAndSortSlots_correct:
  "sorted (map startLocalISO (dedupeAndSortSlots ss)) \<and>
   distinct (map slotKey (dedupeAndSortSlots ss)) \<and>
   slotKey ` set (dedupeAndSortSlots ss) = slotKey ` set ss \<and>
   set (dedupeAndSortSlots ss) \<subseteq> set ss"
proof -
  have "distinct (map slotKey (dedupeAndSortSlots ss)) = distinct (map slotKey (firstPerKey [] ss))"
    unfolding dedupeAndSortSlots_def distinct_map by simp
  then show ?thesis using firstPerKey_keys[of "[]" ss] by (simp add: dedupeAndSortSlots_def)
qed

section \<open>Properties\<close>

text \<open>A start is moved to the first multiple of the step, counted from the origin of the
  grid, that is not before its minute: never back, less than one step forward.\<close>

theorem align_least_grid_point:
  assumes "tz_ok Z" and "0 < step" and "z_floor Z z g \<le> m"
  shows "\<exists>k. alignToGridCeil Z z m step g = addMinutes (z_floor Z z g) (k * step) \<and>
     z_floor Z z m \<le> addMinutes (z_floor Z z g) (k * step) \<and>
     addMinutes (z_floor Z z g) (k * step) < addMinutes (z_floor Z z m) step"
proof -
  let ?q = "(m - z_floor Z z g) div minute_ms"
  have "?q \<le> ceilDiv ?q step * step \<and> ceilDiv ?q step * step < ?q + step" by (rule ceilDiv_bounds[OF assms(2)])
  then show ?thesis
    using alignToGridCeil_eq[OF assms] z_floor_from_aligned[OF assms(1,3)]
    by (intro exI[of _ "ceilDiv ?q step"]) simp
qed

theorem align_least_grid_point_witness:
  "\<exists>k. alignToGridCeil utc_tz [] 4000000 15 0 = addMinutes (z_floor utc_tz [] 0) (k * 15) \<and>
     z_floor utc_tz [] 4000000 \<le> addMinutes (z_floor utc_tz [] 0) (k * 15) \<and>
     addMinutes (z_floor utc_tz [] 0) (k * 15) < addMinutes (z_floor utc_tz [] 4000000) 15"
  by (rule align_least_grid_point[OF utc_tz_ok]) (simp_all add: utc_tz_def)

text \<open>The rounded clock of a day is at or after the current minute and less than a step
  after it; on the day itself it is the next minute of the hour's grid.\<close>

theorem slot_config_rounding:
  assumes "tz_ok Z"
  shows "let cfg = computeSlotConfig Z now i z d; m = z_floor Z z now in
    0 < stepMinutes cfg \<and> m \<le> roundedNow cfg \<and> roundedNow cfg < addMinutes m (stepMinutes cfg) \<and>
    (isToday cfg \<longrightarrow> roundedNow cfg = addMinutes m
       (ceilDiv (z_minute Z z m) (stepMinutes cfg) * stepMinutes cfg - z_minute Z z m))"
  unfolding Let_def
  using computeSlotConfig_step_pos computeSlotConfig_rounded[OF assms] by blast

theorem slot_config_rounding_witness:
  "roundedNow (computeSlotConfig utc_tz 4000000 (Some 15) [] 0) = 4500000 \<and>
   4500000 < addMinutes (z_floor utc_tz [] 4000000) 15"
proof -
  have v: "roundedNow (computeSlotConfig utc_tz 4000000 (Some 15) [] 0) = 4500000"
    "stepMinutes (computeSlotConfig utc_tz 4000000 (Some 15) [] 0) = 15" by code_simp+
  from slot_config_rounding[OF utc_tz_ok, of 4000000 "Some 15" "[]" 0]
  show ?thesis unfolding Let_def v by simp
qed

text \<open>The slots returned are sorted by their local start, no two have the same start,
  professional and service, each is one of the slots given, and every combination given remains.\<close>

theorem dedupe_sorted_unique:
  "sorted (map startLocalISO (dedupeAndSortSlots ss)) \<and> distinct (map slotKey (dedupeAndSortSlots ss)) \<and>
   slotKey ` set (dedupeAndSortSlots ss) = slotKey ` set ss \<and> set (dedupeAndSortSlots ss) \<subseteq> set ss"
  by (rule dedupeAndSortSlots_correct)

text \<open>The indices of a range in the grid of the day stay within the day.\<close>

theorem index_range_in_day:
  assumes "0 < step"
  shows "0 \<le> fst (toIdxRange Z z s e step) \<and> fst (toIdxRange Z z s e step) \<le> ceilDiv 1440 step \<and>
    0 \<le> snd (toIdxRange Z z s e step) \<and> snd (toIdxRange Z z s e step) \<le> ceilDiv 1440 step"
  using toIdxRange_bounds[OF assms, of Z z s e] by (metis prod.collapse)

theorem index_range_in_day_witness:
  "snd (toIdxRange utc_tz [] 3600000 7200000 15) \<le> ceilDiv 1440 15 \<and> toIdxRange utc_tz [] 3600000 7200000 15 = (4, 8)"
proof -
  have "(0::int) < 15" by simp
  moreover have "toIdxRange utc_tz [] 3600000 7200000 15 = (4, 8)" by code_simp
  ultimately show ?thesis using index_range_in_day[of 15 utc_tz "[]" 3600000 7200000] by blast
qed

end
