(* ===== verification/CalHours.thy ===== *)
theory CalHours
  imports CalSlots
begin

text \<open>
  Working hours and effective availability. The hours of a weekday (or of a date) are absent, null
  (closed) or a list of \<open>[start, end]\<close> pairs; temporary hours take precedence over the worker's,
  the worker's over the business'. The free windows of a professional are the shifts of the day,
  clamped to the rounded clock when the day is today, minus the busy events, merged.
\<close>

section \<open>Which hours apply\<close>

type_synonym shift_text = "string \<times> string"

datatype day_entry = Undefined | Null | Shifts "shift_text list"

type_synonym business_hours = "string \<Rightarrow> day_entry"  \<comment> \<open>by weekday\<close>
type_synonym worker_hours = "ident \<Rightarrow> string \<Rightarrow> day_entry"  \<comment> \<open>by professional and weekday\<close>
type_synonym temporary_hours = "ident \<Rightarrow> string \<Rightarrow> day_entry"  \<comment> \<open>by professional and date\<close>

definition bizShifts :: "business_hours \<Rightarrow> string \<Rightarrow> shift_text list" where
  "bizShifts businessHours weekDay =
     (case businessHours weekDay of Null \<Rightarrow> [] | Shifts xs \<Rightarrow> xs | Undefined \<Rightarrow> [])"

text \<open>The choice, as the three copies of it in the source make it.\<close>

definition workShifts :: "day_entry \<Rightarrow> day_entry \<Rightarrow> shift_text list \<Rightarrow> shift_text list" where
  "workShifts tmp workerDay biz =
     (if tmp = Null then []
      else case tmp of
        Shifts (x # xs) \<Rightarrow> x # xs
      | _ \<Rightarrow>
         (if workerDay = Null then []
          else case workerDay of Shifts (x # xs) \<Rightarrow> x # xs | _ \<Rightarrow> biz))"

lemma workShifts_cases:
  "workShifts Null w b = []"
  "xs \<noteq> [] \<Longrightarrow> workShifts (Shifts xs) w b = xs"
  "t = Undefined \<or> t = Shifts [] \<Longrightarrow> workShifts t Null b = []"
  "t = Undefined \<or> t = Shifts [] \<Longrightarrow> ys \<noteq> [] \<Longrightarrow> workShifts t (Shifts ys) b = ys"
  "t = Undefined \<or> t = Shifts [] \<Longrightarrow> w = Undefined \<or> w = Shifts [] \<Longrightarrow> workShifts t w b = b"
  by (auto simp: workShifts_def neq_Nil_conv)

text \<open>A shift whose times do not parse has an invalid moment, here \<open>None\<close>.\<close>

type_synonym raw_shift = "instant option \<times> instant option"

definition parseShift :: "tzlib \<Rightarrow> ident \<Rightarrow> string \<Rightarrow> shift_text \<Rightarrow> raw_shift" where
  "parseShift Z timeZone date se =
     (z_parse Z (date @ ''T'' @ fst se) timeZone, z_parse Z (date @ ''T'' @ snd se) timeZone)"

definition shiftsOfUser ::
  "tzlib \<Rightarrow> ident \<Rightarrow> string \<Rightarrow> string \<Rightarrow> business_hours \<Rightarrow> worker_hours \<Rightarrow> temporary_hours \<Rightarrow> bool
   \<Rightarrow> ident \<Rightarrow> raw_shift list" where
  "shiftsOfUser Z timeZone date weekDay businessHours workerHours temporaryHours useBizFallback uid =
     map (parseShift Z timeZone date)
       (workShifts (temporaryHours uid date) (workerHours uid weekDay)
         (if useBizFallback then bizShifts businessHours weekDay else []))"

definition buildShiftsByUser ::
  "tzlib \<Rightarrow> ident list \<Rightarrow> string \<Rightarrow> ident \<Rightarrow> string \<Rightarrow> business_hours \<Rightarrow> worker_hours
   \<Rightarrow> temporary_hours \<Rightarrow> bool option \<Rightarrow> (ident \<rightharpoonup> raw_shift list)" where
  "buildShiftsByUser Z userIds date timeZone weekDay businessHours workerHours temporaryHours useBizFallback =
     map_of (map (\<lambda>uid. (uid, shiftsOfUser Z timeZone date weekDay businessHours workerHours
       temporaryHours (orElse useBizFallback True) uid)) userIds)"

lemma map_of_self:
  "map_of (map (\<lambda>u. (u, f u)) us) u = (if u \<in> set us then Some (f u) else None)"
  by (induction us) auto

lemma buildShiftsByUser_lookup:
  "buildShiftsByUser Z us date tz wd bh wh th fb u =
     (if u \<in> set us then Some (shiftsOfUser Z tz date wd bh wh th (orElse fb True) u) else None)"
  by (simp add: buildShiftsByUser_def map_of_self)

section \<open>Busy time by professional\<close>

record busy_event =
  be_id :: ident
  be_user :: ident
  be_start :: instant
  be_end :: instant

fun groupEventsByUser :: "(ident \<rightharpoonup> busy_event list) \<Rightarrow> busy_event list \<Rightarrow> (ident \<rightharpoonup> busy_event list)" where
  "groupEventsByUser m [] = m"
| "groupEventsByUser m (ev # evs) =
     groupEventsByUser (m(be_user ev \<mapsto> orElse (m (be_user ev)) [] @ [ev])) evs"

lemma groupEventsByUser_orElse:
  "orElse (groupEventsByUser m evs u) [] = orElse (m u) [] @ filter (\<lambda>e. be_user e = u) evs"
  by (induction evs arbitrary: m) auto

definition busyOfUser :: "(ident \<rightharpoonup> busy_event list) \<Rightarrow> ident \<Rightarrow> window list" where
  "busyOfUser eventsByUser uid =
     map (\<lambda>e. win (be_start e) (be_end e)) (orElse (eventsByUser uid) [])"

section \<open>Free windows of a professional\<close>

text \<open>One shift: the clamp to the rounded clock, the \<open>continue\<close> for an empty or invalid shift, and
  the subtraction.\<close>

definition freeOfShift :: "bool \<Rightarrow> instant \<Rightarrow> window list \<Rightarrow> raw_shift \<Rightarrow> window list" where
  "freeOfShift today rounded busy shift =
     (case shift of
        (Some s, Some e) \<Rightarrow>
          (let startClamped = (if today then max s rounded else s)
           in if \<not> startClamped < e then [] else subtractBusyFromShift startClamped e busy)
      | _ \<Rightarrow> [])"

definition freeWindows :: "bool \<Rightarrow> instant \<Rightarrow> raw_shift list \<Rightarrow> window list \<Rightarrow> window list" where
  "freeWindows today rounded shifts busy =
     mergeTouchingWindows (concat (map (freeOfShift today rounded busy) shifts))"

text \<open>The instants a shift offers.\<close>

definition shiftOffers :: "bool \<Rightarrow> instant \<Rightarrow> raw_shift \<Rightarrow> instant \<Rightarrow> bool" where
  "shiftOffers today rounded shift t \<longleftrightarrow>
     (\<exists>s e. shift = (Some s, Some e) \<and> s \<le> t \<and> t < e \<and> (today \<longrightarrow> rounded \<le> t))"

lemma freeOfShift_covers:
  "covers (freeOfShift today rounded busy shift) t \<longleftrightarrow>
     shiftOffers today rounded shift t \<and> \<not> covers busy t"
  by (cases shift)
    (auto simp: freeOfShift_def shiftOffers_def Let_def subtractBusy_covers split: option.splits)

lemma freeWindows_covers:
  "covers (freeWindows today rounded shifts busy) t \<longleftrightarrow>
     (\<exists>shift \<in> set shifts. shiftOffers today rounded shift t) \<and> \<not> covers busy t"
  unfolding freeWindows_def merge_covers covers_concat by (auto simp: freeOfShift_covers)

lemma freeWindows_separated: "separated (freeWindows today rounded shifts busy)"
  unfolding freeWindows_def by (rule merge_separated)

lemma freeWindows_proper: "w \<in> set (freeWindows today rounded shifts busy) \<Longrightarrow> proper w"
  unfolding freeWindows_def
  by (erule merge_proper[rotated])
    (auto simp: freeOfShift_def Let_def dest: subtractBusy_shape(2)
      split: option.splits prod.splits if_splits)

lemma freeWindows_fits:
  assumes "a < b"
  shows "fitsWindow (freeWindows today rounded shifts busy) a b \<longleftrightarrow>
     (\<forall>t. a \<le> t \<and> t < b \<longrightarrow>
        (\<exists>shift \<in> set shifts. shiftOffers today rounded shift t) \<and> \<not> covers busy t)"
  unfolding freeWindows_def fits_merged_iff[OF assms] covers_concat
  by (auto simp: freeOfShift_covers)

text \<open>A slot that fits overlaps no busy event.\<close>

lemma freeWindows_no_overlap:
  assumes "a < b" and "fitsWindow (freeWindows today rounded shifts busy) a b"
    and "v \<in> set busy" and "proper v"
  shows "\<not> (wstart v < b \<and> a < wend v)"
proof
  assume ov: "wstart v < b \<and> a < wend v"
  let ?t = "max a (wstart v)"
  have "covers busy ?t" using ov assms(3,4)
    by (auto simp: covers_def inWin_def proper_def intro!: bexI[of _ v])
  moreover have "a \<le> ?t" "?t < b" using ov assms(1) by auto
  ultimately show False using assms(2) unfolding freeWindows_fits[OF assms(1)] by blast
qed

section \<open>Properties\<close>

text \<open>C13: a slot fits in the free windows of a professional exactly when each of its instants
  lies in a shift of the day (after the rounded clock, on the current day) and no busy event covers
  it.\<close>

theorem free_windows_exact:
  assumes "a < b"
  shows "fitsWindow (freeWindows today rounded shifts busy) a b \<longleftrightarrow>
     (\<forall>t. a \<le> t \<and> t < b \<longrightarrow>
        (\<exists>shift \<in> set shifts. shiftOffers today rounded shift t) \<and> \<not> covers busy t)"
  by (rule freeWindows_fits[OF assms])

theorem free_windows_exact_witness:
  "fitsWindow (freeWindows True 5 [(Some 0, Some 10), (Some 10, Some 30)] [win 20 25]) 6 20 \<and>
   \<not> fitsWindow (freeWindows True 5 [(Some 0, Some 10), (Some 10, Some 30)] [win 20 25]) 4 20"
proof
  have "(6::int) < 20" by simp
  from free_windows_exact[OF this, of True 5 "[(Some 0, Some 10), (Some 10, Some 30)]" "[win 20 25]"]
  show "fitsWindow (freeWindows True 5 [(Some 0, Some 10), (Some 10, Some 30)] [win 20 25]) 6 20"
    by (auto simp: shiftOffers_def inWin_def)
  have "(4::int) < 20" by simp
  from free_windows_exact[OF this, of True 5 "[(Some 0, Some 10), (Some 10, Some 30)]" "[win 20 25]"]
  show "\<not> fitsWindow (freeWindows True 5 [(Some 0, Some 10), (Some 10, Some 30)] [win 20 25]) 4 20"
    by (auto simp: shiftOffers_def intro!: exI[of _ 4])
qed

text \<open>Temporary hours of the date decide when they are there (null closes the day), then the
  professional's of the weekday (null closes it), then the business'.\<close>

theorem hours_precedence:
  "workShifts tmp worker biz =
     (case tmp of Null \<Rightarrow> [] | Shifts (x # xs) \<Rightarrow> x # xs
      | _ \<Rightarrow> (case worker of Null \<Rightarrow> [] | Shifts (y # ys) \<Rightarrow> y # ys | _ \<Rightarrow> biz))"
  by (auto simp: workShifts_def split: day_entry.splits list.splits)

end
