(* ===== verification/CalAssign.thy ===== *)
theory CalAssign
  imports CalHours
begin

text \<open>
  The backtracking assignment of consecutive services to professionals
  (\<open>assignSequentially_SPECIAL\<close>). The two arrays the recursion pushes to and pops from are part of
  the result. The search is sound (what it leaves in the arrays is a valid plan), restores the
  arrays when it fails, and is complete: from empty arrays it succeeds exactly when every
  segment has an eligible professional with a window for it.
\<close>

record attendee =
  at_service :: ident
  at_duration :: int
  at_staff :: "ident option"
  at_category :: "ident option"

record segment =
  sg_service :: ident
  sg_user :: ident
  sg_start :: instant
  sg_end :: instant

record used_slot =
  us_user :: ident
  us_start :: instant
  us_end :: instant

definition windowContains :: "tzlib \<Rightarrow> ident \<Rightarrow> window \<Rightarrow> instant \<Rightarrow> instant \<Rightarrow> bool" where
  "windowContains Z z w t0 t1 \<longleftrightarrow>
     z_floor Z z t0 \<ge> z_floor Z z (wstart w) \<and> z_floor Z z t1 \<le> z_floor Z z (wend w)"

text \<open>What does not change during the search.\<close>

record assign_ctx =
  ac_start :: instant
  ac_eligible :: "ident \<rightharpoonup> ident list"
  ac_windows :: "ident \<rightharpoonup> window list"

definition sumDurations :: "attendee list \<Rightarrow> int" where
  "sumDurations as = sum_list (map at_duration as)"

lemma sumDurations_simps [simp]:
  "sumDurations [] = 0"
  "sumDurations (a # as) = at_duration a + sumDurations as"
  "sumDurations (as @ bs) = sumDurations as + sumDurations bs"
  by (simp_all add: sumDurations_def)

definition fitsUser :: "tzlib \<Rightarrow> ident \<Rightarrow> assign_ctx \<Rightarrow> ident \<Rightarrow> instant \<Rightarrow> instant \<Rightarrow> bool" where
  "fitsUser Z z ctx uid s e \<longleftrightarrow> list_ex (\<lambda>w. windowContains Z z w s e) (orElse (ac_windows ctx uid) [])"

definition conflictsUsed :: "used_slot list \<Rightarrow> ident \<Rightarrow> instant \<Rightarrow> instant \<Rightarrow> bool" where
  "conflictsUsed used uid s e \<longleftrightarrow> list_ex (\<lambda>u. us_user u = uid \<and> s < us_end u \<and> e > us_start u) used"

text \<open>\<open>idx\<close> is the length of \<open>done\<close>; the attendees are \<open>done @ rest\<close>. \<open>tryUsers\<close> is the loop over
  the candidates of the service at \<open>idx\<close>.\<close>

function (sequential)
  assignSeq :: "tzlib \<Rightarrow> ident \<Rightarrow> assign_ctx \<Rightarrow> attendee list \<Rightarrow> attendee list \<Rightarrow> used_slot list
    \<Rightarrow> segment list \<Rightarrow> bool \<times> used_slot list \<times> segment list"
  and tryUsers :: "tzlib \<Rightarrow> ident \<Rightarrow> assign_ctx \<Rightarrow> attendee list \<Rightarrow> attendee \<Rightarrow> attendee list \<Rightarrow> ident list
    \<Rightarrow> used_slot list \<Rightarrow> segment list \<Rightarrow> bool \<times> used_slot list \<times> segment list"
where
  "assignSeq Z z ctx done [] used asg = (True, used, asg)"
| "assignSeq Z z ctx done (a # rest) used asg =
     (let candidates = orElse (ac_eligible ctx (at_service a)) []
      in if candidates = [] then (False, used, asg)
         else tryUsers Z z ctx done a rest candidates used asg)"
| "tryUsers Z z ctx done a rest [] used asg = (False, used, asg)"
| "tryUsers Z z ctx done a rest (uid # uids) used asg =
     (let segStart = addMinutes (ac_start ctx) (sumDurations done);
          segEnd = addMinutes segStart (at_duration a)
      in if \<not> fitsUser Z z ctx uid segStart segEnd then tryUsers Z z ctx done a rest uids used asg
         else if conflictsUsed used uid segStart segEnd
              then tryUsers Z z ctx done a rest uids used asg
         else
           (case assignSeq Z z ctx (done @ [a]) rest
                   (used @ [\<lparr>us_user = uid, us_start = segStart, us_end = segEnd\<rparr>])
                   (asg @ [\<lparr>sg_service = at_service a, sg_user = uid, sg_start = segStart,
                            sg_end = segEnd\<rparr>]) of
              (ok, used', asg') \<Rightarrow>
                if ok then (True, used', asg')
                else tryUsers Z z ctx done a rest uids (butlast used') (butlast asg')))"
  by pat_completeness auto
termination
  by (relation "measures
      [\<lambda>x. case x of Inl (_, _, _, _, rest, _, _) \<Rightarrow> 2 * length rest
                   | Inr (_, _, _, _, _, rest, _, _, _) \<Rightarrow> 2 * length rest + 1,
       \<lambda>x. case x of Inl _ \<Rightarrow> 0 | Inr (_, _, _, _, _, _, uids, _, _) \<Rightarrow> length uids]") auto

text \<open>A failed search leaves the arrays as they were.\<close>

lemma assignSeq_restores:
  "assignSeq Z z ctx done rest used asg = (False, used', asg') \<Longrightarrow> used' = used \<and> asg' = asg"
  "tryUsers Z z ctx done a rest uids used asg = (False, used', asg') \<Longrightarrow> used' = used \<and> asg' = asg"
proof (induction Z z ctx "done" rest used asg and Z z ctx "done" a rest uids used asg
    arbitrary: used' asg' and used' asg' rule: assignSeq_tryUsers.induct)
  case (4 Z z ctx "done" a rest uid uids used asg)
  show ?case using 4 by (fastforce simp: Let_def split: if_splits prod.splits)
qed (auto simp: Let_def split: if_splits)

text \<open>A plan: the segments of the attendees, back to back, each with an eligible professional who
  has a window for it.\<close>

fun planFrom :: "tzlib \<Rightarrow> ident \<Rightarrow> assign_ctx \<Rightarrow> instant \<Rightarrow> attendee list \<Rightarrow> segment list \<Rightarrow> bool" where
  "planFrom Z z ctx t [] segs \<longleftrightarrow> segs = []"
| "planFrom Z z ctx t (a # as) [] \<longleftrightarrow> False"
| "planFrom Z z ctx t (a # as) (sg # rest) \<longleftrightarrow>
     sg_service sg = at_service a \<and> sg_start sg = t \<and> sg_end sg = addMinutes t (at_duration a)
     \<and> sg_user sg \<in> set (orElse (ac_eligible ctx (at_service a)) [])
     \<and> fitsUser Z z ctx (sg_user sg) t (addMinutes t (at_duration a))
     \<and> planFrom Z z ctx (addMinutes t (at_duration a)) as rest"

lemma planFrom_Cons_E:
  assumes "planFrom Z z ctx t (a # as) segs"
  obtains sg rest where "segs = sg # rest"
    "sg_user sg \<in> set (orElse (ac_eligible ctx (at_service a)) [])"
    "fitsUser Z z ctx (sg_user sg) t (addMinutes t (at_duration a))"
    "planFrom Z z ctx (addMinutes t (at_duration a)) as rest"
  using assms by (cases segs) auto

lemma assignSeq_sound:
  "assignSeq Z z ctx done rest used asg = (True, used', asg') \<Longrightarrow>
     \<exists>segs. asg' = asg @ segs \<and>
       used' = used @ map (\<lambda>s. \<lparr>us_user = sg_user s, us_start = sg_start s, us_end = sg_end s\<rparr>) segs \<and>
       planFrom Z z ctx (addMinutes (ac_start ctx) (sumDurations done)) rest segs"
  "tryUsers Z z ctx done a rest uids used asg = (True, used', asg') \<Longrightarrow>
     set uids \<subseteq> set (orElse (ac_eligible ctx (at_service a)) []) \<Longrightarrow>
     \<exists>segs. asg' = asg @ segs \<and>
       used' = used @ map (\<lambda>s. \<lparr>us_user = sg_user s, us_start = sg_start s, us_end = sg_end s\<rparr>) segs \<and>
       planFrom Z z ctx (addMinutes (ac_start ctx) (sumDurations done)) (a # rest) segs"
proof (induction Z z ctx "done" rest used asg and Z z ctx "done" a rest uids used asg
    arbitrary: used' asg' and used' asg' rule: assignSeq_tryUsers.induct)
  case (2 Z z ctx "done" a rest used asg)
  then show ?case by (auto simp: Let_def split: if_splits)
next
  case (4 Z z ctx "done" a rest uid uids used asg)
  let ?s = "addMinutes (ac_start ctx) (sumDurations done)"
  let ?e = "addMinutes ?s (at_duration a)"
  let ?u = "\<lparr>us_user = uid, us_start = ?s, us_end = ?e\<rparr>"
  let ?g = "\<lparr>sg_service = at_service a, sg_user = uid, sg_start = ?s, sg_end = ?e\<rparr>"
  show ?case
  proof (cases "fitsUser Z z ctx uid ?s ?e \<and> \<not> conflictsUsed used uid ?s ?e")
    case False
    then have "tryUsers Z z ctx done a rest uids used asg = (True, used', asg')"
      using 4(5) by (auto simp: Let_def split: if_splits)
    then show ?thesis
      using 4(1,2)[OF refl refl] 4(6) False by (cases "fitsUser Z z ctx uid ?s ?e") auto
  next
    case True
    obtain ok u' a' where rec:
      "assignSeq Z z ctx (done @ [a]) rest (used @ [?u]) (asg @ [?g]) = (ok, u', a')"
      by (metis prod_cases3)
    note fit = True
    show ?thesis
    proof (cases ok)
      case True
      have rec': "assignSeq Z z ctx (done @ [a]) rest (used @ [?u]) (asg @ [?g]) = (True, u', a')"
        using rec True by simp
      from True have res: "used' = u'" "asg' = a'"
        using 4(5) rec fit by (auto simp: Let_def)
      obtain segs where segs: "a' = (asg @ [?g]) @ segs"
        "u' = (used @ [?u]) @ map (\<lambda>s. \<lparr>us_user = sg_user s, us_start = sg_start s, us_end = sg_end s\<rparr>) segs"
        "planFrom Z z ctx (addMinutes (ac_start ctx) (sumDurations (done @ [a]))) rest segs"
        using 4(3)[OF refl refl _ _ rec'] fit by blast
      show ?thesis
        by (rule exI[of _ "?g # segs"])
          (use segs res 4(6) fit in auto)
    next
      case False
      then have "assignSeq Z z ctx (done @ [a]) rest (used @ [?u]) (asg @ [?g]) = (False, u', a')"
        using rec by simp
      then have "u' = used @ [?u] \<and> a' = asg @ [?g]"
        by (rule assignSeq_restores(1))
      then have "tryUsers Z z ctx done a rest uids used asg = (True, used', asg')"
        using 4(5) rec fit False by (auto simp: Let_def)
      moreover have "\<not> ok" by (rule False)
      ultimately show ?thesis
        using 4(4)[OF refl refl _ _ rec[symmetric]] 4(6) fit
          \<open>u' = used @ [?u] \<and> a' = asg @ [?g]\<close> by simp
    qed
  qed
qed auto

text \<open>With non-negative durations nothing used so far reaches into the next segment, so the
  conflict test never fires and the first professional that fits can be kept.\<close>

lemma no_conflict_after:
  assumes "\<forall>u \<in> set used. us_end u \<le> s"
  shows "\<not> conflictsUsed used uid s e"
  using assms by (auto simp: conflictsUsed_def list_ex_iff)

lemma assignSeq_complete:
  "\<forall>a \<in> set rest. 0 \<le> at_duration a \<Longrightarrow>
   \<forall>u \<in> set used. us_end u \<le> addMinutes (ac_start ctx) (sumDurations done) \<Longrightarrow>
   \<exists>segs. planFrom Z z ctx (addMinutes (ac_start ctx) (sumDurations done)) rest segs \<Longrightarrow>
   fst (assignSeq Z z ctx done rest used asg)"
  "\<forall>a' \<in> set (a # rest). 0 \<le> at_duration a' \<Longrightarrow>
   \<forall>u \<in> set used. us_end u \<le> addMinutes (ac_start ctx) (sumDurations done) \<Longrightarrow>
   \<exists>uid \<in> set uids. fitsUser Z z ctx uid (addMinutes (ac_start ctx) (sumDurations done))
      (addMinutes (addMinutes (ac_start ctx) (sumDurations done)) (at_duration a)) \<Longrightarrow>
   \<exists>segs. planFrom Z z ctx (addMinutes (ac_start ctx) (sumDurations (done @ [a]))) rest segs \<Longrightarrow>
   fst (tryUsers Z z ctx done a rest uids used asg)"
proof (induction Z z ctx "done" rest used asg and Z z ctx "done" a rest uids used asg
    rule: assignSeq_tryUsers.induct)
  case (2 Z z ctx "done" a rest used asg)
  from 2(4) obtain sg :: segment and segs where
    el: "sg_user sg \<in> set (orElse (ac_eligible ctx (at_service a)) [])" and
    ft: "fitsUser Z z ctx (sg_user sg) (addMinutes (ac_start ctx) (sumDurations done))
      (addMinutes (addMinutes (ac_start ctx) (sumDurations done)) (at_duration a))" and
    pl: "planFrom Z z ctx (addMinutes (addMinutes (ac_start ctx) (sumDurations done)) (at_duration a)) rest segs"
    by (elim exE planFrom_Cons_E) blast
  have ne: "orElse (ac_eligible ctx (at_service a)) [] \<noteq> []" using el by auto
  have "fst (tryUsers Z z ctx done a rest (orElse (ac_eligible ctx (at_service a)) []) used asg)"
    by (rule 2(1)[OF refl ne]) (use 2 el ft pl in \<open>auto\<close>)
  with ne show ?case by simp
next
  case (4 Z z ctx "done" a rest uid uids used asg)
  let ?s = "addMinutes (ac_start ctx) (sumDurations done)"
  let ?e = "addMinutes ?s (at_duration a)"
  show ?case
  proof (cases "fitsUser Z z ctx uid ?s ?e")
    case False
    have "fst (tryUsers Z z ctx done a rest uids used asg)"
      by (rule 4(1)[OF refl refl]) (use False 4 in auto)
    with False show ?thesis by (simp add: Let_def)
  next
    case True
    have nc: "\<not> conflictsUsed used uid ?s ?e" by (rule no_conflict_after) (rule 4(6))
    have mono: "?s \<le> ?e" using 4(5) by (intro addMinutes_ge) simp
    have e: "?e = addMinutes (ac_start ctx) (sumDurations (done @ [a]))" by simp
    have used': "\<forall>u \<in> set (used @ [\<lparr>us_user = uid, us_start = ?s, us_end = ?e\<rparr>]).
        us_end u \<le> addMinutes (ac_start ctx) (sumDurations (done @ [a]))"
    proof
      fix u assume u: "u \<in> set (used @ [\<lparr>us_user = uid, us_start = ?s, us_end = ?e\<rparr>])"
      show "us_end u \<le> addMinutes (ac_start ctx) (sumDurations (done @ [a]))"
      proof (cases "u \<in> set used")
        case True
        then have "us_end u \<le> ?s" using 4(6) by blast
        with mono show ?thesis by (simp only: e)
      qed (use u in simp)
    qed
    have dur: "\<forall>a \<in> set rest. 0 \<le> at_duration a" using 4(5) by simp
    have nn: "\<not> \<not> fitsUser Z z ctx uid ?s ?e" using True by simp
    have "fst (assignSeq Z z ctx (done @ [a]) rest
        (used @ [\<lparr>us_user = uid, us_start = ?s, us_end = ?e\<rparr>])
        (asg @ [\<lparr>sg_service = at_service a, sg_user = uid, sg_start = ?s, sg_end = ?e\<rparr>]))"
      by (rule 4(3)[OF refl refl nn nc dur used' 4(8)])
    then show ?thesis using True nc by (auto simp: Let_def split: prod.splits)
  qed
qed auto

section \<open>Properties\<close>

text \<open>C14: started from empty arrays, the backtracking search succeeds exactly when the services
  can be given back to back to eligible professionals with a window for each, and what it returns is
  such a plan.\<close>

theorem assign_sound_complete:
  assumes "\<forall>a \<in> set as. 0 \<le> at_duration a"
  shows "case assignSeq Z z ctx [] as [] [] of (ok, used, segs) \<Rightarrow>
     (ok \<longleftrightarrow> (\<exists>plan. planFrom Z z ctx (ac_start ctx) as plan)) \<and>
     (if ok then planFrom Z z ctx (ac_start ctx) as segs else segs = [])"
proof -
  obtain ok used segs where r: "assignSeq Z z ctx [] as [] [] = (ok, used, segs)"
    by (cases "assignSeq Z z ctx [] as [] []") auto
  have complete: "(\<exists>plan. planFrom Z z ctx (ac_start ctx) as plan) \<Longrightarrow> ok"
    using assignSeq_complete(1)[OF assms, of "[]" ctx "[]" Z z "[]"] r by simp
  show ?thesis
  proof (cases ok)
    case True
    then show ?thesis using assignSeq_sound(1)[of Z z ctx "[]" as "[]" "[]" used segs] r by auto
  next
    case False
    then show ?thesis using assignSeq_restores(1)[of Z z ctx "[]" as "[]" "[]" used segs] r complete by auto
  qed
qed

theorem assign_sound_complete_witness:
  "\<exists>plan. planFrom utc_tz [] \<lparr>ac_start = 0, ac_eligible = [''cut'' \<mapsto> [''ana'', ''bea'']],
       ac_windows = [''ana'' \<mapsto> [win 0 1800000], ''bea'' \<mapsto> [win 0 3600000]]\<rparr> 0
     [\<lparr>at_service = ''cut'', at_duration = 60, at_staff = None, at_category = None\<rparr>] plan"
proof -
  let ?as = "[\<lparr>at_service = ''cut'', at_duration = 60, at_staff = None, at_category = None\<rparr>]"
  let ?ctx = "\<lparr>ac_start = 0, ac_eligible = [''cut'' \<mapsto> [''ana'', ''bea'']],
       ac_windows = [''ana'' \<mapsto> [win 0 1800000], ''bea'' \<mapsto> [win 0 3600000]]\<rparr>"
  have "fst (assignSeq utc_tz [] ?ctx [] ?as [] [])" by code_simp
  then show ?thesis
    using assign_sound_complete[of ?as utc_tz "[]" ?ctx] by (auto split: prod.splits)
qed

end
