(* ===== verification/CalRoundRobin.thy ===== *)
theory CalRoundRobin
  imports CalPrelude CalTime
begin

text \<open>
  Round robin (\<open>roundRobin/round-robin.strategy.ts\<close>) over the cache service
  (\<open>redis.service.ts\<close>): the keys, the persisted state of the smooth weighted algorithm, the pick,
  the holds on a time range, and \<open>chooseStaffWithRR\<close> of the two write services. The store is a
  map from keys to values with an expiry; a disabled service answers null and stores nothing.
  Weights and accumulators are rationals, so rounding of doubles is not modelled.
\<close>

section \<open>The cache service\<close>

record rr_entry =
  rr_weight :: rat
  rr_current :: rat

type_synonym rr_state = "ident \<rightharpoonup> rr_entry"

text \<open>What a key holds: a text, or the serialised round-robin state (\<open>JSON.parse\<close> inverts
  \<open>JSON.stringify\<close> on it).\<close>

datatype redis_val = RText string | RState rr_state

text \<open>A falsy text: the empty one.\<close>

definition isEmptyText :: "redis_val \<Rightarrow> bool" where
  "isEmptyText v = (case v of RText s \<Rightarrow> s = [] | RState _ \<Rightarrow> False)"

lemma isEmptyText_iff [simp]: "isEmptyText v \<longleftrightarrow> v = RText []"
  by (cases v) (simp_all add: isEmptyText_def)

record redis =
  rd_enabled :: bool
  rd_store :: "string \<rightharpoonup> (redis_val \<times> instant option)"

definition redisGet :: "instant \<Rightarrow> string \<Rightarrow> redis \<Rightarrow> redis_val option" where
  "redisGet now key r =
     (if \<not> rd_enabled r then None
      else case rd_store r key of
        None \<Rightarrow> None
      | Some (v, None) \<Rightarrow> Some v
      | Some (v, Some expires) \<Rightarrow> if now < expires then Some v else None)"

definition redisSet :: "instant \<Rightarrow> string \<Rightarrow> redis_val \<Rightarrow> int option \<Rightarrow> redis \<Rightarrow> redis" where
  "redisSet now key v ttl r =
     (if \<not> rd_enabled r then r
      else r\<lparr>rd_store := (rd_store r)(key \<mapsto>
        (v, case ttl of None \<Rightarrow> None | Some n \<Rightarrow> if n = 0 then None else Some (now + n * 1000)))\<rparr>)"

definition redisSetIfNotExists :: "instant \<Rightarrow> string \<Rightarrow> redis_val \<Rightarrow> int \<Rightarrow> redis \<Rightarrow> bool \<times> redis" where
  "redisSetIfNotExists now key v ttl r =
     (if \<not> rd_enabled r then (True, r)
      else if \<not> Option.is_none (redisGet now key r) then (False, r)
      else (True, r\<lparr>rd_store := (rd_store r)(key \<mapsto> (v, Some (now + ttl * 1000)))\<rparr>))"

definition redisDelete :: "string \<Rightarrow> redis \<Rightarrow> redis" where
  "redisDelete key r = (if \<not> rd_enabled r then r else r\<lparr>rd_store := (rd_store r)(key := None)\<rparr>)"

lemma redisGet_set:
  "rd_enabled r \<Longrightarrow> redisGet now' k (redisSet now key v ttl r) =
     (if k = key
      then (case ttl of None \<Rightarrow> Some v
            | Some n \<Rightarrow> if n = 0 \<or> now' < now + n * 1000 then Some v else None)
      else redisGet now' k r)"
  by (auto simp: redisGet_def redisSet_def split: option.splits)

lemma redisGet_delete:
  "redisGet now k (redisDelete key r) = (if k = key then None else redisGet now k r)"
  by (auto simp: redisGet_def redisDelete_def split: option.splits)

section \<open>Keys\<close>

definition rrStateKey :: "ident \<Rightarrow> ident \<Rightarrow> string" where
  "rrStateKey ws svc = ''rr:'' @ ws @ '':'' @ svc"

definition rrHoldKey :: "ident \<Rightarrow> ident \<Rightarrow> string \<Rightarrow> string \<Rightarrow> string" where
  "rrHoldKey ws svc s e = ''hold:'' @ ws @ '':'' @ svc @ '':'' @ s @ '':'' @ e"

text \<open>Identifiers without a colon can be read back from a key.\<close>

lemma colon_split:
  fixes x y :: string
  assumes "CHR '':'' \<notin> set x" and "CHR '':'' \<notin> set y" and "x @ '':'' @ u = y @ '':'' @ v"
  shows "x = y \<and> u = v"
  using assms
proof (induction x arbitrary: y)
  case Nil
  then show ?case by (cases y) auto
next
  case (Cons c x)
  then show ?case by (cases y) auto
qed

lemma rrHoldKey_inject:
  assumes "CHR '':'' \<notin> set ws" "CHR '':'' \<notin> set ws'" "CHR '':'' \<notin> set svc" "CHR '':'' \<notin> set svc'"
    and "length s = length s'" and "rrHoldKey ws svc s e = rrHoldKey ws' svc' s' e'"
  shows "ws = ws' \<and> svc = svc' \<and> s = s' \<and> e = e'"
proof -
  have "ws @ '':'' @ (svc @ '':'' @ s @ '':'' @ e) = ws' @ '':'' @ (svc' @ '':'' @ s' @ '':'' @ e')"
    using assms(6) by (simp add: rrHoldKey_def)
  from colon_split[OF assms(1,2) this] have ws: "ws = ws'"
    and "svc @ '':'' @ (s @ '':'' @ e) = svc' @ '':'' @ (s' @ '':'' @ e')" by simp_all
  from colon_split[OF assms(3,4) this(2)] have "svc = svc'"
    and "s @ '':'' @ e = s' @ '':'' @ e'" by simp_all
  with ws assms(5) show ?thesis by simp
qed

section \<open>The persisted state\<close>

definition getState :: "instant \<Rightarrow> ident \<Rightarrow> ident \<Rightarrow> redis \<Rightarrow> rr_state" where
  "getState now ws svc r =
     (case redisGet now (rrStateKey ws svc) r of
        Some (RState st) \<Rightarrow> st
      | _ \<Rightarrow> Map.empty)"

definition saveState :: "instant \<Rightarrow> string \<Rightarrow> rr_state \<Rightarrow> int option \<Rightarrow> redis \<Rightarrow> redis" where
  "saveState now key st ttlSec r =
     (case ttlSec of
        Some n \<Rightarrow> if n > 0 then redisSet now key (RState st) (Some n) r
                  else redisSet now key (RState st) None r
      | None \<Rightarrow> redisSet now key (RState st) None r)"

definition resetState :: "ident \<Rightarrow> ident \<Rightarrow> redis \<Rightarrow> redis" where
  "resetState ws svc r = redisDelete (rrStateKey ws svc) r"

section \<open>Weighted smooth round robin\<close>

text \<open>A weight that is missing or not a finite number is \<open>None\<close>.\<close>

definition normalWeight :: "rat option \<Rightarrow> rat" where
  "normalWeight raw = (case raw of Some w \<Rightarrow> max 0 (min 100 w) | None \<Rightarrow> 100)"

fun initEntries :: "(ident \<Rightarrow> rat option) \<Rightarrow> ident list \<Rightarrow> rr_state \<Rightarrow> rr_state" where
  "initEntries weights [] st = st"
| "initEntries weights (uid # uids) st =
     initEntries weights uids
       (case st uid of
          None \<Rightarrow> st(uid \<mapsto> \<lparr>rr_weight = normalWeight (weights uid), rr_current = 0\<rparr>)
        | Some en \<Rightarrow> st(uid \<mapsto> en\<lparr>rr_weight := normalWeight (weights uid)\<rparr>))"

definition entryOf :: "rr_state \<Rightarrow> ident \<Rightarrow> rr_entry" where
  "entryOf st u = orElse (st u) \<lparr>rr_weight = 0, rr_current = 0\<rparr>"

definition addWeight :: "ident \<Rightarrow> rr_state \<Rightarrow> rr_state" where
  "addWeight u st =
     st(u \<mapsto> (entryOf st u)\<lparr>rr_current := rr_current (entryOf st u) + rr_weight (entryOf st u)\<rparr>)"

text \<open>The selection loop; the best so far is \<open>None\<close> while \<open>maxCur\<close> is minus infinity.\<close>

fun selectLoop :: "ident list \<Rightarrow> rr_state \<Rightarrow> (ident \<times> rat) option \<Rightarrow> rr_state \<times> (ident \<times> rat) option" where
  "selectLoop [] st best = (st, best)"
| "selectLoop (u # us) st best =
     (let st' = addWeight u st;
          cur = rr_current (entryOf st' u)
      in selectLoop us st'
           (case best of
              None \<Rightarrow> Some (u, cur)
            | Some (b, maxCur) \<Rightarrow> if cur > maxCur then Some (u, cur) else best))"

definition payTotal :: "ident \<Rightarrow> rat \<Rightarrow> rr_state \<Rightarrow> rr_state" where
  "payTotal u tot st = st(u \<mapsto> (entryOf st u)\<lparr>rr_current := rr_current (entryOf st u) - tot\<rparr>)"

text \<open>The pick on a loaded state: the chosen professional and the state to persist.\<close>

definition pickFrom :: "(ident \<Rightarrow> rat option) \<Rightarrow> ident list \<Rightarrow> rr_state \<Rightarrow> (ident \<times> rr_state) option" where
  "pickFrom weights eligibles st0 =
     (let st = initEntries weights eligibles st0;
          pool = filter (\<lambda>u. rr_weight (entryOf st u) > 0) eligibles;
          tot = sum_list (map (\<lambda>u. rr_weight (entryOf st u)) pool)
      in if pool = [] then None
         else if tot \<le> 0 then None
         else (case selectLoop (sort pool) st None of
                 (st', None) \<Rightarrow> None
               | (st', Some (chosen, _)) \<Rightarrow>
                   if chosen = [] then None else Some (chosen, payTotal chosen tot st')))"

definition pickWeightedSmoothRR ::
  "instant \<Rightarrow> ident \<Rightarrow> ident option \<Rightarrow> ident list \<Rightarrow> (ident \<Rightarrow> rat option) \<Rightarrow> int option
   \<Rightarrow> redis \<Rightarrow> ident option \<times> redis" where
  "pickWeightedSmoothRR now ws svc eligibles weights stateTTLSec r =
     (let svc' = orElse svc ''global'' in
      if eligibles = [] then (None, r)
      else case pickFrom weights eligibles (getState now ws svc' r) of
             None \<Rightarrow> (None, r)
           | Some (chosen, st) \<Rightarrow> (Some chosen, saveState now (rrStateKey ws svc') st stateTTLSec r))"

text \<open>What the pieces do to the entry of a professional.\<close>

lemma entryOf_upd [simp]: "entryOf (st(u \<mapsto> en)) v = (if v = u then en else entryOf st v)"
  by (simp add: entryOf_def)

lemma initEntries_entry:
  "rr_current (entryOf (initEntries w us st) u) = rr_current (entryOf st u)"
  "rr_weight (entryOf (initEntries w us st) u) =
     (if u \<in> set us then normalWeight (w u) else rr_weight (entryOf st u))"
  by (induction us arbitrary: st) (auto simp: entryOf_def split: option.splits)

lemma normalWeight_bounds: "0 \<le> normalWeight x" "normalWeight x \<le> 100"
  by (auto simp: normalWeight_def split: option.splits)

lemma selectLoop_entry:
  assumes "distinct us" and "selectLoop us st best = (st', best')"
  shows "entryOf st' u = (if u \<in> set us
     then (entryOf st u)\<lparr>rr_current := rr_current (entryOf st u) + rr_weight (entryOf st u)\<rparr>
     else entryOf st u)"
  using assms
proof (induction us arbitrary: st best)
  case (Cons v us)
  obtain b where "selectLoop us (addWeight v st) b = (st', best')"
    using Cons.prems(2) by (auto simp: Let_def)
  from Cons.IH[OF _ this] Cons.prems(1) show ?case by (auto simp: addWeight_def)
qed simp

text \<open>The loop keeps the best candidate: never below what it started with, and the first of the
  candidates with the largest accumulator.\<close>

definition betterThan :: "(ident \<times> rat) option \<Rightarrow> rat \<Rightarrow> bool" where
  "betterThan best m \<longleftrightarrow> (case best of None \<Rightarrow> True | Some (_, m0) \<Rightarrow> m0 < m)"

lemma selectLoop_best:
  fixes st :: rr_state
  defines "f u \<equiv> rr_current (entryOf st u) + rr_weight (entryOf st u)"
  assumes "distinct us" and "sorted us" and "selectLoop us st best = (st', best')"
  shows "(best' = best \<and> (\<forall>u \<in> set us. \<not> betterThan best (f u))) \<or>
     (\<exists>b. best' = Some (b, f b) \<and> b \<in> set us \<and> betterThan best (f b) \<and>
        (\<forall>u \<in> set us. f u \<le> f b \<and> (f u = f b \<longrightarrow> b \<le> u)))"
  using assms(2-)
  unfolding f_def
proof (induction us arbitrary: st best)
  case (Cons v us)
  let ?f = "\<lambda>u. rr_current (entryOf st u) + rr_weight (entryOf st u)"
  let ?st = "addWeight v st"
  have same: "rr_current (entryOf ?st u) + rr_weight (entryOf ?st u) = ?f u" if "u \<in> set us" for u
    using that Cons.prems(1) by (auto simp: addWeight_def)
  have cur: "rr_current (entryOf ?st v) = ?f v" by (simp add: addWeight_def)
  let ?best = "if betterThan best (?f v) then Some (v, ?f v) else best"
  have rec: "selectLoop us ?st ?best = (st', best')"
    using Cons.prems(3) by (auto simp: Let_def cur betterThan_def split: option.splits prod.splits if_splits)
  have "(best' = ?best \<and> (\<forall>u \<in> set us. \<not> betterThan ?best (?f u))) \<or>
     (\<exists>b. best' = Some (b, ?f b) \<and> b \<in> set us \<and> betterThan ?best (?f b) \<and>
        (\<forall>u \<in> set us. ?f u \<le> ?f b \<and> (?f u = ?f b \<longrightarrow> b \<le> u)))"
    using Cons.IH[OF _ _ rec] Cons.prems(1,2) by (auto simp: same)
  then show ?case
  proof (elim disjE exE conjE)
    assume "best' = ?best" "\<forall>u \<in> set us. \<not> betterThan ?best (?f u)"
    then show ?thesis
      using Cons.prems(2) by (cases "betterThan best (?f v)") (auto simp: betterThan_def)
  next
    fix b
    assume b: "best' = Some (b, ?f b)" "b \<in> set us" "betterThan ?best (?f b)"
      "\<forall>u \<in> set us. ?f u \<le> ?f b \<and> (?f u = ?f b \<longrightarrow> b \<le> u)"
    have "betterThan best (?f b)" "?f v < ?f b"
      using b(3) by (auto simp: betterThan_def split: option.splits if_splits)
    then show ?thesis using b by auto
  qed
qed simp

subsection \<open>The pick as a whole\<close>

definition poolOf :: "(ident \<Rightarrow> rat option) \<Rightarrow> ident list \<Rightarrow> ident list" where
  "poolOf weights es = filter (\<lambda>u. normalWeight (weights u) > 0) es"

definition totalOf :: "(ident \<Rightarrow> rat option) \<Rightarrow> ident list \<Rightarrow> rat" where
  "totalOf weights es = sum_list (map (\<lambda>u. normalWeight (weights u)) (poolOf weights es))"

abbreviation curOf :: "rr_state \<Rightarrow> ident \<Rightarrow> rat" where
  "curOf st u \<equiv> rr_current (entryOf st u)"

lemma totalOf_pos: "poolOf weights es \<noteq> [] \<Longrightarrow> 0 < totalOf weights es"
proof -
  have "0 < sum_list (map g xs)" if "xs \<noteq> []" "\<forall>x \<in> set xs. 0 < g x" for g :: "ident \<Rightarrow> rat" and xs
    using that by (induction xs rule: list_nonempty_induct) (auto intro: add_pos_pos)
  then show "poolOf weights es \<noteq> [] \<Longrightarrow> 0 < totalOf weights es"
    unfolding totalOf_def by (simp add: poolOf_def)
qed

lemma init_pool:
  "filter (\<lambda>u. rr_weight (entryOf (initEntries weights es st) u) > 0) es = poolOf weights es"
  "map (\<lambda>u. rr_weight (entryOf (initEntries weights es st) u)) (poolOf weights es) =
     map (\<lambda>u. normalWeight (weights u)) (poolOf weights es)"
  by (auto simp: poolOf_def initEntries_entry intro!: filter_cong)

lemma pickFrom_unfold:
  "pickFrom weights es st0 =
     (if poolOf weights es = [] then None
      else case selectLoop (sort (poolOf weights es)) (initEntries weights es st0) None of
             (st', None) \<Rightarrow> None
           | (st', Some (chosen, _)) \<Rightarrow>
               if chosen = [] then None else Some (chosen, payTotal chosen (totalOf weights es) st'))"
proof -
  have t: "sum_list (map (\<lambda>u. rr_weight (entryOf (initEntries weights es st0) u)) (poolOf weights es))
      = totalOf weights es"
    unfolding init_pool(2) totalOf_def ..
  show ?thesis
    unfolding pickFrom_def Let_def init_pool(1) t
    using totalOf_pos[of weights es] by (cases "poolOf weights es = []") auto
qed

lemma pickFrom_spec:
  assumes d: "distinct es" and p: "pickFrom weights es st0 = Some (c, st)"
  defines "f u \<equiv> curOf st0 u + normalWeight (weights u)"
  shows "c \<in> set (poolOf weights es)" and "c \<noteq> []"
    and "u \<in> set (poolOf weights es) \<Longrightarrow> f u \<le> f c \<and> (f u = f c \<longrightarrow> c \<le> u)"
    and "curOf st u = (if u \<in> set (poolOf weights es) then f u else curOf st0 u)
           - (if u = c then totalOf weights es else 0)"
proof -
  let ?st = "initEntries weights es st0"
  let ?us = "sort (poolOf weights es)"
  have du: "distinct ?us" using d by (simp add: poolOf_def)
  have ent: "curOf ?st u + rr_weight (entryOf ?st u) = f u" if "u \<in> set ?us" for u
    using that by (simp add: initEntries_entry f_def poolOf_def)
  obtain st' b where sl: "selectLoop ?us ?st None = (st', b)" by fastforce
  obtain m where b: "b = Some (c, m)" and c: "c \<noteq> []" and st: "st = payTotal c (totalOf weights es) st'"
    using p sl by (auto simp: pickFrom_unfold split: if_splits option.splits)
  have best: "c \<in> set ?us \<and> (\<forall>u \<in> set ?us. f u \<le> f c \<and> (f u = f c \<longrightarrow> c \<le> u))"
    using selectLoop_best[OF du _ sl] b ent by (auto simp: betterThan_def)
  then show "c \<in> set (poolOf weights es)" and "c \<noteq> []"
    and "u \<in> set (poolOf weights es) \<Longrightarrow> f u \<le> f c \<and> (f u = f c \<longrightarrow> c \<le> u)"
    using c by auto
  have "curOf st' u = (if u \<in> set (poolOf weights es) then f u else curOf st0 u)"
    using selectLoop_entry[OF du sl, of u] ent[of u] by (auto simp: initEntries_entry)
  then show "curOf st u = (if u \<in> set (poolOf weights es) then f u else curOf st0 u)
           - (if u = c then totalOf weights es else 0)"
    by (auto simp: st payTotal_def)
qed

lemma pickFrom_total:
  assumes d: "distinct es" and ne: "[] \<notin> set es" and pool: "poolOf weights es \<noteq> []"
  shows "\<exists>c st. pickFrom weights es st0 = Some (c, st)"
proof -
  let ?us = "sort (poolOf weights es)"
  have du: "distinct ?us" using d by (simp add: poolOf_def)
  obtain st' b where sl: "selectLoop ?us (initEntries weights es st0) None = (st', b)" by fastforce
  obtain c m where "b = Some (c, m)" "c \<in> set ?us"
    using selectLoop_best[OF du _ sl] pool by (auto simp: betterThan_def)
  moreover have "c \<noteq> []" using ne \<open>c \<in> set ?us\<close> by (auto simp: poolOf_def)
  ultimately show ?thesis using sl pool by (auto simp: pickFrom_unfold)
qed

subsection \<open>Fairness over a run of picks\<close>

text \<open>Consecutive picks for the same service with the same eligible staff and weights.\<close>

fun pickMany :: "(ident \<Rightarrow> rat option) \<Rightarrow> ident list \<Rightarrow> nat \<Rightarrow> rr_state \<Rightarrow> (ident list \<times> rr_state) option" where
  "pickMany weights es 0 st = Some ([], st)"
| "pickMany weights es (Suc n) st =
     (case pickFrom weights es st of
        None \<Rightarrow> None
      | Some (c, st') \<Rightarrow> map_option (\<lambda>(cs, s). (c # cs, s)) (pickMany weights es n st'))"

lemma pickMany_cur:
  assumes "distinct es" and "pickMany weights es n st0 = Some (cs, st)" and "u \<in> set (poolOf weights es)"
  shows "curOf st u = curOf st0 u + of_nat n * normalWeight (weights u)
           - totalOf weights es * of_nat (count_list cs u)"
  using assms
proof (induction n arbitrary: st0 cs)
  case (Suc n)
  obtain c st1 cs1 where p: "pickFrom weights es st0 = Some (c, st1)"
    and r: "pickMany weights es n st1 = Some (cs1, st)" and cs: "cs = c # cs1"
    using Suc.prems(2) by (auto split: option.splits)
  show ?case
    using Suc.IH[OF Suc.prems(1) r Suc.prems(3)] pickFrom_spec(4)[OF Suc.prems(1) p, of u] Suc.prems(3)
    by (auto simp: cs algebra_simps)
qed simp

definition balanced :: "(ident \<Rightarrow> rat option) \<Rightarrow> ident list \<Rightarrow> rr_state \<Rightarrow> bool" where
  "balanced weights es st \<longleftrightarrow>
     sum_list (map (curOf st) (poolOf weights es)) = 0 \<and>
     (\<forall>u \<in> set (poolOf weights es). - totalOf weights es < curOf st u)"

lemma pickFrom_balanced:
  assumes d: "distinct es" and b: "balanced weights es st0"
    and p: "pickFrom weights es st0 = Some (c, st)"
  shows "balanced weights es st"
proof -
  let ?pool = "poolOf weights es" and ?T = "totalOf weights es"
  let ?f = "\<lambda>u. curOf st0 u + normalWeight (weights u)"
  note spec = pickFrom_spec[OF d p]
  have dp: "distinct ?pool" using d by (simp add: poolOf_def)
  have T: "0 < ?T" using spec(1) by (intro totalOf_pos) auto
  have sf: "sum_list (map ?f ?pool) = ?T"
    using b by (simp add: balanced_def sum_list_addf totalOf_def)
  have "sum_list (map (curOf st) ?pool) = sum_list (map ?f ?pool) - ?f c + curOf st c"
    by (rule sum_list_map_update[OF dp spec(1)]) (simp add: spec(4))
  also have "curOf st c = ?f c - ?T" using spec(1) spec(4)[of c] by simp
  finally have s0: "sum_list (map (curOf st) ?pool) = 0" using sf by simp
  have fc: "0 < ?f c"
  proof (rule ccontr)
    assume "\<not> 0 < ?f c"
    then have "\<And>u. u \<in> set ?pool \<Longrightarrow> ?f u \<le> 0" using spec(3) by force
    then have "sum_list (map ?f ?pool) \<le> 0" by (intro sum_list_nonpos) auto
    with sf T show False by simp
  qed
  have "- ?T < curOf st u" if u: "u \<in> set ?pool" for u
  proof (cases "u = c")
    case True
    then show ?thesis using fc spec(4)[of c] spec(1) by simp
  next
    case False
    have "- ?T < curOf st0 u" using b u by (simp add: balanced_def)
    then show ?thesis using False u spec(4)[of u] normalWeight_bounds(1)[of "weights u"] by simp
  qed
  with s0 show ?thesis by (simp add: balanced_def)
qed

lemma pickMany_balanced:
  "distinct es \<Longrightarrow> balanced weights es st0 \<Longrightarrow> pickMany weights es n st0 = Some (cs, st)
     \<Longrightarrow> balanced weights es st"
  by (induction n arbitrary: st0 cs) (auto split: option.splits dest: pickFrom_balanced)

lemma pickMany_total:
  assumes "distinct es" "[] \<notin> set es" "poolOf weights es \<noteq> []"
  shows "\<exists>cs st. pickMany weights es n st0 = Some (cs, st) \<and> length cs = n"
proof (induction n arbitrary: st0)
  case (Suc n)
  obtain c st1 where "pickFrom weights es st0 = Some (c, st1)" using pickFrom_total[OF assms] by blast
  moreover obtain cs st where "pickMany weights es n st1 = Some (cs, st)" "length cs = n" using Suc by blast
  ultimately show ?case by simp
qed simp

lemma balanced_empty: "poolOf weights es \<noteq> [] \<Longrightarrow> balanced weights es Map.empty"
  using totalOf_pos by (auto simp: balanced_def entryOf_def sum_list_0)

section \<open>Holds\<close>

definition acquireHold ::
  "instant \<Rightarrow> ident \<Rightarrow> ident \<Rightarrow> string \<Rightarrow> string \<Rightarrow> int option \<Rightarrow> redis \<Rightarrow> bool \<times> redis" where
  "acquireHold now ws svc startISO endISO ttlSec r =
     (let key = rrHoldKey ws svc startISO endISO in
      case redisGet now key r of
        Some v \<Rightarrow> if isEmptyText v then (True, redisSet now key (RText ''1'') (Some (orElse ttlSec 60)) r)
                  else (False, r)
      | None \<Rightarrow> (True, redisSet now key (RText ''1'') (Some (orElse ttlSec 60)) r))"

definition releaseHold :: "ident \<Rightarrow> ident \<Rightarrow> string \<Rightarrow> string \<Rightarrow> redis \<Rightarrow> redis" where
  "releaseHold ws svc startISO endISO r = redisDelete (rrHoldKey ws svc startISO endISO) r"

section \<open>Choosing a professional with a hold on the slot\<close>

text \<open>\<open>chooseStaffWithRR\<close> of the create service: \<open>null\<close> when there is nobody, when the slot is
  held, or when the pick fails (then the hold is released). The hold is kept after a choice.\<close>

definition chooseStaffWithRR ::
  "instant \<Rightarrow> ident \<Rightarrow> ident \<Rightarrow> instant \<Rightarrow> instant \<Rightarrow> ident list \<Rightarrow> (ident \<Rightarrow> rat option)
   \<Rightarrow> redis \<Rightarrow> ident option \<times> redis" where
  "chooseStaffWithRR now ws svc startD endD eligibles weightsMap r =
     (if eligibles = [] then (None, r)
      else case acquireHold now ws svc (toISOString startD) (toISOString endD) (Some 60) r of
        (False, r1) \<Rightarrow> (None, r1)
      | (True, r1) \<Rightarrow>
          (case pickWeightedSmoothRR now ws (Some svc) eligibles weightsMap (Some (604800 * 2)) r1 of
             (chosen, r2) \<Rightarrow>
               if \<not> truthy chosen
               then (None, releaseHold ws svc (toISOString startD) (toISOString endD) r2)
               else (chosen, r2)))"

section \<open>Properties\<close>

lemma balanced_upper:
  assumes "distinct es" and "balanced weights es st" and "u \<in> set (poolOf weights es)"
  shows "curOf st u \<le> (of_nat (length (poolOf weights es)) - 1) * totalOf weights es"
proof -
  let ?pool = "poolOf weights es" and ?T = "totalOf weights es"
  have "sum_list (map (curOf st) ?pool) = curOf st u + sum_list (map (curOf st) (remove1 u ?pool))"
    by (rule sum_list_map_remove1[OF assms(3)])
  moreover have "- (of_nat (length (remove1 u ?pool)) * ?T) \<le> sum_list (map (curOf st) (remove1 u ?pool))"
  proof -
    have "sum_list (map (\<lambda>_. - ?T) (remove1 u ?pool)) \<le> sum_list (map (curOf st) (remove1 u ?pool))"
      using assms(2) unfolding balanced_def
      by (intro sum_list_mono less_imp_le) (meson notin_set_remove1)
    then show ?thesis by (simp add: sum_list_triv)
  qed
  moreover have "length (remove1 u ?pool) = length ?pool - 1" "0 < length ?pool"
    using assms(3) by (auto simp: length_remove1 length_pos_if_in_set)
  ultimately show ?thesis using assms(2) by (simp add: balanced_def of_nat_diff Suc_le_eq)
qed

text \<open>C15: over \<open>n\<close> picks from a fresh state with the same eligible staff and weights, the picks of
  each professional stay within one pick above, and as many picks as there are others below, their
  share of \<open>n\<close> by weight; so nobody with a positive weight starves.\<close>

theorem round_robin_fair:
  assumes "distinct es" and "pickMany weights es n Map.empty = Some (cs, st)"
    and "u \<in> set (poolOf weights es)"
  shows "totalOf weights es * of_nat (count_list cs u)
           < of_nat n * normalWeight (weights u) + totalOf weights es \<and>
         of_nat n * normalWeight (weights u) \<le> totalOf weights es * of_nat (count_list cs u)
           + (of_nat (length (poolOf weights es)) - 1) * totalOf weights es"
proof -
  have ne: "poolOf weights es \<noteq> []" using assms(3) by auto
  have b: "balanced weights es st" by (rule pickMany_balanced[OF assms(1) balanced_empty[OF ne] assms(2)])
  have "curOf st u = of_nat n * normalWeight (weights u) - totalOf weights es * of_nat (count_list cs u)"
    using pickMany_cur[OF assms] by (simp add: entryOf_def)
  moreover have "- totalOf weights es < curOf st u" using b assms(3) by (simp add: balanced_def)
  ultimately show ?thesis using balanced_upper[OF assms(1) b assms(3)] by simp
qed

theorem round_robin_fair_witness:
  "\<exists>cs st. pickMany (\<lambda>u. if u = ''ana'' then Some 50 else None) [''ana'', ''bea''] 3 Map.empty = Some (cs, st)
     \<and> count_list cs ''ana'' < 3"
proof -
  let ?w = "\<lambda>u. if u = ''ana'' then Some 50 else (None :: rat option)" and ?es = "[''ana'', ''bea'']"
  have pool: "poolOf ?w ?es = ?es" by (simp add: poolOf_def normalWeight_def)
  then have tot: "totalOf ?w ?es = 150" by (simp add: totalOf_def normalWeight_def)
  obtain cs st where p: "pickMany ?w ?es 3 Map.empty = Some (cs, st)"
    using pickMany_total[of ?es ?w 3 Map.empty] pool by auto
  have "''ana'' \<in> set (poolOf ?w ?es)" unfolding pool by simp
  from round_robin_fair[OF _ p this] have "150 * of_nat (count_list cs ''ana'') < (3 * 50 + 150 :: rat)"
    unfolding tot by (simp add: normalWeight_def)
  then have "(of_nat (count_list cs ''ana'') :: rat) < 2" by simp
  then have "count_list cs ''ana'' < 3" by simp
  with p show ?thesis by blast
qed

text \<open>A pick always succeeds when somebody eligible has a positive weight; the one picked has
  the greatest credit after adding the weights, the least identifier among equals, and pays the sum of
  the weights, so that credits are conserved.\<close>

theorem pick_is_greatest_credit:
  assumes "distinct es" and "[] \<notin> set es" and "poolOf weights es \<noteq> []"
  shows "\<exists>c st'. pickFrom weights es st = Some (c, st') \<and> c \<in> set (poolOf weights es) \<and>
    (\<forall>u \<in> set (poolOf weights es).
       curOf st u + normalWeight (weights u) \<le> curOf st c + normalWeight (weights c) \<and>
       (curOf st u + normalWeight (weights u) = curOf st c + normalWeight (weights c) \<longrightarrow> c \<le> u)) \<and>
    (\<forall>u. curOf st' u = (if u \<in> set (poolOf weights es) then curOf st u + normalWeight (weights u) else curOf st u)
       - (if u = c then totalOf weights es else 0))"
proof -
  obtain c st' where p: "pickFrom weights es st = Some (c, st')" using pickFrom_total[OF assms] by blast
  note spec = pickFrom_spec[OF assms(1) p]
  show ?thesis
    using p spec(1) spec(3) spec(4) by blast
qed

theorem pick_is_greatest_credit_witness:
  "\<exists>c st'. pickFrom (\<lambda>_. None) [''bea'', ''ana''] Map.empty = Some (c, st') \<and> c \<in> {''ana'', ''bea''}"
proof -
  have pool: "poolOf (\<lambda>_. None) [''bea'', ''ana''] = [''bea'', ''ana'']" by (simp add: poolOf_def normalWeight_def)
  from pick_is_greatest_credit[of "[''bea'', ''ana'']" "\<lambda>_. None" Map.empty]
  show ?thesis unfolding pool by auto
qed

text \<open>While a hold on a range lasts, a second request for the same range is denied; releasing
  it or letting it expire makes the range free again.\<close>

theorem hold_excludes_until_released:
  assumes "rd_enabled r" and "acquireHold now ws svc a b (Some ttl) r = (True, r1)" and "0 < ttl"
  shows "(\<forall>t. t < now + ttl * 1000 \<longrightarrow> \<not> fst (acquireHold t ws svc a b (Some ttl) r1)) \<and>
    (\<forall>t. now + ttl * 1000 \<le> t \<longrightarrow> fst (acquireHold t ws svc a b (Some ttl) r1)) \<and>
    (\<forall>t. fst (acquireHold t ws svc a b (Some ttl) (releaseHold ws svc a b r1)))"
proof -
  have r1: "r1 = redisSet now (rrHoldKey ws svc a b) (RText ''1'') (Some ttl) r"
    using assms(2) by (auto simp: acquireHold_def Let_def split: option.splits if_splits)
  show ?thesis
    unfolding r1 acquireHold_def Let_def releaseHold_def
    using redisGet_set[OF assms(1)] assms(3) by (auto simp: redisGet_delete)
qed

theorem hold_excludes_until_released_witness:
  "\<not> fst (acquireHold 5 ''w'' ''s'' ''a'' ''b'' (Some 60)
       (snd (acquireHold 0 ''w'' ''s'' ''a'' ''b'' (Some 60) \<lparr>rd_enabled = True, rd_store = Map.empty\<rparr>)))"
proof -
  let ?r = "\<lparr>rd_enabled = True, rd_store = Map.empty\<rparr>"
  have "acquireHold 0 ''w'' ''s'' ''a'' ''b'' (Some 60) ?r = (True, snd (acquireHold 0 ''w'' ''s'' ''a'' ''b'' (Some 60) ?r))"
    by (simp add: acquireHold_def redisGet_def Let_def)
  from hold_excludes_until_released[OF _ this] show ?thesis by simp
qed

text \<open>Two requests share a hold only when workspace, service, start and end are the same (the
  identifiers hold no colon, the start texts have the same length).\<close>

theorem hold_key_injective:
  assumes "CHR '':'' \<notin> set ws \<union> set ws' \<union> set svc \<union> set svc'" and "length a = length a'"
    and "rrHoldKey ws svc a b = rrHoldKey ws' svc' a' b'"
  shows "(ws, svc, a, b) = (ws', svc', a', b')"
  using rrHoldKey_inject[of ws ws' svc svc' a a' b b'] assms by auto

theorem hold_key_injective_witness: "rrHoldKey ''w1'' ''s'' ''a'' ''b'' \<noteq> rrHoldKey ''w2'' ''s'' ''a'' ''b''"
  using hold_key_injective[of "''w1''" "''w2''" "''s''" "''s''" "''a''" "''a''" "''b''" "''b''"] by auto

end
