(* ===== verification/CalHold.thy ===== *)
theory CalHold
  imports CalRoundRobin
begin

text \<open>
  The hold under interleaving. \<open>acquireHold\<close> awaits a GET and then a SET, so two requests can
  interleave between them. The steps of any number of requests on one key are a relation; its
  reachable states are compared with those of the atomic \<open>setIfNotExists\<close> of the same cache
  service. A request alone computes what \<open>acquireHold\<close> computes.
\<close>

datatype hold_pc = HIdle | HRead "redis_val option" | HAcquired | HDenied

record hold_sys =
  hs_redis :: redis
  hs_pc :: "nat \<Rightarrow> hold_pc"

inductive hold_step :: "instant \<Rightarrow> string \<Rightarrow> int \<Rightarrow> hold_sys \<Rightarrow> hold_sys \<Rightarrow> bool"
  for now :: instant and key :: string and ttl :: int where
  hold_get: "hs_pc s i = HIdle \<Longrightarrow>
     hold_step now key ttl s (s\<lparr>hs_pc := (hs_pc s)(i := HRead (redisGet now key (hs_redis s)))\<rparr>)"
| hold_deny: "hs_pc s i = HRead (Some v) \<Longrightarrow> v \<noteq> RText [] \<Longrightarrow>
     hold_step now key ttl s (s\<lparr>hs_pc := (hs_pc s)(i := HDenied)\<rparr>)"
| hold_set: "hs_pc s i = HRead x \<Longrightarrow> x = None \<or> x = Some (RText []) \<Longrightarrow>
     hold_step now key ttl s
       (s\<lparr>hs_redis := redisSet now key (RText ''1'') (Some ttl) (hs_redis s),
          hs_pc := (hs_pc s)(i := HAcquired)\<rparr>)"

text \<open>The same protocol with the atomic operation.\<close>

inductive nx_step :: "instant \<Rightarrow> string \<Rightarrow> int \<Rightarrow> hold_sys \<Rightarrow> hold_sys \<Rightarrow> bool"
  for now :: instant and key :: string and ttl :: int where
  nx: "hs_pc s i = HIdle \<Longrightarrow>
     redisSetIfNotExists now key (RText ''1'') ttl (hs_redis s) = (ok, r') \<Longrightarrow>
     nx_step now key ttl s
       (s\<lparr>hs_redis := r', hs_pc := (hs_pc s)(i := if ok then HAcquired else HDenied)\<rparr>)"

inductive_cases nx_stepE: "nx_step now key ttl s t"

inductive_simps hold_step_simps: "hold_step now key ttl s t"

definition hold_init :: "redis \<Rightarrow> hold_sys" where
  "hold_init r = \<lparr>hs_redis = r, hs_pc = (\<lambda>_. HIdle)\<rparr>"

inductive hold_reach :: "instant \<Rightarrow> string \<Rightarrow> int \<Rightarrow> redis \<Rightarrow> hold_sys \<Rightarrow> bool"
  for now :: instant and key :: string and ttl :: int and r :: redis where
  hold_start: "hold_reach now key ttl r (hold_init r)"
| hold_next: "hold_reach now key ttl r s \<Longrightarrow> hold_step now key ttl s t \<Longrightarrow> hold_reach now key ttl r t"

inductive nx_reach :: "instant \<Rightarrow> string \<Rightarrow> int \<Rightarrow> redis \<Rightarrow> hold_sys \<Rightarrow> bool"
  for now :: instant and key :: string and ttl :: int and r :: redis where
  nx_start: "nx_reach now key ttl r (hold_init r)"
| nx_next: "nx_reach now key ttl r s \<Longrightarrow> nx_step now key ttl s t \<Longrightarrow> nx_reach now key ttl r t"

text \<open>Run alone, the steps give the answer of \<open>acquireHold\<close>.\<close>

lemma hold_alone_acquires:
  assumes "acquireHold now ws svc a b (Some ttl) r = (True, r')"
  shows "hold_reach now (rrHoldKey ws svc a b) ttl r
    \<lparr>hs_redis = r', hs_pc = (\<lambda>_. HIdle)(0 := HAcquired)\<rparr>"
proof -
  let ?k = "rrHoldKey ws svc a b"
  let ?x = "redisGet now ?k r"
  let ?s1 = "\<lparr>hs_redis = r, hs_pc = (\<lambda>_. HIdle)(0 := HRead ?x)\<rparr>"
  have x: "?x = None \<or> ?x = Some (RText [])" and r': "r' = redisSet now ?k (RText ''1'') (Some ttl) r"
    using assms by (auto simp: acquireHold_def Let_def split: option.splits if_splits)
  have "hold_step now ?k ttl (hold_init r) ?s1"
    using hold_step.hold_get[of "hold_init r" 0 now ?k ttl] by (simp add: hold_init_def)
  moreover have "hold_step now ?k ttl ?s1 \<lparr>hs_redis = r', hs_pc = (\<lambda>_. HIdle)(0 := HAcquired)\<rparr>"
    using hold_step.hold_set[of ?s1 0 ?x now ?k ttl] x by (simp add: r')
  ultimately show ?thesis by (blast intro: hold_reach.intros)
qed

lemma hold_race:
  assumes "rd_enabled r" and "rd_store r key = None"
  shows "\<exists>s. hold_reach now key ttl r s \<and> hs_pc s 0 = HAcquired \<and> hs_pc s 1 = HAcquired"
proof -
  let ?r1 = "redisSet now key (RText ''1'') (Some ttl) r"
  let ?pc1 = "(\<lambda>_. HIdle)(0 := HRead None)" and ?pc2 = "((\<lambda>_. HIdle)(0 := HRead None))(1 := HRead None)"
  have none: "redisGet now key r = None" using assms by (simp add: redisGet_def)
  have 1: "hold_step now key ttl (hold_init r) \<lparr>hs_redis = r, hs_pc = ?pc1\<rparr>"
    using hold_step.hold_get[of "hold_init r" 0 now key ttl] by (simp add: hold_init_def none)
  have 2: "hold_step now key ttl \<lparr>hs_redis = r, hs_pc = ?pc1\<rparr> \<lparr>hs_redis = r, hs_pc = ?pc2\<rparr>"
    using hold_step.hold_get[of "\<lparr>hs_redis = r, hs_pc = ?pc1\<rparr>" 1 now key ttl] by (simp add: none)
  have 3: "hold_step now key ttl \<lparr>hs_redis = r, hs_pc = ?pc2\<rparr>
      \<lparr>hs_redis = ?r1, hs_pc = ?pc2(0 := HAcquired)\<rparr>"
    using hold_step.hold_set[of "\<lparr>hs_redis = r, hs_pc = ?pc2\<rparr>" 0 None now key ttl] by simp
  have 4: "hold_step now key ttl \<lparr>hs_redis = ?r1, hs_pc = ?pc2(0 := HAcquired)\<rparr>
      \<lparr>hs_redis = redisSet now key (RText ''1'') (Some ttl) ?r1,
       hs_pc = ?pc2(0 := HAcquired, 1 := HAcquired)\<rparr>"
    using hold_step.hold_set[of "\<lparr>hs_redis = ?r1, hs_pc = ?pc2(0 := HAcquired)\<rparr>" 1 None now key ttl]
    by simp
  note hold_reach.hold_next[OF hold_reach.hold_next[OF hold_reach.hold_next[OF
        hold_reach.hold_next[OF hold_reach.hold_start 1] 2] 3] 4]
  then show ?thesis by (intro exI conjI) (assumption, simp_all)
qed

text \<open>With the atomic operation whoever has the slot has the key, so nobody else gets it.\<close>

definition nx_inv :: "instant \<Rightarrow> string \<Rightarrow> hold_sys \<Rightarrow> bool" where
  "nx_inv now key s \<longleftrightarrow> rd_enabled (hs_redis s) \<and>
     (\<forall>i. hs_pc s i = HAcquired \<longrightarrow> redisGet now key (hs_redis s) \<noteq> None) \<and>
     (\<forall>i j. hs_pc s i = HAcquired \<and> hs_pc s j = HAcquired \<longrightarrow> i = j)"

lemma nx_step_inv:
  assumes "nx_step now key ttl s t" and "0 < ttl" and "nx_inv now key s"
  shows "nx_inv now key t"
  using assms
proof (elim nx_stepE)
  fix s' i ok r'
  assume t: "t = s\<lparr>hs_redis := r', hs_pc := (hs_pc s)(i := if ok then HAcquired else HDenied)\<rparr>"
    and op: "redisSetIfNotExists now key (RText ''1'') ttl (hs_redis s) = (ok, r')"
  show ?thesis
  proof (cases "redisGet now key (hs_redis s) = None")
    case True
    then have free: "hs_pc s j \<noteq> HAcquired" for j using assms(3) by (auto simp: nx_inv_def)
    have "rd_enabled (hs_redis s)" using assms(3) by (simp add: nx_inv_def)
    then have "ok" "rd_enabled r'" "redisGet now key r' \<noteq> None"
      using op True assms(2) by (auto simp: redisSetIfNotExists_def redisGet_def Option.is_none_def)
    with free show ?thesis by (auto simp: t nx_inv_def split: if_splits)
  next
    case False
    then have "\<not> ok" "r' = hs_redis s"
      using op assms(3) by (auto simp: redisSetIfNotExists_def nx_inv_def Option.is_none_def)
    with assms(3) show ?thesis by (auto simp: t nx_inv_def split: if_splits)
  qed
qed

lemma nx_reach_inv:
  "nx_reach now key ttl r s \<Longrightarrow> 0 < ttl \<Longrightarrow> rd_enabled r \<Longrightarrow> nx_inv now key s"
proof (induction rule: nx_reach.induct)
  case nx_start
  then show ?case by (simp add: nx_inv_def hold_init_def)
next
  case (nx_next s t)
  then show ?case by (blast intro: nx_step_inv)
qed

section \<open>Properties\<close>



end
