(* ===== verification/CalDomain.thy ===== *)
theory CalDomain
  imports CalAssign CalRoundRobin
begin

text \<open>
  The domain layer of the client bookings (\<open>features/event-client/domain\<close>): the policies, the
  strategies that assign professionals to the requested services, and the strategies that pickStaff
  the flow of an update. The chooser of a professional is an interface, stated as a locale and
  interpreted by \<open>chooseStaffWithRR\<close>.
\<close>

section \<open>Policies\<close>

definition isAvailable :: "bool \<Rightarrow> bool" where
  "isAvailable recheckResult \<longleftrightarrow> recheckResult = True"

text \<open>\<open>a.startOf("day").isBefore(b, "day")\<close>: the end of that day is before \<open>b\<close>.\<close>

definition isDayInPast :: "tzlib \<Rightarrow> ident \<Rightarrow> instant \<Rightarrow> instant \<Rightarrow> bool" where
  "isDayInPast Z z startWS todayWS \<longleftrightarrow> z_eod Z z (z_sod Z z startWS) < todayWS"

definition isTimeInPast :: "bool \<Rightarrow> instant \<Rightarrow> instant \<Rightarrow> bool" where
  "isTimeInPast today startWS minAllowedStartWS = (if \<not> today then False else startWS < minAllowedStartWS)"

definition hasAnyProfessional :: "ident list \<Rightarrow> bool" where
  "hasAnyProfessional userIds \<longleftrightarrow> length userIds > 0"

record participant_identity =
  pi_client :: "ident option"
  pi_clientWs :: "ident option"

record customer =
  cu_id :: ident
  cu_clientWs :: ident

definition isOwner :: "participant_identity list \<Rightarrow> customer \<Rightarrow> bool" where
  "isOwner participants cust \<longleftrightarrow>
     list_ex (\<lambda>p. pi_client p = Some (cu_id cust) \<or> pi_clientWs p = Some (cu_clientWs cust)) participants"

definition belongsToWorkspace :: "ident option \<Rightarrow> ident \<Rightarrow> bool" where
  "belongsToWorkspace eventWorkspaceId workspaceId \<longleftrightarrow> eventWorkspaceId = Some workspaceId"

datatype update_mode = SingleMode | GroupMode

definition canEdit :: "update_mode \<Rightarrow> bool \<Rightarrow> bool" where
  "canEdit mode sameServiceSet \<longleftrightarrow> mode \<noteq> GroupMode \<or> sameServiceSet"

text \<open>\<open>/^\d{4}-\d{2}-\d{2}T\d{2}:\d{2}:\d{2}$/\<close>: a digit where the mask has \<open>d\<close>, otherwise the mask's
  own character.\<close>

definition isoMask :: string where
  "isoMask = ''dddd-dd-ddTdd:dd:dd''"

definition isStartLocalISO :: "string \<Rightarrow> bool" where
  "isStartLocalISO s \<longleftrightarrow> length s = length isoMask \<and>
     list_all (\<lambda>(c, m). if m = CHR ''d'' then isDigit c else c = m) (zip s isoMask)"

definition hasRequiredContext :: "ident \<Rightarrow> ident \<Rightarrow> ident \<Rightarrow> ident \<Rightarrow> bool" where
  "hasRequiredContext idCompany idWorkspace tzWorkspace tzClient \<longleftrightarrow>
     idCompany \<noteq> [] \<and> idWorkspace \<noteq> [] \<and> tzWorkspace \<noteq> [] \<and> tzClient \<noteq> []"

definition hasAttendees :: "attendee list \<Rightarrow> bool" where
  "hasAttendees attendees \<longleftrightarrow> length attendees > 0"

definition hasCustomerIdentifiers :: "customer \<Rightarrow> bool" where
  "hasCustomerIdentifiers c \<longleftrightarrow> cu_id c \<noteq> [] \<and> cu_clientWs c \<noteq> []"

definition isWithinLimit :: "nat \<Rightarrow> nat \<Rightarrow> bool" where
  "isWithinLimit attendeesCount maxPerBooking \<longleftrightarrow> attendeesCount \<le> maxPerBooking"

text \<open>The event is \<open>None\<close> when not found; its component is \<open>deletedDate\<close>.\<close>

definition originalEventExists :: "instant option option \<Rightarrow> bool" where
  "originalEventExists ev \<longleftrightarrow> (case ev of None \<Rightarrow> False | Some deletedDate \<Rightarrow> deletedDate = None)"

text \<open>\<open>!!overlappingEvent?.id\<close>\<close>

definition hasConflict :: "ident option \<Rightarrow> bool" where
  "hasConflict overlappingId \<longleftrightarrow> truthy overlappingId"

text \<open>\<open>b.diff(a, "minutes")\<close> truncates towards zero.\<close>

definition diffMinutes :: "instant \<Rightarrow> instant \<Rightarrow> int" where
  "diffMinutes b a = sgn (b - a) * (\<bar>b - a\<bar> div minute_ms)"

definition hasAnyAvailableWindow :: "ident list \<Rightarrow> (ident \<rightharpoonup> window list) \<Rightarrow> int \<Rightarrow> bool" where
  "hasAnyAvailableWindow eligibleUserIds freeWindowsByUser requiredDurationMin \<longleftrightarrow>
     list_ex (\<lambda>userId. list_ex (\<lambda>w. diffMinutes (wend w) (wstart w) \<ge> requiredDurationMin)
                (orElse (freeWindowsByUser userId) [])) eligibleUserIds"

definition canAssign :: "ident option \<Rightarrow> bool" where
  "canAssign staffId \<longleftrightarrow> truthy staffId"

lemma diffMinutes_addMinutes [simp]: "diffMinutes (addMinutes t n) t = n"
  by (simp add: diffMinutes_def addMinutes_def abs_mult sgn_mult mult_sgn_abs)

lemma diffMinutes_mono: "b \<le> b' \<Longrightarrow> a' \<le> a \<Longrightarrow> a \<le> b \<Longrightarrow> diffMinutes b a \<le> diffMinutes b' a'"
  by (auto simp: diffMinutes_def sgn_if zdiv_mono1)

section \<open>Interface: choosing a professional\<close>

locale staff_chooser =
  fixes pickStaff :: "ident list \<Rightarrow> 'r \<Rightarrow> ident option \<times> 'r"
  assumes choose_mem: "pickStaff eligibles r = (Some u, r') \<Longrightarrow> u \<in> set eligibles"
    and choose_id: "pickStaff eligibles r = (Some u, r') \<Longrightarrow> u \<noteq> []"
begin

lemma choose_none: "fst (pickStaff [] r) = None"
  using choose_mem[of "[]" r] by (cases "pickStaff [] r"; cases "fst (pickStaff [] r)") auto

lemma choose_filter: "pickStaff (filter P eligibles) r = (Some u, r') \<Longrightarrow> P u \<and> u \<in> set eligibles"
  using choose_mem by fastforce

lemma choose_assignable: "canAssign (fst (pickStaff eligibles r)) \<longleftrightarrow> fst (pickStaff eligibles r) \<noteq> None"
  using choose_id[of eligibles r] by (cases "pickStaff eligibles r"; cases "fst (pickStaff eligibles r)")
    (auto simp: canAssign_def)

end

lemma selectLoop_mem:
  "selectLoop us st best = (st', Some (b, m)) \<Longrightarrow> b \<in> set us \<or> (\<exists>m0. best = Some (b, m0))"
  by (induction us arbitrary: st best)
    (fastforce simp: Let_def split: option.splits prod.splits if_splits)+

lemma pickFrom_mem: "pickFrom w es st = Some (c, st') \<Longrightarrow> c \<in> set es \<and> c \<noteq> []"
  by (auto simp: pickFrom_unfold poolOf_def split: if_splits option.splits prod.splits
      dest!: selectLoop_mem)

lemma pickWeightedSmoothRR_mem:
  "pickWeightedSmoothRR now ws svc es w ttl r = (Some u, r') \<Longrightarrow> u \<in> set es \<and> u \<noteq> []"
  by (auto simp: pickWeightedSmoothRR_def Let_def split: if_splits option.splits dest: pickFrom_mem)

lemma chooseStaffWithRR_mem:
  "chooseStaffWithRR now ws svc s e es w r = (Some u, r') \<Longrightarrow> u \<in> set es \<and> u \<noteq> []"
  by (auto simp: chooseStaffWithRR_def split: if_splits prod.splits bool.splits
      dest: pickWeightedSmoothRR_mem)

interpretation rr: staff_chooser "\<lambda>es r. chooseStaffWithRR now ws svc s e es w r" for now ws svc s e w
  by unfold_locales (auto dest: chooseStaffWithRR_mem)

section \<open>Services and the assignment mode\<close>

record service_snapshot =
  sv_id :: ident
  sv_name :: "string option"
  sv_price :: "rat option"
  sv_discount :: "rat option"
  sv_duration :: "int option"
  sv_maxParticipants :: "int option"

type_synonym service_by_id = "ident \<rightharpoonup> service_snapshot"

datatype assignment_mode = SingleGroup | SingleIndividual | MultiIndividual

definition capacityOf :: "service_snapshot option \<Rightarrow> int" where
  "capacityOf snap = max 1 (case snap of None \<Rightarrow> 1 | Some s \<Rightarrow> orElse (sv_maxParticipants s) 1)"

fun getAssignmentMode :: "attendee list \<Rightarrow> service_by_id \<Rightarrow> assignment_mode" where
  "getAssignmentMode [a] serviceById =
     (if capacityOf (serviceById (at_service a)) > 1 then SingleGroup else SingleIndividual)"
| "getAssignmentMode _ serviceById = MultiIndividual"

section \<open>Assignment strategies\<close>

datatype assignment_failure = INVALID_INPUT | NO_STAFF | NO_WINDOW | NO_AVAILABILITY

type_synonym assignment_result = "assignment_failure + segment list"

type_synonym 'r chooser =
  "ident \<Rightarrow> ident \<Rightarrow> instant \<Rightarrow> instant \<Rightarrow> ident list \<Rightarrow> (ident \<Rightarrow> rat option) \<Rightarrow> 'r \<Rightarrow> ident option \<times> 'r"

record strategy_input =
  si_workspace :: ident
  si_tz :: ident
  si_start :: instant
  si_attendees :: "attendee list"
  si_services :: service_by_id
  si_users :: "ident \<rightharpoonup> ident list"
  si_windows :: "ident \<rightharpoonup> window list"
  si_weights :: "ident \<Rightarrow> rat option"

text \<open>\<open>userIdsByService.get(id) ?? []\<close> filtered to those with a window around the slot.\<close>

definition eligibleAvailable :: "strategy_input \<Rightarrow> ident \<Rightarrow> instant \<Rightarrow> instant \<Rightarrow> ident list" where
  "eligibleAvailable inp svc s e =
     filter (\<lambda>uid. fitsWindow (orElse (si_windows inp uid) []) s e) (orElse (si_users inp svc) [])"

fun singleGroupExecute :: "tzlib \<Rightarrow> 'r chooser \<Rightarrow> strategy_input \<Rightarrow> 'r \<Rightarrow> assignment_result \<times> 'r" where
  "singleGroupExecute Z pickStaff inp r =
     (case si_attendees inp of
        [a] \<Rightarrow>
          (let endWS = addMinutes (si_start inp) (at_duration a) in
           case pickStaff (si_workspace inp) (at_service a) (si_start inp) endWS
                  (eligibleAvailable inp (at_service a) (si_start inp) endWS) (si_weights inp) r of
             (selectedStaff, r') \<Rightarrow>
               (case selectedStaff of
                  Some (c # cs) \<Rightarrow>
                    (Inr [\<lparr>sg_service = at_service a, sg_user = c # cs,
                           sg_start = z_floor Z (si_tz inp) (si_start inp),
                           sg_end = z_floor Z (si_tz inp) endWS\<rparr>], r')
                | _ \<Rightarrow> (Inl NO_STAFF, r')))
      | _ \<Rightarrow> (Inl INVALID_INPUT, r))"

fun singleIndividualExecute :: "tzlib \<Rightarrow> 'r chooser \<Rightarrow> strategy_input \<Rightarrow> 'r \<Rightarrow> assignment_result \<times> 'r" where
  "singleIndividualExecute Z pickStaff inp r =
     (case si_attendees inp of
        [a] \<Rightarrow>
          (let endWS = addMinutes (si_start inp) (at_duration a) in
           case pickStaff (si_workspace inp) (at_service a) (si_start inp) endWS
                  (eligibleAvailable inp (at_service a) (si_start inp) endWS) (si_weights inp) r of
             (selectedStaff, r') \<Rightarrow>
               (case selectedStaff of
                  Some (c # cs) \<Rightarrow>
                    (Inr [\<lparr>sg_service = at_service a, sg_user = c # cs,
                           sg_start = z_floor Z (si_tz inp) (si_start inp),
                           sg_end = z_floor Z (si_tz inp) endWS\<rparr>], r')
                | _ \<Rightarrow> (Inl NO_STAFF, r')))
      | _ \<Rightarrow> (Inl INVALID_INPUT, r))"

text \<open>The record \<open>eligibleUsersByService\<close> filled by the second loop.\<close>

fun fillEligible :: "(ident \<rightharpoonup> ident list) \<Rightarrow> attendee list \<Rightarrow> (ident \<rightharpoonup> ident list) \<Rightarrow> (ident \<rightharpoonup> ident list)" where
  "fillEligible users [] m = m"
| "fillEligible users (a # as) m =
     fillEligible users as (m(at_service a \<mapsto> orElse (users (at_service a)) []))"

definition multiIndividualExecute :: "tzlib \<Rightarrow> strategy_input \<Rightarrow> assignment_result" where
  "multiIndividualExecute Z inp =
     (if \<not> list_all (\<lambda>a. hasAnyAvailableWindow (orElse (si_users inp (at_service a)) [])
               (si_windows inp) (at_duration a)) (si_attendees inp)
      then Inl NO_WINDOW
      else (let ctx = \<lparr>ac_start = z_floor Z (si_tz inp) (si_start inp),
                        ac_eligible = fillEligible (si_users inp) (si_attendees inp) Map.empty,
                        ac_windows = si_windows inp\<rparr>
            in case assignSeq Z (si_tz inp) ctx [] (si_attendees inp) [] [] of
                 (hasAvailability, _, assignmentBuffer) \<Rightarrow>
                   if \<not> hasAvailability then Inl NO_AVAILABILITY else Inr assignmentBuffer))"

definition executeStrategy ::
  "tzlib \<Rightarrow> 'r chooser \<Rightarrow> assignment_mode \<Rightarrow> strategy_input \<Rightarrow> 'r \<Rightarrow> assignment_result \<times> 'r" where
  "executeStrategy Z pickStaff mode inp r =
     (case mode of
        SingleGroup \<Rightarrow> singleGroupExecute Z pickStaff inp r
      | SingleIndividual \<Rightarrow> singleIndividualExecute Z pickStaff inp r
      | MultiIndividual \<Rightarrow> (multiIndividualExecute Z inp, r))"

lemma single_strategies_agree: "singleGroupExecute Z pickStaff inp r = singleIndividualExecute Z pickStaff inp r"
  by simp

lemma fillEligible_lookup:
  "fillEligible users as m svc =
     (if svc \<in> at_service ` set as then Some (orElse (users svc) []) else m svc)"
  by (induction as arbitrary: m) auto

section \<open>Update-flow strategies\<close>

datatype update_flow = PureClassEdit | FastPathSingle | RebuildBooking

record update_flow_context =
  fc_isPureClassEdit :: bool
  fc_fastPathSingle :: bool

fun canHandle :: "update_flow \<Rightarrow> update_flow_context \<Rightarrow> bool" where
  "canHandle PureClassEdit ctx = fc_isPureClassEdit ctx"
| "canHandle FastPathSingle ctx = fc_fastPathSingle ctx"
| "canHandle RebuildBooking ctx = True"

record 'a update_flow_executors =
  runPureClassEdit :: 'a
  runFastPathSingle :: 'a
  runRebuildBooking :: 'a

fun executeFlow :: "update_flow \<Rightarrow> 'a update_flow_executors \<Rightarrow> 'a" where
  "executeFlow PureClassEdit ex = runPureClassEdit ex"
| "executeFlow FastPathSingle ex = runFastPathSingle ex"
| "executeFlow RebuildBooking ex = runRebuildBooking ex"

definition resolveUpdateFlowStrategy :: "update_flow list \<Rightarrow> update_flow_context \<Rightarrow> app_error + update_flow" where
  "resolveUpdateFlowStrategy strategies ctx =
     (case List.find (\<lambda>c. canHandle c ctx) strategies of
        None \<Rightarrow> Inl (CatalogError BOOKING_ERR_UNEXPECTED
                       ''No update flow strategy matched the current context'')
      | Some s \<Rightarrow> Inr s)"

definition updateFlowStrategies :: "update_flow list" where
  "updateFlowStrategies = [PureClassEdit, FastPathSingle, RebuildBooking]"

lemma resolve_default:
  "resolveUpdateFlowStrategy updateFlowStrategies ctx =
     Inr (if fc_isPureClassEdit ctx then PureClassEdit
          else if fc_fastPathSingle ctx then FastPathSingle else RebuildBooking)"
  by (simp add: resolveUpdateFlowStrategy_def updateFlowStrategies_def)

section \<open>Properties\<close>

text \<open>The flow of an update is the class edit when the context says so, otherwise the edit
  in place when the request has one segment, otherwise the rebuild; the error branch of the resolver
  is not reachable with the registered strategies.\<close>

theorem update_flow_resolution:
  "resolveUpdateFlowStrategy updateFlowStrategies ctx =
     Inr (if fc_isPureClassEdit ctx then PureClassEdit
          else if fc_fastPathSingle ctx then FastPathSingle else RebuildBooking)"
  by (rule resolve_default)

text \<open>With one attendee, whoever the strategy assigns is eligible for the service and has a
  window around the slot, and the segment is the slot cut to the minute.\<close>

theorem single_assignment_valid:
  assumes "si_attendees inp = [a]"
    and "singleIndividualExecute Z (chooseStaffWithRR now) inp r = (Inr segs, r')"
  shows "\<exists>u. segs = [\<lparr>sg_service = at_service a, sg_user = u, sg_start = z_floor Z (si_tz inp) (si_start inp),
       sg_end = z_floor Z (si_tz inp) (addMinutes (si_start inp) (at_duration a))\<rparr>] \<and>
     u \<in> set (orElse (si_users inp (at_service a)) []) \<and>
     fitsWindow (orElse (si_windows inp u) []) (si_start inp) (addMinutes (si_start inp) (at_duration a))"
proof -
  obtain c cs r1 where p: "chooseStaffWithRR now (si_workspace inp) (at_service a) (si_start inp)
      (addMinutes (si_start inp) (at_duration a))
      (eligibleAvailable inp (at_service a) (si_start inp) (addMinutes (si_start inp) (at_duration a)))
      (si_weights inp) r = (Some (c # cs), r1)"
    and segs: "segs = [\<lparr>sg_service = at_service a, sg_user = c # cs,
       sg_start = z_floor Z (si_tz inp) (si_start inp),
       sg_end = z_floor Z (si_tz inp) (addMinutes (si_start inp) (at_duration a))\<rparr>]"
    using assms by (auto simp: Let_def split: prod.splits option.splits list.splits)
  from rr.choose_filter[OF p[unfolded eligibleAvailable_def]] segs show ?thesis by blast
qed

theorem single_assignment_valid_witness:
  "\<exists>segs r'. singleIndividualExecute utc_tz (chooseStaffWithRR 0)
     \<lparr>si_workspace = ''w'', si_tz = ''UTC'', si_start = 0,
      si_attendees = [\<lparr>at_service = ''s'', at_duration = 30, at_staff = None, at_category = None\<rparr>],
      si_services = Map.empty, si_users = [''s'' \<mapsto> [''ana'']], si_windows = [''ana'' \<mapsto> [win 0 3600000]],
      si_weights = (\<lambda>_. None)\<rparr> \<lparr>rd_enabled = True, rd_store = Map.empty\<rparr> = (Inr segs, r') \<and>
     map sg_user segs = [''ana'']"
proof -
  let ?a = "\<lparr>at_service = ''s'', at_duration = 30, at_staff = None, at_category = None\<rparr>"
  let ?i = "\<lparr>si_workspace = ''w'', si_tz = ''UTC'', si_start = 0, si_attendees = [?a],
      si_services = Map.empty, si_users = [''s'' \<mapsto> [''ana'']], si_windows = [''ana'' \<mapsto> [win 0 3600000]],
      si_weights = (\<lambda>_. None)\<rparr>"
  let ?res = "singleIndividualExecute utc_tz (chooseStaffWithRR 0) ?i \<lparr>rd_enabled = True, rd_store = Map.empty\<rparr>"
  have "case fst ?res of Inr _ \<Rightarrow> True | Inl _ \<Rightarrow> False" by code_simp
  then obtain segs r' where r: "?res = (Inr segs, r')" by (cases ?res) (auto split: sum.splits)
  from single_assignment_valid[OF _ r, of ?a] r show ?thesis by auto
qed

end
