(* ===== verification/CalDb.thy ===== *)
theory CalDb
  imports CalDomain
begin

text \<open>
  The tables the services read and write (\<open>prisma/schema.prisma\<close>): events, groups of events
  (the bookings), participants and recurrence rules, as lists of rows in the order the server returns them, and the
  supply of generated identifiers. A transaction is a computation on this state; its error value
  carries no state, so a throw rolls everything back. Columns no modelled code writes or reads
  (audit dates, encryption versions) are left out.
\<close>

section \<open>Rows\<close>

datatype event_status = PENDING | ACCEPTED | CONFIRMED | COMPLETED | CANCELLED
  | CANCELLED_BY_CLIENT | CANCELLED_BY_CLIENT_REMOVED | PAID | NO_SHOW

datatype source_type = PLATFORM | WEB | WIDGET | GOOGLE | BOT

datatype purpose_type = APPOINTMENT | VACATION | SICK_LEAVE | PERSONAL_DAY | UNPAID_LEAVE
  | TEMPORARY_BLOCK | OTHER

definition CANCELLED_STATES :: "event_status list" where
  "CANCELLED_STATES = [CANCELLED_BY_CLIENT, CANCELLED_BY_CLIENT_REMOVED, CANCELLED]"

record event_row =
  ev_id :: ident
  ev_group :: ident
  ev_company :: ident
  ev_title :: string
  ev_service :: "ident option"
  ev_user :: "ident option"
  ev_start :: instant
  ev_end :: instant
  ev_purpose :: purpose_type
  ev_nameSnap :: "string option"
  ev_priceSnap :: "rat option"
  ev_discountSnap :: "rat option"
  ev_durationSnap :: "int option"
  ev_maxPartSnap :: "int option"
  ev_deleted :: "instant option"
  ev_description :: "string option"
  ev_allDay :: bool
  ev_rule :: "ident option"

record group_row =
  gr_id :: ident
  gr_title :: string
  gr_company :: ident
  gr_workspace :: ident
  gr_start :: instant
  gr_end :: instant
  gr_comment :: "string option"
  gr_commentRead :: bool
  gr_status :: event_status
  gr_tz :: ident
  gr_source :: source_type
  gr_description :: "string option"
  gr_editable :: bool
  gr_updates :: "int option"
  gr_notifies :: bool
  gr_deleted :: "instant option"

record participant_row =
  pt_id :: ident
  pt_group :: ident
  pt_client :: "ident option"
  pt_clientWs :: "ident option"
  pt_status :: event_status
  pt_deleted :: "instant option"

record db =
  events :: "event_row list"
  groups :: "group_row list"
  participants :: "participant_row list"
  rules :: "ident list"  \<comment> \<open>the identifiers of the recurrence rules\<close>
  idSupply :: "nat \<Rightarrow> ident"  \<comment> \<open>the identifiers \<open>uuid()\<close> will return\<close>
  nextId :: nat

type_synonym 'a tx = "(db, 'a) comp"

definition freshId :: "ident tx" where
  "freshId = (\<lambda>d. Inr (idSupply d (nextId d), d\<lparr>nextId := Suc (nextId d)\<rparr>))"

section \<open>Reading\<close>

definition groupById :: "db \<Rightarrow> ident \<Rightarrow> group_row option" where
  "groupById d g = List.find (\<lambda>x. gr_id x = g) (groups d)"

definition eventById :: "db \<Rightarrow> ident \<Rightarrow> event_row option" where
  "eventById d i = List.find (\<lambda>x. ev_id x = i) (events d)"

text \<open>A filter \<open>groupEvents: { ... }\<close> on an event is a condition on its group.\<close>

definition groupSat :: "db \<Rightarrow> (group_row \<Rightarrow> bool) \<Rightarrow> event_row \<Rightarrow> bool" where
  "groupSat d P e = (case groupById d (ev_group e) of None \<Rightarrow> False | Some g \<Rightarrow> P g)"

text \<open>\<open>eventParticipant: { where: { deletedDate: null } }\<close> of a group\<close>

definition activeParticipants :: "db \<Rightarrow> ident \<Rightarrow> participant_row list" where
  "activeParticipants d g = filter (\<lambda>p. pt_group p = g \<and> pt_deleted p = None) (participants d)"

section \<open>Writing\<close>

definition updateWhere :: "('a \<Rightarrow> bool) \<Rightarrow> ('a \<Rightarrow> 'a) \<Rightarrow> 'a list \<Rightarrow> 'a list" where
  "updateWhere P f xs = map (\<lambda>x. if P x then f x else x) xs"

definition updateManyEvents :: "(event_row \<Rightarrow> bool) \<Rightarrow> (event_row \<Rightarrow> event_row) \<Rightarrow> unit tx" where
  "updateManyEvents P f = modState (\<lambda>d. d\<lparr>events := updateWhere P f (events d)\<rparr>)"

definition updateManyParticipants ::
  "(participant_row \<Rightarrow> bool) \<Rightarrow> (participant_row \<Rightarrow> participant_row) \<Rightarrow> unit tx" where
  "updateManyParticipants P f = modState (\<lambda>d. d\<lparr>participants := updateWhere P f (participants d)\<rparr>)"

text \<open>\<open>update\<close> by id throws P2025 when there is no such row.\<close>

definition updateEvent :: "ident \<Rightarrow> (event_row \<Rightarrow> event_row) \<Rightarrow> event_row tx" where
  "updateEvent i f = (\<lambda>d.
     case eventById d i of
       None \<Rightarrow> Inl (PrismaError ''P2025'')
     | Some e \<Rightarrow> Inr (f e, d\<lparr>events := updateWhere (\<lambda>x. ev_id x = i) f (events d)\<rparr>))"

definition updateGroup :: "ident \<Rightarrow> (group_row \<Rightarrow> group_row) \<Rightarrow> unit tx" where
  "updateGroup i f = (\<lambda>d.
     if groupById d i = None then Inl (PrismaError ''P2025'')
     else Inr ((), d\<lparr>groups := updateWhere (\<lambda>x. gr_id x = i) f (groups d)\<rparr>))"

definition createEvent :: "event_row \<Rightarrow> event_row tx" where
  "createEvent e = andThen freshId (\<lambda>i. \<lambda>d.
     let e' = e\<lparr>ev_id := i\<rparr> in Inr (e', d\<lparr>events := events d @ [e']\<rparr>))"

definition createParticipant :: "participant_row \<Rightarrow> unit tx" where
  "createParticipant p = andThen freshId (\<lambda>i.
     modState (\<lambda>d. d\<lparr>participants := participants d @ [p\<lparr>pt_id := i\<rparr>]\<rparr>))"

text \<open>\<open>create\<close> with an optional explicit id.\<close>

definition createGroup :: "ident option \<Rightarrow> group_row \<Rightarrow> group_row tx" where
  "createGroup gid g = andThen (case gid of Some i \<Rightarrow> ret i | None \<Rightarrow> freshId) (\<lambda>i. \<lambda>d.
     let g' = g\<lparr>gr_id := i\<rparr> in Inr (g', d\<lparr>groups := groups d @ [g']\<rparr>))"

section \<open>Lemmas on the tables\<close>

lemma updateWhere_simps [simp]:
  "length (updateWhere P f xs) = length xs"
  "updateWhere P f [] = []"
  "updateWhere P f (x # xs) = (if P x then f x else x) # updateWhere P f xs"
  "updateWhere P f (xs @ ys) = updateWhere P f xs @ updateWhere P f ys"
  by (simp_all add: updateWhere_def)

lemma set_updateWhere: "set (updateWhere P f xs) = (\<lambda>x. if P x then f x else x) ` set xs"
  by (simp add: updateWhere_def)

lemma map_updateWhere_same: "(\<And>x. k (f x) = k x) \<Longrightarrow> map k (updateWhere P f xs) = map k xs"
  by (induction xs) auto

lemma groupById_Some: "groupById d g = Some r \<Longrightarrow> r \<in> set (groups d) \<and> gr_id r = g"
  unfolding groupById_def by (rule find_Some_D)

lemma eventById_Some: "eventById d i = Some e \<Longrightarrow> e \<in> set (events d) \<and> ev_id e = i"
  unfolding eventById_def by (rule find_Some_D)

lemma groupById_None: "groupById d g = None \<longleftrightarrow> g \<notin> gr_id ` set (groups d)"
  unfolding groupById_def find_None_iff_all by auto

lemma eventById_None: "eventById d i = None \<longleftrightarrow> i \<notin> ev_id ` set (events d)"
  unfolding eventById_def find_None_iff_all by auto

lemma find_append: "List.find P (xs @ ys) = (case List.find P xs of None \<Rightarrow> List.find P ys | Some x \<Rightarrow> Some x)"
  by (induction xs) auto

lemma find_updateWhere_key:
  assumes "\<And>x. k (f x) = k x"
  shows "List.find (\<lambda>x. k x = i) (updateWhere P f xs) =
     map_option (\<lambda>x. if P x then f x else x) (List.find (\<lambda>x. k x = i) xs)"
  by (induction xs) (auto simp: assms)

lemma groupById_cong [simp]:
  "groupById (d\<lparr>events := es\<rparr>) g = groupById d g"
  "groupById (d\<lparr>participants := ps\<rparr>) g = groupById d g"
  "groupById (d\<lparr>nextId := n\<rparr>) g = groupById d g"
  by (simp_all add: groupById_def)

lemma groupSat_cong [simp]:
  "groupSat (d\<lparr>events := es\<rparr>) P e = groupSat d P e"
  "groupSat (d\<lparr>participants := ps\<rparr>) P e = groupSat d P e"
  "groupSat (d\<lparr>nextId := n\<rparr>) P e = groupSat d P e"
  by (simp_all add: groupSat_def)

lemma groupSat_Some: "groupById d (ev_group e) = Some g \<Longrightarrow> groupSat d P e = P g"
  by (simp add: groupSat_def)

section \<open>Well-formed databases\<close>

text \<open>Keys are unique, references have their target, and the supply of identifiers is fresh: what
  the primary and foreign keys of the schema and \<open>uuid()\<close> guarantee.\<close>

definition freshSupply :: "db \<Rightarrow> bool" where
  "freshSupply d \<longleftrightarrow>
     (\<forall>n \<ge> nextId d. idSupply d n \<notin>
        ev_id ` set (events d) \<union> gr_id ` set (groups d) \<union> pt_id ` set (participants d)) \<and>
     (\<forall>m \<ge> nextId d. \<forall>n \<ge> nextId d. idSupply d m = idSupply d n \<longrightarrow> m = n)"

definition wfDb :: "db \<Rightarrow> bool" where
  "wfDb d \<longleftrightarrow>
     distinct (map ev_id (events d)) \<and> distinct (map gr_id (groups d)) \<and>
     distinct (map pt_id (participants d)) \<and>
     (\<forall>e \<in> set (events d). ev_group e \<in> gr_id ` set (groups d)) \<and>
     (\<forall>p \<in> set (participants d). pt_group p \<in> gr_id ` set (groups d)) \<and>
     freshSupply d"

named_theorems wf_intros \<open>operations keep the database well-formed\<close>

lemma freshSupply_next:
  "freshSupply d \<Longrightarrow> freshSupply (d\<lparr>nextId := Suc (nextId d)\<rparr>)"
  by (simp add: freshSupply_def)

lemma fresh_notin:
  assumes "freshSupply d" and "nextId d \<le> n"
  shows "idSupply d n \<notin> ev_id ` set (events d)" "idSupply d n \<notin> gr_id ` set (groups d)"
    "idSupply d n \<notin> pt_id ` set (participants d)"
  using assms unfolding freshSupply_def by blast+

lemma fresh_later: "freshSupply d \<Longrightarrow> nextId d < n \<Longrightarrow> idSupply d n \<noteq> idSupply d (nextId d)"
  unfolding freshSupply_def by (metis less_imp_le order_refl less_irrefl)

lemma wf_createEvent [wf_intros]:
  assumes "wfDb d" and "ev_group e \<in> gr_id ` set (groups d)" and "createEvent e d = Inr (e', d')"
  shows "wfDb d'"
proof -
  let ?i = "idSupply d (nextId d)"
  have fs: "freshSupply d" using assms(1) by (simp add: wfDb_def)
  have d': "d' = d\<lparr>nextId := Suc (nextId d), events := events d @ [e\<lparr>ev_id := ?i\<rparr>]\<rparr>"
    using assms(3) by (auto simp: createEvent_def freshId_def andThen_def Let_def)
  have "freshSupply d'" unfolding d' freshSupply_def
    using fresh_notin[OF fs Suc_leD] fresh_later[OF fs Suc_le_lessD] fs
    by (simp add: freshSupply_def)
  then show ?thesis using assms(1,2) fresh_notin(1)[OF fs order_refl]
    by (auto simp: wfDb_def d')
qed

lemma wf_createParticipant [wf_intros]:
  assumes "wfDb d" and "pt_group p \<in> gr_id ` set (groups d)" and "createParticipant p d = Inr (x, d')"
  shows "wfDb d'"
proof -
  let ?i = "idSupply d (nextId d)"
  have fs: "freshSupply d" using assms(1) by (simp add: wfDb_def)
  have d': "d' = d\<lparr>nextId := Suc (nextId d), participants := participants d @ [p\<lparr>pt_id := ?i\<rparr>]\<rparr>"
    using assms(3) by (auto simp: createParticipant_def freshId_def andThen_def)
  have "freshSupply d'" unfolding d' freshSupply_def
    using fresh_notin[OF fs Suc_leD] fresh_later[OF fs Suc_le_lessD] fs
    by (simp add: freshSupply_def)
  then show ?thesis using assms(1,2) fresh_notin(3)[OF fs order_refl]
    by (auto simp: wfDb_def d')
qed

lemma wf_updateManyEvents [wf_intros]:
  assumes "wfDb d" and "\<And>e. ev_id (f e) = ev_id e"
    and "\<And>e. e \<in> set (events d) \<Longrightarrow> P e \<Longrightarrow> ev_group (f e) \<in> gr_id ` set (groups d)"
    and "updateManyEvents P f d = Inr (x, d')"
  shows "wfDb d'"
proof -
  have ids: "map ev_id (updateWhere P f (events d)) = map ev_id (events d)"
    by (rule map_updateWhere_same) (rule assms(2))
  then have "ev_id ` set (updateWhere P f (events d)) = ev_id ` set (events d)"
    by (metis list.set_map)
  moreover have "d' = d\<lparr>events := updateWhere P f (events d)\<rparr>"
    using assms(4) by (simp add: updateManyEvents_def)
  ultimately show ?thesis
    using assms(1,3) ids by (auto simp: wfDb_def freshSupply_def set_updateWhere)
qed

lemma wf_updateManyParticipants [wf_intros]:
  assumes "wfDb d" and "\<And>p. pt_id (f p) = pt_id p" and "\<And>p. pt_group (f p) = pt_group p"
    and "updateManyParticipants P f d = Inr (x, d')"
  shows "wfDb d'"
proof -
  have ids: "map pt_id (updateWhere P f (participants d)) = map pt_id (participants d)"
    by (rule map_updateWhere_same) (rule assms(2))
  then have "pt_id ` set (updateWhere P f (participants d)) = pt_id ` set (participants d)"
    by (metis list.set_map)
  moreover have "d' = d\<lparr>participants := updateWhere P f (participants d)\<rparr>"
    using assms(4) by (simp add: updateManyParticipants_def)
  ultimately show ?thesis
    using assms(1,3) ids by (auto simp: wfDb_def freshSupply_def set_updateWhere)
qed

lemma updateEvent_as_many:
  "updateEvent i f d = Inr (e', d') \<Longrightarrow>
     (\<exists>e. eventById d i = Some e \<and> e' = f e) \<and>
     updateManyEvents (\<lambda>x. ev_id x = i) f d = Inr ((), d')"
  by (auto simp: updateEvent_def updateManyEvents_def split: option.splits)

lemma wf_updateEvent [wf_intros]:
  assumes "wfDb d" and "\<And>e. ev_id (f e) = ev_id e"
    and "\<And>e. e \<in> set (events d) \<Longrightarrow> ev_id e = i \<Longrightarrow> ev_group (f e) \<in> gr_id ` set (groups d)"
    and "updateEvent i f d = Inr (x, d')"
  shows "wfDb d'"
  using wf_updateManyEvents[OF assms(1,2), of "\<lambda>x. ev_id x = i"] assms(3)
    updateEvent_as_many[OF assms(4)] by blast

lemma updateGroup_Inr:
  "updateGroup i f d = Inr (x, d') \<longleftrightarrow>
     groupById d i \<noteq> None \<and> d' = d\<lparr>groups := updateWhere (\<lambda>x. gr_id x = i) f (groups d)\<rparr>"
  by (auto simp: updateGroup_def)

lemma updateGroup_ids:
  assumes "\<And>g. gr_id (f g) = gr_id g" and "updateGroup i f d = Inr (x, d')"
  shows "map gr_id (groups d') = map gr_id (groups d)"
  using assms(2) map_updateWhere_same[of gr_id f, OF assms(1)] by (simp add: updateGroup_Inr)

lemma wf_updateGroup [wf_intros]:
  assumes "wfDb d" and "\<And>g. gr_id (f g) = gr_id g" and "updateGroup i f d = Inr (x, d')"
  shows "wfDb d'"
proof -
  have ids: "map gr_id (groups d') = map gr_id (groups d)" by (rule updateGroup_ids[OF assms(2,3)])
  then have "gr_id ` set (groups d') = gr_id ` set (groups d)" by (metis list.set_map)
  with ids assms(1,3) show ?thesis by (auto simp: updateGroup_Inr wfDb_def freshSupply_def)
qed

lemma wf_createGroup [wf_intros]:
  assumes "wfDb d" and "createGroup gid g d = Inr (g', d')"
    and "\<And>i. gid = Some i \<Longrightarrow> i \<notin> gr_id ` set (groups d) \<and> i \<notin> idSupply d ` {nextId d..}"
  shows "wfDb d' \<and> gr_id g' \<in> gr_id ` set (groups d') \<and> gr_id ` set (groups d) \<subseteq> gr_id ` set (groups d')
     \<and> events d' = events d \<and> participants d' = participants d"
proof -
  have fs: "freshSupply d" using assms(1) by (simp add: wfDb_def)
  show ?thesis
  proof (cases gid)
    case None
    let ?i = "idSupply d (nextId d)"
    have d': "d' = d\<lparr>nextId := Suc (nextId d), groups := groups d @ [g\<lparr>gr_id := ?i\<rparr>]\<rparr>"
      and g': "g' = g\<lparr>gr_id := ?i\<rparr>"
      using assms(2) None by (auto simp: createGroup_def freshId_def andThen_def Let_def)
    have "freshSupply d'" unfolding d' freshSupply_def
      using fresh_notin[OF fs Suc_leD] fresh_later[OF fs Suc_le_lessD] fs
      by (simp add: freshSupply_def)
    then show ?thesis using assms(1) fresh_notin(2)[OF fs order_refl]
      by (auto simp: wfDb_def d' g')
  next
    case (Some i)
    have i: "i \<notin> gr_id ` set (groups d)" "\<And>n. nextId d \<le> n \<Longrightarrow> idSupply d n \<noteq> i"
      using assms(3)[OF Some] by auto
    have d': "d' = d\<lparr>groups := groups d @ [g\<lparr>gr_id := i\<rparr>]\<rparr>" and g': "g' = g\<lparr>gr_id := i\<rparr>"
      using assms(2) Some by (auto simp: createGroup_def andThen_def Let_def)
    have "freshSupply d'" unfolding d' freshSupply_def
      using fresh_notin[OF fs] i(2) fs by (simp add: freshSupply_def)
    then show ?thesis using assms(1) i(1) by (auto simp: wfDb_def d' g')
  qed
qed

end
