(* ===== verification/CalAvailability.thy ===== *)
theory CalAvailability
  imports CalDb "HOL-Library.AList"
begin

text \<open>
  What a booking reads before it assigns anybody: the services (with their cache), the
  professionals who can perform each (with theirs), the busy events of the day, the hours, and from
  them the free windows: \<open>getServiceByIds\<close>, \<open>_getServicesSnapshotById\<close>,
  \<open>getUsersWhoCanPerformService_SPECIAL\<close>, \<open>getEventsOverlappingRange_SPECIAL\<close>, and the two
  functions that build the context of a booking, in the create service and in the availability
  service. The HTTP client and the three hours services are parameters (\<open>env\<close>).
\<close>

section \<open>Services and their cache\<close>

record service_brief =
  sb_id :: ident
  sb_name :: string
  sb_price :: "rat option"
  sb_discount :: "rat option"
  sb_duration :: "int option"
  sb_maxParticipants :: "int option"
  sb_isVisible :: "bool option"
  sb_userServices :: "ident option list option"

text \<open>What \<open>cancelEventFromWeb\<close> and \<open>confirmEventFromWeb\<close> return and keep in the process cache.\<close>

record action_result =
  ar_event :: "ident option"
  ar_status :: event_status
  ar_cached :: bool
  ar_changed :: bool

text \<open>The mutable world of a request: the database, the round-robin store, the cache of
  professionals, the cache of services, the cache of actions with its expiry times.\<close>

record world =
  w_db :: db
  w_redis :: redis
  w_usersCache :: "string \<rightharpoonup> ident list"
  w_briefs :: "ident \<rightharpoonup> service_brief"
  w_actions :: "string \<rightharpoonup> action_result \<times> instant"

type_synonym 'a req = "(world, 'a) eff"

text \<open>What the request does not change: the clock, the time-zone functions, the parser of full ISO
  texts, the batch endpoint of the service catalogue (\<open>None\<close> when the call throws), the hours
  services, and whether a cache was passed.\<close>

record env =
  e_tz :: tzlib
  e_now :: instant
  e_parseUtc :: "string \<Rightarrow> instant option"
  e_batch :: "ident list \<Rightarrow> ident \<Rightarrow> service_brief list option"
  e_business :: "ident \<Rightarrow> ident \<Rightarrow> business_hours"
  e_worker :: "ident list \<Rightarrow> ident \<Rightarrow> worker_hours"
  e_temporary :: "ident list \<Rightarrow> ident \<Rightarrow> string \<Rightarrow> temporary_hours"
  e_hasCache :: bool

definition isBlank :: "string \<Rightarrow> bool" where
  "isBlank s \<longleftrightarrow> list_all (\<lambda>c. c \<in> {CHR '' '', CHR 0x09, CHR 0x0A, CHR 0x0B, CHR 0x0C, CHR 0x0D}) s"

definition getServiceByIds :: "env \<Rightarrow> ident list \<Rightarrow> ident \<Rightarrow> service_brief list req" where
  "getServiceByIds E ids idWorkspace =
     (if ids = [] \<or> idWorkspace = [] then eret []
      else let validIds = filter (\<lambda>i. \<not> isBlank i) ids in
        if validIds = [] then eret []
        else ebind (eread w_briefs) (\<lambda>cache.
          let cachedMap = map_of (rev (map (\<lambda>s. (sb_id s, s)) (List.map_filter cache validIds)));
              missingIds = filter (\<lambda>i. cachedMap i = None) validIds
          in if missingIds = [] then eret (List.map_filter cachedMap validIds)
             else case e_batch E missingIds idWorkspace of
               None \<Rightarrow> eret []
             | Some fetched \<Rightarrow>
                 ebind (emod (\<lambda>w. w\<lparr>w_briefs := w_briefs w ++
                     map_of (rev (map (\<lambda>s. (sb_id s, s)) fetched))\<rparr>))
                   (\<lambda>_. eret (List.map_filter
                      (cachedMap ++ map_of (rev (map (\<lambda>s. (sb_id s, s)) fetched))) validIds))))"

text \<open>\<open>_getServicesSnapshotById\<close>. Prices default to 0, the duration to 60, the capacity to 1.\<close>

definition snapshotOf :: "service_brief \<Rightarrow> service_snapshot" where
  "snapshotOf s = \<lparr>sv_id = sb_id s, sv_name = Some (sb_name s),
     sv_price = Some (orElse (sb_price s) 0), sv_discount = Some (orElse (sb_discount s) 0),
     sv_duration = Some (orElse (sb_duration s) 60),
     sv_maxParticipants = Some (orElse (sb_maxParticipants s) 1)\<rparr>"

fun joinWith :: "string \<Rightarrow> string list \<Rightarrow> string" where
  "joinWith sep [] = []"
| "joinWith sep [x] = x"
| "joinWith sep (x # y # ys) = x @ sep @ joinWith sep (y # ys)"

definition getServicesSnapshotById ::
  "env \<Rightarrow> ident \<Rightarrow> ident list \<Rightarrow> bool \<Rightarrow> bool \<Rightarrow> service_by_id req" where
  "getServicesSnapshotById E idWorkspace ids includeInvisible requireAll =
     (let wantedIds = uniq (filter (\<lambda>i. i \<noteq> []) ids) in
      if wantedIds = [] then eret Map.empty
      else ebind (getServiceByIds E wantedIds idWorkspace) (\<lambda>services.
        let visible = filter (\<lambda>s. includeInvisible \<or> sb_isVisible s \<noteq> Some False) services;
            m = map_of (rev (map (\<lambda>s. (sb_id s, snapshotOf s)) visible));
            missing = filter (\<lambda>i. m i = None) wantedIds
        in if requireAll \<and> missing \<noteq> []
           then ethrow (PlainError (''Servicios no encontrados: '' @ joinWith '', '' missing))
           else eret m))"

section \<open>Who can perform a service\<close>

definition usersCacheKey :: "ident \<Rightarrow> ident option \<Rightarrow> ident \<Rightarrow> string" where
  "usersCacheKey idWorkspace idCategory idService =
     ''svc-users:'' @ idWorkspace @ '':'' @ orElse idCategory ''null'' @ '':'' @ idService"

definition cacheUsers :: "env \<Rightarrow> string \<Rightarrow> ident list \<Rightarrow> ident list req" where
  "cacheUsers E key users =
     ebind (emod (\<lambda>w. if e_hasCache E then w\<lparr>w_usersCache := (w_usersCache w)(key \<mapsto> users)\<rparr> else w))
       (\<lambda>_. eret users)"

text \<open>The distinct professionals of the first service returned, none when it is not found.\<close>

definition usersOfServices :: "service_brief list \<Rightarrow> ident list" where
  "usersOfServices services =
     (case services of
        [] \<Rightarrow> []
      | service # _ \<Rightarrow> uniq (List.map_filter (\<lambda>u. if truthy u then u else None)
                          (orElse (sb_userServices service) [])))"

definition getUsersWhoCanPerformService ::
  "env \<Rightarrow> ident \<Rightarrow> ident \<Rightarrow> ident option \<Rightarrow> ident list req" where
  "getUsersWhoCanPerformService E idWorkspace idService idCategory =
     (let key = usersCacheKey idWorkspace idCategory idService in
      ebind (eread (\<lambda>w. if e_hasCache E then w_usersCache w key else None)) (\<lambda>cached.
        case cached of
          Some users \<Rightarrow> eret users
        | None \<Rightarrow>
            ebind (getServiceByIds E [idService] idWorkspace) (\<lambda>services.
              cacheUsers E key (usersOfServices services))))"

text \<open>The \<open>Map\<close> of eligible professionals: setting a key that is present keeps its position, as
  \<open>AList.update\<close> does. A staff member in the request wins over the catalogue.\<close>

fun buildUserIdsByService ::
  "env \<Rightarrow> attendee list \<Rightarrow> ident \<Rightarrow> (ident \<times> ident list) list \<Rightarrow> (ident \<times> ident list) list req" where
  "buildUserIdsByService E [] ws m = eret m"
| "buildUserIdsByService E (a # as) ws m =
     (if truthy (at_staff a)
      then buildUserIdsByService E as ws (AList.update (at_service a) [the (at_staff a)] m)
      else ebind (getUsersWhoCanPerformService E ws (at_service a) (at_category a))
             (\<lambda>users. buildUserIdsByService E as ws (AList.update (at_service a) users m)))"

definition allUserIdsOf :: "(ident \<times> ident list) list \<Rightarrow> ident list" where
  "allUserIdsOf m = uniq (concat (map snd m))"

text \<open>\<open>Object.fromEntries\<close>: the last entry of a key wins; a weight that is not finite (\<open>None\<close>)
  counts as 100. \<open>bookingConfig.resources.ids\<close> is \<open>None\<close> when it is not an array.\<close>

definition buildWeightsMap :: "(ident \<times> rat option) list option \<Rightarrow> (ident \<Rightarrow> rat option)" where
  "buildWeightsMap rawIds = map_of (rev (map (\<lambda>(i, w). (i, orElse w 100)) (orElse rawIds [])))"

section \<open>Busy events of a range\<close>

definition utcDay :: "string \<Rightarrow> instant option" where
  "utcDay s = utcParse (s @ ''T00:00:00'')"

definition rangeStart :: "env \<Rightarrow> string \<Rightarrow> instant option" where
  "rangeStart E s = (if length s > 10 then e_parseUtc E s else utcDay s)"

definition rangeEnd :: "env \<Rightarrow> string \<Rightarrow> instant option" where
  "rangeEnd E s = (if length s > 10 then e_parseUtc E s
                   else map_option (\<lambda>t. t + (day_ms - 1)) (utcDay s))"

definition busyOf :: "event_row \<Rightarrow> busy_event" where
  "busyOf e = \<lparr>be_id = ev_id e, be_user = the (ev_user e), be_start = ev_start e, be_end = ev_end e\<rparr>"

text \<open>The rows of \<open>getEventsOverlappingRange_SPECIAL\<close>: an invalid date makes the query throw. There
  is no condition on \<open>deletedDate\<close>.\<close>

definition blocksAvailability :: "db \<Rightarrow> ident \<Rightarrow> ident list \<Rightarrow> ident option \<Rightarrow> event_row \<Rightarrow> bool" where
  "blocksAvailability d idWorkspace userIds excludeEventId e \<longleftrightarrow>
     (case ev_user e of None \<Rightarrow> False | Some u \<Rightarrow> u \<in> set userIds)
     \<and> groupSat d (\<lambda>g. gr_workspace g = idWorkspace \<and> gr_status g \<notin> set CANCELLED_STATES) e
     \<and> (truthy excludeEventId \<longrightarrow> ev_id e \<noteq> the excludeEventId)"

definition getEventsOverlappingRange ::
  "env \<Rightarrow> ident \<Rightarrow> ident list \<Rightarrow> string \<Rightarrow> string \<Rightarrow> ident option \<Rightarrow> busy_event list req" where
  "getEventsOverlappingRange E idWorkspace userIds startISOOrDay endISOOrDay excludeEventId =
     (if userIds = [] then eret []
      else (\<lambda>w. case (rangeStart E startISOOrDay, rangeEnd E endISOOrDay) of
          (Some s, Some e) \<Rightarrow>
            (Inr (map busyOf (sort_key ev_start (filter
              (\<lambda>x. ev_start x < e \<and> ev_end x > s \<and>
                   blocksAvailability (w_db w) idWorkspace userIds excludeEventId x)
              (events (w_db w))))), w)
        | _ \<Rightarrow> (Inl (PrismaError ''Invalid Date''), w)))"

section \<open>The context of a booking\<close>

record context_input =
  ci_company :: ident
  ci_workspace :: ident
  ci_date :: string
  ci_start :: instant
  ci_isToday :: bool
  ci_rounded :: instant
  ci_attendees :: "attendee list"
  ci_tz :: ident
  ci_weights :: "(ident \<times> rat option) list option"
  ci_exclude :: "ident option"
  ci_ignored :: "ident list option"
  ci_preServices :: "service_by_id option"
  ci_preWeights :: "(ident \<Rightarrow> rat option) option"

record booking_ctx =
  bc_users :: "(ident \<times> ident list) list"
  bc_allUsers :: "ident list"
  bc_windows :: "ident \<rightharpoonup> window list"
  bc_services :: service_by_id
  bc_weights :: "ident \<Rightarrow> rat option"

text \<open>The loops over \<open>allUserIds\<close> that both functions contain: the shifts, then the free
  windows.\<close>

definition windowsByUser ::
  "env \<Rightarrow> context_input \<Rightarrow> ident list \<Rightarrow> busy_event list \<Rightarrow> (ident \<rightharpoonup> window list)" where
  "windowsByUser E inp allUserIds evs =
     (let weekDay = z_weekday (e_tz E) (ci_tz inp) (ci_start inp);
          shiftsByUserLocal = buildShiftsByUser (e_tz E) allUserIds (ci_date inp) (ci_tz inp) weekDay
            (e_business E (ci_company inp) (ci_workspace inp))
            (e_worker E allUserIds (ci_workspace inp))
            (e_temporary E allUserIds (ci_workspace inp) (ci_date inp)) None;
          eventsByUser = groupEventsByUser Map.empty evs
      in map_of (map (\<lambda>u. (u, freeWindows (ci_isToday inp) (ci_rounded inp)
           (orElse (shiftsByUserLocal u) []) (busyOfUser eventsByUser u))) allUserIds))"

text \<open>\<open>_buildAvailabilityContext\<close> of the create service.\<close>

definition buildAvailabilityContext :: "env \<Rightarrow> context_input \<Rightarrow> booking_ctx option req" where
  "buildAvailabilityContext E inp =
     ebind (buildUserIdsByService E (ci_attendees inp) (ci_workspace inp) []) (\<lambda>userIdsByService.
       let allUserIds = allUserIdsOf userIdsByService in
       if \<not> hasAnyProfessional allUserIds then eret None
       else ebind (getEventsOverlappingRange E (ci_workspace inp) allUserIds (ci_date inp)
               (ci_date inp) (ci_exclude inp)) (\<lambda>evs.
         ebind (getServicesSnapshotById E (ci_workspace inp) (map at_service (ci_attendees inp))
               False True) (\<lambda>serviceById.
           eret (Some \<lparr>bc_users = userIdsByService, bc_allUsers = allUserIds,
             bc_windows = windowsByUser E inp allUserIds evs, bc_services = serviceById,
             bc_weights = buildWeightsMap (ci_weights inp)\<rparr>))))"

text \<open>\<open>buildContext\<close> of the availability service: it can ignore some busy events, and services and
  weights can be given.\<close>

definition buildContext :: "env \<Rightarrow> context_input \<Rightarrow> booking_ctx option req" where
  "buildContext E inp =
     ebind (buildUserIdsByService E (ci_attendees inp) (ci_workspace inp) []) (\<lambda>userIdsByService.
       let allUserIds = allUserIdsOf userIdsByService in
       if \<not> hasAnyProfessional allUserIds then eret None
       else ebind (getEventsOverlappingRange E (ci_workspace inp) allUserIds (ci_date inp)
               (ci_date inp) (ci_exclude inp)) (\<lambda>overlappingEvents.
         let evs = filter (\<lambda>e. be_id e \<notin> set (orElse (ci_ignored inp) [])) overlappingEvents in
         ebind (case ci_preServices inp of
                    Some m \<Rightarrow> eret m
                  | None \<Rightarrow> getServicesSnapshotById E (ci_workspace inp)
                      (map at_service (ci_attendees inp)) False True) (\<lambda>serviceById.
           eret (Some \<lparr>bc_users = userIdsByService, bc_allUsers = allUserIds,
             bc_windows = windowsByUser E inp allUserIds evs, bc_services = serviceById,
             bc_weights = orElse (ci_preWeights inp) (buildWeightsMap (ci_weights inp))\<rparr>))))"

section \<open>Lemmas\<close>

lemma map_of_rev_key: "map_of (rev (map (\<lambda>s. (k s, g s)) xs)) i = Some y \<Longrightarrow> \<exists>s \<in> set xs. k s = i \<and> y = g s"
  by (auto dest!: map_of_SomeD)

lemma map_of_rev_None: "map_of (rev (map (\<lambda>s. (k s, g s)) xs)) i = None \<longleftrightarrow> i \<notin> k ` set xs"
  by (auto simp: map_of_eq_None_iff image_image)

lemma set_map_filter_iff: "y \<in> set (List.map_filter f xs) \<longleftrightarrow> (\<exists>x \<in> set xs. f x = Some y)"
  by (induction xs) (auto simp: List.map_filter_simps split: option.splits)

text \<open>The reading steps leave the database alone, whether they return or throw.\<close>

named_theorems keeps_db \<open>steps that do not change the database\<close>

lemma keeps_basic [keeps_db]:
  "w_db (snd (eret x w)) = w_db w" "w_db (snd (ethrow e w)) = w_db w" "w_db (snd (eread f w)) = w_db w"
  by simp_all

lemma getServiceByIds_db [keeps_db]: "w_db (snd (getServiceByIds E ids ws w)) = w_db w"
  unfolding getServiceByIds_def
  by (auto simp: Let_def ebind_def split: option.splits)

lemma getServicesSnapshotById_db [keeps_db]:
  "w_db (snd (getServicesSnapshotById E ws ids v r w)) = w_db w"
  unfolding getServicesSnapshotById_def Let_def
  by (auto simp: keeps_db intro!: ebind_keeps[where k = w_db])

lemma cacheUsers_db [keeps_db]: "w_db (snd (cacheUsers E k us w)) = w_db w"
  by (auto simp: cacheUsers_def ebind_def)

lemma getUsersWhoCanPerformService_db [keeps_db]:
  "w_db (snd (getUsersWhoCanPerformService E ws svc cat w)) = w_db w"
  unfolding getUsersWhoCanPerformService_def Let_def
  by (auto simp: keeps_db intro!: ebind_keeps[where k = w_db] split: option.splits)

lemma buildUserIdsByService_db [keeps_db]: "w_db (snd (buildUserIdsByService E as ws m w)) = w_db w"
  by (induction as arbitrary: m w)
    (auto simp: keeps_db intro!: ebind_keeps[where k = w_db])

lemma getEventsOverlappingRange_Inr:
  "getEventsOverlappingRange E ws us s e ex w = (Inr x, w') \<Longrightarrow> us \<noteq> [] \<Longrightarrow>
     w' = w \<and> (\<exists>t0 t1. rangeStart E s = Some t0 \<and> rangeEnd E e = Some t1 \<and>
       x = map busyOf (sort_key ev_start (filter (\<lambda>y. ev_start y < t1 \<and> ev_end y > t0 \<and>
             blocksAvailability (w_db w) ws us ex y) (events (w_db w)))))"
  by (auto simp: getEventsOverlappingRange_def split: option.splits)

lemma getEventsOverlappingRange_db [keeps_db]:
  "w_db (snd (getEventsOverlappingRange E ws us s e ex w)) = w_db w"
  by (auto simp: getEventsOverlappingRange_def split: option.splits)

lemma buildContext_db [keeps_db]: "w_db (snd (buildContext E inp w)) = w_db w"
  unfolding buildContext_def Let_def
  by (auto simp: keeps_db intro!: ebind_keeps[where k = w_db] split: option.splits)

lemma buildAvailabilityContext_db [keeps_db]: "w_db (snd (buildAvailabilityContext E inp w)) = w_db w"
  unfolding buildAvailabilityContext_def Let_def
  by (auto simp: keeps_db intro!: ebind_keeps[where k = w_db])

text \<open>The two functions agree when nothing is ignored or preloaded.\<close>

lemma buildContext_plain:
  assumes "ci_ignored inp = None" "ci_preServices inp = None" "ci_preWeights inp = None"
  shows "buildContext E inp = buildAvailabilityContext E inp"
  unfolding buildContext_def buildAvailabilityContext_def by (simp add: assms Let_def cong: if_cong)

lemma busyOfUser_group:
  "busyOfUser (groupEventsByUser Map.empty evs) u =
     map (\<lambda>e. win (be_start e) (be_end e)) (filter (\<lambda>e. be_user e = u) evs)"
  by (simp add: busyOfUser_def groupEventsByUser_orElse)

lemma windowsByUser_lookup:
  "u \<in> set us \<Longrightarrow> windowsByUser E inp us evs u =
     Some (freeWindows (ci_isToday inp) (ci_rounded inp)
       (shiftsOfUser (e_tz E) (ci_tz inp) (ci_date inp) (z_weekday (e_tz E) (ci_tz inp) (ci_start inp))
         (e_business E (ci_company inp) (ci_workspace inp)) (e_worker E us (ci_workspace inp))
         (e_temporary E us (ci_workspace inp) (ci_date inp)) True u)
       (map (\<lambda>e. win (be_start e) (be_end e)) (filter (\<lambda>e. be_user e = u) evs)))"
  by (simp add: windowsByUser_def Let_def map_of_self buildShiftsByUser_lookup busyOfUser_group)

text \<open>A request that leaves the database alone, about which only that is used.\<close>

lemma after_keeps:
  fixes w :: world
  assumes "w_db (snd (m w)) = w_db w"
    and "\<And>e t. m w = (Inl e, t) \<Longrightarrow> w_db t = w_db w \<Longrightarrow> Q (Inl e) t"
    and "\<And>x t. m w = (Inr x, t) \<Longrightarrow> w_db t = w_db w \<Longrightarrow> Q (Inr x) t"
  shows "after m w Q"
  using assms by (intro after_opaque) (metis snd_conv)+

end
