(* ===== verification/CalBooking.thy ===== *)
theory CalBooking
  imports CalAvailability
begin

text \<open>
  Creating a booking: \<open>createOrJoinGroupEvent\<close>, the transaction that runs it over the segments of an
  assignment and unifies their group (\<open>booking.persistence.ts\<close>), the choice between joining an
  existing group and assigning somebody, and \<open>addEventFromWeb\<close> as a whole
  (\<open>event-client-write.service.ts\<close>). Transactions run one at a time here: the advisory lock they
  take is what makes two transactions on the same professional, service and start do so.
\<close>

section \<open>Create or join an event of a group\<close>

datatype booking_action = Created | Joined | AlreadyIn

record created_item =
  cr_event :: event_row
  cr_action :: booking_action

record booking_params =
  bp_company :: ident
  bp_workspace :: ident
  bp_group :: "ident option"
  bp_tz :: ident
  bp_note :: "string option"
  bp_commentRead :: "bool option"
  bp_customer :: customer
  bp_autoConfirm :: bool
  bp_source :: "source_type option"

definition statusFor :: "bool \<Rightarrow> event_status" where
  "statusFor autoConfirm = (if autoConfirm then ACCEPTED else PENDING)"

text \<open>The first query: the event of this service, professional, start and end in the workspace.
  There is no condition on \<open>deletedDate\<close> or on the status of the group.\<close>

definition sameSlot :: "segment \<Rightarrow> event_row \<Rightarrow> bool" where
  "sameSlot seg e \<longleftrightarrow> ev_service e = Some (sg_service seg) \<and> ev_user e = Some (sg_user seg)
     \<and> ev_start e = sg_start seg \<and> ev_end e = sg_end seg"

definition exactEvent :: "db \<Rightarrow> ident \<Rightarrow> segment \<Rightarrow> event_row option" where
  "exactEvent d ws seg =
     List.find (\<lambda>e. sameSlot seg e \<and> groupSat d (\<lambda>g. gr_workspace g = ws) e) (events d)"

definition overlaps :: "event_row \<Rightarrow> instant \<Rightarrow> instant \<Rightarrow> bool" where
  "overlaps e s t \<longleftrightarrow> ev_start e < t \<and> ev_end e > s"

text \<open>An event that occupies its professional: not deleted, in a group of the workspace that is not
  cancelled.\<close>

definition occupies :: "db \<Rightarrow> ident \<Rightarrow> event_row \<Rightarrow> bool" where
  "occupies d ws e \<longleftrightarrow> ev_deleted e = None \<and>
     groupSat d (\<lambda>g. gr_workspace g = ws \<and> gr_status g \<notin> set CANCELLED_STATES) e"

definition overlappingOther :: "db \<Rightarrow> ident \<Rightarrow> segment \<Rightarrow> event_row option" where
  "overlappingOther d ws seg =
     List.find (\<lambda>e. ev_user e = Some (sg_user seg) \<and> overlaps e (sg_start seg) (sg_end seg)
                  \<and> occupies d ws e) (events d)"

definition customerIn :: "db \<Rightarrow> ident \<Rightarrow> customer \<Rightarrow> bool" where
  "customerIn d g c \<longleftrightarrow> list_ex (\<lambda>p. pt_clientWs p = Some (cu_clientWs c)) (activeParticipants d g)"

definition newParticipant :: "ident \<Rightarrow> customer \<Rightarrow> event_status \<Rightarrow> participant_row" where
  "newParticipant g c st = \<lparr>pt_id = [], pt_group = g, pt_client = Some (cu_id c),
     pt_clientWs = Some (cu_clientWs c), pt_status = st, pt_deleted = None\<rparr>"

text \<open>The branch \<open>if (existing)\<close>.\<close>

definition joinExisting ::
  "booking_params \<Rightarrow> service_snapshot \<Rightarrow> event_row \<Rightarrow> created_item tx" where
  "joinExisting P svc existing =
     (let capacity = capacityOf (Some svc); g = ev_group existing in
      andThen (readState (\<lambda>d. customerIn d g (bp_customer P))) (\<lambda>already.
        if already then ret \<lparr>cr_event = existing, cr_action = AlreadyIn\<rparr>
        else if \<not> capacity > 1 then throw (CatalogError BOOKING_ERR_OVERLAP_CONFLICT
               ''Ese horario ya esta ocupado.'')
        else andThen (readState (\<lambda>d. int (length (activeParticipants d g)))) (\<lambda>count.
          if count \<ge> capacity then throw (CatalogError BOOKING_ERR_GENERIC
               ''No quedan plazas disponibles en ese grupo.'')
          else andThen (createParticipant (newParticipant g (bp_customer P) (statusFor (bp_autoConfirm P))))
                 (\<lambda>_. ret \<lparr>cr_event = existing, cr_action = Joined\<rparr>))))"

definition newGroup :: "booking_params \<Rightarrow> service_snapshot \<Rightarrow> segment \<Rightarrow> group_row" where
  "newGroup P svc seg = \<lparr>gr_id = [], gr_title = take 100 (orElse (sv_name svc) ''Cita''),
     gr_company = bp_company P, gr_workspace = bp_workspace P, gr_start = sg_start seg,
     gr_end = sg_end seg, gr_comment = bp_note P, gr_commentRead = orElse (bp_commentRead P) False,
     gr_status = statusFor (bp_autoConfirm P), gr_tz = bp_tz P, gr_source = orElse (bp_source P) WEB,
     gr_description = None, gr_editable = True, gr_updates = Some 0, gr_notifies = False, gr_deleted = None\<rparr>"

text \<open>\<open>params.idGroup ? findUnique : null\<close>, then the creation of the group with its participant, or
  of the participant alone when the group has not got it. The result is the id of the group.\<close>

definition ensureGroup :: "booking_params \<Rightarrow> service_snapshot \<Rightarrow> segment \<Rightarrow> ident tx" where
  "ensureGroup P svc seg =
     andThen (readState (\<lambda>d. if truthy (bp_group P) then groupById d (the (bp_group P)) else None)) (\<lambda>group.
       let participant = (\<lambda>g. newParticipant g (bp_customer P) (statusFor (bp_autoConfirm P))) in
       case group of
         None \<Rightarrow>
           andThen (createGroup (if truthy (bp_group P) then bp_group P else None) (newGroup P svc seg))
             (\<lambda>g. andThen (createParticipant (participant (gr_id g))) (\<lambda>_. ret (gr_id g)))
       | Some g \<Rightarrow>
           andThen (readState (\<lambda>d. customerIn d (gr_id g) (bp_customer P))) (\<lambda>existingParticipant.
             if existingParticipant then ret (gr_id g)
             else andThen (createParticipant (participant (gr_id g))) (\<lambda>_. ret (gr_id g))))"

definition newEvent :: "ident \<Rightarrow> service_snapshot \<Rightarrow> segment \<Rightarrow> ident \<Rightarrow> event_row" where
  "newEvent company svc seg g = \<lparr>ev_id = [], ev_group = g, ev_company = company,
     ev_title = orElse (sv_name svc) ''Cita'', ev_service = Some (sg_service seg),
     ev_user = Some (sg_user seg), ev_start = sg_start seg, ev_end = sg_end seg,
     ev_purpose = APPOINTMENT, ev_nameSnap = sv_name svc, ev_priceSnap = sv_price svc,
     ev_discountSnap = sv_discount svc, ev_durationSnap = sv_duration svc,
     ev_maxPartSnap = sv_maxParticipants svc, ev_deleted = None, ev_description = None,
     ev_allDay = False, ev_rule = None\<rparr>"

definition groupRange :: "db \<Rightarrow> ident \<Rightarrow> (instant \<times> instant) option" where
  "groupRange d g =
     (case filter (\<lambda>e. ev_group e = g \<and> ev_deleted e = None) (events d) of
        [] \<Rightarrow> None
      | es \<Rightarrow> Some (Min (set (map ev_start es)), Max (set (map ev_end es))))"

definition syncGroupStartEndDates :: "ident \<Rightarrow> unit tx" where
  "syncGroupStartEndDates g =
     andThen (readState (\<lambda>d. groupRange d g)) (\<lambda>agg.
       case agg of
         None \<Rightarrow> ret ()
       | Some (s, e) \<Rightarrow> updateGroup g (\<lambda>r. r\<lparr>gr_start := s, gr_end := e\<rparr>))"

text \<open>The part after the overlap check.\<close>

definition createInGroup :: "booking_params \<Rightarrow> service_snapshot \<Rightarrow> segment \<Rightarrow> created_item tx" where
  "createInGroup P svc seg =
     andThen (ensureGroup P svc seg) (\<lambda>g.
     andThen (createEvent (newEvent (bp_company P) svc seg g)) (\<lambda>ev.
     andThen (syncGroupStartEndDates g) (\<lambda>_. ret \<lparr>cr_event = ev, cr_action = Created\<rparr>)))"

definition createOrJoinGroupEvent ::
  "booking_params \<Rightarrow> service_snapshot \<Rightarrow> segment \<Rightarrow> created_item tx" where
  "createOrJoinGroupEvent P svc seg = (\<lambda>d.
     case exactEvent d (bp_workspace P) seg of
       Some existing \<Rightarrow> joinExisting P svc existing d
     | None \<Rightarrow>
         (case overlappingOther d (bp_workspace P) seg of
            Some _ \<Rightarrow> Inl (CatalogError BOOKING_ERR_OVERLAP_CONFLICT
                        ''Ese profesional ya tiene otro evento en ese horario.'')
          | None \<Rightarrow> createInGroup P svc seg d))"

section \<open>The transaction over the segments\<close>

text \<open>The unification of the group after the loop.\<close>

definition syncGroupIds :: "created_item list \<Rightarrow> created_item list tx" where
  "syncGroupIds items =
     (case filter (\<lambda>e. ev_id e \<noteq> []) (map cr_event items) of
        [] \<Rightarrow> ret items
      | c # cs \<Rightarrow>
          (let target = ev_group c; ids = map ev_id (c # cs) in
           andThen (updateManyEvents (\<lambda>e. ev_id e \<in> set ids) (\<lambda>e. e\<lparr>ev_group := target\<rparr>)) (\<lambda>_.
             ret (map (\<lambda>i. if ev_id (cr_event i) \<noteq> [] \<and> ev_id (cr_event i) \<in> set ids
                           then i\<lparr>cr_event := (cr_event i)\<lparr>ev_group := target\<rparr>\<rparr> else i) items))))"

definition createAssignmentsAndSyncGroupId ::
  "('x \<Rightarrow> created_item tx) \<Rightarrow> 'x list \<Rightarrow> created_item list tx" where
  "createAssignmentsAndSyncGroupId createEv assignment =
     andThen (forEach createEv assignment) syncGroupIds"

text \<open>\<open>findOverlappingGroupCandidates\<close>\<close>

definition findOverlappingGroupCandidates ::
  "ident \<Rightarrow> ident \<Rightarrow> ident list \<Rightarrow> instant \<Rightarrow> instant \<Rightarrow> ident option \<Rightarrow> db \<Rightarrow> event_row list" where
  "findOverlappingGroupCandidates ws svc eligible s e exclude d =
     (if eligible = [] then []
      else sort_key ev_start (filter (\<lambda>x. ev_service x = Some svc
             \<and> (case ev_user x of None \<Rightarrow> False | Some u \<Rightarrow> u \<in> set eligible)
             \<and> overlaps x s e \<and> occupies d ws x
             \<and> (truthy exclude \<longrightarrow> ev_id x \<noteq> the exclude)) (events d)))"

text \<open>Running a transaction: on an error the database is the one before it, the rest of the world
  keeps what it has.\<close>

definition inTx :: "'a tx \<Rightarrow> 'a req" where
  "inTx t = (\<lambda>w. case t (w_db w) of
     Inl e \<Rightarrow> (Inl e, w)
   | Inr (x, d) \<Rightarrow> (Inr x, w\<lparr>w_db := d\<rparr>))"

section \<open>Lemmas on the steps\<close>

text \<open>What a step of a booking may do to the database: rows are only appended, identifiers only
  consumed, and the groups keep everything but their dates.\<close>

definition sameGroups :: "db \<Rightarrow> db \<Rightarrow> bool" where
  "sameGroups d d' \<longleftrightarrow>
     (\<forall>g r. groupById d g = Some r \<longrightarrow> (\<exists>r'. groupById d' g = Some r' \<and>
        gr_status r' = gr_status r \<and> gr_workspace r' = gr_workspace r))"

definition grows :: "db \<Rightarrow> db \<Rightarrow> bool" where
  "grows d d' \<longleftrightarrow>
     (\<exists>es. events d' = events d @ es) \<and> (\<exists>ps. participants d' = participants d @ ps) \<and>
     sameGroups d d' \<and> idSupply d' = idSupply d \<and> nextId d \<le> nextId d'"

lemma sameGroups_ids: "sameGroups d d' \<Longrightarrow> gr_id ` set (groups d) \<subseteq> gr_id ` set (groups d')"
  unfolding sameGroups_def using groupById_None by (metis option.distinct(1) option.exhaust subsetI)

lemma sameGroups_eq: "groups d' = groups d \<Longrightarrow> sameGroups d d'"
  by (simp add: sameGroups_def groupById_def)

lemma sameGroups_append: "groups d' = groups d @ gs \<Longrightarrow> sameGroups d d'"
  by (simp add: sameGroups_def groupById_def find_append)

lemma sameGroups_trans: "sameGroups d d' \<Longrightarrow> sameGroups d' d'' \<Longrightarrow> sameGroups d d''"
  unfolding sameGroups_def by metis

lemma sameGroups_groupSat:
  assumes "sameGroups d d'" and "ev_group e \<in> gr_id ` set (groups d)"
  shows "groupSat d' (\<lambda>g. gr_workspace g = ws \<and> gr_status g \<notin> C) e =
         groupSat d (\<lambda>g. gr_workspace g = ws \<and> gr_status g \<notin> C) e"
proof -
  obtain r where "groupById d (ev_group e) = Some r" using assms(2) groupById_None by fastforce
  then show ?thesis using assms(1) unfolding sameGroups_def groupSat_def by fastforce
qed

lemma grows_refl [simp]: "grows d d"
  by (simp add: grows_def sameGroups_eq)

lemma grows_ids: "grows d d' \<Longrightarrow> gr_id ` set (groups d) \<subseteq> gr_id ` set (groups d')"
  by (simp add: grows_def sameGroups_ids)

lemma grows_trans: "grows d d' \<Longrightarrow> grows d' d'' \<Longrightarrow> grows d d''"
  unfolding grows_def using sameGroups_trans by (metis append_assoc dual_order.trans)

lemma createParticipant_Inr:
  "createParticipant p d = Inr (x, d') \<longleftrightarrow> d' = d\<lparr>nextId := Suc (nextId d),
     participants := participants d @ [p\<lparr>pt_id := idSupply d (nextId d)\<rparr>]\<rparr>"
  by (auto simp: createParticipant_def freshId_def andThen_def)

lemma createEvent_Inr:
  "createEvent e d = Inr (e', d') \<longleftrightarrow> e' = e\<lparr>ev_id := idSupply d (nextId d)\<rparr> \<and>
     d' = d\<lparr>nextId := Suc (nextId d), events := events d @ [e']\<rparr>"
  by (auto simp: createEvent_def freshId_def andThen_def Let_def)

lemma createGroup_Inr:
  "createGroup None g d = Inr (g', d') \<longleftrightarrow> g' = g\<lparr>gr_id := idSupply d (nextId d)\<rparr> \<and>
     d' = d\<lparr>nextId := Suc (nextId d), groups := groups d @ [g']\<rparr>"
  "createGroup (Some i) g d = Inr (g', d') \<longleftrightarrow> g' = g\<lparr>gr_id := i\<rparr> \<and> d' = d\<lparr>groups := groups d @ [g']\<rparr>"
  by (auto simp: createGroup_def freshId_def andThen_def Let_def)

lemma activeParticipants_append:
  "participants d' = participants d @ [p] \<Longrightarrow> activeParticipants d' g =
     activeParticipants d g @ (if pt_group p = g \<and> pt_deleted p = None then [p] else [])"
  by (simp add: activeParticipants_def)

lemma customerIn_new:
  assumes "participants d' = participants d @ [(newParticipant g c st)\<lparr>pt_id := i\<rparr>]"
  shows "customerIn d' g c"
  using assms by (simp add: customerIn_def activeParticipants_def newParticipant_def)

text \<open>The group of a booking: it exists afterwards, it holds the customer, and no event changed.\<close>

lemma ensureGroup_Inr:
  assumes "ensureGroup P svc seg d = Inr (g, d')"
  shows "grows d d' \<and> events d' = events d \<and> g \<in> gr_id ` set (groups d') \<and>
    customerIn d' g (bp_customer P)"
proof (cases "truthy (bp_group P) \<and> groupById d (the (bp_group P)) \<noteq> None")
  case True
  then obtain r where r: "groupById d (the (bp_group P)) = Some r" by auto
  have mem: "gr_id r \<in> gr_id ` set (groups d)" using groupById_Some[OF r] by blast
  show ?thesis
    using assms True r mem
    by (auto simp: ensureGroup_def andThen_Inr_iff createParticipant_Inr grows_def sameGroups_eq Let_def
        intro: customerIn_new split: if_splits)
next
  case False
  then have none: "(if truthy (bp_group P) then groupById d (the (bp_group P)) else None) = None" by auto
  obtain gr d1 where cg: "createGroup (if truthy (bp_group P) then bp_group P else None) (newGroup P svc seg) d = Inr (gr, d1)"
    and d': "createParticipant (newParticipant (gr_id gr) (bp_customer P) (statusFor (bp_autoConfirm P))) d1 = Inr ((), d')"
    and g: "g = gr_id gr"
    using assms none by (auto simp: ensureGroup_def andThen_Inr_iff Let_def)
  have d1: "grows d d1 \<and> events d1 = events d \<and> gr_id gr \<in> gr_id ` set (groups d1)"
    using cg by (cases "bp_group P") (auto simp: createGroup_Inr grows_def sameGroups_append split: if_splits)
  have "grows d1 d'" "events d' = events d1" "groups d' = groups d1"
    using d' by (simp_all add: createParticipant_Inr grows_def sameGroups_eq)
  moreover have "customerIn d' g (bp_customer P)"
    using d' unfolding g createParticipant_Inr by (simp add: customerIn_new)
  ultimately show ?thesis using d1 g grows_trans by metis
qed

lemma updateGroup_grows:
  assumes "\<And>r. gr_id (f r) = gr_id r \<and> gr_status (f r) = gr_status r \<and> gr_workspace (f r) = gr_workspace r"
    and "updateGroup i f d = Inr (x, d')"
  shows "grows d d' \<and> events d' = events d \<and> participants d' = participants d"
proof -
  have d': "d' = d\<lparr>groups := updateWhere (\<lambda>x. gr_id x = i) f (groups d)\<rparr>"
    using assms(2) by (simp add: updateGroup_Inr)
  have "sameGroups d d'"
    unfolding sameGroups_def d' groupById_def using assms(1)
    by (auto simp: find_updateWhere_key[of gr_id])
  then show ?thesis by (simp add: grows_def d')
qed

lemma syncDates_Inr:
  assumes "syncGroupStartEndDates g d = Inr (x, d')"
  shows "grows d d' \<and> events d' = events d \<and> participants d' = participants d"
  using assms
  by (auto simp: syncGroupStartEndDates_def andThen_Inr_iff split: option.splits
      dest!: updateGroup_grows[rotated])

lemma syncDates_wf:
  assumes "wfDb d" and "syncGroupStartEndDates g d = Inr (x, d')"
  shows "wfDb d'"
  using assms
  by (auto simp: syncGroupStartEndDates_def andThen_Inr_iff split: option.splits
      dest!: wf_updateGroup[rotated 2])

lemma customerIn_cong: "participants d' = participants d \<Longrightarrow> customerIn d' g c = customerIn d g c"
  by (simp add: customerIn_def activeParticipants_def)

text \<open>The three outcomes of \<open>createOrJoinGroupEvent\<close>.\<close>

lemma createInGroup_Inr:
  assumes "createInGroup P svc seg d = Inr (c, d')"
  shows "cr_action c = Created \<and> grows d d' \<and> events d' = events d @ [cr_event c] \<and>
    sameSlot seg (cr_event c) \<and> ev_deleted (cr_event c) = None \<and>
    ev_group (cr_event c) \<in> gr_id ` set (groups d') \<and> customerIn d' (ev_group (cr_event c)) (bp_customer P)"
proof -
  obtain g d1 e d2 where g: "ensureGroup P svc seg d = Inr (g, d1)"
    and e: "createEvent (newEvent (bp_company P) svc seg g) d1 = Inr (e, d2)"
    and s: "syncGroupStartEndDates g d2 = Inr ((), d')"
    and c: "c = \<lparr>cr_event = e, cr_action = Created\<rparr>"
    using assms by (auto simp: createInGroup_def andThen_Inr_iff)
  note g = ensureGroup_Inr[OF g] and e = e[unfolded createEvent_Inr] and s = syncDates_Inr[OF s]
  have "grows d1 d2" using e by (simp add: grows_def sameGroups_eq)
  then have "grows d d'" using g s grows_trans by blast
  moreover have "gr_id ` set (groups d1) \<subseteq> gr_id ` set (groups d')"
    using e s grows_ids[of d2 d'] by simp
  moreover have "customerIn d' g (bp_customer P)"
    using g e s customerIn_cong[of d' d1] by simp
  ultimately show ?thesis using g e s c by (auto simp: newEvent_def sameSlot_def)
qed

lemma joinExisting_Inr:
  "joinExisting P svc e d = Inr (c, d') \<Longrightarrow> cr_event c = e \<and>
     ((cr_action c = AlreadyIn \<and> d' = d \<and> customerIn d (ev_group e) (bp_customer P)) \<or>
      (cr_action c = Joined \<and> \<not> customerIn d (ev_group e) (bp_customer P) \<and> 1 < capacityOf (Some svc) \<and>
       int (length (activeParticipants d (ev_group e))) < capacityOf (Some svc) \<and>
       createParticipant (newParticipant (ev_group e) (bp_customer P) (statusFor (bp_autoConfirm P))) d
         = Inr ((), d')))"
  by (auto simp: joinExisting_def andThen_Inr_iff Let_def split: if_splits)

lemma after_inTx [after_rules]:
  "(\<And>e. t (w_db w) = Inl e \<Longrightarrow> Q (Inl e) w) \<Longrightarrow>
   (\<And>x d. t (w_db w) = Inr (x, d) \<Longrightarrow> Q (Inr x) (w\<lparr>w_db := d\<rparr>)) \<Longrightarrow> after (inTx t) w Q"
  by (auto simp: after_def inTx_def split: sum.splits prod.splits)

end
