(* ===== verification/CalBookingTx.thy ===== *)
theory CalBookingTx
  imports CalBooking
begin

text \<open>
  What the booking transaction keeps. The step that creates or joins the event of one segment is an
  interface (\<open>booking_step\<close>): it keeps an invariant and only appends rows; the loop over the
  segments and the unification of the group are proved once against it. It is interpreted on
  \<open>createOrJoinGroupEvent\<close> twice: with well-formedness, and with well-formedness together with
  the absence of double bookings.
\<close>

section \<open>The step of one segment\<close>

text \<open>The callback of \<open>_createEventsForAssignment\<close>: the service of the segment must be in the
  snapshot.\<close>

definition createEventsForSegment ::
  "service_by_id \<Rightarrow> booking_params \<Rightarrow> segment \<Rightarrow> created_item tx" where
  "createEventsForSegment serviceById P seg =
     (case serviceById (sg_service seg) of
        None \<Rightarrow> throw (CatalogError BOOKING_ERR_GENERIC
                  ''Servicio no disponible o no pertenece a este workspace.'')
      | Some svc \<Rightarrow> createOrJoinGroupEvent P svc seg)"

definition createEventsForAssignment ::
  "service_by_id \<Rightarrow> booking_params \<Rightarrow> segment list \<Rightarrow> created_item list tx" where
  "createEventsForAssignment serviceById P assignment =
     createAssignmentsAndSyncGroupId (createEventsForSegment serviceById P) assignment"

section \<open>Interface: a step that appends\<close>

locale booking_step =
  fixes step :: "'x \<Rightarrow> created_item tx" and Inv :: "db \<Rightarrow> bool"
  assumes keeps: "Inv d \<Longrightarrow> step x d = Inr (c, d') \<Longrightarrow> Inv d'"
    and appends: "step x d = Inr (c, d') \<Longrightarrow> grows d d'"
    and item_stored: "step x d = Inr (c, d') \<Longrightarrow> cr_event c \<in> set (events d')"
    and inv_wf: "Inv d \<Longrightarrow> wfDb d"
begin

lemma loop_keeps: "Inv d \<Longrightarrow> forEach step xs d = Inr (cs, d') \<Longrightarrow> Inv d'"
  by (rule forEach_invariant[of xs Inv step]) (auto intro: keeps)

lemma loop_items:
  "forEach step xs d = Inr (cs, d') \<Longrightarrow> grows d d' \<and> (\<forall>c \<in> set cs. cr_event c \<in> set (events d'))"
proof (induction xs arbitrary: d cs)
  case (Cons x xs)
  then obtain c d1 cs' where st: "step x d = Inr (c, d1)" and fe: "forEach step xs d1 = Inr (cs', d')"
    and cs: "cs = c # cs'"
    by (auto simp: andThen_Inr_iff)
  have ih: "grows d1 d' \<and> (\<forall>c \<in> set cs'. cr_event c \<in> set (events d'))" using Cons.IH[OF fe] .
  have "cr_event c \<in> set (events d')"
    using item_stored[OF st] ih unfolding grows_def by auto
  then show ?case using appends[OF st] ih grows_trans cs by auto
qed simp

lemma item_groups:
  assumes "Inv d" and "forEach step xs d = Inr (cs, d')" and "c \<in> set cs"
  shows "ev_group (cr_event c) \<in> gr_id ` set (groups d')"
  using inv_wf[OF loop_keeps[OF assms(1,2)]] loop_items[OF assms(2)] assms(3)
  unfolding wfDb_def by blast

end

text \<open>The unification writes only the group of the listed events.\<close>

lemma syncGroupIds_Inr:
  assumes "syncGroupIds items d = Inr (items', d')"
  shows "(d' = d \<and> items' = items) \<or>
    (\<exists>c cs. filter (\<lambda>e. ev_id e \<noteq> []) (map cr_event items) = c # cs \<and>
       updateManyEvents (\<lambda>e. ev_id e \<in> ev_id ` set (c # cs)) (\<lambda>e. e\<lparr>ev_group := ev_group c\<rparr>) d = Inr ((), d') \<and>
       items' = map (\<lambda>i. if ev_id (cr_event i) \<noteq> [] \<and> ev_id (cr_event i) \<in> ev_id ` set (c # cs)
                         then i\<lparr>cr_event := (cr_event i)\<lparr>ev_group := ev_group c\<rparr>\<rparr> else i) items)"
  using assms by (auto simp: syncGroupIds_def andThen_Inr_iff Let_def split: list.splits)

lemma syncGroupIds_first: "filter P (map f xs) = c # cs \<Longrightarrow> \<exists>x \<in> set xs. f x = c"
proof -
  assume "filter P (map f xs) = c # cs"
  then have "c \<in> set (filter P (map f xs))" by simp
  then show ?thesis by auto
qed

lemma syncGroupIds_wf:
  assumes "wfDb d" and "syncGroupIds items d = Inr (items', d')"
    and "\<forall>i \<in> set items. ev_group (cr_event i) \<in> gr_id ` set (groups d)"
  shows "wfDb d'"
proof -
  from syncGroupIds_Inr[OF assms(2)] show ?thesis
  proof (elim disjE exE conjE)
    fix c cs
    assume f: "filter (\<lambda>e. ev_id e \<noteq> []) (map cr_event items) = c # cs"
      and u: "updateManyEvents (\<lambda>e. ev_id e \<in> ev_id ` set (c # cs)) (\<lambda>e. e\<lparr>ev_group := ev_group c\<rparr>) d = Inr ((), d')"
    from syncGroupIds_first[OF f] assms(3) have "ev_group c \<in> gr_id ` set (groups d)" by auto
    then show ?thesis by (intro wf_updateManyEvents[OF assms(1) _ _ u]) auto
  qed (use assms(1) in simp)
qed

context booking_step begin

lemma tx_wf:
  assumes "Inv d" and "createAssignmentsAndSyncGroupId step xs d = Inr (items, d')"
  shows "wfDb d'"
proof -
  obtain cs d1 where fe: "forEach step xs d = Inr (cs, d1)" and sy: "syncGroupIds cs d1 = Inr (items, d')"
    using assms(2) by (auto simp: createAssignmentsAndSyncGroupId_def andThen_Inr_iff)
  show ?thesis
    using syncGroupIds_wf[OF inv_wf[OF loop_keeps[OF assms(1) fe]] sy] item_groups[OF assms(1) fe] by blast
qed

end

section \<open>Well-formedness\<close>

text \<open>The id given for a new group is not one the supply will return.\<close>

definition groupIdReserved :: "booking_params \<Rightarrow> db \<Rightarrow> bool" where
  "groupIdReserved P d \<longleftrightarrow> (\<forall>i. bp_group P = Some i \<longrightarrow> i \<notin> idSupply d ` {nextId d..})"

lemma reserved_grows: "groupIdReserved P d \<Longrightarrow> grows d d' \<Longrightarrow> groupIdReserved P d'"
  by (auto simp: groupIdReserved_def grows_def image_iff)

lemma ensureGroup_wf:
  assumes "wfDb d" and "groupIdReserved P d" and "ensureGroup P svc seg d = Inr (g, d')"
  shows "wfDb d'"
proof (cases "truthy (bp_group P) \<and> groupById d (the (bp_group P)) \<noteq> None")
  case True
  then obtain r where r: "groupById d (the (bp_group P)) = Some r" by auto
  then have "gr_id r \<in> gr_id ` set (groups d)" using groupById_Some[OF r] by blast
  then show ?thesis
    using assms True r
    by (auto simp: ensureGroup_def andThen_Inr_iff Let_def newParticipant_def split: if_splits
        elim!: wf_createParticipant[rotated 2])
next
  case False
  then have none: "(if truthy (bp_group P) then groupById d (the (bp_group P)) else None) = None" by auto
  obtain gr d1 where cg: "createGroup (if truthy (bp_group P) then bp_group P else None) (newGroup P svc seg) d = Inr (gr, d1)"
    and cp: "createParticipant (newParticipant (gr_id gr) (bp_customer P) (statusFor (bp_autoConfirm P))) d1 = Inr ((), d')"
    using assms(3) none by (auto simp: ensureGroup_def andThen_Inr_iff Let_def)
  have "i \<notin> gr_id ` set (groups d) \<and> i \<notin> idSupply d ` {nextId d..}"
    if "(if truthy (bp_group P) then bp_group P else None) = Some i" for i
    using that False assms(2) by (auto simp: groupIdReserved_def groupById_None split: if_splits)
  then have "wfDb d1 \<and> gr_id gr \<in> gr_id ` set (groups d1)"
    using wf_createGroup[OF assms(1) cg] by blast
  then show ?thesis by (intro wf_createParticipant[OF _ _ cp]) (auto simp: newParticipant_def)
qed

lemma createInGroup_wf:
  assumes "wfDb d" and "groupIdReserved P d" and "createInGroup P svc seg d = Inr (c, d')"
  shows "wfDb d'"
proof -
  obtain g d1 e d2 where g: "ensureGroup P svc seg d = Inr (g, d1)"
    and e: "createEvent (newEvent (bp_company P) svc seg g) d1 = Inr (e, d2)"
    and s: "syncGroupStartEndDates g d2 = Inr ((), d')"
    using assms(3) by (auto simp: createInGroup_def andThen_Inr_iff)
  have "wfDb d1" by (rule ensureGroup_wf[OF assms(1,2) g])
  then have "wfDb d2" using e ensureGroup_Inr[OF g]
    by (intro wf_createEvent[OF _ _ e]) (auto simp: newEvent_def)
  then show ?thesis using s by (rule syncDates_wf)
qed

lemma exactEvent_Some:
  "exactEvent d ws seg = Some e \<Longrightarrow> e \<in> set (events d) \<and> sameSlot seg e \<and> groupSat d (\<lambda>g. gr_workspace g = ws) e"
  unfolding exactEvent_def by (drule find_Some_D) simp

lemma joinExisting_grows: "joinExisting P svc e d = Inr (c, d') \<Longrightarrow> grows d d' \<and> events d' = events d \<and> groups d' = groups d"
  by (drule joinExisting_Inr) (auto simp: createParticipant_Inr grows_def sameGroups_eq)

lemma joinExisting_wf:
  assumes "wfDb d" and "e \<in> set (events d)" and "joinExisting P svc e d = Inr (c, d')"
  shows "wfDb d'"
proof -
  have "ev_group e \<in> gr_id ` set (groups d)" using assms(1,2) unfolding wfDb_def by blast
  then have "pt_group (newParticipant (ev_group e) (bp_customer P) (statusFor (bp_autoConfirm P)))
    \<in> gr_id ` set (groups d)" by (simp add: newParticipant_def)
  with joinExisting_Inr[OF assms(3)] wf_createParticipant[OF assms(1)] show ?thesis
    using assms(1) by blast
qed

lemma createOrJoin_Inr:
  assumes "createOrJoinGroupEvent P svc seg d = Inr (c, d')"
  obtains (join) e where "exactEvent d (bp_workspace P) seg = Some e" "joinExisting P svc e d = Inr (c, d')"
  | (create) "exactEvent d (bp_workspace P) seg = None" "overlappingOther d (bp_workspace P) seg = None"
      "createInGroup P svc seg d = Inr (c, d')"
  using assms by (auto simp: createOrJoinGroupEvent_def split: option.splits)

lemma createOrJoin_grows:
  assumes "createOrJoinGroupEvent P svc seg d = Inr (c, d')"
  shows "grows d d' \<and> cr_event c \<in> set (events d')"
  using assms
proof (cases rule: createOrJoin_Inr)
  case (join e)
  then show ?thesis
    using joinExisting_grows[OF join(2)] joinExisting_Inr[OF join(2)] exactEvent_Some[OF join(1)] by auto
next
  case create
  then show ?thesis using createInGroup_Inr[OF create(3)] by auto
qed

lemma createOrJoin_wf:
  assumes "wfDb d" and "groupIdReserved P d" and "createOrJoinGroupEvent P svc seg d = Inr (c, d')"
  shows "wfDb d'"
  using assms(3)
proof (cases rule: createOrJoin_Inr)
  case (join e)
  then show ?thesis using joinExisting_wf[OF assms(1) _ join(2)] exactEvent_Some by blast
next
  case create
  then show ?thesis using createInGroup_wf[OF assms(1,2)] by blast
qed

lemma forSegment_Inr:
  "createEventsForSegment sv P seg d = Inr (c, d') \<longleftrightarrow>
     (\<exists>svc. sv (sg_service seg) = Some svc \<and> createOrJoinGroupEvent P svc seg d = Inr (c, d'))"
  by (auto simp: createEventsForSegment_def split: option.splits)

interpretation bs: booking_step "createEventsForSegment sv P" "\<lambda>d. wfDb d \<and> groupIdReserved P d" for sv P
  by unfold_locales
    (auto simp: forSegment_Inr dest: createOrJoin_wf createOrJoin_grows reserved_grows)

section \<open>No professional is booked twice\<close>

definition noDoubleBooking :: "db \<Rightarrow> ident \<Rightarrow> bool" where
  "noDoubleBooking d ws \<longleftrightarrow>
     (\<forall>e1 \<in> set (events d). \<forall>e2 \<in> set (events d).
        ev_id e1 \<noteq> ev_id e2 \<and> occupies d ws e1 \<and> occupies d ws e2 \<and> ev_user e1 \<noteq> None
        \<and> ev_user e1 = ev_user e2 \<longrightarrow> \<not> overlaps e1 (ev_start e2) (ev_end e2))"

lemma overlaps_sym: "overlaps e1 (ev_start e2) (ev_end e2) = overlaps e2 (ev_start e1) (ev_end e1)"
  by (auto simp: overlaps_def)

lemma occupies_grows:
  assumes "wfDb d" and "grows d d'" and "e \<in> set (events d)"
  shows "occupies d' ws e = occupies d ws e"
proof -
  have "ev_group e \<in> gr_id ` set (groups d)" using assms(1,3) unfolding wfDb_def by blast
  moreover have "sameGroups d d'" using assms(2) by (simp add: grows_def)
  ultimately show ?thesis unfolding occupies_def by (simp add: sameGroups_groupSat)
qed

lemma noDoubleBooking_append:
  assumes "noDoubleBooking d ws" and "events d' = events d @ [e]"
    and "\<And>x. x \<in> set (events d) \<Longrightarrow> occupies d' ws x = occupies d ws x"
    and "\<And>x. x \<in> set (events d) \<Longrightarrow> occupies d ws x \<Longrightarrow> ev_user x = ev_user e \<Longrightarrow>
           \<not> overlaps x (ev_start e) (ev_end e)"
  shows "noDoubleBooking d' ws"
  unfolding noDoubleBooking_def
proof (intro ballI impI, elim conjE)
  fix e1 e2
  assume m: "e1 \<in> set (events d')" "e2 \<in> set (events d')" and ne: "ev_id e1 \<noteq> ev_id e2"
    and o: "occupies d' ws e1" "occupies d' ws e2" and u: "ev_user e1 \<noteq> None" "ev_user e1 = ev_user e2"
  consider "e1 \<in> set (events d)" "e2 \<in> set (events d)" | "e1 \<in> set (events d)" "e2 = e"
    | "e1 = e" "e2 \<in> set (events d)" | "e1 = e" "e2 = e"
    using m assms(2) by auto
  then show "\<not> overlaps e1 (ev_start e2) (ev_end e2)"
  proof cases
    case 1 then show ?thesis using assms(1,3) ne o u unfolding noDoubleBooking_def by simp
  next
    case 2 then show ?thesis using assms(3,4) o u by simp
  next
    case 3 then show ?thesis using assms(3,4) o u overlaps_sym[of e1 e2] by simp
  next
    case 4 then show ?thesis using ne by simp
  qed
qed

lemma createInGroup_noDouble:
  assumes "wfDb d" and "noDoubleBooking d (bp_workspace P)"
    and "overlappingOther d (bp_workspace P) seg = None" and "createInGroup P svc seg d = Inr (c, d')"
  shows "noDoubleBooking d' (bp_workspace P)"
proof -
  let ?ws = "bp_workspace P" and ?e = "cr_event c"
  note new = createInGroup_Inr[OF assms(4)]
  have old: "occupies d' ?ws x = occupies d ?ws x" if "x \<in> set (events d)" for x
    using occupies_grows[OF assms(1) _ that] new by blast
  have free: "\<not> overlaps x (ev_start ?e) (ev_end ?e)"
    if "x \<in> set (events d)" "occupies d ?ws x" "ev_user x = ev_user ?e" for x
    using assms(3) that new unfolding overlappingOther_def find_None_iff_all sameSlot_def by auto
  show ?thesis by (rule noDoubleBooking_append[OF assms(2) _ old free]) (use new in auto)
qed

lemma createOrJoin_noDouble:
  assumes "wfDb d" and "noDoubleBooking d (bp_workspace P)"
    and "createOrJoinGroupEvent P svc seg d = Inr (c, d')"
  shows "noDoubleBooking d' (bp_workspace P)"
  using assms(3)
proof (cases rule: createOrJoin_Inr)
  case (join e)
  then have "events d' = events d" "groups d' = groups d" using joinExisting_grows[OF join(2)] by auto
  then show ?thesis using assms(2) unfolding noDoubleBooking_def occupies_def groupSat_def groupById_def by simp
next
  case create
  then show ?thesis using createInGroup_noDouble assms by blast
qed

interpretation bd: booking_step "createEventsForSegment sv P"
    "\<lambda>d. wfDb d \<and> groupIdReserved P d \<and> noDoubleBooking d (bp_workspace P)" for sv P
  by unfold_locales
    (auto simp: forSegment_Inr dest: createOrJoin_wf createOrJoin_grows reserved_grows createOrJoin_noDouble)

text \<open>The unification of the group is harmless for it when the events it moves occupied their
  professional already.\<close>

lemma regroup_noDouble:
  assumes "noDoubleBooking d ws"
    and "\<And>e. e \<in> set (events d) \<Longrightarrow> P e \<Longrightarrow> ev_deleted e = None \<Longrightarrow> occupies d ws e"
    and "updateManyEvents P (\<lambda>e. e\<lparr>ev_group := g\<rparr>) d = Inr ((), d')"
  shows "noDoubleBooking d' ws"
proof -
  let ?f = "\<lambda>e. if P e then e\<lparr>ev_group := g\<rparr> else e"
  have d': "d' = d\<lparr>events := updateWhere P (\<lambda>e. e\<lparr>ev_group := g\<rparr>) (events d)\<rparr>"
    using assms(3) by (simp add: updateManyEvents_def)
  have occ: "occupies d ws e" if "e \<in> set (events d)" "occupies d' ws (?f e)" for e
    using that assms(2)[OF that(1)] by (auto simp: d' occupies_def split: if_splits)
  show ?thesis
    unfolding noDoubleBooking_def
  proof (intro ballI impI, elim conjE)
    fix e1' e2'
    assume m: "e1' \<in> set (events d')" "e2' \<in> set (events d')" and ne: "ev_id e1' \<noteq> ev_id e2'"
      and o: "occupies d' ws e1'" "occupies d' ws e2'" and u: "ev_user e1' \<noteq> None" "ev_user e1' = ev_user e2'"
    obtain e1 e2 where e: "e1 \<in> set (events d)" "e2 \<in> set (events d)" "e1' = ?f e1" "e2' = ?f e2"
      using m by (auto simp: d' set_updateWhere)
    have same: "ev_id (?f x) = ev_id x" "ev_user (?f x) = ev_user x" "ev_start (?f x) = ev_start x"
      "ev_end (?f x) = ev_end x" for x by simp_all
    have "\<not> overlaps e1 (ev_start e2) (ev_end e2)"
      using assms(1) e ne o u occ[OF e(1)] occ[OF e(2)] unfolding noDoubleBooking_def e(3,4) same by blast
    then show "\<not> overlaps e1' (ev_start e2') (ev_end e2')"
      unfolding overlaps_def e(3,4) same .
  qed
qed

section \<open>The whole transaction\<close>

text \<open>A step whose items occupy their professional afterwards: the unification of the group then
  cannot bring a double booking in.\<close>

locale booking_step_live = booking_step step Inv
  for step :: "'x \<Rightarrow> created_item tx" and Inv :: "db \<Rightarrow> bool" +
  fixes ws :: ident and Dom :: "'x \<Rightarrow> bool"
  assumes inv_single: "Inv d \<Longrightarrow> noDoubleBooking d ws"
    and item_live: "Inv d \<Longrightarrow> Dom x \<Longrightarrow> step x d = Inr (c, d') \<Longrightarrow> occupies d' ws (cr_event c)"
begin

lemma loop_live:
  "Inv d \<Longrightarrow> \<forall>x \<in> set xs. Dom x \<Longrightarrow> forEach step xs d = Inr (cs, d') \<Longrightarrow>
     \<forall>c \<in> set cs. occupies d' ws (cr_event c)"
proof (induction xs arbitrary: d cs)
  case (Cons x xs)
  then obtain c d1 cs' where st: "step x d = Inr (c, d1)" and fe: "forEach step xs d1 = Inr (cs', d')"
    and cs: "cs = c # cs'"
    by (auto simp: andThen_Inr_iff)
  have inv1: "Inv d1" using keeps[OF Cons.prems(1) st] .
  have "occupies d1 ws (cr_event c)" using item_live[OF Cons.prems(1) _ st] Cons.prems(2) by simp
  then have "occupies d' ws (cr_event c)"
    using occupies_grows[OF inv_wf[OF inv1] _ item_stored[OF st]] loop_items[OF fe] by blast
  then show ?case using Cons.IH[OF inv1 _ fe] Cons.prems(2) cs by simp
qed simp

lemma tx_single:
  assumes "Inv d" and "\<forall>x \<in> set xs. Dom x"
    and "createAssignmentsAndSyncGroupId step xs d = Inr (items, d')"
  shows "noDoubleBooking d' ws"
proof -
  obtain cs d1 where fe: "forEach step xs d = Inr (cs, d1)" and sy: "syncGroupIds cs d1 = Inr (items, d')"
    using assms(3) by (auto simp: createAssignmentsAndSyncGroupId_def andThen_Inr_iff)
  have nd: "noDoubleBooking d1 ws" using inv_single[OF loop_keeps[OF assms(1) fe]] .
  have wf: "wfDb d1" using inv_wf[OF loop_keeps[OF assms(1) fe]] .
  have st: "\<forall>c \<in> set cs. cr_event c \<in> set (events d1)" using loop_items[OF fe] by blast
  from syncGroupIds_Inr[OF sy] show ?thesis
  proof (elim disjE exE conjE)
    fix c0 cs0
    assume f: "filter (\<lambda>e. ev_id e \<noteq> []) (map cr_event cs) = c0 # cs0"
      and u: "updateManyEvents (\<lambda>e. ev_id e \<in> ev_id ` set (c0 # cs0)) (\<lambda>e. e\<lparr>ev_group := ev_group c0\<rparr>) d1 = Inr ((), d')"
    have "occupies d1 ws e" if e: "e \<in> set (events d1)" "ev_id e \<in> ev_id ` set (c0 # cs0)" for e
    proof -
      have "ev_id e \<in> ev_id ` set (filter (\<lambda>e. ev_id e \<noteq> []) (map cr_event cs))" using e(2) f by simp
      then obtain c where c: "c \<in> set cs" "ev_id e = ev_id (cr_event c)" by auto
      have "e = cr_event c"
        using wf e(1) c st unfolding wfDb_def by (metis distinct_map inj_onD)
      then show ?thesis using loop_live[OF assms(1,2) fe] c(1) by blast
    qed
    then show ?thesis using regroup_noDouble[OF nd _ u] by blast
  qed (use nd in simp)
qed

end

text \<open>The group id given, when its group exists, is of the workspace and not cancelled; the events
  already in the slots asked for occupy their professional.\<close>

definition groupLive :: "booking_params \<Rightarrow> db \<Rightarrow> bool" where
  "groupLive P d \<longleftrightarrow> (\<forall>i r. bp_group P = Some i \<and> groupById d i = Some r \<longrightarrow>
     gr_workspace r = bp_workspace P \<and> gr_status r \<notin> set CANCELLED_STATES)"

definition slotsLive :: "ident \<Rightarrow> segment set \<Rightarrow> db \<Rightarrow> bool" where
  "slotsLive ws segs d \<longleftrightarrow> (\<forall>e \<in> set (events d). \<forall>seg \<in> segs.
     sameSlot seg e \<and> groupSat d (\<lambda>g. gr_workspace g = ws) e \<longrightarrow> occupies d ws e)"

lemma statusFor_live: "statusFor b \<notin> set CANCELLED_STATES"
  by (simp add: statusFor_def CANCELLED_STATES_def)

lemma ensureGroup_live:
  assumes "wfDb d" and "groupLive P d" and "ensureGroup P svc seg d = Inr (g, d')"
  shows "groupSat d' (\<lambda>r. gr_workspace r = bp_workspace P \<and> gr_status r \<notin> set CANCELLED_STATES)
           (newEvent co svc seg g)"
proof (cases "truthy (bp_group P) \<and> groupById d (the (bp_group P)) \<noteq> None")
  case True
  then obtain i r where i: "bp_group P = Some i" and r: "groupById d i = Some r" by (cases "bp_group P") auto
  then have "g = i" "groups d' = groups d"
    using assms(3) True groupById_Some[OF r]
    by (auto simp: ensureGroup_def andThen_Inr_iff Let_def createParticipant_Inr split: if_splits)
  then show ?thesis using assms(2) i r
    by (simp add: groupLive_def groupSat_def newEvent_def groupById_def)
next
  case False
  then have none: "(if truthy (bp_group P) then groupById d (the (bp_group P)) else None) = None" by auto
  obtain gr d1 where cg: "createGroup (if truthy (bp_group P) then bp_group P else None) (newGroup P svc seg) d = Inr (gr, d1)"
    and cp: "createParticipant (newParticipant (gr_id gr) (bp_customer P) (statusFor (bp_autoConfirm P))) d1 = Inr ((), d')"
    and g: "g = gr_id gr"
    using assms(3) none by (auto simp: ensureGroup_def andThen_Inr_iff Let_def)
  have fresh: "idSupply d (nextId d) \<notin> gr_id ` set (groups d)"
    using assms(1) fresh_notin(2)[of d "nextId d"] by (simp add: wfDb_def)
  have gr: "groups d1 = groups d @ [gr] \<and> gr_id gr \<notin> gr_id ` set (groups d) \<and>
      gr_workspace gr = bp_workspace P \<and> gr_status gr = statusFor (bp_autoConfirm P)"
    using cg False fresh
    by (cases "truthy (bp_group P)"; cases "bp_group P")
       (auto simp: createGroup_Inr newGroup_def groupById_None)
  then have "groupById d' g = Some gr"
    using cp g groupById_None[of d g]
    by (simp add: createParticipant_Inr groupById_def find_append)
  then show ?thesis using gr by (simp add: groupSat_def newEvent_def statusFor_live)
qed

lemma groupSat_ev_group: "ev_group e = ev_group e' \<Longrightarrow> groupSat d Q e = groupSat d Q e'"
  by (simp add: groupSat_def)

lemma groupSat_imp: "groupSat d Q e \<Longrightarrow> (\<And>r. Q r \<Longrightarrow> R r) \<Longrightarrow> groupSat d R e"
  by (auto simp: groupSat_def split: option.splits)

lemma createInGroup_live:
  assumes "wfDb d" and "groupLive P d" and "createInGroup P svc seg d = Inr (c, d')"
  shows "occupies d' (bp_workspace P) (cr_event c)"
proof -
  obtain g d1 e d2 where g: "ensureGroup P svc seg d = Inr (g, d1)"
    and e: "createEvent (newEvent (bp_company P) svc seg g) d1 = Inr (e, d2)"
    and s: "syncGroupStartEndDates g d2 = Inr ((), d')"
    and c: "c = \<lparr>cr_event = e, cr_action = Created\<rparr>"
    using assms(3) by (auto simp: createInGroup_def andThen_Inr_iff)
  let ?Q = "\<lambda>r. gr_workspace r = bp_workspace P \<and> gr_status r \<notin> set CANCELLED_STATES"
  have "groupSat d1 ?Q e"
    using ensureGroup_live[OF assms(1,2) g] e groupSat_ev_group[of e "newEvent (bp_company P) svc seg g"]
    by (simp add: createEvent_Inr)
  moreover have "sameGroups d1 d'"
    using e syncDates_Inr[OF s] sameGroups_trans[of d1 d2 d'] sameGroups_eq[of d2 d1]
    by (simp add: createEvent_Inr grows_def)
  moreover have "ev_group e \<in> gr_id ` set (groups d1)"
    using ensureGroup_Inr[OF g] e by (simp add: createEvent_Inr newEvent_def)
  ultimately have "groupSat d' ?Q e" by (simp add: sameGroups_groupSat)
  then show ?thesis using e c by (simp add: occupies_def createEvent_Inr newEvent_def)
qed

lemma syncDates_ids:
  assumes "syncGroupStartEndDates g d = Inr (x, d')"
  shows "gr_id ` set (groups d') = gr_id ` set (groups d)"
proof (cases "groupRange d g")
  case None
  then show ?thesis using assms by (simp add: syncGroupStartEndDates_def andThen_def)
next
  case (Some se)
  then have "updateGroup g (\<lambda>r. r\<lparr>gr_start := fst se, gr_end := snd se\<rparr>) d = Inr (x, d')"
    using assms by (cases se) (simp add: syncGroupStartEndDates_def andThen_def)
  then have "map gr_id (groups d') = map gr_id (groups d)" by (rule updateGroup_ids[rotated]) simp
  then show ?thesis by (metis list.set_map)
qed

lemma sameGroups_workspace:
  assumes "wfDb d" and "grows d d'" and "e \<in> set (events d)"
  shows "groupSat d' (\<lambda>g. gr_workspace g = ws) e = groupSat d (\<lambda>g. gr_workspace g = ws) e"
proof -
  have "ev_group e \<in> gr_id ` set (groups d)" using assms(1,3) unfolding wfDb_def by blast
  moreover have "sameGroups d d'" using assms(2) by (simp add: grows_def)
  ultimately show ?thesis using sameGroups_groupSat[of d d' e ws "{}"] by simp
qed

lemma createInGroup_ids:
  assumes "createInGroup P svc seg d = Inr (c, d')"
  shows "gr_id ` set (groups d') \<subseteq> insert (ev_group (cr_event c)) (gr_id ` set (groups d))"
proof -
  obtain g d1 e d2 where g: "ensureGroup P svc seg d = Inr (g, d1)"
    and e: "createEvent (newEvent (bp_company P) svc seg g) d1 = Inr (e, d2)"
    and s: "syncGroupStartEndDates g d2 = Inr ((), d')"
    and c: "c = \<lparr>cr_event = e, cr_action = Created\<rparr>"
    using assms by (auto simp: createInGroup_def andThen_Inr_iff)
  have "gr_id ` set (groups d1) \<subseteq> insert g (gr_id ` set (groups d))"
    using g by (cases "bp_group P")
      (auto simp: ensureGroup_def andThen_Inr_iff Let_def createParticipant_Inr createGroup_Inr
        split: if_splits option.splits)
  moreover have "gr_id ` set (groups d') = gr_id ` set (groups d2)"
    by (rule syncDates_ids[OF s])
  ultimately show ?thesis using e c by (simp add: createEvent_Inr newEvent_def)
qed

lemma createInGroup_groupLive:
  assumes "wfDb d" and "groupLive P d" and "createInGroup P svc seg d = Inr (c, d')"
  shows "groupLive P d'"
  unfolding groupLive_def
proof (intro allI impI, elim conjE)
  fix i r
  assume i: "bp_group P = Some i" and r: "groupById d' i = Some r"
  show "gr_workspace r = bp_workspace P \<and> gr_status r \<notin> set CANCELLED_STATES"
  proof (cases "groupById d i")
    case (Some r0)
    moreover have "sameGroups d d'" using createInGroup_Inr[OF assms(3)] by (simp add: grows_def)
    ultimately show ?thesis using assms(2) i r unfolding groupLive_def sameGroups_def by fastforce
  next
    case None
    have "i \<in> gr_id ` set (groups d')" using groupById_Some[OF r] by blast
    moreover have "i \<notin> gr_id ` set (groups d)" using None by (simp add: groupById_None)
    ultimately have "i = ev_group (cr_event c)" using createInGroup_ids[OF assms(3)] by blast
    then have r': "groupById d' (ev_group (cr_event c)) = Some r" using r by simp
    have "groupSat d' (\<lambda>g. gr_workspace g = bp_workspace P \<and> gr_status g \<notin> set CANCELLED_STATES) (cr_event c)"
      using createInGroup_live[OF assms] by (simp only: occupies_def)
    then show ?thesis unfolding groupSat_Some[OF r'] .
  qed
qed

lemma slotsLive_same:
  assumes "slotsLive ws S d" and "wfDb d" and "grows d d'" and "events d' = events d"
  shows "slotsLive ws S d'"
proof -
  note sameGroups_workspace[OF assms(2,3)]
  then show ?thesis
    using assms occupies_grows[OF assms(2,3)] unfolding slotsLive_def by simp
qed

lemma createInGroup_slotsLive:
  assumes "wfDb d" and "groupLive P d" and "slotsLive (bp_workspace P) S d"
    and "createInGroup P svc seg d = Inr (c, d')"
  shows "slotsLive (bp_workspace P) S d'"
proof -
  let ?ws = "bp_workspace P"
  note new = createInGroup_Inr[OF assms(4)]
  have g: "grows d d'" using new by blast
  show ?thesis
    unfolding slotsLive_def
  proof (intro ballI impI)
    fix e seg
    assume e: "e \<in> set (events d')" and seg: "seg \<in> S"
      and m: "sameSlot seg e \<and> groupSat d' (\<lambda>g. gr_workspace g = ?ws) e"
    show "occupies d' ?ws e"
    proof (cases "e \<in> set (events d)")
      case True
      then show ?thesis
        using assms(3) seg m occupies_grows[OF assms(1) g True] sameGroups_workspace[OF assms(1) g True]
        unfolding slotsLive_def by blast
    next
      case False
      then have "e = cr_event c" using e new by auto
      then show ?thesis using createInGroup_live[OF assms(1,2,4)] by simp
    qed
  qed
qed

lemma createOrJoin_live:
  assumes "wfDb d" and "groupLive P d" and "slotsLive (bp_workspace P) S d"
    and "createOrJoinGroupEvent P svc seg d = Inr (c, d')"
  shows "groupLive P d' \<and> slotsLive (bp_workspace P) S d' \<and> (seg \<in> S \<longrightarrow> occupies d' (bp_workspace P) (cr_event c))"
  using assms(4)
proof (cases rule: createOrJoin_Inr)
  case (join e)
  note same = joinExisting_grows[OF join(2)] and e = exactEvent_Some[OF join(1)]
  have c: "cr_event c = e" using joinExisting_Inr[OF join(2)] by simp
  have sl: "slotsLive (bp_workspace P) S d'"
    using same by (intro slotsLive_same[OF assms(3,1)]) auto
  have "groupLive P d'" using same assms(2) by (simp add: groupLive_def groupById_def)
  moreover have "occupies d' (bp_workspace P) e" if "seg \<in> S"
    using assms(1,3) e that occupies_grows[of d d' e] same unfolding slotsLive_def by blast
  ultimately show ?thesis using sl c by simp
next
  case create
  then show ?thesis
    using createInGroup_live createInGroup_groupLive createInGroup_slotsLive assms by blast
qed

interpretation bl: booking_step_live "createEventsForSegment sv P"
    "\<lambda>d. wfDb d \<and> groupIdReserved P d \<and> noDoubleBooking d (bp_workspace P) \<and> groupLive P d \<and>
         slotsLive (bp_workspace P) S d"
    "bp_workspace P" "\<lambda>seg. seg \<in> S" for sv P S
proof -
  show "booking_step_live (createEventsForSegment sv P)
    (\<lambda>d. wfDb d \<and> groupIdReserved P d \<and> noDoubleBooking d (bp_workspace P) \<and> groupLive P d \<and>
         slotsLive (bp_workspace P) S d) (bp_workspace P) (\<lambda>seg. seg \<in> S)"
    by unfold_locales
      (auto simp: forSegment_Inr
        dest: createOrJoin_wf createOrJoin_noDouble createOrJoin_live createOrJoin_grows reserved_grows)
qed

section \<open>Capacity\<close>

text \<open>Joining never takes a group over the capacity of the service.\<close>

lemma createOrJoin_capacity:
  assumes "createOrJoinGroupEvent P svc seg d = Inr (c, d')" and "cr_action c = Joined"
  shows "length (activeParticipants d' (ev_group (cr_event c))) =
           Suc (length (activeParticipants d (ev_group (cr_event c)))) \<and>
         int (length (activeParticipants d' (ev_group (cr_event c)))) \<le> capacityOf (Some svc) \<and>
         customerIn d' (ev_group (cr_event c)) (bp_customer P) \<and> events d' = events d"
  using assms(1)
proof (cases rule: createOrJoin_Inr)
  case (join e)
  from joinExisting_Inr[OF join(2)] assms(2) have
    j: "cr_event c = e" "int (length (activeParticipants d (ev_group e))) < capacityOf (Some svc)"
       "createParticipant (newParticipant (ev_group e) (bp_customer P) (statusFor (bp_autoConfirm P))) d = Inr ((), d')"
    by auto
  have p: "participants d' = participants d @ [(newParticipant (ev_group e) (bp_customer P)
      (statusFor (bp_autoConfirm P)))\<lparr>pt_id := idSupply d (nextId d)\<rparr>]"
    using j(3) by (simp add: createParticipant_Inr)
  have "activeParticipants d' (ev_group e) = activeParticipants d (ev_group e) @
    [(newParticipant (ev_group e) (bp_customer P) (statusFor (bp_autoConfirm P)))\<lparr>pt_id := idSupply d (nextId d)\<rparr>]"
    using activeParticipants_append[OF p] by (simp add: newParticipant_def)
  then show ?thesis using j customerIn_new[OF p] by (simp add: createParticipant_Inr)
next
  case create
  then show ?thesis using createInGroup_Inr[OF create(3)] assms(2) by simp
qed

section \<open>The dates of the group\<close>

lemma groupRange_cong: "events d' = events d \<Longrightarrow> groupRange d' g = groupRange d g"
  by (simp add: groupRange_def)

lemma syncDates_range:
  assumes "wfDb d" and "syncGroupStartEndDates g d = Inr (x, d')" and "groupRange d g = Some (s, e)"
  shows "\<exists>r. groupById d' g = Some r \<and> gr_start r = s \<and> gr_end r = e"
proof -
  let ?f = "\<lambda>r :: group_row. r\<lparr>gr_start := s, gr_end := e\<rparr>"
  have u: "updateGroup g ?f d = Inr (x, d')"
    using assms(2,3) by (simp add: syncGroupStartEndDates_def andThen_def)
  then obtain r where r: "groupById d g = Some r" by (auto simp: updateGroup_Inr)
  have "groupById d' g = map_option (\<lambda>x. if gr_id x = g then ?f x else x) (groupById d g)"
    using u by (simp add: updateGroup_Inr groupById_def find_updateWhere_key[of gr_id])
  then show ?thesis using r groupById_Some[OF r] by simp
qed

lemma groupRange_new:
  assumes "e \<in> set (events d)" and "ev_deleted e = None"
  shows "groupRange d (ev_group e) \<noteq> None"
proof -
  have "e \<in> set (filter (\<lambda>x. ev_group x = ev_group e \<and> ev_deleted x = None) (events d))" using assms by simp
  then obtain x xs where "filter (\<lambda>x. ev_group x = ev_group e \<and> ev_deleted x = None) (events d) = x # xs"
    by (cases "filter (\<lambda>x. ev_group x = ev_group e \<and> ev_deleted x = None) (events d)") auto
  then show ?thesis unfolding groupRange_def by simp
qed

text \<open>After a creation the dates of the group are those of its live events.\<close>

lemma createInGroup_dates:
  assumes "wfDb d" and "groupIdReserved P d" and "createInGroup P svc seg d = Inr (c, d')"
  shows "\<exists>r s e. groupById d' (ev_group (cr_event c)) = Some r \<and>
     groupRange d' (ev_group (cr_event c)) = Some (s, e) \<and> gr_start r = s \<and> gr_end r = e"
proof -
  obtain g d1 e d2 where g: "ensureGroup P svc seg d = Inr (g, d1)"
    and e: "createEvent (newEvent (bp_company P) svc seg g) d1 = Inr (e, d2)"
    and s: "syncGroupStartEndDates g d2 = Inr ((), d')"
    and c: "c = \<lparr>cr_event = e, cr_action = Created\<rparr>"
    using assms(3) by (auto simp: createInGroup_def andThen_Inr_iff)
  have "wfDb d1" by (rule ensureGroup_wf[OF assms(1,2) g])
  then have wf2: "wfDb d2" using e ensureGroup_Inr[OF g]
    by (intro wf_createEvent[OF _ _ e]) (auto simp: newEvent_def)
  have eg: "ev_group e = g" "e \<in> set (events d2)" "ev_deleted e = None"
    using e by (auto simp: createEvent_Inr newEvent_def)
  obtain t u where r: "groupRange d2 g = Some (t, u)"
    using groupRange_new[OF eg(2,3)] eg(1) by auto
  have "groupRange d' g = Some (t, u)" using r syncDates_Inr[OF s] groupRange_cong by metis
  then show ?thesis using syncDates_range[OF wf2 s r] c eg(1) by auto
qed

end
