(* ===== verification/CalWeb.thy ===== *)
theory CalWeb
  imports CalBookingTx
begin

text \<open>
  \<open>addEventFromWeb\<close> (\<open>event-client-write.service.ts\<close>): validation of the input, the start in the
  zone of the workspace, the context of availability, the assignment of professionals (or joining
  an existing group), the transaction and the response.
\<close>

section \<open>Input and response\<close>

record add_input =
  in_company :: ident
  in_workspace :: ident
  in_tzClient :: ident
  in_start :: string
  in_attendees :: "attendee list"
  in_exclude :: "ident option"
  in_note :: "string option"
  in_commentRead :: "bool option"
  in_customer :: customer
  in_source :: "source_type option"

record add_deps =
  dp_tz :: ident
  dp_weights :: "(ident \<times> rat option) list option"
  dp_maxServices :: "nat option"
  dp_autoConfirm :: "bool option"

record assignment_out =
  ao_service :: ident
  ao_user :: ident
  ao_startUTC :: string
  ao_endUTC :: string
  ao_startLocal :: string
  ao_endLocal :: string

record appointment_out =
  ap_startLocal :: string
  ap_endLocal :: string
  ap_tzClient :: ident
  ap_tzWorkspace :: ident
  ap_total :: int

record add_response =
  ad_appointment :: appointment_out
  ad_assignments :: "assignment_out list"
  ad_created :: "created_item list"
  ad_group :: "ident option"

section \<open>Validation\<close>

definition validateAddInput :: "add_input \<Rightarrow> ident \<Rightarrow> app_error option" where
  "validateAddInput inp tzWorkspace =
     (if \<not> hasRequiredContext (in_company inp) (in_workspace inp) tzWorkspace (in_tzClient inp)
      then Some (CatalogError BOOKING_ERR_VALIDATION_INPUT
                  ''Faltan idCompany/idWorkspace/timeZoneWorkspace/timeZoneClient'')
      else if \<not> isStartLocalISO (in_start inp)
      then Some (CatalogError BOOKING_ERR_VALIDATION_INPUT ''startLocalISO debe ser YYYY-MM-DDTHH:mm:ss'')
      else if \<not> hasAttendees (in_attendees inp)
      then Some (CatalogError BOOKING_ERR_VALIDATION_INPUT ''attendees vacio'')
      else if \<not> hasCustomerIdentifiers (in_customer inp)
      then Some (CatalogError BOOKING_ERR_VALIDATION_INPUT ''Falta customer.id/customer.idClientWorkspace'')
      else None)"

text \<open>\<open>Inl\<close> is the throw, \<open>Inr (Inl _)\<close> the two answers \<open>ok: false\<close>.\<close>

datatype past_reason = DayInPast | TimePassed

record start_context =
  sc_start :: instant
  sc_date :: string
  sc_isToday :: bool
  sc_rounded :: instant

definition resolveStartContext ::
  "env \<Rightarrow> string \<Rightarrow> ident \<Rightarrow> ident \<Rightarrow> app_error + past_reason + start_context" where
  "resolveStartContext E startISO tzClient tzWorkspace =
     (case z_parse (e_tz E) startISO tzClient of
        None \<Rightarrow> Inl (CatalogError BOOKING_ERR_VALIDATION_INPUT ''startLocalISO invalido'')
      | Some startWS \<Rightarrow>
          (let todayWS = z_sod (e_tz E) tzWorkspace (e_now E) in
           if isDayInPast (e_tz E) tzWorkspace startWS todayWS then Inr (Inl DayInPast)
           else
             (let cfg = computeSlotConfig (e_tz E) (e_now E) (Some 5) tzWorkspace
                          (z_sod (e_tz E) tzWorkspace startWS)
              in if isTimeInPast (isToday cfg) startWS (roundedNow cfg) then Inr (Inl TimePassed)
                 else Inr (Inr \<lparr>sc_start = startWS, sc_date = z_date (e_tz E) tzWorkspace startWS,
                                sc_isToday = isToday cfg, sc_rounded = roundedNow cfg\<rparr>))))"

section \<open>Assignment\<close>

text \<open>The first event of the list with the least distance, as a stable sort would give.\<close>

definition closestEvent :: "instant \<Rightarrow> event_row list \<Rightarrow> event_row option" where
  "closestEvent startWS es =
     (case sort_key (\<lambda>e. \<bar>diffMinutes (ev_start e) startWS\<bar>) es of [] \<Rightarrow> None | e # _ \<Rightarrow> Some e)"

definition isSameMinute :: "tzlib \<Rightarrow> ident \<Rightarrow> instant \<Rightarrow> instant \<Rightarrow> bool" where
  "isSameMinute Z z a b \<longleftrightarrow> z_floor Z z a \<le> b \<and> b < z_floor Z z a + minute_ms"

definition pickExisting :: "tzlib \<Rightarrow> ident \<Rightarrow> instant \<Rightarrow> instant \<Rightarrow> event_row list \<Rightarrow> event_row option" where
  "pickExisting Z z startWS endWS es =
     (case List.find (\<lambda>e. isSameMinute Z z (ev_start e) startWS \<and> isSameMinute Z z (ev_end e) endWS) es of
        Some e \<Rightarrow> Some e
      | None \<Rightarrow> closestEvent startWS es)"

definition tryJoinExistingGroupAssignment ::
  "env \<Rightarrow> ident \<Rightarrow> ident \<Rightarrow> instant \<Rightarrow> attendee list \<Rightarrow> service_by_id \<Rightarrow> (ident \<times> ident list) list
   \<Rightarrow> ident option \<Rightarrow> customer \<Rightarrow> segment list req" where
  "tryJoinExistingGroupAssignment E ws tz startWS attendees serviceById users exclude cust =
     (let request = hd attendees;
          snap = serviceById (at_service request);
          endWS = addMinutes startWS (at_duration request);
          eligible = orElse (map_of users (at_service request)) []
      in if eligible = [] then eret []
         else ebind (eread (\<lambda>w. findOverlappingGroupCandidates ws (at_service request) eligible
                 startWS endWS exclude (w_db w))) (\<lambda>overlapping.
           case pickExisting (e_tz E) tz startWS endWS overlapping of
             None \<Rightarrow> eret []
           | Some pick \<Rightarrow>
               (case ev_user pick of
                  Some (c # cs) \<Rightarrow>
                    ebind (eread (\<lambda>w. activeParticipants (w_db w) (ev_group pick))) (\<lambda>ps.
                      let hasSeat = int (length ps) < capacityOf snap;
                          alreadyIn = list_ex (\<lambda>p. pt_client p = Some (cu_id cust)
                                        \<or> pt_clientWs p = Some (cu_clientWs cust)) ps
                      in if \<not> hasSeat \<or> alreadyIn then eret []
                         else eret [\<lparr>sg_service = at_service request, sg_user = c # cs,
                                     sg_start = z_floor (e_tz E) tz startWS,
                                     sg_end = z_floor (e_tz E) tz endWS\<rparr>])
                | _ \<Rightarrow> eret [])))"

text \<open>A computation on the redis store, inside the world.\<close>

definition onRedis :: "(redis \<Rightarrow> 'a \<times> redis) \<Rightarrow> 'a req" where
  "onRedis f = (\<lambda>w. case f (w_redis w) of (x, r) \<Rightarrow> (Inr x, w\<lparr>w_redis := r\<rparr>))"

definition newGroupId :: "ident req" where
  "newGroupId = (\<lambda>w. let d = w_db w in
     (Inr (idSupply d (nextId d)), w\<lparr>w_db := d\<lparr>nextId := Suc (nextId d)\<rparr>\<rparr>))"

definition chooserAt :: "env \<Rightarrow> redis chooser" where
  "chooserAt E ws svc s e eligibles weights r = chooseStaffWithRR (e_now E) ws svc s e eligibles weights r"

text \<open>Joining an existing group when the service is a class, otherwise the strategy. The result is
  \<open>None\<close> for \<open>ok: false\<close>, otherwise the assignment and the shared group id.\<close>

definition joinOrAssign ::
  "env \<Rightarrow> ident \<Rightarrow> ident \<Rightarrow> instant \<Rightarrow> attendee list \<Rightarrow> booking_ctx \<Rightarrow> ident option \<Rightarrow> customer
   \<Rightarrow> ident option \<Rightarrow> (segment list \<times> ident option) option req" where
  "joinOrAssign E ws tz startWS attendees ctx exclude cust sharedGroupId =
     (let mode = getAssignmentMode attendees (bc_services ctx) in
      ebind (if mode = SingleGroup
             then tryJoinExistingGroupAssignment E ws tz startWS attendees (bc_services ctx) (bc_users ctx)
                    exclude cust
             else eret []) (\<lambda>joinable.
        if joinable \<noteq> [] then eret (Some (joinable, sharedGroupId))
        else ebind (onRedis (executeStrategy (e_tz E) (chooserAt E) mode
                \<lparr>si_workspace = ws, si_tz = tz, si_start = startWS, si_attendees = attendees,
                 si_services = bc_services ctx, si_users = map_of (bc_users ctx),
                 si_windows = bc_windows ctx, si_weights = bc_weights ctx\<rparr>)) (\<lambda>res.
          case res of
            Inl _ \<Rightarrow> eret None
          | Inr assignment \<Rightarrow> eret (Some (assignment, sharedGroupId)))))"

definition resolveAssignment ::
  "env \<Rightarrow> ident \<Rightarrow> ident \<Rightarrow> instant \<Rightarrow> attendee list \<Rightarrow> booking_ctx \<Rightarrow> ident option \<Rightarrow> customer
   \<Rightarrow> (segment list \<times> ident option) option req" where
  "resolveAssignment E ws tz startWS attendees ctx exclude cust =
     ebind (if getAssignmentMode attendees (bc_services ctx) = MultiIndividual
            then ebind newGroupId (\<lambda>g. eret (Some g)) else eret None)
       (joinOrAssign E ws tz startWS attendees ctx exclude cust)"

section \<open>The response\<close>

definition assignmentOut :: "tzlib \<Rightarrow> ident \<Rightarrow> segment \<Rightarrow> assignment_out" where
  "assignmentOut Z tzClient seg =
     \<lparr>ao_service = sg_service seg, ao_user = sg_user seg, ao_startUTC = toISOString (sg_start seg),
      ao_endUTC = toISOString (sg_end seg), ao_startLocal = z_fmt Z tzClient (sg_start seg),
      ao_endLocal = z_fmt Z tzClient (sg_end seg)\<rparr>"

definition getCoreEvent :: "created_item \<Rightarrow> event_row option" where
  "getCoreEvent item = Some (cr_event item)"

definition buildAddFromWebResponse ::
  "tzlib \<Rightarrow> instant \<Rightarrow> ident \<Rightarrow> ident \<Rightarrow> segment list \<Rightarrow> attendee list \<Rightarrow> created_item list \<Rightarrow> add_response" where
  "buildAddFromWebResponse Z startWS tzClient tzWorkspace assignment attendees created =
     (let totalDuration = sumDurations attendees;
          endWS = addMinutes startWS totalDuration;
          coreEvents = List.map_filter getCoreEvent created
      in \<lparr>ad_appointment = \<lparr>ap_startLocal = z_fmt Z tzClient startWS, ap_endLocal = z_fmt Z tzClient endWS,
             ap_tzClient = tzClient, ap_tzWorkspace = tzWorkspace, ap_total = totalDuration\<rparr>,
          ad_assignments = map (assignmentOut Z tzClient) assignment,
          ad_created = created,
          ad_group = (case coreEvents of [] \<Rightarrow> None | e # _ \<Rightarrow> Some (ev_group e))\<rparr>)"

section \<open>The whole operation\<close>

definition contextInput :: "add_input \<Rightarrow> add_deps \<Rightarrow> start_context \<Rightarrow> context_input" where
  "contextInput inp deps sc =
     \<lparr>ci_company = in_company inp, ci_workspace = in_workspace inp, ci_date = sc_date sc,
      ci_start = sc_start sc, ci_isToday = sc_isToday sc, ci_rounded = sc_rounded sc,
      ci_attendees = in_attendees inp, ci_tz = dp_tz deps, ci_weights = dp_weights deps,
      ci_exclude = in_exclude inp, ci_ignored = None, ci_preServices = None, ci_preWeights = None\<rparr>"

definition bookingParams :: "add_input \<Rightarrow> add_deps \<Rightarrow> ident option \<Rightarrow> booking_params" where
  "bookingParams inp deps sharedGroupId =
     \<lparr>bp_company = in_company inp, bp_workspace = in_workspace inp, bp_group = sharedGroupId,
      bp_tz = dp_tz deps, bp_note = in_note inp, bp_commentRead = in_commentRead inp,
      bp_customer = in_customer inp, bp_autoConfirm = orElse (dp_autoConfirm deps) False,
      bp_source = Some (orElse (in_source inp) WEB)\<rparr>"

text \<open>From the availability to the response.\<close>

definition bookFrom :: "env \<Rightarrow> add_input \<Rightarrow> add_deps \<Rightarrow> start_context \<Rightarrow> add_response option req" where
  "bookFrom E inp deps sc =
     ebind (buildAvailabilityContext E (contextInput inp deps sc)) (\<lambda>availability.
       case availability of
         None \<Rightarrow> eret None
       | Some ctx \<Rightarrow>
           ebind (resolveAssignment E (in_workspace inp) (dp_tz deps) (sc_start sc)
                   (in_attendees inp) ctx (in_exclude inp) (in_customer inp)) (\<lambda>res.
             case res of
               None \<Rightarrow> eret None
             | Some (assignment, sharedGroupId) \<Rightarrow>
                 ebind (inTx (createEventsForAssignment (bc_services ctx)
                         (bookingParams inp deps sharedGroupId) assignment)) (\<lambda>created.
                   eret (Some (buildAddFromWebResponse (e_tz E) (sc_start sc) (in_tzClient inp)
                     (dp_tz deps) assignment (in_attendees inp) created)))))"

definition addEventFromWebBody :: "env \<Rightarrow> add_input \<Rightarrow> add_deps \<Rightarrow> add_response option req" where
  "addEventFromWebBody E inp deps =
     (case validateAddInput inp (dp_tz deps) of
        Some err \<Rightarrow> ethrow err
      | None \<Rightarrow>
          (case resolveStartContext E (in_start inp) (in_tzClient inp) (dp_tz deps) of
             Inl err \<Rightarrow> ethrow err
           | Inr (Inl _) \<Rightarrow> eret None
           | Inr (Inr sc) \<Rightarrow> bookFrom E inp deps sc))"

definition addEventFromWeb :: "env \<Rightarrow> add_input \<Rightarrow> add_deps \<Rightarrow> add_response option req" where
  "addEventFromWeb E inp deps =
     ecatch (addEventFromWebBody E inp deps) (\<lambda>e. ethrow (Wrapped ''Error al crear evento'' e))"

lemma after_onRedis:
  "(\<And>x t. onRedis f w = (Inr x, t) \<Longrightarrow> w_db t = w_db w \<Longrightarrow> Q (Inr x) t) \<Longrightarrow> after (onRedis f) w Q"
  by (rule after_keeps) (auto simp: onRedis_def split: prod.splits)

end
