(* ===== verification/CalUpdate.thy ===== *)
theory CalUpdate
  imports CalWeb
begin

text \<open>
  Editing a booking: the transactions of \<open>event-client-update.persistence.ts\<close>, the copies of the
  chooser and of create-or-join that \<open>event-client-update-write.service.ts\<close> keeps, the three flows
  (class edit, one segment in place, rebuild) and \<open>updateEventFromWebBase\<close>.
\<close>

section \<open>The copies of the update service\<close>

definition chooseStaffWithRRUpdate ::
  "instant \<Rightarrow> ident \<Rightarrow> ident \<Rightarrow> instant \<Rightarrow> instant \<Rightarrow> ident list \<Rightarrow> (ident \<Rightarrow> rat option)
   \<Rightarrow> redis \<Rightarrow> ident option \<times> redis" where
  "chooseStaffWithRRUpdate now ws svc startD endD eligibles weightsMap r =
     (if eligibles = [] then (None, r)
      else case acquireHold now ws svc (toISOString startD) (toISOString endD) (Some 60) r of
        (False, r1) \<Rightarrow> (None, r1)
      | (True, r1) \<Rightarrow>
          (case pickWeightedSmoothRR now ws (Some svc) eligibles weightsMap (Some (604800 * 2)) r1 of
             (chosen, r2) \<Rightarrow>
               if \<not> canAssign chosen
               then (None, releaseHold ws svc (toISOString startD) (toISOString endD) r2)
               else (chosen, r2)))"

definition createOrJoinGroupEventUpdate ::
  "booking_params \<Rightarrow> service_snapshot \<Rightarrow> segment \<Rightarrow> created_item tx" where
  "createOrJoinGroupEventUpdate P svc seg = (\<lambda>d.
     case exactEvent d (bp_workspace P) seg of
       Some existing \<Rightarrow> joinExisting P svc existing d
     | None \<Rightarrow>
         (if \<not> isAvailable (\<not> hasConflict (map_option ev_id (overlappingOther d (bp_workspace P) seg)))
          then Inl (CatalogError BOOKING_ERR_OVERLAP_CONFLICT
                 ''Ese profesional ya tiene otro evento en ese horario.'')
          else createInGroup P svc seg d))"

section \<open>Persistence\<close>

text \<open>The data of an event moved to a segment; the snapshot columns come from the service, when it is
  known.\<close>

definition eventPatch :: "service_snapshot option \<Rightarrow> segment \<Rightarrow> ident \<Rightarrow> event_row \<Rightarrow> event_row" where
  "eventPatch snap seg g e =
     e\<lparr>ev_service := Some (sg_service seg), ev_user := Some (sg_user seg), ev_start := sg_start seg,
       ev_end := sg_end seg, ev_purpose := APPOINTMENT, ev_group := g,
       ev_nameSnap := Option.bind snap sv_name, ev_priceSnap := Option.bind snap sv_price,
       ev_discountSnap := Option.bind snap sv_discount, ev_durationSnap := Option.bind snap sv_duration,
       ev_maxPartSnap := Option.bind snap sv_maxParticipants\<rparr>"

definition patchGroup :: "ident \<Rightarrow> string option \<Rightarrow> bool option \<Rightarrow> ident \<Rightarrow> unit tx" where
  "patchGroup g note commentRead tz =
     updateGroup g (\<lambda>r. r\<lparr>gr_comment := note, gr_commentRead := orElse commentRead False, gr_tz := tz\<rparr>)"

definition overlappingExcept :: "db \<Rightarrow> ident \<Rightarrow> segment \<Rightarrow> ident \<Rightarrow> event_row option" where
  "overlappingExcept d ws seg originalId =
     List.find (\<lambda>e. ev_user e = Some (sg_user seg) \<and> overlaps e (sg_start seg) (sg_end seg)
                  \<and> occupies d ws e \<and> ev_id e \<noteq> originalId) (events d)"

record single_update =
  su_segment :: segment
  su_workspace :: ident
  su_original :: ident
  su_group :: ident
  su_note :: "string option"
  su_commentRead :: "bool option"
  su_tz :: ident
  su_snapshot :: "service_snapshot option"

definition updateSingleEvent :: "single_update \<Rightarrow> event_row tx" where
  "updateSingleEvent U = (\<lambda>d.
     if overlappingExcept d (su_workspace U) (su_segment U) (su_original U) \<noteq> None
     then Inl (CatalogError BOOKING_ERR_OVERLAP_CONFLICT
            ''Ese profesional ya tiene otro evento en ese horario.'')
     else andThen (patchGroup (su_group U) (su_note U) (su_commentRead U) (su_tz U)) (\<lambda>_.
            updateEvent (su_original U) (eventPatch (su_snapshot U) (su_segment U) (su_group U))) d)"

record rebuild_input =
  rb_company :: ident
  rb_workspace :: ident
  rb_group :: ident
  rb_note :: "string option"
  rb_commentRead :: "bool option"
  rb_tz :: ident
  rb_customer :: customer
  rb_segments :: "segment list"
  rb_originalIds :: "ident list"
  rb_kept :: "ident list"
  rb_services :: service_by_id
  rb_explicitDeletes :: "ident list"

text \<open>The overlap check of the rebuild: unlike the others it does not look at the status of the
  group.\<close>

definition rebuildConflict :: "rebuild_input \<Rightarrow> segment \<Rightarrow> unit tx" where
  "rebuildConflict R seg = (\<lambda>d.
     case List.find (\<lambda>e. ev_user e = Some (sg_user seg) \<and> overlaps e (sg_start seg) (sg_end seg)
            \<and> ev_deleted e = None \<and> groupSat d (\<lambda>g. gr_workspace g = rb_workspace R) e
            \<and> ev_id e \<notin> set (rb_originalIds R)) (events d) of
       None \<Rightarrow> Inr ((), d)
     | Some _ \<Rightarrow> Inl (CatalogError BOOKING_ERR_OVERLAP_CONFLICT
                 ''Un profesional tiene otro evento en el horario planificado.''))"

definition rebuildUpdate :: "rebuild_input \<Rightarrow> ident \<times> segment \<Rightarrow> event_row tx" where
  "rebuildUpdate R = (\<lambda>(target, seg).
     updateEvent target (eventPatch (rb_services R (sg_service seg)) seg (rb_group R)))"

definition rebuildEvent :: "rebuild_input \<Rightarrow> segment \<Rightarrow> event_row" where
  "rebuildEvent R seg =
     (let snap = rb_services R (sg_service seg) in
      \<lparr>ev_id = [], ev_group = rb_group R, ev_company = rb_company R,
       ev_title = orElse (Option.bind snap sv_name) ''Servicio'',
       ev_service = Some (sg_service seg), ev_user = Some (sg_user seg),
       ev_start = sg_start seg, ev_end = sg_end seg, ev_purpose = APPOINTMENT,
       ev_nameSnap = Option.bind snap sv_name, ev_priceSnap = Option.bind snap sv_price,
       ev_discountSnap = Option.bind snap sv_discount, ev_durationSnap = Option.bind snap sv_duration,
       ev_maxPartSnap = Option.bind snap sv_maxParticipants, ev_deleted = None,
       ev_description = None, ev_allDay = False, ev_rule = None\<rparr>)"

definition softDelete :: "instant \<Rightarrow> ident \<Rightarrow> ident tx" where
  "softDelete now i = andThen (updateEvent i (\<lambda>e. e\<lparr>ev_deleted := Some now\<rparr>)) (\<lambda>_. ret i)"

definition ensureParticipant :: "ident \<Rightarrow> customer \<Rightarrow> unit tx" where
  "ensureParticipant g c =
     andThen (readState (\<lambda>d. customerIn d g c)) (\<lambda>existing.
       if existing then ret () else createParticipant (newParticipant g c PENDING))"

record rebuild_result =
  rr_updated :: "event_row list"
  rr_created :: "event_row list"
  rr_deleted :: "ident list"

definition rebuildBooking :: "instant \<Rightarrow> rebuild_input \<Rightarrow> rebuild_result tx" where
  "rebuildBooking now R =
     andThen (patchGroup (rb_group R) (rb_note R) (rb_commentRead R) (rb_tz R)) (\<lambda>_.
     andThen (ensureParticipant (rb_group R) (rb_customer R)) (\<lambda>_.
     andThen (forEach (rebuildConflict R) (rb_segments R)) (\<lambda>_.
     let toUpdate = min (length (rb_kept R)) (length (rb_segments R)) in
     andThen (forEach (rebuildUpdate R) (zip (take toUpdate (rb_kept R)) (take toUpdate (rb_segments R)))) (\<lambda>updated.
     andThen (forEach (\<lambda>seg. createEvent (rebuildEvent R seg)) (drop toUpdate (rb_segments R))) (\<lambda>created.
     andThen (forEach (softDelete now) (uniq (rb_explicitDeletes R @ drop (length (rb_segments R)) (rb_kept R)))) (\<lambda>deleted.
     ret \<lparr>rr_updated = updated, rr_created = created, rr_deleted = deleted\<rparr>))))))"

text \<open>\<open>moveSingleParticipantInClassEdit\<close>\<close>

definition isMine :: "customer \<Rightarrow> participant_row \<Rightarrow> bool" where
  "isMine c p \<longleftrightarrow> (truthy (pt_client p) \<and> pt_client p = Some (cu_id c))
     \<or> (truthy (pt_clientWs p) \<and> pt_clientWs p = Some (cu_clientWs c))"

definition moveSingleParticipantInClassEdit ::
  "instant \<Rightarrow> ident \<Rightarrow> ident \<Rightarrow> customer \<Rightarrow> ident \<Rightarrow> (ident \<Rightarrow> created_item tx)
   \<Rightarrow> (event_row \<times> booking_action \<times> ident list) tx" where
  "moveSingleParticipantInClassEdit now originalGroupId originalEventId c groupId createOrJoin =
     andThen (readState (\<lambda>d. activeParticipants d originalGroupId)) (\<lambda>active.
     if filter (isMine c) active = []
     then throw (CatalogError BOOKING_ERR_NOT_OWNER
            ''Este cliente no esta asociado al evento original (class edit).'')
     else
       andThen
         (if length active = 1
          then andThen (updateManyEvents (\<lambda>e. ev_group e = originalGroupId) (\<lambda>e. e\<lparr>ev_deleted := Some now\<rparr>)) (\<lambda>_.
               andThen (updateManyParticipants (\<lambda>p. pt_group p = originalGroupId \<and> pt_deleted p = None)
                         (\<lambda>p. p\<lparr>pt_deleted := Some now\<rparr>)) (\<lambda>_. ret [originalEventId]))
          else andThen (updateManyParticipants (\<lambda>p. pt_group p = originalGroupId \<and> pt_deleted p = None
                   \<and> (pt_client p = Some (cu_id c) \<or> pt_clientWs p = Some (cu_clientWs c)))
                 (\<lambda>p. p\<lparr>pt_deleted := Some now\<rparr>)) (\<lambda>_. ret [])) (\<lambda>deletedEventIds.
       andThen (createOrJoin originalGroupId) (\<lambda>item.
       andThen (if ev_group (cr_event item) = groupId then ret (cr_event item)
                else updateEvent (ev_id (cr_event item)) (\<lambda>e. e\<lparr>ev_group := groupId\<rparr>)) (\<lambda>target.
       ret (target, cr_action item, deletedEventIds)))))"

end
