(* ===== verification/CalFlows.thy ===== *)
theory CalFlows
  imports CalUpdate
begin

text \<open>
  The three flows of an update and the operation that validates the request, loads the booking and
  selects the flow (\<open>updateEventFromWebBase\<close>). A flow answers with a refusal (its code and
  message) or with what it changed.
\<close>

section \<open>Input and response of a flow\<close>

record flow_input =
  fi_company :: ident
  fi_workspace :: ident
  fi_tzClient :: ident
  fi_tz :: ident
  fi_start :: start_context
  fi_attendees :: "attendee list"
  fi_event :: ident
  fi_original :: event_row
  fi_originals :: "event_row list"
  fi_explicit :: "ident list"
  fi_group :: ident
  fi_services :: service_by_id
  fi_weights :: "ident \<Rightarrow> rat option"
  fi_max :: nat
  fi_customer :: customer
  fi_note :: "string option"
  fi_commentRead :: "bool option"
  fi_source :: "source_type option"

record update_item =
  ui_outcome :: string
  ui_from :: ident
  ui_appointment :: appointment_out
  ui_assignments :: "assignment_out list"
  ui_created :: "event_row list"
  ui_updated :: "event_row list"
  ui_deleted :: "ident list"

text \<open>The rebuild flow nests its data under \<open>item\<close>, the other two answer with it directly.\<close>

datatype update_answer =
    Refused string string
  | Direct update_item "ident \<times> string"
  | Nested update_item "ident \<times> string"

definition attSnapshot :: "flow_input \<Rightarrow> attendee \<Rightarrow> service_snapshot option" where
  "attSnapshot F a = fi_services F (at_service a)"

definition chooserUpdateAt :: "env \<Rightarrow> redis chooser" where
  "chooserUpdateAt E ws svc s e eligibles weights r =
     chooseStaffWithRRUpdate (e_now E) ws svc s e eligibles weights r"

definition appointmentOf :: "tzlib \<Rightarrow> flow_input \<Rightarrow> instant \<Rightarrow> instant \<Rightarrow> int \<Rightarrow> appointment_out" where
  "appointmentOf Z F s e totalMin =
     \<lparr>ap_startLocal = z_fmt Z (fi_tzClient F) s, ap_endLocal = z_fmt Z (fi_tzClient F) e,
      ap_tzClient = fi_tzClient F, ap_tzWorkspace = fi_tz F, ap_total = totalMin\<rparr>"

section \<open>Class edit\<close>

definition classParams :: "flow_input \<Rightarrow> ident \<Rightarrow> booking_params" where
  "classParams F originalGroupId =
     \<lparr>bp_company = fi_company F, bp_workspace = fi_workspace F, bp_group = Some originalGroupId,
      bp_tz = fi_tz F, bp_note = fi_note F, bp_commentRead = None, bp_customer = fi_customer F,
      bp_autoConfirm = True, bp_source = fi_source F\<rparr>"

definition classEligible :: "env \<Rightarrow> flow_input \<Rightarrow> attendee \<Rightarrow> ident list req" where
  "classEligible E F a =
     (if truthy (at_staff a) then eret (uniq [the (at_staff a)])
      else ebind (getUsersWhoCanPerformService E (fi_workspace F) (at_service a) (at_category a))
             (\<lambda>users. eret (uniq users)))"

definition runPureClassEditFlow :: "env \<Rightarrow> flow_input \<Rightarrow> update_answer req" where
  "runPureClassEditFlow E F =
     (let a = hd (fi_attendees F) in
      case attSnapshot F a of
        None \<Rightarrow> ethrow (CatalogError BOOKING_ERR_GENERIC ''Servicio no disponible en snapshot'')
      | Some snap \<Rightarrow>
          (let dur = at_duration a; startWS = sc_start (fi_start F); endWS = addMinutes startWS dur in
           ebind (classEligible E F a) (\<lambda>allUserIds.
           if \<not> hasAnyProfessional allUserIds
           then eret (Refused ''BOOKING_ERR_NO_ELIGIBLE_STAFF''
                        ''No hay profesionales elegibles para el servicio seleccionado.'')
           else
             ebind (onRedis (chooserUpdateAt E (fi_workspace F) (at_service a) startWS endWS allUserIds
                      (fi_weights F))) (\<lambda>chosen.
             if \<not> canAssign chosen
             then eret (Refused ''BOOKING_ERR_RR_NO_CANDIDATE''
                          ''No se pudo seleccionar un profesional para el slot.'')
             else
               (let seg = \<lparr>sg_service = at_service a, sg_user = the chosen,
                           sg_start = z_floor (e_tz E) (fi_tz F) startWS,
                           sg_end = z_floor (e_tz E) (fi_tz F) endWS\<rparr>
                in ebind (inTx (moveSingleParticipantInClassEdit (e_now E) (ev_group (fi_original F))
                       (ev_id (fi_original F)) (fi_customer F) (fi_group F)
                       (\<lambda>g. createOrJoinGroupEventUpdate (classParams F g) snap seg)))
                     (\<lambda>(targetEvent, action, deletedEventIds).
                       eret (Direct
                         \<lparr>ui_outcome = ''move_single_participant_in_class'',
                          ui_from = ev_id (fi_original F),
                          ui_appointment = appointmentOf (e_tz E) F (sg_start seg) (sg_end seg) dur,
                          ui_assignments = [assignmentOut (e_tz E) (fi_tzClient F) seg],
                          ui_created = (if action = Created then [targetEvent] else []),
                          ui_updated = (if action = Joined \<or> action = AlreadyIn then [targetEvent] else []),
                          ui_deleted = deletedEventIds\<rparr> (fi_group F, ''single-service''))))))))"

section \<open>One segment in place\<close>

definition updateContextInput :: "flow_input \<Rightarrow> ident option \<Rightarrow> ident list \<Rightarrow> context_input" where
  "updateContextInput F exclude ignored =
     \<lparr>ci_company = fi_company F, ci_workspace = fi_workspace F, ci_date = sc_date (fi_start F),
      ci_start = sc_start (fi_start F), ci_isToday = sc_isToday (fi_start F),
      ci_rounded = sc_rounded (fi_start F), ci_attendees = fi_attendees F, ci_tz = fi_tz F,
      ci_weights = None, ci_exclude = exclude, ci_ignored = Some ignored,
      ci_preServices = Some (fi_services F), ci_preWeights = Some (fi_weights F)\<rparr>"

text \<open>\<open>eligAvail\<close>\<close>

definition eligAvail :: "booking_ctx \<Rightarrow> ident list \<Rightarrow> instant \<Rightarrow> instant \<Rightarrow> ident list" where
  "eligAvail ctx eligible s e =
     filter (\<lambda>uid. fitsWindow (orElse (bc_windows ctx uid) []) s e) eligible"

definition runFastPathSingleFlow :: "env \<Rightarrow> flow_input \<Rightarrow> update_answer req" where
  "runFastPathSingleFlow E F =
     (let a = hd (fi_attendees F) in
      case attSnapshot F a of
        None \<Rightarrow> ethrow (CatalogError BOOKING_ERR_GENERIC ''Servicio no disponible en snapshot'')
      | Some snap \<Rightarrow>
          ebind (buildContext E (updateContextInput F (Some (fi_event F)) (map ev_id (fi_originals F)))) (\<lambda>availability.
          case availability of
            None \<Rightarrow> eret (Refused ''BOOKING_ERR_NO_ELIGIBLE_STAFF''
                       ''No hay profesionales elegibles para el servicio seleccionado.'')
          | Some ctx \<Rightarrow>
              (let dur = at_duration a; startWS = sc_start (fi_start F); endWS = addMinutes startWS dur;
                   eligible = orElse (map_of (bc_users ctx) (at_service a)) [];
                   avail = eligAvail ctx eligible startWS endWS
               in if \<not> hasAnyAvailableWindow eligible (bc_windows ctx) dur \<or> avail = []
                  then eret (Refused ''BOOKING_ERR_NO_AVAILABLE_WINDOW''
                               ''Ningun profesional tiene ese hueco disponible.'')
                  else
                    ebind (onRedis (chooserUpdateAt E (fi_workspace F) (at_service a) startWS endWS avail
                             (bc_weights ctx))) (\<lambda>chosen.
                    if \<not> canAssign chosen
                    then eret (Refused ''BOOKING_ERR_RR_NO_CANDIDATE''
                                 ''No se pudo seleccionar un profesional para el slot.'')
                    else
                      (let seg = \<lparr>sg_service = at_service a, sg_user = the chosen,
                                  sg_start = z_floor (e_tz E) (fi_tz F) startWS,
                                  sg_end = z_floor (e_tz E) (fi_tz F) endWS\<rparr>
                       in ebind (inTx (updateSingleEvent
                              \<lparr>su_segment = seg, su_workspace = fi_workspace F,
                               su_original = ev_id (fi_original F), su_group = fi_group F,
                               su_note = fi_note F, su_commentRead = fi_commentRead F, su_tz = fi_tz F,
                               su_snapshot = fi_services F (sg_service seg)\<rparr>)) (\<lambda>updatedEvent.
                          eret (Direct
                            \<lparr>ui_outcome = ''updated_in_place'', ui_from = ev_id (fi_original F),
                             ui_appointment = appointmentOf (e_tz E) F (sg_start seg) (sg_end seg) dur,
                             ui_assignments = [assignmentOut (e_tz E) (fi_tzClient F) seg],
                             ui_created = [], ui_updated = [updatedEvent], ui_deleted = []\<rparr>
                            (fi_group F, ''single-service''))))))))"

section \<open>Rebuild\<close>

text \<open>The loop over the attendees: \<open>Inl\<close> is an early return.\<close>

fun planSegments ::
  "env \<Rightarrow> flow_input \<Rightarrow> booking_ctx \<Rightarrow> instant \<Rightarrow> attendee list \<Rightarrow> (string \<times> string + segment list) req" where
  "planSegments E F ctx cursor [] = eret (Inr [])"
| "planSegments E F ctx cursor (a # as) =
     (case attSnapshot F a of
        None \<Rightarrow> ethrow (CatalogError BOOKING_ERR_GENERIC ''Servicio no disponible'')
      | Some snap \<Rightarrow>
          (let dur = at_duration a;
               segStart = z_floor (e_tz E) (fi_tz F) cursor;
               segEnd = z_floor (e_tz E) (fi_tz F) (addMinutes cursor dur);
               eligible = orElse (map_of (bc_users ctx) (at_service a)) [];
               avail = eligAvail ctx eligible segStart segEnd
           in if \<not> hasAnyAvailableWindow eligible (bc_windows ctx) dur \<or> avail = []
              then eret (Inl (''BOOKING_ERR_MULTI_SEGMENT_DOES_NOT_FIT'',
                              ''Un segmento no encuentra hueco disponible en la secuencia.''))
              else
                ebind (onRedis (chooserUpdateAt E (fi_workspace F) (at_service a) segStart segEnd avail
                         (bc_weights ctx))) (\<lambda>chosen.
                if \<not> canAssign chosen
                then eret (Inl (''BOOKING_ERR_MULTI_RR_NO_CANDIDATE'',
                                ''No se pudo seleccionar profesional para uno de los segmentos.''))
                else
                  ebind (planSegments E F ctx segEnd as) (\<lambda>rest.
                    case rest of
                      Inl refusal \<Rightarrow> eret (Inl refusal)
                    | Inr segs \<Rightarrow>
                        eret (Inr (\<lparr>sg_service = at_service a, sg_user = the chosen,
                                    sg_start = segStart, sg_end = segEnd\<rparr> # segs))))))"

definition totalMinutes :: "segment list \<Rightarrow> int" where
  "totalMinutes segs = sum_list (map (\<lambda>s. diffMinutes (sg_end s) (sg_start s)) segs)"

definition rebuildInput :: "flow_input \<Rightarrow> segment list \<Rightarrow> rebuild_input" where
  "rebuildInput F segs =
     \<lparr>rb_company = fi_company F, rb_workspace = fi_workspace F, rb_group = fi_group F,
      rb_note = fi_note F, rb_commentRead = fi_commentRead F, rb_tz = fi_tz F,
      rb_customer = fi_customer F, rb_segments = segs,
      rb_originalIds = uniq (map ev_id (fi_originals F)),
      rb_kept = map ev_id (filter (\<lambda>e. ev_id e \<notin> set (fi_explicit F)) (fi_originals F)),
      rb_services = fi_services F, rb_explicitDeletes = uniq (fi_explicit F)\<rparr>"

text \<open>A number in a message.\<close>

fun showNat :: "nat \<Rightarrow> string" where
  "showNat n = (if n < 10 then [digitChar (int n)] else showNat (n div 10) @ [digitChar (int (n mod 10))])"

declare showNat.simps [simp del]

definition runRebuildBookingFlow :: "env \<Rightarrow> flow_input \<Rightarrow> update_answer req" where
  "runRebuildBookingFlow E F =
     (if \<not> isWithinLimit (length (fi_attendees F)) (fi_max F)
      then ethrow (CatalogError BOOKING_ERR_MAX_SERVICES
             (''Maximo '' @ showNat (fi_max F) @ '' servicios por reserva''))
      else
        ebind (buildContext E (updateContextInput F None (map ev_id (fi_originals F) @ fi_explicit F))) (\<lambda>availability.
        case availability of
          None \<Rightarrow> eret (Refused ''BOOKING_ERR_NO_ELIGIBLE_STAFF''
                     ''No hay profesionales elegibles para los servicios seleccionados.'')
        | Some ctx \<Rightarrow>
            ebind (planSegments E F ctx (sc_start (fi_start F)) (fi_attendees F)) (\<lambda>plan.
            case plan of
              Inl (code, msg) \<Rightarrow> eret (Refused code msg)
            | Inr segs \<Rightarrow>
                (let totalMin = totalMinutes segs; startWS = sc_start (fi_start F) in
                 ebind (inTx (rebuildBooking (e_now E) (rebuildInput F segs))) (\<lambda>result.
                 eret (Nested
                   \<lparr>ui_outcome = ''rebuild_group'', ui_from = ev_id (fi_original F),
                    ui_appointment = appointmentOf (e_tz E) F startWS (addMinutes startWS totalMin) totalMin,
                    ui_assignments = map (assignmentOut (e_tz E) (fi_tzClient F)) segs,
                    ui_created = rr_created result, ui_updated = rr_updated result,
                    ui_deleted = rr_deleted result\<rparr>
                   (fi_group F, if length segs \<le> 1 then ''single-service'' else ''several-services'')))))))"

section \<open>\<open>updateEventFromWebBase\<close>\<close>

record update_input = add_input +
  up_event :: ident
  up_deleted :: "ident list"

definition validateUpdateInput :: "update_input \<Rightarrow> ident \<Rightarrow> app_error option" where
  "validateUpdateInput inp tzWorkspace =
     (if up_event inp = [] then Some (CatalogError BOOKING_ERR_VALIDATION_INPUT ''Falta idEvent'')
      else validateAddInput (add_input.truncate inp) tzWorkspace)"

text \<open>The event with the identity of its participants, \<open>None\<close> when there is no such event.\<close>

definition loadOriginal :: "db \<Rightarrow> ident \<Rightarrow> (event_row \<times> group_row option \<times> participant_identity list) option" where
  "loadOriginal d i =
     map_option (\<lambda>e. (e, groupById d (ev_group e),
        map (\<lambda>p. \<lparr>pi_client = pt_client p, pi_clientWs = pt_clientWs p\<rparr>) (activeParticipants d (ev_group e))))
       (eventById d i)"

definition liveEventsOf :: "db \<Rightarrow> ident \<Rightarrow> ident \<Rightarrow> event_row list" where
  "liveEventsOf d ws g =
     sort_key ev_start (filter (\<lambda>e. ev_group e = g \<and> ev_deleted e = None
       \<and> groupSat d (\<lambda>r. gr_workspace r = ws) e) (events d))"

definition sameServiceSet :: "event_row list \<Rightarrow> attendee list \<Rightarrow> bool" where
  "sameServiceSet originals attendees =
     (let originalIds = uniq (List.map_filter (\<lambda>e. if truthy (ev_service e) then ev_service e else None) originals);
          requestedIds = uniq (map at_service attendees)
      in length originalIds = length requestedIds \<and> list_all (\<lambda>i. i \<in> set requestedIds) originalIds)"

definition classCapacity :: "service_by_id \<Rightarrow> attendee list \<Rightarrow> int" where
  "classCapacity serviceById attendees =
     (case uniq (map at_service attendees) of
        [svc] \<Rightarrow> if svc = [] then 1 else (case serviceById svc of None \<Rightarrow> 1 | Some s \<Rightarrow> capacityOf (Some s))
      | _ \<Rightarrow> 1)"

definition flowContext :: "service_by_id \<Rightarrow> attendee list \<Rightarrow> event_row list \<Rightarrow> ident list \<Rightarrow> update_flow_context" where
  "flowContext serviceById attendees originals explicit =
     (let fast = (length attendees = 1 \<and> length originals = 1 \<and> explicit = []) in
      \<lparr>fc_isPureClassEdit = (fast
         \<and> (case uniq (map at_service attendees) of [svc] \<Rightarrow> svc \<noteq> [] | _ \<Rightarrow> False)
         \<and> classCapacity serviceById attendees > 1),
       fc_fastPathSingle = fast\<rparr>)"

definition updateEventFromWebBody ::
  "env \<Rightarrow> update_mode \<Rightarrow> update_input \<Rightarrow> add_deps \<Rightarrow> update_answer req" where
  "updateEventFromWebBody E mode inp deps =
     (case validateUpdateInput inp (dp_tz deps) of
        Some err \<Rightarrow> ethrow err
      | None \<Rightarrow>
     (case resolveStartContext E (in_start inp) (in_tzClient inp) (dp_tz deps) of
        Inl err \<Rightarrow> ethrow err
      | Inr (Inl DayInPast) \<Rightarrow> eret (Refused ''BOOKING_ERR_DAY_IN_PAST''
          ''El dia seleccionado ya ha pasado en la zona horaria del negocio.'')
      | Inr (Inl TimePassed) \<Rightarrow> eret (Refused ''BOOKING_ERR_TIME_PASSED''
          ''La hora seleccionada ya ha pasado hoy en la zona horaria del negocio.'')
      | Inr (Inr sc) \<Rightarrow>
     ebind (eread (\<lambda>w. loadOriginal (w_db w) (up_event inp))) (\<lambda>loaded.
     if \<not> originalEventExists (map_option (\<lambda>(e, _). ev_deleted e) loaded)
     then ethrow (CatalogError BOOKING_ERR_GENERIC ''Evento original no encontrado'')
     else
       (case the loaded of (original, grp, identities) \<Rightarrow>
        if \<not> belongsToWorkspace (map_option gr_workspace grp) (in_workspace inp)
        then ethrow (CatalogError BOOKING_ERR_NOT_OWNER ''El evento original no pertenece a este workspace'')
        else if \<not> isOwner identities (in_customer inp)
        then ethrow (CatalogError BOOKING_ERR_NOT_OWNER ''Este cliente no esta asociado al evento original'')
        else
          ebind (eread (\<lambda>w. liveEventsOf (w_db w) (in_workspace inp) (ev_group original))) (\<lambda>live.
          let originals = (if live \<noteq> [] then live else [original]);
              explicit = uniq (filter (\<lambda>i. i \<in> ev_id ` set originals) (up_deleted inp)) in
          ebind (getServicesSnapshotById E (in_workspace inp) (map at_service (in_attendees inp)) False True) (\<lambda>serviceById.
          if \<not> canEdit mode (sameServiceSet originals (in_attendees inp))
          then eret (Refused ''BOOKING_ERR_SERVICE_CHANGED_ON_EDIT''
                 ''Solo puedes cambiar la fecha y hora de la cita, no los servicios.'')
          else
            (let F = \<lparr>fi_company = in_company inp, fi_workspace = in_workspace inp,
                   fi_tzClient = in_tzClient inp, fi_tz = dp_tz deps, fi_start = sc,
                   fi_attendees = in_attendees inp, fi_event = up_event inp, fi_original = original,
                   fi_originals = originals, fi_explicit = explicit, fi_group = ev_group original,
                   fi_services = serviceById, fi_weights = buildWeightsMap (dp_weights deps),
                   fi_max = orElse (dp_maxServices deps) 5, fi_customer = in_customer inp,
                   fi_note = in_note inp, fi_commentRead = in_commentRead inp,
                   fi_source = Some (orElse (in_source inp) WEB)\<rparr>
             in case resolveUpdateFlowStrategy updateFlowStrategies
                       (flowContext serviceById (in_attendees inp) originals explicit) of
                  Inl err \<Rightarrow> ethrow err
                | Inr s \<Rightarrow> executeFlow s
                    \<lparr>runPureClassEdit = runPureClassEditFlow E F,
                     runFastPathSingle = runFastPathSingleFlow E F,
                     runRebuildBooking = runRebuildBookingFlow E F\<rparr>)))))))"

definition updateEventFromWeb :: "env \<Rightarrow> update_input \<Rightarrow> add_deps \<Rightarrow> update_answer req" where
  "updateEventFromWeb E inp deps =
     ecatch (updateEventFromWebBody E SingleMode inp deps)
       (\<lambda>e. ethrow (Wrapped ''Error al actualizar evento'' e))"

end
