(* ===== verification/CalCommand.thy ===== *)
theory CalCommand
  imports CalFlows
begin

text \<open>
  \<open>event-client.command.service.ts\<close>: the answers of the create and update endpoints, and the
  cancellation and confirmation of a booking by its client, with the process cache of their results
  (five hours).
\<close>

section \<open>HTTP status of a code\<close>

definition bookingErrorCatalog :: "(string \<times> int) list" where
  "bookingErrorCatalog =
     [(''BOOKING_ERR_DAY_IN_PAST'', 400), (''BOOKING_ERR_TIME_PASSED'', 400),
      (''BOOKING_ERR_LEAD_TIME'', 400), (''BOOKING_ERR_VALIDATION_INPUT'', 422),
      (''BOOKING_ERR_MAX_SERVICES'', 422), (''BOOKING_ERR_NOT_OWNER'', 403),
      (''BOOKING_ERR_NO_ELIGIBLE_STAFF'', 409), (''BOOKING_ERR_NO_AVAILABLE_WINDOW'', 409),
      (''BOOKING_ERR_RR_NO_CANDIDATE'', 409), (''BOOKING_ERR_MULTI_SEGMENT_DOES_NOT_FIT'', 409),
      (''BOOKING_ERR_MULTI_RR_NO_CANDIDATE'', 409), (''BOOKING_ERR_OVERLAP_CONFLICT'', 409),
      (''BOOKING_ERR_GROUP_UNSUPPORTED'', 501), (''BOOKING_ERR_GENERIC'', 400),
      (''BOOKING_ERR_UNEXPECTED'', 500), (''BOOKING_INFO_EVENT_REBUILT'', 200)]"

definition pickHttpStatus :: "string option \<Rightarrow> bool \<Rightarrow> int" where
  "pickHttpStatus code ok =
     (if ok then 200
      else if \<not> truthy code then 400
      else orElse (map_of bookingErrorCatalog (the code)) 400)"

section \<open>The answers of the endpoints\<close>

record 'a endpoint_answer =
  ea_status :: int
  ea_ok :: bool
  ea_message :: string
  ea_code :: "string option"
  ea_item :: "'a option"

text \<open>\<open>addFromWeb\<close>: \<open>autoConfirmClientBookings ?? true\<close>; no response of the write service has an
  \<open>outcome\<close>. The events carry no \<open>idWorkspaceFk\<close> (a column of the group), so none is left for the
  notification.\<close>

definition addFromWeb :: "env \<Rightarrow> add_input \<Rightarrow> add_deps \<Rightarrow> bool option \<Rightarrow> add_response endpoint_answer req" where
  "addFromWeb E inp deps autoConfirm =
     ebind (addEventFromWeb E inp (deps\<lparr>dp_autoConfirm := Some (orElse autoConfirm True)\<rparr>)) (\<lambda>result.
       case result of
         None \<Rightarrow> eret \<lparr>ea_status = 409, ea_ok = False,
                   ea_message = ''No hay disponibilidad para el horario seleccionado'', ea_code = None,
                   ea_item = None\<rparr>
       | Some r \<Rightarrow> eret \<lparr>ea_status = 201, ea_ok = True, ea_message = ''Evento creado'', ea_code = None,
                     ea_item = Some r\<rparr>)"

text \<open>The outcome the \<open>switch\<close> looks at is that of the result itself.\<close>

definition answerOk :: "update_answer \<Rightarrow> bool" where
  "answerOk r = (case r of Refused _ _ \<Rightarrow> False | _ \<Rightarrow> True)"

definition answerCode :: "update_answer \<Rightarrow> string option" where
  "answerCode r = (case r of Refused c _ \<Rightarrow> Some c | Direct _ _ \<Rightarrow> None
                   | Nested _ _ \<Rightarrow> Some ''BOOKING_INFO_EVENT_REBUILT'')"

definition answerMessage :: "update_answer \<Rightarrow> string option" where
  "answerMessage r = (case r of Refused _ m \<Rightarrow> Some m | Direct _ _ \<Rightarrow> None
                      | Nested _ _ \<Rightarrow> Some ''Evento actualizado reconstruyendo segmentos.'')"

definition answerOutcome :: "update_answer \<Rightarrow> string option" where
  "answerOutcome r = (case r of Direct i _ \<Rightarrow> Some (ui_outcome i) | _ \<Rightarrow> None)"

definition answerItem :: "update_answer \<Rightarrow> update_item option" where
  "answerItem r = (case r of Nested i _ \<Rightarrow> Some i | _ \<Rightarrow> None)"

definition outcomeMessage :: "string option \<Rightarrow> string \<Rightarrow> string" where
  "outcomeMessage outcome message =
     (if outcome = Some ''updated_in_place'' then ''Evento actualizado''
      else if outcome = Some ''rebuild_group'' then ''Cita reconfigurada con varios servicios''
      else if outcome = Some ''updated'' then ''Evento actualizado''
      else if outcome = Some ''joined'' then ''Te has movido al nuevo evento''
      else if outcome = Some ''already-in'' then ''Ya estabas inscrito en este evento''
      else message)"

definition updateFromWeb :: "env \<Rightarrow> update_input \<Rightarrow> add_deps \<Rightarrow> update_item endpoint_answer req" where
  "updateFromWeb E inp deps =
     ebind (updateEventFromWeb E inp deps) (\<lambda>result.
       let ok = answerOk result; code = answerCode result;
           message = (if truthy (answerMessage result) then the (answerMessage result)
                      else if ok then ''Evento actualizado'' else ''No se ha podido actualizar el evento'')
       in eret \<lparr>ea_status = pickHttpStatus code ok, ea_ok = ok,
            ea_message = outcomeMessage (answerOutcome result) message, ea_code = code,
            ea_item = answerItem result\<rparr>)"

section \<open>Cancelling and confirming\<close>

datatype client_action = Cancel | Confirm

definition buildActionCacheKey :: "client_action \<Rightarrow> ident \<Rightarrow> ident \<Rightarrow> ident option \<Rightarrow> string" where
  "buildActionCacheKey action ws cws i =
     ''event-client:'' @ (case action of Cancel \<Rightarrow> ''cancel'' | Confirm \<Rightarrow> ''confirm'')
       @ '':'' @ ws @ '':'' @ cws @ '':'' @ orElse i ''undefined''"

abbreviation action_ttl :: int where "action_ttl \<equiv> 3600 * 5 * 1000"

definition cachedAction :: "env \<Rightarrow> string \<Rightarrow> world \<Rightarrow> action_result option" where
  "cachedAction E key w =
     (case w_actions w key of
        None \<Rightarrow> None
      | Some (r, expires) \<Rightarrow> if e_now E \<le> expires then Some r else None)"

definition actionDone :: "env \<Rightarrow> string \<Rightarrow> action_result \<Rightarrow> action_result req" where
  "actionDone E key r =
     ebind (emod (\<lambda>w. w\<lparr>w_actions := (w_actions w)(key \<mapsto> (r, e_now E + action_ttl))\<rparr>)) (\<lambda>_. eret r)"

text \<open>An absent \<open>idEvent\<close> is no condition in the query.\<close>

definition actionEvent :: "db \<Rightarrow> ident option \<Rightarrow> ident \<Rightarrow> ident \<Rightarrow> event_row option" where
  "actionEvent d i cws ws =
     List.find (\<lambda>e. (i = None \<or> i = Some (ev_id e)) \<and> groupSat d (\<lambda>g. gr_workspace g = ws) e
       \<and> list_ex (\<lambda>p. pt_clientWs p = Some cws) (activeParticipants d (ev_group e))
       \<and> ev_deleted e = None) (events d)"

definition updateParticipant :: "ident \<Rightarrow> (participant_row \<Rightarrow> participant_row) \<Rightarrow> unit tx" where
  "updateParticipant i f = (\<lambda>d.
     if i \<notin> pt_id ` set (participants d) then Inl (PrismaError ''P2025'')
     else Inr ((), d\<lparr>participants := updateWhere (\<lambda>p. pt_id p = i) f (participants d)\<rparr>))"

definition setParticipantStatus :: "ident \<Rightarrow> event_status \<Rightarrow> unit tx" where
  "setParticipantStatus i st = updateParticipant i (\<lambda>p. p\<lparr>pt_status := st\<rparr>)"

definition setGroupStatus :: "ident \<Rightarrow> event_status \<Rightarrow> unit tx" where
  "setGroupStatus g st = updateGroup g (\<lambda>r. r\<lparr>gr_status := st\<rparr>)"

text \<open>The three deletions of an empty class, each its own statement.\<close>

definition deleteGroupRows :: "ident \<Rightarrow> unit req" where
  "deleteGroupRows g =
     ebind (inTx (modState (\<lambda>d. d\<lparr>events := filter (\<lambda>e. ev_group e \<noteq> g) (events d)\<rparr>))) (\<lambda>_.
     ebind (inTx (modState (\<lambda>d. d\<lparr>participants := filter (\<lambda>p. pt_group p \<noteq> g) (participants d)\<rparr>))) (\<lambda>_.
     inTx (\<lambda>d. if groupById d g = None then Inl (PrismaError ''P2025'')
               else Inr ((), d\<lparr>groups := filter (\<lambda>r. gr_id r \<noteq> g) (groups d)\<rparr>))))"

definition isSeveral :: "event_row \<Rightarrow> bool" where
  "isSeveral e \<longleftrightarrow> orElse (ev_maxPartSnap e) 1 > 1"

definition actionResult :: "ident option \<Rightarrow> event_status \<Rightarrow> bool \<Rightarrow> action_result" where
  "actionResult i st changed = \<lparr>ar_event = i, ar_status = st, ar_cached = False, ar_changed = changed\<rparr>"

definition notFoundError :: app_error where
  "notFoundError = CatalogError BOOKING_ERR_GENERIC ''Evento no encontrado o no pertenece al cliente''"

definition noParticipantError :: app_error where
  "noParticipantError = CatalogError BOOKING_ERR_GENERIC ''Participante no encontrado en el evento''"

definition cancelWrites :: "event_row \<Rightarrow> participant_row \<Rightarrow> participant_row list \<Rightarrow> unit req" where
  "cancelWrites e mine ps =
     (if isSeveral e
      then ebind (inTx (setParticipantStatus (pt_id mine) CANCELLED_BY_CLIENT)) (\<lambda>_.
             if filter (\<lambda>p. pt_id p \<noteq> pt_id mine \<and> pt_status p \<noteq> CANCELLED_BY_CLIENT) ps = []
             then deleteGroupRows (ev_group e) else eret ())
      else inTx (andThen (setParticipantStatus (pt_id mine) CANCELLED_BY_CLIENT)
                  (\<lambda>_. setGroupStatus (ev_group e) CANCELLED_BY_CLIENT)))"

definition cancelBody :: "env \<Rightarrow> ident option \<Rightarrow> ident \<Rightarrow> ident \<Rightarrow> action_result req" where
  "cancelBody E i cws ws =
     (let key = buildActionCacheKey Cancel ws cws i in
      ebind (eread (cachedAction E key)) (\<lambda>cached.
      case cached of
        Some r \<Rightarrow> eret (r\<lparr>ar_cached := True\<rparr>)
      | None \<Rightarrow>
          ebind (eread (\<lambda>w. actionEvent (w_db w) i cws ws)) (\<lambda>found.
          case found of
            None \<Rightarrow> ethrow notFoundError
          | Some e \<Rightarrow>
              ebind (eread (\<lambda>w. (map_option gr_status (groupById (w_db w) (ev_group e)),
                                 activeParticipants (w_db w) (ev_group e)))) (\<lambda>(groupStatus, ps).
              if groupStatus = Some CANCELLED \<or> groupStatus = Some CANCELLED_BY_CLIENT_REMOVED
                 \<or> groupStatus = Some CANCELLED_BY_CLIENT
              then actionDone E key (actionResult i CANCELLED_BY_CLIENT False)
              else
                (case List.find (\<lambda>p. pt_clientWs p = Some cws) ps of
                   None \<Rightarrow> ethrow noParticipantError
                 | Some mine \<Rightarrow>
                     if pt_status mine = CANCELLED_BY_CLIENT
                     then actionDone E key (actionResult i CANCELLED_BY_CLIENT False)
                     else ebind (cancelWrites e mine ps) (\<lambda>_.
                            actionDone E key (actionResult i CANCELLED_BY_CLIENT True)))))))"

definition cancelEventFromWeb :: "env \<Rightarrow> ident option \<Rightarrow> ident \<Rightarrow> ident \<Rightarrow> action_result req" where
  "cancelEventFromWeb E i cws ws =
     ecatch (cancelBody E i cws ws) (\<lambda>e. ethrow (Wrapped ''EventClientCommandService.cancelEventFromWeb'' e))"

definition confirmWrites :: "event_row \<Rightarrow> participant_row \<Rightarrow> unit req" where
  "confirmWrites e mine =
     (if isSeveral e then inTx (setParticipantStatus (pt_id mine) CONFIRMED)
      else inTx (andThen (setParticipantStatus (pt_id mine) CONFIRMED)
                  (\<lambda>_. setGroupStatus (ev_group e) CONFIRMED)))"

definition confirmBody :: "env \<Rightarrow> ident option \<Rightarrow> ident \<Rightarrow> ident \<Rightarrow> action_result req" where
  "confirmBody E i cws ws =
     (let key = buildActionCacheKey Confirm ws cws i in
      ebind (eread (cachedAction E key)) (\<lambda>cached.
      case cached of
        Some r \<Rightarrow> eret (r\<lparr>ar_cached := True\<rparr>)
      | None \<Rightarrow>
          ebind (eread (\<lambda>w. actionEvent (w_db w) i cws ws)) (\<lambda>found.
          case found of
            None \<Rightarrow> ethrow notFoundError
          | Some e \<Rightarrow>
              ebind (eread (\<lambda>w. (map_option gr_status (groupById (w_db w) (ev_group e)),
                                 activeParticipants (w_db w) (ev_group e)))) (\<lambda>(groupStatus, ps).
              if groupStatus \<noteq> Some ACCEPTED
              then (if groupStatus = Some CONFIRMED then actionDone E key (actionResult i CONFIRMED False)
                    else eret (actionResult i CONFIRMED False))
              else
                (case List.find (\<lambda>p. pt_clientWs p = Some cws) ps of
                   None \<Rightarrow> ethrow noParticipantError
                 | Some mine \<Rightarrow>
                     if pt_status mine \<noteq> ACCEPTED
                     then (if pt_status mine = CONFIRMED then actionDone E key (actionResult i CONFIRMED False)
                           else eret (actionResult i CONFIRMED False))
                     else ebind (confirmWrites e mine) (\<lambda>_.
                            actionDone E key (actionResult i CONFIRMED True)))))))"

definition confirmEventFromWeb :: "env \<Rightarrow> ident option \<Rightarrow> ident \<Rightarrow> ident \<Rightarrow> action_result req" where
  "confirmEventFromWeb E i cws ws =
     ecatch (confirmBody E i cws ws) (\<lambda>e. ethrow (Wrapped ''EventClientCommandService.confirmEventFromWeb'' e))"

end
