(* ===== verification/CalQuery.thy ===== *)
theory CalQuery
  imports CalDb "HOL-Library.AList"
begin

text \<open>
  Reading the bookings of a client (\<open>event-client.query.service.ts\<close>): the events of the scope, their
  grouping into bookings, the order and the page (\<open>pagination.ts\<close>).
\<close>

section \<open>Pagination\<close>

text \<open>A number of the request: not finite (\<open>NaN\<close> included), or a rational that \<open>Math.trunc\<close> cuts.\<close>

datatype js_number = NotFinite | Finite rat

definition truncRat :: "rat \<Rightarrow> int" where
  "truncRat r = (if r \<ge> 0 then \<lfloor>r\<rfloor> else \<lceil>r\<rceil>)"

definition clampPage :: "int \<Rightarrow> int \<Rightarrow> js_number \<Rightarrow> int" where
  "clampPage fallback limit raw =
     (case raw of Finite r \<Rightarrow> min (max 1 (truncRat r)) limit | NotFinite \<Rightarrow> fallback)"

record page_options =
  po_calendar :: bool
  po_defaultPage :: "int option"
  po_defaultItems :: "int option"
  po_maxPage :: "int option"
  po_maxItems :: "int option"

record normal_page =
  np_page :: int
  np_items :: int
  np_maxPage :: int
  np_maxItems :: int

definition normalizePaginationInput :: "js_number option \<Rightarrow> js_number option \<Rightarrow> page_options \<Rightarrow> normal_page" where
  "normalizePaginationInput page items opts =
     (let maxPage = orElse (po_maxPage opts) 999;
          maxItems = orElse (po_maxItems opts) (if po_calendar opts then 1000 else 100);
          defaultPage = orElse (po_defaultPage opts) 1;
          defaultItems = orElse (po_defaultItems opts) 25
      in \<lparr>np_page = clampPage defaultPage maxPage (orElse page (Finite (of_int defaultPage))),
          np_items = clampPage defaultItems maxItems (orElse items (Finite (of_int defaultItems))),
          np_maxPage = maxPage, np_maxItems = maxItems\<rparr>)"

section \<open>The events of a scope\<close>

datatype booking_scope = Upcoming | Past

definition scopeEvent :: "db \<Rightarrow> instant \<Rightarrow> booking_scope \<Rightarrow> ident \<Rightarrow> ident \<Rightarrow> event_row \<Rightarrow> bool" where
  "scopeEvent d now scope cws ws e \<longleftrightarrow>
     groupSat d (\<lambda>g. gr_workspace g = ws
       \<and> gr_status g \<notin> {CANCELLED, CANCELLED_BY_CLIENT, CANCELLED_BY_CLIENT_REMOVED}) e
     \<and> list_ex (\<lambda>p. pt_clientWs p = Some cws) (activeParticipants d (ev_group e))
     \<and> ev_deleted e = None
     \<and> (case scope of Upcoming \<Rightarrow> ev_start e \<ge> now | Past \<Rightarrow> ev_start e < now)"

definition byScope :: "booking_scope \<Rightarrow> int \<Rightarrow> int" where
  "byScope scope t = (case scope of Upcoming \<Rightarrow> t | Past \<Rightarrow> - t)"

definition fetchClientEventsForScope ::
  "db \<Rightarrow> instant \<Rightarrow> booking_scope \<Rightarrow> ident \<Rightarrow> ident \<Rightarrow> event_row list" where
  "fetchClientEventsForScope d now scope cws ws =
     sort_key (\<lambda>e. byScope scope (ev_start e)) (filter (scopeEvent d now scope cws ws) (events d))"

section \<open>Grouping into bookings\<close>

record service_item =
  si_event :: ident
  si_service :: "ident option"
  si_name :: string
  si_maxPart :: "int option"
  si_duration :: "int option"
  si_price :: "rat option"
  si_staff :: "ident option"

record booking_row =
  bk_id :: ident
  bk_primary :: ident
  bk_start :: instant
  bk_end :: instant
  bk_status :: "event_status option"
  bk_comment :: "string option"
  bk_tz :: "ident option"
  bk_services :: "service_item list"

definition serviceItem :: "event_row \<Rightarrow> service_item" where
  "serviceItem e =
     \<lparr>si_event = ev_id e, si_service = ev_service e, si_name = orElse (ev_nameSnap e) (ev_title e),
      si_maxPart = ev_maxPartSnap e, si_duration = ev_durationSnap e, si_price = ev_priceSnap e,
      si_staff = ev_user e\<rparr>"

text \<open>\<open>_withGroupFields\<close>: the fields the grouping reads from the group of the event.\<close>

definition newBooking :: "db \<Rightarrow> event_row \<Rightarrow> booking_row" where
  "newBooking d e =
     (let g = groupById d (ev_group e) in
      \<lparr>bk_id = ev_group e, bk_primary = ev_id e, bk_start = ev_start e, bk_end = ev_end e,
       bk_status = map_option gr_status g, bk_comment = Option.bind g gr_comment,
       bk_tz = map_option gr_tz g, bk_services = []\<rparr>)"

definition widenBooking :: "event_row \<Rightarrow> booking_row \<Rightarrow> booking_row" where
  "widenBooking e b =
     (let b1 = (if ev_start e < bk_start b then b\<lparr>bk_start := ev_start e, bk_primary := ev_id e\<rparr> else b)
      in if ev_end e > bk_end b1 then b1\<lparr>bk_end := ev_end e\<rparr> else b1)"

definition addToBooking :: "db \<Rightarrow> event_row \<Rightarrow> (ident \<times> booking_row) list \<Rightarrow> (ident \<times> booking_row) list" where
  "addToBooking d e m =
     (let b = (case map_of m (ev_group e) of None \<Rightarrow> newBooking d e | Some b \<Rightarrow> widenBooking e b)
      in AList.update (ev_group e) (b\<lparr>bk_services := bk_services b @ [serviceItem e]\<rparr>) m)"

fun groupBookings :: "db \<Rightarrow> event_row list \<Rightarrow> (ident \<times> booking_row) list \<Rightarrow> (ident \<times> booking_row) list" where
  "groupBookings d [] m = m"
| "groupBookings d (e # es) m = groupBookings d es (addToBooking d e m)"

record bookings_page =
  pg_rows :: "booking_row list"
  pg_total :: nat
  pg_page :: int
  pg_items :: int
  pg_pages :: int

definition buildClientBookingsFromEvents ::
  "db \<Rightarrow> booking_scope \<Rightarrow> event_row list \<Rightarrow> js_number option \<Rightarrow> js_number option \<Rightarrow> bookings_page" where
  "buildClientBookingsFromEvents d scope evs page items =
     (let allBookings = sort_key (\<lambda>b. byScope scope (bk_start b)) (map snd (groupBookings d evs []));
          norm = normalizePaginationInput page items
            \<lparr>po_calendar = False, po_defaultPage = None,
             po_defaultItems = Some (if scope = Upcoming then 25 else 30), po_maxPage = None, po_maxItems = None\<rparr>;
          perPage = np_items norm;
          totalRows = length allBookings;
          totalPages = max 1 (- ((- int totalRows) div perPage));
          currentPage = (if scope = Upcoming then 1
                         else if np_page norm > totalPages then totalPages else np_page norm);
          skip = (if scope = Upcoming then 0 else (currentPage - 1) * perPage)
      in \<lparr>pg_rows = take (nat perPage) (drop (nat skip) allBookings), pg_total = totalRows,
          pg_page = currentPage, pg_items = perPage, pg_pages = totalPages\<rparr>)"

definition getFromWeb ::
  "db \<Rightarrow> instant \<Rightarrow> booking_scope \<Rightarrow> js_number option \<Rightarrow> js_number option \<Rightarrow> ident \<Rightarrow> ident \<Rightarrow> bookings_page" where
  "getFromWeb d now scope page items cws ws =
     buildClientBookingsFromEvents d scope (fetchClientEventsForScope d now scope cws ws) page items"

section \<open>One booking by its group\<close>

definition bookingEvent :: "db \<Rightarrow> ident \<Rightarrow> ident \<Rightarrow> ident \<Rightarrow> event_row \<Rightarrow> bool" where
  "bookingEvent d bookingId cws ws e \<longleftrightarrow> ev_deleted e = None
     \<and> groupSat d (\<lambda>g. gr_workspace g = ws \<and> gr_status g \<notin> {CANCELLED, CANCELLED_BY_CLIENT_REMOVED}) e
     \<and> list_ex (\<lambda>p. pt_clientWs p = Some cws) (activeParticipants d (ev_group e))
     \<and> ev_group e = bookingId"

text \<open>The answer for one booking: dates as texts, missing values defaulted.\<close>

record appointment_service =
  as_event :: ident
  as_service :: ident
  as_name :: string
  as_maxPart :: int
  as_duration :: int
  as_price :: rat
  as_staff :: "ident option"

record client_appointment =
  ca_booking :: ident
  ca_primary :: ident
  ca_start :: string
  ca_end :: string
  ca_status :: "event_status option"
  ca_comment :: "string option"
  ca_tz :: "ident option"
  ca_services :: "appointment_service list"

definition appointmentService :: "service_item \<Rightarrow> appointment_service" where
  "appointmentService s =
     \<lparr>as_event = si_event s, as_service = orElse (si_service s) [], as_name = si_name s,
      as_maxPart = orElse (si_maxPart s) 1, as_duration = orElse (si_duration s) 0,
      as_price = orElse (si_price s) 0, as_staff = si_staff s\<rparr>"

definition clientAppointment :: "booking_row \<Rightarrow> client_appointment" where
  "clientAppointment row =
     \<lparr>ca_booking = bk_id row, ca_primary = bk_primary row, ca_start = toISOString (bk_start row),
      ca_end = toISOString (bk_end row), ca_status = bk_status row, ca_comment = bk_comment row,
      ca_tz = bk_tz row, ca_services = map appointmentService (bk_services row)\<rparr>"

definition getEventByGroupId :: "db \<Rightarrow> ident \<Rightarrow> ident \<Rightarrow> ident \<Rightarrow> client_appointment option" where
  "getEventByGroupId d bookingId cws ws =
     (let evs = sort_key ev_start (filter (bookingEvent d bookingId cws ws) (events d)) in
      if evs = [] then None
      else case pg_rows (buildClientBookingsFromEvents d Upcoming evs (Some (Finite 1))
                  (Some (Finite (of_nat (length evs))))) of
             [] \<Rightarrow> None
           | row # _ \<Rightarrow> Some (clientAppointment row))"

section \<open>Lemmas\<close>

lemma clampPage_bounds:
  assumes "1 \<le> fallback" and "fallback \<le> limit"
  shows "1 \<le> clampPage fallback limit raw" "clampPage fallback limit raw \<le> limit"
  using assms by (auto simp: clampPage_def split: js_number.splits)

lemma map_of_update: "map_of (AList.update k v m) = (map_of m)(k \<mapsto> v)"
  by (rule update_conv')

text \<open>The booking of a group: its services are the events of the group in order, its start and end
  are the least and greatest.\<close>

definition coversGroup :: "event_row list \<Rightarrow> booking_row \<Rightarrow> bool" where
  "coversGroup es b \<longleftrightarrow> es \<noteq> [] \<and> bk_services b = map serviceItem es \<and>
     bk_start b = Min (ev_start ` set es) \<and> bk_end b = Max (ev_end ` set es) \<and>
     (\<exists>e \<in> set es. ev_id e = bk_primary b \<and> ev_start e = bk_start b)"

lemma coversGroup_new:
  "coversGroup [e] ((newBooking d e)\<lparr>bk_services := bk_services (newBooking d e) @ [serviceItem e]\<rparr>)"
  by (simp add: coversGroup_def newBooking_def Let_def)

lemma Min_snoc: "xs \<noteq> [] \<Longrightarrow> Min (insert x (f ` set xs)) = min x (Min (f ` set xs))"
  for f :: "'a \<Rightarrow> int" by (rule Min_insert) auto

lemma Max_snoc: "xs \<noteq> [] \<Longrightarrow> Max (insert x (f ` set xs)) = max x (Max (f ` set xs))"
  for f :: "'a \<Rightarrow> int" by (rule Max_insert) auto

lemma widenBooking_fields:
  "bk_start (widenBooking e b) = min (ev_start e) (bk_start b)"
  "bk_end (widenBooking e b) = max (ev_end e) (bk_end b)"
  "bk_services (widenBooking e b) = bk_services b" "bk_id (widenBooking e b) = bk_id b"
  "bk_primary (widenBooking e b) = (if ev_start e < bk_start b then ev_id e else bk_primary b)"
  by (auto simp: widenBooking_def Let_def)

lemma coversGroup_widen:
  assumes "coversGroup es b"
  shows "coversGroup (es @ [e])
    ((widenBooking e b)\<lparr>bk_services := bk_services (widenBooking e b) @ [serviceItem e]\<rparr>)"
proof -
  have b: "es \<noteq> []" "bk_services b = map serviceItem es" "bk_start b = Min (ev_start ` set es)"
    "bk_end b = Max (ev_end ` set es)" "\<exists>x \<in> set es. ev_id x = bk_primary b \<and> ev_start x = bk_start b"
    using assms by (auto simp: coversGroup_def)
  have s: "ev_start ` set (es @ [e]) = insert (ev_start e) (ev_start ` set es)"
    and t: "ev_end ` set (es @ [e]) = insert (ev_end e) (ev_end ` set es)" by auto
  have "\<exists>x \<in> set (es @ [e]). ev_id x = bk_primary (widenBooking e b) \<and> ev_start x = bk_start (widenBooking e b)"
    using b(5) by (auto simp: widenBooking_fields min_def)
  then show ?thesis
    unfolding coversGroup_def s t Min_snoc[OF b(1)] Max_snoc[OF b(1)]
    using b(1-4) by (simp add: widenBooking_fields)
qed

definition bookingsOf :: "event_row list \<Rightarrow> (ident \<times> booking_row) list \<Rightarrow> bool" where
  "bookingsOf es m \<longleftrightarrow> distinct (map fst m) \<and> set (map fst m) = ev_group ` set es \<and>
     (\<forall>g b. map_of m g = Some b \<longrightarrow> bk_id b = g \<and> coversGroup (filter (\<lambda>e. ev_group e = g) es) b)"

lemma bookingsOf_add:
  assumes "bookingsOf es m"
  shows "bookingsOf (es @ [e]) (addToBooking d e m)"
proof -
  have keys: "map_of m (ev_group e) = None \<longleftrightarrow> ev_group e \<notin> ev_group ` set es"
    using assms unfolding bookingsOf_def map_of_eq_None_iff by simp
  have none: "filter (\<lambda>x. ev_group x = ev_group e) es = []" if "map_of m (ev_group e) = None"
    using keys that by (auto simp: filter_empty_conv image_iff)
  have dist: "distinct (map fst (addToBooking d e m))"
    using assms by (simp add: addToBooking_def Let_def bookingsOf_def distinct_update)
  have dom: "set (map fst (addToBooking d e m)) = insert (ev_group e) (ev_group ` set es)"
    using assms by (simp add: addToBooking_def Let_def bookingsOf_def dom_update)
  have look: "bk_id b = g \<and> coversGroup (filter (\<lambda>x. ev_group x = g) (es @ [e])) b"
    if "map_of (addToBooking d e m) g = Some b" for g b
  proof (cases "g = ev_group e")
    case False
    then show ?thesis using that assms
      by (simp add: addToBooking_def Let_def map_of_update bookingsOf_def)
  next
    case True
    show ?thesis
    proof (cases "map_of m (ev_group e)")
      case None
      then show ?thesis using that True none coversGroup_new[of e d]
        by (auto simp: addToBooking_def Let_def map_of_update newBooking_def)
    next
      case (Some b0)
      then have "bk_id b0 = g \<and> coversGroup (filter (\<lambda>x. ev_group x = g) es) b0"
        using assms True unfolding bookingsOf_def by blast
      then show ?thesis using that True Some coversGroup_widen[of "filter (\<lambda>x. ev_group x = g) es" b0 e]
        by (auto simp: addToBooking_def Let_def map_of_update widenBooking_def)
    qed
  qed
  show ?thesis using dist dom look unfolding bookingsOf_def by auto
qed

lemma bookingsOf_group: "bookingsOf es m \<Longrightarrow> bookingsOf (es @ es') (groupBookings d es' m)"
proof (induction es' arbitrary: es m)
  case (Cons e es')
  then show ?case using bookingsOf_add[OF Cons.prems, of e d] Cons.IH[of "es @ [e]"] by simp
qed simp

lemma groupBookings_correct: "bookingsOf es (groupBookings d es [])"
  using bookingsOf_group[of "[]" "[]" es d] by (simp add: bookingsOf_def)

end
