(* ===== verification/CalDemo.thy ===== *)
theory CalDemo
  imports CalCommand CalQuery
begin

text \<open>
  A small concrete database, environment and request, on which the properties of the booking
  operations are exercised: one class of two places, given by \<open>ana\<close> at 09:00 UTC, with one client.
\<close>

definition demo_supply :: "nat \<Rightarrow> ident" where
  "demo_supply n = replicate (Suc n) (CHR ''x'')"

definition demo_group :: "event_status \<Rightarrow> group_row" where
  "demo_group st = \<lparr>gr_id = ''g1'', gr_title = ''Yoga'', gr_company = ''co'', gr_workspace = ''w'',
     gr_start = 32400000, gr_end = 36000000, gr_comment = None, gr_commentRead = False,
     gr_status = st, gr_tz = ''UTC'', gr_source = WEB,
     gr_description = None, gr_editable = True, gr_updates = Some 0, gr_notifies = False, gr_deleted = None\<rparr>"

definition demo_event :: "int \<Rightarrow> event_row" where
  "demo_event maxPart = \<lparr>ev_id = ''e1'', ev_group = ''g1'', ev_company = ''co'', ev_title = ''Yoga'',
     ev_service = Some ''yoga'', ev_user = Some ''ana'', ev_start = 32400000, ev_end = 36000000,
     ev_purpose = APPOINTMENT, ev_nameSnap = Some ''Yoga'', ev_priceSnap = Some 10,
     ev_discountSnap = Some 0, ev_durationSnap = Some 60, ev_maxPartSnap = Some maxPart, ev_deleted = None,
     ev_description = None, ev_allDay = False, ev_rule = None\<rparr>"

definition demo_participant :: "ident \<Rightarrow> ident \<Rightarrow> event_status \<Rightarrow> participant_row" where
  "demo_participant i k st = \<lparr>pt_id = i, pt_group = ''g1'', pt_client = Some (''c'' @ k),
     pt_clientWs = Some k, pt_status = st, pt_deleted = None\<rparr>"

definition demo_db :: "int \<Rightarrow> event_status \<Rightarrow> participant_row list \<Rightarrow> db" where
  "demo_db maxPart st ps = \<lparr>events = [demo_event maxPart], groups = [demo_group st], participants = ps,
     rules = [], idSupply = demo_supply, nextId = 0\<rparr>"

definition demo_ps :: "participant_row list" where
  "demo_ps = [demo_participant ''p1'' ''k1'' ACCEPTED]"

definition demo_service :: "int \<Rightarrow> service_snapshot" where
  "demo_service maxPart = \<lparr>sv_id = ''yoga'', sv_name = Some ''Yoga'', sv_price = Some 10,
     sv_discount = Some 0, sv_duration = Some 60, sv_maxParticipants = Some maxPart\<rparr>"

definition demo_customer :: "ident \<Rightarrow> customer" where
  "demo_customer k = \<lparr>cu_id = ''c'' @ k, cu_clientWs = k\<rparr>"

definition demo_segment :: "ident \<Rightarrow> instant \<Rightarrow> segment" where
  "demo_segment u s = \<lparr>sg_service = ''yoga'', sg_user = u, sg_start = s, sg_end = s + 3600000\<rparr>"

definition demo_params :: "ident option \<Rightarrow> ident \<Rightarrow> booking_params" where
  "demo_params g k = \<lparr>bp_company = ''co'', bp_workspace = ''w'', bp_group = g, bp_tz = ''UTC'',
     bp_note = None, bp_commentRead = None, bp_customer = demo_customer k, bp_autoConfirm = True,
     bp_source = None\<rparr>"

definition demo_brief :: "int \<Rightarrow> service_brief" where
  "demo_brief maxPart = \<lparr>sb_id = ''yoga'', sb_name = ''Yoga'', sb_price = Some 10, sb_discount = Some 0,
     sb_duration = Some 60, sb_maxParticipants = Some maxPart, sb_isVisible = Some True,
     sb_userServices = Some [Some ''ana'']\<rparr>"

definition demo_env :: "int \<Rightarrow> env" where
  "demo_env maxPart = \<lparr>e_tz = utc_tz, e_now = 0, e_parseUtc = utcParse,
     e_batch = (\<lambda>ids ws. Some [demo_brief maxPart]),
     e_business = (\<lambda>co ws day. Shifts [(''08:00:00'', ''18:00:00'')]),
     e_worker = (\<lambda>us ws u day. Undefined), e_temporary = (\<lambda>us ws date u day. Undefined),
     e_hasCache = False\<rparr>"

definition demo_world :: "db \<Rightarrow> world" where
  "demo_world d = \<lparr>w_db = d, w_redis = \<lparr>rd_enabled = True, rd_store = Map.empty\<rparr>,
     w_usersCache = Map.empty, w_briefs = Map.empty, w_actions = Map.empty\<rparr>"

definition demo_attendee :: attendee where
  "demo_attendee = \<lparr>at_service = ''yoga'', at_duration = 60, at_staff = None, at_category = None\<rparr>"

definition demo_input :: "string \<Rightarrow> ident \<Rightarrow> add_input" where
  "demo_input start k = \<lparr>in_company = ''co'', in_workspace = ''w'', in_tzClient = ''UTC'',
     in_start = start, in_attendees = [demo_attendee], in_exclude = None, in_note = None,
     in_commentRead = None, in_customer = demo_customer k, in_source = None\<rparr>"

definition demo_deps :: add_deps where
  "demo_deps = \<lparr>dp_tz = ''UTC'', dp_weights = None, dp_maxServices = None, dp_autoConfirm = Some True\<rparr>"

lemmas demo_defs = demo_supply_def demo_group_def demo_event_def demo_participant_def demo_db_def
  demo_ps_def demo_service_def demo_customer_def demo_segment_def demo_params_def

lemma demo_supply_inj: "demo_supply m = demo_supply n \<Longrightarrow> m = n"
  unfolding demo_supply_def by (metis length_replicate nat.inject)

lemma demo_supply_head: "demo_supply n = CHR ''x'' # replicate n (CHR ''x'')"
  by (simp add: demo_supply_def)

lemma demo_fresh: "demo_supply n \<noteq> ''e1''" "demo_supply n \<noteq> ''g1''" "hd (demo_supply n) = CHR ''x''"
  by (simp_all add: demo_supply_head)

lemma demo_wf:
  assumes "distinct (map pt_id ps)" and "\<forall>p \<in> set ps. pt_group p = ''g1'' \<and> hd (pt_id p) = CHR ''p''"
  shows "wfDb (demo_db m st ps)"
proof -
  have p: "demo_supply n \<notin> pt_id ` set ps" for n
  proof
    assume "demo_supply n \<in> pt_id ` set ps"
    then obtain q where "q \<in> set ps" "demo_supply n = pt_id q" by auto
    then have "CHR ''x'' = (CHR ''p'' :: char)" using assms(2) demo_fresh(3)[of n] by simp
    then show False by simp
  qed
  have "freshSupply (demo_db m st ps)"
    unfolding freshSupply_def
  proof (intro conjI allI impI)
    show "idSupply (demo_db m st ps) n \<notin> ev_id ` set (events (demo_db m st ps)) \<union>
      gr_id ` set (groups (demo_db m st ps)) \<union> pt_id ` set (participants (demo_db m st ps))" for n
      using p demo_fresh by (simp add: demo_db_def demo_event_def demo_group_def)
    show "idSupply (demo_db m st ps) k = idSupply (demo_db m st ps) n \<Longrightarrow> k = n" for k n
      using demo_supply_inj by (simp add: demo_db_def)
  qed
  then show ?thesis using assms
    by (simp add: wfDb_def demo_db_def demo_event_def demo_group_def)
qed

lemma demo_wf_ps: "wfDb (demo_db m st demo_ps)"
  by (rule demo_wf) (auto simp: demo_ps_def demo_participant_def)

lemma demo_single: "noDoubleBooking (demo_db m st ps) ws"
  by (simp add: noDoubleBooking_def demo_db_def)

lemma demo_reserved: "groupIdReserved (demo_params None k) (demo_db m st ps)"
  by (simp add: groupIdReserved_def demo_params_def)

end
