(* ===== verification/CalAvailProps.thy ===== *)
theory CalAvailProps
  imports CalDemo "HOL-Library.Multiset"
begin

text \<open>
  Properties of what a booking reads: the services, the busy events, the context of availability and
  the start of the booking.
\<close>

section \<open>Services\<close>

lemma map_filter_keys:
  assumes "\<And>i s. f i = Some s \<Longrightarrow> k s = i"
  shows "map k (List.map_filter f xs) = filter (\<lambda>i. f i \<noteq> None) xs"
  by (induction xs) (auto simp: List.map_filter_simps split: option.splits dest: assms)

lemma getServiceByIds_keys:
  assumes "getServiceByIds E ids ws w = (Inr res, w')"
  shows "\<exists>P. map sb_id res = filter P ids"
proof -
  let ?valid = "filter (\<lambda>i. \<not> isBlank i) ids"
  define cm where "cm = map_of (rev (map (\<lambda>s. (sb_id s, s)) (List.map_filter (w_briefs w) ?valid)))"
  have cm: "cm i = Some s \<Longrightarrow> sb_id s = i" for i s
    unfolding cm_def by (auto dest: map_of_rev_key)
  have fm: "(cm ++ map_of (rev (map (\<lambda>s. (sb_id s, s)) fetched))) i = Some s \<Longrightarrow> sb_id s = i" for fetched i s
    using cm by (auto simp: map_add_Some_iff dest: map_of_rev_key)
  have none: "\<exists>P. map sb_id [] = filter P ids" by (rule exI[of _ "\<lambda>_. False"]) simp
  have sub: "\<exists>P. filter Q ?valid = filter P ids" for Q
    by (rule exI[of _ "\<lambda>i. \<not> isBlank i \<and> Q i"]) (simp add: conj_commute)
  consider "res = []" | "res = List.map_filter cm ?valid"
    | fetched where "res = List.map_filter (cm ++ map_of (rev (map (\<lambda>s. (sb_id s, s)) fetched))) ?valid"
    using assms unfolding getServiceByIds_def cm_def
    by (auto simp: Let_def ebind_Inr_iff split: if_splits option.splits)
  then show ?thesis
  proof cases
    case 1 then show ?thesis using none by simp
  next
    case 2
    have "map sb_id res = filter (\<lambda>i. cm i \<noteq> None) ?valid"
      unfolding 2 by (rule map_filter_keys) (rule cm)
    then show ?thesis using sub[of "\<lambda>i. cm i \<noteq> None"] by (simp only:)
  next
    case (3 fetched)
    let ?m = "cm ++ map_of (rev (map (\<lambda>s. (sb_id s, s)) fetched))"
    have "map sb_id res = filter (\<lambda>i. ?m i \<noteq> None) ?valid"
      unfolding 3 by (rule map_filter_keys) (rule fm)
    then show ?thesis using sub[of "\<lambda>i. ?m i \<noteq> None"] by (simp only:)
  qed
qed

text \<open>The services returned are among those asked for, in the order asked, whatever the
  cache or the catalogue answers.\<close>

theorem services_in_requested_order:
  assumes "getServiceByIds E ids ws w = (Inr res, w')"
  shows "\<exists>P. map sb_id res = filter P ids"
  using getServiceByIds_keys[OF assms] .

theorem services_in_requested_order_witness:
  "\<exists>(res :: service_brief list) P. map sb_id res = filter P [''x'', ''yoga''] \<and> length res = 1"
proof -
  let ?r = "getServiceByIds (demo_env 2) [''x'', ''yoga''] ''w'' (demo_world (demo_db 2 ACCEPTED demo_ps))"
  have l: "case fst ?r of Inr xs \<Rightarrow> length xs = 1 | Inl _ \<Rightarrow> False" by code_simp
  then obtain res w' where r: "?r = (Inr res, w')" by (cases ?r) (auto split: sum.splits)
  have "length res = 1" using l unfolding r by simp
  moreover obtain P where "map sb_id res = filter P [''x'', ''yoga'']"
    using services_in_requested_order[OF r] by blast
  ultimately show ?thesis by blast
qed

text \<open>When every service is required, the snapshot either holds every service asked for,
  with a price, a discount, a duration and a capacity, or the call throws.\<close>

theorem snapshot_complete:
  assumes "getServicesSnapshotById E ws ids invisible True w = (Inr m, w')" and "i \<in> set ids" and "i \<noteq> []"
  shows "\<exists>s. m i = Some s \<and> sv_id s = i \<and> sv_price s \<noteq> None \<and> sv_discount s \<noteq> None \<and>
     sv_duration s \<noteq> None \<and> sv_maxParticipants s \<noteq> None"
proof -
  have "i \<in> set (uniq (filter (\<lambda>i. i \<noteq> []) ids))" using assms(2,3) by simp
  then have ne: "uniq (filter (\<lambda>i. i \<noteq> []) ids) \<noteq> []" by (metis empty_iff empty_set)
  obtain visible where m: "m = map_of (rev (map (\<lambda>s. (sb_id s, snapshotOf s)) visible))"
    and all: "filter (\<lambda>i. m i = None) (uniq (filter (\<lambda>i. i \<noteq> []) ids)) = []"
    using assms(1) ne unfolding getServicesSnapshotById_def
    by (auto simp: Let_def ebind_Inr_iff split: if_splits)
  from all have "m i \<noteq> None" using assms(2,3) by (auto simp: filter_empty_conv)
  then obtain s where "m i = Some s" by auto
  moreover from this m obtain b where "sb_id b = i" "s = snapshotOf b" by (auto dest: map_of_rev_key)
  ultimately show ?thesis by (simp add: snapshotOf_def)
qed

theorem snapshot_complete_witness:
  "\<exists>m (s :: service_snapshot). m ''yoga'' = Some s \<and> sv_id s = ''yoga'' \<and> sv_duration s \<noteq> None"
proof -
  let ?r = "getServicesSnapshotById (demo_env 2) ''w'' [''yoga''] False True (demo_world (demo_db 2 ACCEPTED demo_ps))"
  have "case fst ?r of Inr _ \<Rightarrow> True | Inl _ \<Rightarrow> False" by code_simp
  then obtain m w' where r: "?r = (Inr m, w')" by (cases ?r) (auto split: sum.splits)
  from snapshot_complete[OF r, of "''yoga''"] show ?thesis by auto
qed

section \<open>Busy events\<close>

text \<open>For a day, the busy events are exactly those of the professionals asked for, in groups
  of the workspace that are not cancelled, that meet the day \<^emph>\<open>in UTC\<close>, in the order of their start.
  Soft-deleted events count as busy, and what lies in the local day but outside the UTC day is not
  seen.\<close>

theorem busy_events_of_utc_day:
  assumes "getEventsOverlappingRange E ws us day day exclude w = (Inr evs, w')"
    and "us \<noteq> []" and "length day = 10" and "utcDay day = Some t"
  shows "mset evs = image_mset busyOf (filter_mset (\<lambda>e. ev_start e < t + (day_ms - 1) \<and> ev_end e > t \<and>
      blocksAvailability (w_db w) ws us exclude e) (mset (events (w_db w)))) \<and>
    sorted (map be_start evs)"
proof -
  have r: "rangeStart E day = Some t" "rangeEnd E day = Some (t + (day_ms - 1))"
    using assms(3,4) by (simp_all add: rangeStart_def rangeEnd_def)
  from getEventsOverlappingRange_Inr[OF assms(1,2)] r
  have evs: "evs = map busyOf (sort_key ev_start (filter (\<lambda>e. ev_start e < t + (day_ms - 1) \<and> ev_end e > t \<and>
      blocksAvailability (w_db w) ws us exclude e) (events (w_db w))))" by simp
  have "be_start \<circ> busyOf = ev_start" by (auto simp: busyOf_def)
  then show ?thesis unfolding evs by (simp add: mset_filter)
qed

theorem busy_events_of_utc_day_witness:
  "\<exists>evs w'. getEventsOverlappingRange (demo_env 2) ''w'' [''ana''] ''1970-01-02'' ''1970-01-02'' None
      (demo_world (demo_db 2 ACCEPTED demo_ps)) = (Inr evs, w') \<and> evs = []"
proof -
  let ?w = "demo_world (demo_db 2 ACCEPTED demo_ps)"
  let ?r = "getEventsOverlappingRange (demo_env 2) ''w'' [''ana''] ''1970-01-02'' ''1970-01-02'' None ?w"
  have "case fst ?r of Inr _ \<Rightarrow> True | Inl _ \<Rightarrow> False" by code_simp
  then obtain evs w' where r: "?r = (Inr evs, w')" by (cases ?r) (auto split: sum.splits)
  have d: "utcDay ''1970-01-02'' = Some day_ms" by code_simp
  from busy_events_of_utc_day[OF r _ _ d] have "mset evs = {#}"
    by (simp add: demo_world_def demo_db_def demo_event_def)
  then show ?thesis using r by simp
qed

section \<open>The context\<close>

lemma buildContext_Some:
  assumes "buildContext E inp w = (Inr (Some ctx), w')"
  shows "\<exists>evs w1 w2. getEventsOverlappingRange E (ci_workspace inp) (bc_allUsers ctx) (ci_date inp) (ci_date inp)
      (ci_exclude inp) w1 = (Inr evs, w2) \<and> w_db w1 = w_db w \<and> bc_allUsers ctx \<noteq> [] \<and>
      bc_windows ctx = windowsByUser E inp (bc_allUsers ctx)
        (filter (\<lambda>e. be_id e \<notin> set (orElse (ci_ignored inp) [])) evs)"
proof -
  obtain us w1 evs w2 where u: "buildUserIdsByService E (ci_attendees inp) (ci_workspace inp) [] w = (Inr us, w1)"
    and g: "getEventsOverlappingRange E (ci_workspace inp) (allUserIdsOf us) (ci_date inp) (ci_date inp)
      (ci_exclude inp) w1 = (Inr evs, w2)" and h: "hasAnyProfessional (allUserIdsOf us)"
    and c: "bc_allUsers ctx = allUserIdsOf us" "bc_windows ctx = windowsByUser E inp (allUserIdsOf us)
        (filter (\<lambda>e. be_id e \<notin> set (orElse (ci_ignored inp) [])) evs)"
    using assms by (auto simp: buildContext_def Let_def ebind_Inr_iff split: if_splits)
  have "w_db w1 = w_db w" using buildUserIdsByService_db[of E "ci_attendees inp" "ci_workspace inp" "[]" w] u by simp
  then show ?thesis using g h c by (auto simp: hasAnyProfessional_def)
qed

lemma context_no_overlap:
  assumes "buildContext E inp w = (Inr (Some ctx), w')" and "u \<in> set (bc_allUsers ctx)"
    and "a < b" and "fitsWindow (orElse (bc_windows ctx u) []) a b"
    and "e \<in> set (events (w_db w))" and "ev_user e = Some u" and "ev_start e < ev_end e"
    and "blocksAvailability (w_db w) (ci_workspace inp) (bc_allUsers ctx) (ci_exclude inp) e"
    and "ev_id e \<notin> set (orElse (ci_ignored inp) [])"
    and "rangeStart E (ci_date inp) = Some t0" and "rangeEnd E (ci_date inp) = Some t1"
    and "ev_start e < t1" and "t0 < ev_end e"
  shows "\<not> overlaps e a b"
proof -
  obtain evs w1 w2 where g: "getEventsOverlappingRange E (ci_workspace inp) (bc_allUsers ctx) (ci_date inp)
      (ci_date inp) (ci_exclude inp) w1 = (Inr evs, w2)" and db: "w_db w1 = w_db w"
    and ne: "bc_allUsers ctx \<noteq> []" and wi: "bc_windows ctx = windowsByUser E inp (bc_allUsers ctx)
        (filter (\<lambda>e. be_id e \<notin> set (orElse (ci_ignored inp) [])) evs)"
    using buildContext_Some[OF assms(1)] by blast
  have "busyOf e \<in> set evs"
    using getEventsOverlappingRange_Inr[OF g ne] assms(5-13) db by auto
  then have v: "win (ev_start e) (ev_end e) \<in> set (map (\<lambda>e. win (be_start e) (be_end e))
      (filter (\<lambda>e. be_user e = u) (filter (\<lambda>e. be_id e \<notin> set (orElse (ci_ignored inp) [])) evs)))"
    using assms(6,9) by (auto simp: busyOf_def image_iff intro!: bexI[of _ "busyOf e"])
  have p: "proper (win (ev_start e) (ev_end e))" using assms(7) by (simp add: proper_def)
  show ?thesis
    using freeWindows_no_overlap[OF assms(3) _ v p] assms(4)
    unfolding wi windowsByUser_lookup[OF assms(2)] by (simp add: overlaps_def)
qed

text \<open>A slot that fits in the windows the context gives for a professional meets no event of
  that professional that blocks availability, was not to be ignored and meets the UTC day of the
  booking.\<close>

theorem context_windows_free:
  assumes "buildContext E inp w = (Inr (Some ctx), w')" and "u \<in> set (bc_allUsers ctx)"
    and "a < b" and "fitsWindow (orElse (bc_windows ctx u) []) a b"
    and "e \<in> set (events (w_db w))" and "ev_user e = Some u" and "ev_start e < ev_end e"
    and "blocksAvailability (w_db w) (ci_workspace inp) (bc_allUsers ctx) (ci_exclude inp) e"
    and "ev_id e \<notin> set (orElse (ci_ignored inp) [])"
    and "rangeStart E (ci_date inp) = Some t0" and "rangeEnd E (ci_date inp) = Some t1"
    and "ev_start e < t1" and "t0 < ev_end e"
  shows "\<not> overlaps e a b"
  using context_no_overlap[OF assms] .

definition demo_ctx_input :: context_input where
  "demo_ctx_input = \<lparr>ci_company = ''co'', ci_workspace = ''w'', ci_date = ''1970-01-01'', ci_start = 36000000,
     ci_isToday = False, ci_rounded = 0, ci_attendees = [demo_attendee], ci_tz = ''UTC'', ci_weights = None,
     ci_exclude = None, ci_ignored = None, ci_preServices = None, ci_preWeights = None\<rparr>"

theorem context_windows_free_witness:
  "\<exists>ctx :: booking_ctx. fitsWindow (orElse (bc_windows ctx ''ana'') []) 36000000 39600000 \<and>
     \<not> overlaps (demo_event 2) 36000000 39600000"
proof -
  let ?w = "demo_world (demo_db 2 ACCEPTED demo_ps)"
  let ?r = "buildContext (demo_env 2) demo_ctx_input ?w"
  have ok: "case fst ?r of Inr (Some ctx) \<Rightarrow> bc_allUsers ctx = [''ana''] \<and>
      fitsWindow (orElse (bc_windows ctx ''ana'') []) 36000000 39600000 | _ \<Rightarrow> False" by code_simp
  then obtain ctx w' where r: "?r = (Inr (Some ctx), w')"
    by (cases ?r) (auto split: sum.splits option.splits)
  have c: "bc_allUsers ctx = [''ana'']" "fitsWindow (orElse (bc_windows ctx ''ana'') []) 36000000 39600000"
    using ok r by auto
  have t: "rangeStart (demo_env 2) ''1970-01-01'' = Some 0" "rangeEnd (demo_env 2) ''1970-01-01'' = Some 86399999"
    by code_simp+
  have b: "blocksAvailability (w_db ?w) ''w'' [''ana''] None (demo_event 2)" by code_simp
  have "\<not> overlaps (demo_event 2) 36000000 39600000"
    by (rule context_windows_free[OF r, of "''ana''" _ _ _ 0 86399999])
      (use c t b in \<open>simp_all add: demo_ctx_input_def demo_world_def demo_db_def demo_event_def\<close>)
  with c(2) show ?thesis by blast
qed

text \<open>The create service and the availability service compute the same context when nothing is
  ignored and nothing preloaded.\<close>

theorem contexts_agree:
  "buildContext E (inp\<lparr>ci_ignored := None, ci_preServices := None, ci_preWeights := None\<rparr>) =
   buildAvailabilityContext E (inp\<lparr>ci_ignored := None, ci_preServices := None, ci_preWeights := None\<rparr>)"
  by (rule buildContext_plain) simp_all

section \<open>The start of a booking\<close>

lemma isDayInPast_days:
  assumes "tz_ok Z" and "days_ok Z z" and "\<not> isDayInPast Z z s (z_sod Z z n)"
    and "\<not> isSameDay Z z (z_sod Z z s) (z_floor Z z n)"
  shows "z_floor Z z n < s"
proof -
  have sod: "z_sod Z z s \<le> s" "s \<le> z_eod Z z s" "z_sod Z z n \<le> n" "n \<le> z_eod Z z n"
    using assms(1) by (auto simp: tz_ok_def)
  have part: "z_sod Z z t \<le> u \<Longrightarrow> u \<le> z_eod Z z t \<Longrightarrow> z_sod Z z u = z_sod Z z t \<and> z_eod Z z u = z_eod Z z t" for t u
    using assms(2) unfolding days_ok_def by blast
  have "z_sod Z z s \<le> z_eod Z z s" using sod(1,2) by linarith
  then have "z_sod Z z (z_sod Z z s) = z_sod Z z s \<and> z_eod Z z (z_sod Z z s) = z_eod Z z s"
    by (intro part) auto
  note ss = conjunct1[OF this] conjunct2[OF this]
  have "\<forall>t. z_sod Z z t \<le> z_floor Z z t" using assms(2) unfolding days_ok_def by (rule conjunct2)
  then have fl: "z_floor Z z n \<le> n" "z_sod Z z n \<le> z_floor Z z n"
    using tz_floor(1)[OF assms(1)] by auto
  have out: "\<not> (z_sod Z z s \<le> z_floor Z z n \<and> z_floor Z z n \<le> z_eod Z z s)"
    using assms(4) by (simp add: isSameDay_def ss)
  have eod: "z_sod Z z n \<le> z_eod Z z s" using assms(3) by (simp add: isDayInPast_def ss)
  show ?thesis
  proof (rule ccontr)
    assume "\<not> z_floor Z z n < s"
    then have "z_eod Z z s < z_floor Z z n" using out sod(1) by linarith
    then have "z_sod Z z n \<le> z_eod Z z s \<and> z_eod Z z s \<le> z_eod Z z n" using eod fl sod(4) by linarith
    then have "z_sod Z z (z_eod Z z s) = z_sod Z z n \<and> z_eod Z z (z_eod Z z s) = z_eod Z z n" by (intro part) auto
    moreover have "z_sod Z z (z_eod Z z s) = z_sod Z z s \<and> z_eod Z z (z_eod Z z s) = z_eod Z z s"
      using sod by (intro part) auto
    ultimately have "z_floor Z z n \<le> z_eod Z z s" using fl sod(4) by linarith
    then show False using \<open>z_eod Z z s < z_floor Z z n\<close> by linarith
  qed
qed

text \<open>A start that the create and update operations accept is the instant the client's local
  time names, and is not before the current minute.\<close>

theorem accepted_start_not_past:
  assumes "tz_ok (e_tz E)" and "days_ok (e_tz E) tz"
    and "resolveStartContext E start tzClient tz = Inr (Inr sc)"
  shows "z_parse (e_tz E) start tzClient = Some (sc_start sc) \<and>
    z_floor (e_tz E) tz (e_now E) \<le> sc_start sc \<and> sc_date sc = z_date (e_tz E) tz (sc_start sc)"
proof -
  let ?Z = "e_tz E" and ?n = "e_now E"
  obtain s where s: "z_parse ?Z start tzClient = Some s" "sc_start sc = s" "sc_date sc = z_date ?Z tz s"
    "\<not> isDayInPast ?Z tz s (z_sod ?Z tz ?n)"
    "\<not> isTimeInPast (isToday (computeSlotConfig ?Z ?n (Some 5) tz (z_sod ?Z tz s))) s
        (roundedNow (computeSlotConfig ?Z ?n (Some 5) tz (z_sod ?Z tz s)))"
    using assms(3) by (auto simp: resolveStartContext_def Let_def split: option.splits if_splits)
  have "z_floor ?Z tz ?n \<le> s"
  proof (cases "isToday (computeSlotConfig ?Z ?n (Some 5) tz (z_sod ?Z tz s))")
    case True
    then have "roundedNow (computeSlotConfig ?Z ?n (Some 5) tz (z_sod ?Z tz s)) \<le> s"
      using s(5) by (simp add: isTimeInPast_def)
    then show ?thesis
      using computeSlotConfig_rounded(1)[OF assms(1), of tz ?n "Some 5" "z_sod ?Z tz s"] by linarith
  next
    case False
    then have "\<not> isSameDay ?Z tz (z_sod ?Z tz s) (z_floor ?Z tz ?n)"
      by (simp add: computeSlotConfig_def Let_def)
    from isDayInPast_days[OF assms(1,2) s(4) this] show ?thesis by linarith
  qed
  then show ?thesis using s by simp
qed

theorem accepted_start_not_past_witness:
  "\<exists>sc. resolveStartContext (demo_env 2) ''1970-01-01T10:00:00'' ''UTC'' ''UTC'' = Inr (Inr sc) \<and>
     0 \<le> sc_start sc"
proof -
  let ?r = "resolveStartContext (demo_env 2) ''1970-01-01T10:00:00'' ''UTC'' ''UTC''"
  have "case ?r of Inr (Inr _) \<Rightarrow> True | _ \<Rightarrow> False" by code_simp
  then obtain sc where r: "?r = Inr (Inr sc)" by (auto split: sum.splits)
  have "tz_ok (e_tz (demo_env 2))" "days_ok (e_tz (demo_env 2)) ''UTC''"
    by (simp_all add: demo_env_def utc_tz_ok utc_days_ok)
  from accepted_start_not_past[OF this r] r show ?thesis by (auto simp: demo_env_def utc_tz_def)
qed

end
