(* ===== verification/CalBookingProps.thy ===== *)
theory CalBookingProps
  imports CalDemo
begin

text \<open>
  Properties of creating a booking: the outcomes of create-or-join, what the transaction keeps, the
  capacity of a class, the dates of the group, and \<open>addEventFromWeb\<close> as a whole.
\<close>

section \<open>Create or join\<close>

lemma ensureGroup_total: "\<exists>g d'. ensureGroup P svc seg d = Inr (g, d')"
  by (auto simp: ensureGroup_def andThen_def createParticipant_def createGroup_def freshId_def Let_def
      split: option.splits)

lemma createInGroup_total: "\<exists>c d'. createInGroup P svc seg d = Inr (c, d')"
proof -
  obtain g d1 where g: "ensureGroup P svc seg d = Inr (g, d1)" using ensureGroup_total by blast
  obtain e d2 where e: "createEvent (newEvent (bp_company P) svc seg g) d1 = Inr (e, d2)"
    by (simp add: createEvent_def freshId_def andThen_def Let_def)
  have "groupById d2 g \<noteq> None"
    using ensureGroup_Inr[OF g] e groupById_None[of d2 g] by (simp add: createEvent_Inr)
  then obtain d3 where "syncGroupStartEndDates g d2 = Inr ((), d3)"
    by (cases "groupRange d2 g") (auto simp: syncGroupStartEndDates_def andThen_def updateGroup_def)
  with g e show ?thesis by (auto simp: createInGroup_def andThen_def)
qed

text \<open>What \<open>createOrJoinGroupEvent\<close> does in every case. An event in the exact slot decides
  first: the customer is told they are in it, a service of one place is refused, a full class is
  refused, otherwise the customer joins. Without one, an event of the professional that overlaps is
  an error; otherwise the event is created, in a group that holds the customer. It never fails in
  another way.\<close>

theorem create_or_join_outcomes:
  "case exactEvent d (bp_workspace P) seg of
     Some e \<Rightarrow>
       (if customerIn d (ev_group e) (bp_customer P)
        then createOrJoinGroupEvent P svc seg d = Inr (\<lparr>cr_event = e, cr_action = AlreadyIn\<rparr>, d)
        else if capacityOf (Some svc) \<le> 1
        then createOrJoinGroupEvent P svc seg d =
               Inl (CatalogError BOOKING_ERR_OVERLAP_CONFLICT ''Ese horario ya esta ocupado.'')
        else if capacityOf (Some svc) \<le> int (length (activeParticipants d (ev_group e)))
        then createOrJoinGroupEvent P svc seg d =
               Inl (CatalogError BOOKING_ERR_GENERIC ''No quedan plazas disponibles en ese grupo.'')
        else \<exists>d'. createOrJoinGroupEvent P svc seg d = Inr (\<lparr>cr_event = e, cr_action = Joined\<rparr>, d'))
   | None \<Rightarrow>
       (if overlappingOther d (bp_workspace P) seg \<noteq> None
        then createOrJoinGroupEvent P svc seg d = Inl (CatalogError BOOKING_ERR_OVERLAP_CONFLICT
               ''Ese profesional ya tiene otro evento en ese horario.'')
        else \<exists>c d'. createOrJoinGroupEvent P svc seg d = Inr (c, d') \<and> cr_action c = Created \<and>
               events d' = events d @ [cr_event c] \<and> sameSlot seg (cr_event c) \<and>
               ev_deleted (cr_event c) = None \<and> customerIn d' (ev_group (cr_event c)) (bp_customer P))"
proof (cases "exactEvent d (bp_workspace P) seg")
  case None
  show ?thesis
  proof (cases "overlappingOther d (bp_workspace P) seg")
    case (Some x)
    then show ?thesis using None by (simp add: createOrJoinGroupEvent_def)
  next
    case free: None
    obtain c d' where "createInGroup P svc seg d = Inr (c, d')" using createInGroup_total by blast
    then show ?thesis using None free createInGroup_Inr
      by (fastforce simp: createOrJoinGroupEvent_def)
  qed
next
  case (Some e)
  then show ?thesis
    by (auto simp: createOrJoinGroupEvent_def joinExisting_def andThen_def Let_def
        createParticipant_def freshId_def)
qed

text \<open>C20: joining adds exactly one participant, the customer, to the group of the event, never
  above the capacity of the service, and changes no event.\<close>

theorem join_respects_capacity:
  assumes "createOrJoinGroupEvent P svc seg d = Inr (c, d')" and "cr_action c = Joined"
  shows "length (activeParticipants d' (ev_group (cr_event c))) =
           Suc (length (activeParticipants d (ev_group (cr_event c)))) \<and>
         int (length (activeParticipants d' (ev_group (cr_event c)))) \<le> capacityOf (Some svc) \<and>
         customerIn d' (ev_group (cr_event c)) (bp_customer P) \<and> events d' = events d"
  using createOrJoin_capacity[OF assms] .

theorem join_respects_capacity_witness:
  "\<exists>c d'. createOrJoinGroupEvent (demo_params None ''k2'') (demo_service 2) (demo_segment ''ana'' 32400000)
      (demo_db 2 ACCEPTED demo_ps) = Inr (c, d') \<and>
     length (activeParticipants d' (ev_group (cr_event c))) = 2"
proof -
  let ?d = "demo_db 2 ACCEPTED demo_ps"
  let ?r = "createOrJoinGroupEvent (demo_params None ''k2'') (demo_service 2) (demo_segment ''ana'' 32400000) ?d"
  have "case ?r of Inr (c, _) \<Rightarrow> cr_action c = Joined \<and> length (activeParticipants ?d (ev_group (cr_event c))) = 1
      | Inl _ \<Rightarrow> False" by code_simp
  then obtain c d' where r: "?r = Inr (c, d')" "cr_action c = Joined"
    "length (activeParticipants ?d (ev_group (cr_event c))) = 1"
    by (auto split: sum.splits prod.splits)
  from join_respects_capacity[OF r(1,2)] r show ?thesis by auto
qed

text \<open>After a creation the dates of the group are the least start and the greatest end of its
  live events.\<close>

theorem created_group_dates:
  assumes "wfDb d" and "groupIdReserved P d" and "exactEvent d (bp_workspace P) seg = None"
    and "createOrJoinGroupEvent P svc seg d = Inr (c, d')"
  shows "\<exists>r. groupById d' (ev_group (cr_event c)) = Some r \<and>
     groupRange d' (ev_group (cr_event c)) = Some (gr_start r, gr_end r)"
proof -
  have "createInGroup P svc seg d = Inr (c, d')"
    using assms(3,4) by (auto simp: createOrJoinGroupEvent_def split: option.splits)
  from createInGroup_dates[OF assms(1,2) this] show ?thesis by auto
qed

theorem created_group_dates_witness:
  "\<exists>c d' r. createOrJoinGroupEvent (demo_params None ''k2'') (demo_service 1) (demo_segment ''bea'' 32400000)
      (demo_db 2 ACCEPTED demo_ps) = Inr (c, d') \<and>
     groupRange d' (ev_group (cr_event c)) = Some (gr_start (r :: group_row), gr_end r)"
proof -
  let ?d = "demo_db 2 ACCEPTED demo_ps"
  let ?r = "createOrJoinGroupEvent (demo_params None ''k2'') (demo_service 1) (demo_segment ''bea'' 32400000) ?d"
  have ex: "exactEvent ?d (bp_workspace (demo_params None ''k2'')) (demo_segment ''bea'' 32400000) = None" by code_simp
  have "case ?r of Inr _ \<Rightarrow> True | Inl _ \<Rightarrow> False" by code_simp
  then obtain c d' where r: "?r = Inr (c, d')" by (auto split: sum.splits)
  from created_group_dates[OF demo_wf_ps demo_reserved ex r] r show ?thesis by blast
qed

text \<open>The exact slot is looked up without regard to deletion or cancellation. When its
  event is in a cancelled group the slot cannot be booked again: its former customer is told they are
  in it while it stays cancelled, and with a service of one place everybody else gets the overlap
  error, although the availability does not count the event as busy.\<close>

theorem cancelled_slot_not_rebookable:
  assumes "exactEvent d (bp_workspace P) seg = Some e"
    and "groupSat d (\<lambda>g. gr_status g \<in> set CANCELLED_STATES) e"
  shows "(customerIn d (ev_group e) (bp_customer P) \<longrightarrow>
       createOrJoinGroupEvent P svc seg d = Inr (\<lparr>cr_event = e, cr_action = AlreadyIn\<rparr>, d)) \<and>
    (\<not> customerIn d (ev_group e) (bp_customer P) \<and> capacityOf (Some svc) \<le> 1 \<longrightarrow>
       createOrJoinGroupEvent P svc seg d =
         Inl (CatalogError BOOKING_ERR_OVERLAP_CONFLICT ''Ese horario ya esta ocupado.'')) \<and>
    \<not> blocksAvailability d (bp_workspace P) us exclude e \<and> \<not> occupies d (bp_workspace P) e"
  using assms
  by (auto simp: createOrJoinGroupEvent_def joinExisting_def andThen_def Let_def blocksAvailability_def
      occupies_def groupSat_def split: option.splits)

theorem cancelled_slot_not_rebookable_witness:
  "createOrJoinGroupEvent (demo_params None ''k2'') (demo_service 1) (demo_segment ''ana'' 32400000)
     (demo_db 1 CANCELLED_BY_CLIENT demo_ps) =
     Inl (CatalogError BOOKING_ERR_OVERLAP_CONFLICT ''Ese horario ya esta ocupado.'')"
proof -
  let ?d = "demo_db 1 CANCELLED_BY_CLIENT demo_ps" and ?P = "demo_params None ''k2''"
  have e: "exactEvent ?d (bp_workspace ?P) (demo_segment ''ana'' 32400000) = Some (demo_event 1)" by code_simp
  have g: "groupSat ?d (\<lambda>g. gr_status g \<in> set CANCELLED_STATES) (demo_event 1)" by code_simp
  have "\<not> customerIn ?d (ev_group (demo_event 1)) (bp_customer ?P)" "capacityOf (Some (demo_service 1)) \<le> 1"
    by code_simp+
  with cancelled_slot_not_rebookable[OF e g] show ?thesis by blast
qed

section \<open>The transaction\<close>

text \<open>The transaction over the segments keeps keys unique, references resolved and identifiers
  fresh, whatever it creates, joins and regroups.\<close>

theorem transaction_keeps_wf:
  assumes "wfDb d" and "groupIdReserved P d" and "createEventsForAssignment sv P segs d = Inr (items, d')"
  shows "wfDb d'"
  using bs.tx_wf[OF conjI[OF assms(1,2)]] assms(3) unfolding createEventsForAssignment_def by blast

theorem transaction_keeps_wf_witness:
  "\<exists>items d'. createEventsForAssignment [''yoga'' \<mapsto> demo_service 2] (demo_params None ''k2'')
     [demo_segment ''ana'' 32400000, demo_segment ''bea'' 36000000] (demo_db 2 ACCEPTED demo_ps) = Inr (items, d')
     \<and> wfDb d' \<and> length items = 2"
proof -
  let ?r = "createEventsForAssignment [''yoga'' \<mapsto> demo_service 2] (demo_params None ''k2'')
     [demo_segment ''ana'' 32400000, demo_segment ''bea'' 36000000] (demo_db 2 ACCEPTED demo_ps)"
  have "case ?r of Inr (items, _) \<Rightarrow> length items = 2 | Inl _ \<Rightarrow> False" by code_simp
  then obtain items d' where r: "?r = Inr (items, d')" "length items = 2" by (auto split: sum.splits)
  from transaction_keeps_wf[OF demo_wf_ps demo_reserved r(1)] r show ?thesis by blast
qed

lemma tx_no_double:
  assumes "wfDb d" and "groupIdReserved P d" and "noDoubleBooking d (bp_workspace P)" and "groupLive P d"
    and "slotsLive (bp_workspace P) (set segs) d" and "createEventsForAssignment sv P segs d = Inr (items, d')"
  shows "noDoubleBooking d' (bp_workspace P)"
  using bl.tx_single[where S = "set segs" and P = P and xs = segs] assms
  unfolding createEventsForAssignment_def by blast

text \<open>The transaction never books a professional twice: if no two live events of a
  professional in the workspace overlap before it, none do after it. The events already in the exact
  slots must be live, because the transaction moves what it joins to one group.\<close>

theorem transaction_no_double_booking:
  assumes "wfDb d" and "groupIdReserved P d" and "noDoubleBooking d (bp_workspace P)" and "groupLive P d"
    and "slotsLive (bp_workspace P) (set segs) d" and "createEventsForAssignment sv P segs d = Inr (items, d')"
  shows "noDoubleBooking d' (bp_workspace P)"
  using tx_no_double[OF assms] .

theorem transaction_no_double_booking_witness:
  "\<exists>items d'. createEventsForAssignment [''yoga'' \<mapsto> demo_service 2] (demo_params None ''k2'')
     [demo_segment ''ana'' 32400000, demo_segment ''bea'' 36000000] (demo_db 2 ACCEPTED demo_ps) = Inr (items, d')
     \<and> noDoubleBooking d' ''w''"
proof -
  let ?P = "demo_params None ''k2''" and ?d = "demo_db 2 ACCEPTED demo_ps"
  let ?segs = "[demo_segment ''ana'' 32400000, demo_segment ''bea'' 36000000]"
  let ?r = "createEventsForAssignment [''yoga'' \<mapsto> demo_service 2] ?P ?segs ?d"
  have "case ?r of Inr _ \<Rightarrow> True | Inl _ \<Rightarrow> False" by code_simp
  then obtain items d' where r: "?r = Inr (items, d')" by (auto split: sum.splits)
  have ws: "bp_workspace ?P = ''w''" by (simp add: demo_params_def)
  have "groupLive ?P ?d" by (simp add: groupLive_def demo_params_def)
  moreover have "slotsLive (bp_workspace ?P) (set ?segs) ?d" by code_simp
  ultimately have "noDoubleBooking d' (bp_workspace ?P)"
    using transaction_no_double_booking[OF demo_wf_ps demo_reserved demo_single _ _ r] by blast
  then show ?thesis using r unfolding ws by blast
qed

text \<open>With one segment regrouping changes nothing.\<close>

lemma syncGroupIds_one:
  assumes "wfDb d" and "cr_event c \<in> set (events d)"
  shows "syncGroupIds [c] d = Inr ([c], d)"
proof -
  have "updateWhere (\<lambda>e. ev_id e \<in> {ev_id (cr_event c)}) (\<lambda>e. e\<lparr>ev_group := ev_group (cr_event c)\<rparr>) (events d) = events d"
    unfolding updateWhere_def
  proof (rule map_idI)
    fix x assume x: "x \<in> set (events d)"
    have "inj_on ev_id (set (events d))" using assms(1) by (simp add: wfDb_def distinct_map)
    then have "ev_id x = ev_id (cr_event c) \<Longrightarrow> x = cr_event c" using x assms(2) by (meson inj_onD)
    then show "(if ev_id x \<in> {ev_id (cr_event c)} then x\<lparr>ev_group := ev_group (cr_event c)\<rparr> else x) = x" by auto
  qed
  then show ?thesis by (simp add: syncGroupIds_def andThen_def updateManyEvents_def Let_def)
qed

lemma tx_one_no_double:
  assumes "wfDb d" and "groupIdReserved P d" and "noDoubleBooking d (bp_workspace P)"
    and "createEventsForAssignment sv P [seg] d = Inr (items, d')"
  shows "noDoubleBooking d' (bp_workspace P)"
proof -
  obtain c d1 where st: "createEventsForSegment sv P seg d = Inr (c, d1)" and sy: "syncGroupIds [c] d1 = Inr (items, d')"
    using assms(4) by (auto simp: createEventsForAssignment_def createAssignmentsAndSyncGroupId_def andThen_Inr_iff)
  have inv: "wfDb d1 \<and> groupIdReserved P d1 \<and> noDoubleBooking d1 (bp_workspace P)"
    by (rule bd.keeps[OF _ st]) (use assms in blast)
  have "d' = d1" using syncGroupIds_one[of d1 c] inv bs.item_stored[OF st] sy by simp
  then show ?thesis using inv by simp
qed

section \<open>\<open>addEventFromWeb\<close>\<close>

definition sameRows :: "db \<Rightarrow> db \<Rightarrow> bool" where
  "sameRows d d' \<longleftrightarrow> events d' = events d \<and> groups d' = groups d \<and> participants d' = participants d"

text \<open>What the resolution of the assignment may do to the database: take one identifier.\<close>

definition tookId :: "db \<Rightarrow> ident option \<Rightarrow> db \<Rightarrow> bool" where
  "tookId d g d' \<longleftrightarrow> (g = None \<and> d' = d) \<or>
     (g = Some (idSupply d (nextId d)) \<and> d' = d\<lparr>nextId := Suc (nextId d)\<rparr>)"

lemma onRedis_db: "w_db (snd (onRedis f w)) = w_db w"
  by (simp add: onRedis_def split: prod.splits)

lemma tryJoin_db: "w_db (snd (tryJoinExistingGroupAssignment E ws tz s as sv us ex c w)) = w_db w"
  unfolding tryJoinExistingGroupAssignment_def Let_def
  by (auto simp: keeps_basic intro!: ebind_keeps[where k = w_db] split: option.splits list.splits)

lemma tryJoin_segs:
  "tryJoinExistingGroupAssignment E ws tz s as sv us ex c w = (Inr segs, w') \<Longrightarrow>
     length segs \<le> 1 \<and> (\<forall>x \<in> set segs. sg_service x = at_service (hd as))"
  unfolding tryJoinExistingGroupAssignment_def Let_def
  by (auto simp: ebind_Inr_iff split: option.splits list.splits if_splits)

lemma planFrom_services: "planFrom Z z ctx t as segs \<Longrightarrow> map sg_service segs = map at_service as"
  by (induction Z z ctx t as segs rule: planFrom.induct) auto

lemma executeStrategy_services:
  assumes "executeStrategy Z ch (getAssignmentMode as sv) inp r = (Inr segs, r')" and "si_attendees inp = as"
  shows "map sg_service segs = map at_service as"
proof (cases "getAssignmentMode as sv = MultiIndividual")
  case True
  then have "multiIndividualExecute Z inp = Inr segs" using assms by (simp add: executeStrategy_def)
  then obtain ctx used where "assignSeq Z (si_tz inp) ctx [] as [] [] = (True, used, segs)"
    using assms(2) by (auto simp: multiIndividualExecute_def Let_def split: if_splits prod.splits)
  from assignSeq_sound(1)[OF this] show ?thesis using planFrom_services by auto
next
  case False
  then obtain a where "as = [a]" by (cases "(as, sv)" rule: getAssignmentMode.cases) auto
  then show ?thesis using assms False
    by (auto simp: executeStrategy_def Let_def split: assignment_mode.splits prod.splits option.splits list.splits if_splits)
qed

lemma joinOrAssign_db: "w_db (snd (joinOrAssign E ws tz s as ctx ex c g w)) = w_db w"
  unfolding joinOrAssign_def Let_def
  by (intro ebind_keeps[where k = w_db])
    (auto simp: tryJoin_db keeps_basic onRedis_db intro!: ebind_keeps[where k = w_db] split: sum.splits)

lemma joinOrAssign_Some:
  assumes "joinOrAssign E ws tz s as ctx ex c g w = (Inr (Some (segs, g')), w')"
  shows "g' = g \<and> (length as = 1 \<longrightarrow> length segs = 1) \<and> sg_service ` set segs \<subseteq> at_service ` set as"
proof -
  obtain joinable w1 where j: "(if getAssignmentMode as (bc_services ctx) = SingleGroup
      then tryJoinExistingGroupAssignment E ws tz s as (bc_services ctx) (bc_users ctx) ex c else eret []) w
      = (Inr joinable, w1)"
    using assms by (auto simp: joinOrAssign_def Let_def ebind_Inr_iff)
  show ?thesis
  proof (cases "joinable = []")
    case False
    then have "segs = joinable" "g' = g"
      using assms j by (auto simp: joinOrAssign_def Let_def ebind_def)
    moreover have sg: "getAssignmentMode as (bc_services ctx) = SingleGroup" using j False by (auto split: if_splits)
    moreover have "length joinable \<le> 1 \<and> (\<forall>x \<in> set joinable. sg_service x = at_service (hd as))"
      using tryJoin_segs[of E ws tz s as "bc_services ctx" "bc_users ctx" ex c w joinable w1] j sg by simp
    moreover have "as \<noteq> []" using sg by (cases as) auto
    ultimately show ?thesis using False by (cases joinable) auto
  next
    case True
    then obtain r r' where "executeStrategy (e_tz E) (chooserAt E) (getAssignmentMode as (bc_services ctx))
        \<lparr>si_workspace = ws, si_tz = tz, si_start = s, si_attendees = as,
         si_services = bc_services ctx, si_users = map_of (bc_users ctx),
         si_windows = bc_windows ctx, si_weights = bc_weights ctx\<rparr> r = (Inr segs, r')" and g: "g' = g"
      using assms j by (auto simp: joinOrAssign_def Let_def ebind_def onRedis_def split: prod.splits sum.splits)
    from executeStrategy_services[OF this(1)] have "map sg_service segs = map at_service as" by simp
    then show ?thesis using g by (metis length_map order_refl set_map)
  qed
qed

lemma resolveAssignment_db:
  "\<exists>g. tookId (w_db w) g (w_db (snd (resolveAssignment E ws tz s as ctx ex c w)))"
  using joinOrAssign_db
  by (auto simp: resolveAssignment_def ebind_def newGroupId_def Let_def tookId_def)

lemma resolveAssignment_Some:
  assumes "resolveAssignment E ws tz s as ctx ex c w = (Inr (Some (segs, g)), w')"
  shows "tookId (w_db w) g (w_db w') \<and> (length as = 1 \<longrightarrow> length segs = 1) \<and>
    sg_service ` set segs \<subseteq> at_service ` set as"
proof -
  obtain g0 w0 where "joinOrAssign E ws tz s as ctx ex c g0 w0 = (Inr (Some (segs, g)), w')"
    and t: "tookId (w_db w) g0 (w_db w0)"
    using assms by (auto simp: resolveAssignment_def ebind_def newGroupId_def Let_def tookId_def split: if_splits)
  with joinOrAssign_Some[OF this(1)] joinOrAssign_db[of E ws tz s as ctx ex c g0 w0] show ?thesis by simp
qed

lemma tookId_rows: "tookId d g d' \<Longrightarrow> sameRows d d'"
  by (auto simp: tookId_def sameRows_def)

lemma tookId_wf: "tookId d g d' \<Longrightarrow> wfDb d \<Longrightarrow> wfDb d'"
  by (auto simp: tookId_def wfDb_def freshSupply_next)

lemma tookId_reserved:
  assumes "tookId d g d'" and "wfDb d" and "bp_group P = g"
  shows "groupIdReserved P d'" and "g = Some i \<Longrightarrow> groupById d' i = None"
proof -
  have fs: "freshSupply d" using assms(2) by (simp add: wfDb_def)
  have "i = idSupply d (nextId d) \<Longrightarrow> i \<notin> idSupply d ` {Suc (nextId d)..}" for i
    using fresh_later[OF fs] by (force simp: Suc_le_eq)
  then show "groupIdReserved P d'" using assms(1,3) by (auto simp: groupIdReserved_def tookId_def)
  show "g = Some i \<Longrightarrow> groupById d' i = None"
    using assms(1) fresh_notin(2)[OF fs order_refl] by (auto simp: tookId_def groupById_None)
qed

lemma sameRows_occupies: "sameRows d d' \<Longrightarrow> occupies d' ws e = occupies d ws e"
  "sameRows d d' \<Longrightarrow> noDoubleBooking d' ws = noDoubleBooking d ws"
  by (simp_all add: sameRows_def occupies_def groupSat_def groupById_def noDoubleBooking_def)

text \<open>The ways the operation ends: nothing written but the identifier, or the transaction committed.\<close>

lemma addBody_cases:
  obtains (none) "sameRows (w_db w) (w_db (snd (addEventFromWebBody E inp deps w)))"
      "wfDb (w_db w) \<Longrightarrow> wfDb (w_db (snd (addEventFromWebBody E inp deps w)))"
      "\<forall>r. fst (addEventFromWebBody E inp deps w) \<noteq> Inr (Some r)"
  | (finished) sv segs g d1 items where "tookId (w_db w) g d1"
      "length (in_attendees inp) = 1 \<longrightarrow> length segs = 1"
      "sg_service ` set segs \<subseteq> at_service ` set (in_attendees inp)"
      "createEventsForAssignment sv (bookingParams inp deps g) segs d1 =
         Inr (items, w_db (snd (addEventFromWebBody E inp deps w)))"
      "\<exists>r. fst (addEventFromWebBody E inp deps w) = Inr (Some r) \<and> ad_created r = items"
proof -
  let ?out = "addEventFromWebBody E inp deps w"
  have refl: "sameRows (w_db w) (w_db w)" by (simp add: sameRows_def)
  consider (early) "w_db (snd ?out) = w_db w" "\<forall>r. fst ?out \<noteq> Inr (Some r)"
    | (go) sc where "?out = bookFrom E inp deps sc w"
  proof (cases "validateAddInput inp (dp_tz deps)")
    case None
    show ?thesis
    proof (cases "resolveStartContext E (in_start inp) (in_tzClient inp) (dp_tz deps)")
      case (Inr b)
      then show ?thesis using None that by (cases b) (simp_all add: addEventFromWebBody_def)
    qed (use None that in \<open>simp add: addEventFromWebBody_def\<close>)
  qed (use that in \<open>simp add: addEventFromWebBody_def\<close>)
  then show thesis
  proof cases
    case early
    then show thesis using none refl by simp
  next
    case go
    obtain av w1 where av: "buildAvailabilityContext E (contextInput inp deps sc) w = (av, w1)" by fastforce
    have w1: "w_db w1 = w_db w" using buildAvailabilityContext_db[of E "contextInput inp deps sc" w] av by simp
    show thesis
    proof (cases "\<exists>ctx. av = Inr (Some ctx)")
      case False
      then have "w_db (snd ?out) = w_db w" "\<forall>r. fst ?out \<noteq> Inr (Some r)"
        using go av w1 by (auto simp: bookFrom_def ebind_def split: sum.splits option.splits)
      then show thesis using none refl by simp
    next
      case True
      then obtain ctx where ctx: "av = Inr (Some ctx)" by blast
      obtain res w2 where res: "resolveAssignment E (in_workspace inp) (dp_tz deps) (sc_start sc)
          (in_attendees inp) ctx (in_exclude inp) (in_customer inp) w1 = (res, w2)" by fastforce
      obtain g0 where g0: "tookId (w_db w) g0 (w_db w2)" using resolveAssignment_db res w1 by (metis snd_conv)
      show thesis
      proof (cases "\<exists>segs g items d'. res = Inr (Some (segs, g)) \<and>
          createEventsForAssignment (bc_services ctx) (bookingParams inp deps g) segs (w_db w2) = Inr (items, d')")
        case False
        then have "w_db (snd ?out) = w_db w2" "\<forall>r. fst ?out \<noteq> Inr (Some r)"
          using go av ctx res by (auto simp: bookFrom_def ebind_def inTx_def split: sum.splits option.splits prod.splits)
        then show thesis using none tookId_rows[OF g0] tookId_wf[OF g0] by simp
      next
        case True
        then obtain segs g items d' where t: "res = Inr (Some (segs, g))"
          "createEventsForAssignment (bc_services ctx) (bookingParams inp deps g) segs (w_db w2) = Inr (items, d')"
          by blast
        then have out: "w_db (snd ?out) = d'" "\<exists>r. fst ?out = Inr (Some r) \<and> ad_created r = items"
          using go av ctx res
          by (auto simp: bookFrom_def ebind_def inTx_def buildAddFromWebResponse_def Let_def)
        show thesis
          using finished[of g "w_db w2" segs "bc_services ctx" items] t out resolveAssignment_Some[of E _ _ _ _ ctx _ _ w1 segs g w2]
            res w1 by simp
      qed
    qed
  qed
qed

lemma addEventFromWeb_parts:
  "w_db (snd (addEventFromWeb E inp deps w)) = w_db (snd (addEventFromWebBody E inp deps w))"
  "fst (addEventFromWeb E inp deps w) = Inr r \<longleftrightarrow> fst (addEventFromWebBody E inp deps w) = Inr r"
  by (auto simp: addEventFromWeb_def ecatch_def split: prod.splits sum.splits)

text \<open>C21: when the operation does not answer with a booking (an error, or no availability) no
  event, group or participant has changed.\<close>

theorem add_all_or_nothing:
  assumes "\<forall>r. fst (addEventFromWeb E inp deps w) \<noteq> Inr (Some r)"
  shows "sameRows (w_db w) (w_db (snd (addEventFromWeb E inp deps w)))"
proof (cases rule: addBody_cases[of w E inp deps])
  case none
  then show ?thesis by (simp add: addEventFromWeb_parts)
next
  case (finished sv segs g d1 items)
  then show ?thesis using assms by (auto simp: addEventFromWeb_parts)
qed

theorem add_all_or_nothing_witness:
  "sameRows (demo_db 2 ACCEPTED demo_ps)
     (w_db (snd (addEventFromWeb (demo_env 2) (demo_input ''1969-12-31T10:00:00'' ''k2'') demo_deps
        (demo_world (demo_db 2 ACCEPTED demo_ps)))))"
proof -
  let ?w = "demo_world (demo_db 2 ACCEPTED demo_ps)"
  let ?r = "addEventFromWeb (demo_env 2) (demo_input ''1969-12-31T10:00:00'' ''k2'') demo_deps ?w"
  have "case fst ?r of Inr (Some _) \<Rightarrow> False | _ \<Rightarrow> True" by code_simp
  then have "\<forall>r. fst ?r \<noteq> Inr (Some r)" by auto
  from add_all_or_nothing[OF this] show ?thesis by (simp add: demo_world_def)
qed

lemma bookingParams_simps [simp]:
  "bp_group (bookingParams inp deps g) = g" "bp_workspace (bookingParams inp deps g) = in_workspace inp"
  by (simp_all add: bookingParams_def)

text \<open>The operation keeps the database well-formed, whatever its outcome.\<close>

theorem add_keeps_wf:
  assumes "wfDb (w_db w)"
  shows "wfDb (w_db (snd (addEventFromWeb E inp deps w)))"
proof (cases rule: addBody_cases[of w E inp deps])
  case none
  then show ?thesis using assms by (simp add: addEventFromWeb_parts)
next
  case (finished sv segs g d1 items)
  have "wfDb d1 \<and> groupIdReserved (bookingParams inp deps g) d1"
    using tookId_wf tookId_reserved(1) finished(1) assms by simp
  then show ?thesis using bs.tx_wf finished(4)
    unfolding addEventFromWeb_parts createEventsForAssignment_def by blast
qed

theorem add_keeps_wf_witness:
  "wfDb (w_db (snd (addEventFromWeb (demo_env 2) (demo_input ''1970-01-01T10:00:00'' ''k2'') demo_deps
     (demo_world (demo_db 2 ACCEPTED demo_ps)))))"
  by (rule add_keeps_wf) (simp add: demo_world_def demo_wf_ps)



text \<open>C2: neither does a booking of several services, when the events of the workspace for the
  services asked for are all live.\<close>

theorem add_many_no_double_booking:
  assumes "wfDb (w_db w)" and "noDoubleBooking (w_db w) (in_workspace inp)"
    and "\<forall>e \<in> set (events (w_db w)). groupSat (w_db w) (\<lambda>g. gr_workspace g = in_workspace inp) e \<and>
           ev_service e \<in> Some ` at_service ` set (in_attendees inp) \<longrightarrow> occupies (w_db w) (in_workspace inp) e"
  shows "noDoubleBooking (w_db (snd (addEventFromWeb E inp deps w))) (in_workspace inp)"
proof (cases rule: addBody_cases[of w E inp deps])
  case none
  then show ?thesis using assms by (simp add: addEventFromWeb_parts sameRows_occupies)
next
  case (finished sv segs g d1 items)
  let ?P = "bookingParams inp deps g"
  have same: "sameRows (w_db w) d1" using tookId_rows finished(1) by blast
  then have rows: "events d1 = events (w_db w)" "groupSat d1 Q e = groupSat (w_db w) Q e" for Q e
    by (simp_all add: sameRows_def groupSat_def groupById_def)
  have "wfDb d1" "groupIdReserved ?P d1" "noDoubleBooking d1 (bp_workspace ?P)"
    using tookId_wf[OF finished(1)] tookId_reserved(1)[OF finished(1)] sameRows_occupies(2)[OF same] assms
    by simp_all
  moreover have "groupLive ?P d1"
    using tookId_reserved(2)[OF finished(1) assms(1), of ?P] by (auto simp: groupLive_def)
  moreover have "slotsLive (bp_workspace ?P) (set segs) d1"
    unfolding slotsLive_def rows sameRows_occupies(1)[OF same]
  proof (intro ballI impI)
    fix e seg
    assume e: "e \<in> set (events (w_db w))" and seg: "seg \<in> set segs"
      and m: "sameSlot seg e \<and> groupSat (w_db w) (\<lambda>g. gr_workspace g = bp_workspace ?P) e"
    have "ev_service e = Some (sg_service seg)" using m by (simp add: sameSlot_def)
    then have "ev_service e \<in> Some ` at_service ` set (in_attendees inp)" using finished(3) seg by auto
    then show "occupies (w_db w) (bp_workspace ?P) e" using assms(3) e m by simp
  qed
  ultimately have "noDoubleBooking (w_db (snd (addEventFromWebBody E inp deps w))) (bp_workspace ?P)"
    using tx_no_double finished(4) by blast
  then show ?thesis by (simp add: addEventFromWeb_parts)
qed

theorem add_many_no_double_booking_witness:
  "noDoubleBooking (w_db (snd (addEventFromWeb (demo_env 1)
     ((demo_input ''1970-01-01T10:00:00'' ''k2'')\<lparr>in_attendees := [demo_attendee, demo_attendee]\<rparr>) demo_deps
     (demo_world (demo_db 2 ACCEPTED demo_ps))))) ''w''"
proof -
  let ?w = "demo_world (demo_db 2 ACCEPTED demo_ps)"
    and ?i = "(demo_input ''1970-01-01T10:00:00'' ''k2'')\<lparr>in_attendees := [demo_attendee, demo_attendee]\<rparr>"
  have "wfDb (w_db ?w)" "noDoubleBooking (w_db ?w) (in_workspace ?i)"
    by (simp_all add: demo_world_def demo_wf_ps demo_single)
  moreover have "\<forall>e \<in> set (events (w_db ?w)). occupies (w_db ?w) (in_workspace ?i) e" by code_simp
  moreover have "in_workspace ?i = ''w''" by (simp add: demo_input_def)
  ultimately show ?thesis using add_many_no_double_booking[of ?w ?i "demo_env 1" demo_deps] by simp
qed

end
