(* ===== verification/CalWf.thy ===== *)
theory CalWf
  imports CalBookingTx
begin

text \<open>
  The writes of a transaction keep the rows consistent (\<open>wfDb\<close>), stated as rules on what a transaction
  preserves, for a database that has a given group.
\<close>

text \<open>A consistent database that has the group of the booking.\<close>

definition wfAt :: "ident \<Rightarrow> db \<Rightarrow> bool" where
  "wfAt g d \<longleftrightarrow> wfDb d \<and> g \<in> gr_id ` set (groups d)"

lemma updateEvent_events:
  "updateEvent i f d = Inr (x, d') \<Longrightarrow>
     events d' = updateWhere (\<lambda>e. ev_id e = i) f (events d) \<and> groups d' = groups d"
  by (auto simp: updateEvent_def split: option.splits)

lemma updateEvent_wfAt [preserves_rules]:
  assumes "\<And>e. ev_id (f e) = ev_id e" and "\<And>e. ev_group (f e) = g \<or> ev_group (f e) = ev_group e"
  shows "preserves (wfAt g) (updateEvent i f)"
proof (rule preservesI)
  fix d x d' assume a: "wfAt g d" and u: "updateEvent i f d = Inr (x, d')"
  have "ev_group (f e) \<in> gr_id ` set (groups d)" if "e \<in> set (events d)" for e
    using a assms(2)[of e] that unfolding wfAt_def wfDb_def by metis
  then have "wfDb d'" using a unfolding wfAt_def by (intro wf_updateEvent[OF _ assms(1) _ u]) auto
  then show "wfAt g d'" using a updateEvent_events[OF u] by (simp add: wfAt_def)
qed

lemma createEvent_groups: "createEvent e d = Inr (x, d') \<Longrightarrow> groups d' = groups d"
  by (simp add: createEvent_Inr)

lemma createParticipant_groups: "createParticipant p d = Inr (x, d') \<Longrightarrow> groups d' = groups d"
  by (simp add: createParticipant_Inr)

lemma createEvent_wfAt [preserves_rules]: "ev_group e = g \<Longrightarrow> preserves (wfAt g) (createEvent e)"
  by (rule preservesI) (metis wfAt_def wf_createEvent createEvent_groups)

lemma createParticipant_wfAt [preserves_rules]: "pt_group p = g \<Longrightarrow> preserves (wfAt g) (createParticipant p)"
  by (rule preservesI) (metis wfAt_def wf_createParticipant createParticipant_groups)

lemma updateManyEvents_wfAt [preserves_rules]:
  assumes "\<And>e. ev_id (f e) = ev_id e" and "\<And>e. ev_group (f e) = g \<or> ev_group (f e) = ev_group e"
  shows "preserves (wfAt g) (updateManyEvents P f)"
proof (rule preservesI)
  fix d x d' assume a: "wfAt g d" and u: "updateManyEvents P f d = Inr (x, d')"
  have "ev_group (f e) \<in> gr_id ` set (groups d)" if "e \<in> set (events d)" for e
    using a assms(2)[of e] that unfolding wfAt_def wfDb_def by metis
  then have "wfDb d'" using a unfolding wfAt_def by (intro wf_updateManyEvents[OF _ assms(1) _ u]) auto
  then show "wfAt g d'" using a u by (auto simp: wfAt_def updateManyEvents_def)
qed

lemma updateManyParticipants_wfAt [preserves_rules]:
  assumes "\<And>p. pt_id (f p) = pt_id p" and "\<And>p. pt_group (f p) = pt_group p"
  shows "preserves (wfAt g) (updateManyParticipants P f)"
proof (rule preservesI)
  fix d x d' assume a: "wfAt g d" and u: "updateManyParticipants P f d = Inr (x, d')"
  then have "wfDb d'" unfolding wfAt_def by (intro wf_updateManyParticipants[OF _ assms u]) auto
  then show "wfAt g d'" using a u by (auto simp: wfAt_def updateManyParticipants_def)
qed

lemma updateGroup_wfAt [preserves_rules]:
  assumes "\<And>r. gr_id (f r) = gr_id r"
  shows "preserves (wfAt g) (updateGroup i f)"
proof (rule preservesI)
  fix d x d' assume a: "wfAt g d" and u: "updateGroup i f d = Inr (x, d')"
  have "map gr_id (groups d') = map gr_id (groups d)" by (rule updateGroup_ids[OF assms u])
  then have "gr_id ` set (groups d') = gr_id ` set (groups d)" by (metis list.set_map)
  moreover have "wfDb d'" using a by (intro wf_updateGroup[OF _ assms u]) (simp add: wfAt_def)
  ultimately show "wfAt g d'" using a by (simp add: wfAt_def)
qed

end
