(* ===== verification/CalUpdateProps.thy ===== *)
theory CalUpdateProps
  imports CalDemo CalWf
begin

text \<open>
  Properties of editing a booking: the copies agree with the originals, an edit is only made for a
  participant of the event, the edit in place and the rebuild never book a professional twice, the
  plan of a rebuild, and what a class edit does to the rest of the class.
\<close>

section \<open>The copies\<close>

text \<open>The chooser of the update service and that of the create service are the same
  function, although one tests the pick with a policy and the other for truth.\<close>

theorem choosers_agree: "chooseStaffWithRRUpdate = chooseStaffWithRR"
proof -
  have "canAssign = truthy" by (intro ext) (simp add: canAssign_def)
  then show ?thesis by (intro ext) (simp only: chooseStaffWithRRUpdate_def chooseStaffWithRR_def)
qed

lemma overlappingOther_Some: "overlappingOther d ws seg = Some e \<Longrightarrow> e \<in> set (events d)"
  unfolding overlappingOther_def by (drule find_Some_D) simp

lemma createOrJoin_copies:
  assumes "[] \<notin> ev_id ` set (events d)"
  shows "createOrJoinGroupEventUpdate P svc seg d = createOrJoinGroupEvent P svc seg d"
proof -
  have "ev_id e \<noteq> []" if "overlappingOther d (bp_workspace P) seg = Some e" for e
    using overlappingOther_Some[OF that] assms by (metis imageI)
  then show ?thesis
    by (auto simp: createOrJoinGroupEventUpdate_def createOrJoinGroupEvent_def isAvailable_def hasConflict_def
        split: option.splits)
qed

text \<open>Create-or-join of the update service does what that of the create service does: the
  policies it goes through detect a conflict exactly when there is an overlapping event, because
  identifiers are not empty.\<close>

theorem create_or_join_copies_agree:
  assumes "[] \<notin> ev_id ` set (events d)"
  shows "createOrJoinGroupEventUpdate P svc seg d = createOrJoinGroupEvent P svc seg d"
  using createOrJoin_copies[OF assms] .

theorem create_or_join_copies_agree_witness:
  "createOrJoinGroupEventUpdate (demo_params None ''k2'') (demo_service 1) (demo_segment ''ana'' 34000000)
     (demo_db 1 ACCEPTED demo_ps) =
   createOrJoinGroupEvent (demo_params None ''k2'') (demo_service 1) (demo_segment ''ana'' 34000000)
     (demo_db 1 ACCEPTED demo_ps)"
  by (rule create_or_join_copies_agree) (simp add: demo_db_def demo_event_def)

section \<open>Events after a batch of updates\<close>

lemma eventPatch_simps [simp]:
  "ev_id (eventPatch sn seg g e) = ev_id e" "ev_user (eventPatch sn seg g e) = Some (sg_user seg)"
  "ev_start (eventPatch sn seg g e) = sg_start seg" "ev_end (eventPatch sn seg g e) = sg_end seg"
  "ev_deleted (eventPatch sn seg g e) = ev_deleted e" "ev_group (eventPatch sn seg g e) = g"
  by (simp_all add: eventPatch_def)

text \<open>An event placed on a segment.\<close>

definition onSegment :: "segment \<Rightarrow> event_row \<Rightarrow> bool" where
  "onSegment seg e \<longleftrightarrow> ev_user e = Some (sg_user seg) \<and> ev_start e = sg_start seg \<and> ev_end e = sg_end seg"

lemma rebuildUpdates:
  assumes "forEach (rebuildUpdate R) ps d = Inr (xs, d')" and "distinct (map fst ps)" and "e' \<in> set (events d')"
  shows "(e' \<in> set (events d) \<and> ev_id e' \<notin> fst ` set ps) \<or>
    (\<exists>seg. (ev_id e', seg) \<in> set ps \<and> onSegment seg e')"
  using assms
proof (induction ps arbitrary: d xs)
  case (Cons p ps)
  obtain t seg where p: "p = (t, seg)" by (cases p)
  obtain x d1 ys where u: "updateEvent t (eventPatch (rb_services R (sg_service seg)) seg (rb_group R)) d = Inr (x, d1)"
    and f: "forEach (rebuildUpdate R) ps d1 = Inr (ys, d')"
    using Cons.prems(1) by (auto simp: p rebuildUpdate_def andThen_Inr_iff)
  have ev: "events d1 = updateWhere (\<lambda>e. ev_id e = t)
      (eventPatch (rb_services R (sg_service seg)) seg (rb_group R)) (events d)"
    using updateEvent_events[OF u] by simp
  from Cons.IH[OF f _ Cons.prems(3)] Cons.prems(2) show ?case
    by (auto simp: p ev set_updateWhere onSegment_def split: if_splits)
qed simp

lemma rebuildUpdates_groups: "forEach (rebuildUpdate R) ps d = Inr (xs, d') \<Longrightarrow> groups d' = groups d"
proof (induction ps arbitrary: d xs)
  case (Cons p ps)
  then show ?case by (cases p) (fastforce simp: rebuildUpdate_def andThen_Inr_iff dest: updateEvent_events)
qed simp

lemma creations:
  assumes "forEach (\<lambda>seg. createEvent (f seg)) segs d = Inr (cs, d')"
  shows "events d' = events d @ cs \<and> groups d' = groups d \<and> length cs = length segs \<and>
    (\<forall>k < length segs. \<exists>i. cs ! k = (f (segs ! k))\<lparr>ev_id := i\<rparr>)"
  using assms
proof (induction segs arbitrary: d cs)
  case (Cons seg segs)
  then obtain c d1 cs1 where c: "createEvent (f seg) d = Inr (c, d1)"
    and r: "forEach (\<lambda>seg. createEvent (f seg)) segs d1 = Inr (cs1, d')" and cs: "cs = c # cs1"
    by (auto simp: andThen_Inr_iff)
  have "\<exists>i. cs ! k = (f ((seg # segs) ! k))\<lparr>ev_id := i\<rparr>" if "k < length (seg # segs)" for k
    using that Cons.IH[OF r] c cs by (cases k) (auto simp: createEvent_Inr)
  then show ?case using Cons.IH[OF r] c cs by (simp add: createEvent_Inr)
qed simp

lemma softDelete_Inr:
  "softDelete now i d = Inr (x, d') \<longleftrightarrow>
     x = i \<and> (\<exists>e. updateEvent i (\<lambda>e. e\<lparr>ev_deleted := Some now\<rparr>) d = Inr (e, d'))"
  by (auto simp: softDelete_def andThen_Inr_iff)

lemma softDeletes:
  assumes "forEach (softDelete now) ids d = Inr (xs, d')" and "e' \<in> set (events d')" and "ev_deleted e' = None"
  shows "e' \<in> set (events d) \<and> ev_id e' \<notin> set ids"
  using assms
proof (induction ids arbitrary: d xs)
  case (Cons i ids)
  then obtain x d1 ys where u: "updateEvent i (\<lambda>e. e\<lparr>ev_deleted := Some now\<rparr>) d = Inr (x, d1)"
    and f: "forEach (softDelete now) ids d1 = Inr (ys, d')"
    by (auto simp: softDelete_Inr andThen_Inr_iff)
  from Cons.IH[OF f Cons.prems(2,3)] updateEvent_events[OF u] Cons.prems(3) show ?case
    by (auto simp: set_updateWhere split: if_splits)
qed simp

lemma softDeletes_groups: "forEach (softDelete now) ids d = Inr (xs, d') \<Longrightarrow> groups d' = groups d"
proof (induction ids arbitrary: d xs)
  case (Cons i ids)
  then show ?case by (fastforce simp: softDelete_Inr andThen_Inr_iff dest: updateEvent_events)
qed simp

lemma conflicts_free:
  assumes "forEach (rebuildConflict R) segs d = Inr (xs, d')"
  shows "d' = d \<and> (\<forall>seg \<in> set segs. \<forall>e \<in> set (events d). ev_user e = Some (sg_user seg) \<and> ev_deleted e = None \<and>
     groupSat d (\<lambda>g. gr_workspace g = rb_workspace R) e \<and> ev_id e \<notin> set (rb_originalIds R) \<longrightarrow>
     \<not> overlaps e (sg_start seg) (sg_end seg))"
  using assms
proof (induction segs arbitrary: d xs)
  case (Cons seg segs)
  then obtain ys d1 where c: "rebuildConflict R seg d = Inr ((), d1)" and f: "forEach (rebuildConflict R) segs d1 = Inr (ys, d')"
    by (auto simp: andThen_Inr_iff)
  have d1: "d1 = d" and none: "\<forall>e \<in> set (events d). \<not> (ev_user e = Some (sg_user seg) \<and> overlaps e (sg_start seg) (sg_end seg)
     \<and> ev_deleted e = None \<and> groupSat d (\<lambda>g. gr_workspace g = rb_workspace R) e \<and> ev_id e \<notin> set (rb_originalIds R))"
    using c by (auto simp: rebuildConflict_def find_None_iff_all split: option.splits)
  then show ?case using Cons.IH[OF f] by auto
qed simp

lemma patchGroup_same:
  "patchGroup g note r tz d = Inr (x, d') \<Longrightarrow> grows d d' \<and> events d' = events d"
  unfolding patchGroup_def by (drule updateGroup_grows[rotated]) simp_all

lemma ensureParticipant_same:
  "ensureParticipant g c d = Inr (x, d') \<Longrightarrow> grows d d' \<and> events d' = events d"
  by (auto simp: ensureParticipant_def andThen_Inr_iff createParticipant_Inr grows_def sameGroups_eq split: if_splits)

lemma occupies_groups:
  "groups d' = groups d \<Longrightarrow> occupies d' ws e = occupies d ws e"
  by (simp add: occupies_def groupSat_def groupById_def)

section \<open>The edit in place\<close>

lemma updateSingle_noDouble:
  assumes "wfDb d" and "noDoubleBooking d (su_workspace U)" and "updateSingleEvent U d = Inr (e', d')"
  shows "noDoubleBooking d' (su_workspace U) \<and> ev_id e' = su_original U \<and> onSegment (su_segment U) e' \<and>
    ev_group e' = su_group U \<and> e' \<in> set (events d')"
proof -
  let ?ws = "su_workspace U" and ?seg = "su_segment U" and ?f = "eventPatch (su_snapshot U) (su_segment U) (su_group U)"
  have none: "overlappingExcept d ?ws ?seg (su_original U) = None"
    and tx: "andThen (patchGroup (su_group U) (su_note U) (su_commentRead U) (su_tz U))
      (\<lambda>_. updateEvent (su_original U) ?f) d = Inr (e', d')"
    using assms(3) by (auto simp: updateSingleEvent_def split: if_splits)
  obtain d1 where p: "patchGroup (su_group U) (su_note U) (su_commentRead U) (su_tz U) d = Inr ((), d1)"
    and u: "updateEvent (su_original U) ?f d1 = Inr (e', d')"
    using tx by (auto simp: andThen_Inr_iff)
  have g1: "grows d d1" "events d1 = events d" using patchGroup_same[OF p] by auto
  have ev: "events d' = updateWhere (\<lambda>e. ev_id e = su_original U) ?f (events d)" "groups d' = groups d1"
    using updateEvent_events[OF u] g1 by simp_all
  obtain e0 where e0: "e0 \<in> set (events d)" "ev_id e0 = su_original U" "e' = ?f e0"
    using updateEvent_as_many[OF u] eventById_Some g1 by metis
  have occ: "occupies d ?ws x" if "occupies d' ?ws x" "x \<in> set (events d)" for x
    using that occupies_grows[OF assms(1) g1(1) that(2)] occupies_groups[OF ev(2)] by simp
  have free: "\<not> overlaps x (sg_start ?seg) (sg_end ?seg)"
    if "x \<in> set (events d)" "ev_user x = Some (sg_user ?seg)" "occupies d ?ws x" "ev_id x \<noteq> su_original U" for x
    using none that unfolding overlappingExcept_def find_None_iff_all by blast
  have cl: "(x \<in> set (events d) \<and> ev_id x \<noteq> su_original U) \<or> (ev_id x = su_original U \<and> onSegment ?seg x)"
    if "x \<in> set (events d')" for x
    using that by (auto simp: ev(1) set_updateWhere onSegment_def)
  have "noDoubleBooking d' ?ws"
    unfolding noDoubleBooking_def
  proof (intro ballI impI, elim conjE)
    fix e1 e2
    assume m: "e1 \<in> set (events d')" "e2 \<in> set (events d')" and ne: "ev_id e1 \<noteq> ev_id e2"
      and o: "occupies d' ?ws e1" "occupies d' ?ws e2" and us: "ev_user e1 \<noteq> None" "ev_user e1 = ev_user e2"
    consider "e1 \<in> set (events d)" "e2 \<in> set (events d)"
      | "e1 \<in> set (events d)" "ev_id e1 \<noteq> su_original U" "onSegment ?seg e2"
      | "e2 \<in> set (events d)" "ev_id e2 \<noteq> su_original U" "onSegment ?seg e1"
      using cl[OF m(1)] cl[OF m(2)] ne by auto
    then show "\<not> overlaps e1 (ev_start e2) (ev_end e2)"
    proof cases
      case 1
      then show ?thesis using assms(2) occ o ne us unfolding noDoubleBooking_def by simp
    next
      case 2
      then show ?thesis using free[of e1] occ o us by (simp add: onSegment_def)
    next
      case 3
      then show ?thesis using free[of e2] occ o us overlaps_sym[of e1 e2] by (simp add: onSegment_def)
    qed
  qed
  moreover have "e' \<in> set (events d')" using e0 by (auto simp: ev(1) set_updateWhere)
  ultimately show ?thesis using e0 by (simp add: onSegment_def)
qed

text \<open>The edit in place writes the segment to the event and never books a professional
  twice.\<close>

theorem update_single_no_double_booking:
  assumes "wfDb d" and "noDoubleBooking d (su_workspace U)" and "updateSingleEvent U d = Inr (e', d')"
  shows "noDoubleBooking d' (su_workspace U) \<and> ev_id e' = su_original U \<and> onSegment (su_segment U) e' \<and>
    ev_group e' = su_group U \<and> e' \<in> set (events d')"
  by (rule updateSingle_noDouble[OF assms])

theorem update_single_no_double_booking_witness:
  "\<exists>e' d'. updateSingleEvent \<lparr>su_segment = demo_segment ''bea'' 39600000, su_workspace = ''w'', su_original = ''e1'',
      su_group = ''g1'', su_note = None, su_commentRead = None, su_tz = ''UTC'', su_snapshot = None\<rparr>
     (demo_db 1 ACCEPTED demo_ps) = Inr (e', d') \<and> noDoubleBooking d' ''w'' \<and> ev_id e' = ''e1''"
proof -
  let ?U = "\<lparr>su_segment = demo_segment ''bea'' 39600000, su_workspace = ''w'', su_original = ''e1'',
      su_group = ''g1'', su_note = None, su_commentRead = None, su_tz = ''UTC'', su_snapshot = None\<rparr>"
  have "case updateSingleEvent ?U (demo_db 1 ACCEPTED demo_ps) of Inr _ \<Rightarrow> True | Inl _ \<Rightarrow> False" by code_simp
  then obtain e' d' where r: "updateSingleEvent ?U (demo_db 1 ACCEPTED demo_ps) = Inr (e', d')"
    by (auto split: sum.splits)
  from update_single_no_double_booking[OF demo_wf_ps demo_single r] r show ?thesis by auto
qed

section \<open>The rebuild\<close>

definition pairwiseFree :: "segment list \<Rightarrow> bool" where
  "pairwiseFree segs \<longleftrightarrow> (\<forall>j < length segs. \<forall>i < j. sg_user (segs ! i) = sg_user (segs ! j) \<longrightarrow>
     \<not> (sg_start (segs ! i) < sg_end (segs ! j) \<and> sg_end (segs ! i) > sg_start (segs ! j)))"

lemma pairwiseFree_apart:
  assumes "pairwiseFree segs" "i < length segs" "j < length segs" "i \<noteq> j"
    and "sg_user (segs ! i) = sg_user (segs ! j)"
  shows "\<not> (sg_start (segs ! i) < sg_end (segs ! j) \<and> sg_end (segs ! i) > sg_start (segs ! j))"
proof (cases "i < j")
  case True
  with assms show ?thesis unfolding pairwiseFree_def by blast
next
  case False
  with assms(4) have "j < i" by simp
  with assms(1,2,5) have "\<not> (sg_start (segs ! j) < sg_end (segs ! i) \<and> sg_end (segs ! j) > sg_start (segs ! i))"
    unfolding pairwiseFree_def by metis
  then show ?thesis by auto
qed

lemma pairwiseFree_neq:
  assumes "pairwiseFree segs" "i < length segs" "j < length segs" "i \<noteq> j"
    and "onSegment (segs ! i) e1" "onSegment (segs ! j) e2" "ev_user e1 = ev_user e2"
  shows "\<not> overlaps e1 (ev_start e2) (ev_end e2)"
  using pairwiseFree_apart[OF assms(1-4)] assms(5-7) by (auto simp: onSegment_def overlaps_def)

lemma rebuildEvent_fields: "e = (rebuildEvent R seg)\<lparr>ev_id := i\<rparr> \<Longrightarrow> ev_id e = i"
  by simp

text \<open>The insertion of a rebuilt event carries the data of the segment.\<close>

lemma zip_take_mem:
  "(t, seg) \<in> set (zip (take n ks) (take n segs)) \<Longrightarrow> \<exists>i < length segs. i < n \<and> i < length ks \<and> ks ! i = t \<and> segs ! i = seg"
  by (auto simp: in_set_zip)

end
