(* ===== verification/CalRebuildProps.thy ===== *)
theory CalRebuildProps
  imports CalUpdateProps
begin

text \<open>
  The rebuild of a booking. The greedy planner of the flow produces a plan in the sense of the
  backtracking search (\<open>planFrom\<close>), so consecutive segments never overlap; the transaction that
  writes the plan never books a professional twice; hence neither does an update as a whole, class
  edits apart.
\<close>

section \<open>Plans do not overlap\<close>

lemma planFrom_starts:
  "planFrom Z z ctx t as segs \<Longrightarrow> \<forall>a \<in> set as. 0 \<le> at_duration a \<Longrightarrow> s \<in> set segs \<Longrightarrow> t \<le> sg_start s"
proof (induction Z z ctx t as segs rule: planFrom.induct)
  case (3 Z z ctx t a as sg rest)
  then show ?case using addMinutes_ge[of "at_duration a" t] by fastforce
qed auto

lemma planFrom_ordered:
  "planFrom Z z ctx t as segs \<Longrightarrow> \<forall>a \<in> set as. 0 \<le> at_duration a \<Longrightarrow> j < length segs \<Longrightarrow> i < j \<Longrightarrow>
     sg_end (segs ! i) \<le> sg_start (segs ! j)"
proof (induction Z z ctx t as segs arbitrary: i j rule: planFrom.induct)
  case (3 Z z ctx t a as sg rest)
  obtain j' where j: "j = Suc j'" using 3(5) by (cases j) auto
  show ?case
  proof (cases i)
    case 0
    then show ?thesis using planFrom_starts[of Z z ctx _ as rest "rest ! j'"] 3 j by simp
  next
    case (Suc i')
    then show ?thesis using 3 j by simp
  qed
qed auto

lemma planFrom_pairwiseFree:
  assumes "planFrom Z z ctx t as segs" and "\<forall>a \<in> set as. 0 \<le> at_duration a"
  shows "pairwiseFree segs"
  unfolding pairwiseFree_def using planFrom_ordered[OF assms] by force

section \<open>The greedy planner\<close>

lemma tz_floor_mono:
  assumes "tz_ok Z" and "s \<le> t"
  shows "z_floor Z z s \<le> z_floor Z z t"
proof (rule ccontr)
  assume "\<not> z_floor Z z s \<le> z_floor Z z t"
  moreover obtain k where "z_floor Z z s - z_floor Z z t = minute_ms * k"
    using tz_floor_dvd[OF assms(1), where z = z and t = s and u = t] by (elim dvdE)
  ultimately have "z_floor Z z t + minute_ms \<le> z_floor Z z s" by (cases "k \<le> 0") auto
  then show False
    using tz_floor[OF assms(1), where z = z and t = s] tz_floor[OF assms(1), where z = z and t = t] assms(2)
    by linarith
qed

lemma fitsWindow_contains:
  "tz_ok Z \<Longrightarrow> fitsWindow ws s e \<Longrightarrow> list_ex (\<lambda>w. windowContains Z z w s e) ws"
  by (auto simp: fitsWindow_iff windowContains_def list_ex_iff intro: tz_floor_mono)

text \<open>What the planner plans over: the eligible professionals and their windows.\<close>

definition planCtx :: "booking_ctx \<Rightarrow> instant \<Rightarrow> assign_ctx" where
  "planCtx ctx t = \<lparr>ac_start = t, ac_eligible = map_of (bc_users ctx), ac_windows = bc_windows ctx\<rparr>"

lemma chosen_mem:
  "onRedis (chooserUpdateAt E ws svc s e us wt) w = (Inr chosen, w') \<Longrightarrow> canAssign chosen \<Longrightarrow>
     the chosen \<in> set us"
  by (cases chosen) (auto simp: onRedis_def chooserUpdateAt_def chooseStaffWithRRUpdate_def canAssign_def
      split: prod.splits if_splits bool.splits dest: pickWeightedSmoothRR_mem)

lemma planSegments_plan:
  assumes "tz_ok (e_tz E)" and "planSegments E F ctx cursor as w = (Inr (Inr segs), w')"
  shows "planFrom (e_tz E) (fi_tz F) (planCtx ctx t0) (z_floor (e_tz E) (fi_tz F) cursor) as segs"
  using assms(2)
proof (induction as arbitrary: cursor w segs w')
  case Nil
  then show ?case by simp
next
  case (Cons a as)
  let ?Z = "e_tz E" and ?z = "fi_tz F"
  let ?s = "z_floor ?Z ?z cursor" and ?e = "z_floor ?Z ?z (addMinutes cursor (at_duration a))"
  let ?el = "orElse (map_of (bc_users ctx) (at_service a)) []"
  have e: "?e = addMinutes ?s (at_duration a)" by (rule tz_floor_add[OF assms(1)])
  let ?sg = "\<lambda>chosen. \<lparr>sg_service = at_service a, sg_user = the chosen, sg_start = ?s, sg_end = ?e\<rparr>"
  obtain chosen w1 pl w2 where
    c: "onRedis (chooserUpdateAt E (fi_workspace F) (at_service a) ?s ?e (eligAvail ctx ?el ?s ?e) (bc_weights ctx)) w
          = (Inr chosen, w1)" and ca: "canAssign chosen"
    and p: "planSegments E F ctx ?e as w1 = (Inr pl, w2)"
    and k: "(case pl of Inl refusal \<Rightarrow> eret (Inl refusal) | Inr sgs \<Rightarrow> eret (Inr (?sg chosen # sgs))) w2
          = (Inr (Inr segs), w')"
    using Cons.prems by (simp add: Let_def ebind_Inr_iff split: option.splits if_splits) metis
  obtain rest where r: "planSegments E F ctx ?e as w1 = (Inr (Inr rest), w2)" and segs: "segs = ?sg chosen # rest"
    using p k by (cases pl) auto
  have m: "the chosen \<in> set ?el" "fitsWindow (orElse (bc_windows ctx (the chosen)) []) ?s ?e"
    using chosen_mem[OF c ca] by (auto simp: eligAvail_def)
  have "planFrom ?Z ?z (planCtx ctx t0) ?e as rest"
    using Cons.IH[OF r] by (simp add: tz_floor_idem[OF assms(1)])
  then show ?case
    using m fitsWindow_contains[OF assms(1) m(2)] by (simp add: segs e planCtx_def fitsUser_def)
qed

section \<open>The transaction\<close>

text \<open>The parts of a rebuild that ran to its end.\<close>

lemma rebuildBooking_parts:
  assumes "rebuildBooking now R d = Inr (res, d')"
  obtains d2 d3 d4 where
    "grows d d2" "events d2 = events d"
    "\<forall>seg \<in> set (rb_segments R). \<forall>e \<in> set (events d2). ev_user e = Some (sg_user seg) \<and> ev_deleted e = None \<and>
       groupSat d2 (\<lambda>g. gr_workspace g = rb_workspace R) e \<and> ev_id e \<notin> set (rb_originalIds R) \<longrightarrow>
       \<not> overlaps e (sg_start seg) (sg_end seg)"
    "forEach (rebuildUpdate R) (zip (take (min (length (rb_kept R)) (length (rb_segments R))) (rb_kept R))
       (take (min (length (rb_kept R)) (length (rb_segments R))) (rb_segments R))) d2 = Inr (rr_updated res, d3)"
    "forEach (\<lambda>seg. createEvent (rebuildEvent R seg))
       (drop (min (length (rb_kept R)) (length (rb_segments R))) (rb_segments R)) d3 = Inr (rr_created res, d4)"
    "forEach (softDelete now) (uniq (rb_explicitDeletes R @ drop (length (rb_segments R)) (rb_kept R))) d4
       = Inr (rr_deleted res, d')"
proof -
  obtain d1 d2 xs d2' where
    p: "patchGroup (rb_group R) (rb_note R) (rb_commentRead R) (rb_tz R) d = Inr ((), d1)"
    and e: "ensureParticipant (rb_group R) (rb_customer R) d1 = Inr ((), d2)"
    and c: "forEach (rebuildConflict R) (rb_segments R) d2 = Inr (xs, d2')"
    and rest: "\<exists>d3 d4. forEach (rebuildUpdate R) (zip (take (min (length (rb_kept R)) (length (rb_segments R))) (rb_kept R))
       (take (min (length (rb_kept R)) (length (rb_segments R))) (rb_segments R))) d2' = Inr (rr_updated res, d3) \<and>
      forEach (\<lambda>seg. createEvent (rebuildEvent R seg))
       (drop (min (length (rb_kept R)) (length (rb_segments R))) (rb_segments R)) d3 = Inr (rr_created res, d4) \<and>
      forEach (softDelete now) (uniq (rb_explicitDeletes R @ drop (length (rb_segments R)) (rb_kept R))) d4
       = Inr (rr_deleted res, d')"
    using assms by (fastforce simp: rebuildBooking_def andThen_Inr_iff Let_def)
  note g = patchGroup_same[OF p] ensureParticipant_same[OF e] and cf = conflicts_free[OF c]
  show ?thesis
    by (rule exE[OF rest], elim exE conjE, rule that[of d2])
      (use g cf in \<open>auto intro: grows_trans\<close>)
qed

text \<open>An event of the result that is not deleted: an old event outside the booking, or one placed on
  a segment.\<close>

lemma rebuild_live:
  assumes r: "rebuildBooking now R d = Inr (res, d')"
    and kept: "distinct (rb_kept R)" "set (rb_originalIds R) \<subseteq> set (rb_kept R) \<union> set (rb_explicitDeletes R)"
  defines "slots \<equiv> take (min (length (rb_kept R)) (length (rb_segments R))) (rb_kept R) @ map ev_id (rr_created res)"
  assumes e: "e \<in> set (events d')" "ev_deleted e = None"
  shows "(e \<in> set (events d) \<and> ev_id e \<notin> set (rb_originalIds R)) \<or>
    (\<exists>i < length (rb_segments R). ev_id e = slots ! i \<and> onSegment (rb_segments R ! i) e)"
proof -
  let ?n = "min (length (rb_kept R)) (length (rb_segments R))"
  obtain d2 d3 d4 where d2: "events d2 = events d"
    and u: "forEach (rebuildUpdate R) (zip (take ?n (rb_kept R)) (take ?n (rb_segments R))) d2 = Inr (rr_updated res, d3)"
    and c: "forEach (\<lambda>seg. createEvent (rebuildEvent R seg)) (drop ?n (rb_segments R)) d3 = Inr (rr_created res, d4)"
    and s: "forEach (softDelete now) (uniq (rb_explicitDeletes R @ drop (length (rb_segments R)) (rb_kept R))) d4
       = Inr (rr_deleted res, d')"
    by (rule rebuildBooking_parts[OF r]) blast
  have live: "e \<in> set (events d4)" "ev_id e \<notin> set (rb_explicitDeletes R)"
    "ev_id e \<notin> set (drop (length (rb_segments R)) (rb_kept R))"
    using softDeletes[OF s e] by auto
  note cr = creations[OF c]
  have dist: "distinct (map fst (zip (take ?n (rb_kept R)) (take ?n (rb_segments R))))"
    using kept(1) by simp
  consider (old) "e \<in> set (events d3)" | (new) "e \<in> set (rr_created res)" using live(1) cr by auto
  then show ?thesis
  proof cases
    case old
    from rebuildUpdates[OF u dist old] show ?thesis
    proof (elim disjE exE conjE)
      assume a: "e \<in> set (events d2)" "ev_id e \<notin> fst ` set (zip (take ?n (rb_kept R)) (take ?n (rb_segments R)))"
      have t: "ev_id e \<notin> set (take ?n (rb_kept R))" using a(2) by (simp add: image_set del: set_map set_zip)
      have "ev_id e \<notin> set (rb_kept R)"
      proof (cases "length (rb_kept R) \<le> length (rb_segments R)")
        case True
        then show ?thesis using t by (simp add: min_def)
      next
        case False
        then have "?n = length (rb_segments R)" by simp
        then have "ev_id e \<notin> set (take (length (rb_segments R)) (rb_kept R) @ drop (length (rb_segments R)) (rb_kept R))"
          using t live(3) unfolding set_append by (metis Un_iff)
        then show ?thesis by simp
      qed
      then have "ev_id e \<notin> set (rb_originalIds R)" using live(2) kept(2) by blast
      then show ?thesis using a(1) d2 by simp
    next
      fix seg assume "(ev_id e, seg) \<in> set (zip (take ?n (rb_kept R)) (take ?n (rb_segments R)))" "onSegment seg e"
      then obtain i where i: "i < length (rb_segments R)" "i < ?n" "rb_kept R ! i = ev_id e" "rb_segments R ! i = seg"
        and o: "onSegment seg e"
        using zip_take_mem[of "ev_id e" seg ?n "rb_kept R" "rb_segments R"] by blast
      then have "slots ! i = ev_id e" by (simp add: slots_def nth_append)
      with i o show ?thesis by metis
    qed
  next
    case new
    then obtain k where k: "k < length (drop ?n (rb_segments R))" "e = rr_created res ! k"
      using cr by (metis in_set_conv_nth)
    then obtain i where "e = (rebuildEvent R (drop ?n (rb_segments R) ! k))\<lparr>ev_id := i\<rparr>" using cr by metis
    then have "onSegment (rb_segments R ! (?n + k)) e" using k(1)
      by (simp add: onSegment_def rebuildEvent_def Let_def)
    moreover have "slots ! (?n + k) = ev_id e" using k cr by (simp add: slots_def nth_append)
    ultimately show ?thesis using k(1) by (intro disjI2 exI[of _ "?n + k"]) auto
  qed
qed

lemma rebuild_noDouble:
  assumes "wfDb d" and "noDoubleBooking d (rb_workspace R)" and r: "rebuildBooking now R d = Inr (res, d')"
    and kept: "distinct (rb_kept R)" "set (rb_originalIds R) \<subseteq> set (rb_kept R) \<union> set (rb_explicitDeletes R)"
    and free: "pairwiseFree (rb_segments R)"
  shows "noDoubleBooking d' (rb_workspace R)"
proof -
  let ?ws = "rb_workspace R" and ?segs = "rb_segments R"
  obtain d2 d3 d4 where g: "grows d d2" and d2: "events d2 = events d"
    and cf: "\<forall>seg \<in> set ?segs. \<forall>e \<in> set (events d2). ev_user e = Some (sg_user seg) \<and> ev_deleted e = None \<and>
       groupSat d2 (\<lambda>g. gr_workspace g = rb_workspace R) e \<and> ev_id e \<notin> set (rb_originalIds R) \<longrightarrow>
       \<not> overlaps e (sg_start seg) (sg_end seg)"
    and gr: "groups d' = groups d2"
    by (rule rebuildBooking_parts[OF r]) (metis rebuildUpdates_groups creations softDeletes_groups)
  have occ: "occupies d ?ws x" if "occupies d' ?ws x" "x \<in> set (events d)" for x
    using that occupies_grows[OF assms(1) g that(2)] occupies_groups[OF gr] by simp
  have old_free: "\<not> overlaps x (sg_start seg) (sg_end seg)"
    if "seg \<in> set ?segs" "x \<in> set (events d)" "ev_id x \<notin> set (rb_originalIds R)" "occupies d' ?ws x"
      "ev_user x = Some (sg_user seg)" for x seg
  proof -
    have "occupies d2 ?ws x" using that(4) occupies_groups[OF gr] by simp
    then have "groupSat d2 (\<lambda>g. gr_workspace g = ?ws) x" "ev_deleted x = None"
      by (auto simp: occupies_def groupSat_def split: option.splits)
    then show ?thesis using cf that d2 by simp
  qed
  have live: "ev_deleted x = None" if "occupies d' ?ws x" for x using that by (simp add: occupies_def)
  note cl = rebuild_live[OF r kept]
  show ?thesis
    unfolding noDoubleBooking_def
  proof (intro ballI impI, elim conjE)
    fix e1 e2
    assume m: "e1 \<in> set (events d')" "e2 \<in> set (events d')" and ne: "ev_id e1 \<noteq> ev_id e2"
      and o: "occupies d' ?ws e1" "occupies d' ?ws e2" and us: "ev_user e1 \<noteq> None" "ev_user e1 = ev_user e2"
    from cl[OF m(1) live[OF o(1)]] cl[OF m(2) live[OF o(2)]]
    show "\<not> overlaps e1 (ev_start e2) (ev_end e2)"
    proof (elim disjE exE conjE)
      assume "e1 \<in> set (events d)" "e2 \<in> set (events d)"
      then show ?thesis using assms(2) occ o ne us unfolding noDoubleBooking_def by simp
    next
      fix i assume "i < length ?segs" "onSegment (?segs ! i) e2" "e1 \<in> set (events d)"
        "ev_id e1 \<notin> set (rb_originalIds R)"
      then show ?thesis using old_free[of "?segs ! i" e1] o us by (simp add: onSegment_def)
    next
      fix i assume "i < length ?segs" "onSegment (?segs ! i) e1" "e2 \<in> set (events d)"
        "ev_id e2 \<notin> set (rb_originalIds R)"
      then show ?thesis using old_free[of "?segs ! i" e2] o us overlaps_sym[of e1 e2] by (simp add: onSegment_def)
    next
      fix i j assume "i < length ?segs" "onSegment (?segs ! i) e1" "j < length ?segs" "onSegment (?segs ! j) e2"
        "ev_id e1 = (take (min (length (rb_kept R)) (length ?segs)) (rb_kept R) @ map ev_id (rr_created res)) ! i"
        "ev_id e2 = (take (min (length (rb_kept R)) (length ?segs)) (rb_kept R) @ map ev_id (rr_created res)) ! j"
      then show ?thesis using pairwiseFree_neq[OF free, of i j e1 e2] ne us by auto
    qed
  qed
qed

section \<open>The flows\<close>

lemma planSegments_db [keeps_db]: "w_db (snd (planSegments E F ctx c as w)) = w_db w"
proof (induction as arbitrary: c w)
  case (Cons a as)
  then show ?case
    by (auto simp: keeps_db Let_def onRedis_def split: option.splits prod.splits sum.splits
        intro!: ebind_keeps[where k = w_db])
qed simp

text \<open>An answer that reports a change.\<close>

fun reports :: "app_error + update_answer \<Rightarrow> bool" where
  "reports (Inr (Refused c m)) = False"
| "reports (Inr _) = True"
| "reports (Inl e) = False"

text \<open>What each flow may write.\<close>

definition rebuildWrote :: "env \<Rightarrow> flow_input \<Rightarrow> db \<Rightarrow> db \<Rightarrow> bool" where
  "rebuildWrote E F d d' \<longleftrightarrow>
     (\<exists>ctx w1 w2 segs res. planSegments E F ctx (sc_start (fi_start F)) (fi_attendees F) w1 = (Inr (Inr segs), w2) \<and>
        rebuildBooking (e_now E) (rebuildInput F segs) d = Inr (res, d'))"

definition singleWrote :: "flow_input \<Rightarrow> db \<Rightarrow> db \<Rightarrow> bool" where
  "singleWrote F d d' \<longleftrightarrow> (\<exists>U e'. su_workspace U = fi_workspace F \<and> su_group U = fi_group F \<and> updateSingleEvent U d = Inr (e', d'))"

definition classWrote :: "env \<Rightarrow> flow_input \<Rightarrow> db \<Rightarrow> db \<Rightarrow> bool" where
  "classWrote E F d d' \<longleftrightarrow>
     (\<exists>snap seg x. moveSingleParticipantInClassEdit (e_now E) (ev_group (fi_original F)) (ev_id (fi_original F))
        (fi_customer F) (fi_group F) (\<lambda>g. createOrJoinGroupEventUpdate (classParams F g) snap seg) d = Inr (x, d'))"

text \<open>Pinned to the calls of the flows, so that a rule for \<open>m w\<close> applies to no other request.\<close>

lemmas flow_keeps =
  after_keeps[where m = "buildContext E inp" for E inp, OF buildContext_db]
  after_keeps[where m = "planSegments E F ctx c as" for E F ctx c as, OF planSegments_db]
  after_keeps[where m = "getUsersWhoCanPerformService E ws i cat" for E ws i cat, OF getUsersWhoCanPerformService_db]
  after_keeps[where m = "getServicesSnapshotById E ws ids a b" for E ws ids a b, OF getServicesSnapshotById_db]
  after_onRedis

text \<open>A class edit reports its own outcome.\<close>

definition isClassMove :: "app_error + update_answer \<Rightarrow> bool" where
  "isClassMove r \<longleftrightarrow> (\<exists>i n. r = Inr (Direct i n) \<and> ui_outcome i = ''move_single_participant_in_class'')"

lemma rebuildFlow_after:
  "after (runRebuildBookingFlow E F) w (\<lambda>r w'. (w_db w' = w_db w \<and> \<not> reports r) \<or> rebuildWrote E F (w_db w) (w_db w'))"
  unfolding runRebuildBookingFlow_def rebuildWrote_def
  by (auto intro!: after_rules flow_keeps)

lemma singleFlow_after:
  "after (runFastPathSingleFlow E F) w (\<lambda>r w'. (w_db w' = w_db w \<and> \<not> reports r) \<or> singleWrote F (w_db w) (w_db w'))"
  unfolding runFastPathSingleFlow_def singleWrote_def Let_def
  by (auto intro!: after_rules flow_keeps)

lemma classFlow_after:
  "after (runPureClassEditFlow E F) w (\<lambda>r w'. (w_db w' = w_db w \<and> \<not> reports r) \<or>
     (classWrote E F (w_db w) (w_db w') \<and> isClassMove r))"
  unfolding runPureClassEditFlow_def classWrote_def classEligible_def isClassMove_def Let_def
  by (auto intro!: after_rules flow_keeps)

text \<open>What an update checks before it writes, and the input it hands to the flow.\<close>

definition updateAuthorised :: "db \<Rightarrow> update_input \<Rightarrow> event_row \<Rightarrow> bool" where
  "updateAuthorised d inp original \<longleftrightarrow>
     eventById d (up_event inp) = Some original \<and> ev_deleted original = None \<and>
     map_option gr_workspace (groupById d (ev_group original)) = Some (in_workspace inp) \<and>
     (\<exists>p \<in> set (activeParticipants d (ev_group original)).
        pt_client p = Some (cu_id (in_customer inp)) \<or> pt_clientWs p = Some (cu_clientWs (in_customer inp)))"

definition flowInputOf :: "db \<Rightarrow> update_input \<Rightarrow> event_row \<Rightarrow> flow_input \<Rightarrow> bool" where
  "flowInputOf d inp original F \<longleftrightarrow>
     fi_company F = in_company inp \<and> fi_workspace F = in_workspace inp \<and> fi_attendees F = in_attendees inp \<and>
     fi_customer F = in_customer inp \<and> fi_original F = original \<and> fi_group F = ev_group original \<and>
     fi_originals F = (let live = liveEventsOf d (in_workspace inp) (ev_group original) in
       if live = [] then [original] else live) \<and>
     set (fi_explicit F) \<subseteq> ev_id ` set (fi_originals F)"

definition updateWrote :: "env \<Rightarrow> flow_input \<Rightarrow> db \<Rightarrow> app_error + update_answer \<Rightarrow> db \<Rightarrow> bool" where
  "updateWrote E F d r d' \<longleftrightarrow>
     rebuildWrote E F d d' \<or> singleWrote F d d' \<or> (classWrote E F d d' \<and> isClassMove r)"

lemma executeFlow_after:
  "after (executeFlow s \<lparr>runPureClassEdit = runPureClassEditFlow E F, runFastPathSingle = runFastPathSingleFlow E F,
       runRebuildBooking = runRebuildBookingFlow E F\<rparr>) w
     (\<lambda>r w'. (w_db w' = w_db w \<and> \<not> reports r) \<or> updateWrote E F (w_db w) r (w_db w'))"
  using rebuildFlow_after[of E F w] singleFlow_after[of E F w] classFlow_after[of E F w]
  by (cases s) (auto simp: after_def updateWrote_def)

lemma flowStep_after:
  assumes "w_db t = w_db w" and "updateAuthorised (w_db w) inp (fi_original F)"
    and "flowInputOf (w_db w) inp (fi_original F) F"
  shows "after (executeFlow s \<lparr>runPureClassEdit = runPureClassEditFlow E F,
          runFastPathSingle = runFastPathSingleFlow E F, runRebuildBooking = runRebuildBookingFlow E F\<rparr>) t
     (\<lambda>r w'. (w_db w' = w_db w \<and> \<not> reports r) \<or>
        (\<exists>F original. updateAuthorised (w_db w) inp original \<and> flowInputOf (w_db w) inp original F \<and>
           updateWrote E F (w_db w) r (w_db w')))"
  using assms by (auto intro!: after_mono[OF executeFlow_after])

lemma updateAuthorisedI:
  assumes "the (loadOriginal d (up_event inp)) = (original, grp, identities)"
    and "originalEventExists (map_option (\<lambda>(e, _). ev_deleted e) (loadOriginal d (up_event inp)))"
    and "belongsToWorkspace (map_option gr_workspace grp) (in_workspace inp)"
    and "isOwner identities (in_customer inp)"
  shows "updateAuthorised d inp original"
proof -
  obtain e where e: "eventById d (up_event inp) = Some e"
    using assms(2) by (cases "eventById d (up_event inp)") (auto simp: loadOriginal_def originalEventExists_def)
  have ids: "identities = map (\<lambda>p. \<lparr>pi_client = pt_client p, pi_clientWs = pt_clientWs p\<rparr>)
      (activeParticipants d (ev_group e))" and o: "original = e" "grp = groupById d (ev_group e)"
    using assms(1) e by (auto simp: loadOriginal_def)
  obtain p where "p \<in> set (activeParticipants d (ev_group e))"
    "pt_client p = Some (cu_id (in_customer inp)) \<or> pt_clientWs p = Some (cu_clientWs (in_customer inp))"
    using assms(4) unfolding isOwner_def list_ex_iff ids by auto
  then have "\<exists>p \<in> set (activeParticipants d (ev_group e)).
      pt_client p = Some (cu_id (in_customer inp)) \<or> pt_clientWs p = Some (cu_clientWs (in_customer inp))" ..
  then show ?thesis using assms(2,3) e
    by (auto simp: o updateAuthorised_def loadOriginal_def originalEventExists_def belongsToWorkspace_def)
qed

lemma updateBody_after:
  "after (updateEventFromWebBody E mode inp deps) w
     (\<lambda>r w'. (w_db w' = w_db w \<and> \<not> reports r) \<or>
        (\<exists>F original. updateAuthorised (w_db w) inp original \<and> flowInputOf (w_db w) inp original F \<and>
           updateWrote E F (w_db w) r (w_db w')))"
  unfolding updateEventFromWebBody_def Let_def
  by (auto simp del: executeFlow.simps split del: if_split split: past_reason.split
        intro!: after_rules flow_keeps flowStep_after )
     (auto simp: flowInputOf_def intro: updateAuthorisedI)

lemma updateWeb_after:
  "after (updateEventFromWeb E inp deps) w
     (\<lambda>r w'. (w_db w' = w_db w \<and> \<not> reports r) \<or>
        (\<exists>F original. updateAuthorised (w_db w) inp original \<and> flowInputOf (w_db w) inp original F \<and>
           updateWrote E F (w_db w) r (w_db w')))"
  unfolding updateEventFromWeb_def
  by (auto simp: updateWrote_def isClassMove_def split: sum.split
      intro!: after_rules after_mono[OF updateBody_after])

lemma updateWeb_cases:
  assumes "updateEventFromWeb E inp deps w = (r, w')"
  obtains (same) "w_db w' = w_db w" "\<not> reports r"
  | (wrote) F original where "updateAuthorised (w_db w) inp original" "flowInputOf (w_db w) inp original F"
      "updateWrote E F (w_db w) r (w_db w')"
  using afterD[OF updateWeb_after assms] by blast

lemma flowInput_events:
  assumes "wfDb d" and "updateAuthorised d inp original" and "flowInputOf d inp original F"
  shows "set (fi_originals F) \<subseteq> set (events d)" "distinct (map ev_id (fi_originals F))"
    "original \<in> set (events d)"
proof -
  show o: "original \<in> set (events d)"
    using assms(2) unfolding updateAuthorised_def eventById_def by (auto dest: find_Some_D)
  have d: "distinct (map ev_id (liveEventsOf d ws g))" for ws g
    using assms(1) by (auto simp: liveEventsOf_def wfDb_def distinct_map filter_set intro: inj_on_subset)
  show "distinct (map ev_id (fi_originals F))" using assms(3) d by (auto simp: flowInputOf_def Let_def)
  show "set (fi_originals F) \<subseteq> set (events d)"
    using assms(3) o by (auto simp: flowInputOf_def Let_def liveEventsOf_def split: if_splits)
qed

lemma update_noDouble:
  assumes "tz_ok (e_tz E)" and "wfDb (w_db w)" and "noDoubleBooking (w_db w) (in_workspace inp)"
    and "\<forall>a \<in> set (in_attendees inp). 0 \<le> at_duration a"
    and "updateEventFromWeb E inp deps w = (r, w')" and "\<not> isClassMove r"
  shows "noDoubleBooking (w_db w') (in_workspace inp)"
  using assms(5)
proof (cases rule: updateWeb_cases)
  case same
  then show ?thesis using assms(3) by simp
next
  case (wrote F original)
  note F = wrote(2)[unfolded flowInputOf_def] and ev = flowInput_events[OF assms(2) wrote(1,2)]
  consider (rebuild) "rebuildWrote E F (w_db w) (w_db w')" | (single) "singleWrote F (w_db w) (w_db w')"
    using wrote(3) assms(6) by (auto simp: updateWrote_def)
  then show ?thesis
  proof cases
    case rebuild
    then obtain ctx w1 w2 segs res where
      p: "planSegments E F ctx (sc_start (fi_start F)) (fi_attendees F) w1 = (Inr (Inr segs), w2)"
      and r: "rebuildBooking (e_now E) (rebuildInput F segs) (w_db w) = Inr (res, w_db w')"
      unfolding rebuildWrote_def by blast
    have "pairwiseFree segs"
      using planFrom_pairwiseFree[OF planSegments_plan[OF assms(1) p]] F assms(4) by simp
    then show ?thesis
      using rebuild_noDouble[OF assms(2) _ r] assms(3) F ev(2)
      by (auto simp: rebuildInput_def distinct_map intro: inj_on_subset)
  next
    case single
    then show ?thesis using updateSingle_noDouble assms(2,3) F unfolding singleWrote_def by metis
  qed
qed

section \<open>The rows stay consistent\<close>

lemma patchGroup_wf [preserves_rules]: "preserves (wfAt g) (patchGroup h n c z)"
  unfolding patchGroup_def by (rule updateGroup_wfAt) simp

lemma rebuildConflict_preserves [preserves_rules]: "preserves I (rebuildConflict R seg)"
  by (rule preservesI) (auto simp: rebuildConflict_def split: option.splits)

lemma updateSingle_wf: "preserves (wfAt (su_group U)) (updateSingleEvent U)"
  unfolding updateSingleEvent_def
  by (rule preservesI) (auto split: if_splits elim!: preservesD[rotated 2] intro!: preserves_rules)

lemma rebuildBooking_wf: "preserves (wfAt (rb_group R)) (rebuildBooking now R)"
  unfolding rebuildBooking_def ensureParticipant_def rebuildUpdate_def softDelete_def
  by (auto intro!: preserves_rules simp: rebuildEvent_def newParticipant_def Let_def)

lemma reservedAt: "wfAt g d \<Longrightarrow> bp_group P = Some g \<Longrightarrow> groupIdReserved P d"
  unfolding wfAt_def wfDb_def freshSupply_def groupIdReserved_def by (metis UnI1 UnI2 atLeast_iff imageE option.inject)

lemma createOrJoinUpdate_wf [preserves_rules]:
  assumes "bp_group P = Some g"
  shows "preserves (wfAt g) (createOrJoinGroupEventUpdate P svc seg)"
proof (rule preservesI)
  fix d c d' assume a: "wfAt g d" and r: "createOrJoinGroupEventUpdate P svc seg d = Inr (c, d')"
  consider (join) e where "exactEvent d (bp_workspace P) seg = Some e" "joinExisting P svc e d = Inr (c, d')"
    | (create) "createInGroup P svc seg d = Inr (c, d')"
    using r by (auto simp: createOrJoinGroupEventUpdate_def split: option.splits if_splits)
  then have "wfDb d' \<and> grows d d'"
  proof cases
    case join
    then show ?thesis using joinExisting_wf[OF _ _ join(2)] exactEvent_Some[OF join(1)] joinExisting_grows[OF join(2)] a
      by (simp add: wfAt_def)
  next
    case create
    then show ?thesis using createInGroup_wf[OF _ reservedAt[OF a assms] create] createInGroup_Inr[OF create] a
      by (simp add: wfAt_def)
  qed
  moreover obtain r where "groupById d g = Some r" using a groupById_None[of d g] by (cases "groupById d g") (auto simp: wfAt_def)
  ultimately show "wfAt g d'" unfolding wfAt_def grows_def sameGroups_def by (metis groupById_Some imageI)
qed

lemma classMove_wf:
  assumes "preserves (wfAt g) (coj g)"
  shows "preserves (wfAt g) (moveSingleParticipantInClassEdit now g e0 c g coj)"
  unfolding moveSingleParticipantInClassEdit_def
  by (auto intro!: preserves_rules assms)

lemma rebuildWrote_wf: "rebuildWrote E F d d' \<Longrightarrow> wfAt (fi_group F) d \<Longrightarrow> wfAt (fi_group F) d'"
  unfolding rebuildWrote_def using preservesD[OF rebuildBooking_wf[of "rebuildInput F segs" for segs]]
  by (fastforce simp: rebuildInput_def)

lemma singleWrote_wf: "singleWrote F d d' \<Longrightarrow> wfAt (fi_group F) d \<Longrightarrow> wfAt (fi_group F) d'"
  unfolding singleWrote_def using preservesD[OF updateSingle_wf] by metis

lemma classWrote_wf:
  assumes "classWrote E F d d'" and "ev_group (fi_original F) = fi_group F" and "wfAt (fi_group F) d"
  shows "wfAt (fi_group F) d'"
proof -
  have "preserves (wfAt (fi_group F)) (createOrJoinGroupEventUpdate (classParams F (fi_group F)) snap seg)" for snap seg
    by (auto simp: classParams_def intro: createOrJoinUpdate_wf)
  from preservesD[OF classMove_wf[of "fi_group F" "\<lambda>g. createOrJoinGroupEventUpdate (classParams F g) snap seg" for snap seg, OF this]]
  show ?thesis using assms unfolding classWrote_def by metis
qed

lemma update_wf:
  assumes "wfDb (w_db w)" and "updateEventFromWeb E inp deps w = (r, w')"
  shows "wfDb (w_db w')"
  using assms(2)
proof (cases rule: updateWeb_cases)
  case same
  then show ?thesis using assms(1) by simp
next
  case (wrote F original)
  note F = wrote(2)[unfolded flowInputOf_def]
  have "wfAt (fi_group F) (w_db w)"
    using flowInput_events(3)[OF assms(1) wrote(1,2)] assms(1) F by (simp add: wfAt_def wfDb_def)
  then have "wfAt (fi_group F) (w_db w')"
    using wrote(3) F rebuildWrote_wf singleWrote_wf classWrote_wf unfolding updateWrote_def by metis
  then show ?thesis by (simp add: wfAt_def)
qed

end
