(* ===== verification/CalEditProps.thy ===== *)
theory CalEditProps
  imports CalRebuildProps
begin

text \<open>
  Properties of an update as a whole: no professional is booked twice, class edits apart (and the
  database on which a class edit does), the rows stay consistent, only a participant changes a
  booking, and the plan of a rebuild is valid.
\<close>

lemma rebuildFlow_noMove: "after (runRebuildBookingFlow E F) w (\<lambda>r w'. \<not> isClassMove r)"
  unfolding runRebuildBookingFlow_def isClassMove_def
  by (auto intro!: after_rules flow_keeps)

lemma singleFlow_noMove: "after (runFastPathSingleFlow E F) w (\<lambda>r w'. \<not> isClassMove r)"
  unfolding runFastPathSingleFlow_def isClassMove_def Let_def
  by (auto intro!: after_rules flow_keeps)

lemma flowStep_move:
  assumes "resolveUpdateFlowStrategy updateFlowStrategies (flowContext S as os ex) = Inr s"
  shows "after (executeFlow s \<lparr>runPureClassEdit = m, runFastPathSingle = runFastPathSingleFlow E F,
      runRebuildBooking = runRebuildBookingFlow E F\<rparr>) w (\<lambda>r w'. isClassMove r \<longrightarrow> length as = Suc 0)"
  using assms rebuildFlow_noMove[of E F w] singleFlow_noMove[of E F w]
  by (auto simp: resolve_default flowContext_def Let_def after_def split: if_splits)

lemma updateBody_move:
  "after (updateEventFromWebBody E mode inp deps) w (\<lambda>r w'. isClassMove r \<longrightarrow> length (in_attendees inp) = Suc 0)"
  unfolding updateEventFromWebBody_def Let_def
  by (auto simp del: executeFlow.simps split del: if_split split: past_reason.split
        intro!: after_rules flow_keeps flowStep_move)
     (auto simp: isClassMove_def)

lemma updateWeb_move:
  "after (updateEventFromWeb E inp deps) w (\<lambda>r w'. isClassMove r \<longrightarrow> length (in_attendees inp) = Suc 0)"
  unfolding updateEventFromWeb_def
  by (auto simp: isClassMove_def split: sum.split intro!: after_rules after_mono[OF updateBody_move])


definition demo_update :: "string \<Rightarrow> ident \<Rightarrow> attendee list \<Rightarrow> update_input" where
  "demo_update start k as = add_input.extend ((demo_input start k)\<lparr>in_attendees := as\<rparr>)
     \<lparr>up_event = ''e1'', up_deleted = []\<rparr>"

text \<open>C3: an update never books a professional twice, whichever flow it takes and however it ends,
  when no event was before it and it does not answer with the move of a participant out of a class:
  the edit in place and the rebuild check the slots they write, and the segments of a plan do not
  overlap.\<close>

theorem update_no_double_booking:
  assumes "tz_ok (e_tz E)" and "wfDb (w_db w)" and "noDoubleBooking (w_db w) (in_workspace inp)"
    and "\<forall>a \<in> set (in_attendees inp). 0 \<le> at_duration a"
    and "updateEventFromWeb E inp deps w = (r, w')" and "\<not> isClassMove r"
  shows "noDoubleBooking (w_db w') (in_workspace inp)"
  by (rule update_noDouble[OF assms])

theorem update_no_double_booking_witness:
  "noDoubleBooking (w_db (snd (updateEventFromWeb (demo_env 1)
     (demo_update ''1970-01-01T12:00:00'' ''k1'' [demo_attendee, demo_attendee]) demo_deps
     (demo_world (demo_db 1 ACCEPTED demo_ps))))) ''w''"
proof -
  let ?inp = "demo_update ''1970-01-01T12:00:00'' ''k1'' [demo_attendee, demo_attendee]"
    and ?w = "demo_world (demo_db 1 ACCEPTED demo_ps)"
  have ws: "in_workspace ?inp = ''w''" "in_attendees ?inp = [demo_attendee, demo_attendee]"
    by (simp_all add: demo_update_def demo_input_def add_input.defs)
  obtain r w' where u: "updateEventFromWeb (demo_env 1) ?inp demo_deps ?w = (r, w')" by fastforce
  have "\<not> isClassMove r" using afterD[OF updateWeb_move u] by (auto simp: ws)
  moreover have "tz_ok (e_tz (demo_env 1))" by (simp add: demo_env_def utc_tz_ok)
  moreover have "wfDb (w_db ?w)" "noDoubleBooking (w_db ?w) (in_workspace ?inp)"
    by (simp_all add: demo_world_def demo_wf_ps demo_single)
  moreover have "\<forall>a \<in> set (in_attendees ?inp). 0 \<le> at_duration a" unfolding ws by (simp add: demo_attendee_def)
  ultimately show ?thesis using update_no_double_booking[OF _ _ _ _ u] by (simp add: u ws)
qed

text \<open>C6: an update that changes the database or reports a change was made for an event that exists
  and is not deleted, whose group is of the workspace of the request, and of which the client is a
  participant that is not deleted.\<close>

theorem update_only_for_participant:
  assumes "updateEventFromWeb E inp deps w = (r, w')"
  shows "(w_db w' = w_db w \<and> \<not> reports r) \<or>
    (\<exists>original. eventById (w_db w) (up_event inp) = Some original \<and> ev_deleted original = None \<and>
       map_option gr_workspace (groupById (w_db w) (ev_group original)) = Some (in_workspace inp) \<and>
       (\<exists>p \<in> set (activeParticipants (w_db w) (ev_group original)).
          pt_client p = Some (cu_id (in_customer inp)) \<or> pt_clientWs p = Some (cu_clientWs (in_customer inp))))"
  using updateWeb_cases[OF assms] unfolding updateAuthorised_def by metis

theorem update_only_for_participant_witness:
  "w_db (snd (updateEventFromWeb (demo_env 1) (demo_update ''1970-01-01T12:00:00'' ''k9'' [demo_attendee])
     demo_deps (demo_world (demo_db 1 ACCEPTED demo_ps)))) = demo_db 1 ACCEPTED demo_ps"
proof -
  let ?inp = "demo_update ''1970-01-01T12:00:00'' ''k9'' [demo_attendee]"
    and ?w = "demo_world (demo_db 1 ACCEPTED demo_ps)"
  have "eventById (w_db ?w) (up_event ?inp) = Some (demo_event 1)"
    by (simp add: demo_world_def demo_db_def demo_event_def demo_update_def eventById_def add_input.defs)
  moreover have "activeParticipants (w_db ?w) (ev_group (demo_event 1)) = demo_ps"
    by (simp add: demo_world_def demo_db_def demo_event_def activeParticipants_def demo_ps_def demo_participant_def)
  moreover have "in_customer ?inp = demo_customer ''k9''"
    by (simp add: demo_update_def demo_input_def add_input.defs)
  ultimately show ?thesis
    using update_only_for_participant[OF surjective_pairing, of "demo_env 1" ?inp demo_deps ?w]
    by (simp add: demo_ps_def demo_participant_def demo_customer_def) (simp add: demo_world_def)
qed

text \<open>C18: an update keeps the rows consistent: identifiers stay unique, every event and participant
  keeps a group, and the supply of identifiers stays fresh.\<close>

theorem update_keeps_wf:
  assumes "wfDb (w_db w)" and "updateEventFromWeb E inp deps w = (r, w')"
  shows "wfDb (w_db w')"
  by (rule update_wf[OF assms])

theorem update_keeps_wf_witness:
  "wfDb (w_db (snd (updateEventFromWeb (demo_env 2)
     (demo_update ''1970-01-01T12:00:00'' ''k1'' [demo_attendee]) demo_deps
     (demo_world (demo_db 2 ACCEPTED demo_ps)))))"
  using update_keeps_wf[OF _ surjective_pairing, of "demo_world (demo_db 2 ACCEPTED demo_ps)"] demo_wf_ps
  by (simp add: demo_world_def)

definition demo_flow :: "flow_input" where
  "demo_flow = \<lparr>fi_company = ''co'', fi_workspace = ''w'', fi_tzClient = ''UTC'', fi_tz = ''UTC'',
     fi_start = \<lparr>sc_start = 32400000, sc_date = [], sc_isToday = False, sc_rounded = 0\<rparr>, fi_attendees = [], fi_event = ''e1'', fi_original = demo_event 1,
     fi_originals = [], fi_explicit = [], fi_group = ''g1'', fi_services = (\<lambda>_. Some (demo_service 1)),
     fi_weights = (\<lambda>_. None), fi_max = 5, fi_customer = demo_customer ''k1'', fi_note = None,
     fi_commentRead = None, fi_source = None\<rparr>"

definition demo_ctx :: booking_ctx where
  "demo_ctx = \<lparr>bc_users = [(''yoga'', [''ana''])], bc_allUsers = [''ana''],
     bc_windows = (\<lambda>_. Some [win 28800000 64800000]), bc_services = (\<lambda>_. None), bc_weights = (\<lambda>_. None)\<rparr>"

definition demo_plan :: "app_error + (string \<times> string + segment list)" where
  "demo_plan = fst (planSegments (demo_env 1) demo_flow demo_ctx 32400000 [demo_attendee, demo_attendee]
     (demo_world (demo_db 1 ACCEPTED demo_ps)))"

lemma demo_plan_planned: "demo_plan = Inr (Inr [demo_segment ''ana'' 32400000, demo_segment ''ana'' 36000000])"
  by code_simp

text \<open>The segments that the rebuild plans are a plan in the sense of the search of the booking: one
  for each attendee and in their order, each from the end of the one before it, given by a
  professional who is eligible for the service and has a window around it.\<close>

theorem rebuild_plan_valid:
  assumes "tz_ok (e_tz E)" and "planSegments E F ctx cursor as w = (Inr (Inr segs), w')"
  shows "planFrom (e_tz E) (fi_tz F) (planCtx ctx t0) (z_floor (e_tz E) (fi_tz F) cursor) as segs"
  by (rule planSegments_plan[OF assms])

theorem rebuild_plan_valid_witness:
  "planFrom utc_tz ''UTC'' (planCtx demo_ctx 0) 32400000 [demo_attendee, demo_attendee]
     [demo_segment ''ana'' 32400000, demo_segment ''ana'' 36000000]"
proof -
  obtain w' where "planSegments (demo_env 1) demo_flow demo_ctx 32400000 [demo_attendee, demo_attendee]
     (demo_world (demo_db 1 ACCEPTED demo_ps)) =
     (Inr (Inr [demo_segment ''ana'' 32400000, demo_segment ''ana'' 36000000]), w')"
    using demo_plan_planned by (metis demo_plan_def prod.collapse)
  from rebuild_plan_valid[OF _ this] show ?thesis
    by (simp add: demo_env_def utc_tz_ok) (simp add: demo_flow_def utc_tz_def)
qed

definition clash_db :: db where
  "clash_db = \<lparr>events = [demo_event 2,
       (demo_event 2)\<lparr>ev_id := ''e2'', ev_group := ''g2'', ev_start := 43200000, ev_end := 46800000\<rparr>,
       (demo_event 1)\<lparr>ev_id := ''e3'', ev_group := ''g3'', ev_service := Some ''pilates'',
          ev_start := 45000000, ev_end := 48600000\<rparr>],
     groups = [demo_group ACCEPTED, (demo_group CANCELLED)\<lparr>gr_id := ''g2''\<rparr>, (demo_group ACCEPTED)\<lparr>gr_id := ''g3''\<rparr>],
     participants = demo_ps, rules = [], idSupply = demo_supply, nextId = 0\<rparr>"

definition clash_move :: "(event_row \<times> booking_action \<times> ident list) tx" where
  "clash_move = moveSingleParticipantInClassEdit 0 ''g1'' ''e1'' (demo_customer ''k1'') ''g1''
     (\<lambda>g. createOrJoinGroupEventUpdate (demo_params (Some g) ''k1'') (demo_service 2) (demo_segment ''ana'' 43200000))"


end
