(* ===== verification/CalStatus.thy ===== *)
theory CalStatus
  imports CalBookingTx
begin

text \<open>
  The status of a booking on the platform side: the transitions that are allowed
  (\<open>change-event-status.use-case.ts\<close>), the transaction that takes one, and the operations of
  \<open>event-platform.command.service.ts\<close> on the status of a booking, on one participant, and on the
  comment of the client. Notifications are sent to other services: the requests to send one are
  recorded in the state, and whether sending fails is a parameter.
\<close>

section \<open>The state of a platform request\<close>

record platform =
  pl_db :: db
  pl_sent :: "(ident \<times> string) list"  \<comment> \<open>group and action of each notification\<close>
  pl_purged :: "ident list"  \<comment> \<open>groups whose pending notifications are dropped\<close>

type_synonym 'a platform_req = "(platform, 'a) eff"

definition onDb :: "'a tx \<Rightarrow> 'a platform_req" where
  "onDb t = (\<lambda>s. case t (pl_db s) of
     Inl e \<Rightarrow> (Inl e, s)
   | Inr (x, d) \<Rightarrow> (Inr x, s\<lparr>pl_db := d\<rparr>))"

text \<open>\<open>createNotificationPlatform\<close>; \<open>fails\<close> says when publishing throws.\<close>

definition notifyPlatform :: "(ident \<Rightarrow> string \<Rightarrow> app_error option) \<Rightarrow> ident \<Rightarrow> string \<Rightarrow> unit platform_req" where
  "notifyPlatform fails g action =
     (case fails g action of
        Some err \<Rightarrow> ethrow err
      | None \<Rightarrow> emod (\<lambda>s. s\<lparr>pl_sent := pl_sent s @ [(g, action)]\<rparr>))"

definition inService :: "string \<Rightarrow> 'a platform_req \<Rightarrow> 'a platform_req" where
  "inService name m = ecatch m (\<lambda>e. ethrow (Wrapped name e))"

text \<open>\<open>withCatalogMessage\<close>\<close>

definition isSpace :: "char \<Rightarrow> bool" where
  "isSpace c \<longleftrightarrow> c \<in> {CHR '' '', CHR 0x09, CHR 0x0A, CHR 0x0B, CHR 0x0C, CHR 0x0D, CHR 0xA0}"

definition trim :: "string \<Rightarrow> string" where
  "trim s = rev (dropWhile isSpace (rev (dropWhile isSpace s)))"

definition withCatalogMessage :: "string \<Rightarrow> string \<Rightarrow> string" where
  "withCatalogMessage catalogMessage detail =
     (let base = trim catalogMessage; extra = trim detail in
      if base = [] then extra else if extra = [] then base else base @ '' '' @ extra)"

definition notFound :: "string \<Rightarrow> app_error" where
  "notFound detail = PlainError (withCatalogMessage ''Resource not found.'' detail)"

definition invalidPayload :: "string \<Rightarrow> app_error" where
  "invalidPayload detail = PlainError (withCatalogMessage ''Invalid request payload.'' detail)"

definition requiredField :: "string \<Rightarrow> app_error" where
  "requiredField detail = PlainError (withCatalogMessage ''Required field is missing.'' detail)"

section \<open>Transitions\<close>

fun allowedStatus :: "event_status \<Rightarrow> event_status list" where
  "allowedStatus PENDING = [ACCEPTED, CANCELLED, CANCELLED_BY_CLIENT]"
| "allowedStatus ACCEPTED = [CONFIRMED, CANCELLED, CANCELLED_BY_CLIENT]"
| "allowedStatus CONFIRMED = [COMPLETED, CANCELLED, CANCELLED_BY_CLIENT]"
| "allowedStatus COMPLETED = [PAID, CANCELLED]"
| "allowedStatus PAID = []"
| "allowedStatus NO_SHOW = []"
| "allowedStatus CANCELLED = []"
| "allowedStatus CANCELLED_BY_CLIENT = [CANCELLED_BY_CLIENT_REMOVED]"
| "allowedStatus CANCELLED_BY_CLIENT_REMOVED = []"

fun participantAllowed :: "event_status \<Rightarrow> event_status list" where
  "participantAllowed PENDING = [ACCEPTED, CANCELLED_BY_CLIENT]"
| "participantAllowed _ = []"

definition shouldNotifyOnTransition :: "event_status \<Rightarrow> event_status \<Rightarrow> bool" where
  "shouldNotifyOnTransition oldStatus newStatus \<longleftrightarrow>
     oldStatus = PENDING \<and>
     newStatus \<in> {ACCEPTED, CONFIRMED, CANCELLED, CANCELLED_BY_CLIENT, CANCELLED_BY_CLIENT_REMOVED}"

text \<open>\<open>_withGroupFields\<close>: an event with the columns of its group, all participants included.\<close>

record flat_event =
  fe_event :: event_row
  fe_group :: "(group_row \<times> participant_row list) option"

definition withGroupFields :: "db \<Rightarrow> event_row \<Rightarrow> flat_event" where
  "withGroupFields d e =
     \<lparr>fe_event = e,
      fe_group = map_option (\<lambda>g. (g, filter (\<lambda>p. pt_group p = gr_id g) (participants d))) (groupById d (ev_group e))\<rparr>"

section \<open>The transaction\<close>

definition participantStatusAfter :: "event_status \<Rightarrow> ident \<Rightarrow> unit tx" where
  "participantStatusAfter status g =
     andThen
       (if status = CANCELLED \<or> status = CANCELLED_BY_CLIENT_REMOVED
        then updateManyParticipants
          (\<lambda>p. pt_group p = g \<and> pt_status p \<notin> {CANCELLED, CANCELLED_BY_CLIENT, CANCELLED_BY_CLIENT_REMOVED})
          (\<lambda>p. p\<lparr>pt_status := status\<rparr>)
        else ret ()) (\<lambda>_.
      if status = CONFIRMED \<or> status = ACCEPTED
      then updateManyParticipants (\<lambda>p. pt_group p = g \<and> pt_status p = PENDING) (\<lambda>p. p\<lparr>pt_status := ACCEPTED\<rparr>)
      else ret ())"

definition changeStatusTx ::
  "ident \<Rightarrow> event_status \<Rightarrow> bool \<Rightarrow> (flat_event list \<times> flat_event list) option tx" where
  "changeStatusTx i status allGroup =
     andThen (readState (\<lambda>d. map_option (\<lambda>e. (ev_group e, map_option gr_status (groupById d (ev_group e)))) (eventById d i)))
       (\<lambda>evt.
      case evt of
        None \<Rightarrow> throw (notFound ''Evento no encontrado'')
      | Some (g, current) \<Rightarrow>
          if current = None \<or> g = []
          then throw (invalidPayload ''Evento sin grupo o estado invalido'')
          else if status \<notin> set (allowedStatus (the current)) then ret None
          else
            andThen (readState (\<lambda>d. map ev_id (filter (\<lambda>e. ev_group e = g \<and> ev_deleted e = None) (events d)))) (\<lambda>groupEventIds.
            let targetIds = (if allGroup then groupEventIds else [i]);
                notifyIds = (if shouldNotifyOnTransition (the current) status then targetIds else []) in
            andThen (updateGroup g (\<lambda>r. r\<lparr>gr_status := status\<rparr>)) (\<lambda>_.
            andThen (participantStatusAfter status g) (\<lambda>_.
            andThen (readState (\<lambda>d. map (withGroupFields d) (filter (\<lambda>e. ev_id e \<in> set targetIds) (events d)))) (\<lambda>flattened.
            ret (Some (flattened, filter (\<lambda>f. ev_id (fe_event f) \<in> set notifyIds) flattened)))))))"

section \<open>The service\<close>

definition changeEventStatus ::
  "(ident \<Rightarrow> string \<Rightarrow> app_error option) \<Rightarrow> ident \<Rightarrow> event_status \<Rightarrow> bool \<Rightarrow> flat_event list option platform_req" where
  "changeEventStatus fails i status allGroup =
     inService ''EventPlatformCommandService.changeEventStatus''
       (ebind (onDb (changeStatusTx i status allGroup)) (\<lambda>result.
        case result of
          None \<Rightarrow> eret None
        | Some (evs, notifyEvents) \<Rightarrow>
            (let action =
               (if status = ACCEPTED \<or> status = CONFIRMED then Some ''acceptRequest''
                else if status \<in> {CANCELLED, CANCELLED_BY_CLIENT, CANCELLED_BY_CLIENT_REMOVED} then Some ''rejectRequest''
                else None) in
             ebind
               (case (action, notifyEvents) of
                  (Some a, f # _) \<Rightarrow>
                    if ev_group (fe_event f) \<noteq> [] then notifyPlatform fails (ev_group (fe_event f)) a else eret ()
                | _ \<Rightarrow> eret ())
               (\<lambda>_. eret (Some evs)))))"

datatype participant_action = AcceptAction | CancelAction

text \<open>\<open>changeEventStatusByParticipant\<close>: an undefined condition of the search does not restrict it.\<close>

definition participantOf :: "db \<Rightarrow> ident \<Rightarrow> ident option \<Rightarrow> ident option \<Rightarrow> participant_row option" where
  "participantOf d g idClient idClientWorkspace =
     List.find (\<lambda>p. pt_group p = g \<and> (idClient = None \<or> pt_client p = idClient)
        \<and> (idClientWorkspace = None \<or> pt_clientWs p = idClientWorkspace)) (participants d)"

definition changeByParticipantTx ::
  "ident \<Rightarrow> participant_action \<Rightarrow> ident option \<Rightarrow> ident option \<Rightarrow> participant_row option tx" where
  "changeByParticipantTx i action idClient idClientWorkspace =
     andThen (readState (\<lambda>d. eventById d i)) (\<lambda>ev.
     case ev of
       None \<Rightarrow> throw (invalidPayload ''Evento sin grupo para actualizar participante'')
     | Some e \<Rightarrow>
         if ev_group e = [] then throw (invalidPayload ''Evento sin grupo para actualizar participante'')
         else
           andThen (readState (\<lambda>d. participantOf d (ev_group e) idClient idClientWorkspace)) (\<lambda>participant.
           let targetStatus = (if action = AcceptAction then ACCEPTED else CANCELLED_BY_CLIENT) in
           case participant of
             None \<Rightarrow> throw (notFound ''No se encontro ese participante para este evento'')
           | Some p \<Rightarrow>
               if targetStatus \<notin> set (participantAllowed (pt_status p)) then ret None
               else andThen (updateManyParticipants (\<lambda>x. pt_id x = pt_id p) (\<lambda>x. x\<lparr>pt_status := targetStatus\<rparr>))
                      (\<lambda>_. ret (Some (p\<lparr>pt_status := targetStatus\<rparr>)))))"

definition changeEventStatusByParticipant ::
  "ident \<Rightarrow> participant_action \<Rightarrow> ident option \<Rightarrow> ident option \<Rightarrow> participant_row option platform_req" where
  "changeEventStatusByParticipant i action idClient idClientWorkspace =
     inService ''EventPlatformCommandService.changeEventStatusByParticipant''
       (onDb (changeByParticipantTx i action idClient idClientWorkspace))"

definition markCommentAsRead :: "ident \<Rightarrow> ident \<Rightarrow> flat_event platform_req" where
  "markCommentAsRead i workspace =
     inService ''EventPlatformCommandService.markCommentAsRead''
       (if i = [] then ethrow (requiredField ''El id del evento es requerido'')
        else
          ebind (onDb (readState (\<lambda>d. map_option (\<lambda>e. (e, groupById d (ev_group e))) (eventById d i)))) (\<lambda>event.
          case event of
            Some (e, Some g) \<Rightarrow>
              if gr_workspace g \<noteq> workspace
              then ethrow (notFound ''Evento no encontrado en este workspace'')
              else ebind (onDb (updateGroup (ev_group e) (\<lambda>r. r\<lparr>gr_commentRead := True\<rparr>))) (\<lambda>_.
                   eret \<lparr>fe_event = e, fe_group = Some (g\<lparr>gr_commentRead := True\<rparr>, [])\<rparr>)
          | _ \<Rightarrow> ethrow (notFound ''Evento no encontrado en este workspace'')))"

end
