(* ===== verification/CalStatusProps.thy ===== *)
theory CalStatusProps
  imports CalStatus CalDemo
begin

text \<open>
  Properties of the status of a booking: what a transition does to the tables, that a booking takes
  at most four of them and never leaves a cancelled status, that none of them can make a professional
  booked twice, and that a pending booking can be brought to its end.
\<close>

section \<open>One transition\<close>

lemma updateMany_apply [simp]:
  "updateManyParticipants P f d = Inr ((), d\<lparr>participants := updateWhere P f (participants d)\<rparr>)"
  by (simp add: updateManyParticipants_def)

text \<open>The status that a participant has after its booking took a status.\<close>

definition participantAfter :: "event_status \<Rightarrow> ident \<Rightarrow> participant_row \<Rightarrow> participant_row" where
  "participantAfter s g p =
     (if pt_group p \<noteq> g then p
      else if s \<in> {CANCELLED, CANCELLED_BY_CLIENT_REMOVED} \<and>
        pt_status p \<notin> {CANCELLED, CANCELLED_BY_CLIENT, CANCELLED_BY_CLIENT_REMOVED} then p\<lparr>pt_status := s\<rparr>
      else if s \<in> {CONFIRMED, ACCEPTED} \<and> pt_status p = PENDING then p\<lparr>pt_status := ACCEPTED\<rparr>
      else p)"

lemma participantAfter_same:
  "s \<notin> {CANCELLED, CANCELLED_BY_CLIENT_REMOVED, CONFIRMED, ACCEPTED} \<Longrightarrow> map (participantAfter s g) ps = ps"
  by (rule map_idI) (simp add: participantAfter_def)

lemma participantStatusAfter_apply:
  "participantStatusAfter s g d = Inr ((), d\<lparr>participants := map (participantAfter s g) (participants d)\<rparr>)"
  by (cases "s \<in> {CANCELLED, CANCELLED_BY_CLIENT_REMOVED, CONFIRMED, ACCEPTED}")
    (auto simp: participantStatusAfter_def andThen_apply updateWhere_def participantAfter_def participantAfter_same)

definition statusOf :: "db \<Rightarrow> ident \<Rightarrow> event_status option" where
  "statusOf d g = map_option gr_status (groupById d g)"

lemma changeStatusTx_cases:
  "changeStatusTx i s b d =
     (case eventById d i of
        None \<Rightarrow> Inl (notFound ''Evento no encontrado'')
      | Some e \<Rightarrow>
          (case statusOf d (ev_group e) of
             None \<Rightarrow> Inl (invalidPayload ''Evento sin grupo o estado invalido'')
           | Some current \<Rightarrow>
               if ev_group e = [] then Inl (invalidPayload ''Evento sin grupo o estado invalido'')
               else if s \<notin> set (allowedStatus current) then Inr (None, d)
               else
                 (let d' = d\<lparr>groups := updateWhere (\<lambda>x. gr_id x = ev_group e) (\<lambda>r. r\<lparr>gr_status := s\<rparr>) (groups d),
                             participants := map (participantAfter s (ev_group e)) (participants d)\<rparr>;
                      targets = (if b then map ev_id (filter (\<lambda>x. ev_group x = ev_group e \<and> ev_deleted x = None) (events d))
                                 else [i]);
                      flat = map (withGroupFields d') (filter (\<lambda>x. ev_id x \<in> set targets) (events d))
                  in Inr (Some (flat, filter (\<lambda>f. ev_id (fe_event f) \<in>
                            set (if shouldNotifyOnTransition current s then targets else [])) flat), d'))))"
  by (auto simp: changeStatusTx_def andThen_apply statusOf_def updateGroup_def participantStatusAfter_apply Let_def
      split: option.splits)


lemma changeStatus_Some:
  assumes "changeStatusTx i s b d = Inr (Some r, d')"
  obtains e current where "eventById d i = Some e" "statusOf d (ev_group e) = Some current" "s \<in> set (allowedStatus current)"
    "d' = d\<lparr>groups := updateWhere (\<lambda>x. gr_id x = ev_group e) (\<lambda>r. r\<lparr>gr_status := s\<rparr>) (groups d),
       participants := map (participantAfter s (ev_group e)) (participants d)\<rparr>"
  using assms by (auto simp: changeStatusTx_cases Let_def split: option.splits if_splits)

lemma statusOf_update:
  "statusOf (d\<lparr>groups := updateWhere (\<lambda>x. gr_id x = g) (\<lambda>r. r\<lparr>gr_status := s\<rparr>) (groups d), participants := ps\<rparr>) h =
     (if h = g then map_option (\<lambda>_. s) (statusOf d g) else statusOf d h)"
proof -
  have "List.find (\<lambda>x. gr_id x = h) (updateWhere (\<lambda>x. gr_id x = g) (\<lambda>r. r\<lparr>gr_status := s\<rparr>) (groups d)) =
     map_option (\<lambda>x. if gr_id x = g then x\<lparr>gr_status := s\<rparr> else x) (List.find (\<lambda>x. gr_id x = h) (groups d))"
    by (rule find_updateWhere_key) simp
  then show ?thesis
    by (cases "List.find (\<lambda>x. gr_id x = h) (groups d)") (auto simp: statusOf_def groupById_def dest: find_Some_D)
qed

lemma changeStatus_statusOf:
  assumes "changeStatusTx i s b d = Inr (Some r, d')"
  obtains g current where "statusOf d g = Some current" "s \<in> set (allowedStatus current)"
    "\<And>h. statusOf d' h = (if h = g then Some s else statusOf d h)"
  by (rule changeStatus_Some[OF assms]) (auto simp: statusOf_update)

lemma participantAfter_simps [simp]:
  "pt_id (participantAfter s g p) = pt_id p" "pt_group (participantAfter s g p) = pt_group p"
  "pt_deleted (participantAfter s g p) = pt_deleted p"
  by (simp_all add: participantAfter_def)

lemma changeStatus_wf:
  assumes "wfDb d" and "changeStatusTx i s b d = Inr (x, d')"
  shows "wfDb d'"
proof (cases x)
  case None
  then show ?thesis using assms by (auto simp: changeStatusTx_cases Let_def split: option.splits if_splits)
next
  case (Some r)
  show ?thesis
  proof (rule changeStatus_Some[OF assms(2)[unfolded Some]])
    fix e current
    let ?gs = "updateWhere (\<lambda>x. gr_id x = ev_group e) (\<lambda>r. r\<lparr>gr_status := s\<rparr>) (groups d)"
    assume d': "d' = d\<lparr>groups := ?gs, participants := map (participantAfter s (ev_group e)) (participants d)\<rparr>"
    have m: "map gr_id ?gs = map gr_id (groups d)" by (rule map_updateWhere_same) simp
    then have "gr_id ` set ?gs = gr_id ` set (groups d)" by (metis list.set_map)
    with m assms(1) show "wfDb d'"
      by (auto simp: d' wfDb_def freshSupply_def comp_def image_image)
  qed
qed

lemma allowed_cancelled:
  "s \<in> set (allowedStatus c) \<Longrightarrow> c \<in> set CANCELLED_STATES \<Longrightarrow> s \<in> set CANCELLED_STATES"
  by (cases c) (auto simp: CANCELLED_STATES_def)

text \<open>A transition never takes a booking back to a state in which it occupies its professional.\<close>

lemma changeStatus_occupies:
  assumes "changeStatusTx i s b d = Inr (Some r, d')" and "occupies d' ws e"
  shows "occupies d ws e"
proof (rule changeStatus_Some[OF assms(1)])
  fix ev current
  assume c: "statusOf d (ev_group ev) = Some current" "s \<in> set (allowedStatus current)"
    and d': "d' = d\<lparr>groups := updateWhere (\<lambda>x. gr_id x = ev_group ev) (\<lambda>r. r\<lparr>gr_status := s\<rparr>) (groups d),
       participants := map (participantAfter s (ev_group ev)) (participants d)\<rparr>"
  have g: "groupById d' h = map_option (\<lambda>x. if gr_id x = ev_group ev then x\<lparr>gr_status := s\<rparr> else x) (groupById d h)" for h
    unfolding d' groupById_def by (simp add: find_updateWhere_key)
  have i: "groupById d (ev_group e) = Some x \<Longrightarrow> gr_id x = ev_group e" for x using groupById_Some by blast
  show ?thesis using assms(2) c allowed_cancelled[of s current] i
    by (cases "groupById d (ev_group e)")
       (auto simp: occupies_def groupSat_def g statusOf_def split: if_splits)
qed

section \<open>Runs of transitions\<close>

text \<open>The successful transitions that the platform makes, one after another, on any bookings: the
  trace has the booking and its new status.\<close>

inductive statusRun :: "db \<Rightarrow> (ident \<times> event_status) list \<Rightarrow> db \<Rightarrow> bool" where
  run_nil: "statusRun d [] d"
| run_step: "\<lbrakk>eventById d i = Some e; changeStatusTx i s b d = Inr (Some r, d1); statusRun d1 tr d2\<rbrakk>
    \<Longrightarrow> statusRun d ((ev_group e, s) # tr) d2"

inductive_cases statusRun_nilE: "statusRun d [] d'"
inductive_cases statusRun_consE: "statusRun d (x # tr) d'"

fun statusRank :: "event_status \<Rightarrow> nat" where
  "statusRank PENDING = 4"
| "statusRank ACCEPTED = 3"
| "statusRank CONFIRMED = 2"
| "statusRank COMPLETED = 1"
| "statusRank CANCELLED_BY_CLIENT = 1"
| "statusRank _ = 0"

lemma allowed_rank: "s \<in> set (allowedStatus c) \<Longrightarrow> statusRank s < statusRank c"
  by (cases c) auto

lemma rank_le: "statusRank c \<le> 4"
  by (cases c) auto

lemma changeStatus_step:
  assumes e: "eventById d i = Some e" and c: "changeStatusTx i s b d = Inr (Some r, d')"
  shows "\<exists>c. statusOf d (ev_group e) = Some c \<and> s \<in> set (allowedStatus c)" (is ?A)
    and "statusOf d' h = (if h = ev_group e then Some s else statusOf d h)" (is ?B)
proof -
  have "?A \<and> ?B" by (rule changeStatus_Some[OF c]) (auto simp: e statusOf_update)
  then show ?A and ?B by blast+
qed

lemma run_bounded:
  "statusRun d tr d' \<Longrightarrow> length (filter (\<lambda>(h, _). h = g) tr) \<le> (case statusOf d g of None \<Rightarrow> 0 | Some c \<Rightarrow> statusRank c)"
proof (induction rule: statusRun.induct)
  case (run_step d i e s b r d1 tr d2)
  obtain c where c: "statusOf d (ev_group e) = Some c" "s \<in> set (allowedStatus c)"
    using changeStatus_step(1)[OF run_step(1,2)] by blast
  show ?case
    using run_step.IH allowed_rank[OF c(2)] c(1) by (auto simp: changeStatus_step(2)[OF run_step(1,2)] split: if_splits)
qed simp

lemma run_cancelled:
  assumes "statusRun d tr d'" and "statusOf d g = Some c" and "c \<in> set CANCELLED_STATES"
  shows "\<exists>c'. statusOf d' g = Some c' \<and> c' \<in> set CANCELLED_STATES"
  using assms
proof (induction arbitrary: c rule: statusRun.induct)
  case (run_step d i e s b r d1 tr d2)
  obtain c0 where c0: "statusOf d (ev_group e) = Some c0" "s \<in> set (allowedStatus c0)"
    using changeStatus_step(1)[OF run_step(1,2)] by blast
  have "\<exists>c1. statusOf d1 g = Some c1 \<and> c1 \<in> set CANCELLED_STATES"
    using run_step.prems allowed_cancelled[OF c0(2)] c0(1)
    by (auto simp: changeStatus_step(2)[OF run_step(1,2)])
  then show ?case using run_step.IH by blast
qed blast

lemma run_noDouble:
  "statusRun d tr d' \<Longrightarrow> noDoubleBooking d ws \<Longrightarrow> noDoubleBooking d' ws \<and> events d' = events d"
proof (induction rule: statusRun.induct)
  case (run_step d i e s b r d1 tr d2)
  have "events d1 = events d" by (rule changeStatus_Some[OF run_step(2)]) simp
  moreover from this have "noDoubleBooking d1 ws"
    using run_step.prems changeStatus_occupies[OF run_step(2)] unfolding noDoubleBooking_def by metis
  ultimately show ?case using run_step.IH by simp
qed simp


lemma allowed_succeeds:
  assumes "eventById d i = Some e" and "ev_group e \<noteq> []" and "statusOf d (ev_group e) = Some c"
    and "s \<in> set (allowedStatus c)"
  obtains r d' where "changeStatusTx i s b d = Inr (Some r, d')" "eventById d' i = Some e"
    "statusOf d' (ev_group e) = Some s"
proof -
  obtain r d' where c: "changeStatusTx i s b d = Inr (Some r, d')"
    using assms by (auto simp: changeStatusTx_cases Let_def)
  moreover have "events d' = events d" by (rule changeStatus_Some[OF c]) simp
  ultimately show thesis using that assms(1) changeStatus_step(2)[OF assms(1) c] by (auto simp: eventById_def)
qed

text \<open>A path of allowed transitions can be taken on an event of the booking.\<close>

fun allowedPath :: "event_status \<Rightarrow> event_status list \<Rightarrow> bool" where
  "allowedPath c [] = True"
| "allowedPath c (s # ss) = (s \<in> set (allowedStatus c) \<and> allowedPath s ss)"

lemma path_run:
  "eventById d i = Some e \<Longrightarrow> ev_group e \<noteq> [] \<Longrightarrow> statusOf d (ev_group e) = Some c \<Longrightarrow> allowedPath c ss \<Longrightarrow>
   \<exists>d'. statusRun d (map (Pair (ev_group e)) ss) d' \<and> statusOf d' (ev_group e) = Some (last (c # ss))"
proof (induction ss arbitrary: d c)
  case (Cons s ss)
  obtain r d1 where d1: "changeStatusTx i s False d = Inr (Some r, d1)" "eventById d1 i = Some e"
    "statusOf d1 (ev_group e) = Some s"
    using allowed_succeeds[OF Cons.prems(1-3), of s False] Cons.prems(4) by (metis allowedPath.simps(2))
  from Cons.IH[OF d1(2) Cons.prems(2) d1(3)] Cons.prems(4) run_step[OF Cons.prems(1) d1(1)] show ?case
    by (auto split: if_splits)
qed (auto intro: run_nil)

section \<open>Properties\<close>

text \<open>However many status changes the platform makes, on any bookings, a booking takes at most
  four of them, and at most as many as its status has left.\<close>

theorem status_changes_bounded:
  assumes "statusRun d tr d'" and "statusOf d g = Some c"
  shows "length (filter (\<lambda>(h, _). h = g) tr) \<le> statusRank c \<and> statusRank c \<le> 4"
  using run_bounded[OF assms(1), of g] assms(2) rank_le by simp

theorem status_changes_bounded_witness:
  "\<exists>d'. statusRun (demo_db 1 PENDING demo_ps) [(''g1'', ACCEPTED), (''g1'', CONFIRMED), (''g1'', COMPLETED), (''g1'', PAID)] d' \<and>
     length (filter (\<lambda>(h, _). h = ''g1'') [(''g1'', ACCEPTED), (''g1'', CONFIRMED), (''g1'', COMPLETED), (''g1'', PAID)]) \<le>
       statusRank PENDING"
proof -
  let ?d = "demo_db 1 PENDING demo_ps"
  have e: "eventById ?d ''e1'' = Some (demo_event 1)" "ev_group (demo_event 1) = ''g1''" "statusOf ?d ''g1'' = Some PENDING"
    by (simp_all add: demo_db_def demo_event_def demo_group_def eventById_def statusOf_def groupById_def)
  obtain d' where r: "statusRun ?d (map (Pair ''g1'') [ACCEPTED, CONFIRMED, COMPLETED, PAID]) d'"
    using path_run[OF e(1), of PENDING "[ACCEPTED, CONFIRMED, COMPLETED, PAID]"] e(2,3) by auto
  from status_changes_bounded[OF r e(3)] r show ?thesis by auto
qed

text \<open>A booking that is cancelled stays cancelled through any status changes.\<close>

theorem cancelled_stays_cancelled:
  assumes "statusRun d tr d'" and "statusOf d g = Some c" and "c \<in> set CANCELLED_STATES"
  shows "\<exists>c'. statusOf d' g = Some c' \<and> c' \<in> set CANCELLED_STATES"
  by (rule run_cancelled[OF assms])

theorem cancelled_stays_cancelled_witness:
  "\<exists>d' c'. statusRun (demo_db 1 CANCELLED_BY_CLIENT demo_ps) [(''g1'', CANCELLED_BY_CLIENT_REMOVED)] d' \<and>
     statusOf d' ''g1'' = Some c' \<and> c' \<in> set CANCELLED_STATES"
proof -
  let ?d = "demo_db 1 CANCELLED_BY_CLIENT demo_ps"
  have e: "eventById ?d ''e1'' = Some (demo_event 1)" "ev_group (demo_event 1) = ''g1''" "statusOf ?d ''g1'' = Some CANCELLED_BY_CLIENT"
    by (simp_all add: demo_db_def demo_event_def demo_group_def eventById_def statusOf_def groupById_def)
  obtain d' where r: "statusRun ?d [(''g1'', CANCELLED_BY_CLIENT_REMOVED)] d'"
    using path_run[OF e(1), of CANCELLED_BY_CLIENT "[CANCELLED_BY_CLIENT_REMOVED]"] e(2,3) by auto
  from cancelled_stays_cancelled[OF r e(3)] r show ?thesis by (auto simp: CANCELLED_STATES_def)
qed

text \<open>C7: status changes never make a professional booked twice, because none takes a booking back
  from a cancelled status; they move no event.\<close>

theorem status_changes_no_double_booking:
  assumes "statusRun d tr d'" and "noDoubleBooking d ws"
  shows "noDoubleBooking d' ws \<and> events d' = events d"
  by (rule run_noDouble[OF assms])

theorem status_changes_no_double_booking_witness:
  "\<exists>d'. statusRun (demo_db 1 PENDING demo_ps) [(''g1'', ACCEPTED)] d' \<and> noDoubleBooking d' ''w''"
proof -
  let ?d = "demo_db 1 PENDING demo_ps"
  have e: "eventById ?d ''e1'' = Some (demo_event 1)" "ev_group (demo_event 1) = ''g1''" "statusOf ?d ''g1'' = Some PENDING"
    by (simp_all add: demo_db_def demo_event_def demo_group_def eventById_def statusOf_def groupById_def)
  obtain d' where r: "statusRun ?d [(''g1'', ACCEPTED)] d'"
    using path_run[OF e(1), of PENDING "[ACCEPTED]"] e(2,3) by auto
  from status_changes_no_double_booking[OF r demo_single[of _ _ _ "''w''"]] r show ?thesis by auto
qed

text \<open>A pending booking can be brought to the paid status: accepted, confirmed, completed and paid,
  each of the four requests succeeds.\<close>

theorem pending_booking_can_be_paid:
  assumes "eventById d i = Some e" and "ev_group e \<noteq> []" and "statusOf d (ev_group e) = Some PENDING"
  shows "\<exists>d'. statusRun d (map (Pair (ev_group e)) [ACCEPTED, CONFIRMED, COMPLETED, PAID]) d' \<and>
     statusOf d' (ev_group e) = Some PAID"
  using path_run[OF assms, of "[ACCEPTED, CONFIRMED, COMPLETED, PAID]"] by simp

theorem pending_booking_can_be_paid_witness:
  "\<exists>d'. statusRun (demo_db 1 PENDING demo_ps) (map (Pair ''g1'') [ACCEPTED, CONFIRMED, COMPLETED, PAID]) d' \<and>
     statusOf d' ''g1'' = Some PAID"
  using pending_booking_can_be_paid[of "demo_db 1 PENDING demo_ps" "''e1''" "demo_event 1"]
  by (simp add: demo_db_def demo_event_def demo_group_def eventById_def statusOf_def groupById_def)

text \<open>Cancelling a booking from the platform (or removing one its client cancelled) leaves none
  of its participants in a status that is not cancelled, and does not touch those of other bookings.\<close>

theorem cancelling_reaches_participants:
  assumes "changeStatusTx i s b d = Inr (Some r, d')" and "s \<in> {CANCELLED, CANCELLED_BY_CLIENT_REMOVED}"
    and "eventById d i = Some e" and "p \<in> set (participants d')"
  shows "if pt_group p = ev_group e then pt_status p \<in> set CANCELLED_STATES else p \<in> set (participants d)"
  by (rule changeStatus_Some[OF assms(1)])
     (use assms(2-4) in \<open>auto simp: participantAfter_def CANCELLED_STATES_def split: if_splits\<close>)

theorem cancelling_reaches_participants_witness:
  "\<exists>r d'. changeStatusTx ''e1'' CANCELLED False (demo_db 1 ACCEPTED demo_ps) = Inr (Some r, d') \<and>
     (\<forall>p \<in> set (participants d'). if pt_group p = ''g1'' then pt_status p \<in> set CANCELLED_STATES else p \<in> set demo_ps)"
proof -
  let ?d = "demo_db 1 ACCEPTED demo_ps"
  have e: "eventById ?d ''e1'' = Some (demo_event 1)" "ev_group (demo_event 1) = ''g1''" "statusOf ?d ''g1'' = Some ACCEPTED"
    "participants ?d = demo_ps"
    by (simp_all add: demo_db_def demo_event_def demo_group_def eventById_def statusOf_def groupById_def)
  obtain r d' where r: "changeStatusTx ''e1'' CANCELLED False ?d = Inr (Some r, d')"
    by (rule allowed_succeeds[OF e(1), of ACCEPTED CANCELLED False]) (simp_all add: e(2,3))
  have "if pt_group p = ''g1'' then pt_status p \<in> set CANCELLED_STATES else p \<in> set demo_ps"
    if "p \<in> set (participants d')" for p
    using cancelling_reaches_participants[OF r _ e(1) that] by (simp add: e(2) demo_db_def split: if_splits)
  with r show ?thesis by blast
qed

end
