(* ===== verification/CalPlatform.thy ===== *)
theory CalPlatform
  imports CalStatus
begin

text \<open>
  Editing and deleting events from the platform: \<open>UpdateEventByIdUseCase\<close> changes one event, or moves
  it out of its booking into a new one and splits what remains at the gaps; \<open>deleteEvent\<close> deletes
  events with the bookings and recurrence rules they leave empty.
\<close>

section \<open>The data of an edit\<close>

text \<open>A date argument is a text or a \<open>Date\<close>, which may be invalid.\<close>

datatype date_arg = DateText string | DateValue "instant option"

fun toDate :: "(string \<Rightarrow> instant option) \<Rightarrow> date_arg \<Rightarrow> instant option" where
  "toDate parse (DateText s) = parse s"
| "toDate parse (DateValue t) = t"

record update_event_input =
  ue_id :: ident
  ue_start :: "date_arg option"
  ue_end :: "date_arg option"
  ue_title :: "string option"
  ue_description :: "string option option"
  ue_user :: "ident option option"
  ue_service :: "ident option option"
  ue_purpose :: "purpose_type option"
  ue_allDay :: "bool option"
  ue_nameSnap :: "string option option"
  ue_priceSnap :: "rat option option"
  ue_discountSnap :: "rat option option"
  ue_durationSnap :: "int option option"
  ue_maxPartSnap :: "int option option"

text \<open>\<open>_toDateOrThrow\<close> and \<open>_buildEventUpdateData\<close>: the dates, checked, and the patch of the other
  columns; a column that is not in the input is left alone.\<close>

definition toDateOrThrow :: "(string \<Rightarrow> instant option) \<Rightarrow> string \<Rightarrow> date_arg \<Rightarrow> app_error + instant" where
  "toDateOrThrow parse fieldName v =
     (case toDate parse v of None \<Rightarrow> Inl (invalidPayload (fieldName @ '' es invalido'')) | Some t \<Rightarrow> Inr t)"

definition optionalDate ::
  "(string \<Rightarrow> instant option) \<Rightarrow> string \<Rightarrow> date_arg option \<Rightarrow> app_error + instant option" where
  "optionalDate parse fieldName v =
     (case v of None \<Rightarrow> Inr None | Some a \<Rightarrow> map_sum id Some (toDateOrThrow parse fieldName a))"

record update_data =
  ud_start :: "instant option"
  ud_end :: "instant option"
  ud_input :: update_event_input

definition buildEventUpdateData :: "(string \<Rightarrow> instant option) \<Rightarrow> update_event_input \<Rightarrow> app_error + update_data" where
  "buildEventUpdateData parse ev =
     (case optionalDate parse ''event.startDate'' (ue_start ev) of
        Inl err \<Rightarrow> Inl err
      | Inr s \<Rightarrow>
          (case optionalDate parse ''event.endDate'' (ue_end ev) of
             Inl err \<Rightarrow> Inl err
           | Inr t \<Rightarrow> Inr \<lparr>ud_start = s, ud_end = t, ud_input = ev\<rparr>))"

definition applyUpdate :: "update_data \<Rightarrow> event_row \<Rightarrow> event_row" where
  "applyUpdate u e =
     (let i = ud_input u in
      e\<lparr>ev_start := orElse (ud_start u) (ev_start e), ev_end := orElse (ud_end u) (ev_end e),
        ev_title := orElse (ue_title i) (ev_title e),
        ev_description := orElse (ue_description i) (ev_description e),
        ev_user := orElse (ue_user i) (ev_user e), ev_service := orElse (ue_service i) (ev_service e),
        ev_purpose := orElse (ue_purpose i) (ev_purpose e), ev_allDay := orElse (ue_allDay i) (ev_allDay e),
        ev_nameSnap := orElse (ue_nameSnap i) (ev_nameSnap e),
        ev_priceSnap := orElse (ue_priceSnap i) (ev_priceSnap e),
        ev_discountSnap := orElse (ue_discountSnap i) (ev_discountSnap e),
        ev_durationSnap := orElse (ue_durationSnap i) (ev_durationSnap e),
        ev_maxPartSnap := orElse (ue_maxPartSnap i) (ev_maxPartSnap e)\<rparr>)"

definition prepareInput ::
  "(string \<Rightarrow> instant option) \<Rightarrow> update_event_input \<Rightarrow> bool \<Rightarrow> app_error + update_data" where
  "prepareInput parse ev isMany =
     (if ue_id ev = [] then Inl (requiredField ''event.id es obligatorio'')
      else if isMany \<and> (ue_start ev = None \<or> ue_end ev = None)
      then Inl (requiredField ''Para isMany=true debes enviar event.startDate y event.endDate'')
      else buildEventUpdateData parse ev)"

section \<open>Windows of groups\<close>

definition activeEvents :: "db \<Rightarrow> ident \<Rightarrow> event_row list" where
  "activeEvents d g = sort_key ev_start (filter (\<lambda>e. ev_group e = g \<and> ev_deleted e = None) (events d))"

definition maxEnd :: "event_row list \<Rightarrow> instant \<Rightarrow> instant" where
  "maxEnd es e0 = fold (\<lambda>e m. if ev_end e > m then ev_end e else m) es e0"

text \<open>\<open>_syncGroupWindow\<close>\<close>

definition syncGroupWindow :: "ident \<Rightarrow> bool tx" where
  "syncGroupWindow g =
     andThen (readState (\<lambda>d. activeEvents d g)) (\<lambda>active.
     case active of
       [] \<Rightarrow> ret False
     | e # _ \<Rightarrow>
         andThen (updateGroup g (\<lambda>r. r\<lparr>gr_start := ev_start e, gr_end := maxEnd active (ev_end e)\<rparr>)) (\<lambda>_. ret True))"

text \<open>\<open>_splitByTimeContinuity\<close>: \<open>splitFrom\<close> is the loop, with the segment being built.\<close>

fun splitFrom :: "event_row list \<Rightarrow> event_row list \<Rightarrow> event_row list list" where
  "splitFrom current [] = [current]"
| "splitFrom current (nxt # rest) =
     (if ev_start nxt > ev_end (last current)
      then current # splitFrom [nxt] rest
      else splitFrom (current @ [nxt]) rest)"

definition splitByTimeContinuity :: "event_row list \<Rightarrow> event_row list list" where
  "splitByTimeContinuity evs =
     (case sort_key ev_start evs of [] \<Rightarrow> [] | e # rest \<Rightarrow> splitFrom [e] rest)"

definition segmentBounds :: "event_row list \<Rightarrow> instant \<times> instant" where
  "segmentBounds segment = (ev_start (hd segment), maxEnd segment (ev_end (hd segment)))"

section \<open>The transaction\<close>

record clone_source =
  cs_group :: group_row
  cs_participants :: "participant_row list"

text \<open>\<open>_cloneGroupWithParticipants\<close>: the copy has the columns of the source and a participant for each
  of its participants that is not deleted.\<close>

definition cloneGroup :: "clone_source \<Rightarrow> instant \<Rightarrow> instant \<Rightarrow> group_row tx" where
  "cloneGroup src s t =
     andThen (createGroup None
       ((cs_group src)\<lparr>gr_start := s, gr_end := t, gr_updates := Some (orElse (gr_updates (cs_group src)) 0),
          gr_deleted := None\<rparr>)) (\<lambda>g.
     andThen (forEach (\<lambda>p. createParticipant
         \<lparr>pt_id = [], pt_group = gr_id g, pt_client = pt_client p, pt_clientWs = pt_clientWs p,
          pt_status = pt_status p, pt_deleted = None\<rparr>) (cs_participants src)) (\<lambda>_.
     ret g))"

record update_context =
  uc_target :: event_row
  uc_source :: clone_source
  uc_before :: "event_row list"

definition loadContext :: "ident \<Rightarrow> update_context tx" where
  "loadContext i =
     andThen (readState (\<lambda>d. eventById d i)) (\<lambda>target.
     case target of
       None \<Rightarrow> throw (notFound ''Evento no encontrado'')
     | Some e \<Rightarrow>
         if ev_deleted e \<noteq> None then throw (notFound ''Evento no encontrado'')
         else
           andThen (readState (\<lambda>d. groupById d (ev_group e))) (\<lambda>group.
           case group of
             None \<Rightarrow> throw (notFound ''Booking original no encontrado'')
           | Some g \<Rightarrow>
               readState (\<lambda>d. \<lparr>uc_target = e,
                 uc_source = \<lparr>cs_group = g, cs_participants = activeParticipants d (gr_id g)\<rparr>,
                 uc_before = activeEvents d (ev_group e)\<rparr>)))"

record update_by_id_result =
  ur_moved :: bool
  ur_oldGroup :: ident
  ur_newGroup :: "ident option"
  ur_oldCount :: nat
  ur_moreThanTwo :: "bool option"
  ur_wasLast :: "bool option"
  ur_split :: bool
  ur_active :: "bool option"
  ur_splitGroups :: "ident list option"
  ur_affected :: "ident list"
  ur_event :: event_row

definition updateSingleById :: "update_context \<Rightarrow> ident \<Rightarrow> update_data \<Rightarrow> update_by_id_result tx" where
  "updateSingleById ctx i u =
     andThen (updateEvent i (applyUpdate u)) (\<lambda>updated.
     andThen (syncGroupWindow (ev_group (uc_target ctx))) (\<lambda>_.
     ret \<lparr>ur_moved = False, ur_oldGroup = ev_group (uc_target ctx), ur_newGroup = None,
          ur_oldCount = length (uc_before ctx), ur_moreThanTwo = None, ur_wasLast = None, ur_split = False,
          ur_active = None, ur_splitGroups = None, ur_affected = [ev_group (uc_target ctx)],
          ur_event = updated\<rparr>))"

text \<open>\<open>_splitOriginalGroupIfNeeded\<close>: the first segment keeps the group, every other one gets a copy.\<close>

definition moveSegment :: "clone_source \<Rightarrow> event_row list \<Rightarrow> ident tx" where
  "moveSegment src segment =
     (case segmentBounds segment of (s, t) \<Rightarrow>
        andThen (cloneGroup src s t) (\<lambda>g.
        andThen (updateManyEvents (\<lambda>e. ev_id e \<in> set (map ev_id segment)) (\<lambda>e. e\<lparr>ev_group := gr_id g\<rparr>)) (\<lambda>_.
        ret (gr_id g))))"

definition splitOriginalGroup :: "update_context \<Rightarrow> event_row list \<Rightarrow> ident list tx" where
  "splitOriginalGroup ctx remaining =
     (case splitByTimeContinuity remaining of
        [] \<Rightarrow> ret []
      | first # others \<Rightarrow>
          (case segmentBounds first of (s, t) \<Rightarrow>
             andThen (updateGroup (ev_group (uc_target ctx)) (\<lambda>r. r\<lparr>gr_start := s, gr_end := t\<rparr>)) (\<lambda>_.
             forEach (moveSegment (uc_source ctx)) others)))"

definition updateManyById :: "update_context \<Rightarrow> ident \<Rightarrow> update_data \<Rightarrow> update_by_id_result tx" where
  "updateManyById ctx i u =
     (let movedStart = the (ud_start u); movedEnd = the (ud_end u); old = ev_group (uc_target ctx) in
      if movedStart \<ge> movedEnd
      then throw (invalidPayload ''event.startDate debe ser menor que event.endDate'')
      else
        andThen (cloneGroup (uc_source ctx) movedStart movedEnd) (\<lambda>movedGroup.
        andThen (updateEvent i (\<lambda>e. (applyUpdate u e)\<lparr>ev_group := gr_id movedGroup\<rparr>)) (\<lambda>movedEvent.
        andThen (readState (\<lambda>d. activeEvents d old)) (\<lambda>remaining.
        andThen (splitOriginalGroup ctx remaining) (\<lambda>splitIds.
        andThen (syncGroupWindow old) (\<lambda>hasActive.
        ret \<lparr>ur_moved = True, ur_oldGroup = old, ur_newGroup = Some (gr_id movedGroup),
             ur_oldCount = length (uc_before ctx), ur_moreThanTwo = Some (length (uc_before ctx) > 2),
             ur_wasLast = Some (uc_before ctx \<noteq> [] \<and> ev_id (last (uc_before ctx)) = i),
             ur_split = (splitIds \<noteq> []), ur_active = Some hasActive, ur_splitGroups = Some splitIds,
             ur_affected = uniq (old # gr_id movedGroup # splitIds), ur_event = movedEvent\<rparr>))))))"

definition updateByIdTx :: "ident \<Rightarrow> bool \<Rightarrow> update_data \<Rightarrow> update_by_id_result tx" where
  "updateByIdTx i isMany u =
     andThen (loadContext i) (\<lambda>ctx.
       if \<not> isMany then updateSingleById ctx i u else updateManyById ctx i u)"

section \<open>The service\<close>

definition executeUpdateById ::
  "(string \<Rightarrow> instant option) \<Rightarrow> update_event_input \<Rightarrow> bool \<Rightarrow> update_by_id_result platform_req" where
  "executeUpdateById parse ev isMany =
     (case prepareInput parse ev isMany of
        Inl err \<Rightarrow> ethrow err
      | Inr u \<Rightarrow> onDb (updateByIdTx (ue_id ev) isMany u))"

text \<open>\<open>Promise.all\<close>: every notification is started, and one that fails rejects the whole.\<close>

definition notifyAll :: "(ident \<Rightarrow> string \<Rightarrow> app_error option) \<Rightarrow> ident list \<Rightarrow> unit platform_req" where
  "notifyAll fails gs =
     ebind (emod (\<lambda>s. s\<lparr>pl_sent := pl_sent s @ map (\<lambda>g. (g, ''update'')) (filter (\<lambda>g. fails g ''update'' = None) gs)\<rparr>)) (\<lambda>_.
     case List.map_filter (\<lambda>g. fails g ''update'') gs of [] \<Rightarrow> eret () | err # _ \<Rightarrow> ethrow err)"

definition updateById ::
  "(string \<Rightarrow> instant option) \<Rightarrow> (ident \<Rightarrow> string \<Rightarrow> app_error option) \<Rightarrow> ident \<Rightarrow> update_event_input
   \<Rightarrow> bool \<Rightarrow> bool \<Rightarrow> update_by_id_result platform_req" where
  "updateById parse fails eventId ev isMany sendNotification =
     inService ''EventPlatformCommandService.updateById''
       (ebind (executeUpdateById parse (ev\<lparr>ue_id := eventId\<rparr>) isMany) (\<lambda>result.
        ebind (if sendNotification \<and> ur_affected result \<noteq> [] then notifyAll fails (ur_affected result) else eret ())
          (\<lambda>_. eret result)))"

section \<open>Deleting\<close>

definition deleteEventTx :: "ident list \<Rightarrow> ident list \<Rightarrow> ident list \<Rightarrow> unit tx" where
  "deleteEventTx idList ruleIds groupIds =
     andThen (modState (\<lambda>d. d\<lparr>events := filter (\<lambda>e. ev_id e \<notin> set idList) (events d)\<rparr>)) (\<lambda>_.
     andThen
       (if groupIds \<noteq> []
        then andThen (modState (\<lambda>d. d\<lparr>participants := filter (\<lambda>p. \<not> (pt_group p \<in> set groupIds
                 \<and> pt_group p \<in> gr_id ` set (groups d) \<and> pt_group p \<notin> ev_group ` set (events d))) (participants d)\<rparr>)) (\<lambda>_.
             modState (\<lambda>d. d\<lparr>groups := filter (\<lambda>g. \<not> (gr_id g \<in> set groupIds
                 \<and> gr_id g \<notin> ev_group ` set (events d))) (groups d)\<rparr>))
        else ret ()) (\<lambda>_.
     modState (\<lambda>d. d\<lparr>rules := filter (\<lambda>r. \<not> (r \<in> set ruleIds
        \<and> (\<forall>e \<in> set (events d). ev_rule e = Some r \<longrightarrow> ev_id e \<in> set idList))) (rules d)\<rparr>)))"

definition deleteEvent :: "ident list \<Rightarrow> unit platform_req" where
  "deleteEvent idList =
     inService ''EventPlatformCommandService.deleteEvent''
       (ebind (onDb (readState (\<lambda>d. filter (\<lambda>e. ev_id e \<in> set idList) (events d)))) (\<lambda>evs.
        let ruleIds = uniq (List.map_filter (\<lambda>e. if truthy (ev_rule e) then ev_rule e else None) evs);
            groupIds = uniq (filter (\<lambda>g. g \<noteq> []) (map ev_group evs)) in
        onDb (deleteEventTx idList ruleIds groupIds)))"

end
