(* ===== verification/CalPlatformProps.thy ===== *)
theory CalPlatformProps
  imports CalPlatform CalDemo CalWf
begin

text \<open>
  Properties of the edits from the platform: the split of a booking at its gaps, the windows of the
  bookings it leaves, the consistency of the rows, and what a deletion deletes.
\<close>

section \<open>The split\<close>

fun continuous :: "event_row list \<Rightarrow> bool" where
  "continuous (a # b # es) = (ev_start b \<le> ev_end a \<and> continuous (b # es))"
| "continuous _ = True"

fun gapped :: "event_row list list \<Rightarrow> bool" where
  "gapped (s # t # ss) = (ev_end (last s) < ev_start (hd t) \<and> gapped (t # ss))"
| "gapped _ = True"

lemma continuous_snoc:
  "es \<noteq> [] \<Longrightarrow> continuous es \<Longrightarrow> ev_start x \<le> ev_end (last es) \<Longrightarrow> continuous (es @ [x])"
  by (induction es rule: continuous.induct) auto

lemma splitFrom_parts:
  assumes "cur \<noteq> []" and "continuous cur"
  shows "concat (splitFrom cur rest) = cur @ rest \<and> [] \<notin> set (splitFrom cur rest) \<and>
    (\<forall>s \<in> set (splitFrom cur rest). continuous s) \<and> gapped (splitFrom cur rest) \<and>
    splitFrom cur rest \<noteq> [] \<and> hd (hd (splitFrom cur rest)) = hd cur"
  using assms
proof (induction cur rest rule: splitFrom.induct)
  case (2 cur nxt rest)
  show ?case
  proof (cases "ev_start nxt > ev_end (last cur)")
    case True
    then have ih: "concat (splitFrom [nxt] rest) = nxt # rest" "[] \<notin> set (splitFrom [nxt] rest)"
      "\<forall>s \<in> set (splitFrom [nxt] rest). continuous s" "gapped (splitFrom [nxt] rest)"
      "splitFrom [nxt] rest \<noteq> []" "hd (hd (splitFrom [nxt] rest)) = nxt"
      using "2.IH"(1)[OF True] by auto
    obtain t ts where t: "splitFrom [nxt] rest = t # ts" using ih(5) by (cases "splitFrom [nxt] rest") auto
    then show ?thesis using True ih 2(3,4) by simp
  next
    case False
    then show ?thesis using "2.IH"(2)[OF False] 2(3,4) continuous_snoc[of cur nxt] by simp
  qed
qed simp

lemma split_parts:
  "concat (splitByTimeContinuity evs) = sort_key ev_start evs \<and> [] \<notin> set (splitByTimeContinuity evs) \<and>
   (\<forall>s \<in> set (splitByTimeContinuity evs). continuous s) \<and> gapped (splitByTimeContinuity evs)"
  using splitFrom_parts[of "[hd (sort_key ev_start evs)]" "tl (sort_key ev_start evs)"]
  by (auto simp: splitByTimeContinuity_def split: list.splits)

section \<open>Windows\<close>

definition liveIn :: "db \<Rightarrow> ident \<Rightarrow> event_row set" where
  "liveIn d g = {e \<in> set (events d). ev_group e = g \<and> ev_deleted e = None}"

text \<open>The window of a group runs from the first start of its live events to the last end.\<close>

definition windowTight :: "db \<Rightarrow> ident \<Rightarrow> bool" where
  "windowTight d g \<longleftrightarrow>
     (liveIn d g \<noteq> {} \<longrightarrow> (\<exists>r. groupById d g = Some r \<and>
        gr_start r = Min (ev_start ` liveIn d g) \<and> gr_end r = Max (ev_end ` liveIn d g)))"

lemma maxEnd_Max: "maxEnd es m = Max (insert m (ev_end ` set es))"
proof (induction es arbitrary: m)
  case (Cons e es)
  have "Max (insert m (ev_end ` set (e # es))) = max m (Max (insert (ev_end e) (ev_end ` set es)))"
    by (simp add: Max_insert[of "insert (ev_end e) (ev_end ` set es)" m])
  moreover have "max m (Max (insert (ev_end e) (ev_end ` set es))) = Max (insert (max m (ev_end e)) (ev_end ` set es))"
    by (cases "ev_end ` set es = {}") (auto simp: max.assoc)
  ultimately show ?case using Cons by (simp add: maxEnd_def max_def)
qed (simp add: maxEnd_def)

lemma maxEnd_hd: "es \<noteq> [] \<Longrightarrow> maxEnd es (ev_end (hd es)) = Max (ev_end ` set es)"
  by (simp add: maxEnd_Max insert_absorb)

lemma sorted_hd_Min: "sorted (map f es) \<Longrightarrow> es \<noteq> [] \<Longrightarrow> f (hd es) = Min (f ` set es)"
  by (cases es) (auto intro!: Min_eqI[symmetric])

lemma set_activeEvents: "set (activeEvents d g) = liveIn d g"
  by (auto simp: activeEvents_def liveIn_def)

lemma segmentBounds_Min_Max:
  "es \<noteq> [] \<Longrightarrow> sorted (map ev_start es) \<Longrightarrow> segmentBounds es = (Min (ev_start ` set es), Max (ev_end ` set es))"
  by (simp add: segmentBounds_def maxEnd_hd sorted_hd_Min)

lemma groupById_update:
  assumes "\<And>r. gr_id (f r) = gr_id r"
  shows "groupById (d\<lparr>groups := updateWhere (\<lambda>x. gr_id x = i) f (groups d)\<rparr>) g =
     map_option (\<lambda>r. if gr_id r = i then f r else r) (groupById d g)"
  unfolding groupById_def using find_updateWhere_key[of gr_id f] assms by simp

lemma updateGroup_other:
  assumes "\<And>r. gr_id (f r) = gr_id r" and "updateGroup i f d = Inr (x, d')" and "g \<noteq> i"
  shows "groupById d' g = groupById d g" "events d' = events d"
  using assms groupById_update[OF assms(1), where d = d and i = i and g = g]
  by (cases "groupById d g"; auto simp: updateGroup_Inr dest: groupById_Some)+

lemma updateGroup_this:
  assumes "\<And>r. gr_id (f r) = gr_id r" and "updateGroup i f d = Inr (x, d')"
  obtains r where "groupById d i = Some r" "groupById d' i = Some (f r)" "events d' = events d"
  using assms groupById_update[OF assms(1), where d = d and i = i and g = i]
  by (cases "groupById d i") (auto simp: updateGroup_Inr dest: groupById_Some)

lemma syncWindow_tight:
  assumes "syncGroupWindow g d = Inr (b, d')"
  shows "windowTight d' g" "events d' = events d" "h \<noteq> g \<Longrightarrow> groupById d' h = groupById d h"
proof -
  let ?es = "activeEvents d g"
  have "windowTight d' g \<and> events d' = events d \<and> (h \<noteq> g \<longrightarrow> groupById d' h = groupById d h)"
  proof (cases ?es)
    case Nil
    then have "d' = d" using assms by (auto simp: syncGroupWindow_def andThen_Inr_iff)
    then show ?thesis using Nil set_activeEvents[of d g] by (simp add: windowTight_def)
  next
    case (Cons e rest)
    let ?f = "\<lambda>r :: group_row. r\<lparr>gr_start := ev_start e, gr_end := maxEnd ?es (ev_end e)\<rparr>"
    obtain x where u: "updateGroup g ?f d = Inr (x, d')"
      using assms Cons by (auto simp: syncGroupWindow_def andThen_Inr_iff)
    have s: "sorted (map ev_start ?es)" by (simp add: activeEvents_def)
    have b: "ev_start e = Min (ev_start ` liveIn d g)" "maxEnd ?es (ev_end e) = Max (ev_end ` liveIn d g)"
      using sorted_hd_Min[OF s] maxEnd_hd[of ?es] Cons unfolding set_activeEvents by simp_all
    have f: "gr_id (?f r) = gr_id r" for r by simp
    obtain r where "groupById d' g = Some (?f r)" "events d' = events d"
      using updateGroup_this[OF f u] by metis
    then show ?thesis using updateGroup_other(1)[OF f u, of h] b by (simp add: windowTight_def liveIn_def)
  qed
  then show "windowTight d' g" "events d' = events d" "h \<noteq> g \<Longrightarrow> groupById d' h = groupById d h" by auto
qed


section \<open>Copies of a group\<close>

lemma createParticipants_same:
  "forEach (\<lambda>p. createParticipant (f p)) ps d = Inr (xs, d') \<Longrightarrow> groups d' = groups d \<and> events d' = events d"
proof (induction ps arbitrary: d xs)
  case (Cons p ps)
  then show ?case by (fastforce simp: andThen_Inr_iff createParticipant_Inr)
qed simp

lemma cloneGroup_parts:
  assumes wf: "wfDb d" and c: "cloneGroup src s t d = Inr (g, d')"
  shows "gr_id g \<notin> gr_id ` set (groups d)" "wfDb d'" "events d' = events d"
    "groups d' = groups d @ [g]" "gr_start g = s" "gr_end g = t"
proof -
  let ?r = "(cs_group src)\<lparr>gr_start := s, gr_end := t, gr_updates := Some (orElse (gr_updates (cs_group src)) 0),
          gr_deleted := None\<rparr>"
  obtain d1 xs where g: "createGroup None ?r d = Inr (g, d1)"
    and p: "forEach (\<lambda>p. createParticipant
         \<lparr>pt_id = [], pt_group = gr_id g, pt_client = pt_client p, pt_clientWs = pt_clientWs p,
          pt_status = pt_status p, pt_deleted = None\<rparr>) (cs_participants src) d1 = Inr (xs, d')"
    using c by (auto simp: cloneGroup_def andThen_Inr_iff)
  have at: "wfAt (gr_id g) d1"
    using wf_createGroup[OF wf g] by (simp add: wfAt_def)
  have "preserves (wfAt (gr_id g)) (forEach (\<lambda>p. createParticipant
         \<lparr>pt_id = [], pt_group = gr_id g, pt_client = pt_client p, pt_clientWs = pt_clientWs p,
          pt_status = pt_status p, pt_deleted = None\<rparr>) (cs_participants src))"
    by (auto intro!: preserves_rules)
  from preservesD[OF this at p] show "wfDb d'" by (simp add: wfAt_def)
  show "gr_id g \<notin> gr_id ` set (groups d)"
    using g wf fresh_notin(2)[of d "nextId d"] by (simp add: createGroup_Inr wfDb_def)
  show "events d' = events d" "groups d' = groups d @ [g]" "gr_start g = s" "gr_end g = t"
    using createParticipants_same[OF p] g by (simp_all add: createGroup_Inr)
qed

lemma groupById_append_new:
  assumes "groups d' = groups d @ [g]" and "gr_id g \<notin> gr_id ` set (groups d)"
  shows "groupById d' h = (if h = gr_id g then Some g else groupById d h)"
  using assms(2) groupById_None[of d "gr_id g"] unfolding groupById_def assms(1) find_append
  by (auto split: option.splits)

lemma windowTight_cong:
  "liveIn d' g = liveIn d g \<Longrightarrow> groupById d' g = groupById d g \<Longrightarrow> windowTight d' g = windowTight d g"
  by (simp add: windowTight_def)

lemma bounds_regroup:
  "ev_start ` ((\<lambda>e. e\<lparr>ev_group := g\<rparr>) ` A) = ev_start ` A" "ev_end ` ((\<lambda>e. e\<lparr>ev_group := g\<rparr>) ` A) = ev_end ` A"
  by (simp_all add: image_image)

text \<open>A segment of live events of the old group gets a group of its own, with a tight window; the
  windows of other groups stay as they are, and so does what is left of the old one.\<close>

lemma moveSegment_parts:
  assumes wf: "wfDb d" and m: "moveSegment src segment d = Inr (g, d')"
    and seg: "segment \<noteq> []" "sorted (map ev_start segment)" "set segment \<subseteq> liveIn d old"
  shows "wfDb d'" "g \<notin> gr_id ` set (groups d)" "windowTight d' g" "gr_id ` set (groups d') = insert g (gr_id ` set (groups d))"
    "\<And>h. h \<noteq> g \<Longrightarrow> h \<noteq> old \<Longrightarrow> liveIn d' h = liveIn d h" "\<And>h. h \<noteq> g \<Longrightarrow> groupById d' h = groupById d h" "old \<noteq> g"
    "liveIn d' old = liveIn d old - set segment" "liveIn d' g = (\<lambda>e. e\<lparr>ev_group := g\<rparr>) ` set segment"
proof -
  let ?b = "segmentBounds segment" and ?P = "\<lambda>e :: event_row. ev_id e \<in> set (map ev_id segment)"
  obtain r d1 where c: "cloneGroup src (fst ?b) (snd ?b) d = Inr (r, d1)" and g: "g = gr_id r"
    and u: "updateManyEvents ?P (\<lambda>e. e\<lparr>ev_group := gr_id r\<rparr>) d1 = Inr ((), d')"
    using m by (auto simp: moveSegment_def andThen_Inr_iff split: prod.splits)
  note cl = cloneGroup_parts[OF wf c]
  have d': "d' = d1\<lparr>events := updateWhere ?P (\<lambda>e. e\<lparr>ev_group := g\<rparr>) (events d)\<rparr>"
    using u cl(3) by (simp add: updateManyEvents_def g)
  have mem: "?P e \<longleftrightarrow> e \<in> set segment" if "e \<in> set (events d)" for e
    using that seg(3) wf by (auto simp: wfDb_def liveIn_def distinct_map inj_on_def)
  have ev: "set (events d') = (\<lambda>e. if e \<in> set segment then e\<lparr>ev_group := g\<rparr> else e) ` set (events d)"
    unfolding d' using mem by (auto simp: set_updateWhere image_iff)
  have old: "\<forall>e \<in> set segment. e \<in> set (events d) \<and> ev_group e = old \<and> ev_deleted e = None"
    using seg(3) by (auto simp: liveIn_def)
  have fresh: "ev_group e \<noteq> g" if "e \<in> set (events d)" for e
    using that wf cl(1) g by (metis wfDb_def)
  have og: "old \<noteq> g" using seg(1) old fresh by (cases segment) auto
  have "wfAt g d1" using cl(2,4) g by (simp add: wfAt_def)
  then have "wfAt g d'" using preservesD[OF updateManyEvents_wfAt[of "\<lambda>e. e\<lparr>ev_group := g\<rparr>" g ?P]] u g by auto
  then show "wfDb d'" by (simp add: wfAt_def)
  show "g \<notin> gr_id ` set (groups d)" using cl(1) g by simp
  show "gr_id ` set (groups d') = insert g (gr_id ` set (groups d))" using cl(4) by (simp add: d' g)
  show lg: "liveIn d' g = (\<lambda>e. e\<lparr>ev_group := g\<rparr>) ` set segment"
    using old fresh by (auto simp: liveIn_def ev image_iff split: if_splits)
  show "liveIn d' old = liveIn d old - set segment"
    using old og by (auto simp: liveIn_def ev image_iff split: if_splits)
  have gb: "groupById d' h = (if h = g then Some r else groupById d h)" for h
    using groupById_append_new[OF cl(4,1)] by (simp add: d' g)
  show "liveIn d' h = liveIn d h" if "h \<noteq> g" "h \<noteq> old" for h
    using that old by (auto simp: liveIn_def ev image_iff split: if_splits)
  show "groupById d' h = groupById d h" if "h \<noteq> g" for h using gb that by simp
  show "old \<noteq> g" by (rule og)
  show "windowTight d' g"
    unfolding windowTight_def lg bounds_regroup using segmentBounds_Min_Max[OF seg(1,2)] cl(5,6) gb by simp
qed


text \<open>All the segments after the first, one after the other.\<close>

lemma moveSegments:
  assumes "forEach (moveSegment src) segs d = Inr (gs, d')" and "wfDb d"
    and "\<forall>s \<in> set segs. s \<noteq> [] \<and> sorted (map ev_start s) \<and> set s \<subseteq> liveIn d old"
    and "distinct (concat segs)"
  shows "wfDb d' \<and> (\<forall>g \<in> set gs. windowTight d' g \<and> g \<notin> gr_id ` set (groups d) \<and> g \<noteq> old) \<and>
    (\<forall>h. h \<notin> set gs \<longrightarrow> h \<noteq> old \<longrightarrow> liveIn d' h = liveIn d h) \<and>
    (\<forall>h. h \<notin> set gs \<longrightarrow> groupById d' h = groupById d h) \<and>
    liveIn d' old = liveIn d old - set (concat segs) \<and> length gs = length segs \<and>
    (\<forall>k < length segs. liveIn d' (gs ! k) = (\<lambda>e. e\<lparr>ev_group := gs ! k\<rparr>) ` set (segs ! k))"
  using assms
proof (induction segs arbitrary: d gs)
  case (Cons s segs)
  obtain g d1 gs1 where m: "moveSegment src s d = Inr (g, d1)" and r: "forEach (moveSegment src) segs d1 = Inr (gs1, d')"
    and gs: "gs = g # gs1"
    using Cons.prems(1) by (auto simp: andThen_Inr_iff)
  have s: "s \<noteq> []" "sorted (map ev_start s)" "set s \<subseteq> liveIn d old" using Cons.prems(3) by auto
  note p = moveSegment_parts[OF Cons.prems(2) m s]
  have "\<forall>s' \<in> set segs. s' \<noteq> [] \<and> sorted (map ev_start s') \<and> set s' \<subseteq> liveIn d1 old"
    using Cons.prems(3,4) by (fastforce simp: p(8))
  from Cons.IH[OF r p(1) this] Cons.prems(4) have ih: "wfDb d'"
    "\<forall>h \<in> set gs1. windowTight d' h \<and> h \<notin> gr_id ` set (groups d1) \<and> h \<noteq> old"
    "\<forall>h. h \<notin> set gs1 \<longrightarrow> h \<noteq> old \<longrightarrow> liveIn d' h = liveIn d1 h"
    "\<forall>h. h \<notin> set gs1 \<longrightarrow> groupById d' h = groupById d1 h"
    "liveIn d' old = liveIn d1 old - set (concat segs)" "length gs1 = length segs"
    "\<forall>k < length segs. liveIn d' (gs1 ! k) = (\<lambda>e. e\<lparr>ev_group := gs1 ! k\<rparr>) ` set (segs ! k)"
    by auto
  have g: "g \<notin> set gs1" using ih(2) p(4) by auto
  then have same: "liveIn d' g = liveIn d1 g" "groupById d' g = groupById d1 g" using ih(3,4) p(7) by auto
  have "liveIn d' (gs ! k) = (\<lambda>e. e\<lparr>ev_group := gs ! k\<rparr>) ` set ((s # segs) ! k)" if "k < length (s # segs)" for k
    using that ih(7) same(1) p(9) by (cases k) (auto simp: gs)
  moreover have "windowTight d' g" using p(3) windowTight_cong[OF same] by simp
  moreover have "liveIn d' old = liveIn d old - set (concat (s # segs))" using ih(5) p(8) by auto
  ultimately show ?case using ih p(2,4-7) by (auto simp: gs)
qed simp


lemma sorted_segments: "sorted (map f (concat segs)) \<Longrightarrow> s \<in> set segs \<Longrightarrow> sorted (map f s)"
  by (induction segs) (auto simp: sorted_append)

text \<open>What is left of the old group is split: its own row is patched, every other segment leaves it.\<close>

lemma splitOriginal_parts:
  assumes sp: "splitOriginalGroup ctx (activeEvents d old) d = Inr (gs, d')" and wf: "wfDb d"
    and old: "ev_group (uc_target ctx) = old"
  shows "wfDb d' \<and> (\<forall>g \<in> set gs. windowTight d' g \<and> g \<noteq> old \<and> g \<notin> gr_id ` set (groups d)) \<and>
    (\<forall>h. h \<notin> set gs \<longrightarrow> h \<noteq> old \<longrightarrow> liveIn d' h = liveIn d h \<and> groupById d' h = groupById d h)"
proof (cases "splitByTimeContinuity (activeEvents d old)")
  case Nil
  then show ?thesis using sp wf by (auto simp: splitOriginalGroup_def)
next
  case (Cons first others)
  note ss = split_parts[of "activeEvents d old", unfolded Cons]
  have srt: "sorted (map ev_start (activeEvents d old))" by (simp add: activeEvents_def)
  then have cc: "concat (first # others) = activeEvents d old" using ss by (simp add: sorted_sort_id sort_key_id_if_sorted)
  obtain d1 where u: "updateGroup old (\<lambda>r. r\<lparr>gr_start := fst (segmentBounds first), gr_end := snd (segmentBounds first)\<rparr>) d = Inr ((), d1)"
    and m: "forEach (moveSegment (uc_source ctx)) others d1 = Inr (gs, d')"
    using sp by (auto simp: splitOriginalGroup_def Cons andThen_Inr_iff old split: prod.splits)
  have f: "gr_id (r\<lparr>gr_start := a, gr_end := b\<rparr>) = gr_id r" for r :: group_row and a b by simp
  have wf1: "wfDb d1" by (rule wf_updateGroup[OF wf f u])
  have ids: "gr_id ` set (groups d1) = gr_id ` set (groups d)" using updateGroup_ids[OF f u] by (metis list.set_map)
  have ev: "events d1 = events d" using u by (auto simp: updateGroup_Inr)
  then have live: "liveIn d1 h = liveIn d h" for h by (simp add: liveIn_def)
  have segs: "\<forall>s \<in> set others. s \<noteq> [] \<and> sorted (map ev_start s) \<and> set s \<subseteq> liveIn d1 old"
  proof
    fix s assume s: "s \<in> set others"
    then have "set s \<subseteq> set (activeEvents d old)" using cc by (metis concat.simps(2) set_append set_concat UnCI UN_I subsetI)
    then show "s \<noteq> [] \<and> sorted (map ev_start s) \<and> set s \<subseteq> liveIn d1 old"
      using s ss sorted_segments[of ev_start "first # others" s] srt cc by (auto simp: set_activeEvents live)
  qed
  have "distinct (activeEvents d old)" using wf by (auto simp: activeEvents_def wfDb_def distinct_map)
  then have dist: "distinct (concat others)" using cc by (metis concat.simps(2) distinct_append)
  from moveSegments[OF m wf1 segs dist] show ?thesis
    using updateGroup_other(1)[OF f u] ids live by auto
qed

text \<open>An edit that succeeds keeps the rows consistent and leaves tight windows on the groups it reports.\<close>

lemma updateSingleById_windows:
  assumes wf: "wfDb d" and t: "uc_target ctx \<in> set (events d)" and u: "updateSingleById ctx i u d = Inr (res, d')"
  shows "wfDb d' \<and> (\<forall>g \<in> set (ur_affected res). windowTight d' g)"
proof -
  let ?g = "ev_group (uc_target ctx)"
  obtain e d1 b where e: "updateEvent i (applyUpdate u) d = Inr (e, d1)" and s: "syncGroupWindow ?g d1 = Inr (b, d')"
    and r: "ur_affected res = [?g]"
    using u by (auto simp: updateSingleById_def andThen_Inr_iff)
  have at: "wfAt ?g d" using wf t by (auto simp: wfAt_def wfDb_def)
  have "wfAt ?g d1"
    by (rule preservesD[OF updateEvent_wfAt at e]) (simp_all add: applyUpdate_def Let_def)
  moreover have "preserves (wfAt ?g) (syncGroupWindow ?g)"
    unfolding syncGroupWindow_def by (auto intro!: preserves_rules split: list.split)
  ultimately show ?thesis using preservesD[of "wfAt ?g" _ d1 b d'] s syncWindow_tight(1)[OF s] r by (auto simp: wfAt_def)
qed


lemma applyUpdate_simps [simp]:
  "ev_id (applyUpdate u e) = ev_id e" "ev_group (applyUpdate u e) = ev_group e" "ev_deleted (applyUpdate u e) = ev_deleted e"
  "ev_start (applyUpdate u e) = orElse (ud_start u) (ev_start e)" "ev_end (applyUpdate u e) = orElse (ud_end u) (ev_end e)"
  by (simp_all add: applyUpdate_def Let_def)

lemma updateGroup_preserves: "(\<And>r. gr_id (f r) = gr_id r) \<Longrightarrow> preserves wfDb (updateGroup i f)"
  by (rule preservesI) (rule wf_updateGroup)

lemma updateManyById_windows:
  assumes wf: "wfDb d" and t: "uc_target ctx \<in> set (events d)" "ev_id (uc_target ctx) = i" "ev_deleted (uc_target ctx) = None"
    and st: "ud_start u = Some s" "ud_end u = Some f" and u: "updateManyById ctx i u d = Inr (res, d')"
  shows "wfDb d' \<and> (\<forall>g \<in> set (ur_affected res). windowTight d' g)"
proof -
  let ?old = "ev_group (uc_target ctx)"
  obtain g d1 e d2 gs d3 b where c: "cloneGroup (uc_source ctx) s f d = Inr (g, d1)"
    and e: "updateEvent i (\<lambda>e. (applyUpdate u e)\<lparr>ev_group := gr_id g\<rparr>) d1 = Inr (e, d2)"
    and sp: "splitOriginalGroup ctx (activeEvents d2 ?old) d2 = Inr (gs, d3)"
    and sy: "syncGroupWindow ?old d3 = Inr (b, d')" and r: "ur_affected res = uniq (?old # gr_id g # gs)"
    using u st by (auto simp: updateManyById_def andThen_Inr_iff Let_def split: if_splits)
  note cl = cloneGroup_parts[OF wf c]
  have old: "?old \<in> gr_id ` set (groups d)" using wf t(1) by (simp add: wfDb_def)
  have on: "?old \<noteq> gr_id g" using old cl(1) by auto
  have "wfAt (gr_id g) d1" using cl(2,4) by (simp add: wfAt_def)
  from preservesD[OF updateEvent_wfAt this e] have wf2: "wfDb d2" by (simp add: wfAt_def applyUpdate_def Let_def)
  have ev: "events d2 = updateWhere (\<lambda>e. ev_id e = i) (\<lambda>e. (applyUpdate u e)\<lparr>ev_group := gr_id g\<rparr>) (events d)"
    and gr2: "groups d2 = groups d @ [g]"
    using updateEvent_events[OF e] cl(3,4) by simp_all
  have only: "x = uc_target ctx" if "x \<in> set (events d)" "ev_id x = i" for x
    using that t(1,2) wf by (auto simp: wfDb_def distinct_map inj_on_def)
  have notin: "ev_group x \<noteq> gr_id g" if "x \<in> set (events d)" for x
    using that wf cl(1) by (metis wfDb_def)
  let ?m = "(applyUpdate u (uc_target ctx))\<lparr>ev_group := gr_id g\<rparr>"
  have "liveIn d2 (gr_id g) = {?m}"
  proof (intro set_eqI iffI)
    fix x assume "x \<in> liveIn d2 (gr_id g)"
    then obtain y where y: "y \<in> set (events d)" "x = (if ev_id y = i then (applyUpdate u y)\<lparr>ev_group := gr_id g\<rparr> else y)"
      "ev_group x = gr_id g" by (auto simp: liveIn_def ev set_updateWhere)
    then show "x \<in> {?m}" using only[of y] notin[of y] by (cases "ev_id y = i") auto
  next
    fix x assume "x \<in> {?m}"
    then show "x \<in> liveIn d2 (gr_id g)" using t by (auto simp: liveIn_def ev set_updateWhere intro!: image_eqI[of _ _ "uc_target ctx"])
  qed
  moreover have "groupById d2 (gr_id g) = Some g"
    using groupById_append_new[OF cl(4,1), of "gr_id g"] gr2 cl(4) by (simp add: groupById_def)
  ultimately have tight2: "windowTight d2 (gr_id g)"
    using cl(5,6) st by (simp add: windowTight_def applyUpdate_def Let_def)
  note so = splitOriginal_parts[OF sp wf2 refl]
  have gn: "gr_id g \<notin> set gs" using so gr2 by auto
  then have t3: "windowTight d3 (gr_id g)" using so on tight2 windowTight_cong[of d3 "gr_id g" d2] by metis
  note w = syncWindow_tight[OF sy]
  have lv: "liveIn d' h = liveIn d3 h" for h using w(2) by (simp add: liveIn_def)
  have keep: "windowTight d' h" if "windowTight d3 h" "h \<noteq> ?old" for h
    using that windowTight_cong[OF lv w(3)] by blast
  have wf3: "wfDb d3" using so by blast
  have pw: "preserves wfDb (syncGroupWindow ?old)"
    unfolding syncGroupWindow_def by (auto intro!: preserves_rules updateGroup_preserves split: list.split)
  have "wfDb d'" by (rule preservesD[OF pw wf3 sy])
  moreover have "windowTight d' h" if h: "h \<in> set (ur_affected res)" for h
  proof -
    consider "h = ?old" | "h = gr_id g" | "h \<in> set gs" using h unfolding r set_uniq by auto
    then show ?thesis using keep[of h] t3 so on w(1) by cases metis+
  qed
  ultimately show ?thesis by blast
qed


lemma loadContext_parts:
  assumes "loadContext i d = Inr (ctx, d')"
  shows "d' = d" "uc_target ctx \<in> set (events d)" "ev_id (uc_target ctx) = i" "ev_deleted (uc_target ctx) = None"
  using assms by (auto simp: loadContext_def andThen_Inr_iff dest: eventById_Some split: option.splits if_splits)

lemma prepareInput_dates:
  "prepareInput parse ev True = Inr u \<Longrightarrow> ud_start u \<noteq> None \<and> ud_end u \<noteq> None"
  by (auto simp: prepareInput_def buildEventUpdateData_def optionalDate_def toDateOrThrow_def split: if_splits option.splits)

lemma updateByIdTx_windows:
  assumes "wfDb d" and "isMany \<longrightarrow> ud_start u \<noteq> None \<and> ud_end u \<noteq> None" and "updateByIdTx i isMany u d = Inr (res, d')"
  shows "wfDb d' \<and> (\<forall>g \<in> set (ur_affected res). windowTight d' g)"
proof -
  obtain ctx d1 where c: "loadContext i d = Inr (ctx, d1)"
    and u: "(if \<not> isMany then updateSingleById ctx i u else updateManyById ctx i u) d1 = Inr (res, d')"
    using assms(3) by (auto simp: updateByIdTx_def andThen_Inr_iff)
  note p = loadContext_parts[OF c]
  show ?thesis
  proof (cases isMany)
    case True
    then obtain s f where "ud_start u = Some s" "ud_end u = Some f" using assms(2) by auto
    then show ?thesis using updateManyById_windows[OF assms(1) p(2-4)] u p(1) True by simp
  next
    case False
    then show ?thesis using updateSingleById_windows[OF assms(1) p(2)] u p(1) by simp
  qed
qed

section \<open>Deletions\<close>

lemma deleteEventTx_apply:
  "deleteEventTx idList ruleIds groupIds d =
    (let es = filter (\<lambda>e. ev_id e \<notin> set idList) (events d); live = ev_group ` set es in
     Inr ((), d\<lparr>events := es,
       participants := filter (\<lambda>p. \<not> (pt_group p \<in> set groupIds \<and> pt_group p \<in> gr_id ` set (groups d) \<and> pt_group p \<notin> live)) (participants d),
       groups := filter (\<lambda>g. \<not> (gr_id g \<in> set groupIds \<and> gr_id g \<notin> live)) (groups d),
       rules := filter (\<lambda>r. \<not> (r \<in> set ruleIds \<and> (\<forall>e \<in> set es. ev_rule e = Some r \<longrightarrow> ev_id e \<in> set idList))) (rules d)\<rparr>))"
  by (auto simp: deleteEventTx_def andThen_apply Let_def)


definition deletedGroups :: "ident list \<Rightarrow> db \<Rightarrow> ident set" where
  "deletedGroups ids d =
     {g. g \<in> ev_group ` {e \<in> set (events d). ev_id e \<in> set ids} \<and>
         g \<notin> ev_group ` {e \<in> set (events d). ev_id e \<notin> set ids}}"

lemma deleteEvent_eq:
  "deleteEvent ids s =
    (case deleteEventTx ids
        (uniq (List.map_filter (\<lambda>e. if truthy (ev_rule e) then ev_rule e else None) (filter (\<lambda>e. ev_id e \<in> set ids) (events (pl_db s)))))
        (uniq (filter (\<lambda>g. g \<noteq> []) (map ev_group (filter (\<lambda>e. ev_id e \<in> set ids) (events (pl_db s)))))) (pl_db s) of
       Inl e \<Rightarrow> (Inl (Wrapped ''EventPlatformCommandService.deleteEvent'' e), s)
     | Inr (x, d) \<Rightarrow> (Inr x, s\<lparr>pl_db := d\<rparr>))"
  by (simp add: deleteEvent_def inService_def onDb_def ebind_def ecatch_def ethrow_def Let_def split: sum.split prod.split)

lemma deleteEvent_apply:
  assumes "[] \<notin> gr_id ` set (groups (pl_db s))" and "wfDb (pl_db s)" and "deleteEvent ids s = (r, s')"
  shows "r = Inr ()" "events (pl_db s') = filter (\<lambda>e. ev_id e \<notin> set ids) (events (pl_db s))"
    "groups (pl_db s') = filter (\<lambda>g. gr_id g \<notin> deletedGroups ids (pl_db s)) (groups (pl_db s))"
    "participants (pl_db s') = filter (\<lambda>p. pt_group p \<notin> deletedGroups ids (pl_db s)) (participants (pl_db s))"
    "idSupply (pl_db s') = idSupply (pl_db s)" "nextId (pl_db s') = nextId (pl_db s)"
proof -
  let ?d = "pl_db s"
  have ne: "ev_group e \<noteq> []" if "e \<in> set (events ?d)" for e
    using that assms(1,2) by (metis wfDb_def)
  define G where "G = uniq (filter (\<lambda>g. g \<noteq> []) (map ev_group (filter (\<lambda>e. ev_id e \<in> set ids) (events ?d))))"
  define es where "es = filter (\<lambda>e. ev_id e \<notin> set ids) (events ?d)"
  have g: "g \<in> set G \<and> g \<notin> ev_group ` set es \<longleftrightarrow> g \<in> deletedGroups ids ?d" for g
    unfolding G_def es_def set_uniq using ne by (auto simp: deletedGroups_def)
  have p: "pt_group p \<in> gr_id ` set (groups ?d)" if "p \<in> set (participants ?d)" for p
    using that assms(2) by (simp add: wfDb_def)
  obtain R where e: "r = Inr ()" "pl_db s' = ?d\<lparr>events := es,
      participants := filter (\<lambda>p. \<not> (pt_group p \<in> set G \<and> pt_group p \<in> gr_id ` set (groups ?d) \<and> pt_group p \<notin> ev_group ` set es)) (participants ?d),
      groups := filter (\<lambda>g. \<not> (gr_id g \<in> set G \<and> gr_id g \<notin> ev_group ` set es)) (groups ?d), rules := R\<rparr>"
    using assms(3) unfolding deleteEvent_eq G_def[symmetric] deleteEventTx_apply Let_def es_def[symmetric] by auto
  show "r = Inr ()" "events (pl_db s') = filter (\<lambda>e. ev_id e \<notin> set ids) (events ?d)"
    "idSupply (pl_db s') = idSupply ?d" "nextId (pl_db s') = nextId ?d"
    by (simp_all add: e es_def)
  have "filter (\<lambda>g. \<not> (gr_id g \<in> set G \<and> gr_id g \<notin> ev_group ` set es)) (groups ?d) =
      filter (\<lambda>g. gr_id g \<notin> deletedGroups ids ?d) (groups ?d)"
    by (rule filter_cong[OF refl]) (simp only: g)
  then show "groups (pl_db s') = filter (\<lambda>g. gr_id g \<notin> deletedGroups ids ?d) (groups ?d)" by (simp add: e)
  have "filter (\<lambda>p. \<not> (pt_group p \<in> set G \<and> pt_group p \<in> gr_id ` set (groups ?d) \<and> pt_group p \<notin> ev_group ` set es)) (participants ?d) =
      filter (\<lambda>p. pt_group p \<notin> deletedGroups ids ?d) (participants ?d)"
    by (rule filter_cong[OF refl]) (use g p in blast)
  then show "participants (pl_db s') = filter (\<lambda>p. pt_group p \<notin> deletedGroups ids ?d) (participants ?d)" by (simp add: e)
qed

lemma deleteEvent_wf:
  assumes "[] \<notin> gr_id ` set (groups (pl_db s))" and "wfDb (pl_db s)" and "deleteEvent ids s = (r, s')"
  shows "wfDb (pl_db s')"
proof -
  note a = deleteEvent_apply[OF assms]
  have "ev_group e \<notin> deletedGroups ids (pl_db s)" if "e \<in> set (events (pl_db s))" "ev_id e \<notin> set ids" for e
    using that by (auto simp: deletedGroups_def)
  moreover have "x \<in> gr_id ` {r \<in> set (groups (pl_db s)). gr_id r \<notin> deletedGroups ids (pl_db s)}"
    if "x \<in> gr_id ` set (groups (pl_db s))" "x \<notin> deletedGroups ids (pl_db s)" for x
    using that by auto
  ultimately show ?thesis using assms(2)
    by (auto simp: wfDb_def a freshSupply_def distinct_map_filter)
qed


section \<open>A booking to edit\<close>

text \<open>Three services in a row, of which the middle one is moved away.\<close>

definition row_event :: "ident \<Rightarrow> instant \<Rightarrow> event_row" where
  "row_event i s = (demo_event 1)\<lparr>ev_id := i, ev_start := s, ev_end := s + 3600000\<rparr>"

definition row_db :: db where
  "row_db = (demo_db 1 ACCEPTED demo_ps)\<lparr>events := [row_event ''e1'' 32400000, row_event ''e2'' 36000000, row_event ''e3'' 39600000]\<rparr>"

definition row_input :: update_event_input where
  "row_input = \<lparr>ue_id = ''e2'', ue_start = Some (DateValue (Some 54000000)), ue_end = Some (DateValue (Some 57600000)),
     ue_title = None, ue_description = None, ue_user = None, ue_service = None, ue_purpose = None, ue_allDay = None,
     ue_nameSnap = None, ue_priceSnap = None, ue_discountSnap = None, ue_durationSnap = None, ue_maxPartSnap = None\<rparr>"

definition row_update :: update_data where
  "row_update = \<lparr>ud_start = Some 54000000, ud_end = Some 57600000, ud_input = row_input\<rparr>"

lemma row_prepared: "prepareInput (\<lambda>_. None) row_input True = Inr row_update"
  by (simp add: prepareInput_def row_input_def row_update_def buildEventUpdateData_def optionalDate_def toDateOrThrow_def)

lemma row_wf: "wfDb row_db"
  using demo_wf_ps[of 1 ACCEPTED]
  by (auto simp: wfDb_def row_db_def row_event_def demo_db_def demo_event_def freshSupply_def demo_supply_head demo_group_def)

lemma row_result:
  "case updateByIdTx ''e2'' True row_update row_db of
     Inl _ \<Rightarrow> False
   | Inr (res, d') \<Rightarrow> length (ur_affected res) = 3 \<and>
       map (\<lambda>g. (gr_start g, gr_end g)) (groups d') = [(32400000, 36000000), (54000000, 57600000), (39600000, 43200000)]"
  by code_simp


section \<open>Properties\<close>

text \<open>C19: an edit by identifier that succeeds keeps the rows consistent, and every booking it
  reports as affected (the old one, the new one of a moved event, the ones split off) has the window
  from the first start to the last end of its live events.\<close>

theorem update_by_id_windows:
  assumes "wfDb d" and "prepareInput parse ev isMany = Inr u" and "updateByIdTx (ue_id ev) isMany u d = Inr (res, d')"
  shows "wfDb d' \<and> (\<forall>g \<in> set (ur_affected res). windowTight d' g)"
  using updateByIdTx_windows[OF assms(1) _ assms(3)] prepareInput_dates assms(2) by metis

theorem update_by_id_windows_witness:
  "\<exists>res d'. updateByIdTx ''e2'' True row_update row_db = Inr (res, d') \<and> length (ur_affected res) = 3 \<and>
     (\<forall>g \<in> set (ur_affected res). windowTight d' g)"
proof -
  obtain res d' where r: "updateByIdTx ''e2'' True row_update row_db = Inr (res, d')" "length (ur_affected res) = 3"
    using row_result by (auto split: sum.splits)
  have "ue_id row_input = ''e2''" by (simp add: row_input_def)
  from update_by_id_windows[OF row_wf row_prepared, unfolded this, OF r(1)] r show ?thesis by blast
qed

text \<open>The split of a booking at its gaps puts all its events, in the order of their starts, into
  segments that are not empty; in a segment every event starts before the one before it has ended, and
  between two segments there is a gap.\<close>

theorem split_segments:
  "concat (splitByTimeContinuity evs) = sort_key ev_start evs \<and> [] \<notin> set (splitByTimeContinuity evs) \<and>
   (\<forall>s \<in> set (splitByTimeContinuity evs). continuous s) \<and> gapped (splitByTimeContinuity evs)"
  by (rule split_parts)

theorem split_segments_witness:
  "continuous [row_event ''e1'' 32400000] \<and> gapped [[row_event ''e1'' 32400000], [row_event ''e2'' 39600000]]"
proof -
  have "splitByTimeContinuity [row_event ''e2'' 39600000, row_event ''e1'' 32400000] =
      [[row_event ''e1'' 32400000], [row_event ''e2'' 39600000]]" by code_simp
  then show ?thesis using split_segments[of "[row_event ''e2'' 39600000, row_event ''e1'' 32400000]"] by simp
qed

text \<open>The gap is measured from the end of the event before it, not from the last end so far: an event
  that is still running does not keep a segment together.\<close>

lemma split_ignores_running_event:
  "map (map ev_id) (splitByTimeContinuity
     [(row_event ''e1'' 32400000)\<lparr>ev_end := 43200000\<rparr>, (row_event ''e2'' 34200000)\<lparr>ev_end := 36000000\<rparr>,
      (row_event ''e3'' 39600000)\<lparr>ev_end := 41400000\<rparr>]) = [[''e1'', ''e2''], [''e3'']]"
  by code_simp

text \<open>Deleting events always succeeds; the events with the given identifiers go, and of the
  bookings exactly those that lose an event and have none left, with their participants; nothing else
  is deleted and the rows stay consistent.\<close>

theorem delete_event_exact:
  assumes "wfDb (pl_db s)" and "[] \<notin> gr_id ` set (groups (pl_db s))" and "deleteEvent ids s = (r, s')"
  shows "r = Inr () \<and> wfDb (pl_db s') \<and>
    events (pl_db s') = filter (\<lambda>e. ev_id e \<notin> set ids) (events (pl_db s)) \<and>
    groups (pl_db s') = filter (\<lambda>g. gr_id g \<notin> deletedGroups ids (pl_db s)) (groups (pl_db s)) \<and>
    participants (pl_db s') = filter (\<lambda>p. pt_group p \<notin> deletedGroups ids (pl_db s)) (participants (pl_db s))"
  using deleteEvent_apply[OF assms(2,1,3)] deleteEvent_wf[OF assms(2,1,3)] by simp

theorem delete_event_exact_witness:
  "groups (pl_db (snd (deleteEvent [''e1''] \<lparr>pl_db = demo_db 1 ACCEPTED demo_ps, pl_sent = [], pl_purged = []\<rparr>))) = []"
proof -
  let ?s = "\<lparr>pl_db = demo_db 1 ACCEPTED demo_ps, pl_sent = [], pl_purged = []\<rparr>"
  obtain r s' where s': "deleteEvent [''e1''] ?s = (r, s')" by fastforce
  have ev: "events (pl_db ?s) = [demo_event 1]" "ev_id (demo_event 1) = ''e1''" "ev_group (demo_event 1) = ''g1''"
    by (simp_all add: demo_db_def demo_event_def)
  have del: "deletedGroups [''e1''] (pl_db ?s) = {''g1''}" unfolding deletedGroups_def ev(1) by (auto simp: ev(2,3))
  have g: "groups (pl_db ?s) = [demo_group ACCEPTED]" "gr_id (demo_group ACCEPTED) = ''g1''"
    by (simp_all add: demo_db_def demo_group_def)
  have "wfDb (pl_db ?s)" "[] \<notin> gr_id ` set (groups (pl_db ?s))"
    unfolding g(1) using g(2) by (simp_all add: demo_wf_ps)
  from delete_event_exact[OF this s']
  have "groups (pl_db s') = filter (\<lambda>g. gr_id g \<notin> deletedGroups [''e1''] (pl_db ?s)) (groups (pl_db ?s))" by blast
  then show ?thesis unfolding g(1) del s' by (simp add: g(2))
qed

end
