(* ===== verification/CalUpsert.thy ===== *)
theory CalUpsert
  imports CalPlatform
begin

text \<open>
  The booking editor of the platform (\<open>upsertEvent.service.ts\<close>): one payload describes a booking, its
  services in order and its clients, and the transaction makes the rows agree with it. A \<open>Date\<close> is
  moved by minutes in the zone of the server, which is taken to have no daylight saving time.
\<close>

section \<open>The payload\<close>

record side_service =
  ss_event :: "ident option"
  ss_service :: ident
  ss_duration :: int
  ss_name :: string
  ss_price :: rat
  ss_discount :: rat
  ss_worker :: "ident option"

record side_client =
  sc_client :: ident
  sc_clientWs :: ident

record side_payload =
  sp_type :: string
  sp_mode :: string
  sp_description :: "string option"
  sp_status :: "string option"
  sp_comment :: "string option"
  sp_group :: "string option"
  sp_company :: ident
  sp_workspace :: ident
  sp_services :: "side_service list"
  sp_clients :: "side_client list"
  sp_start :: "string option"
  sp_end :: "string option"
  sp_notify :: bool

definition normalizeGroupId :: "string option \<Rightarrow> ident option" where
  "normalizeGroupId idGroup =
     (case idGroup of None \<Rightarrow> None | Some s \<Rightarrow> (if trim s \<noteq> [] then Some (trim s) else None))"

definition parseOptionalDate :: "(string \<Rightarrow> instant option) \<Rightarrow> string option \<Rightarrow> instant option" where
  "parseOptionalDate parse value =
     (case value of None \<Rightarrow> None | Some s \<Rightarrow> (if trim s = [] then None else parse (trim s)))"

definition addEndFromServices :: "instant \<Rightarrow> side_service list \<Rightarrow> instant" where
  "addEndFromServices start services = addMinutes start (sum_list (map ss_duration services))"

definition deriveGroupTitle :: "side_payload \<Rightarrow> string" where
  "deriveGroupTitle p =
     (let firstServiceName = (case sp_services p of [] \<Rightarrow> [] | s # _ \<Rightarrow> trim (ss_name s));
          title = (if firstServiceName \<noteq> [] then firstServiceName else ''Booking'')
      in take 100 title)"

fun statusName :: "event_status \<Rightarrow> string" where
  "statusName PENDING = ''PENDING''"
| "statusName ACCEPTED = ''ACCEPTED''"
| "statusName CONFIRMED = ''CONFIRMED''"
| "statusName COMPLETED = ''COMPLETED''"
| "statusName CANCELLED = ''CANCELLED''"
| "statusName CANCELLED_BY_CLIENT = ''CANCELLED_BY_CLIENT''"
| "statusName CANCELLED_BY_CLIENT_REMOVED = ''CANCELLED_BY_CLIENT_REMOVED''"
| "statusName PAID = ''PAID''"
| "statusName NO_SHOW = ''NO_SHOW''"

definition normalizeEventStatusType :: "string option \<Rightarrow> event_status option" where
  "normalizeEventStatusType value =
     (if truthy value
      then List.find (\<lambda>s. statusName s = the value)
        [PENDING, ACCEPTED, CONFIRMED, COMPLETED, CANCELLED, CANCELLED_BY_CLIENT, CANCELLED_BY_CLIENT_REMOVED, PAID, NO_SHOW]
      else None)"

section \<open>The group\<close>

text \<open>The columns both branches write, over the row that is updated or the defaults of the schema.\<close>

definition baseData :: "side_payload \<Rightarrow> group_row \<Rightarrow> group_row" where
  "baseData p r =
     r\<lparr>gr_title := deriveGroupTitle p, gr_company := sp_company p, gr_workspace := sp_workspace p,
       gr_comment := sp_comment p, gr_description := sp_description p, gr_source := PLATFORM,
       gr_editable := True, gr_notifies := sp_notify p,
       gr_status := orElse (normalizeEventStatusType (sp_status p)) (gr_status r)\<rparr>"

definition defaultGroup :: "group_row" where
  "defaultGroup = \<lparr>gr_id = [], gr_title = [], gr_company = [], gr_workspace = [], gr_start = 0, gr_end = 0,
     gr_comment = None, gr_commentRead = False, gr_status = PENDING, gr_tz = ''Europe/Madrid'',
     gr_source = PLATFORM, gr_description = None, gr_editable = True, gr_updates = Some 0,
     gr_notifies = False, gr_deleted = None\<rparr>"

text \<open>The end of the payload: its own, or else its start and what the services take.\<close>

definition payloadEnd :: "(string \<Rightarrow> instant option) \<Rightarrow> side_payload \<Rightarrow> instant option" where
  "payloadEnd parse p =
     (case parseOptionalDate parse (sp_end p) of
        Some t \<Rightarrow> Some t
      | None \<Rightarrow> map_option (\<lambda>s. addEndFromServices s (sp_services p)) (parseOptionalDate parse (sp_start p)))"

definition groupUpdate :: "(string \<Rightarrow> instant option) \<Rightarrow> side_payload \<Rightarrow> group_row \<Rightarrow> group_row" where
  "groupUpdate parse p r =
     (baseData p r)\<lparr>gr_start := orElse (parseOptionalDate parse (sp_start p)) (gr_start r),
       gr_end := orElse (payloadEnd parse p) (gr_end r), gr_deleted := None\<rparr>"

definition payloadGroup :: "(string \<Rightarrow> instant option) \<Rightarrow> side_payload \<Rightarrow> instant \<Rightarrow> group_row" where
  "payloadGroup parse p s =
     (baseData p defaultGroup)\<lparr>gr_start := s,
       gr_end := orElse (payloadEnd parse p) (addEndFromServices s (sp_services p))\<rparr>"

definition ensureGroupEvents ::
  "(string \<Rightarrow> instant option) \<Rightarrow> side_payload \<Rightarrow> ident option \<Rightarrow> group_row tx" where
  "ensureGroupEvents parse p groupId =
     (case groupId of
        Some g \<Rightarrow>
          andThen (readState (\<lambda>d. groupById d g)) (\<lambda>existing.
          case existing of
            Some r \<Rightarrow> andThen (updateGroup g (groupUpdate parse p)) (\<lambda>_. ret (groupUpdate parse p r))
          | None \<Rightarrow>
              (case parseOptionalDate parse (sp_start p) of
                 None \<Rightarrow> throw (PlainError ''startDate es requerido para crear un booking nuevo (idGroup no existe)'')
               | Some s \<Rightarrow> createGroup (Some g) (payloadGroup parse p s)))
      | None \<Rightarrow>
          (case parseOptionalDate parse (sp_start p) of
             None \<Rightarrow> throw (PlainError ''startDate es requerido para crear un booking nuevo'')
           | Some s \<Rightarrow> createGroup None (payloadGroup parse p s)))"

section \<open>The services\<close>

definition serviceData :: "side_payload \<Rightarrow> side_service \<Rightarrow> instant \<Rightarrow> instant \<Rightarrow> ident \<Rightarrow> event_row \<Rightarrow> event_row" where
  "serviceData p s startD endD g e =
     e\<lparr>ev_title := ss_name s, ev_description := (if truthy (sp_description p) then sp_description p else None),
       ev_start := startD, ev_end := endD, ev_service := Some (ss_service s),
       ev_user := (if truthy (ss_worker s) then ss_worker s else None),
       ev_nameSnap := Some (ss_name s), ev_priceSnap := Some (ss_price s),
       ev_discountSnap := Some (ss_discount s), ev_durationSnap := Some (ss_duration s),
       ev_company := sp_company p, ev_group := g\<rparr>"

definition defaultEvent :: event_row where
  "defaultEvent = \<lparr>ev_id = [], ev_group = [], ev_company = [], ev_title = [], ev_service = None, ev_user = None,
     ev_start = 0, ev_end = 0, ev_purpose = APPOINTMENT, ev_nameSnap = None, ev_priceSnap = None,
     ev_discountSnap = None, ev_durationSnap = Some 60, ev_maxPartSnap = Some 1, ev_deleted = None,
     ev_description = None, ev_allDay = False, ev_rule = None\<rparr>"

text \<open>An identifier that starts with \<open>new-\<close> is one the editor made up.\<close>

definition keepsEvent :: "side_service \<Rightarrow> bool" where
  "keepsEvent s \<longleftrightarrow> truthy (ss_event s) \<and> take 4 (the (ss_event s)) \<noteq> ''new-''"

fun upsertServices :: "side_payload \<Rightarrow> ident \<Rightarrow> instant \<Rightarrow> side_service list \<Rightarrow> event_row list tx" where
  "upsertServices p g cur [] = ret []"
| "upsertServices p g cur (s # rest) =
     (let endD = addMinutes cur (ss_duration s) in
      andThen
        (if keepsEvent s
         then updateEvent (the (ss_event s)) (serviceData p s cur endD g)
         else createEvent (serviceData p s cur endD g defaultEvent)) (\<lambda>ev.
      andThen (upsertServices p g endD rest) (\<lambda>evs. ret (ev # evs))))"

definition upsertParticipants :: "instant \<Rightarrow> ident \<Rightarrow> side_client list \<Rightarrow> unit tx" where
  "upsertParticipants now g clients =
     andThen (updateManyParticipants (\<lambda>p. pt_group p = g \<and> pt_deleted p = None) (\<lambda>p. p\<lparr>pt_deleted := Some now\<rparr>)) (\<lambda>_.
     andThen (forEach (\<lambda>c. createParticipant
         \<lparr>pt_id = [], pt_group = g, pt_client = Some (sc_client c), pt_clientWs = Some (sc_clientWs c),
          pt_status = PENDING, pt_deleted = None\<rparr>) clients) (\<lambda>_. ret ()))"

text \<open>\<open>_softDeleteGroupCascade\<close>\<close>

definition softDeleteGroup :: "instant \<Rightarrow> ident \<Rightarrow> unit tx" where
  "softDeleteGroup now g =
     andThen (updateManyEvents (\<lambda>e. ev_group e = g \<and> ev_deleted e = None) (\<lambda>e. e\<lparr>ev_deleted := Some now\<rparr>)) (\<lambda>_.
     andThen (updateManyParticipants (\<lambda>p. pt_group p = g \<and> pt_deleted p = None) (\<lambda>p. p\<lparr>pt_deleted := Some now\<rparr>)) (\<lambda>_.
     modState (\<lambda>d. d\<lparr>groups := updateWhere (\<lambda>r. gr_id r = g \<and> gr_deleted r = None) (\<lambda>r. r\<lparr>gr_deleted := Some now\<rparr>) (groups d)\<rparr>)))"

text \<open>\<open>_deleteEvents\<close>\<close>

definition deleteObsolete :: "instant \<Rightarrow> ident list \<Rightarrow> unit tx" where
  "deleteObsolete now ids =
     (if ids \<noteq> [] then updateManyEvents (\<lambda>e. ev_id e \<in> set ids) (\<lambda>e. e\<lparr>ev_deleted := Some now\<rparr>) else ret ())"

definition currentEventIds :: "side_payload \<Rightarrow> ident list" where
  "currentEventIds p = List.map_filter (\<lambda>s. if truthy (ss_event s) then ss_event s else None) (sp_services p)"

definition anchorStart :: "(string \<Rightarrow> instant option) \<Rightarrow> side_payload \<Rightarrow> event_row list \<Rightarrow> group_row \<Rightarrow> instant" where
  "anchorStart parse p existing g =
     (case parseOptionalDate parse (sp_start p) of
        Some t \<Rightarrow> t
      | None \<Rightarrow>
          (case filter (\<lambda>e. ev_id e \<in> set (currentEventIds p)) existing of
             e # _ \<Rightarrow> ev_start e
           | [] \<Rightarrow> (case existing of e # _ \<Rightarrow> ev_start e | [] \<Rightarrow> gr_start g)))"

definition upsertTx :: "(string \<Rightarrow> instant option) \<Rightarrow> instant \<Rightarrow> side_payload \<Rightarrow> (event_row list \<times> group_row) tx" where
  "upsertTx parse now p =
     (let groupId = normalizeGroupId (sp_group p) in
      andThen (ensureGroupEvents parse p groupId) (\<lambda>group.
      andThen (readState (\<lambda>d. if groupId \<noteq> None then activeEvents d (gr_id group) else [])) (\<lambda>existing.
      andThen (deleteObsolete now (map ev_id (filter (\<lambda>e. ev_id e \<notin> set (currentEventIds p)) existing))) (\<lambda>_.
      andThen (upsertServices p (gr_id group) (anchorStart parse p existing group) (sp_services p)) (\<lambda>upserted.
      andThen (upsertParticipants now (gr_id group) (sp_clients p)) (\<lambda>_.
      andThen (syncGroupStartEndDates (gr_id group)) (\<lambda>_.
      ret (upserted, group))))))))"

definition upsertEvent ::
  "(string \<Rightarrow> instant option) \<Rightarrow> instant \<Rightarrow> side_payload \<Rightarrow> flat_event list platform_req" where
  "upsertEvent parse now p =
     (if sp_type p \<noteq> ''event''
      then ethrow (PlainError (''Tipo '' @ sp_type p @ '' no soportado en esta version''))
      else if sp_services p = []
      then ebind (case normalizeGroupId (sp_group p) of None \<Rightarrow> eret () | Some g \<Rightarrow> onDb (softDeleteGroup now g))
             (\<lambda>_. eret [])
      else ebind (onDb (upsertTx parse now p)) (\<lambda>(evs, g).
             eret (map (\<lambda>e. \<lparr>fe_event = e, fe_group = Some (g, [])\<rparr>) evs)))"

section \<open>The service\<close>

definition upsertEventByPlatform ::
  "(string \<Rightarrow> instant option) \<Rightarrow> (ident \<Rightarrow> string \<Rightarrow> app_error option) \<Rightarrow> instant \<Rightarrow> side_payload
   \<Rightarrow> (string \<times> flat_event list) platform_req" where
  "upsertEventByPlatform parse fails now p =
     ebind (upsertEvent parse now p) (\<lambda>evs.
     let message = (if sp_mode p = ''create'' then ''Eventos creados exitosamente'' else ''Eventos actualizados exitosamente'');
         firstGroup = (case evs of [] \<Rightarrow> [] | f # _ \<Rightarrow> ev_group (fe_event f)) in
     ebind
       (if sp_notify p \<and> firstGroup \<noteq> []
        then notifyPlatform fails firstGroup (if sp_mode p = ''create'' then ''add'' else ''update'')
        else if \<not> sp_notify p \<and> sp_mode p = ''edit'' \<and> firstGroup \<noteq> []
        then emod (\<lambda>s. s\<lparr>pl_purged := pl_purged s @ [firstGroup]\<rparr>)
        else eret ()) (\<lambda>_.
     eret (message, evs)))"

end
