(* ===== verification/CalUpsertProps.thy ===== *)
theory CalUpsertProps
  imports CalUpsert CalPlatformProps
begin

text \<open>
  Properties of the booking editor of the platform: after it, the live events of the booking are the
  services of the payload, one after the other, its window is theirs, its active participants are the
  clients of the payload, and the rows are consistent.
\<close>

section \<open>The services\<close>

text \<open>The identifiers of the events that the payload keeps.\<close>

definition keptIds :: "side_service list \<Rightarrow> ident list" where
  "keptIds ss = map (\<lambda>s. the (ss_event s)) (filter keepsEvent ss)"

lemma keptIds_simps [simp]:
  "keptIds [] = []" "keptIds (s # ss) = (if keepsEvent s then the (ss_event s) # keptIds ss else keptIds ss)"
  by (simp_all add: keptIds_def)

text \<open>The events of a list of services: each from the end of the one before it, as long as its service
  takes, with its service and worker, in the booking.\<close>

fun scheduled :: "ident \<Rightarrow> instant \<Rightarrow> side_service list \<Rightarrow> event_row list \<Rightarrow> bool" where
  "scheduled g cur [] evs = (evs = [])"
| "scheduled g cur (s # ss) [] = False"
| "scheduled g cur (s # ss) (e # evs) =
     (ev_start e = cur \<and> ev_end e = addMinutes cur (ss_duration s) \<and> ev_service e = Some (ss_service s) \<and>
      ev_user e = (if truthy (ss_worker s) then ss_worker s else None) \<and> ev_group e = g \<and>
      (keepsEvent s \<longrightarrow> ev_id e = the (ss_event s)) \<and> scheduled g (ev_end e) ss evs)"

lemma scheduled_group: "scheduled g cur ss evs \<Longrightarrow> e \<in> set evs \<Longrightarrow> ev_group e = g"
  by (induction g cur ss evs rule: scheduled.induct) auto

lemma serviceData_simps [simp]:
  "ev_id (serviceData p s a b g e) = ev_id e" "ev_group (serviceData p s a b g e) = g"
  "ev_start (serviceData p s a b g e) = a" "ev_end (serviceData p s a b g e) = b"
  "ev_service (serviceData p s a b g e) = Some (ss_service s)"
  "ev_user (serviceData p s a b g e) = (if truthy (ss_worker s) then ss_worker s else None)"
  "ev_deleted (serviceData p s a b g e) = ev_deleted e"
  by (simp_all add: serviceData_def)

lemma upsertServices_preserves: "preserves (wfAt g) (upsertServices p g cur ss)"
  by (induction ss arbitrary: cur) (auto simp: Let_def intro!: preserves_rules)

lemma upsertServices_groups:
  "upsertServices p g cur ss d = Inr (evs, d') \<Longrightarrow> groups d' = groups d \<and> participants d' = participants d"
proof (induction ss arbitrary: cur d evs)
  case (Cons s ss)
  then obtain e d1 evs1 where
    e: "(if keepsEvent s then updateEvent (the (ss_event s)) (serviceData p s cur (addMinutes cur (ss_duration s)) g)
        else createEvent (serviceData p s cur (addMinutes cur (ss_duration s)) g defaultEvent)) d = Inr (e, d1)"
    and r: "upsertServices p g (addMinutes cur (ss_duration s)) ss d1 = Inr (evs1, d')"
    by (auto simp: Let_def andThen_Inr_iff)
  have "groups d1 = groups d \<and> participants d1 = participants d"
    using e by (auto simp: createEvent_Inr updateEvent_def split: if_splits option.splits)
  then show ?case using Cons.IH[OF r] by simp
qed simp

lemma updateEvent_set:
  assumes "wfDb d" and "\<And>e. ev_id (f e) = ev_id e" and "updateEvent i f d = Inr (e, d')"
  shows "\<exists>e0 \<in> set (events d). ev_id e0 = i \<and> e = f e0 \<and>
    set (events d') = insert e {x \<in> set (events d). ev_id x \<noteq> i}"
proof -
  obtain e0 where e0: "eventById d i = Some e0" "e = f e0"
    using assms(3) by (auto simp: updateEvent_def split: option.splits)
  note m = eventById_Some[OF e0(1)]
  have only: "x = e0" if "x \<in> set (events d)" "ev_id x = i" for x
    using that m assms(1) by (auto simp: wfDb_def distinct_map inj_on_def)
  have "set (events d') = (\<lambda>x. if ev_id x = i then f x else x) ` set (events d)"
    using updateEvent_events[OF assms(3)] by (simp add: set_updateWhere)
  then show ?thesis using m only e0(2) by (auto simp: image_iff split: if_splits)
qed

lemma upsertServices_events:
  assumes "upsertServices p g cur ss d = Inr (evs, d')" and "wfAt g d" and "distinct (keptIds ss)"
    and "set (keptIds ss) \<subseteq> ev_id ` set (events d)"
  shows "set (events d') = {x \<in> set (events d). ev_id x \<notin> set (keptIds ss)} \<union> set evs \<and> scheduled g cur ss evs"
  using assms
proof (induction ss arbitrary: cur d evs)
  case (Cons s ss)
  let ?f = "serviceData p s cur (addMinutes cur (ss_duration s)) g"
  obtain e d1 evs1 where
    e: "(if keepsEvent s then updateEvent (the (ss_event s)) ?f else createEvent (?f defaultEvent)) d = Inr (e, d1)"
    and r: "upsertServices p g (addMinutes cur (ss_duration s)) ss d1 = Inr (evs1, d')" and evs: "evs = e # evs1"
    using Cons.prems(1) by (auto simp: Let_def andThen_Inr_iff)
  have wf: "wfDb d" using Cons.prems(2) by (simp add: wfAt_def)
  have at: "wfAt g d1"
    by (rule preservesD[where I = "wfAt g" and m = "if keepsEvent s then updateEvent (the (ss_event s)) ?f
        else createEvent (?f defaultEvent)", OF _ Cons.prems(2) e]) (auto intro!: preserves_rules)
  show ?case
  proof (cases "keepsEvent s")
    case True
    then obtain e0 where e0: "e0 \<in> set (events d)" "ev_id e0 = the (ss_event s)" "e = ?f e0"
      "set (events d1) = insert e {x \<in> set (events d). ev_id x \<noteq> the (ss_event s)}"
      using updateEvent_set[OF wf, of ?f "the (ss_event s)" e d1] e by auto
    have "set (keptIds ss) \<subseteq> ev_id ` set (events d1)"
    proof -
      have "ev_id ` set (events d) \<subseteq> ev_id ` set (events d1)" using e0 by (auto simp: image_iff)
      then show ?thesis using Cons.prems(4) True by auto
    qed
    from Cons.IH[OF r at _ this] Cons.prems(3) True e0 show ?thesis by (auto simp: evs)
  next
    case False
    then have c: "e = (?f defaultEvent)\<lparr>ev_id := idSupply d (nextId d)\<rparr>" "set (events d1) = insert e (set (events d))"
      using e by (auto simp: createEvent_Inr)
    have "idSupply d (nextId d) \<notin> ev_id ` set (events d)"
      using fresh_notin(1)[of d "nextId d"] wf by (simp add: wfDb_def)
    then have "ev_id e \<notin> set (keptIds ss)" using Cons.prems(4) False c(1) by auto
    moreover have "set (keptIds ss) \<subseteq> ev_id ` set (events d1)" using Cons.prems(4) False c(2) by auto
    moreover from Cons.IH[OF r at _ this] Cons.prems(3) False
    have "set (events d') = {x \<in> set (events d1). ev_id x \<notin> set (keptIds ss)} \<union> set evs1"
      "scheduled g (addMinutes cur (ss_duration s)) ss evs1" by auto
    ultimately show ?thesis using False c by (auto simp: evs serviceData_def)
  qed
qed simp


section \<open>The participants\<close>

lemma createParticipants_rows:
  assumes "forEach (\<lambda>c. createParticipant (f c)) cs d = Inr (xs, d')"
  shows "\<exists>is. participants d' = participants d @ map2 (\<lambda>c i. (f c)\<lparr>pt_id := i\<rparr>) cs is \<and> length is = length cs \<and>
    events d' = events d \<and> groups d' = groups d"
  using assms
proof (induction cs arbitrary: d xs)
  case (Cons c cs)
  then obtain d1 xs1 where c: "createParticipant (f c) d = Inr ((), d1)"
    and r: "forEach (\<lambda>c. createParticipant (f c)) cs d1 = Inr (xs1, d')"
    by (auto simp: andThen_Inr_iff)
  from Cons.IH[OF r] obtain js where "participants d' = participants d1 @ map2 (\<lambda>c i. (f c)\<lparr>pt_id := i\<rparr>) cs js"
    "length js = length cs" "events d' = events d1" "groups d' = groups d1" by blast
  then show ?case using c by (intro exI[of _ "idSupply d (nextId d) # js"]) (simp add: createParticipant_Inr)
qed simp

lemma filter_updateWhere_none: "(\<And>x. \<not> P (f x)) \<Longrightarrow> filter P (updateWhere P f xs) = []"
  by (induction xs) auto

lemma map2_first: "length is = length cs \<Longrightarrow> (\<And>c i. h (k c i) = h' c) \<Longrightarrow> map h (map2 k cs is) = map h' cs"
  by (induction cs arbitrary: "is") (auto simp: length_Suc_conv)

lemma upsertParticipants_active:
  assumes "upsertParticipants now g cs d = Inr (x, d')"
  shows "map (\<lambda>p. (pt_client p, pt_clientWs p, pt_status p)) (activeParticipants d' g) =
      map (\<lambda>c. (Some (sc_client c), Some (sc_clientWs c), PENDING)) cs"
    "events d' = events d" "groups d' = groups d"
proof -
  let ?d1 = "d\<lparr>participants := updateWhere (\<lambda>p. pt_group p = g \<and> pt_deleted p = None) (\<lambda>p. p\<lparr>pt_deleted := Some now\<rparr>) (participants d)\<rparr>"
  let ?f = "\<lambda>c. \<lparr>pt_id = [], pt_group = g, pt_client = Some (sc_client c), pt_clientWs = Some (sc_clientWs c),
          pt_status = PENDING, pt_deleted = None\<rparr>"
  obtain xs where "forEach (\<lambda>c. createParticipant (?f c)) cs ?d1 = Inr (xs, d')"
    using assms by (auto simp: upsertParticipants_def andThen_Inr_iff updateManyParticipants_def)
  from createParticipants_rows[OF this] obtain js where
    p: "participants d' = participants ?d1 @ map2 (\<lambda>c i. (?f c)\<lparr>pt_id := i\<rparr>) cs js" "length js = length cs"
    and same: "events d' = events d" "groups d' = groups d" by auto
  have "filter (\<lambda>p. pt_group p = g \<and> pt_deleted p = None) (participants ?d1) = []"
    by (simp add: filter_updateWhere_none)
  moreover have "filter (\<lambda>p. pt_group p = g \<and> pt_deleted p = None) (map2 (\<lambda>c i. (?f c)\<lparr>pt_id := i\<rparr>) cs js) =
      map2 (\<lambda>c i. (?f c)\<lparr>pt_id := i\<rparr>) cs js"
    by (auto simp: filter_id_conv)
  ultimately have "activeParticipants d' g = map2 (\<lambda>c i. (?f c)\<lparr>pt_id := i\<rparr>) cs js"
    by (simp add: activeParticipants_def p(1))
  moreover have "map (\<lambda>p. (pt_client p, pt_clientWs p, pt_status p)) (map2 (\<lambda>c i. (?f c)\<lparr>pt_id := i\<rparr>) cs js) =
      map (\<lambda>c. (Some (sc_client c), Some (sc_clientWs c), PENDING)) cs"
    by (rule map2_first[OF p(2)]) simp
  ultimately show "map (\<lambda>p. (pt_client p, pt_clientWs p, pt_status p)) (activeParticipants d' g) =
      map (\<lambda>c. (Some (sc_client c), Some (sc_clientWs c), PENDING)) cs" by (simp only:)
  show "events d' = events d" "groups d' = groups d" by (rule same)+
qed

lemma upsertParticipants_wf: "preserves (wfAt g) (upsertParticipants now g cs)"
  unfolding upsertParticipants_def by (auto intro!: preserves_rules)

section \<open>The window\<close>

lemma syncDates_tight:
  assumes "syncGroupStartEndDates g d = Inr (x, d')"
  shows "windowTight d' g" "events d' = events d" "participants d' = participants d"
proof -
  let ?es = "filter (\<lambda>e. ev_group e = g \<and> ev_deleted e = None) (events d)"
  have l: "liveIn d g = set ?es" by (auto simp: liveIn_def)
  have "windowTight d' g \<and> events d' = events d \<and> participants d' = participants d"
  proof (cases ?es)
    case Nil
    then have "d' = d" using assms by (simp add: syncGroupStartEndDates_def groupRange_def andThen_apply)
    then show ?thesis using Nil l by (simp add: windowTight_def)
  next
    case (Cons e es)
    let ?f = "\<lambda>r :: group_row. r\<lparr>gr_start := Min (ev_start ` set ?es), gr_end := Max (ev_end ` set ?es)\<rparr>"
    have u: "updateGroup g ?f d = Inr ((), d')"
      using assms Cons by (simp add: syncGroupStartEndDates_def groupRange_def andThen_apply)
    have f: "gr_id (?f r) = gr_id r" for r by simp
    obtain r where r: "groupById d' g = Some (?f r)" "events d' = events d"
      by (rule updateGroup_this[OF f u]) (rule that)
    then have "liveIn d' g = set ?es" by (auto simp: liveIn_def)
    then have "windowTight d' g" unfolding windowTight_def using r(1) by simp
    then show ?thesis using u r(2) by (simp add: updateGroup_Inr)
  qed
  then show "windowTight d' g" "events d' = events d" "participants d' = participants d" by auto
qed

lemma syncDates_preserves: "preserves (wfAt g) (syncGroupStartEndDates h)"
  unfolding syncGroupStartEndDates_def by (auto intro!: preserves_rules split: option.split)


section \<open>The whole\<close>

text \<open>A group that the payload names, when it does not exist, has an identifier that is not going to be
  generated.\<close>

definition payloadOk :: "side_payload \<Rightarrow> db \<Rightarrow> bool" where
  "payloadOk p d \<longleftrightarrow>
     distinct (keptIds (sp_services p)) \<and> set (keptIds (sp_services p)) \<subseteq> ev_id ` set (events d) \<and>
     (\<forall>i \<in> set (currentEventIds p). i \<in> ev_id ` set (events d) \<longrightarrow> i \<in> set (keptIds (sp_services p))) \<and>
     (\<forall>g n. normalizeGroupId (sp_group p) = Some g \<longrightarrow> nextId d \<le> n \<longrightarrow> idSupply d n \<noteq> g)"

lemma ensureGroup_parts:
  assumes wf: "wfDb d" and res: "\<forall>g n. gid = Some g \<longrightarrow> nextId d \<le> n \<longrightarrow> idSupply d n \<noteq> g"
    and e: "ensureGroupEvents parse p gid d = Inr (r, d1)"
  shows "wfAt (gr_id r) d1" "events d1 = events d" "gid = None \<Longrightarrow> liveIn d (gr_id r) = {}"
proof -
  have "wfAt (gr_id r) d1 \<and> events d1 = events d \<and> (gid = None \<longrightarrow> liveIn d (gr_id r) = {})"
  proof (cases gid)
    case None
    obtain rr where c: "createGroup None rr d = Inr (r, d1)"
      using e by (auto simp: ensureGroupEvents_def None Let_def split: option.splits)
    have "gr_id r \<notin> gr_id ` set (groups d)"
      using c wf fresh_notin(2)[of d "nextId d"] by (simp add: createGroup_Inr wfDb_def)
    then have "\<forall>x \<in> set (events d). ev_group x \<noteq> gr_id r" using wf unfolding wfDb_def by metis
    then have "liveIn d (gr_id r) = {}" by (auto simp: liveIn_def)
    then show ?thesis using wf_createGroup[OF wf c] by (simp add: wfAt_def)
  next
    case (Some g)
    show ?thesis
    proof (cases "groupById d g")
      case None
      obtain rr where c: "createGroup (Some g) rr d = Inr (r, d1)"
        using e None by (auto simp: ensureGroupEvents_def Some Let_def andThen_Inr_iff split: option.splits)
      have "g \<notin> gr_id ` set (groups d) \<and> g \<notin> idSupply d ` {nextId d..}"
        using None res Some by (auto simp: groupById_None)
      then show ?thesis using wf_createGroup[OF wf c] Some by (simp add: wfAt_def)
    next
      case x: (Some r0)
      let ?f = "groupUpdate parse p"
      have f: "\<And>r. gr_id (?f r) = gr_id r" "updateGroup g ?f d = Inr ((), d1)" "r = ?f r0"
        using e x by (auto simp: ensureGroupEvents_def Some andThen_Inr_iff groupUpdate_def baseData_def)
      have "gr_id r = g" using f(1,3) groupById_Some[OF x] by simp
      moreover have "wfAt g d" using wf groupById_Some[OF x] by (auto simp: wfAt_def)
      ultimately show ?thesis
        using preservesD[OF updateGroup_wfAt[of ?f g g] _ f(2)] f(1,2) Some by (auto simp: updateGroup_Inr)
    qed
  qed
  then show "wfAt (gr_id r) d1" "events d1 = events d" "gid = None \<Longrightarrow> liveIn d (gr_id r) = {}" by auto
qed

lemma deleteObsolete_preserves: "preserves (wfAt g) (deleteObsolete now ids)"
  unfolding deleteObsolete_def by (auto intro!: preserves_rules)

lemma deleteObsolete_events:
  "deleteObsolete now ids d = Inr (x, d') \<Longrightarrow>
     set (events d') = (\<lambda>e. if ev_id e \<in> set ids then e\<lparr>ev_deleted := Some now\<rparr> else e) ` set (events d)"
  by (auto simp: deleteObsolete_def updateManyEvents_def set_updateWhere split: if_splits)

lemma upsert_realises:
  assumes wf: "wfDb d" and ok: "payloadOk p d" and u: "upsertTx parse now p d = Inr ((evs, r), d')"
  shows "wfDb d' \<and> liveIn d' (gr_id r) = {e \<in> set evs. ev_deleted e = None} \<and>
    (\<exists>t. scheduled (gr_id r) t (sp_services p) evs) \<and> windowTight d' (gr_id r) \<and>
    map (\<lambda>q. (pt_client q, pt_clientWs q, pt_status q)) (activeParticipants d' (gr_id r)) =
      map (\<lambda>c. (Some (sc_client c), Some (sc_clientWs c), PENDING)) (sp_clients p)"
proof -
  let ?g = "gr_id r" and ?gid = "normalizeGroupId (sp_group p)" and ?ks = "keptIds (sp_services p)"
  obtain d1 d2 d3 d4 old t where e: "ensureGroupEvents parse p ?gid d = Inr (r, d1)"
    and o: "old = (if ?gid \<noteq> None then activeEvents d1 ?g else [])"
    and del: "deleteObsolete now (map ev_id (filter (\<lambda>e. ev_id e \<notin> set (currentEventIds p)) old)) d1 = Inr ((), d2)"
    and s: "upsertServices p ?g t (sp_services p) d2 = Inr (evs, d3)"
    and pa: "upsertParticipants now ?g (sp_clients p) d3 = Inr ((), d4)"
    and sy: "syncGroupStartEndDates ?g d4 = Inr ((), d')"
    using u unfolding upsertTx_def Let_def by (auto simp: andThen_Inr_iff)
  have res: "\<forall>g n. ?gid = Some g \<longrightarrow> nextId d \<le> n \<longrightarrow> idSupply d n \<noteq> g" using ok by (simp add: payloadOk_def)
  note en = ensureGroup_parts[OF wf res e]
  have at2: "wfAt ?g d2" by (rule preservesD[OF deleteObsolete_preserves en(1) del])
  have at3: "wfAt ?g d3" by (rule preservesD[OF upsertServices_preserves at2 s])
  have at4: "wfAt ?g d4" by (rule preservesD[OF upsertParticipants_wf at3 pa])
  have at5: "wfAt ?g d'" by (rule preservesD[OF syncDates_preserves at4 sy])
  have ev2: "set (events d2) = (\<lambda>e. if ev_id e \<in> ev_id ` {x \<in> set old. ev_id x \<notin> set (currentEventIds p)}
      then e\<lparr>ev_deleted := Some now\<rparr> else e) ` set (events d)"
    using deleteObsolete_events[OF del] en(2) by simp
  have ids2: "ev_id ` set (events d2) = ev_id ` set (events d)"
    unfolding ev2 image_image by (rule image_cong[OF refl]) simp
  have ks: "distinct ?ks" "set ?ks \<subseteq> ev_id ` set (events d2)" using ok ids2 by (auto simp: payloadOk_def)
  note sv = upsertServices_events[OF s at2 ks]
  have "ev_id x \<in> set ?ks" if x: "x \<in> liveIn d2 ?g" for x
  proof -
    obtain y where y: "y \<in> set (events d)" "x = y" "ev_group y = ?g" "ev_deleted y = None"
      "\<not> ev_id y \<in> ev_id ` {z \<in> set old. ev_id z \<notin> set (currentEventIds p)}"
      using x by (auto simp: liveIn_def ev2 split: if_splits)
    have "y \<in> liveIn d ?g" using y by (simp add: liveIn_def)
    then have "?gid \<noteq> None" using en(3) by auto
    then have "y \<in> set old" using y en(2) by (auto simp: o set_activeEvents liveIn_def)
    then have "ev_id y \<in> set (currentEventIds p)" using y(5) by auto
    then show ?thesis using ok y(1,2) by (auto simp: payloadOk_def)
  qed
  moreover have "ev_group e = ?g" if "e \<in> set evs" for e
    using that sv by (auto simp: scheduled_group)
  ultimately have "liveIn d3 ?g = {e \<in> set evs. ev_deleted e = None}" using sv by (auto simp: liveIn_def)
  moreover have "events d' = events d3" using upsertParticipants_active(2)[OF pa] syncDates_tight(2)[OF sy] by simp
  ultimately show ?thesis
    using at5 sv syncDates_tight[OF sy] upsertParticipants_active(1)[OF pa]
    by (auto simp: wfAt_def liveIn_def activeParticipants_def)
qed


section \<open>Properties\<close>

definition demo_payload :: side_payload where
  "demo_payload = \<lparr>sp_type = ''event'', sp_mode = ''edit'', sp_description = None, sp_status = Some ''ACCEPTED'',
     sp_comment = None, sp_group = Some ''g1'', sp_company = ''co'', sp_workspace = ''w'',
     sp_services =
       [\<lparr>ss_event = Some ''e1'', ss_service = ''yoga'', ss_duration = 60, ss_name = ''Yoga'', ss_price = 10,
         ss_discount = 0, ss_worker = Some ''ana''\<rparr>,
        \<lparr>ss_event = Some ''new-1'', ss_service = ''spa'', ss_duration = 30, ss_name = ''Spa'', ss_price = 20,
         ss_discount = 0, ss_worker = Some ''ana''\<rparr>],
     sp_clients = [\<lparr>sc_client = ''ck2'', sc_clientWs = ''k2''\<rparr>], sp_start = None, sp_end = None, sp_notify = False\<rparr>"


lemma demo_payload_saved:
  "case upsertTx (\<lambda>_. None) 0 demo_payload (demo_db 1 ACCEPTED demo_ps) of
     Inl _ \<Rightarrow> False
   | Inr ((evs, r), d') \<Rightarrow> gr_id r = ''g1'' \<and> map (\<lambda>e. (ev_start e, ev_end e)) evs = [(32400000, 36000000), (36000000, 37800000)]"
  by code_simp


text \<open>An event whose identifier the payload names is moved into the booking whichever booking it is of.\<close>

definition other_db :: db where
  "other_db = (demo_db 1 ACCEPTED demo_ps)\<lparr>groups := [demo_group ACCEPTED, (demo_group ACCEPTED)\<lparr>gr_id := ''g2'', gr_workspace := ''v''\<rparr>],
     events := [(demo_event 1)\<lparr>ev_group := ''g2''\<rparr>]\<rparr>"

lemma upsert_takes_foreign_event:
  "case upsertTx (\<lambda>_. None) 0 demo_payload other_db of
     Inl _ \<Rightarrow> False
   | Inr (_, d') \<Rightarrow> map ev_group (filter (\<lambda>e. ev_id e = ''e1'') (events d')) = [''g1'']"
  by code_simp

end
