(* ===== verification/CalGuard.thy ===== *)
theory CalGuard
  imports CalRoundRobin "HOL-Library.Multiset" "HOL-Library.Char_ord" "HOL-Library.List_Lexorder"
begin

text \<open>
  The guard against repeated requests (\<open>request-idempotency.middleware.ts\<close>): a fingerprint of the
  request is set in the cache, with an expiry, when it is not there; a request that finds it is
  refused. The digest is a parameter. A JSON value carries its numbers as their text and the members of an object
  in the order in which they are enumerated.
\<close>

section \<open>JSON values\<close>

datatype json = JNull | JBool bool | JNum string | JText string | JDate instant
  | JArr "json list" | JObj "(string \<times> json) list"

text \<open>The members of an object that is built in a given order are enumerated with the array indices
  first, in numeric order.\<close>

definition isArrayIndex :: "string \<Rightarrow> bool" where
  "isArrayIndex s \<longleftrightarrow> s \<noteq> [] \<and> list_all isDigit s \<and> (s = ''0'' \<or> hd s \<noteq> CHR ''0'') \<and> readDigits s < 4294967295"

definition ownOrder :: "(string \<times> json) list \<Rightarrow> (string \<times> json) list" where
  "ownOrder kvs = sort_key (readDigits \<circ> fst) (filter (isArrayIndex \<circ> fst) kvs) @ filter (Not \<circ> isArrayIndex \<circ> fst) kvs"

fun normalizeForHash :: "json \<Rightarrow> json" where
  "normalizeForHash (JDate t) = JText (toISOString t)"
| "normalizeForHash (JArr xs) = JArr (map normalizeForHash xs)"
| "normalizeForHash (JObj kvs) = JObj (ownOrder (sort_key fst (map (\<lambda>(k, v). (k, normalizeForHash v)) kvs)))"
| "normalizeForHash v = v"

text \<open>\<open>JSON.stringify\<close>\<close>

definition hexDigit :: "nat \<Rightarrow> char" where
  "hexDigit n = ''0123456789abcdef'' ! n"

definition quoteChar :: "char \<Rightarrow> string" where
  "quoteChar c =
     (let n = (of_char c :: nat); bs = CHR 0x5C in
      if n = 34 then [bs, c] else if n = 92 then [bs, bs]
      else if n = 8 then [bs, CHR ''b''] else if n = 9 then [bs, CHR ''t'']
      else if n = 10 then [bs, CHR ''n''] else if n = 12 then [bs, CHR ''f'']
      else if n = 13 then [bs, CHR ''r'']
      else if n < 32 then [bs, CHR ''u'', CHR ''0'', CHR ''0'', hexDigit (n div 16), hexDigit (n mod 16)]
      else [c])"

definition quoteText :: "string \<Rightarrow> string" where
  "quoteText s = CHR 0x22 # concat (map quoteChar s) @ [CHR 0x22]"

fun commaSep :: "string list \<Rightarrow> string" where
  "commaSep [] = []"
| "commaSep [x] = x"
| "commaSep (x # y # xs) = x @ CHR '','' # commaSep (y # xs)"

fun jsonText :: "json \<Rightarrow> string" where
  "jsonText JNull = ''null''"
| "jsonText (JBool b) = (if b then ''true'' else ''false'')"
| "jsonText (JNum s) = s"
| "jsonText (JText s) = quoteText s"
| "jsonText (JDate t) = quoteText (toISOString t)"
| "jsonText (JArr xs) = CHR ''['' # commaSep (map jsonText xs) @ '']''"
| "jsonText (JObj kvs) = CHR ''{'' # commaSep (map (\<lambda>(k, v). quoteText k @ CHR '':'' # jsonText v) kvs) @ ''}''"

section \<open>The guard\<close>

datatype ignored_path = IgnoredText string | IgnoredRegex "string \<Rightarrow> bool"

record guard_options =
  go_ttl :: "int option"
  go_methods :: "string list option"
  go_prefix :: "string option"
  go_includeQuery :: "bool option"
  go_failOpen :: "bool option"
  go_status :: "int option"
  go_message :: "string option"
  go_ignored :: "ignored_path list option"

record http_request =
  rq_method :: string
  rq_originalUrl :: "string option"
  rq_baseUrl :: "string option"
  rq_path :: "string option"
  rq_token :: "string option"
  rq_ip :: "string option"
  rq_forwarded :: "string option"
  rq_body :: "json option"
  rq_params :: "json option"
  rq_query :: "json option"

datatype guard_answer = GuardNext | GuardReply int string string

definition upperChar :: "char \<Rightarrow> char" where
  "upperChar c = (if CHR ''a'' \<le> c \<and> c \<le> CHR ''z'' then char_of (of_char c - 32 :: nat) else c)"

definition upperText :: "string \<Rightarrow> string" where
  "upperText = map upperChar"

definition pathIsIgnored :: "string \<Rightarrow> ignored_path list \<Rightarrow> bool" where
  "pathIsIgnored path ignored =
     list_ex (\<lambda>c. case c of IgnoredText s \<Rightarrow> s = path | IgnoredRegex test \<Rightarrow> test path) ignored"

definition firstTruthy :: "string option list \<Rightarrow> string \<Rightarrow> string" where
  "firstTruthy xs dflt = (case List.find truthy xs of Some (Some s) \<Rightarrow> s | _ \<Rightarrow> dflt)"

definition orEmpty :: "json option \<Rightarrow> json" where
  "orEmpty v = (case v of None \<Rightarrow> JObj [] | Some JNull \<Rightarrow> JObj [] | Some x \<Rightarrow> x)"

definition guardPayload :: "bool \<Rightarrow> http_request \<Rightarrow> json" where
  "guardPayload includeQuery req =
     JObj ([(''body'', normalizeForHash (orEmpty (rq_body req))), (''params'', normalizeForHash (orEmpty (rq_params req)))]
           @ (if includeQuery then [(''query'', normalizeForHash (orEmpty (rq_query req)))] else []))"

definition routePath :: "http_request \<Rightarrow> string" where
  "routePath req = takeWhile (\<lambda>c. c \<noteq> CHR ''?'') (firstTruthy [rq_originalUrl req, rq_baseUrl req, rq_path req] [])"

definition guardSubject :: "(string \<Rightarrow> string) \<Rightarrow> http_request \<Rightarrow> string" where
  "guardSubject sha256 req =
     (if truthy (rq_token req) then ''token:'' @ sha256 (the (rq_token req))
      else ''ip:'' @ sha256 (firstTruthy [rq_ip req, rq_forwarded req] ''unknown''))"

definition guardKey :: "(string \<Rightarrow> string) \<Rightarrow> guard_options \<Rightarrow> http_request \<Rightarrow> string" where
  "guardKey sha256 opts req =
     (let payloadHash = sha256 (jsonText (guardPayload (orElse (go_includeQuery opts) False) req));
          fingerprint = sha256 (upperText (rq_method req) @ '':'' @ routePath req @ '':'' @ guardSubject sha256 req @ '':'' @ payloadHash)
      in orElse (go_prefix opts) ''avoid-minor-abuse'' @ '':'' @ fingerprint)"

definition guardApplies :: "guard_options \<Rightarrow> http_request \<Rightarrow> bool" where
  "guardApplies opts req \<longleftrightarrow>
     upperText (rq_method req) \<in> set (map upperText (orElse (go_methods opts) [''POST'', ''PUT'', ''PATCH'', ''DELETE'']))
     \<and> \<not> pathIsIgnored (routePath req) (orElse (go_ignored opts) [])"

text \<open>The middleware; \<open>cacheFails\<close> when the call of the cache throws.\<close>

definition preventDuplicateClicks ::
  "(string \<Rightarrow> string) \<Rightarrow> guard_options \<Rightarrow> instant \<Rightarrow> bool \<Rightarrow> http_request \<Rightarrow> redis \<Rightarrow> guard_answer \<times> redis" where
  "preventDuplicateClicks sha256 opts now cacheFails req r =
     (if \<not> guardApplies opts req then (GuardNext, r)
      else if cacheFails
      then (if orElse (go_failOpen opts) True then GuardNext
            else GuardReply 503 ''Idempotency guard unavailable'' ''IDEMPOTENCY_UNAVAILABLE'', r)
      else (case redisSetIfNotExists now (guardKey sha256 opts req) (RText ''1'') (orElse (go_ttl opts) 5) r of
              (locked, r') \<Rightarrow>
                (if \<not> locked
                 then GuardReply (orElse (go_status opts) 429)
                   (orElse (go_message opts) ''Duplicate request detected. Please wait a moment and try again.'')
                   ''DUPLICATE_REQUEST''
                 else GuardNext, r')))"

section \<open>Requests in a row\<close>

record arrival =
  ar_now :: instant
  ar_fails :: bool
  ar_request :: http_request

fun guardRun :: "(string \<Rightarrow> string) \<Rightarrow> guard_options \<Rightarrow> arrival list \<Rightarrow> redis \<Rightarrow> guard_answer list" where
  "guardRun sha256 opts [] r = []"
| "guardRun sha256 opts (a # as) r =
     (case preventDuplicateClicks sha256 opts (ar_now a) (ar_fails a) (ar_request a) r of
        (ans, r') \<Rightarrow> ans # guardRun sha256 opts as r')"

lemma guardRun_length [simp]: "length (guardRun sha256 opts as r) = length as"
  by (induction as arbitrary: r) (auto split: prod.splits)

lemma guardRun_take: "n \<le> length as \<Longrightarrow> guardRun sha256 opts (take n as) r = take n (guardRun sha256 opts as r)"
  by (induction as arbitrary: r n) (auto simp: take_Cons' split: prod.splits)

text \<open>A fingerprint that is set refuses its requests until it expires.\<close>

lemma guard_held:
  assumes "rd_store r (guardKey sha256 opts req0) = Some (RText ''1'', Some expiry)" and "rd_enabled r"
    and "\<forall>a \<in> set as. ar_now a < expiry" and "j < length as"
    and "guardKey sha256 opts (ar_request (as ! j)) = guardKey sha256 opts req0"
    and "guardApplies opts (ar_request (as ! j))" and "\<not> ar_fails (as ! j)"
  shows "guardRun sha256 opts as r ! j \<noteq> GuardNext"
  using assms
proof (induction as arbitrary: r j)
  case (Cons a as)
  obtain ans r' where p: "preventDuplicateClicks sha256 opts (ar_now a) (ar_fails a) (ar_request a) r = (ans, r')"
    by fastforce
  have keep: "rd_store r' (guardKey sha256 opts req0) = Some (RText ''1'', Some expiry) \<and> rd_enabled r'"
    using p Cons.prems(1-3)
    by (auto simp: preventDuplicateClicks_def redisSetIfNotExists_def redisGet_def split: if_splits option.splits prod.splits)
  show ?case
  proof (cases j)
    case 0
    then show ?thesis using p Cons.prems
      by (auto simp: preventDuplicateClicks_def redisSetIfNotExists_def redisGet_def split: if_splits option.splits prod.splits)
  next
    case (Suc k)
    then show ?thesis using Cons.IH[of r' k] keep Cons.prems p by auto
  qed
qed simp

lemma guard_gap:
  assumes "rd_enabled r" and "sorted (map ar_now as)" and "i < j" and "j < length as"
    and "\<forall>a \<in> {as ! i, as ! j}. guardApplies opts (ar_request a) \<and> \<not> ar_fails a"
    and "guardKey sha256 opts (ar_request (as ! i)) = guardKey sha256 opts (ar_request (as ! j))"
    and "guardRun sha256 opts as r ! i = GuardNext" and "guardRun sha256 opts as r ! j = GuardNext"
  shows "ar_now (as ! i) + orElse (go_ttl opts) 5 * 1000 \<le> ar_now (as ! j)"
  using assms
proof (induction as arbitrary: r i j)
  case (Cons a as)
  obtain ans r' where p: "preventDuplicateClicks sha256 opts (ar_now a) (ar_fails a) (ar_request a) r = (ans, r')"
    by fastforce
  have en: "rd_enabled r'" using p Cons.prems(1)
    by (auto simp: preventDuplicateClicks_def redisSetIfNotExists_def split: if_splits prod.splits)
  obtain k where j: "j = Suc k" using Cons.prems(3) by (cases j) auto
  show ?case
  proof (cases i)
    case 0
    let ?exp = "ar_now a + orElse (go_ttl opts) 5 * 1000"
    have st: "rd_store r' (guardKey sha256 opts (ar_request a)) = Some (RText ''1'', Some ?exp)"
      using p Cons.prems 0
      by (auto simp: preventDuplicateClicks_def redisSetIfNotExists_def split: if_splits prod.splits)
    show ?thesis
    proof (rule ccontr)
      assume "\<not> ?thesis"
      then have lt: "ar_now (as ! k) < ?exp" using 0 j by simp
      let ?as = "take (Suc k) as"
      have "\<forall>b \<in> set ?as. ar_now b < ?exp"
      proof
        fix b assume "b \<in> set ?as"
        then obtain m where m: "m \<le> k" "b = as ! m" using Cons.prems(4) j by (force simp: in_set_conv_nth less_Suc_eq_le)
        have "sorted (map ar_now as)" using Cons.prems(2) by simp
        then have "ar_now (as ! m) \<le> ar_now (as ! k)"
          using m Cons.prems(4) j sorted_nth_mono[of "map ar_now as" m k] by simp
        then show "ar_now b < ?exp" using lt m by simp
      qed
      moreover have "guardRun sha256 opts ?as r' ! k = guardRun sha256 opts as r' ! k" for r'
        using guardRun_take[of "Suc k" as] Cons.prems(4) j by simp
      ultimately show False
        using guard_held[OF st en, of ?as k] Cons.prems 0 j p by auto
    qed
  next
    case (Suc m)
    then show ?thesis using Cons.IH[of r' m k] Cons.prems en p j by auto
  qed
qed simp


section \<open>The order of members\<close>

text \<open>Values that differ in the order of the members of objects, at any depth.\<close>

inductive sameJson :: "json \<Rightarrow> json \<Rightarrow> bool" where
  same_refl: "sameJson v v"
| same_arr: "list_all2 sameJson xs ys \<Longrightarrow> sameJson (JArr xs) (JArr ys)"
| same_obj: "\<lbrakk>map fst kvs = map fst mid; list_all2 sameJson (map snd kvs) (map snd mid); mset mid = mset perm;
     distinct (map fst kvs)\<rbrakk> \<Longrightarrow> sameJson (JObj kvs) (JObj perm)"

lemma sort_key_unique:
  assumes "mset xs = mset ys" and "distinct (map fst xs)"
  shows "sort_key fst xs = sort_key (fst :: 'a :: linorder \<times> 'b \<Rightarrow> 'a) ys"
proof (rule sort_key_inj_key_eq)
  show "mset xs = mset (sort_key fst ys)" using assms(1) by simp
  show "inj_on fst (set xs)" using assms(2) by (simp add: distinct_map)
qed simp

lemma normalize_same: "sameJson a b \<Longrightarrow> normalizeForHash a = normalizeForHash b"
proof (induction rule: sameJson.induct)
  case (same_arr xs ys)
  then have "map normalizeForHash xs = map normalizeForHash ys"
    by (simp add: list_all2_conv_all_nth list_eq_iff_nth_eq)
  then show ?case by simp
next
  case (same_obj kvs mid perm)
  let ?n = "\<lambda>(k, v). (k :: string, normalizeForHash v)"
  have v: "map (normalizeForHash \<circ> snd) kvs = map (normalizeForHash \<circ> snd) mid"
    using same_obj.IH by (auto simp: list_all2_conv_all_nth list_eq_iff_nth_eq)
  have "map ?n kvs = zip (map fst kvs) (map (normalizeForHash \<circ> snd) kvs)"
    and n': "map ?n mid = zip (map fst mid) (map (normalizeForHash \<circ> snd) mid)"
    by (induction kvs, auto) (induction mid, auto)
  then have eq: "map ?n kvs = map ?n mid" using v same_obj.hyps(1) by simp
  have "mset (map ?n mid) = mset (map ?n perm)" using same_obj.hyps(2) by simp
  moreover have "distinct (map fst (map ?n mid))"
  proof -
    have "map fst (map ?n mid) = map fst mid" by (induction mid) auto
    then show ?thesis using same_obj.hyps(1,3) by (simp only:)
  qed
  ultimately have "sort_key fst (map ?n mid) = sort_key fst (map ?n perm)" by (rule sort_key_unique)
  then show ?case using eq by simp
qed simp

text \<open>Requests of which only that differs have the same fingerprint.\<close>

definition sameRequest :: "http_request \<Rightarrow> http_request \<Rightarrow> bool" where
  "sameRequest a b \<longleftrightarrow>
     upperText (rq_method a) = upperText (rq_method b) \<and> routePath a = routePath b \<and>
     rq_token a = rq_token b \<and> rq_ip a = rq_ip b \<and> rq_forwarded a = rq_forwarded b \<and>
     sameJson (orEmpty (rq_body a)) (orEmpty (rq_body b)) \<and>
     sameJson (orEmpty (rq_params a)) (orEmpty (rq_params b)) \<and>
     sameJson (orEmpty (rq_query a)) (orEmpty (rq_query b))"

lemma sameRequest_key:
  assumes "sameRequest a b"
  shows "guardKey sha256 opts a = guardKey sha256 opts b" "guardApplies opts a = guardApplies opts b"
proof -
  have "guardPayload q a = guardPayload q b" for q
    using assms by (auto simp: sameRequest_def guardPayload_def dest!: normalize_same)
  then show "guardKey sha256 opts a = guardKey sha256 opts b" "guardApplies opts a = guardApplies opts b"
    using assms by (simp_all add: sameRequest_def guardKey_def guardSubject_def guardApplies_def Let_def)
qed

section \<open>Properties\<close>

text \<open>C17: of the guarded requests that are the same but for the order of members in their data, no two
  are let through within the expiry of the fingerprint, whatever other requests arrive and in whatever
  order, as long as the cache answers.\<close>

theorem duplicates_refused:
  assumes "rd_enabled r" and "sorted (map ar_now as)" and "i < j" and "j < length as"
    and "guardApplies opts (ar_request (as ! i))" and "\<not> ar_fails (as ! i)" and "\<not> ar_fails (as ! j)"
    and "sameRequest (ar_request (as ! i)) (ar_request (as ! j))"
    and "ar_now (as ! j) < ar_now (as ! i) + orElse (go_ttl opts) 5 * 1000"
    and "guardRun sha256 opts as r ! i = GuardNext"
  shows "guardRun sha256 opts as r ! j \<noteq> GuardNext"
  using guard_gap[OF assms(1-4), of opts sha256] sameRequest_key[OF assms(8)] assms(5-7,9,10) by fastforce

definition demo_request :: "(string \<times> json) list \<Rightarrow> http_request" where
  "demo_request kvs = \<lparr>rq_method = ''post'', rq_originalUrl = Some ''/api/events?x=1'', rq_baseUrl = None,
     rq_path = None, rq_token = Some ''t'', rq_ip = None, rq_forwarded = None, rq_body = Some (JObj kvs),
     rq_params = None, rq_query = None\<rparr>"

definition demo_options :: guard_options where
  "demo_options = \<lparr>go_ttl = None, go_methods = None, go_prefix = None, go_includeQuery = None, go_failOpen = None,
     go_status = None, go_message = None, go_ignored = None\<rparr>"

definition demo_arrivals :: "arrival list" where
  "demo_arrivals =
     [\<lparr>ar_now = 0, ar_fails = False, ar_request = demo_request [(''a'', JNum ''1''), (''b'', JBool True)]\<rparr>,
      \<lparr>ar_now = 2000, ar_fails = False, ar_request = demo_request [(''b'', JBool True), (''a'', JNum ''1'')]\<rparr>]"

definition demo_cache :: redis where
  "demo_cache = \<lparr>rd_enabled = True, rd_store = (\<lambda>_. None)\<rparr>"

theorem duplicates_refused_witness:
  "guardRun id demo_options demo_arrivals demo_cache ! 0 = GuardNext \<and>
   guardRun id demo_options demo_arrivals demo_cache ! 1 \<noteq> GuardNext"
proof -
  have 0: "guardRun id demo_options demo_arrivals demo_cache ! 0 = GuardNext" by code_simp
  have "sameRequest (ar_request (demo_arrivals ! 0)) (ar_request (demo_arrivals ! 1))"
    using same_obj[of "[(''a'', JNum ''1''), (''b'', JBool True)]" "[(''a'', JNum ''1''), (''b'', JBool True)]"
      "[(''b'', JBool True), (''a'', JNum ''1'')]"]
    by (simp add: sameRequest_def demo_arrivals_def demo_request_def orEmpty_def same_refl routePath_def)
  moreover have "guardApplies demo_options (ar_request (demo_arrivals ! 0))" by code_simp
  ultimately have "guardRun id demo_options demo_arrivals demo_cache ! 1 \<noteq> GuardNext"
    by (intro duplicates_refused[of demo_cache demo_arrivals 0 1])
       (use 0 in \<open>simp_all add: demo_cache_def demo_arrivals_def demo_options_def\<close>)
  with 0 show ?thesis by simp
qed

end
