(* ===== verification/CalCrypto.thy ===== *)
theory CalCrypto
  imports CalGuard CalFlows CalStatus
begin

text \<open>
  The texts of clients are encrypted at rest: \<open>clientDataCrypto.ts\<close> (the format of an encrypted value, its
  encryption, decryption and hash) and the middleware of \<open>lib/prisma.ts\<close> that encrypts what is written
  to events and groups and decrypts what is read. The digests and the authenticated cipher are
  parameters; texts are of ASCII characters, for which characters and UTF-8 bytes coincide.
\<close>

section \<open>Base64\<close>

definition b64char :: "nat \<Rightarrow> char" where
  "b64char n = ''ABCDEFGHIJKLMNOPQRSTUVWXYZabcdefghijklmnopqrstuvwxyz0123456789+/'' ! n"

definition b64value :: "char \<Rightarrow> nat option" where
  "b64value c =
     (let n = (of_char c :: nat) in
      if 65 \<le> n \<and> n \<le> 90 then Some (n - 65)
      else if 97 \<le> n \<and> n \<le> 122 then Some (n - 71)
      else if 48 \<le> n \<and> n \<le> 57 then Some (n + 4)
      else if n = 43 \<or> n = 45 then Some 62
      else if n = 47 \<or> n = 95 then Some 63
      else None)"

fun b64enc :: "char list \<Rightarrow> string" where
  "b64enc [] = []"
| "b64enc [x] =
     (let a = (of_char x :: nat) in [b64char (a div 4), b64char (a mod 4 * 16), CHR ''='', CHR ''=''])"
| "b64enc [x, y] =
     (let a = (of_char x :: nat); b = (of_char y :: nat) in
      [b64char (a div 4), b64char (a mod 4 * 16 + b div 16), b64char (b mod 16 * 4), CHR ''=''])"
| "b64enc (x # y # z # rest) =
     (let a = (of_char x :: nat); b = (of_char y :: nat); c = (of_char z :: nat) in
      b64char (a div 4) # b64char (a mod 4 * 16 + b div 16) # b64char (b mod 16 * 4 + c div 64) # b64char (c mod 64)
      # b64enc rest)"

fun b64groups :: "nat list \<Rightarrow> char list" where
  "b64groups (a # b # c # d # rest) =
     char_of (a * 4 + b div 16) # char_of (b mod 16 * 16 + c div 4) # char_of (c mod 4 * 64 + d) # b64groups rest"
| "b64groups [a, b, c] = [char_of (a * 4 + b div 16), char_of (b mod 16 * 16 + c div 4)]"
| "b64groups [a, b] = [char_of (a * 4 + b div 16)]"
| "b64groups _ = []"

definition b64dec :: "string \<Rightarrow> char list" where
  "b64dec s = b64groups (List.map_filter b64value (takeWhile (\<lambda>c. c \<noteq> CHR ''='') s))"

section \<open>The format\<close>

text \<open>\<open>Number.parseInt(s, 10)\<close>: spaces, a sign, digits; the rest is ignored.\<close>

definition parseInt10 :: "string \<Rightarrow> int option" where
  "parseInt10 s =
     (let t = dropWhile isSpace s;
          neg = (t \<noteq> [] \<and> hd t = CHR ''-'');
          u = (if t \<noteq> [] \<and> hd t \<in> {CHR ''-'', CHR ''+''} then tl t else t);
          ds = takeWhile isDigit u
      in if ds = [] then None else Some (if neg then - readDigits ds else readDigits ds))"

definition parsePositiveInt :: "string option \<Rightarrow> int \<Rightarrow> int" where
  "parsePositiveInt value fallback =
     (case parseInt10 (orElse value []) of None \<Rightarrow> fallback | Some n \<Rightarrow> if n > 0 then n else fallback)"

text \<open>The match of \<open>/^enc:v(\d+):([^:]+):([^:]+):(.*)$/\<close>: its four groups.\<close>

definition isLineEnd :: "char \<Rightarrow> bool" where
  "isLineEnd c \<longleftrightarrow> c = CHR 0x0A \<or> c = CHR 0x0D"

definition untilColon :: "string \<Rightarrow> (string \<times> string) option" where
  "untilColon s =
     (let a = takeWhile (\<lambda>c. c \<noteq> CHR '':'') s in
      case dropWhile (\<lambda>c. c \<noteq> CHR '':'') s of [] \<Rightarrow> None | _ # rest \<Rightarrow> if a = [] then None else Some (a, rest))"

definition encryptedParts :: "string \<Rightarrow> (string \<times> string \<times> string \<times> string) option" where
  "encryptedParts s =
     (if take 5 s \<noteq> ''enc:v'' then None
      else case untilColon (drop 5 s) of
        None \<Rightarrow> None
      | Some (v, r1) \<Rightarrow>
          if \<not> list_all isDigit v then None
          else (case untilColon r1 of
            None \<Rightarrow> None
          | Some (iv, r2) \<Rightarrow>
              (case untilColon r2 of
                 None \<Rightarrow> None
               | Some (tag, rest) \<Rightarrow> if list_ex isLineEnd rest then None else Some (v, iv, tag, rest))))"

definition isEncryptedClientValue :: "string \<Rightarrow> bool" where
  "isEncryptedClientValue s \<longleftrightarrow> encryptedParts s \<noteq> None"

section \<open>Encryption\<close>

text \<open>The library: the digest of a text, the keyed digest, and the cipher (\<open>None\<close> when the tag does not
  match); and the environment of the process.\<close>

record crypto =
  cr_sha256 :: "string \<Rightarrow> char list"
  cr_hmac :: "string \<Rightarrow> string \<Rightarrow> string"
  cr_seal :: "char list \<Rightarrow> char list \<Rightarrow> char list \<Rightarrow> char list \<times> char list"
  cr_open :: "char list \<Rightarrow> char list \<Rightarrow> char list \<Rightarrow> char list \<Rightarrow> char list option"
  cr_envKey :: "string option"
  cr_envVersion :: "string option"
  cr_envCompanies :: "string list"

definition getCurrentClientKeyVersion :: "crypto \<Rightarrow> int" where
  "getCurrentClientKeyVersion C = parsePositiveInt (cr_envVersion C) 1"

definition resolveMainKey :: "crypto \<Rightarrow> app_error + string" where
  "resolveMainKey C =
     (case map_option trim (cr_envKey C) of
        None \<Rightarrow> Inl (PlainError ''DESCRYPT_KEY no esta definido en las variables de entorno'')
      | Some key \<Rightarrow> if key = [] then Inl (PlainError ''DESCRYPT_KEY no esta definido en las variables de entorno'') else Inr key)"

definition buildKeyForVersion :: "crypto \<Rightarrow> int \<Rightarrow> app_error + char list" where
  "buildKeyForVersion C version =
     map_sum id (\<lambda>key. cr_sha256 C (key @ ''::v'' @ showNat (nat version))) (resolveMainKey C)"

definition encryptClientValue :: "crypto \<Rightarrow> char list \<Rightarrow> string \<Rightarrow> app_error + string" where
  "encryptClientValue C iv plainText =
     (if isEncryptedClientValue plainText then Inr plainText
      else let version = getCurrentClientKeyVersion C in
        (case buildKeyForVersion C version of
           Inl err \<Rightarrow> Inl err
         | Inr key \<Rightarrow>
             (case cr_seal C key iv plainText of
                (encrypted, authTag) \<Rightarrow>
                  Inr (''enc:v'' @ showNat (nat version) @ '':'' @ b64enc iv @ '':'' @ b64enc authTag @ '':'' @ b64enc encrypted))))"

definition decryptClientValue :: "crypto \<Rightarrow> string \<Rightarrow> app_error + string" where
  "decryptClientValue C value =
     (case encryptedParts value of
        None \<Rightarrow> Inr value
      | Some (versionRaw, ivB64, tagB64, encryptedB64) \<Rightarrow>
          (case buildKeyForVersion C (parsePositiveInt (Some versionRaw) 1) of
             Inl err \<Rightarrow> Inl err
           | Inr key \<Rightarrow>
               (case cr_open C key (b64dec ivB64) (b64dec tagB64) (b64dec encryptedB64) of
                  None \<Rightarrow> Inl (PlainError ''Unsupported state or unable to authenticate data'')
                | Some plain \<Rightarrow> Inr plain)))"

definition lowerChar :: "char \<Rightarrow> char" where
  "lowerChar c = (if CHR ''A'' \<le> c \<and> c \<le> CHR ''Z'' then char_of (of_char c + 32 :: nat) else c)"

definition normalizeClientText :: "string \<Rightarrow> string" where
  "normalizeClientText v = map lowerChar (trim v)"

text \<open>\<open>hashClientValue\<close> of a text: \<open>None\<close> is null.\<close>

definition hashClientValue :: "crypto \<Rightarrow> string \<Rightarrow> app_error + string option" where
  "hashClientValue C v =
     (let normalized = normalizeClientText v in
      if normalized = [] then Inr None
      else map_sum id (\<lambda>key. Some (cr_hmac C key normalized)) (resolveMainKey C))"

section \<open>The middleware of the database client\<close>

text \<open>An object is the list of its members; a member whose value is undefined is absent.\<close>

definition getField :: "string \<Rightarrow> (string \<times> json) list \<Rightarrow> json option" where
  "getField k kvs = map_of kvs k"

fun setField :: "string \<Rightarrow> json \<Rightarrow> (string \<times> json) list \<Rightarrow> (string \<times> json) list" where
  "setField k v [] = [(k, v)]"
| "setField k v ((k', w) # kvs) = (if k' = k then (k, v) # kvs else (k', w) # setField k v kvs)"

definition delField :: "string \<Rightarrow> (string \<times> json) list \<Rightarrow> (string \<times> json) list" where
  "delField k kvs = filter (\<lambda>(k', w). k' \<noteq> k) kvs"

datatype model = ModelEvent | ModelGroupEvents

text \<open>\<open>MODEL_CRYPTO_CONFIG\<close>: the fields with the fields of their hashes.\<close>

definition encryptedFields :: "model \<Rightarrow> (string \<times> string) list" where
  "encryptedFields m =
     (case m of
        ModelEvent \<Rightarrow> [(''description'', ''descriptionHash'')]
      | ModelGroupEvents \<Rightarrow> [(''commentClient'', ''commentClientHash''), (''description'', ''descriptionHash'')])"

definition DECRYPTABLE_FIELDS :: "string list" where
  "DECRYPTABLE_FIELDS = map fst (encryptedFields ModelEvent @ encryptedFields ModelGroupEvents)"

text \<open>\<open>cr_envCompanies\<close> holds the values of \<open>DEFAULT_COMPANY_ENV_KEYS\<close> that are set.\<close>

definition resolveDefaultCompanyFromEnv :: "crypto \<Rightarrow> app_error + string" where
  "resolveDefaultCompanyFromEnv C =
     (case List.find (\<lambda>c. c \<noteq> []) (map trim (cr_envCompanies C)) of
        Some c \<Rightarrow> Inr c
      | None \<Rightarrow> Inl (PlainError ''DEFAULT_ID_COMPANY_FK no esta definido en las variables de entorno''))"

fun trimmed :: "json option \<Rightarrow> string" where
  "trimmed (Some (JText t)) = trim t"
| "trimmed _ = []"

definition moveAliasCompanyField :: "(string \<times> json) list \<Rightarrow> (string \<times> json) list" where
  "moveAliasCompanyField data =
     (let rawAlias = (case getField ''idCompany'' data of
                        Some (JText t) \<Rightarrow> trim t
                      | _ \<Rightarrow> trimmed (getField ''idCompanyFk'' data))
      in if rawAlias = [] then delField ''idCompany'' data
         else delField ''idCompany'' (setField ''idCompanyFk'' (JText rawAlias) data))"

definition resolveCreateCompanyId :: "crypto \<Rightarrow> (string \<times> json) list \<Rightarrow> app_error + string" where
  "resolveCreateCompanyId C data =
     (let company = trimmed (getField ''idCompanyFk'' (moveAliasCompanyField data)) in
      if company \<noteq> [] then Inr company else resolveDefaultCompanyFromEnv C)"

text \<open>The value of a field, with whether it is under a \<open>set\<close>.\<close>

definition unwrapFieldValue :: "(string \<times> json) list \<Rightarrow> string \<Rightarrow> (bool \<times> json) option" where
  "unwrapFieldValue container fieldName =
     (case getField fieldName container of
        None \<Rightarrow> None
      | Some (JObj raw) \<Rightarrow>
          (case getField ''set'' raw of Some v \<Rightarrow> Some (True, v) | None \<Rightarrow> Some (False, JObj raw))
      | Some raw \<Rightarrow> Some (False, raw))"

definition wrapFieldValue :: "json option \<Rightarrow> bool \<Rightarrow> json \<Rightarrow> json" where
  "wrapFieldValue originalRaw isSetOp value =
     (if \<not> isSetOp then value
      else JObj (setField ''set'' value (case originalRaw of Some (JObj raw) \<Rightarrow> raw | _ \<Rightarrow> [])))"

definition createLike :: "string \<Rightarrow> bool" where
  "createLike action \<longleftrightarrow> action = ''create'' \<or> action = ''createMany''"

definition upsertKeyVersionOnData :: "crypto \<Rightarrow> string \<Rightarrow> bool \<Rightarrow> (string \<times> json) list \<Rightarrow> (string \<times> json) list" where
  "upsertKeyVersionOnData C action shouldUpdate data =
     (if \<not> shouldUpdate then data
      else let keyVersion = JNum (showNat (nat (getCurrentClientKeyVersion C))) in
        if createLike action then
          (if orElse (getField ''encryptionKeyVersion'' data) JNull = JNull
           then setField ''encryptionKeyVersion'' keyVersion data else data)
        else setField ''encryptionKeyVersion'' (JObj [(''set'', keyVersion)]) data)"

text \<open>One field of the loop of \<open>encryptDataForModel\<close>, with the initialisation vectors drawn so far and whether a field
  was touched.\<close>

definition plainOf :: "crypto \<Rightarrow> string \<Rightarrow> app_error + string" where
  "plainOf C value = (if isEncryptedClientValue value then decryptClientValue C value else Inr value)"

definition encryptedOf :: "crypto \<Rightarrow> char list \<Rightarrow> string \<Rightarrow> string \<Rightarrow> app_error + string" where
  "encryptedOf C iv value plainValue =
     (if isEncryptedClientValue value then Inr value
      else if plainValue = [] then Inr plainValue
      else encryptClientValue C iv plainValue)"

type_synonym field_state = "nat \<times> bool \<times> (string \<times> json) list"

definition encryptField :: "crypto \<Rightarrow> (nat \<Rightarrow> char list) \<Rightarrow> string \<times> string \<Rightarrow> field_state \<Rightarrow> app_error + field_state" where
  "encryptField C ivs field st =
     (case (field, st) of ((fieldName, hashFieldName), (k, touched, data)) \<Rightarrow>
       (case unwrapFieldValue data fieldName of
          None \<Rightarrow> Inr st
        | Some (isSetOp, JNull) \<Rightarrow>
            Inr (k, True, setField hashFieldName (wrapFieldValue (getField hashFieldName data) isSetOp JNull) data)
        | Some (isSetOp, JText value) \<Rightarrow>
            (case plainOf C value of
               Inl err \<Rightarrow> Inl err
             | Inr plainValue \<Rightarrow>
                 (case encryptedOf C (ivs k) value plainValue of
                    Inl err \<Rightarrow> Inl err
                  | Inr encryptedValue \<Rightarrow>
                      let data1 = setField fieldName (wrapFieldValue (getField fieldName data) isSetOp (JText encryptedValue)) data in
                      (case hashClientValue C plainValue of
                         Inl err \<Rightarrow> Inl err
                       | Inr hashValue \<Rightarrow>
                           Inr (Suc k, True,
                             setField hashFieldName
                               (wrapFieldValue (getField hashFieldName data1) isSetOp
                                 (case hashValue of None \<Rightarrow> JNull | Some h \<Rightarrow> JText h)) data1))))
        | Some _ \<Rightarrow> Inr st))"

fun encryptFields :: "crypto \<Rightarrow> (nat \<Rightarrow> char list) \<Rightarrow> (string \<times> string) list \<Rightarrow> field_state \<Rightarrow> app_error + field_state" where
  "encryptFields C ivs [] st = Inr st"
| "encryptFields C ivs (f # fs) st =
     (case encryptField C ivs f st of Inl err \<Rightarrow> Inl err | Inr st' \<Rightarrow> encryptFields C ivs fs st')"

definition encryptObject :: "crypto \<Rightarrow> (nat \<Rightarrow> char list) \<Rightarrow> model \<Rightarrow> string \<Rightarrow> nat \<Rightarrow> (string \<times> json) list
    \<Rightarrow> app_error + nat \<times> json" where
  "encryptObject C ivs m action k data =
     (let data1 = moveAliasCompanyField data in
      case (if createLike action
            then map_sum id (\<lambda>company. setField ''idCompanyFk'' (JText company) data1) (resolveCreateCompanyId C data1)
            else Inr data1) of
        Inl err \<Rightarrow> Inl err
      | Inr data2 \<Rightarrow>
          (case encryptFields C ivs (encryptedFields m) (k, False, data2) of
             Inl err \<Rightarrow> Inl err
           | Inr (k', touched, data3) \<Rightarrow>
               Inr (k', JObj (upsertKeyVersionOnData C action (createLike action \<or> touched) data3))))"

fun encryptDataForModel :: "crypto \<Rightarrow> (nat \<Rightarrow> char list) \<Rightarrow> model \<Rightarrow> string \<Rightarrow> nat \<Rightarrow> json \<Rightarrow> app_error + nat \<times> json"
  and encryptItems :: "crypto \<Rightarrow> (nat \<Rightarrow> char list) \<Rightarrow> model \<Rightarrow> string \<Rightarrow> nat \<Rightarrow> json list \<Rightarrow> app_error + nat \<times> json list"
  where
  "encryptDataForModel C ivs m action k (JArr xs) = map_sum id (map_prod id JArr) (encryptItems C ivs m action k xs)"
| "encryptDataForModel C ivs m action k (JObj data) = encryptObject C ivs m action k data"
| "encryptDataForModel C ivs m action k v = Inr (k, v)"
| "encryptItems C ivs m action k [] = Inr (k, [])"
| "encryptItems C ivs m action k (x # xs) =
     (case encryptDataForModel C ivs m action k x of
        Inl err \<Rightarrow> Inl err
      | Inr (k', y) \<Rightarrow> map_sum id (map_prod id (Cons y)) (encryptItems C ivs m action k' xs))"

fun decryptResultRecursive :: "crypto \<Rightarrow> json \<Rightarrow> app_error + json"
  and decryptItems :: "crypto \<Rightarrow> json list \<Rightarrow> app_error + json list"
  and decryptEntries :: "crypto \<Rightarrow> (string \<times> json) list \<Rightarrow> app_error + (string \<times> json) list"
  and decryptEntry :: "crypto \<Rightarrow> string \<times> json \<Rightarrow> app_error + json"
  where
  "decryptResultRecursive C (JArr xs) = map_sum id JArr (decryptItems C xs)"
| "decryptResultRecursive C (JObj kvs) = map_sum id JObj (decryptEntries C kvs)"
| "decryptResultRecursive C v = Inr v"
| "decryptItems C [] = Inr []"
| "decryptItems C (x # xs) =
     (case decryptResultRecursive C x of
        Inl err \<Rightarrow> Inl err
      | Inr y \<Rightarrow> map_sum id (Cons y) (decryptItems C xs))"
| "decryptEntries C [] = Inr []"
| "decryptEntries C (kv # kvs) =
     (case decryptEntry C kv of
        Inl err \<Rightarrow> Inl err
      | Inr y \<Rightarrow> map_sum id (Cons (fst kv, y)) (decryptEntries C kvs))"
| "decryptEntry C (key, value) =
     (case value of
        JText t \<Rightarrow> if key \<in> set DECRYPTABLE_FIELDS then map_sum id JText (decryptClientValue C t) else Inr value
      | _ \<Rightarrow> decryptResultRecursive C value)"

text \<open>The middleware around a query: what it writes is encrypted, what it answers is decrypted.\<close>

record query_params =
  qp_model :: "model option"
  qp_action :: string
  qp_data :: "json option"
  qp_create :: "json option"
  qp_update :: "json option"

definition encryptArg :: "crypto \<Rightarrow> (nat \<Rightarrow> char list) \<Rightarrow> model \<Rightarrow> string \<Rightarrow> nat \<times> json option \<Rightarrow> app_error + nat \<times> json option" where
  "encryptArg C ivs m action = (\<lambda>(k, arg).
     (case arg of None \<Rightarrow> Inr (k, None)
      | Some data \<Rightarrow> map_sum id (map_prod id Some) (encryptDataForModel C ivs m action k data)))"

definition needsData :: "string \<Rightarrow> bool" where
  "needsData action \<longleftrightarrow> action \<in> {''create'', ''createMany'', ''update'', ''updateMany''}"

definition encryptParams :: "crypto \<Rightarrow> (nat \<Rightarrow> char list) \<Rightarrow> query_params \<Rightarrow> app_error + query_params" where
  "encryptParams C ivs p =
     (case qp_model p of
        None \<Rightarrow> Inr p
      | Some m \<Rightarrow>
          if needsData (qp_action p) \<and> qp_data p \<noteq> None
          then map_sum id (\<lambda>(k, data). p\<lparr>qp_data := data\<rparr>) (encryptArg C ivs m (qp_action p) (0, qp_data p))
          else if qp_action p = ''upsert'' then
            (case encryptArg C ivs m ''create'' (0, qp_create p) of
               Inl err \<Rightarrow> Inl err
             | Inr (k, create) \<Rightarrow>
                 map_sum id (\<lambda>(k', upd). p\<lparr>qp_create := create, qp_update := upd\<rparr>)
                   (encryptArg C ivs m ''update'' (k, qp_update p)))
          else Inr p)"

definition useMiddleware :: "crypto \<Rightarrow> (nat \<Rightarrow> char list) \<Rightarrow> (query_params \<Rightarrow> app_error + json) \<Rightarrow> query_params \<Rightarrow> app_error + json" where
  "useMiddleware C ivs runQuery params =
     (case encryptParams C ivs params of
        Inl err \<Rightarrow> Inl err
      | Inr p \<Rightarrow> (case runQuery p of Inl err \<Rightarrow> Inl err | Inr result \<Rightarrow> decryptResultRecursive C result))"

end
