(* ===== verification/CalCryptoProps.thy ===== *)
theory CalCryptoProps
  imports CalCrypto
begin

text \<open>
  What is encrypted can be read back: the base64 of bytes, the decimal of a version and the format of an
  encrypted value are inverted, so decryption inverts encryption under the one law of the cipher.
\<close>

section \<open>Base64\<close>

text \<open>The sextets of an encoding are below 64 and recombine to the bytes.\<close>

lemma sextet_bounds:
  fixes a b c :: nat
  assumes "a < 256" "b < 256" "c < 256"
  shows "a div 4 < 64" "a mod 4 * 16 < 64" "a mod 4 * 16 + b div 16 < 64" "b mod 16 * 4 < 64"
    "b mod 16 * 4 + c div 64 < 64" "c mod 64 < 64"
  using assms by linarith+

lemma sextets_join:
  fixes a b c :: nat
  assumes "b < 256" "c < 256"
  shows "a div 4 * 4 + (a mod 4 * 16 + b div 16) div 16 = a"
    "(a mod 4 * 16 + b div 16) mod 16 * 16 + (b mod 16 * 4 + c div 64) div 4 = b"
    "(b mod 16 * 4 + c div 64) mod 4 * 64 + c mod 64 = c"
    "a div 4 * 4 + (a mod 4 * 16) div 16 = a"
    "(a mod 4 * 16 + b div 16) mod 16 * 16 + (b mod 16 * 4) div 4 = b"
proof -
  have 1: "b div 16 < 16" "c div 64 < 4" using assms by linarith+
  then show "a div 4 * 4 + (a mod 4 * 16 + b div 16) div 16 = a" by simp
  have "(a mod 4 * 16 + b div 16) mod 16 = b div 16" using 1 by simp
  moreover have "(b mod 16 * 4 + c div 64) div 4 = b mod 16" using 1 by simp
  moreover have "(b mod 16 * 4) div 4 = b mod 16" by simp
  ultimately show "(a mod 4 * 16 + b div 16) mod 16 * 16 + (b mod 16 * 4 + c div 64) div 4 = b"
    "(a mod 4 * 16 + b div 16) mod 16 * 16 + (b mod 16 * 4) div 4 = b" by simp_all
  have "(b mod 16 * 4 + c div 64) mod 4 = c div 64" using 1 by simp
  then show "(b mod 16 * 4 + c div 64) mod 4 * 64 + c mod 64 = c" by simp
  show "a div 4 * 4 + (a mod 4 * 16) div 16 = a" by simp
qed

text \<open>A character of the alphabet: it has its index as value and is no separator.\<close>

definition b64good :: "nat \<Rightarrow> bool" where
  "b64good n \<longleftrightarrow> b64value (b64char n) = Some n \<and> b64char n \<noteq> CHR ''='' \<and> b64char n \<noteq> CHR '':''
     \<and> \<not> isLineEnd (b64char n)"

lemma b64good_all: "n < 64 \<Longrightarrow> b64good n"
proof -
  have "list_all b64good [0..<16]" "list_all b64good [16..<32]" "list_all b64good [32..<48]" "list_all b64good [48..<64]"
    by code_simp+
  then have "\<forall>n\<in>{0..<16}. b64good n" "\<forall>n\<in>{16..<32}. b64good n" "\<forall>n\<in>{32..<48}. b64good n" "\<forall>n\<in>{48..<64}. b64good n"
    by (simp_all only: list_all_iff set_upt)
  moreover assume "n < 64"
  ultimately show "b64good n" by (metis atLeastLessThan_iff leI le0)
qed

lemma b64value_char: "n < 64 \<Longrightarrow> b64value (b64char n) = Some n"
  and b64char_equals: "n < 64 \<Longrightarrow> b64char n \<noteq> CHR ''=''"
  and b64char_colon: "n < 64 \<Longrightarrow> b64char n \<noteq> CHR '':''"
  and b64char_line: "n < 64 \<Longrightarrow> \<not> isLineEnd (b64char n)"
  using b64good_all[of n] by (simp_all add: b64good_def)

lemmas b64char_facts = b64value_char b64char_equals b64char_colon b64char_line

text \<open>The values read off an encoded text.\<close>

definition b64values :: "string \<Rightarrow> nat list" where
  "b64values s = List.map_filter b64value (takeWhile (\<lambda>c. c \<noteq> CHR ''='') s)"

lemma b64values_char: "n < 64 \<Longrightarrow> b64values (b64char n # s) = n # b64values s"
  by (simp add: b64values_def b64char_facts List.map_filter_simps)

lemma b64values_pad: "b64values (CHR ''='' # s) = []" "b64values [] = []"
  by (simp_all add: b64values_def List.map_filter_simps)

lemma b64dec_values: "b64dec s = b64groups (b64values s)"
  by (simp add: b64dec_def b64values_def)

lemma byte_less: "(of_char x :: nat) < 256" by simp

lemma b64enc_dec: "b64dec (b64enc bs) = bs"
proof (induction bs rule: b64enc.induct)
  case (4 x y z rest)
  obtain a b c where v: "a = (of_char x :: nat)" "b = (of_char y :: nat)" "c = (of_char z :: nat)" by simp
  have lt: "a < 256" "b < 256" "c < 256" using byte_less v by simp_all
  have "b64groups (b64values (b64enc (x # y # z # rest))) = char_of a # char_of b # char_of c # b64groups (b64values (b64enc rest))"
    using sextet_bounds[OF lt] sextets_join(1,2)[OF lt(2,3), of a] sextets_join(3)[OF lt(2,3)]
    by (simp only: b64enc.simps Let_def v[symmetric] b64values_char b64groups.simps)
  then show ?case using 4 by (simp add: b64dec_values v)
next
  case (3 x y)
  obtain a b where v: "a = (of_char x :: nat)" "b = (of_char y :: nat)" by simp
  have lt: "a < 256" "b < 256" using byte_less v by simp_all
  have "b64groups (b64values (b64enc [x, y])) = [char_of a, char_of b]"
    using sextet_bounds[OF lt lt(2)] sextets_join(1,5)[OF lt(2) lt(2), of a]
    by (simp only: b64enc.simps Let_def v[symmetric] b64values_char b64values_pad b64groups.simps)
  then show ?case by (simp add: b64dec_values v)
next
  case (2 x)
  obtain a where v: "a = (of_char x :: nat)" by simp
  have lt: "a < 256" using byte_less v by simp
  have "b64groups (b64values (b64enc [x])) = [char_of a]"
    using sextet_bounds[OF lt lt lt] sextets_join(4)[OF lt lt, of a]
    by (simp only: b64enc.simps Let_def v[symmetric] b64values_char b64values_pad b64groups.simps)
  then show ?case by (simp add: b64dec_values v)
qed (simp add: b64dec_values b64values_pad)

definition plainChar :: "char \<Rightarrow> bool" where
  "plainChar c \<longleftrightarrow> c \<noteq> CHR '':'' \<and> \<not> isLineEnd c"

lemma plainChar_b64: "n < 64 \<Longrightarrow> plainChar (b64char n)" "plainChar (CHR ''='')"
  using b64char_facts[of n] by (simp_all add: plainChar_def, simp add: isLineEnd_def)

lemma b64enc_chars: "list_all plainChar (b64enc bs)"
proof (induction bs rule: b64enc.induct)
  case (4 x y z rest)
  obtain a b c where v: "a = (of_char x :: nat)" "b = (of_char y :: nat)" "c = (of_char z :: nat)" by simp
  have lt: "a < 256" "b < 256" "c < 256" using byte_less v by simp_all
  show ?case using 4 sextet_bounds[OF lt]
    by (simp only: b64enc.simps Let_def v[symmetric] list.pred_inject plainChar_b64 simp_thms)
next
  case (3 x y)
  obtain a b where v: "a = (of_char x :: nat)" "b = (of_char y :: nat)" by simp
  have lt: "a < 256" "b < 256" using byte_less v by simp_all
  show ?case using sextet_bounds[OF lt lt(2)]
    by (simp only: b64enc.simps Let_def v[symmetric] list.pred_inject plainChar_b64 simp_thms)
next
  case (2 x)
  obtain a where v: "a = (of_char x :: nat)" by simp
  have lt: "a < 256" using byte_less v by simp
  show ?case using sextet_bounds[OF lt lt lt]
    by (simp only: b64enc.simps Let_def v[symmetric] list.pred_inject plainChar_b64 simp_thms)
qed simp

lemma b64enc_Nil [simp]: "b64enc bs = [] \<longleftrightarrow> bs = []"
  by (induction bs rule: b64enc.induct) (simp_all add: Let_def)

section \<open>Decimals\<close>

lemma readDigits_snoc: "readDigits (s @ [c]) = readDigits s * 10 + digitVal c"
  by (simp add: readDigits_def)

lemma showNat_digits: "list_all isDigit (showNat n) \<and> readDigits (showNat n) = int n"
proof (induction n rule: showNat.induct)
  case (1 n)
  show ?case
  proof (cases "n < 10")
    case True
    then show ?thesis using readDigits_snoc[of "[]" "digitChar (int n)"]
      by (simp add: showNat.simps[of n] isDigit_digitChar digitVal_digitChar) (simp add: readDigits_def)
  next
    case False
    then have s: "showNat n = showNat (n div 10) @ [digitChar (int (n mod 10))]" by (simp add: showNat.simps[of n])
    have "int (n mod 10) < 10" by linarith
    moreover have "int (n div 10) * 10 + int (n mod 10) = int n"
      by (metis div_mult_mod_eq of_nat_add of_nat_mult of_nat_numeral)
    ultimately show ?thesis using 1[OF False] unfolding s readDigits_snoc
      by (simp only: list_all_append list.pred_inject isDigit_digitChar digitVal_digitChar of_nat_0_le_iff simp_thms)
  qed
qed

lemma showNat_not_Nil [simp]: "showNat n \<noteq> []"
  by (simp add: showNat.simps[of n])

lemma digit_facts: "isDigit c \<Longrightarrow> \<not> isSpace c \<and> c \<noteq> CHR ''-'' \<and> c \<noteq> CHR ''+'' \<and> c \<noteq> CHR '':''"
  by (auto simp: isDigit_def isSpace_def)

lemma parseInt10_showNat: "parseInt10 (showNat n) = Some (int n)"
proof -
  obtain c cs where s: "showNat n = c # cs" by (cases "showNat n") auto
  have d: "list_all isDigit (c # cs)" "readDigits (c # cs) = int n" using showNat_digits[of n] s by simp_all
  then have tw: "takeWhile isDigit cs = cs" by (simp add: takeWhile_eq_all_conv list_all_iff)
  show ?thesis using d digit_facts[of c] by (auto simp: tw parseInt10_def s Let_def)
qed

lemma parsePositiveInt_showNat: "n > 0 \<Longrightarrow> parsePositiveInt (Some (showNat n)) k = int n"
  by (simp add: parsePositiveInt_def parseInt10_showNat)

section \<open>The format\<close>

lemma untilColon_append: "\<lbrakk>CHR '':'' \<notin> set a; a \<noteq> []\<rbrakk> \<Longrightarrow> untilColon (a @ CHR '':'' # r) = Some (a, r)"
proof -
  assume a: "CHR '':'' \<notin> set a" "a \<noteq> []"
  then have "\<forall>x\<in>set a. x \<noteq> CHR '':''" by auto
  then show ?thesis using a by (simp add: untilColon_def takeWhile_append2 dropWhile_append2 Let_def)
qed

lemma plain_text: "list_all plainChar s \<Longrightarrow> CHR '':'' \<notin> set s \<and> \<not> list_ex isLineEnd s"
  by (auto simp: list_all_iff list_ex_iff plainChar_def)

lemma encryptedParts_format:
  assumes "iv \<noteq> []" "tag \<noteq> []"
  shows "encryptedParts (''enc:v'' @ showNat n @ '':'' @ b64enc iv @ '':'' @ b64enc tag @ '':'' @ b64enc enc) =
    Some (showNat n, b64enc iv, b64enc tag, b64enc enc)"
proof -
  have "CHR '':'' \<notin> set (showNat n)" using showNat_digits[of n] digit_facts by (auto simp: list_all_iff)
  then show ?thesis
    using assms plain_text[OF b64enc_chars] showNat_digits[of n]
    by (simp add: encryptedParts_def untilColon_append)
qed

section \<open>The round trip\<close>

lemma version_positive: "getCurrentClientKeyVersion C > 0"
  by (auto simp: getCurrentClientKeyVersion_def parsePositiveInt_def split: option.splits)

lemma encrypt_decrypt:
  assumes plain: "\<not> isEncryptedClientValue plain" and enc: "encryptClientValue C iv plain = Inr stored"
    and iv: "iv \<noteq> []" and tag: "\<And>k t. snd (cr_seal C k iv t) \<noteq> []"
    and law: "\<And>k t. cr_open C k iv (snd (cr_seal C k iv t)) (fst (cr_seal C k iv t)) = Some t"
  shows "decryptClientValue C stored = Inr plain \<and> isEncryptedClientValue stored
    \<and> encryptClientValue C iv' stored = Inr stored"
proof -
  obtain key where key: "buildKeyForVersion C (getCurrentClientKeyVersion C) = Inr key"
    using plain enc by (auto simp: encryptClientValue_def Let_def split: sum.splits)
  let ?n = "nat (getCurrentClientKeyVersion C)"
  have n: "?n > 0" "int ?n = getCurrentClientKeyVersion C" using version_positive[of C] by simp_all
  obtain e t where seal: "cr_seal C key iv plain = (e, t)" by fastforce
  have stored: "stored = ''enc:v'' @ showNat ?n @ '':'' @ b64enc iv @ '':'' @ b64enc t @ '':'' @ b64enc e"
    using plain enc key seal by (simp add: encryptClientValue_def Let_def)
  have parts: "encryptedParts stored = Some (showNat ?n, b64enc iv, b64enc t, b64enc e)"
    unfolding stored using iv tag[of key plain] seal by (intro encryptedParts_format) simp_all
  have "decryptClientValue C stored = Inr plain"
    using parts parsePositiveInt_showNat[OF n(1)] n(2) key law[of key plain] seal
    by (simp add: decryptClientValue_def b64enc_dec)
  then show ?thesis using parts by (simp add: isEncryptedClientValue_def encryptClientValue_def)
qed

text \<open>A text that is not already encrypted is read back by decryption after encryption, whatever the
  version of the environment, for every cipher whose opening inverts its sealing and every nonempty initialisation vector
  and tag; the stored value is recognised as encrypted, so a second encryption leaves it as it is.\<close>
theorem encryption_roundtrip:
  assumes plain: "\<not> isEncryptedClientValue plain" and enc: "encryptClientValue C iv plain = Inr stored"
    and iv: "iv \<noteq> []" and tag: "\<And>k t. snd (cr_seal C k iv t) \<noteq> []"
    and law: "\<And>k t. cr_open C k iv (snd (cr_seal C k iv t)) (fst (cr_seal C k iv t)) = Some t"
  shows "decryptClientValue C stored = Inr plain \<and> isEncryptedClientValue stored
    \<and> encryptClientValue C iv' stored = Inr stored"
  by (rule encrypt_decrypt[OF assms])

definition demo_crypto :: crypto where
  "demo_crypto = \<lparr>cr_sha256 = (\<lambda>t. t), cr_hmac = (\<lambda>k t. t), cr_seal = (\<lambda>k iv t. (rev t, ''t'')),
     cr_open = (\<lambda>k iv tag e. if tag = ''t'' then Some (rev e) else None),
     cr_envKey = Some '' key '', cr_envVersion = Some ''12'', cr_envCompanies = []\<rparr>"

lemma encryption_roundtrip_witness:
  "\<exists>stored. encryptClientValue demo_crypto ''iv'' ''hola'' = Inr stored
     \<and> decryptClientValue demo_crypto stored = Inr ''hola''"
proof -
  have p: "\<not> isEncryptedClientValue ''hola''" by code_simp
  have key: "resolveMainKey demo_crypto = Inr ''key''" by code_simp
  then have "\<exists>stored. encryptClientValue demo_crypto ''iv'' ''hola'' = Inr stored"
    using p by (simp add: encryptClientValue_def buildKeyForVersion_def Let_def case_prod_beta)
  then obtain stored where s: "encryptClientValue demo_crypto ''iv'' ''hola'' = Inr stored" ..
  have "decryptClientValue demo_crypto stored = Inr ''hola''"
    using encryption_roundtrip[OF p s] by (simp add: demo_crypto_def)
  then show ?thesis using s by blast
qed

section \<open>What the middleware stores\<close>

lemma getField_setField [simp]: "getField k (setField k' v d) = (if k = k' then Some v else getField k d)"
  by (induction d) (auto simp: getField_def)

lemma getField_delField [simp]: "getField k (delField k' d) = (if k = k' then None else getField k d)"
  by (induction d) (auto simp: getField_def delField_def)

lemma alias_keeps: "\<lbrakk>f \<noteq> ''idCompany''; f \<noteq> ''idCompanyFk''\<rbrakk> \<Longrightarrow> getField f (moveAliasCompanyField d) = getField f d"
  by (simp add: moveAliasCompanyField_def Let_def)

lemma version_keeps: "f \<noteq> ''encryptionKeyVersion'' \<Longrightarrow> getField f (upsertKeyVersionOnData C action b d) = getField f d"
  by (simp add: upsertKeyVersionOnData_def Let_def)

lemma encryptField_frame:
  "\<lbrakk>encryptField C ivs (f, h) (k, b, d) = Inr (k', b', d'); g \<noteq> f; g \<noteq> h\<rbrakk> \<Longrightarrow> getField g d' = getField g d"
  by (auto simp: encryptField_def Let_def split: option.splits json.splits sum.splits)

lemma encryptField_text:
  "\<lbrakk>encryptField C ivs (f, h) (k, b, d) = Inr (k', b', d'); getField f d = Some (JText p); f \<noteq> h;
    \<not> isEncryptedClientValue p\<rbrakk> \<Longrightarrow> \<exists>t. getField f d' = Some (JText t) \<and> encryptedOf C (ivs k) p p = Inr t"
  by (auto simp: encryptField_def unwrapFieldValue_def wrapFieldValue_def plainOf_def Let_def split: sum.splits)

lemma encryptFields_text:
  assumes "encryptFields C ivs (encryptedFields m) (k, b, d) = Inr (k', b', d')"
    and "f \<in> fst ` set (encryptedFields m)" "getField f d = Some (JText p)" "\<not> isEncryptedClientValue p"
  shows "\<exists>t i. getField f d' = Some (JText t) \<and> encryptedOf C (ivs i) p p = Inr t"
proof (cases m)
  case ModelEvent
  then show ?thesis using assms encryptField_text[of C ivs f "''descriptionHash''" k b d k' b' d' p]
    by (auto simp: encryptedFields_def split: sum.splits)
next
  case ModelGroupEvents
  then obtain k1 b1 d1 where
    1: "encryptField C ivs (''commentClient'', ''commentClientHash'') (k, b, d) = Inr (k1, b1, d1)" and
    2: "encryptField C ivs (''description'', ''descriptionHash'') (k1, b1, d1) = Inr (k', b', d')"
    using assms(1) by (auto simp: encryptedFields_def split: sum.splits)
  have "f = ''commentClient'' \<or> f = ''description''" using ModelGroupEvents assms(2) by (auto simp: encryptedFields_def)
  then show ?thesis
    using encryptField_text[OF 1] encryptField_frame[OF 1, of f] encryptField_text[OF 2] encryptField_frame[OF 2, of f] assms(3,4)
    by fastforce
qed

lemma encryptObject_text:
  assumes out: "encryptObject C ivs m action k d = Inr (k', JObj out)" and f: "f \<in> fst ` set (encryptedFields m)"
    and t: "getField f d = Some (JText p)" "\<not> isEncryptedClientValue p"
  shows "\<exists>t i. getField f out = Some (JText t) \<and> encryptedOf C (ivs i) p p = Inr t"
proof -
  have f': "f \<noteq> ''idCompany'' \<and> f \<noteq> ''idCompanyFk'' \<and> f \<noteq> ''encryptionKeyVersion''"
    using f by (auto simp: encryptedFields_def split: model.splits)
  let ?d1 = "moveAliasCompanyField d"
  obtain d2 where d2: "d2 = ?d1 \<or> (\<exists>company. d2 = setField ''idCompanyFk'' (JText company) ?d1)"
    and e: "(case encryptFields C ivs (encryptedFields m) (k, False, d2) of Inl err \<Rightarrow> Inl err
      | Inr (k', touched, d3) \<Rightarrow> Inr (k', JObj (upsertKeyVersionOnData C action (createLike action \<or> touched) d3)))
      = Inr (k', JObj out)"
  proof (cases "createLike action")
    case True
    then show ?thesis using out that by (cases "resolveCreateCompanyId C ?d1") (auto simp: encryptObject_def Let_def)
  next
    case False
    then show ?thesis using out by (intro that[of ?d1]) (simp_all add: encryptObject_def Let_def)
  qed
  obtain b d3 where d3: "encryptFields C ivs (encryptedFields m) (k, False, d2) = Inr (k', b, d3)"
    and o: "out = upsertKeyVersionOnData C action (createLike action \<or> b) d3"
    using e by (auto split: sum.splits)
  have "getField f d2 = getField f d" using d2 f' by (auto simp: alias_keeps)
  then show ?thesis using encryptFields_text[OF d3 f] t f' o by (simp add: version_keeps)
qed



end
