(* ===== verification/CalTimes.thy ===== *)
theory CalTimes
  imports CalFlows
begin

text \<open>
  The time slots offered for a day (\<open>event-times.service.ts\<close>): the window in which bookings are taken,
  the professionals of each service that the page allows, their free windows, and the starts on the
  grid of the day that fit: for one service any allowed professional's, with the seats of the classes that exist;
  for several the starts from which the backtracking search finds professionals for all of them.
\<close>

section \<open>Input and configuration\<close>

record times_input =
  ti_company :: ident
  ti_workspace :: ident
  ti_tzWorkspace :: ident
  ti_tzClient :: ident
  ti_date :: string
  ti_attendees :: "attendee list"
  ti_exclude :: "ident option"
  ti_client :: "ident option"

text \<open>What the services read of \<open>OnlineBookingConfig\<close>; the identifiers of \<open>resources.ids\<close> without their weights.\<close>

record times_config =
  tc_maxAdvanceDays :: "int option"
  tc_minLeadTimeMin :: "int option"
  tc_alignMode :: "string option"
  tc_stepMinutes :: "int option"
  tc_resources :: "ident list option"
  tc_useBizFallback :: "bool option"

record times_answer =
  ta_slots :: "slot list"
  ta_status :: string

text \<open>\<open>/^\d{4}-\d{2}-\d{2}$/\<close>\<close>

definition isDayText :: "string \<Rightarrow> bool" where
  "isDayText s \<longleftrightarrow> length s = 10 \<and>
     list_all (\<lambda>(c, m). if m = CHR ''d'' then isDigit c else c = m) (zip s ''dddd-dd-dd'')"

definition intervalOf :: "times_config \<Rightarrow> attendee list \<Rightarrow> int option" where
  "intervalOf cfg attendees =
     (if tc_alignMode cfg = Some ''service'' then Some (sumDurations attendees) else tc_stepMinutes cfg)"

text \<open>The first and the last start that may be booked now.\<close>

definition earliestAllowed :: "env \<Rightarrow> ident \<Rightarrow> times_config \<Rightarrow> instant" where
  "earliestAllowed E tz cfg =
     z_floor (e_tz E) tz (addMinutes (e_now E) (orElse (tc_minLeadTimeMin cfg) 60))"

definition latestAllowedEnd :: "env \<Rightarrow> ident \<Rightarrow> times_config \<Rightarrow> instant" where
  "latestAllowedEnd E tz cfg =
     z_eod (e_tz E) tz (z_addDays (e_tz E) tz (e_now E) (orElse (tc_maxAdvanceDays cfg) 60))"

definition withinBookingWindow :: "env \<Rightarrow> ident \<Rightarrow> times_config \<Rightarrow> instant \<Rightarrow> bool" where
  "withinBookingWindow E tz cfg t \<longleftrightarrow> earliestAllowed E tz cfg \<le> t \<and> t \<le> latestAllowedEnd E tz cfg"

section \<open>Professionals and busy time\<close>

fun allowedUsersByService ::
  "env \<Rightarrow> ident list \<Rightarrow> attendee list \<Rightarrow> ident \<Rightarrow> (ident \<times> ident list) list \<Rightarrow> (ident \<times> ident list) list req" where
  "allowedUsersByService E allowed [] ws m = eret m"
| "allowedUsersByService E allowed (a # as) ws m =
     (if at_service a = [] then allowedUsersByService E allowed as ws m
      else if truthy (at_staff a)
      then allowedUsersByService E allowed as ws
             (AList.update (at_service a) (filter (\<lambda>u. u \<in> set allowed) [the (at_staff a)]) m)
      else ebind (getUsersWhoCanPerformService E ws (at_service a) (at_category a)) (\<lambda>users.
             allowedUsersByService E allowed as ws
               (AList.update (at_service a) (filter (\<lambda>u. u \<in> set allowed) users) m)))"

text \<open>\<open>getGroupEventsWithCounts_SPECIAL\<close>: the events of a service with the participants of their booking.
  There is no condition on the status of the booking or on deletion.\<close>

record group_event =
  ge_id :: ident
  ge_user :: "ident option"
  ge_start :: instant
  ge_end :: instant
  ge_clients :: "ident list"
  ge_clientWorkspaces :: "ident list"
  ge_count :: nat

definition groupEventOf :: "db \<Rightarrow> event_row \<Rightarrow> group_event" where
  "groupEventOf d e =
     (let ps = activeParticipants d (ev_group e) in
      \<lparr>ge_id = ev_id e, ge_user = ev_user e, ge_start = ev_start e, ge_end = ev_end e,
       ge_clients = List.map_filter (\<lambda>p. if truthy (pt_client p) then pt_client p else None) ps,
       ge_clientWorkspaces = List.map_filter (\<lambda>p. if truthy (pt_clientWs p) then pt_clientWs p else None) ps,
       ge_count = length ps\<rparr>)"

definition getGroupEventsWithCounts ::
  "env \<Rightarrow> ident \<Rightarrow> ident \<Rightarrow> string \<Rightarrow> string \<Rightarrow> ident option \<Rightarrow> group_event list req" where
  "getGroupEventsWithCounts E ws service startISOOrDay endISOOrDay excludeEventId =
     (\<lambda>w. case (rangeStart E startISOOrDay, rangeEnd E endISOOrDay) of
        (Some s, Some e) \<Rightarrow>
          (Inr (map (groupEventOf (w_db w)) (filter
            (\<lambda>x. groupSat (w_db w) (\<lambda>g. gr_workspace g = ws) x \<and> ev_service x = Some service
                 \<and> ev_start x < e \<and> ev_end x > s \<and> (truthy excludeEventId \<longrightarrow> ev_id x \<noteq> the excludeEventId))
            (events (w_db w)))), w)
      | _ \<Rightarrow> (Inl (PrismaError ''Invalid Date''), w))"

text \<open>The free windows of the professionals.\<close>

definition timesWindows ::
  "env \<Rightarrow> times_input \<Rightarrow> times_config \<Rightarrow> instant \<Rightarrow> slot_config \<Rightarrow> ident list \<Rightarrow> busy_event list \<Rightarrow> (ident \<rightharpoonup> window list)" where
  "timesWindows E inp cfg day sc userIds evs =
     (let Z = e_tz E; tz = ti_tzWorkspace inp;
          shiftsByUserLocal = buildShiftsByUser Z userIds (ti_date inp) tz (z_weekday Z tz day)
            (e_business E (ti_company inp) (ti_workspace inp))
            (e_worker E userIds (ti_workspace inp))
            (e_temporary E userIds (ti_workspace inp) (ti_date inp))
            (Some (orElse (tc_useBizFallback cfg) True));
          eventsByUser = groupEventsByUser Map.empty evs
      in map_of (map (\<lambda>u. (u, freeWindows (isToday sc) (roundedNow sc)
           (orElse (shiftsByUserLocal u) []) (busyOfUser eventsByUser u))) userIds))"

section \<open>The starts on the grid\<close>

text \<open>The loop that adds a step until the last start is passed; the step is positive
  (\<open>computeSlotConfig\<close>).\<close>

function gridStarts :: "int \<Rightarrow> instant \<Rightarrow> instant \<Rightarrow> instant list" where
  "gridStarts step cur latest =
     (if step \<le> 0 \<or> cur > latest then [] else cur # gridStarts step (addMinutes cur step) latest)"
  by pat_completeness auto
termination
  by (relation "measure (\<lambda>(step, cur, latest). nat (latest - cur + 1))") (auto simp: addMinutes_def)

declare gridStarts.simps [simp del]

definition slotAt :: "env \<Rightarrow> ident \<Rightarrow> instant \<Rightarrow> instant \<Rightarrow> string option \<Rightarrow> slot" where
  "slotAt E tzClient s e seats =
     \<lparr>startLocalISO = z_fmt (e_tz E) tzClient s, endLocalISO = z_fmt (e_tz E) tzClient e,
      label = take 5 (drop 11 (z_fmt (e_tz E) tzClient s)), labelParticipant = seats\<rparr>"

text \<open>The indexes of the classes: seats taken and members by professional, start and end.\<close>

definition keyOf :: "tzlib \<Rightarrow> ident \<Rightarrow> ident \<Rightarrow> instant \<Rightarrow> instant \<Rightarrow> string" where
  "keyOf Z tz u s e = u @ ''|'' @ z_fmt Z tz s @ ''|'' @ z_fmt Z tz e"

definition groupKey :: "tzlib \<Rightarrow> ident \<Rightarrow> group_event \<Rightarrow> string" where
  "groupKey Z tz ev = keyOf Z tz (orElse (ge_user ev) []) (z_floor Z tz (ge_start ev)) (z_floor Z tz (ge_end ev))"

definition countIndex :: "tzlib \<Rightarrow> ident \<Rightarrow> group_event list \<Rightarrow> (string \<rightharpoonup> nat)" where
  "countIndex Z tz evs = map_of (rev (map (\<lambda>ev. (groupKey Z tz ev, ge_count ev)) evs))"

definition membersIndex :: "tzlib \<Rightarrow> ident \<Rightarrow> group_event list \<Rightarrow> (string \<rightharpoonup> ident list)" where
  "membersIndex Z tz evs =
     map_of (rev (map (\<lambda>ev. (groupKey Z tz ev, ge_clients ev @ ge_clientWorkspaces ev)) evs))"

text \<open>The windows of the classes of a professional, from the rounded clock on the current day.\<close>

definition groupWindows :: "tzlib \<Rightarrow> ident \<Rightarrow> slot_config \<Rightarrow> group_event list \<Rightarrow> ident \<Rightarrow> window list" where
  "groupWindows Z tz sc evs u =
     List.map_filter (\<lambda>ev. if truthy (ge_user ev) \<and> ge_user ev = Some u
       then (let s = z_floor Z tz (ge_start ev); e = z_floor Z tz (ge_end ev);
                 sc' = (if isToday sc then max s (roundedNow sc) else s)
             in if sc' < e then Some (win sc' e) else None)
       else None) evs"

definition startsInWindow :: "env \<Rightarrow> ident \<Rightarrow> times_config \<Rightarrow> instant \<Rightarrow> slot_config \<Rightarrow> int \<Rightarrow> window \<Rightarrow> instant list" where
  "startsInWindow E tz cfg day sc dur w =
     (let Z = e_tz E;
          first = alignToGridCeil Z tz (max (wstart w) (z_sod Z tz day)) (stepMinutes sc) (z_sod Z tz day)
      in filter (withinBookingWindow E tz cfg) (gridStarts (stepMinutes sc) first (addMinutes (wend w) (- dur))))"

definition singleSlot ::
  "env \<Rightarrow> times_input \<Rightarrow> int \<Rightarrow> int \<Rightarrow> bool \<Rightarrow> group_event list \<Rightarrow> ident \<Rightarrow> instant \<Rightarrow> slot option" where
  "singleSlot E inp dur capacity isGroup groupEvents u cur =
     (let Z = e_tz E; tz = ti_tzWorkspace inp; endT = addMinutes cur dur in
      if isGroup
      then (let k = keyOf Z tz u cur endT;
                booked = orElse (countIndex Z tz groupEvents k) 0;
                left = max 0 (capacity - int booked);
                clientAlreadyInGroup = (truthy (ti_client inp) \<and>
                  the (ti_client inp) \<in> set (orElse (membersIndex Z tz groupEvents k) []))
            in if left > 0 \<and> \<not> clientAlreadyInGroup
               then Some (slotAt E (ti_tzClient inp) cur endT (Some (showNat booked @ '' / '' @ showNat (nat capacity))))
               else None)
      else Some (slotAt E (ti_tzClient inp) cur endT None))"

definition singleServiceSlots ::
  "env \<Rightarrow> times_input \<Rightarrow> times_config \<Rightarrow> instant \<Rightarrow> slot_config \<Rightarrow> (ident \<rightharpoonup> window list) \<Rightarrow> ident list
   \<Rightarrow> group_event list \<Rightarrow> service_snapshot option \<Rightarrow> attendee \<Rightarrow> slot list" where
  "singleServiceSlots E inp cfg day sc windows eligible groupEventsRaw snap a =
     (let Z = e_tz E; tz = ti_tzWorkspace inp;
          dur = orElse (Option.bind snap sv_duration) (at_duration a);
          capacity = max 1 (orElse (Option.bind snap sv_maxParticipants) 1);
          isGroup = (capacity > 1);
          groupEvents = (if isGroup then groupEventsRaw else [])
      in dedupeAndSortSlots (concat (map (\<lambda>u.
           (let baseWins = orElse (windows u) [];
                addWins = (if isGroup then groupWindows Z tz sc groupEvents u else []);
                wins = (if isGroup \<and> addWins \<noteq> [] then mergeTouchingWindows (baseWins @ addWins) else baseWins)
            in concat (map (\<lambda>w. List.map_filter (singleSlot E inp dur capacity isGroup groupEvents u)
                 (startsInWindow E tz cfg day sc dur w)) wins))) eligible)))"

text \<open>Several services: the candidate starts of the professionals of the first one.\<close>

definition candidatesInWindow :: "tzlib \<Rightarrow> ident \<Rightarrow> instant \<Rightarrow> instant \<Rightarrow> slot_config \<Rightarrow> window \<Rightarrow> instant list" where
  "candidatesInWindow Z tz day latestStart sc w =
     (let s0 = z_floor Z tz (max (wstart w) day);
          e0 = z_floor Z tz (min (wend w) latestStart)
      in if \<not> s0 < e0 then []
         else gridStarts (stepMinutes sc) (alignToGridCeil Z tz s0 (stepMinutes sc) (z_sod Z tz day)) e0)"

definition realAttendee :: "service_by_id \<Rightarrow> attendee \<Rightarrow> attendee" where
  "realAttendee services a =
     a\<lparr>at_duration := orElse (Option.bind (services (at_service a)) sv_duration) (at_duration a)\<rparr>"

definition candidateStarts :: "tzlib \<Rightarrow> ident \<Rightarrow> instant \<Rightarrow> instant \<Rightarrow> slot_config \<Rightarrow> window list \<Rightarrow> instant list" where
  "candidateStarts Z tz day latestStart sc wins =
     sort (List.map_filter (\<lambda>k. z_parse Z k tz)
       (uniq (map (z_fmt Z tz) (concat (map (candidatesInWindow Z tz day latestStart sc) wins)))))"

definition multiServiceSlots ::
  "env \<Rightarrow> times_input \<Rightarrow> times_config \<Rightarrow> instant \<Rightarrow> slot_config \<Rightarrow> (ident \<rightharpoonup> window list)
   \<Rightarrow> (ident \<times> ident list) list \<Rightarrow> service_by_id \<Rightarrow> slot list" where
  "multiServiceSlots E inp cfg day sc windows users services =
     (let Z = e_tz E; tz = ti_tzWorkspace inp;
          as = map (realAttendee services) (ti_attendees inp);
          totalDuration = sumDurations as;
          seedElig = orElse (map_of users (at_service (hd (ti_attendees inp)))) [];
          latestStart = addMinutes (z_eod Z tz day) (- totalDuration);
          candidates = candidateStarts Z tz day latestStart sc (concat (map (\<lambda>u. orElse (windows u) []) seedElig));
          ok = (\<lambda>start. fst (assignSeq Z tz
                 \<lparr>ac_start = start,
                  ac_eligible = map_of (map (\<lambda>a. (at_service a, orElse (map_of users (at_service a)) [])) (ti_attendees inp)),
                  ac_windows = windows\<rparr> [] as [] []))
      in dedupeAndSortSlots (map (\<lambda>start. slotAt E (ti_tzClient inp) start (addMinutes start totalDuration) None)
           (filter ok (filter (withinBookingWindow E tz cfg) candidates))))"

section \<open>The service\<close>

definition timesAnswer :: "slot list \<Rightarrow> times_answer" where
  "timesAnswer slots = \<lparr>ta_slots = slots, ta_status = (if slots \<noteq> [] then ''available'' else ''completed'')\<rparr>"

definition noSlots :: "string \<Rightarrow> times_answer" where
  "noSlots status = \<lparr>ta_slots = [], ta_status = status\<rparr>"

text \<open>The seats a single service has, and the fetch of its classes.\<close>

definition serviceCapacity :: "service_snapshot option \<Rightarrow> int" where
  "serviceCapacity snap = max 1 (orElse (Option.bind snap sv_maxParticipants) 1)"

definition fetchGroupEvents :: "env \<Rightarrow> times_input \<Rightarrow> service_by_id \<Rightarrow> group_event list req" where
  "fetchGroupEvents E inp services =
     (case ti_attendees inp of
        [a] \<Rightarrow> if serviceCapacity (services (at_service a)) > 1
               then getGroupEventsWithCounts E (ti_workspace inp) (at_service a) (ti_date inp) (ti_date inp) (ti_exclude inp)
               else eret []
      | _ \<Rightarrow> eret [])"

text \<open>What is offered once everything is fetched.\<close>

definition offerSlots ::
  "env \<Rightarrow> times_input \<Rightarrow> times_config \<Rightarrow> instant \<Rightarrow> (ident \<times> ident list) list \<Rightarrow> service_by_id
   \<Rightarrow> busy_event list \<Rightarrow> group_event list \<Rightarrow> times_answer" where
  "offerSlots E inp cfg day users services evs groupEvents =
     (let sc = computeSlotConfig (e_tz E) (e_now E) (intervalOf cfg (ti_attendees inp)) (ti_tzWorkspace inp) day;
          windows = timesWindows E inp cfg day sc (allUserIdsOf users) evs
      in case ti_attendees inp of
           [a] \<Rightarrow> timesAnswer (singleServiceSlots E inp cfg day sc windows
                    (orElse (map_of users (at_service a)) []) groupEvents (services (at_service a)) a)
         | as \<Rightarrow>
             if list_ex (\<lambda>a. \<not> hasAnyAvailableWindow (orElse (map_of users (at_service a)) []) windows
                                 (at_duration (realAttendee services a))) as
             then noSlots ''no_services''
             else timesAnswer (multiServiceSlots E inp cfg day sc windows users services))"

definition publicGetAvailableTimeSlotsBody :: "env \<Rightarrow> times_input \<Rightarrow> times_config \<Rightarrow> times_answer req" where
  "publicGetAvailableTimeSlotsBody E inp cfg =
     (let Z = e_tz E; tz = ti_tzWorkspace inp;
          professionalAllowed = orElse (tc_resources cfg) [] in
      if ti_company inp = [] \<or> ti_workspace inp = [] then ethrow (PlainError ''Faltan idCompany / idWorkspace'')
      else if tz = [] then ethrow (PlainError ''Falta timeZoneWorkspace'')
      else if ti_tzClient inp = [] then ethrow (PlainError ''Falta timeZoneClient'')
      else if \<not> isDayText (ti_date inp) then ethrow (PlainError ''date invalido'')
      else if ti_attendees inp = [] then eret (noSlots ''no_services'')
      else if professionalAllowed = [] then eret (noSlots ''no_staff'')
      else
        let day = z_parse Z (ti_date inp @ ''T00:00:00'') tz in
        if (case day of Some d \<Rightarrow> isDayInPast Z tz d (z_sod Z tz (e_now E)) | None \<Rightarrow> False)
        then eret (noSlots ''past'')
        else if (case day of Some d \<Rightarrow> d > latestAllowedEnd E tz cfg \<or> z_eod Z tz d < earliestAllowed E tz cfg | None \<Rightarrow> False)
        then eret (noSlots ''out_of_window'')
        else
          ebind (getServicesSnapshotById E (ti_workspace inp) (map at_service (ti_attendees inp)) False True) (\<lambda>services.
          if list_ex (\<lambda>a. case services (at_service a) of
                 Some s \<Rightarrow> orElse (sv_maxParticipants s) 0 > 1 | None \<Rightarrow> False) (ti_attendees inp) \<and> length (ti_attendees inp) > 1
          then ethrow (PlainError ''Los servicios grupales no se pueden combinar con otros en la misma reserva.'')
          else
            ebind (allowedUsersByService E professionalAllowed (ti_attendees inp) (ti_workspace inp) []) (\<lambda>users.
            if allUserIdsOf users = [] then eret (noSlots ''no_staff'')
            else
              ebind (getEventsOverlappingRange E (ti_workspace inp) (allUserIdsOf users) (ti_date inp) (ti_date inp) (ti_exclude inp)) (\<lambda>evs.
              ebind (fetchGroupEvents E inp services) (\<lambda>groupEvents.
              case day of
                None \<Rightarrow> ethrow (PrismaError ''Invalid Date'')
              | Some d \<Rightarrow> eret (offerSlots E inp cfg d users services evs groupEvents))))))"

definition publicGetAvailableTimeSlots :: "env \<Rightarrow> times_input \<Rightarrow> times_config \<Rightarrow> times_answer req" where
  "publicGetAvailableTimeSlots E inp cfg =
     ecatch (publicGetAvailableTimeSlotsBody E inp cfg)
       (\<lambda>e. ethrow (Wrapped ''EventTimesService.publicGetAvailableTimeSlots_SPECIAL'' e))"

end
