(* ===== verification/CalTimesProps.thy ===== *)
theory CalTimesProps
  imports CalTimes CalAvailProps CalRebuildProps CalDemo
begin

text \<open>
  What is offered for a day: the starts a professional can be booked at are exactly the points of the grid
  inside the booking window that fit a free window, and a slot that is offered meets no event of its
  professional.
\<close>

section \<open>The grid\<close>

lemma gridStarts_set:
  "0 < step \<Longrightarrow> set (gridStarts step cur latest) =
     {t. \<exists>k\<ge>0. t = addMinutes cur (k * step) \<and> t \<le> latest}"
proof (induction step cur latest rule: gridStarts.induct)
  case (1 step cur latest)
  show ?case
  proof (cases "cur > latest")
    case True
    have "addMinutes cur (k * step) > latest" if "k \<ge> 0" for k
      using True addMinutes_ge[of "k * step" cur] 1(2) that by (simp add: less_le_trans)
    then show ?thesis using True by (subst gridStarts.simps) force
  next
    case False
    have IH: "set (gridStarts step (addMinutes cur step) latest) =
        {t. \<exists>k\<ge>0. t = addMinutes (addMinutes cur step) (k * step) \<and> t \<le> latest}"
      using 1 False by simp
    have shift: "addMinutes (addMinutes cur step) (k * step) = addMinutes cur ((k + 1) * step)" for k
      by (simp add: algebra_simps)
    have "set (gridStarts step cur latest) = insert cur {t. \<exists>k\<ge>0. t = addMinutes cur ((k + 1) * step) \<and> t \<le> latest}"
    proof -
      have "gridStarts step cur latest = cur # gridStarts step (addMinutes cur step) latest"
        using 1(2) False by (subst gridStarts.simps) simp
      then show ?thesis using IH by (simp only: shift list.set)
    qed
    also have "\<dots> = {t. \<exists>k\<ge>0. t = addMinutes cur (k * step) \<and> t \<le> latest}"
    proof (intro set_eqI iffI)
      fix t assume "t \<in> insert cur {t. \<exists>k\<ge>0. t = addMinutes cur ((k + 1) * step) \<and> t \<le> latest}"
      then show "t \<in> {t. \<exists>k\<ge>0. t = addMinutes cur (k * step) \<and> t \<le> latest}"
      proof (cases "t = cur")
        case True
        then show ?thesis using False by (auto intro!: exI[of _ 0])
      next
        case neq: False
        with \<open>t \<in> _\<close> obtain k where "k \<ge> 0" "t = addMinutes cur ((k + 1) * step)" "t \<le> latest" by blast
        then show ?thesis by (auto intro!: exI[of _ "k + 1"])
      qed
    next
      fix t assume "t \<in> {t. \<exists>k\<ge>0. t = addMinutes cur (k * step) \<and> t \<le> latest}"
      then obtain k where k: "k \<ge> 0" "t = addMinutes cur (k * step)" "t \<le> latest" by blast
      then show "t \<in> insert cur {t. \<exists>k\<ge>0. t = addMinutes cur ((k + 1) * step) \<and> t \<le> latest}"
        by (cases "k = 0") (auto intro!: exI[of _ "k - 1"])
    qed
    finally show ?thesis .
  qed
qed

text \<open>The points of the grid of a day that are not before the minute of an instant.\<close>

definition onGrid :: "tzlib \<Rightarrow> ident \<Rightarrow> int \<Rightarrow> instant \<Rightarrow> instant \<Rightarrow> bool" where
  "onGrid Z tz step g t \<longleftrightarrow> (\<exists>k\<ge>0. t = addMinutes (z_floor Z tz g) (k * step))"

lemma ceilDiv_le_iff:
  fixes step :: int
  assumes "0 < step"
  shows "ceilDiv d step \<le> k \<longleftrightarrow> d \<le> k * step"
proof
  assume "ceilDiv d step \<le> k"
  then have "ceilDiv d step * step \<le> k * step" using assms by simp
  then show "d \<le> k * step" using ceilDiv_bounds[OF assms, of d] by linarith
next
  assume d: "d \<le> k * step"
  show "ceilDiv d step \<le> k"
  proof (rule ccontr)
    assume "\<not> ceilDiv d step \<le> k"
    then have "(k + 1) * step \<le> ceilDiv d step * step" using assms by simp
    then show False using ceilDiv_bounds[OF assms, of d] d by (simp add: distrib_right)
  qed
qed

lemma aligned_starts:
  assumes Z: "tz_ok Z" and step: "0 < step" and g: "z_floor Z tz g \<le> m"
  shows "set (gridStarts step (alignToGridCeil Z tz m step g) latest) =
     {t. onGrid Z tz step g t \<and> z_floor Z tz m \<le> t \<and> t \<le> latest}"
proof -
  let ?g = "z_floor Z tz g" and ?d = "(m - z_floor Z tz g) div minute_ms"
  have fl: "z_floor Z tz m = addMinutes ?g ?d" using z_floor_from_aligned[OF Z g] .
  have d0: "0 \<le> ?d" using g by (simp add: pos_imp_zdiv_nonneg_iff)
  let ?c = "ceilDiv ?d step"
  have c0: "0 \<le> ?c" using ceilDiv_nonneg[OF step d0] .
  have set: "set (gridStarts step (alignToGridCeil Z tz m step g) latest) =
      {t. \<exists>k\<ge>0. t = addMinutes ?g ((?c + k) * step) \<and> t \<le> latest}"
    unfolding alignToGridCeil_eq[OF Z step g] gridStarts_set[OF step] by (simp add: distrib_right)
  show ?thesis
  proof (intro set_eqI iffI)
    fix t assume "t \<in> set (gridStarts step (alignToGridCeil Z tz m step g) latest)"
    then obtain k where k: "k \<ge> 0" "t = addMinutes ?g ((?c + k) * step)" "t \<le> latest" unfolding set by blast
    then have "?d \<le> (?c + k) * step" using ceilDiv_le_iff[OF step, of ?d "?c + k"] by simp
    then have "z_floor Z tz m \<le> t" unfolding fl k(2) by simp
    moreover have "onGrid Z tz step g t" unfolding onGrid_def using k c0 by (intro exI[of _ "?c + k"]) simp
    ultimately show "t \<in> {t. onGrid Z tz step g t \<and> z_floor Z tz m \<le> t \<and> t \<le> latest}" using k(3) by simp
  next
    fix t assume "t \<in> {t. onGrid Z tz step g t \<and> z_floor Z tz m \<le> t \<and> t \<le> latest}"
    then obtain k where k: "k \<ge> 0" "t = addMinutes ?g (k * step)" "z_floor Z tz m \<le> t" "t \<le> latest"
      unfolding onGrid_def by blast
    then have "?d \<le> k * step" unfolding fl by simp
    then have "?c \<le> k" using ceilDiv_le_iff[OF step] by simp
    then show "t \<in> set (gridStarts step (alignToGridCeil Z tz m step g) latest)"
      unfolding set using k by (auto intro!: exI[of _ "k - ?c"])
  qed
qed

section \<open>One service\<close>

text \<open>A start that is offered in the windows of a professional: on the grid of the day, inside the booking
  window, and with its whole duration in one of the windows, which begins no later than in the minute of
  the start.\<close>

definition offeredIn :: "env \<Rightarrow> ident \<Rightarrow> times_config \<Rightarrow> instant \<Rightarrow> slot_config \<Rightarrow> int \<Rightarrow> window list \<Rightarrow> instant \<Rightarrow> bool" where
  "offeredIn E tz cfg day sc dur wins t \<longleftrightarrow>
     withinBookingWindow E tz cfg t \<and> onGrid (e_tz E) tz (stepMinutes sc) (z_sod (e_tz E) tz day) t \<and>
     (\<exists>w \<in> set wins. z_floor (e_tz E) tz (max (wstart w) (z_sod (e_tz E) tz day)) \<le> t \<and> addMinutes t dur \<le> wend w)"

lemma le_addMinutes_minus: "t \<le> addMinutes e (- n) \<longleftrightarrow> addMinutes t n \<le> e"
  by (simp add: addMinutes_def algebra_simps)

lemma tz_floor_le: "tz_ok Z \<Longrightarrow> g \<le> m \<Longrightarrow> z_floor Z tz g \<le> m"
  using tz_floor(1)[where Z = Z and t = g] by (meson order_trans)

lemma startsInWindow_set:
  assumes "tz_ok (e_tz E)" and "0 < stepMinutes sc"
  shows "(\<exists>w \<in> set wins. t \<in> set (startsInWindow E tz cfg day sc dur w)) \<longleftrightarrow> offeredIn E tz cfg day sc dur wins t"
  using aligned_starts[OF assms(1,2) tz_floor_le[OF assms(1) max.cobounded2]]
  by (auto simp: startsInWindow_def Let_def offeredIn_def le_addMinutes_minus)

text \<open>For an individual service the slots offered are exactly those of the starts offered in the windows of its
  professionals.\<close>

definition offeredSlots ::
  "env \<Rightarrow> times_input \<Rightarrow> times_config \<Rightarrow> instant \<Rightarrow> slot_config \<Rightarrow> int \<Rightarrow> (ident \<rightharpoonup> window list) \<Rightarrow> ident list \<Rightarrow> slot set" where
  "offeredSlots E inp cfg day sc dur windows eligible =
     {slotAt E (ti_tzClient inp) t (addMinutes t dur) None | t.
        \<exists>u \<in> set eligible. offeredIn E (ti_tzWorkspace inp) cfg day sc dur (orElse (windows u) []) t}"

definition slotsOf :: "slot list \<Rightarrow> slot set \<Rightarrow> bool" where
  "slotsOf slots offered \<longleftrightarrow> set slots \<subseteq> offered \<and> slotKey ` set slots = slotKey ` offered
     \<and> sorted (map startLocalISO slots) \<and> distinct (map slotKey slots)"

lemma individual_slots:
  assumes Z: "tz_ok (e_tz E)" and st: "0 < stepMinutes sc"
    and cap: "serviceCapacity snap = 1" and dur: "dur = orElse (Option.bind snap sv_duration) (at_duration a)"
  shows "slotsOf (singleServiceSlots E inp cfg day sc windows eligible ges snap a)
    (offeredSlots E inp cfg day sc dur windows eligible)"
proof -
  let ?raw = "concat (map (\<lambda>u. concat (map (\<lambda>w. List.map_filter (singleSlot E inp dur 1 False [] u)
      (startsInWindow E (ti_tzWorkspace inp) cfg day sc dur w)) (orElse (windows u) []))) eligible)"
  have slots: "singleServiceSlots E inp cfg day sc windows eligible ges snap a = dedupeAndSortSlots ?raw"
    using cap by (simp add: singleServiceSlots_def serviceCapacity_def Let_def dur)
  have "s \<in> set ?raw \<longleftrightarrow> (\<exists>t. s = slotAt E (ti_tzClient inp) t (addMinutes t dur) None \<and>
      (\<exists>u \<in> set eligible. \<exists>w \<in> set (orElse (windows u) []). t \<in> set (startsInWindow E (ti_tzWorkspace inp) cfg day sc dur w)))" for s
    by (auto simp: singleSlot_def set_map_filter_iff Let_def)
  then have "set ?raw = offeredSlots E inp cfg day sc dur windows eligible"
    unfolding startsInWindow_set[OF Z st] offeredSlots_def by (simp only: set_eq_iff mem_Collect_eq simp_thms)
  then show ?thesis using dedupeAndSortSlots_correct[of ?raw] unfolding slots slotsOf_def by simp
qed

section \<open>What the service answers\<close>

lemma allowedUsers_db [keeps_db]: "w_db (snd (allowedUsersByService E allowed as ws m w)) = w_db w"
  by (induction as arbitrary: m w) (auto simp: keeps_db intro!: ebind_keeps[where k = w_db])

lemma set_update_subset: "set (AList.update k v m) \<subseteq> insert (k, v) (set m)"
  by (induction m) auto

lemma allowedUsers_allowed:
  "allowedUsersByService E allowed as ws m w = (Inr users, w') \<Longrightarrow> \<forall>us \<in> snd ` set m. set us \<subseteq> set allowed \<Longrightarrow>
   \<forall>us \<in> snd ` set users. set us \<subseteq> set allowed"
proof (induction as arbitrary: m w)
  case (Cons a as)
  have upd: "\<forall>us \<in> snd ` set (AList.update k (filter (\<lambda>u. u \<in> set allowed) v) m). set us \<subseteq> set allowed" for k v
    using Cons.prems(2) set_update_subset[of k "filter (\<lambda>u. u \<in> set allowed) v" m] by fastforce
  have run: "\<exists>m' w2. allowedUsersByService E allowed as ws m' w2 = (Inr users, w') \<and>
      (m' = m \<or> (\<exists>k v. m' = AList.update k (filter (\<lambda>u. u \<in> set allowed) v) m))"
    using Cons.prems(1) by (auto simp del: filter.simps simp: ebind_Inr_iff split: if_splits)
  then show ?case using Cons.IH upd Cons.prems(2) by blast
qed simp

lemma getGroupEvents_db [keeps_db]: "w_db (snd (getGroupEventsWithCounts E ws svc s e ex w)) = w_db w"
  by (auto simp: getGroupEventsWithCounts_def split: option.splits)

lemma fetchGroupEvents_db [keeps_db]: "w_db (snd (fetchGroupEvents E inp services w)) = w_db w"
  by (auto simp: fetchGroupEvents_def keeps_db split: list.splits)

text \<open>The times endpoint only reads the database.\<close>

lemma times_db [keeps_db]: "w_db (snd (publicGetAvailableTimeSlots E inp cfg w)) = w_db w"
proof -
  have "w_db (snd (publicGetAvailableTimeSlotsBody E inp cfg w)) = w_db w"
    unfolding publicGetAvailableTimeSlotsBody_def Let_def
    by (auto simp: keeps_db intro!: ebind_keeps[where k = w_db] split: option.splits)
  then show ?thesis by (auto simp: publicGetAvailableTimeSlots_def ecatch_def split: prod.splits sum.splits)
qed

definition timesFetched ::
  "env \<Rightarrow> times_input \<Rightarrow> times_config \<Rightarrow> db \<Rightarrow> instant \<Rightarrow> (ident \<times> ident list) list \<Rightarrow> busy_event list \<Rightarrow> bool" where
  "timesFetched E inp cfg db d users evs \<longleftrightarrow>
     z_parse (e_tz E) (ti_date inp @ ''T00:00:00'') (ti_tzWorkspace inp) = Some d \<and>
     (\<forall>us \<in> snd ` set users. set us \<subseteq> set (orElse (tc_resources cfg) [])) \<and>
     (\<exists>t0 t1. rangeStart E (ti_date inp) = Some t0 \<and> rangeEnd E (ti_date inp) = Some t1 \<and>
        evs = map busyOf (sort_key ev_start (filter (\<lambda>y. ev_start y < t1 \<and> ev_end y > t0 \<and>
          blocksAvailability db (ti_workspace inp) (allUserIdsOf users) (ti_exclude inp) y) (events db))))"

lemma timesFetchedI:
  assumes "z_parse (e_tz E) (ti_date inp @ ''T00:00:00'') (ti_tzWorkspace inp) = Some d"
    and "allowedUsersByService E (orElse (tc_resources cfg) []) as ws [] w1 = (Inr users, w2)"
    and "getEventsOverlappingRange E (ti_workspace inp) (allUserIdsOf users) (ti_date inp) (ti_date inp)
      (ti_exclude inp) w2 = (Inr evs, w3)" and "allUserIdsOf users \<noteq> []" and "w_db w2 = db"
  shows "timesFetched E inp cfg db d users evs"
  using getEventsOverlappingRange_Inr[OF assms(3,4)] allowedUsers_allowed[OF assms(2)] assms(1,5)
  by (auto simp: timesFetched_def)

definition timesOffered :: "env \<Rightarrow> times_input \<Rightarrow> times_config \<Rightarrow> db \<Rightarrow> times_answer \<Rightarrow> bool" where
  "timesOffered E inp cfg db ans \<longleftrightarrow> (\<exists>d users services evs ges.
     ans = offerSlots E inp cfg d users services evs ges \<and> timesFetched E inp cfg db d users evs)"

lemma timesOfferedI:
  "timesFetched E inp cfg db d users evs \<Longrightarrow> timesOffered E inp cfg db (offerSlots E inp cfg d users services evs ges)"
  unfolding timesOffered_def by blast

lemmas times_keeps =
  after_keeps[where m = "getServicesSnapshotById E ws ids a b" for E ws ids a b, OF getServicesSnapshotById_db]
  after_keeps[where m = "allowedUsersByService E us as ws m" for E us as ws m, OF allowedUsers_db]
  after_keeps[where m = "getEventsOverlappingRange E ws us a b c" for E ws us a b c, OF getEventsOverlappingRange_db]
  after_keeps[where m = "fetchGroupEvents E inp svcs" for E inp svcs, OF fetchGroupEvents_db]

lemma timesBody_after:
  "after (publicGetAvailableTimeSlotsBody E inp cfg) w (\<lambda>r t. case r of Inl e \<Rightarrow> True
     | Inr ans \<Rightarrow> ta_slots ans \<noteq> [] \<longrightarrow> timesOffered E inp cfg (w_db w) ans)"
  unfolding publicGetAvailableTimeSlotsBody_def Let_def
  by (auto split del: if_split intro!: after_rules times_keeps simp: noSlots_def)
    (rule timesOfferedI, erule timesFetchedI, assumption+)+

lemma times_parts:
  assumes "publicGetAvailableTimeSlots E inp cfg w = (Inr ans, w')" and "ta_slots ans \<noteq> []"
  obtains d users services evs ges where "ans = offerSlots E inp cfg d users services evs ges"
    "timesFetched E inp cfg (w_db w) d users evs"
proof -
  have "publicGetAvailableTimeSlotsBody E inp cfg w = (Inr ans, w')"
    using assms(1) by (auto simp: publicGetAvailableTimeSlots_def ecatch_def split: prod.splits sum.splits)
  from afterD[OF timesBody_after this] assms(2) that show ?thesis by (auto simp: timesOffered_def)
qed

section \<open>What is offered can be served\<close>

text \<open>A live event of a professional that the query of the day sees and that ends on a whole minute.\<close>

definition busyFor :: "env \<Rightarrow> times_input \<Rightarrow> db \<Rightarrow> ident \<Rightarrow> event_row \<Rightarrow> bool" where
  "busyFor E inp db u e \<longleftrightarrow> e \<in> set (events db) \<and> ev_user e = Some u \<and>
     blocksAvailability db (ti_workspace inp) [u] (ti_exclude inp) e \<and>
     (\<exists>t0 t1. rangeStart E (ti_date inp) = Some t0 \<and> rangeEnd E (ti_date inp) = Some t1 \<and> ev_start e < t1 \<and> t0 < ev_end e) \<and>
     ev_start e < ev_end e \<and> z_floor (e_tz E) (ti_tzWorkspace inp) (ev_end e) = ev_end e"

fun backToBack :: "instant \<Rightarrow> segment list \<Rightarrow> instant \<Rightarrow> bool" where
  "backToBack t [] e \<longleftrightarrow> t = e"
| "backToBack t (sg # segs) e \<longleftrightarrow> sg_start sg = t \<and> backToBack (sg_end sg) segs e"

definition served :: "env \<Rightarrow> times_input \<Rightarrow> times_config \<Rightarrow> db \<Rightarrow> segment list \<Rightarrow> bool" where
  "served E inp cfg db segs \<longleftrightarrow> map sg_service segs = map at_service (ti_attendees inp) \<and>
     (\<forall>sg \<in> set segs. sg_user sg \<in> set (orElse (tc_resources cfg) []) \<and>
        (\<forall>e. busyFor E inp db (sg_user sg) e \<longrightarrow>
           \<not> overlaps e (sg_start sg) (z_floor (e_tz E) (ti_tzWorkspace inp) (sg_end sg))))"

lemma freeWindows_apart:
  assumes "w \<in> set (freeWindows today rounded shifts busy)" and "v \<in> set busy" and "proper v"
  shows "wend v \<le> wstart w \<or> wend w \<le> wstart v"
proof (rule ccontr)
  assume not: "\<not> ?thesis"
  let ?t = "max (wstart w) (wstart v)"
  have "covers busy ?t" using assms(2,3) not by (auto simp: covers_def inWin_def proper_def intro!: bexI[of _ v])
  moreover have "covers (freeWindows today rounded shifts busy) ?t"
    using assms(1) not freeWindows_proper[OF assms(1)] by (auto simp: covers_def inWin_def proper_def intro!: bexI[of _ w])
  ultimately show False unfolding freeWindows_covers by blast
qed

lemma timesWindows_apart:
  assumes Z: "tz_ok (e_tz E)" and f: "timesFetched E inp cfg db d users evs" and u: "u \<in> set (allUserIdsOf users)"
    and w: "w \<in> set (orElse (timesWindows E inp cfg d sc (allUserIdsOf users) evs u) [])" and e: "busyFor E inp db u e"
  shows "ev_end e \<le> z_floor (e_tz E) (ti_tzWorkspace inp) (wstart w) \<or> wend w \<le> ev_start e"
proof -
  have "busyOf e \<in> set evs" using f e u by (auto simp: timesFetched_def busyFor_def blocksAvailability_def)
  then have "win (ev_start e) (ev_end e) \<in> set (busyOfUser (groupEventsByUser Map.empty evs) u)"
    using e by (auto simp: busyOfUser_group busyOf_def busyFor_def image_iff intro!: bexI[of _ "busyOf e"])
  moreover obtain today rounded shifts where
    "w \<in> set (freeWindows today rounded shifts (busyOfUser (groupEventsByUser Map.empty evs) u))"
    using w u by (auto simp: timesWindows_def Let_def map_of_self)
  ultimately have "ev_end e \<le> wstart w \<or> wend w \<le> ev_start e" using freeWindows_apart e by (fastforce simp: busyFor_def proper_def)
  moreover have "z_floor (e_tz E) (ti_tzWorkspace inp) (ev_end e) = ev_end e" using e by (simp add: busyFor_def)
  ultimately show ?thesis using tz_floor_mono[OF Z] by metis
qed

text \<open>A segment whose minutes lie in a window of its professional meets none of that professional's events.\<close>

lemma segment_free:
  assumes Z: "tz_ok (e_tz E)" and f: "timesFetched E inp cfg db d users evs" and u: "u \<in> set (allUserIdsOf users)"
    and w: "w \<in> set (orElse (timesWindows E inp cfg d sc (allUserIdsOf users) evs u) [])" and e: "busyFor E inp db u e"
    and lo: "z_floor (e_tz E) (ti_tzWorkspace inp) (wstart w) \<le> t"
    and hi: "z_floor (e_tz E) (ti_tzWorkspace inp) t' \<le> wend w"
  shows "\<not> overlaps e t (z_floor (e_tz E) (ti_tzWorkspace inp) t')"
  using timesWindows_apart[OF Z f u w e] lo hi by (auto simp: overlaps_def)

lemma eligible_user:
  assumes "timesFetched E inp cfg db d users evs" and "u \<in> set (orElse (map_of users svc) [])"
  shows "u \<in> set (allUserIdsOf users) \<and> u \<in> set (orElse (tc_resources cfg) [])"
proof -
  obtain us where us: "map_of users svc = Some us" "u \<in> set us" using assms(2) by (cases "map_of users svc") auto
  then have "us \<in> snd ` set users" using map_of_SomeD[OF us(1)] by force
  then show ?thesis using assms(1) us(2) by (auto simp: timesFetched_def allUserIdsOf_def)
qed

lemma plan_served:
  assumes Z: "tz_ok (e_tz E)" and f: "timesFetched E inp cfg db d users evs"
    and elig: "\<And>svc u. u \<in> set (orElse (ac_eligible ctx svc) []) \<Longrightarrow> u \<in> set (orElse (map_of users svc) [])"
    and wins: "ac_windows ctx = timesWindows E inp cfg d sc (allUserIdsOf users) evs"
  shows "planFrom (e_tz E) (ti_tzWorkspace inp) ctx t as segs \<Longrightarrow>
    backToBack t segs (addMinutes t (sumDurations as)) \<and> map sg_service segs = map at_service as \<and>
    (\<forall>sg \<in> set segs. sg_user sg \<in> set (orElse (tc_resources cfg) []) \<and>
        (\<forall>e. busyFor E inp db (sg_user sg) e \<longrightarrow>
           \<not> overlaps e (sg_start sg) (z_floor (e_tz E) (ti_tzWorkspace inp) (sg_end sg))))"
proof (induction as arbitrary: t segs)
  case (Cons a as)
  obtain sg rest where s: "segs = sg # rest" and u: "sg_user sg \<in> set (orElse (ac_eligible ctx (at_service a)) [])"
    and fit: "fitsUser (e_tz E) (ti_tzWorkspace inp) ctx (sg_user sg) t (addMinutes t (at_duration a))"
    and rest: "planFrom (e_tz E) (ti_tzWorkspace inp) ctx (addMinutes t (at_duration a)) as rest"
    by (rule planFrom_Cons_E[OF Cons.prems])
  have sg: "sg_service sg = at_service a" "sg_start sg = t" "sg_end sg = addMinutes t (at_duration a)"
    using Cons.prems s by simp_all
  obtain w where w: "w \<in> set (orElse (timesWindows E inp cfg d sc (allUserIdsOf users) evs (sg_user sg)) [])"
    "windowContains (e_tz E) (ti_tzWorkspace inp) w t (addMinutes t (at_duration a))"
    using fit wins by (auto simp: fitsUser_def list_ex_iff)
  have "\<not> overlaps e t (z_floor (e_tz E) (ti_tzWorkspace inp) (addMinutes t (at_duration a)))"
    if "busyFor E inp db (sg_user sg) e" for e
    using segment_free[OF Z f conjunct1[OF eligible_user[OF f elig[OF u]]] w(1) that] w(2)
      tz_floor(1)[OF Z, of "ti_tzWorkspace inp" t] tz_floor(1)[OF Z, of "ti_tzWorkspace inp" "wend w"]
    by (auto simp: windowContains_def)
  then show ?case using Cons.IH[OF rest] sg s eligible_user[OF f elig[OF u]] by auto
qed simp

lemma dedupe_subset: "set (dedupeAndSortSlots xs) \<subseteq> set xs"
  using dedupeAndSortSlots_correct[of xs] by blast

lemma single_slot_of:
  "s \<in> set (singleServiceSlots E inp cfg day sc windows eligible ges snap a) \<Longrightarrow>
   \<exists>dur gs u t. singleSlot E inp dur (serviceCapacity snap) (serviceCapacity snap > 1) gs u t = Some s"
  unfolding singleServiceSlots_def Let_def serviceCapacity_def[symmetric]
  by (drule subsetD[OF dedupe_subset]) (simp only: set_concat set_map set_map_filter_iff UN_iff bex_simps, blast)

lemma individual_labels:
  "s \<in> set (singleServiceSlots E inp cfg day sc windows eligible ges snap a) \<Longrightarrow> labelParticipant s = None \<Longrightarrow>
   serviceCapacity snap = 1"
  by (cases "serviceCapacity snap > 1")
    (use single_slot_of in \<open>fastforce simp: singleSlot_def slotAt_def Let_def split: if_splits\<close>, simp add: serviceCapacity_def)

lemma offered_slot_parts:
  assumes Z: "tz_ok (e_tz E)" and f: "timesFetched E inp cfg db d users evs"
    and s: "s \<in> set (ta_slots (offerSlots E inp cfg d users services evs ges))" "labelParticipant s = None"
  shows "\<exists>t e segs. s = slotAt E (ti_tzClient inp) t e None \<and> withinBookingWindow E (ti_tzWorkspace inp) cfg t \<and>
    backToBack t segs e \<and> served E inp cfg db segs"
proof -
  let ?tz = "ti_tzWorkspace inp"
  let ?sc = "computeSlotConfig (e_tz E) (e_now E) (intervalOf cfg (ti_attendees inp)) ?tz d"
  let ?wins = "timesWindows E inp cfg d ?sc (allUserIdsOf users) evs"
  show ?thesis
  proof (cases "\<exists>a. ti_attendees inp = [a]")
    case True
    then obtain a where a: "ti_attendees inp = [a]" by blast
    let ?dur = "orElse (Option.bind (services (at_service a)) sv_duration) (at_duration a)"
    have mem: "s \<in> set (singleServiceSlots E inp cfg d ?sc ?wins (orElse (map_of users (at_service a)) []) ges
        (services (at_service a)) a)"
      using s(1) a by (simp add: offerSlots_def Let_def timesAnswer_def)
    have "s \<in> offeredSlots E inp cfg d ?sc ?dur ?wins (orElse (map_of users (at_service a)) [])"
      using individual_slots[OF Z computeSlotConfig_step_pos individual_labels[OF mem s(2)], where a = a, OF refl] mem
      unfolding slotsOf_def by blast
    then obtain t u w where t: "s = slotAt E (ti_tzClient inp) t (addMinutes t ?dur) None"
      and u: "u \<in> set (orElse (map_of users (at_service a)) [])" and w: "w \<in> set (orElse (?wins u) [])"
      and win: "withinBookingWindow E ?tz cfg t"
      and lo: "z_floor (e_tz E) ?tz (max (wstart w) (z_sod (e_tz E) ?tz d)) \<le> t" and hi: "addMinutes t ?dur \<le> wend w"
      by (auto simp: offeredSlots_def offeredIn_def)
    let ?sg = "\<lparr>sg_service = at_service a, sg_user = u, sg_start = t, sg_end = addMinutes t ?dur\<rparr>"
    have "z_floor (e_tz E) ?tz (wstart w) \<le> t" using lo tz_floor_mono[OF Z, of "wstart w"] by (meson max.cobounded1 order_trans)
    moreover have "z_floor (e_tz E) ?tz (addMinutes t ?dur) \<le> wend w" using hi tz_floor_le[OF Z] by blast
    ultimately have "served E inp cfg db [?sg]"
      using segment_free[OF Z f conjunct1[OF eligible_user[OF f u]] w] eligible_user[OF f u] by (simp add: served_def a)
    then show ?thesis using t win by (intro exI[of _ t] exI[of _ "addMinutes t ?dur"] exI[of _ "[?sg]"]) simp
  next
    case False
    let ?as = "map (realAttendee services) (ti_attendees inp)"
    have "s \<in> set (multiServiceSlots E inp cfg d ?sc ?wins users services)"
      using s(1) False by (auto simp: offerSlots_def Let_def timesAnswer_def noSlots_def split: list.splits if_splits)
    then obtain t where t: "s = slotAt E (ti_tzClient inp) t (addMinutes t (sumDurations ?as)) None"
      and win: "withinBookingWindow E ?tz cfg t"
      and ok: "fst (assignSeq (e_tz E) ?tz \<lparr>ac_start = t,
          ac_eligible = map_of (map (\<lambda>a. (at_service a, orElse (map_of users (at_service a)) [])) (ti_attendees inp)),
          ac_windows = ?wins\<rparr> [] ?as [] [])" (is "fst (assignSeq _ _ ?ctx _ _ _ _)")
      using dedupeAndSortSlots_correct unfolding multiServiceSlots_def Let_def by fastforce
    obtain used segs where "assignSeq (e_tz E) ?tz ?ctx [] ?as [] [] = (True, used, segs)"
      using ok by (cases "assignSeq (e_tz E) ?tz ?ctx [] ?as [] []") auto
    from assignSeq_sound(1)[OF this] have plan: "planFrom (e_tz E) ?tz ?ctx t ?as segs" by simp
    have elig: "u \<in> set (orElse (ac_eligible ?ctx svc) []) \<Longrightarrow> u \<in> set (orElse (map_of users svc) [])" for u svc
      by (cases "map_of (map (\<lambda>a. (at_service a, orElse (map_of users (at_service a)) [])) (ti_attendees inp)) svc")
        (auto dest!: map_of_SomeD)
    have "map at_service ?as = map at_service (ti_attendees inp)" by (simp add: realAttendee_def)
    then show ?thesis using plan_served[OF Z f elig _ plan] t win
      by (intro exI[of _ t] exI[of _ "addMinutes t (sumDurations ?as)"] exI[of _ segs]) (simp add: served_def)
  qed
qed

section \<open>A day with one free professional\<close>

definition demo_times :: times_input where
  "demo_times = \<lparr>ti_company = ''co'', ti_workspace = ''w'', ti_tzWorkspace = ''UTC'', ti_tzClient = ''UTC'',
     ti_date = ''1970-01-01'', ti_attendees = [demo_attendee], ti_exclude = None, ti_client = None\<rparr>"

definition demo_times_cfg :: times_config where
  "demo_times_cfg = \<lparr>tc_maxAdvanceDays = None, tc_minLeadTimeMin = None, tc_alignMode = None,
     tc_stepMinutes = Some 180, tc_resources = Some [''ana''], tc_useBizFallback = None\<rparr>"

definition demo_times_world :: world where
  "demo_times_world = demo_world (demo_db 1 ACCEPTED demo_ps)"

definition demo_times_after :: world where
  "demo_times_after = demo_times_world\<lparr>w_briefs := [''yoga'' \<mapsto> demo_brief 1]\<rparr>"

lemmas demo_fetch_defs = getServiceByIds_def demo_env_def demo_times_world_def demo_times_after_def demo_world_def
  demo_brief_def Let_def isBlank_def uniq.simps ebind_def eread_def emod_def eret_def List.map_filter_simps

lemma demo_times_snapshot:
  "getServicesSnapshotById (demo_env 1) ''w'' [''yoga''] False True demo_times_world =
     (Inr [''yoga'' \<mapsto> demo_service 1], demo_times_after)"
  by (simp add: getServicesSnapshotById_def demo_fetch_defs demo_service_def snapshotOf_def)

lemma demo_times_users:
  "allowedUsersByService (demo_env 1) [''ana''] [demo_attendee] ''w'' [] demo_times_after =
     (Inr [(''yoga'', [''ana''])], demo_times_after)"
  by (simp add: demo_attendee_def getUsersWhoCanPerformService_def demo_fetch_defs cacheUsers_def usersOfServices_def)

lemma demo_times_busy:
  "getEventsOverlappingRange (demo_env 1) ''w'' [''ana''] ''1970-01-01'' ''1970-01-01'' None demo_times_after =
     (Inr [busyOf (demo_event 1)], demo_times_after)"
proof -
  have "rangeStart (demo_env 1) ''1970-01-01'' = Some 0" "rangeEnd (demo_env 1) ''1970-01-01'' = Some 86399999" by code_simp+
  moreover have "filter (\<lambda>x. ev_start x < 86399999 \<and> ev_end x > 0 \<and>
      blocksAvailability (demo_db 1 ACCEPTED demo_ps) ''w'' [''ana''] None x) [demo_event 1] = [demo_event 1]" by code_simp
  ultimately show ?thesis
    by (simp add: getEventsOverlappingRange_def demo_times_world_def demo_times_after_def demo_world_def demo_db_def sort_key_simps)
qed

abbreviation demo_times_grid :: slot_config where
  "demo_times_grid \<equiv> computeSlotConfig utc_tz 0 (Some 180) ''UTC'' 0"

lemma demo_times_windows:
  "orElse (timesWindows (demo_env 1) demo_times demo_times_cfg 0 demo_times_grid [''ana''] [busyOf (demo_event 1)] ''ana'') [] =
     [win 28800000 32400000, win 36000000 64800000]"
  by code_simp

text \<open>At 12:00 the professional is free, so the list of the day is not empty.\<close>

lemma demo_times_slots:
  "ta_slots (offerSlots (demo_env 1) demo_times demo_times_cfg 0 [(''yoga'', [''ana''])] [''yoga'' \<mapsto> demo_service 1]
      [busyOf (demo_event 1)] []) \<noteq> []"
proof -
  let ?W = "timesWindows (demo_env 1) demo_times demo_times_cfg 0 demo_times_grid [''ana''] [busyOf (demo_event 1)]"
  have Z: "e_tz (demo_env 1) = utc_tz" "e_now (demo_env 1) = 0" by (simp_all add: demo_env_def)
  have ok: "tz_ok (e_tz (demo_env 1))" by (simp add: Z utc_tz_ok)
  have "withinBookingWindow (demo_env 1) ''UTC'' demo_times_cfg 43200000" by code_simp
  moreover have "onGrid utc_tz ''UTC'' 180 0 43200000" unfolding onGrid_def
    by (intro exI[of _ 4]) (simp add: utc_tz_def addMinutes_def)
  moreover have "stepMinutes demo_times_grid = 180" "z_sod utc_tz ''UTC'' 0 = 0" "z_floor utc_tz ''UTC'' (max 36000000 0) = 36000000"
    by (simp_all add: computeSlotConfig_def utc_tz_def Let_def)
  ultimately have "offeredIn (demo_env 1) ''UTC'' demo_times_cfg 0 demo_times_grid 60 (orElse (?W ''ana'') []) 43200000"
    unfolding offeredIn_def Z demo_times_windows by (simp add: addMinutes_def)
  then have "offeredSlots (demo_env 1) demo_times demo_times_cfg 0 demo_times_grid 60 ?W [''ana''] \<noteq> {}"
    by (auto simp: offeredSlots_def demo_times_def)
  moreover have "slotsOf (singleServiceSlots (demo_env 1) demo_times demo_times_cfg 0 demo_times_grid ?W [''ana''] []
      (Some (demo_service 1)) demo_attendee) (offeredSlots (demo_env 1) demo_times demo_times_cfg 0 demo_times_grid 60 ?W [''ana''])"
    by (rule individual_slots[OF ok computeSlotConfig_step_pos])
      (simp_all add: serviceCapacity_def demo_service_def)
  ultimately show ?thesis
    by (auto simp: slotsOf_def offerSlots_def Let_def timesAnswer_def demo_times_def demo_times_cfg_def intervalOf_def Z
        allUserIdsOf_def uniq.simps demo_attendee_def)
qed

lemma demo_times_individual:
  "s \<in> set (ta_slots (offerSlots (demo_env 1) demo_times demo_times_cfg 0 [(''yoga'', [''ana''])] [''yoga'' \<mapsto> demo_service 1]
      [busyOf (demo_event 1)] [])) \<Longrightarrow> labelParticipant s = None"
proof -
  assume s: "s \<in> set (ta_slots (offerSlots (demo_env 1) demo_times demo_times_cfg 0 [(''yoga'', [''ana''])]
      [''yoga'' \<mapsto> demo_service 1] [busyOf (demo_event 1)] []))"
  have "ti_attendees demo_times = [demo_attendee]" "at_service demo_attendee = ''yoga''"
    by (simp_all add: demo_times_def demo_attendee_def)
  then have "s \<in> set (ta_slots (timesAnswer (singleServiceSlots (demo_env 1) demo_times demo_times_cfg 0
      (computeSlotConfig (e_tz (demo_env 1)) (e_now (demo_env 1)) (intervalOf demo_times_cfg [demo_attendee]) (ti_tzWorkspace demo_times) 0)
      (timesWindows (demo_env 1) demo_times demo_times_cfg 0 (computeSlotConfig (e_tz (demo_env 1)) (e_now (demo_env 1)) (intervalOf demo_times_cfg [demo_attendee]) (ti_tzWorkspace demo_times) 0)
        (allUserIdsOf [(''yoga'', [''ana''])]) [busyOf (demo_event 1)]) [''ana''] [] (Some (demo_service 1)) demo_attendee)))"
    using s by (simp add: offerSlots_def Let_def)
  from single_slot_of[OF this[unfolded timesAnswer_def times_answer.simps]] show ?thesis
    by (auto simp: serviceCapacity_def demo_service_def singleSlot_def slotAt_def Let_def)
qed

lemma demo_times_run:
  "publicGetAvailableTimeSlots (demo_env 1) demo_times demo_times_cfg demo_times_world =
     (Inr (offerSlots (demo_env 1) demo_times demo_times_cfg 0 [(''yoga'', [''ana''])] [''yoga'' \<mapsto> demo_service 1]
        [busyOf (demo_event 1)] []), demo_times_after)"
proof -
  have day: "isDayText ''1970-01-01''" "z_parse (e_tz (demo_env 1)) ''1970-01-01T00:00:00'' ''UTC'' = Some 0" by code_simp+
  have past: "\<not> isDayInPast (e_tz (demo_env 1)) ''UTC'' 0 (z_sod (e_tz (demo_env 1)) ''UTC'' (e_now (demo_env 1)))" by code_simp
  have window: "\<not> (0 > latestAllowedEnd (demo_env 1) ''UTC'' demo_times_cfg \<or>
      z_eod (e_tz (demo_env 1)) ''UTC'' 0 < earliestAllowed (demo_env 1) ''UTC'' demo_times_cfg)" by code_simp
  show ?thesis
    unfolding publicGetAvailableTimeSlots_def publicGetAvailableTimeSlotsBody_def
    using day past window demo_times_snapshot demo_times_users demo_times_busy
    by (simp add: demo_times_def demo_times_cfg_def ecatch_def Let_def ebind_def demo_attendee_def demo_service_def
        allUserIdsOf_def uniq.simps fetchGroupEvents_def serviceCapacity_def eret_def)
qed

section \<open>Properties\<close>

text \<open>C9: every slot that is offered without seats can be served: it starts inside the booking window, and its services
  can be given back to back, from its start to its end, by professionals the page allows, none of whom has at
  that time a live event that the query of the day sees (events ending on whole minutes; the end of a service
  is taken at its minute).\<close>
theorem offered_slot_served:
  assumes "tz_ok (e_tz E)" and "publicGetAvailableTimeSlots E inp cfg w = (Inr ans, w')"
    and "s \<in> set (ta_slots ans)" and "labelParticipant s = None"
  shows "\<exists>t e segs. s = slotAt E (ti_tzClient inp) t e None \<and> withinBookingWindow E (ti_tzWorkspace inp) cfg t \<and>
    backToBack t segs e \<and> served E inp cfg (w_db w) segs"
proof -
  have "ta_slots ans \<noteq> []" using assms(3) by auto
  from times_parts[OF assms(2) this] show ?thesis using offered_slot_parts[OF assms(1) _ _ assms(4)] assms(3) by metis
qed

theorem offered_slot_served_witness:
  "\<exists>s t e segs. s = slotAt (demo_env 1) ''UTC'' t e None \<and> backToBack t segs e \<and>
     served (demo_env 1) demo_times demo_times_cfg (w_db demo_times_world) segs"
proof -
  obtain ans where r: "publicGetAvailableTimeSlots (demo_env 1) demo_times demo_times_cfg demo_times_world = (Inr ans, demo_times_after)"
    and "ta_slots ans \<noteq> []" using demo_times_run demo_times_slots by blast
  then obtain s where s: "s \<in> set (ta_slots ans)" by (cases "ta_slots ans") auto
  have "ans = offerSlots (demo_env 1) demo_times demo_times_cfg 0 [(''yoga'', [''ana''])] [''yoga'' \<mapsto> demo_service 1]
        [busyOf (demo_event 1)] []" using r demo_times_run by simp
  then have "labelParticipant s = None" using s demo_times_individual by blast
  from offered_slot_served[OF _ r s this] show ?thesis
    by (auto simp: demo_env_def utc_tz_ok demo_times_def)
qed

text \<open>C10: for an individual service the offered slots are exactly those of the starts on the grid of the day, inside
  the booking window, at which one of its professionals has a free window for the whole duration that begins no later
  than in the minute of the start; each is listed once, in the order of the start texts.\<close>
theorem individual_slots_exact:
  assumes "tz_ok (e_tz E)" and "0 < stepMinutes sc" and "serviceCapacity snap = 1"
    and "dur = orElse (Option.bind snap sv_duration) (at_duration a)"
  shows "slotsOf (singleServiceSlots E inp cfg day sc windows eligible ges snap a)
    {slotAt E (ti_tzClient inp) t (addMinutes t dur) None | t.
        \<exists>u \<in> set eligible. offeredIn E (ti_tzWorkspace inp) cfg day sc dur (orElse (windows u) []) t}"
  using individual_slots[OF assms] by (simp add: offeredSlots_def)

theorem individual_slots_exact_witness:
  "slotsOf (singleServiceSlots (demo_env 1) demo_times demo_times_cfg 0 demo_times_grid [''ana'' \<mapsto> [win 0 7200000]] [''ana''] []
      (Some (demo_service 1)) demo_attendee)
    {slotAt (demo_env 1) ''UTC'' t (addMinutes t 60) None | t.
        offeredIn (demo_env 1) ''UTC'' demo_times_cfg 0 demo_times_grid 60 [win 0 7200000] t}"
proof -
  have "tz_ok (e_tz (demo_env 1))" by (simp add: demo_env_def utc_tz_ok)
  moreover have "serviceCapacity (Some (demo_service 1)) = 1"
    "60 = orElse (Option.bind (Some (demo_service 1)) sv_duration) (at_duration demo_attendee)"
    by (simp_all add: serviceCapacity_def demo_service_def)
  ultimately have "slotsOf (singleServiceSlots (demo_env 1) demo_times demo_times_cfg 0 demo_times_grid
      [''ana'' \<mapsto> [win 0 7200000]] [''ana''] [] (Some (demo_service 1)) demo_attendee)
    {slotAt (demo_env 1) (ti_tzClient demo_times) t (addMinutes t 60) None | t. \<exists>u \<in> set [''ana'']. offeredIn (demo_env 1)
       (ti_tzWorkspace demo_times) demo_times_cfg 0 demo_times_grid 60 (orElse ([''ana'' \<mapsto> [win 0 7200000]] u) []) t}"
    by (rule individual_slots_exact[OF _ computeSlotConfig_step_pos])
  then show ?thesis by (simp add: demo_times_def)
qed

end
