(* ===== verification/CalDays.thy ===== *)
theory CalDays
  imports CalTimes
begin

text \<open>
  The days with availability (\<open>publicGetAvailableDays\<close> of \<open>eventv2.service.ts\<close>): the enumeration of the
  days of the range, a second copy of the interval arithmetic (\<open>mergeRanges\<close>, \<open>subtractBusy\<close>), the count of the
  starts a window has room for, and the flag of each day.
\<close>

section \<open>The days of a range\<close>

text \<open>\<open>enumerateDays\<close>. A date that does not parse is an invalid moment (\<open>None\<close>): every comparison with it is
  false, so the loop does not end.\<close>

definition isAfterDay :: "tzlib \<Rightarrow> ident \<Rightarrow> instant option \<Rightarrow> instant option \<Rightarrow> bool" where
  "isAfterDay Z z a b \<longleftrightarrow> (case (a, b) of (Some x, Some y) \<Rightarrow> y < z_sod Z z x | _ \<Rightarrow> False)"

definition formatDay :: "tzlib \<Rightarrow> ident \<Rightarrow> instant option \<Rightarrow> string" where
  "formatDay Z z t = (case t of Some x \<Rightarrow> z_date Z z x | None \<Rightarrow> ''Invalid date'')"

partial_function (option) enumerateFrom ::
  "tzlib \<Rightarrow> ident \<Rightarrow> instant option \<Rightarrow> instant option \<Rightarrow> string list \<Rightarrow> string list option" where
  "enumerateFrom Z z cur fin out =
     (if isAfterDay Z z cur fin then Some out
      else enumerateFrom Z z (map_option (\<lambda>t. z_addDays Z z t 1) cur) fin (out @ [formatDay Z z cur]))"

definition enumerateDays :: "tzlib \<Rightarrow> ident \<Rightarrow> string \<Rightarrow> string \<Rightarrow> string list option" where
  "enumerateDays Z z startISO endISO =
     enumerateFrom Z z (z_parse Z (startISO @ ''T00:00:00'') z) (z_parse Z (endISO @ ''T00:00:00'') z) []"

section \<open>Intervals\<close>

text \<open>\<open>mergeRanges\<close>: windows at whole minutes, the empty ones dropped, sorted and joined. When all are
  dropped the list holds \<open>undefined\<close>, and its use throws.\<close>

definition typeError :: "app_error" where
  "typeError = PlainError ''Cannot read properties of undefined''"

fun mergeLoop :: "window \<Rightarrow> window list \<Rightarrow> window list" where
  "mergeLoop cur [] = [cur]"
| "mergeLoop cur (r # rs) =
     (if \<not> wstart r > wend cur
      then mergeLoop (if wend r > wend cur then cur\<lparr>wend := wend r\<rparr> else cur) rs
      else cur # mergeLoop r rs)"

definition floorWindow :: "tzlib \<Rightarrow> ident \<Rightarrow> window \<Rightarrow> window" where
  "floorWindow Z tz w = win (z_floor Z tz (wstart w)) (z_floor Z tz (wend w))"

definition mergeRanges :: "tzlib \<Rightarrow> ident \<Rightarrow> window list \<Rightarrow> app_error + window list" where
  "mergeRanges Z tz rs =
     (if rs = [] then Inr []
      else case sort_key wstart (filter (\<lambda>r. wstart r < wend r) (map (floorWindow Z tz) rs)) of
        [] \<Rightarrow> Inl typeError
      | cur # rest \<Rightarrow> Inr (mergeLoop cur rest))"

text \<open>The loop of \<open>subtractBusy\<close> with its \<open>continue\<close> and \<open>break\<close>, and what is left after the last busy window.\<close>

fun subtractLoop :: "instant \<Rightarrow> instant \<Rightarrow> window list \<Rightarrow> window list" where
  "subtractLoop e cursor [] = (if cursor < e then [win cursor e] else [])"
| "subtractLoop e cursor (b # bs) =
     (if wend b \<le> cursor \<or> wstart b \<ge> e then subtractLoop e cursor bs
      else (if wstart b > cursor then [win cursor (min (wstart b) e)] else []) @
        (let cursor' = max cursor (wend b)
         in if \<not> cursor' < e then [] else subtractLoop e cursor' bs))"

definition subtractBusy :: "tzlib \<Rightarrow> ident \<Rightarrow> window \<Rightarrow> window list \<Rightarrow> app_error + window list" where
  "subtractBusy Z tz shift busy =
     (if busy = [] then Inr [shift]
      else map_sum id (subtractLoop (wend shift) (wstart shift)) (mergeRanges Z tz busy))"

definition countInWindow :: "tzlib \<Rightarrow> ident \<Rightarrow> int \<Rightarrow> int \<Rightarrow> instant option \<Rightarrow> window \<Rightarrow> int" where
  "countInWindow Z tz durMin stepMin clampFrom w =
     (let start = (case clampFrom of Some c \<Rightarrow> max (wstart w) c | None \<Rightarrow> wstart w);
          latestStart = addMinutes (wend w) (- durMin)
      in if start > latestStart then 0
         else let diffMin = max 0 ((start - wstart w) div minute_ms);
                  rem = diffMin mod stepMin;
                  first = z_floor Z tz (addMinutes start (if rem = 0 then 0 else stepMin - rem))
              in if first > latestStart then 0
                 else max 0 (1 + (latestStart - first) div minute_ms div stepMin))"

definition countStartsInWindows :: "tzlib \<Rightarrow> ident \<Rightarrow> window list \<Rightarrow> int \<Rightarrow> int \<Rightarrow> instant option \<Rightarrow> int" where
  "countStartsInWindows Z tz wins durMin stepMin clampFrom =
     sum_list (map (countInWindow Z tz durMin stepMin clampFrom) wins)"

section \<open>Input\<close>

text \<open>The temporary hours of a range of dates come from the hours service: \<open>di_temporary\<close>.
  \<open>di_serverZone\<close> is the zone of the server, in which the days are enumerated.\<close>

record days_input =
  di_company :: ident
  di_workspace :: ident
  di_tzWorkspace :: ident
  di_range :: "(string \<times> string) option"
  di_attendees :: "attendee list"
  di_exclude :: "ident option"
  di_client :: "ident option"
  di_serverZone :: ident
  di_temporary :: "ident list \<Rightarrow> ident \<Rightarrow> string \<Rightarrow> string \<Rightarrow> temporary_hours"

record day_flag =
  df_date :: string
  df_hasSlots :: bool
  df_capacity :: int
  df_status :: string

definition dayOff :: "string \<Rightarrow> day_flag" where
  "dayOff d = \<lparr>df_date = d, df_hasSlots = False, df_capacity = 0, df_status = ''dayoff''\<rparr>"

text \<open>Durations and capacities of the services found.\<close>

definition svcById :: "service_brief list \<Rightarrow> (ident \<rightharpoonup> int \<times> int)" where
  "svcById services = map_of (rev (map (\<lambda>s. (sb_id s, (orElse (sb_duration s) 60, max 1 (orElse (sb_maxParticipants s) 1)))) services))"

definition getSvcDur :: "(ident \<rightharpoonup> int \<times> int) \<Rightarrow> ident \<Rightarrow> int \<Rightarrow> int" where
  "getSvcDur svcs svcId fallback = orElse (map_option fst (svcs svcId)) fallback"

definition getSvcCap :: "(ident \<rightharpoonup> int \<times> int) \<Rightarrow> ident \<Rightarrow> int" where
  "getSvcCap svcs svcId = max 1 (orElse (map_option snd (svcs svcId)) 1)"

text \<open>The shifts of a professional on a day: as \<open>buildShiftsByUser\<close> with the business hours as fallback.\<close>

definition getShiftsFor ::
  "env \<Rightarrow> days_input \<Rightarrow> ident list \<Rightarrow> string \<times> string \<Rightarrow> ident \<Rightarrow> string \<Rightarrow> instant \<Rightarrow> raw_shift list" where
  "getShiftsFor E inp userIds rng uid dateISO dayStart =
     shiftsOfUser (e_tz E) (di_tzWorkspace inp) dateISO (z_weekday (e_tz E) (di_tzWorkspace inp) dayStart)
       (e_business E (di_company inp) (di_workspace inp)) (e_worker E userIds (di_workspace inp))
       (di_temporary inp userIds (di_workspace inp) (fst rng) (snd rng)) True uid"

text \<open>A shift whose texts do not parse is not before itself: it is dropped as an empty one is.\<close>

definition shiftWindow :: "raw_shift \<Rightarrow> window" where
  "shiftWindow sh = (case sh of (Some s, Some e) \<Rightarrow> win s e | _ \<Rightarrow> win 0 0)"

definition freeOfDay ::
  "tzlib \<Rightarrow> ident \<Rightarrow> instant option \<Rightarrow> raw_shift list \<Rightarrow> window list \<Rightarrow> app_error + window list" where
  "freeOfDay Z tz clampFrom shifts busy =
     foldl (\<lambda>acc sh. case acc of
         Inl err \<Rightarrow> Inl err
       | Inr free \<Rightarrow>
           (let w = shiftWindow sh; shStart = (case clampFrom of Some c \<Rightarrow> max (wstart w) c | None \<Rightarrow> wstart w)
            in if \<not> shStart < wend w then Inr free
               else map_sum id (\<lambda>ws. free @ ws) (subtractBusy Z tz (win shStart (wend w)) busy)))
       (Inr []) shifts"

text \<open>For one professional: the starts the shifts have room for and those still free.\<close>

definition startsOfUser ::
  "tzlib \<Rightarrow> ident \<Rightarrow> int \<Rightarrow> int \<Rightarrow> instant option \<Rightarrow> raw_shift list \<Rightarrow> window list \<Rightarrow> app_error + int \<times> int" where
  "startsOfUser Z tz durMin stepMin clampFrom shifts busy =
     (if shifts = [] then Inr (0, 0)
      else case mergeRanges Z tz (map shiftWindow shifts) of
        Inl err \<Rightarrow> Inl err
      | Inr shiftsMerged \<Rightarrow>
          (case freeOfDay Z tz clampFrom shifts busy of
             Inl err \<Rightarrow> Inl err
           | Inr freeWins \<Rightarrow>
               (case mergeRanges Z tz freeWins of
                  Inl err \<Rightarrow> Inl err
                | Inr mergedFree \<Rightarrow>
                    Inr (countStartsInWindows Z tz shiftsMerged durMin stepMin clampFrom,
                         countStartsInWindows Z tz mergedFree durMin stepMin clampFrom))))"

fun sumOver :: "('a \<Rightarrow> app_error + int \<times> int) \<Rightarrow> 'a list \<Rightarrow> app_error + int \<times> int" where
  "sumOver f [] = Inr (0, 0)"
| "sumOver f (x # xs) =
     (case f x of
        Inl err \<Rightarrow> Inl err
      | Inr (a, b) \<Rightarrow> map_sum id (\<lambda>(c, d). (a + c, b + d)) (sumOver f xs))"

section \<open>One day\<close>

text \<open>What the request fetched.\<close>

record days_data =
  dd_svcs :: "ident \<rightharpoonup> int \<times> int"
  dd_users :: "(ident \<times> ident list) list"
  dd_busy :: "busy_event list"
  dd_groups :: "group_event list"

definition busyOfDay :: "days_data \<Rightarrow> instant \<Rightarrow> instant \<Rightarrow> ident \<Rightarrow> window list" where
  "busyOfDay D dayStart dayEnd uid =
     map (\<lambda>e. win (be_start e) (be_end e))
       (filter (\<lambda>e. be_user e = uid \<and> be_user e \<noteq> [] \<and> be_start e < dayEnd \<and> be_end e > dayStart) (dd_busy D))"

definition startsOn ::
  "env \<Rightarrow> days_input \<Rightarrow> days_data \<Rightarrow> string \<times> string \<Rightarrow> int \<Rightarrow> instant option \<Rightarrow> string \<Rightarrow> instant \<Rightarrow> int
   \<Rightarrow> ident list \<Rightarrow> app_error + int \<times> int" where
  "startsOn E inp D rng stepMin clampFrom dateISO dayStart durMin elig =
     sumOver (\<lambda>uid. startsOfUser (e_tz E) (di_tzWorkspace inp) durMin stepMin clampFrom
         (getShiftsFor E inp (allUserIdsOf (dd_users D)) rng uid dateISO dayStart)
         (busyOfDay D dayStart (z_eod (e_tz E) (di_tzWorkspace inp) dayStart) uid)) elig"

definition seatsLeft :: "env \<Rightarrow> days_input \<Rightarrow> int \<Rightarrow> instant option \<Rightarrow> group_event \<Rightarrow> int" where
  "seatsLeft E inp svcCap clampFrom ev =
     (let startLocal = z_floor (e_tz E) (di_tzWorkspace inp) (ge_start ev);
          left = max 0 (svcCap - int (ge_count ev));
          alreadyIn = (truthy (di_client inp) \<and>
            (the (di_client inp) \<in> set (ge_clients ev) \<or> the (di_client inp) \<in> set (ge_clientWorkspaces ev)))
      in if (case clampFrom of Some c \<Rightarrow> startLocal < c | None \<Rightarrow> False) then 0
         else if left \<le> 0 then 0 else if alreadyIn then 0 else left)"

definition seatsFromExisting :: "env \<Rightarrow> days_input \<Rightarrow> days_data \<Rightarrow> int \<Rightarrow> instant option \<Rightarrow> string \<Rightarrow> int" where
  "seatsFromExisting E inp D svcCap clampFrom dateISO =
     sum_list (map (seatsLeft E inp svcCap clampFrom)
       (filter (\<lambda>ev. z_date (e_tz E) (di_tzWorkspace inp) (ge_start ev) = dateISO) (dd_groups D)))"

definition singleDay ::
  "env \<Rightarrow> days_input \<Rightarrow> days_data \<Rightarrow> string \<times> string \<Rightarrow> int \<Rightarrow> instant option \<Rightarrow> string \<Rightarrow> instant \<Rightarrow> attendee
   \<Rightarrow> app_error + day_flag" where
  "singleDay E inp D rng stepMin clampFrom dateISO dayStart a =
     (let elig = orElse (map_of (dd_users D) (at_service a)) [];
          durMin = getSvcDur (dd_svcs D) (at_service a) (at_duration a);
          svcCap = getSvcCap (dd_svcs D) (at_service a);
          isGroup = (svcCap > 1)
      in if elig = [] \<or> durMin \<le> 0 then Inr (dayOff dateISO)
         else case startsOn E inp D rng stepMin clampFrom dateISO dayStart durMin elig of
           Inl err \<Rightarrow> Inl err
         | Inr (potentialStarts, startsCreatable) \<Rightarrow>
             (let capacity = (if isGroup then seatsFromExisting E inp D svcCap clampFrom dateISO else 0)
                             + startsCreatable * (if isGroup then svcCap else 1)
              in Inr \<lparr>df_date = dateISO, df_hasSlots = (capacity > 0), df_capacity = capacity,
                      df_status = (if capacity > 0 then ''available''
                                   else if potentialStarts > 0 then ''completed'' else ''dayoff'')\<rparr>))"

fun startsByService ::
  "(attendee \<Rightarrow> app_error + int \<times> int) \<Rightarrow> attendee list \<Rightarrow> app_error + (int \<times> int) list" where
  "startsByService f [] = Inr []"
| "startsByService f (a # as) =
     (case f a of Inl err \<Rightarrow> Inl err | Inr p \<Rightarrow> map_sum id (Cons p) (startsByService f as))"

definition multiDay ::
  "env \<Rightarrow> days_input \<Rightarrow> days_data \<Rightarrow> string \<times> string \<Rightarrow> int \<Rightarrow> instant option \<Rightarrow> string \<Rightarrow> instant
   \<Rightarrow> app_error + day_flag" where
  "multiDay E inp D rng stepMin clampFrom dateISO dayStart =
     (if list_ex (\<lambda>a. getSvcCap (dd_svcs D) (at_service a) > 1) (di_attendees inp) then Inr (dayOff dateISO)
      else case startsByService (\<lambda>a.
             (let elig = orElse (map_of (dd_users D) (at_service a)) [];
                  durMin = getSvcDur (dd_svcs D) (at_service a) (at_duration a)
              in if elig = [] \<or> durMin \<le> 0 then Inr (0, 0)
                 else startsOn E inp D rng stepMin clampFrom dateISO dayStart durMin elig)) (di_attendees inp) of
        Inl err \<Rightarrow> Inl err
      | Inr counts \<Rightarrow>
          if list_all (\<lambda>p. fst p \<le> 0) counts then Inr (dayOff dateISO)
          else let capacity = (if counts \<noteq> [] then Min (set (map snd counts)) else 0)
               in Inr \<lparr>df_date = dateISO, df_hasSlots = (capacity > 0), df_capacity = capacity,
                       df_status = (if capacity > 0 then ''available'' else ''completed'')\<rparr>)"

definition dayFlag ::
  "env \<Rightarrow> days_input \<Rightarrow> times_config \<Rightarrow> days_data \<Rightarrow> string \<times> string \<Rightarrow> int \<Rightarrow> string \<Rightarrow> app_error + day_flag" where
  "dayFlag E inp cfg D rng stepMin dateISO =
     (let Z = e_tz E; tz = di_tzWorkspace inp in
      case z_parse Z (dateISO @ ''T00:00:00'') tz of
        None \<Rightarrow> Inr (dayOff dateISO)
      | Some dayStart \<Rightarrow>
          (let dayEnd = z_eod Z tz dayStart;
               earliest = earliestAllowed E tz cfg;
               clampFrom = (if isSameDay Z tz dayStart earliest then Some earliest else None)
           in if dayEnd < earliest \<or> dayStart > latestAllowedEnd E tz cfg then Inr (dayOff dateISO)
              else case di_attendees inp of
                [a] \<Rightarrow> if at_service a \<noteq> [] then singleDay E inp D rng stepMin clampFrom dateISO dayStart a
                       else multiDay E inp D rng stepMin clampFrom dateISO dayStart
              | _ \<Rightarrow> multiDay E inp D rng stepMin clampFrom dateISO dayStart))"

fun dayFlags :: "(string \<Rightarrow> app_error + day_flag) \<Rightarrow> string list \<Rightarrow> app_error + day_flag list" where
  "dayFlags f [] = Inr []"
| "dayFlags f (d # ds) =
     (case f d of Inl err \<Rightarrow> Inl err | Inr flag \<Rightarrow> map_sum id (Cons flag) (dayFlags f ds))"

section \<open>The service\<close>

text \<open>The classes of a single group service in the range; deleted events are left out here.\<close>

definition fetchClassEvents ::
  "env \<Rightarrow> days_input \<Rightarrow> string \<times> string \<Rightarrow> (ident \<rightharpoonup> int \<times> int) \<Rightarrow> (ident \<times> ident list) list \<Rightarrow> group_event list req" where
  "fetchClassEvents E inp rng svcs users =
     (case di_attendees inp of
        [a] \<Rightarrow>
          (let svc = at_service a; elig = orElse (map_of users svc) []; tz = di_tzWorkspace inp in
           if svc \<noteq> [] \<and> getSvcCap svcs svc > 1 \<and> elig \<noteq> []
           then (\<lambda>w. case (z_parse (e_tz E) (fst rng @ ''T00:00:00'') tz, z_parse (e_tz E) (snd rng @ ''T23:59:59'') tz) of
               (Some s, Some e) \<Rightarrow>
                 (Inr (map (groupEventOf (w_db w)) (filter
                   (\<lambda>x. ev_service x = Some svc \<and> (case ev_user x of Some u \<Rightarrow> u \<in> set elig | None \<Rightarrow> False)
                        \<and> ev_deleted x = None \<and> ev_start x < e \<and> ev_end x > s
                        \<and> groupSat (w_db w) (\<lambda>g. gr_workspace g = di_workspace inp) x
                        \<and> (truthy (di_exclude inp) \<longrightarrow> ev_id x \<noteq> the (di_exclude inp)))
                   (events (w_db w)))), w)
             | _ \<Rightarrow> (Inl (PrismaError ''Invalid Date''), w))
           else eret [])
      | _ \<Rightarrow> eret [])"

text \<open>The part after the enumeration of the days.\<close>

definition flagsOfDays ::
  "env \<Rightarrow> days_input \<Rightarrow> times_config \<Rightarrow> string \<times> string \<Rightarrow> string list \<Rightarrow> day_flag list req" where
  "flagsOfDays E inp cfg rng dayList =
     (let allowed = orElse (tc_resources cfg) []; attendees = di_attendees inp in
      if attendees = [] \<or> allowed = [] then eret (map dayOff dayList)
      else case intervalOf cfg attendees of
        None \<Rightarrow> ethrow (PlainError ''El intervalo de minutos debe ser un numero positivo'')
      | Some stepMin \<Rightarrow>
          if stepMin \<le> 0 then ethrow (PlainError ''El intervalo de minutos debe ser un numero positivo'')
          else
            (let wanted = uniq (filter (\<lambda>i. i \<noteq> []) (map at_service attendees)) in
             ebind (if wanted \<noteq> [] then getServiceByIds E wanted (di_workspace inp) else eret []) (\<lambda>services.
             ebind (allowedUsersByService E allowed attendees (di_workspace inp) []) (\<lambda>users.
             if allUserIdsOf users = [] then eret (map dayOff dayList)
             else
               ebind (getEventsOverlappingRange E (di_workspace inp) (allUserIdsOf users) (fst rng) (snd rng) (di_exclude inp)) (\<lambda>busy.
               ebind (fetchClassEvents E inp rng (svcById services) users) (\<lambda>classes.
               case dayFlags (dayFlag E inp cfg
                      \<lparr>dd_svcs = svcById services, dd_users = users, dd_busy = busy, dd_groups = classes\<rparr> rng stepMin) dayList of
                 Inl err \<Rightarrow> ethrow err
               | Inr flags \<Rightarrow> eret flags))))))"

text \<open>\<open>None\<close>: the request does not return.\<close>

definition publicGetAvailableDays ::
  "env \<Rightarrow> days_input \<Rightarrow> times_config \<Rightarrow> world \<Rightarrow> ((app_error + day_flag list) \<times> world) option" where
  "publicGetAvailableDays E inp cfg w =
     (let wrap = (\<lambda>m. ecatch m (\<lambda>e. ethrow (Wrapped ''EventService.publicGetAvailableDays'' e))) in
      case di_range inp of
        None \<Rightarrow> Some (wrap (ethrow (PlainError ''Faltan fechas de rango (start/end)'')) w)
      | Some (s, e) \<Rightarrow>
          if di_company inp = [] \<or> di_workspace inp = [] then Some (wrap (ethrow (PlainError ''Faltan idCompany / idWorkspace'')) w)
          else if di_tzWorkspace inp = [] then Some (wrap (ethrow (PlainError ''Falta timeZoneWorkspace'')) w)
          else if s = [] \<or> e = [] then Some (wrap (ethrow (PlainError ''Faltan fechas de rango (start/end)'')) w)
          else map_option (\<lambda>dayList. wrap (flagsOfDays E inp cfg (s, e) dayList) w)
                 (enumerateDays (e_tz E) (di_serverZone inp) s e))"

end
