(* ===== verification/CalDaysProps.thy ===== *)
theory CalDaysProps
  imports CalDays CalTimesProps
begin

text \<open>
  The days with availability: the second copy of the interval arithmetic computes the windows of the
  first one on whole minutes, so a day is flagged exactly when some professional has room; the
  enumeration of the days ends for dates and does not for other texts; and where the two views of
  availability differ.
\<close>

section \<open>Canonical windows\<close>

text \<open>Proper and strictly separated windows are determined by the instants they cover.\<close>

lemma separated_ConsD:
  "separated (x # xs) \<Longrightarrow> separated xs \<and> (\<forall>y \<in> set xs. wend x < wstart y)"
  by (simp add: separated_def)

lemma covers_from: "separated (x # xs) \<Longrightarrow> proper x \<Longrightarrow> covers (x # xs) t \<Longrightarrow> wstart x \<le> t"
  by (force simp: covers_def inWin_def proper_def dest: separated_ConsD)

lemma covers_head: "separated (x # xs) \<Longrightarrow> covers xs t \<Longrightarrow> wend x < t"
  by (force simp: covers_def inWin_def dest: separated_ConsD)

lemma canonical_unique:
  assumes "separated xs" "\<forall>w \<in> set xs. proper w" "separated ys" "\<forall>w \<in> set ys. proper w"
    and "\<And>t. covers xs t = covers ys t"
  shows "xs = ys"
  using assms
proof (induction xs arbitrary: ys)
  case Nil
  show ?case
  proof (cases ys)
    case (Cons y ys')
    then have "covers ys (wstart y)" using Nil by (simp add: inWin_def proper_def)
    then show ?thesis using Nil(5) by simp
  qed simp
next
  case (Cons x xs)
  have px: "proper x" using Cons.prems by simp
  have cx: "covers (x # xs) (wstart x)" using px by (simp add: inWin_def proper_def)
  then obtain y ys' where y: "ys = y # ys'" using Cons.prems(5) by (cases ys) auto
  have py: "proper y" using Cons.prems y by simp
  have start: "wstart x = wstart y"
  proof (rule antisym)
    have "covers (y # ys') (wstart y)" using py by (simp add: inWin_def proper_def)
    then show "wstart x \<le> wstart y" using covers_from Cons.prems px y by metis
    show "wstart y \<le> wstart x" using covers_from Cons.prems py y cx by metis
  qed
  have out: "\<not> covers (x # xs) (wend x)" "\<not> covers (y # ys') (wend y)"
    using covers_head[of x xs "wend x"] covers_head[of y ys' "wend y"] Cons.prems y by (auto simp: inWin_def)
  have "wend x = wend y"
  proof (rule antisym)
    show "wend x \<le> wend y"
    proof (rule ccontr)
      assume "\<not> wend x \<le> wend y"
      then have "covers (x # xs) (wend y)" using start py by (simp add: inWin_def proper_def)
      then show False using out(2) Cons.prems(5)[of "wend y"] y by blast
    qed
    show "wend y \<le> wend x"
    proof (rule ccontr)
      assume "\<not> wend y \<le> wend x"
      then have "covers (y # ys') (wend x)" using start px by (simp add: inWin_def proper_def)
      then show False using out(1) Cons.prems(5)[of "wend x"] y by blast
    qed
  qed
  with start have xy: "x = y" by (simp add: window.equality)
  have rest: "covers xs t = covers ys' t" for t
  proof -
    have "covers xs t \<Longrightarrow> \<not> inWin x t" "covers ys' t \<Longrightarrow> \<not> inWin y t"
      using covers_head[of x xs t] covers_head[of y ys' t] Cons.prems y by (auto simp: inWin_def)
    then show ?thesis using Cons.prems(5)[of t] xy y by auto
  qed
  have "xs = ys'" using Cons.IH[of ys'] Cons.prems y rest separated_ConsD by auto
  then show ?case using xy y by simp
qed

section \<open>The two copies of the interval arithmetic\<close>

lemma mergeLoop_sweep: "mergeLoop cur rs = mergeSweep cur rs"
proof (induction cur rs rule: mergeLoop.induct)
  case (2 cur r rs)
  have "(if wend r > wend cur then cur\<lparr>wend := wend r\<rparr> else cur) = cur\<lparr>wend := max (wend cur) (wend r)\<rparr>" by auto
  then show ?case using 2 by simp
qed simp

lemma mergeRanges_eq:
  "mergeRanges Z tz rs =
     (if rs = [] then Inr []
      else if filter proper (map (floorWindow Z tz) rs) = [] then Inl typeError
      else Inr (mergeTouchingWindows (filter proper (map (floorWindow Z tz) rs))))"
proof -
  let ?rs = "filter proper (map (floorWindow Z tz) rs)"
  have f: "filter (\<lambda>r. wstart r < wend r) (map (floorWindow Z tz) rs) = ?rs" by (simp add: proper_def[abs_def])
  consider "?rs = []" | x where "?rs = [x]" | "\<not> length ?rs \<le> 1" by (cases ?rs; cases "tl ?rs") auto
  then show ?thesis
  proof cases
    case 3
    then obtain c rest where s: "sort_key wstart ?rs = c # rest" by (rule sort_key_nonempty)
    then show ?thesis using 3 by (auto simp: mergeRanges_def f mergeTouchingWindows_def mergeLoop_sweep)
  qed (auto simp: mergeRanges_def f mergeTouchingWindows_def)
qed

definition wholeMinutes :: "tzlib \<Rightarrow> ident \<Rightarrow> window \<Rightarrow> bool" where
  "wholeMinutes Z tz w \<longleftrightarrow> z_floor Z tz (wstart w) = wstart w \<and> z_floor Z tz (wend w) = wend w"

lemma floorWindow_whole: "wholeMinutes Z tz w \<Longrightarrow> floorWindow Z tz w = w"
  by (simp add: floorWindow_def wholeMinutes_def)

lemma mergeRanges_whole:
  assumes "\<forall>w \<in> set ws. proper w \<and> wholeMinutes Z tz w"
  shows "mergeRanges Z tz ws = Inr (mergeTouchingWindows ws)"
proof -
  have "map (floorWindow Z tz) ws = ws" using assms by (simp add: map_idI floorWindow_whole)
  moreover have "filter proper ws = ws" using assms by simp
  ultimately show ?thesis by (auto simp: mergeRanges_eq mergeTouchingWindows_def)
qed

lemma subtractLoop_covers:
  "sorted (map wstart bs) \<Longrightarrow> covers (subtractLoop e cursor bs) t \<longleftrightarrow> cursor \<le> t \<and> t < e \<and> \<not> covers bs t"
proof (induction e cursor bs rule: subtractLoop.induct)
  case (2 e cursor b bs)
  have later: "covers bs t \<Longrightarrow> wstart b \<le> t" using 2(3) by (auto simp: covers_def inWin_def)
  show ?case
  proof (cases "wend b \<le> cursor \<or> wstart b \<ge> e")
    case True
    then show ?thesis using 2 by (auto simp: inWin_def)
  next
    case False
    then show ?thesis using 2(2)[OF False refl] 2(3) later by (auto simp: inWin_def Let_def)
  qed
qed (auto simp: inWin_def)

lemma subtractLoop_shape:
  "w \<in> set (subtractLoop e cursor bs) \<Longrightarrow> proper w \<and>
   wstart w \<in> insert cursor (wend ` set bs) \<and> wend w \<in> insert e (wstart ` set bs)"
proof (induction e cursor bs rule: subtractLoop.induct)
  case (2 e cursor b bs)
  then show ?case
    by (auto simp: proper_def Let_def min_def max_def split: if_splits)
qed (auto simp: proper_def split: if_splits)


section \<open>The free windows of a day\<close>

definition dayShift :: "instant option \<Rightarrow> raw_shift \<Rightarrow> window" where
  "dayShift clampFrom sh =
     (let w = shiftWindow sh in win (case clampFrom of Some c \<Rightarrow> max (wstart w) c | None \<Rightarrow> wstart w) (wend w))"

definition freeOfDayShift :: "instant option \<Rightarrow> window list \<Rightarrow> raw_shift \<Rightarrow> window list" where
  "freeOfDayShift clampFrom busy sh =
     (let w = dayShift clampFrom sh
      in if \<not> proper w then [] else if busy = [] then [w]
         else subtractLoop (wend w) (wstart w) (mergeTouchingWindows busy))"

lemma freeOfDay_eq:
  assumes "\<forall>w \<in> set busy. proper w \<and> wholeMinutes Z tz w"
  shows "freeOfDay Z tz clampFrom shifts busy = Inr (concat (map (freeOfDayShift clampFrom busy) shifts))"
proof -
  define step where "step = (\<lambda>acc sh. case acc of
         Inl err \<Rightarrow> Inl err
       | Inr free \<Rightarrow>
           (let w = shiftWindow sh; shStart = (case clampFrom of Some c \<Rightarrow> max (wstart w) c | None \<Rightarrow> wstart w)
            in if \<not> shStart < wend w then Inr free
               else map_sum id (\<lambda>ws. free @ ws) (subtractBusy Z tz (win shStart (wend w)) busy)))"
  have "step (Inr free) sh = Inr (free @ freeOfDayShift clampFrom busy sh)" for free sh
    using mergeRanges_whole[OF assms]
    by (simp add: step_def freeOfDayShift_def dayShift_def Let_def proper_def subtractBusy_def split: option.split)
  then have "foldl step (Inr free) shifts = Inr (free @ concat (map (freeOfDayShift clampFrom busy) shifts))" for free
    by (induction shifts arbitrary: free) simp_all
  from this[of "[]"] show ?thesis unfolding freeOfDay_def step_def by simp
qed

lemma separated_sorted: "separated ws \<Longrightarrow> \<forall>w \<in> set ws. proper w \<Longrightarrow> sorted (map wstart ws)"
proof (induction ws)
  case (Cons w ws)
  then have "sorted (map wstart ws)" using separated_ConsD by auto
  moreover have "wstart w \<le> wstart v" if "v \<in> set ws" for v
    using separated_ConsD[OF Cons.prems(1)] that Cons.prems(2) by (force simp: proper_def)
  ultimately show ?case by simp
qed simp

lemma freeOfDayShift_covers:
  assumes "\<forall>w \<in> set busy. proper w"
  shows "covers (freeOfDayShift clampFrom busy sh) t \<longleftrightarrow>
    shiftOffers (clampFrom \<noteq> None) (the clampFrom) sh t \<and> \<not> covers busy t"
proof -
  let ?w = "dayShift clampFrom sh"
  have sh: "inWin ?w t \<longleftrightarrow> shiftOffers (clampFrom \<noteq> None) (the clampFrom) sh t"
    by (cases sh; cases "fst sh"; cases "snd sh"; cases clampFrom)
      (auto simp: dayShift_def shiftWindow_def Let_def inWin_def shiftOffers_def)
  have "\<not> proper ?w \<Longrightarrow> \<not> inWin ?w t" by (auto simp: proper_def inWin_def)
  moreover have "sorted (map wstart (mergeTouchingWindows busy))"
    using separated_sorted[OF merge_separated] merge_proper assms by blast
  ultimately show ?thesis
    unfolding sh[symmetric]
    by (auto simp: freeOfDayShift_def Let_def subtractLoop_covers merge_covers) (auto simp: inWin_def)
qed

lemma merge_ends:
  "w \<in> set (mergeTouchingWindows ws) \<Longrightarrow> wstart w \<in> wstart ` set ws \<and> wend w \<in> wend ` set ws"
proof (cases "length ws \<le> 1")
  case False
  obtain c rest where s: "sort_key wstart ws = c # rest" by (rule sort_key_nonempty[OF False])
  have "w \<in> set (mergeSweep cur xs) \<Longrightarrow> wstart w \<in> wstart ` set (cur # xs) \<and> wend w \<in> wend ` set (cur # xs)" for w cur xs
    by (induction cur xs rule: mergeSweep.induct) (force simp: max_def split: if_splits)+
  moreover assume "w \<in> set (mergeTouchingWindows ws)"
  ultimately have "wstart w \<in> wstart ` set (c # rest) \<and> wend w \<in> wend ` set (c # rest)"
    using False s by (simp add: mergeTouchingWindows_def)
  moreover have "set (c # rest) = set ws" using s by (metis set_sort)
  ultimately show ?thesis by metis
qed (auto simp: mergeTouchingWindows_def)

definition wholeShift :: "tzlib \<Rightarrow> ident \<Rightarrow> raw_shift \<Rightarrow> bool" where
  "wholeShift Z tz sh \<longleftrightarrow> (\<exists>s e. sh = (Some s, Some e) \<and> s < e \<and> z_floor Z tz s = s \<and> z_floor Z tz e = e)"

lemma freeOfDayShift_whole:
  assumes "\<forall>w \<in> set busy. proper w \<and> wholeMinutes Z tz w" and "wholeShift Z tz sh"
    and "\<And>c. clampFrom = Some c \<Longrightarrow> z_floor Z tz c = c" and "w \<in> set (freeOfDayShift clampFrom busy sh)"
  shows "proper w \<and> wholeMinutes Z tz w"
proof -
  let ?sh = "dayShift clampFrom sh" and ?m = "mergeTouchingWindows busy"
  have "wholeMinutes Z tz ?sh" using assms(2,3)
    by (auto simp: dayShift_def shiftWindow_def wholeShift_def wholeMinutes_def max_def Let_def split: option.split)
  moreover have "wholeMinutes Z tz b" if "b \<in> set ?m" for b
    using merge_ends[OF that] assms(1) by (auto simp: wholeMinutes_def)
  moreover have "w = ?sh \<and> proper w \<or> w \<in> set (subtractLoop (wend ?sh) (wstart ?sh) ?m)"
    using assms(4) by (auto simp: freeOfDayShift_def Let_def split: if_splits)
  ultimately show ?thesis using subtractLoop_shape[of w "wend ?sh" "wstart ?sh" ?m] by (auto simp: wholeMinutes_def)
qed

lemma dayWindows:
  assumes "\<forall>w \<in> set busy. proper w \<and> wholeMinutes Z tz w" and "\<forall>sh \<in> set shifts. wholeShift Z tz sh"
    and "\<And>c. clampFrom = Some c \<Longrightarrow> z_floor Z tz c = c"
  shows dayWindows_eq: "mergeRanges Z tz (concat (map (freeOfDayShift clampFrom busy) shifts)) =
      Inr (freeWindows (clampFrom \<noteq> None) (the clampFrom) shifts busy)"
    and dayWindows_merged: "freeWindows (clampFrom \<noteq> None) (the clampFrom) shifts busy =
      mergeTouchingWindows (concat (map (freeOfDayShift clampFrom busy) shifts))"
    and dayWindows_whole: "\<forall>w \<in> set (concat (map (freeOfDayShift clampFrom busy) shifts)). proper w \<and> wholeMinutes Z tz w"
proof -
  let ?ws = "concat (map (freeOfDayShift clampFrom busy) shifts)"
  have whole: "\<forall>w \<in> set ?ws. proper w \<and> wholeMinutes Z tz w"
  proof
    fix w assume "w \<in> set ?ws"
    then obtain sh where "sh \<in> set shifts" "w \<in> set (freeOfDayShift clampFrom busy sh)" by auto
    then show "proper w \<and> wholeMinutes Z tz w" using freeOfDayShift_whole[OF assms(1) _ assms(3)] assms(2) by blast
  qed
  have "mergeTouchingWindows ?ws = freeWindows (clampFrom \<noteq> None) (the clampFrom) shifts busy"
  proof (rule canonical_unique)
    show "covers (mergeTouchingWindows ?ws) t = covers (freeWindows (clampFrom \<noteq> None) (the clampFrom) shifts busy) t" for t
      using assms(1) by (auto simp: merge_covers covers_concat freeOfDayShift_covers freeWindows_covers)
    show "\<forall>w \<in> set (mergeTouchingWindows ?ws). proper w" using merge_proper whole by blast
  qed (auto simp: merge_separated freeWindows_separated dest: freeWindows_proper)
  then show "freeWindows (clampFrom \<noteq> None) (the clampFrom) shifts busy = mergeTouchingWindows ?ws"
    and "mergeRanges Z tz ?ws = Inr (freeWindows (clampFrom \<noteq> None) (the clampFrom) shifts busy)"
    and "\<forall>w \<in> set ?ws. proper w \<and> wholeMinutes Z tz w"
    using mergeRanges_whole[OF whole] whole by simp_all
qed

section \<open>Days with room\<close>

lemma countInWindow_eq:
  assumes "0 < step" and "z_floor Z tz (wstart w) = wstart w" and "\<And>c. clampFrom = Some c \<Longrightarrow> c \<le> wstart w"
  shows "countInWindow Z tz dur step clampFrom w =
    (if addMinutes (wstart w) dur \<le> wend w then 1 + (addMinutes (wend w) (- dur) - wstart w) div minute_ms div step else 0)"
proof -
  have c: "(case clampFrom of None \<Rightarrow> wstart w | Some c \<Rightarrow> max (wstart w) c) = wstart w"
    using assms(3) by (auto split: option.split)
  show ?thesis
  proof (cases "addMinutes (wstart w) dur \<le> wend w")
    case True
    then have "0 \<le> addMinutes (wend w) (- dur) - wstart w" by (simp add: addMinutes_def)
    then have "0 \<le> (addMinutes (wend w) (- dur) - wstart w) div minute_ms div step"
      using assms(1) by (simp add: pos_imp_zdiv_nonneg_iff)
    then show ?thesis using True assms(2) by (simp add: countInWindow_def c Let_def addMinutes_def)
  next
    case False
    then show ?thesis by (simp add: countInWindow_def c Let_def addMinutes_def)
  qed
qed

lemma countInWindow_pos:
  assumes "0 < step" and "z_floor Z tz (wstart w) = wstart w" and "\<And>c. clampFrom = Some c \<Longrightarrow> c \<le> wstart w"
  shows "0 \<le> countInWindow Z tz dur step clampFrom w \<and>
    (0 < countInWindow Z tz dur step clampFrom w \<longleftrightarrow> addMinutes (wstart w) dur \<le> wend w)"
proof -
  have "0 \<le> (addMinutes (wend w) (- dur) - wstart w) div minute_ms div step" if "addMinutes (wstart w) dur \<le> wend w"
    using that assms(1) by (simp add: pos_imp_zdiv_nonneg_iff addMinutes_def)
  then show ?thesis using countInWindow_eq[OF assms, where dur = dur] by auto
qed

lemma sum_pos_iff: "\<forall>x \<in> set xs. 0 \<le> f x \<Longrightarrow> 0 \<le> sum_list (map f xs) \<and> (0 < sum_list (map f xs) \<longleftrightarrow> (\<exists>x \<in> set xs. 0 < f x))"
  for f :: "'a \<Rightarrow> int"
  by (induction xs) auto

lemma sumOver_pos:
  assumes "\<And>x. x \<in> set xs \<Longrightarrow> \<exists>p n. f x = Inr (p, n) \<and> 0 \<le> n \<and> (0 < n \<longleftrightarrow> Q x)"
  shows "\<exists>p n. sumOver f xs = Inr (p, n) \<and> 0 \<le> n \<and> (0 < n \<longleftrightarrow> (\<exists>x \<in> set xs. Q x))"
  using assms
proof (induction xs)
  case (Cons x xs)
  obtain p n where x: "f x = Inr (p, n)" "0 \<le> n" "0 < n \<longleftrightarrow> Q x" using Cons.prems[of x] by auto
  obtain p' n' where xs: "sumOver f xs = Inr (p', n')" "0 \<le> n'" "0 < n' \<longleftrightarrow> (\<exists>x \<in> set xs. Q x)"
    using Cons.IH Cons.prems by fastforce
  have "0 < n + n' \<longleftrightarrow> 0 < n \<or> 0 < n'" using x(2) xs(2) by linarith
  then show ?case using x xs by simp
qed simp

text \<open>A professional has room on a day when some stretch of the duration lies in the shifts, after the
  clamp, and no busy window touches it.\<close>

definition roomFor :: "instant option \<Rightarrow> raw_shift list \<Rightarrow> window list \<Rightarrow> int \<Rightarrow> bool" where
  "roomFor clampFrom shifts busy dur \<longleftrightarrow> (\<exists>s. \<forall>t. s \<le> t \<and> t < addMinutes s dur \<longrightarrow>
     (\<exists>sh \<in> set shifts. shiftOffers (clampFrom \<noteq> None) (the clampFrom) sh t) \<and> \<not> covers busy t)"

lemma startsOfUser_room:
  assumes "0 < step" and "0 < dur"
    and busy: "\<forall>w \<in> set busy. proper w \<and> wholeMinutes Z tz w" and sh: "\<forall>sh \<in> set shifts. wholeShift Z tz sh"
    and clamp: "\<And>c. clampFrom = Some c \<Longrightarrow> z_floor Z tz c = c"
  shows "\<exists>p n. startsOfUser Z tz dur step clampFrom shifts busy = Inr (p, n) \<and> 0 \<le> n \<and> (0 < n \<longleftrightarrow> roomFor clampFrom shifts busy dur)"
proof -
  have pos: "s < addMinutes s dur" for s using assms(2) by (simp add: addMinutes_def)
  show ?thesis
  proof (cases "shifts = []")
    case True
    have "\<not> roomFor clampFrom [] busy dur" using pos by (force simp: roomFor_def)
    then show ?thesis using True by (simp add: startsOfUser_def)
  next
    case False
    let ?free = "freeWindows (clampFrom \<noteq> None) (the clampFrom) shifts busy"
    let ?n = "countStartsInWindows Z tz ?free dur step clampFrom"
    have "\<forall>w \<in> set (map shiftWindow shifts). proper w \<and> wholeMinutes Z tz w"
      using sh by (force simp: wholeShift_def shiftWindow_def proper_def wholeMinutes_def)
    then have eq: "startsOfUser Z tz dur step clampFrom shifts busy =
        Inr (countStartsInWindows Z tz (mergeTouchingWindows (map shiftWindow shifts)) dur step clampFrom, ?n)"
      using False freeOfDay_eq[OF busy] dayWindows_eq[OF busy sh clamp] mergeRanges_whole by (simp add: startsOfUser_def)
    have merged: "?free = mergeTouchingWindows (concat (map (freeOfDayShift clampFrom busy) shifts))"
      by (rule dayWindows_merged[OF busy sh clamp])
    have w: "z_floor Z tz (wstart w) = wstart w" "\<And>c. clampFrom = Some c \<Longrightarrow> c \<le> wstart w" if "w \<in> set ?free" for w
    proof -
      have "\<exists>v \<in> set (concat (map (freeOfDayShift clampFrom busy) shifts)). wstart w = wstart v"
        using merge_ends that merged by fastforce
      then show "z_floor Z tz (wstart w) = wstart w"
        using dayWindows_whole[OF busy sh clamp] by (auto simp: wholeMinutes_def)
      have "covers ?free (wstart w)" using that freeWindows_proper[OF that]
        by (auto simp: covers_def inWin_def proper_def)
      then show "c \<le> wstart w" if "clampFrom = Some c" for c
        using that by (auto simp: freeWindows_covers shiftOffers_def)
    qed
    have n: "0 \<le> ?n \<and> (0 < ?n \<longleftrightarrow> (\<exists>w \<in> set ?free. addMinutes (wstart w) dur \<le> wend w))"
      using sum_pos_iff[of ?free "countInWindow Z tz dur step clampFrom"] countInWindow_pos[OF assms(1) w]
      unfolding countStartsInWindows_def by blast
    have "(\<exists>w \<in> set ?free. addMinutes (wstart w) dur \<le> wend w) \<longleftrightarrow> (\<exists>s. fitsWindow ?free s (addMinutes s dur))"
      unfolding fitsWindow_iff by (force simp: addMinutes_def)
    also have "\<dots> \<longleftrightarrow> roomFor clampFrom shifts busy dur"
      unfolding roomFor_def freeWindows_fits[OF pos] by blast
    finally show ?thesis using eq n by blast
  qed
qed

section \<open>The enumeration of the days\<close>

text \<open>The calendar of the zone: adding a day goes forward, and a day begins less than two days before any of
  its instants.\<close>

definition calendar_ok :: "tzlib \<Rightarrow> ident \<Rightarrow> bool" where
  "calendar_ok Z z \<longleftrightarrow> (\<forall>t. t < z_addDays Z z t 1 \<and> t - 2 * day_ms < z_sod Z z t)"

lemma utc_calendar_ok: "calendar_ok utc_tz z"
proof -
  have "t mod day_ms < 2 * day_ms" for t :: int using pos_mod_bound[of day_ms t] by linarith
  then show ?thesis by (simp add: calendar_ok_def utc_tz_def)
qed

definition dayAt :: "tzlib \<Rightarrow> ident \<Rightarrow> instant \<Rightarrow> nat \<Rightarrow> instant" where
  "dayAt Z z t k = ((\<lambda>x. z_addDays Z z x 1) ^^ k) t"

lemma dayAt_simps [simp]: "dayAt Z z t 0 = t" "dayAt Z z (z_addDays Z z t 1) k = dayAt Z z t (Suc k)"
  using funpow_swap1[of "\<lambda>x. z_addDays Z z x 1" k t] by (simp_all add: dayAt_def)

lemma dayAt_advance: "calendar_ok Z z \<Longrightarrow> t + int k \<le> dayAt Z z t k"
proof (induction k)
  case (Suc k)
  have "dayAt Z z t k < dayAt Z z t (Suc k)" using Suc.prems by (simp add: dayAt_def calendar_ok_def)
  then show ?case using Suc by linarith
qed simp

lemma enumerateFrom_reaches:
  assumes "\<And>j. j < n \<Longrightarrow> z_sod Z z (dayAt Z z t j) \<le> fin" and "fin < z_sod Z z (dayAt Z z t n)"
  shows "enumerateFrom Z z (Some t) (Some fin) out = Some (out @ map (\<lambda>k. z_date Z z (dayAt Z z t k)) [0..<n])"
  using assms
proof (induction n arbitrary: t out)
  case 0
  then show ?case by (subst enumerateFrom.simps) (simp add: isAfterDay_def)
next
  case (Suc n)
  have "\<not> isAfterDay Z z (Some t) (Some fin)" using Suc.prems(1)[of 0] by (simp add: isAfterDay_def)
  then have "enumerateFrom Z z (Some t) (Some fin) out =
      enumerateFrom Z z (Some (z_addDays Z z t 1)) (Some fin) (out @ [z_date Z z t])"
    by (subst enumerateFrom.simps) (simp add: formatDay_def)
  also have "\<dots> = Some ((out @ [z_date Z z t]) @ map (\<lambda>k. z_date Z z (dayAt Z z (z_addDays Z z t 1) k)) [0..<n])"
    by (rule Suc.IH) (use Suc.prems(1)[of "Suc _"] Suc.prems(2) in simp_all)
  also have "\<dots> = Some (out @ map (\<lambda>k. z_date Z z (dayAt Z z t k)) [0..<Suc n])"
    by (simp add: upt_conv_Cons map_Suc_upt[symmetric] del: upt_Suc)
  finally show ?case .
qed

lemma enumerateFrom_stuck: "enumerateFrom Z z cur fin out = Some r \<Longrightarrow> cur \<noteq> None \<and> fin \<noteq> None"
  by (erule enumerateFrom.raw_induct[rotated, where P = "\<lambda>Z z cur fin out r. cur \<noteq> None \<and> fin \<noteq> None"])
    (force simp: isAfterDay_def split: if_splits option.splits)

lemma day_passed:
  assumes "calendar_ok Z z"
  shows "\<exists>n. (\<forall>j < n. z_sod Z z (dayAt Z z t j) \<le> fin) \<and> fin < z_sod Z z (dayAt Z z t n)"
proof -
  let ?k = "nat (fin - t + 2 * day_ms)"
  have "dayAt Z z t ?k - 2 * day_ms < z_sod Z z (dayAt Z z t ?k)" using assms by (simp add: calendar_ok_def)
  moreover have "t + int ?k \<le> dayAt Z z t ?k" by (rule dayAt_advance[OF assms])
  ultimately have "fin < z_sod Z z (dayAt Z z t ?k)" by linarith
  then show ?thesis using exists_least_iff[of "\<lambda>n. fin < z_sod Z z (dayAt Z z t n)"] by (meson not_less)
qed

lemma enumerateDays_ends:
  assumes "calendar_ok Z z"
  shows "(\<exists>ds. enumerateDays Z z s e = Some ds) \<longleftrightarrow>
    z_parse Z (s @ ''T00:00:00'') z \<noteq> None \<and> z_parse Z (e @ ''T00:00:00'') z \<noteq> None"
proof
  assume "\<exists>ds. enumerateDays Z z s e = Some ds"
  then show "z_parse Z (s @ ''T00:00:00'') z \<noteq> None \<and> z_parse Z (e @ ''T00:00:00'') z \<noteq> None"
    unfolding enumerateDays_def using enumerateFrom_stuck by blast
next
  assume "z_parse Z (s @ ''T00:00:00'') z \<noteq> None \<and> z_parse Z (e @ ''T00:00:00'') z \<noteq> None"
  then obtain t fin where p: "z_parse Z (s @ ''T00:00:00'') z = Some t" "z_parse Z (e @ ''T00:00:00'') z = Some fin" by auto
  obtain n where "\<forall>j < n. z_sod Z z (dayAt Z z t j) \<le> fin" "fin < z_sod Z z (dayAt Z z t n)"
    using day_passed[OF assms] by blast
  then have "enumerateFrom Z z (Some t) (Some fin) [] = Some ([] @ map (\<lambda>k. z_date Z z (dayAt Z z t k)) [0..<n])"
    by (intro enumerateFrom_reaches) auto
  then show "\<exists>ds. enumerateDays Z z s e = Some ds" using p by (simp add: enumerateDays_def)
qed

section \<open>Properties\<close>

text \<open>C12: the request for the days of a range returns exactly when both limits of the range are dates: with
  a text that does not parse the enumeration of the days goes on for ever.\<close>
theorem available_days_return:
  assumes "calendar_ok (e_tz E) (di_serverZone inp)" and "di_range inp = Some (s, e)" and "s \<noteq> []" and "e \<noteq> []"
    and "di_company inp \<noteq> []" and "di_workspace inp \<noteq> []" and "di_tzWorkspace inp \<noteq> []"
  shows "publicGetAvailableDays E inp cfg w \<noteq> None \<longleftrightarrow>
    z_parse (e_tz E) (s @ ''T00:00:00'') (di_serverZone inp) \<noteq> None \<and>
    z_parse (e_tz E) (e @ ''T00:00:00'') (di_serverZone inp) \<noteq> None"
  using enumerateDays_ends[OF assms(1), of s e] assms(2-) by (auto simp: publicGetAvailableDays_def)

definition demo_days :: "string \<Rightarrow> string \<Rightarrow> days_input" where
  "demo_days s e = \<lparr>di_company = ''co'', di_workspace = ''w'', di_tzWorkspace = ''UTC'', di_range = Some (s, e),
     di_attendees = [demo_attendee], di_exclude = None, di_client = None, di_serverZone = ''UTC'',
     di_temporary = (\<lambda>us ws s e u d. Undefined)\<rparr>"

theorem available_days_return_witness:
  "publicGetAvailableDays (demo_env 1) (demo_days ''1970-01-01'' ''1970-01-03'') demo_times_cfg demo_times_world \<noteq> None \<and>
   publicGetAvailableDays (demo_env 1) (demo_days ''1970-01-01'' ''tomorrow'') demo_times_cfg demo_times_world = None"
proof -
  have Z: "calendar_ok (e_tz (demo_env 1)) (di_serverZone (demo_days s e))" for s e
    by (simp add: demo_env_def utc_calendar_ok)
  have parse: "z_parse (e_tz (demo_env 1)) x z = utcParse x" for x z by (simp add: demo_env_def utc_tz_def)
  have fields: "di_range (demo_days s e) = Some (s, e)" "di_company (demo_days s e) \<noteq> []"
    "di_workspace (demo_days s e) \<noteq> []" "di_tzWorkspace (demo_days s e) \<noteq> []" for s e by (simp_all add: demo_days_def)
  have p: "utcParse ''1970-01-01T00:00:00'' \<noteq> None" "utcParse ''1970-01-03T00:00:00'' \<noteq> None" "utcParse ''tomorrowT00:00:00'' = None"
    by code_simp+
  show ?thesis
    using available_days_return[OF Z fields(1) _ _ fields(2-4), of "''1970-01-01''" "''1970-01-03''" demo_times_cfg demo_times_world]
      available_days_return[OF Z fields(1) _ _ fields(2-4), of "''1970-01-01''" "''tomorrow''" demo_times_cfg demo_times_world] p
    by (simp add: parse del: not_None_eq)
qed

text \<open>C11: a day inside the booking window is offered for an individual service exactly when one of its
  professionals has a stretch of the duration inside the shifts of the day, after the lead time, that no event of the
  day covers (shifts and events on whole minutes, none of them empty).\<close>
theorem day_offered_exactly:
  assumes "tz_ok (e_tz E)" and "0 < step" and "di_attendees inp = [a]" and "at_service a \<noteq> []"
    and "getSvcCap (dd_svcs D) (at_service a) = 1" and "0 < getSvcDur (dd_svcs D) (at_service a) (at_duration a)"
    and "map_of (dd_users D) (at_service a) = Some users" and "users \<noteq> []"
    and "z_parse (e_tz E) (date @ ''T00:00:00'') (di_tzWorkspace inp) = Some d"
    and "earliestAllowed E (di_tzWorkspace inp) cfg \<le> z_eod (e_tz E) (di_tzWorkspace inp) d"
    and "d \<le> latestAllowedEnd E (di_tzWorkspace inp) cfg"
    and "\<forall>u \<in> set users. \<forall>sh \<in> set (getShiftsFor E inp (allUserIdsOf (dd_users D)) rng u date d).
      wholeShift (e_tz E) (di_tzWorkspace inp) sh"
    and "\<forall>e \<in> set (dd_busy D). be_start e < be_end e \<and>
      wholeMinutes (e_tz E) (di_tzWorkspace inp) (win (be_start e) (be_end e))"
  shows "\<exists>flag. dayFlag E inp cfg D rng step date = Inr flag \<and> df_date flag = date \<and>
    (df_hasSlots flag \<longleftrightarrow> (\<exists>u \<in> set users. roomFor
       (if isSameDay (e_tz E) (di_tzWorkspace inp) d (earliestAllowed E (di_tzWorkspace inp) cfg)
        then Some (earliestAllowed E (di_tzWorkspace inp) cfg) else None)
       (getShiftsFor E inp (allUserIdsOf (dd_users D)) rng u date d)
       (busyOfDay D d (z_eod (e_tz E) (di_tzWorkspace inp) d) u)
       (getSvcDur (dd_svcs D) (at_service a) (at_duration a))))"
proof -
  let ?Z = "e_tz E" and ?tz = "di_tzWorkspace inp" and ?dur = "getSvcDur (dd_svcs D) (at_service a) (at_duration a)"
  let ?c = "if isSameDay ?Z ?tz d (earliestAllowed E ?tz cfg) then Some (earliestAllowed E ?tz cfg) else None"
  let ?sh = "\<lambda>u. getShiftsFor E inp (allUserIdsOf (dd_users D)) rng u date d" and ?busy = "busyOfDay D d (z_eod ?Z ?tz d)"
  have clamp: "z_floor ?Z ?tz c = c" if "?c = Some c" for c
    using that tz_floor_idem[OF assms(1)] by (auto simp: earliestAllowed_def split: if_splits)
  have busy: "\<forall>w \<in> set (?busy u). proper w \<and> wholeMinutes ?Z ?tz w" for u
    using assms(13) by (auto simp: busyOfDay_def proper_def)
  have "\<exists>p n. startsOn E inp D rng step ?c date d ?dur users = Inr (p, n) \<and> 0 \<le> n \<and>
      (0 < n \<longleftrightarrow> (\<exists>u \<in> set users. roomFor ?c (?sh u) (?busy u) ?dur))"
    unfolding startsOn_def
    by (rule sumOver_pos, rule startsOfUser_room[OF assms(2,6) busy _ clamp]) (use assms(12) in auto)
  then obtain p n where n: "startsOn E inp D rng step ?c date d ?dur users = Inr (p, n)"
    "0 < n \<longleftrightarrow> (\<exists>u \<in> set users. roomFor ?c (?sh u) (?busy u) ?dur)" by blast
  then show ?thesis using assms(3-11) by (simp add: dayFlag_def singleDay_def Let_def)
qed

definition demo_days_data :: days_data where
  "demo_days_data = \<lparr>dd_svcs = [''yoga'' \<mapsto> (60, 1)], dd_users = [(''yoga'', [''ana''])],
     dd_busy = [busyOf (demo_event 1)], dd_groups = []\<rparr>"

theorem day_offered_exactly_witness:
  "\<exists>flag. dayFlag (demo_env 1) (demo_days ''1970-01-01'' ''1970-01-01'') demo_times_cfg demo_days_data
     (''1970-01-01'', ''1970-01-01'') 30 ''1970-01-01'' = Inr flag \<and> df_hasSlots flag"
proof -
  let ?E = "demo_env 1" and ?inp = "demo_days ''1970-01-01'' ''1970-01-01''"
  have f: "di_attendees ?inp = [demo_attendee]" "di_tzWorkspace ?inp = ''UTC''" "e_tz ?E = utc_tz"
    "at_service demo_attendee = ''yoga''" "dd_users demo_days_data = [(''yoga'', [''ana''])]"
    by (simp_all add: demo_days_def demo_env_def demo_attendee_def demo_days_data_def)
  have sh: "getShiftsFor ?E ?inp (allUserIdsOf [(''yoga'', [''ana''])]) (''1970-01-01'', ''1970-01-01'') ''ana'' ''1970-01-01'' 0 =
      [(Some 28800000, Some 64800000)]" by code_simp
  have dur: "getSvcDur (dd_svcs demo_days_data) ''yoga'' (at_duration demo_attendee) = 60"
    "getSvcCap (dd_svcs demo_days_data) ''yoga'' = 1" by code_simp+
  have busy: "busyOfDay demo_days_data 0 (z_eod utc_tz ''UTC'' 0) ''ana'' = [win 32400000 36000000]" by code_simp
  have early: "earliestAllowed ?E ''UTC'' demo_times_cfg = 3600000" "isSameDay utc_tz ''UTC'' 0 3600000"
    "earliestAllowed ?E ''UTC'' demo_times_cfg \<le> z_eod utc_tz ''UTC'' 0" "0 \<le> latestAllowedEnd ?E ''UTC'' demo_times_cfg"
    "z_parse utc_tz ''1970-01-01T00:00:00'' ''UTC'' = Some 0" by code_simp+
  have "roomFor (Some 3600000) [(Some 28800000, Some 64800000)] [win 32400000 36000000] 60"
    unfolding roomFor_def by (rule exI[of _ 36000000]) (simp add: shiftOffers_def addMinutes_def inWin_def)
  moreover have "\<forall>e \<in> set (dd_busy demo_days_data). be_start e < be_end e \<and>
      wholeMinutes utc_tz ''UTC'' (win (be_start e) (be_end e))" by code_simp
  ultimately show ?thesis
    using day_offered_exactly[of ?E 30 ?inp demo_attendee demo_days_data "[''ana'']" "''1970-01-01''" 0 demo_times_cfg
        "(''1970-01-01'', ''1970-01-01'')"] utc_tz_ok dur busy early sh
    by (auto simp: f wholeShift_def utc_tz_def)
qed
end
