(* ===== verification/CalSchedule.thy ===== *)
theory CalSchedule
  imports CalStatus
begin

text \<open>
  Working hours: the tables of the business and of its professionals with their caches
  (\<open>features/business-hour\<close>, \<open>features/worker-business-hour\<close>), the middleware in front of their routes
  (\<open>business-hour.middleware.ts\<close>) and the routes themselves. A request body keeps for each member whether it is
  there: what is absent from a Prisma condition does not restrict it.
\<close>

section \<open>Days of the week\<close>

datatype week_day = MONDAY | TUESDAY | WEDNESDAY | THURSDAY | FRIDAY | SATURDAY | SUNDAY

fun dayNumber :: "week_day \<Rightarrow> nat" where
  "dayNumber MONDAY = 0" | "dayNumber TUESDAY = 1" | "dayNumber WEDNESDAY = 2" | "dayNumber THURSDAY = 3"
| "dayNumber FRIDAY = 4" | "dayNumber SATURDAY = 5" | "dayNumber SUNDAY = 6"

lemma dayNumber_inj: "dayNumber a = dayNumber b \<longleftrightarrow> a = b"
  by (cases a; cases b) simp_all

text \<open>The order of the enumeration, which \<open>orderBy\<close> follows.\<close>

instantiation week_day :: linorder
begin

definition less_eq_week_day :: "week_day \<Rightarrow> week_day \<Rightarrow> bool" where
  "less_eq_week_day a b \<longleftrightarrow> dayNumber a \<le> dayNumber b"

definition less_week_day :: "week_day \<Rightarrow> week_day \<Rightarrow> bool" where
  "less_week_day a b \<longleftrightarrow> dayNumber a < dayNumber b"

instance
  by standard (auto simp: less_eq_week_day_def less_week_day_def dayNumber_inj)

end

fun dayText :: "week_day \<Rightarrow> string" where
  "dayText MONDAY = ''MONDAY''" | "dayText TUESDAY = ''TUESDAY''" | "dayText WEDNESDAY = ''WEDNESDAY''"
| "dayText THURSDAY = ''THURSDAY''" | "dayText FRIDAY = ''FRIDAY''" | "dayText SATURDAY = ''SATURDAY''"
| "dayText SUNDAY = ''SUNDAY''"

definition weekDays :: "week_day list" where
  "weekDays = [MONDAY, TUESDAY, WEDNESDAY, THURSDAY, FRIDAY, SATURDAY, SUNDAY]"

definition dayOfText :: "string \<Rightarrow> week_day option" where
  "dayOfText s = List.find (\<lambda>d. dayText d = s) weekDays"

section \<open>Tables and caches\<close>

text \<open>A row of \<open>businessHours\<close> (without a professional) or of \<open>workerBusinessHours\<close>.\<close>

record hour_row =
  hr_id :: ident
  hr_user :: ident
  hr_company :: ident
  hr_workspace :: ident
  hr_day :: week_day
  hr_start :: "string option"
  hr_end :: "string option"
  hr_closed :: bool
  hr_deleted :: "instant option"

record temp_row =
  te_id :: ident
  te_user :: "ident option"
  te_company :: ident
  te_workspace :: ident
  te_event :: ident
  te_date :: instant
  te_title :: "string option"
  te_description :: "string option"
  te_start :: "string option"
  te_end :: "string option"
  te_closed :: bool
  te_deleted :: "instant option"

type_synonym stored_range = "string option \<times> string option"
type_synonym business_entry = "week_day \<rightharpoonup> stored_range list"
type_synonym worker_entry = "week_day \<rightharpoonup> stored_range list option"  \<comment> \<open>\<open>Some None\<close>: null, closed\<close>
type_synonym temporary_entry = "string \<rightharpoonup> stored_range list option"

text \<open>The caches hold what was saved, until it is deleted or expires.\<close>

record schedule =
  sd_business :: "hour_row list"
  sd_worker :: "hour_row list"
  sd_temporary :: "temp_row list"
  sd_bizCache :: "ident \<rightharpoonup> business_entry"
  sd_workerCache :: "ident \<times> ident \<rightharpoonup> worker_entry"
  sd_tempCache :: "ident \<times> ident \<rightharpoonup> temporary_entry"
  sd_db :: db

type_synonym 'a hours_req = "(schedule, 'a) eff"

definition newHourId :: "ident option \<Rightarrow> ident hours_req" where
  "newHourId given = (case given of
     Some i \<Rightarrow> eret i
   | None \<Rightarrow> (\<lambda>s. (Inr (idSupply (sd_db s) (nextId (sd_db s))),
       s\<lparr>sd_db := (sd_db s)\<lparr>nextId := Suc (nextId (sd_db s))\<rparr>\<rparr>)))"

definition inHours :: "string \<Rightarrow> 'a hours_req \<Rightarrow> 'a hours_req" where
  "inHours name m = ecatch m (\<lambda>e. ethrow (Wrapped name e))"

section \<open>Times\<close>

text \<open>\<open>^(\d{1,2}):(\d{2})(?::\d{2})?$\<close>\<close>

fun minutesPart :: "string \<Rightarrow> string option" where
  "minutesPart [c, a, b] = (if c = CHR '':'' \<and> isDigit a \<and> isDigit b then Some [a, b] else None)"
| "minutesPart [c, a, b, c', x, y] =
     (if c = CHR '':'' \<and> isDigit a \<and> isDigit b \<and> c' = CHR '':'' \<and> isDigit x \<and> isDigit y then Some [a, b] else None)"
| "minutesPart _ = None"

definition matchTime :: "string \<Rightarrow> (string \<times> string) option" where
  "matchTime s =
     (let h = takeWhile isDigit s
      in if h = [] \<or> length h > 2 then None
         else map_option (\<lambda>m. (h, m)) (minutesPart (drop (length h) s)))"

definition padStart2 :: "string \<Rightarrow> string" where
  "padStart2 s = replicate (2 - length s) (CHR ''0'') @ s"

definition serviceToHHmm :: "string \<Rightarrow> app_error + string" where
  "serviceToHHmm v =
     (case matchTime (trim v) of
        None \<Rightarrow> Inl (PlainError (withCatalogMessage (''Invalid time format. Use '' @ [CHR 0x27] @ ''HH:mm'' @ [CHR 0x27, CHR ''.'']) (''Hora invalida: '' @ v)))
      | Some (h, m) \<Rightarrow> Inr (padStart2 h @ '':'' @ m))"

text \<open>In a body a time is a text; the middleware can turn it into a \<open>Date\<close>.\<close>

datatype time_value = TimeText string | TimeDate "instant option"

text \<open>\<open>new Date(s)\<close>, the texts a date column takes, the known zones, the zone of the server and its clock.\<close>

record hours_env =
  he_tz :: tzlib
  he_now :: instant
  he_isoDate :: "string \<Rightarrow> instant option"
  he_parseDate :: "string \<Rightarrow> instant option"
  he_zoneKnown :: "ident \<Rightarrow> bool"
  he_serverZone :: ident

definition looksLikeISO :: "string \<Rightarrow> bool" where
  "looksLikeISO s \<longleftrightarrow> length s \<ge> 11 \<and> list_all isDigit (take 4 s) \<and> s ! 4 = CHR ''-'' \<and> isDigit (s ! 5) \<and>
     isDigit (s ! 6) \<and> s ! 7 = CHR ''-'' \<and> isDigit (s ! 8) \<and> isDigit (s ! 9) \<and> s ! 10 = CHR ''T''"

definition hhmmOfInstant :: "instant \<Rightarrow> string" where
  "hhmmOfInstant t = take 5 (clockField (t mod day_ms))"

definition middlewareToHHmm :: "hours_env \<Rightarrow> time_value \<Rightarrow> string option" where
  "middlewareToHHmm H v =
     (case v of
        TimeDate t \<Rightarrow> map_option hhmmOfInstant t
      | TimeText raw \<Rightarrow>
          (let s = trim raw in
           case (if looksLikeISO s then he_parseDate H s else None) of
             Some t \<Rightarrow> Some (hhmmOfInstant t)
           | None \<Rightarrow> map_option (\<lambda>(h, m). padStart2 h @ '':'' @ m) (matchTime s)))"

section \<open>Request bodies\<close>

text \<open>A time is absent, null or a value. \<open>hb_other\<close>: members that are columns of no table.\<close>

record hour_body =
  hb_id :: "ident option"
  hb_user :: "ident option"
  hb_company :: "ident option"
  hb_workspace :: "ident option"
  hb_idWorkspace :: "ident option"
  hb_day :: "week_day option"
  hb_date :: "string option"
  hb_tz :: "ident option"
  hb_start :: "time_value option option"
  hb_end :: "time_value option option"
  hb_closed :: "bool option"
  hb_other :: bool

definition given :: "time_value option option \<Rightarrow> bool" where
  "given v \<longleftrightarrow> (case v of Some (Some (TimeText s)) \<Rightarrow> s \<noteq> [] | Some (Some (TimeDate t)) \<Rightarrow> True | _ \<Rightarrow> False)"

definition isClosed :: "hour_body \<Rightarrow> bool" where
  "isClosed b \<longleftrightarrow> hb_closed b = Some True"

text \<open>A time as it is written into a text column of five characters: \<open>None\<close> when the client refuses it.\<close>

definition timeColumn :: "time_value option \<Rightarrow> string option option" where
  "timeColumn v = (case v of
     None \<Rightarrow> Some None
   | Some (TimeText s) \<Rightarrow> if length s \<le> 5 then Some (Some s) else None
   | Some (TimeDate t) \<Rightarrow> None)"

definition prismaRefuses :: "app_error" where
  "prismaRefuses = PrismaError ''Invalid invocation''"

text \<open>The row a \<open>create\<close> writes, and the change an \<open>update\<close> makes; the table decides which members it has.\<close>

definition rowOfBody :: "ident \<Rightarrow> hour_body \<Rightarrow> hour_row option" where
  "rowOfBody i b =
     (case (hb_company b, hb_day b, timeColumn (Option.bind (hb_start b) id), timeColumn (Option.bind (hb_end b) id)) of
        (Some co, Some d, Some s, Some e) \<Rightarrow>
          Some \<lparr>hr_id = i, hr_user = orElse (hb_user b) [], hr_company = co, hr_workspace = orElse (hb_workspace b) [],
            hr_day = d, hr_start = s, hr_end = e, hr_closed = orElse (hb_closed b) False, hr_deleted = None\<rparr>
      | _ \<Rightarrow> None)"

definition patchRow :: "hour_body \<Rightarrow> (hour_row \<Rightarrow> hour_row) option" where
  "patchRow b =
     (case (timeColumn (Option.bind (hb_start b) id), timeColumn (Option.bind (hb_end b) id)) of
        (Some s, Some e) \<Rightarrow>
          Some (\<lambda>r. r\<lparr>hr_user := orElse (hb_user b) (hr_user r), hr_company := orElse (hb_company b) (hr_company r),
            hr_workspace := orElse (hb_workspace b) (hr_workspace r), hr_day := orElse (hb_day b) (hr_day r),
            hr_start := (if hb_start b = None then hr_start r else s),
            hr_end := (if hb_end b = None then hr_end r else e), hr_closed := orElse (hb_closed b) (hr_closed r)\<rparr>)
      | _ \<Rightarrow> None)"

definition foreignMembers :: "hour_body \<Rightarrow> bool" where
  "foreignMembers b \<longleftrightarrow> hb_date b \<noteq> None \<or> hb_idWorkspace b \<noteq> None \<or> hb_tz b \<noteq> None \<or> hb_other b"

text \<open>A condition on a column: an absent value does not restrict it.\<close>

definition matches :: "'a option \<Rightarrow> 'a \<Rightarrow> bool" where
  "matches v x \<longleftrightarrow> (case v of None \<Rightarrow> True | Some y \<Rightarrow> x = y)"

lemma matches_simps [simp]: "matches None x" "matches (Some y) x \<longleftrightarrow> x = y"
  by (simp_all add: matches_def)

section \<open>The hours of the business\<close>

definition deleteBusinessCache :: "ident \<Rightarrow> unit hours_req" where
  "deleteBusinessCache ws = emod (\<lambda>s. s\<lparr>sd_bizCache := (sd_bizCache s)(ws := None)\<rparr>)"

definition addBusinessHour :: "hour_body \<Rightarrow> hour_row hours_req" where
  "addBusinessHour b = inHours ''BusinessHourBusinessHour.addBusinessHour''
     (ebind (newHourId (hb_id b)) (\<lambda>i.
      ebind (eread sd_business) (\<lambda>rows.
      case rowOfBody i b of
        None \<Rightarrow> ethrow prismaRefuses
      | Some r \<Rightarrow>
          if foreignMembers b \<or> hb_user b \<noteq> None \<or> i \<in> hr_id ` set rows then ethrow prismaRefuses
          else ebind (emod (\<lambda>s. s\<lparr>sd_business := rows @ [r]\<rparr>)) (\<lambda>_. eret r))))"

text \<open>\<open>rest\<close> is the body without its id; \<open>update\<close> needs the row.\<close>

definition updateBusinessHour :: "hour_body \<Rightarrow> hour_row hours_req" where
  "updateBusinessHour b = inHours ''BusinessHourBusinessHour.updateBusinessHour''
     (ebind (eread sd_business) (\<lambda>rows.
      case (hb_id b, patchRow b) of
        (Some i, Some f) \<Rightarrow>
          (case List.find (\<lambda>r. hr_id r = i) rows of
             None \<Rightarrow> ethrow prismaRefuses
           | Some r \<Rightarrow>
               if foreignMembers b \<or> hb_user b \<noteq> None then ethrow prismaRefuses
               else ebind (emod (\<lambda>s. s\<lparr>sd_business := updateWhere (\<lambda>x. hr_id x = i) f rows\<rparr>)) (\<lambda>_. eret (f r)))
      | _ \<Rightarrow> ethrow prismaRefuses))"

definition deleteBusinessRows :: "(hour_row \<Rightarrow> bool) \<Rightarrow> unit hours_req" where
  "deleteBusinessRows P = emod (\<lambda>s. s\<lparr>sd_business := filter (\<lambda>r. \<not> P r) (sd_business s)\<rparr>)"

fun deleteBusinessCaches :: "ident list \<Rightarrow> unit hours_req" where
  "deleteBusinessCaches [] = eret ()"
| "deleteBusinessCaches (ws # rest) = ebind (deleteBusinessCache ws) (\<lambda>_. deleteBusinessCaches rest)"

definition deleteBusinessHour :: "ident list \<Rightarrow> unit hours_req" where
  "deleteBusinessHour idList = inHours ''BusinessHourBusinessHour.deleteBusinessHour''
     (ebind (eread (\<lambda>s. filter (\<lambda>r. hr_id r \<in> set idList) (sd_business s))) (\<lambda>records.
      ebind (deleteBusinessRows (\<lambda>r. hr_id r \<in> set idList)) (\<lambda>_.
      deleteBusinessCaches (uniq (map hr_workspace records)))))"

text \<open>In ascending order a null comes last.\<close>

definition byStart :: "hour_row list \<Rightarrow> hour_row list" where
  "byStart rows = sort_key (\<lambda>r. hr_start r = None) (sort_key (\<lambda>r. orElse (hr_start r) []) rows)"

definition getBusinessHours :: "ident \<Rightarrow> hour_row list hours_req" where
  "getBusinessHours idWorkspace = inHours ''BusinessHourBusinessHour.getBusinessHours''
     (if idWorkspace = [] then ethrow (requiredField ''idWorkspace es obligatorio'')
      else eread (\<lambda>s. byStart (filter (\<lambda>r. hr_workspace r = idWorkspace \<and> hr_deleted r = None) (sd_business s))))"

definition deleteBusinessHourByWeekDay :: "week_day option \<Rightarrow> ident option \<Rightarrow> unit hours_req" where
  "deleteBusinessHourByWeekDay d ws = inHours ''BusinessHourBusinessHour.deleteBusinessHourByWeekDay''
     (deleteBusinessRows (\<lambda>r. matches d (hr_day r) \<and> matches ws (hr_workspace r)))"

definition deleteClosedRecordsByWeekDay :: "week_day option \<Rightarrow> ident option \<Rightarrow> unit hours_req" where
  "deleteClosedRecordsByWeekDay d ws = inHours ''BusinessHourBusinessHour.deleteClosedRecordsByWeekDay''
     (deleteBusinessRows (\<lambda>r. matches d (hr_day r) \<and> matches ws (hr_workspace r) \<and> hr_closed r))"

text \<open>\<open>startTime < e AND endTime > s\<close>; a null compares as false.\<close>

definition rangeMeets :: "string \<Rightarrow> string \<Rightarrow> hour_row \<Rightarrow> bool" where
  "rangeMeets s e r \<longleftrightarrow> (case (hr_start r, hr_end r) of (Some rs, Some re) \<Rightarrow> rs < e \<and> re > s | _ \<Rightarrow> False)"

definition overlapCheck ::
  "(schedule \<Rightarrow> hour_row list) \<Rightarrow> (hour_row \<Rightarrow> bool) \<Rightarrow> string \<Rightarrow> string \<Rightarrow> ident option \<Rightarrow> bool hours_req" where
  "overlapCheck rows P startTime endTime i =
     (case (serviceToHHmm startTime, serviceToHHmm endTime) of
        (Inr s, Inr e) \<Rightarrow>
          eread (\<lambda>st. list_ex (\<lambda>r. P r \<and> \<not> hr_closed r \<and> (truthy i \<longrightarrow> hr_id r \<noteq> the i) \<and> rangeMeets s e r) (rows st))
      | (Inl err, _) \<Rightarrow> ethrow err
      | (_, Inl err) \<Rightarrow> ethrow err)"

definition checkOverlappingBusinessHour ::
  "string \<Rightarrow> string \<Rightarrow> week_day option \<Rightarrow> ident option \<Rightarrow> ident option \<Rightarrow> bool hours_req" where
  "checkOverlappingBusinessHour s e d ws i =
     overlapCheck sd_business (\<lambda>r. matches d (hr_day r) \<and> matches ws (hr_workspace r)) s e i"

text \<open>The cache, else the rows by weekday, closed ones left out.\<close>

definition rangesOn :: "hour_row list \<Rightarrow> week_day \<Rightarrow> stored_range list" where
  "rangesOn rows d = map (\<lambda>r. (hr_start r, hr_end r)) (filter (\<lambda>r. hr_day r = d \<and> \<not> hr_closed r) rows)"

definition businessEntry :: "hour_row list \<Rightarrow> business_entry" where
  "businessEntry rows d = (if rangesOn rows d = [] then None else Some (rangesOn rows d))"

definition businessRowsOf :: "schedule \<Rightarrow> ident \<Rightarrow> hour_row list" where
  "businessRowsOf s ws = filter (\<lambda>r. hr_workspace r = ws \<and> hr_deleted r = None) (sd_business s)"

definition getBusinessHoursFromRedis :: "ident \<Rightarrow> business_entry hours_req" where
  "getBusinessHoursFromRedis idWorkspace =
     ebind (eread (\<lambda>s. sd_bizCache s idWorkspace)) (\<lambda>cached.
     case cached of
       Some hours \<Rightarrow> eret hours
     | None \<Rightarrow>
         ebind (eread (\<lambda>s. businessEntry (businessRowsOf s idWorkspace))) (\<lambda>hours.
         ebind (emod (\<lambda>s. s\<lparr>sd_bizCache := (sd_bizCache s)(idWorkspace \<mapsto> hours)\<rparr>)) (\<lambda>_. eret hours)))"

section \<open>Default hours of a workspace\<close>

text \<open>A day that is no day of the week is \<open>None\<close>.\<close>

record draft_hour =
  dh_day :: "week_day option"
  dh_start :: "string option"
  dh_end :: "string option"
  dh_closed :: bool

definition normalizeDraft :: "draft_hour \<Rightarrow> app_error + draft_hour" where
  "normalizeDraft item =
     (case dh_day item of
        None \<Rightarrow> Inl (invalidPayload ''weekDayType invalido'')
      | Some d \<Rightarrow>
          if dh_closed item then Inr \<lparr>dh_day = Some d, dh_start = None, dh_end = None, dh_closed = True\<rparr>
          else if \<not> truthy (dh_start item) \<or> \<not> truthy (dh_end item)
          then Inl (requiredField (''startTime y endTime son obligatorios para '' @ dayText d))
          else (case serviceToHHmm (the (dh_start item)) of
              Inl err \<Rightarrow> Inl err
            | Inr s \<Rightarrow> (case serviceToHHmm (the (dh_end item)) of
                  Inl err \<Rightarrow> Inl err
                | Inr e \<Rightarrow>
                    if s \<ge> e then Inl (invalidPayload (''Rango invalido para '' @ dayText d))
                    else Inr \<lparr>dh_day = Some d, dh_start = Some s, dh_end = Some e, dh_closed = False\<rparr>)))"

fun mapSum :: "('a \<Rightarrow> 'e + 'b) \<Rightarrow> 'a list \<Rightarrow> 'e + 'b list" where
  "mapSum f [] = Inr []"
| "mapSum f (x # xs) = (case f x of Inl e \<Rightarrow> Inl e | Inr y \<Rightarrow> map_sum id (Cons y) (mapSum f xs))"

definition normalizeInternalBusinessHours :: "draft_hour list option \<Rightarrow> app_error + draft_hour list option" where
  "normalizeInternalBusinessHours items =
     (case items of
        None \<Rightarrow> Inr None
      | Some [] \<Rightarrow> Inr None
      | Some xs \<Rightarrow>
          (case mapSum normalizeDraft xs of
             Inl err \<Rightarrow> Inl err
           | Inr ys \<Rightarrow>
               (case List.find (\<lambda>c. dh_closed c \<and> list_ex (\<lambda>y. dh_day y = dh_day c \<and> \<not> dh_closed y) ys) ys of
                  Some c \<Rightarrow> Inl (PlainError (withCatalogMessage ''Operation is not allowed.''
                      (''No se puede mezclar closed=true con franjas horarias en '' @ dayText (the (dh_day c)))))
                | None \<Rightarrow> Inr (Some ys))))"

definition openDraft :: "week_day \<Rightarrow> string \<Rightarrow> string \<Rightarrow> draft_hour" where
  "openDraft d s e = \<lparr>dh_day = Some d, dh_start = Some s, dh_end = Some e, dh_closed = False\<rparr>"

definition baseSchedule :: "draft_hour list" where
  "baseSchedule =
     concat (map (\<lambda>d. [openDraft d ''09:00'' ''13:00'', openDraft d ''15:00'' ''20:00''])
       [MONDAY, TUESDAY, WEDNESDAY, THURSDAY, FRIDAY]) @
     [openDraft SATURDAY ''10:00'' ''14:00'',
      \<lparr>dh_day = Some SUNDAY, dh_start = None, dh_end = None, dh_closed = True\<rparr>]"

definition createDraft :: "ident \<Rightarrow> ident \<Rightarrow> draft_hour \<Rightarrow> hour_row hours_req" where
  "createDraft co ws h = ebind (newHourId None) (\<lambda>i.
     let r = \<lparr>hr_id = i, hr_user = [], hr_company = co, hr_workspace = ws, hr_day = orElse (dh_day h) MONDAY,
              hr_start = dh_start h, hr_end = dh_end h, hr_closed = dh_closed h, hr_deleted = None\<rparr>
     in ebind (emod (\<lambda>s. s\<lparr>sd_business := sd_business s @ [r]\<rparr>)) (\<lambda>_. eret r))"

fun createDrafts :: "ident \<Rightarrow> ident \<Rightarrow> draft_hour list \<Rightarrow> unit hours_req" where
  "createDrafts co ws [] = eret ()"
| "createDrafts co ws (h # hs) = ebind (createDraft co ws h) (\<lambda>_. createDrafts co ws hs)"

text \<open>By weekday, then by start.\<close>

definition scheduleOf :: "ident \<Rightarrow> schedule \<Rightarrow> hour_row list" where
  "scheduleOf ws s = sort_key hr_day (byStart (businessRowsOf s ws))"

text \<open>A throw in the transaction leaves the state as it was.\<close>

definition internalGenerateWorkspaceBusinessHours ::
  "ident \<Rightarrow> ident \<Rightarrow> draft_hour list option \<Rightarrow> (bool \<times> hour_row list) hours_req" where
  "internalGenerateWorkspaceBusinessHours co ws items =
     inHours ''BusinessHourBusinessHour.internalGenerateWorkspaceBusinessHours''
       (if co = [] \<or> ws = [] then ethrow (requiredField ''idCompany e idWorkspace son obligatorios'')
        else
          ebind (eread (scheduleOf ws)) (\<lambda>existing.
          ebind (if existing \<noteq> [] then eret (False, existing)
                 else case normalizeInternalBusinessHours items of
                     Inl err \<Rightarrow> ethrow err
                   | Inr normalized \<Rightarrow>
                       ebind (createDrafts co ws (orElse normalized baseSchedule)) (\<lambda>_.
                       ebind (eread (scheduleOf ws)) (\<lambda>created. eret (True, created)))) (\<lambda>result.
          ebind (deleteBusinessCache ws) (\<lambda>_. eret result))))"

section \<open>The hours of the professionals\<close>

definition deleteWorkerCache :: "ident \<Rightarrow> ident \<Rightarrow> unit hours_req" where
  "deleteWorkerCache ws u = emod (\<lambda>s. s\<lparr>sd_workerCache := (sd_workerCache s)((ws, u) := None)\<rparr>)"

definition createWorkerRow :: "hour_body \<Rightarrow> hour_row hours_req" where
  "createWorkerRow b =
     ebind (newHourId (hb_id b)) (\<lambda>i.
     ebind (eread sd_worker) (\<lambda>rows.
     case (rowOfBody i b, hb_user b) of
       (Some r, Some u) \<Rightarrow>
         if foreignMembers b \<or> i \<in> hr_id ` set rows then ethrow prismaRefuses
         else ebind (emod (\<lambda>s. s\<lparr>sd_worker := rows @ [r]\<rparr>)) (\<lambda>_. eret r)
     | _ \<Rightarrow> ethrow prismaRefuses))"

definition addWorkerBusinessHour :: "hour_body \<Rightarrow> hour_row hours_req" where
  "addWorkerBusinessHour b = inHours ''WorkerBusinessHourWorkerBusinessHour.addWorkerBusinessHour'' (createWorkerRow b)"

text \<open>Without rows of the professional on that weekday the update creates one.\<close>

definition updateWorkerBusinessHour :: "hour_body \<Rightarrow> hour_row hours_req" where
  "updateWorkerBusinessHour b = inHours ''WorkerBusinessHourWorkerBusinessHour.updateWorkerBusinessHour''
     (ebind (eread sd_worker) (\<lambda>rows.
      if filter (\<lambda>r. matches (hb_day b) (hr_day r) \<and> matches (hb_user b) (hr_user r)) rows = [] then createWorkerRow b
      else case hb_id b of
        None \<Rightarrow> ethrow (Wrapped ''WorkerBusinessHourWorkerBusinessHour.updateWorkerBusinessHour''
          (requiredField ''Falta el campo id para la actualizacion''))
      | Some i \<Rightarrow>
          (case (List.find (\<lambda>r. hr_id r = i) rows, patchRow b) of
             (Some r, Some f) \<Rightarrow>
               if foreignMembers b then ethrow prismaRefuses
               else ebind (emod (\<lambda>s. s\<lparr>sd_worker := updateWhere (\<lambda>x. hr_id x = i) f rows\<rparr>)) (\<lambda>_. eret (f r))
           | _ \<Rightarrow> ethrow prismaRefuses)))"

definition deleteWorkerRows :: "(hour_row \<Rightarrow> bool) \<Rightarrow> unit hours_req" where
  "deleteWorkerRows P = emod (\<lambda>s. s\<lparr>sd_worker := filter (\<lambda>r. \<not> P r) (sd_worker s)\<rparr>)"

definition deleteWorkerBusinessHour :: "ident list \<Rightarrow> unit hours_req" where
  "deleteWorkerBusinessHour idList = inHours ''WorkerBusinessHourWorkerBusinessHour.deleteWorkerBusinessHour''
     (deleteWorkerRows (\<lambda>r. hr_id r \<in> set idList))"

definition getWorkerBusinessHours :: "hour_row list hours_req" where
  "getWorkerBusinessHours = eread (\<lambda>s. byStart (sd_worker s))"

definition getWorkerBusinessHourByWorkerAndWorkspace :: "ident \<Rightarrow> ident \<Rightarrow> hour_row list hours_req" where
  "getWorkerBusinessHourByWorkerAndWorkspace u ws =
     eread (\<lambda>s. byStart (filter (\<lambda>r. hr_user r = u \<and> hr_workspace r = ws) (sd_worker s)))"

text \<open>The first row that matches names the workspace whose cache is dropped.\<close>

definition deleteWorkerWhere :: "(hour_row \<Rightarrow> bool) \<Rightarrow> ident \<Rightarrow> unit hours_req" where
  "deleteWorkerWhere P u =
     ebind (eread (\<lambda>s. List.find P (sd_worker s))) (\<lambda>record.
     ebind (deleteWorkerRows P) (\<lambda>_.
     case record of Some r \<Rightarrow> deleteWorkerCache (hr_workspace r) u | None \<Rightarrow> eret ()))"

definition deleteWorkerBusinessHourByWorker :: "week_day option \<Rightarrow> ident \<Rightarrow> unit hours_req" where
  "deleteWorkerBusinessHourByWorker d u = inHours ''WorkerBusinessHourWorkerBusinessHour.deleteWorkerBusinessHourByWorker''
     (deleteWorkerWhere (\<lambda>r. matches d (hr_day r) \<and> hr_user r = u) u)"

definition deleteClosedRecordsByWorker :: "week_day option \<Rightarrow> ident \<Rightarrow> unit hours_req" where
  "deleteClosedRecordsByWorker d u = inHours ''WorkerBusinessHourWorkerBusinessHour.deleteClosedRecordsByWorker''
     (deleteWorkerWhere (\<lambda>r. matches d (hr_day r) \<and> hr_user r = u \<and> hr_closed r) u)"

definition checkOverlappingWorkerBusinessHour ::
  "string \<Rightarrow> string \<Rightarrow> week_day option \<Rightarrow> ident \<Rightarrow> ident option \<Rightarrow> bool hours_req" where
  "checkOverlappingWorkerBusinessHour s e d u i =
     overlapCheck sd_worker (\<lambda>r. matches d (hr_day r) \<and> hr_user r = u) s e i"

text \<open>One record of the loop over the rows: a null entry is replaced by a list before the row is looked at.\<close>

definition addRange :: "hour_row \<Rightarrow> worker_entry \<Rightarrow> worker_entry" where
  "addRange r m =
     (let xs = (case m (hr_day r) of Some (Some ys) \<Rightarrow> ys | _ \<Rightarrow> [])
      in m(hr_day r \<mapsto> (if hr_closed r then None else Some (xs @ [(hr_start r, hr_end r)]))))"

definition workerEntry :: "hour_row list \<Rightarrow> worker_entry" where
  "workerEntry rows = fold addRange rows Map.empty"

definition workerRowsOf :: "schedule \<Rightarrow> ident \<Rightarrow> ident \<Rightarrow> hour_row list" where
  "workerRowsOf s ws u = filter (\<lambda>r. hr_workspace r = ws \<and> hr_user r = u \<and> hr_deleted r = None) (sd_worker s)"

fun saveWorkerHours :: "ident \<Rightarrow> (ident \<Rightarrow> worker_entry) \<Rightarrow> ident list \<Rightarrow> unit hours_req" where
  "saveWorkerHours ws f [] = eret ()"
| "saveWorkerHours ws f (u # us) =
     ebind (emod (\<lambda>s. s\<lparr>sd_workerCache := (sd_workerCache s)((ws, u) \<mapsto> f u)\<rparr>)) (\<lambda>_. saveWorkerHours ws f us)"

definition getWorkerHoursFromRedis :: "ident list \<Rightarrow> ident \<Rightarrow> (ident \<rightharpoonup> worker_entry) hours_req" where
  "getWorkerHoursFromRedis userIds ws =
     ebind (eread (\<lambda>s u. if u \<in> set userIds then sd_workerCache s (ws, u) else None)) (\<lambda>cached.
     let missing = filter (\<lambda>u. cached u = None) userIds in
     if missing = [] then eret cached
     else
       ebind (eread (\<lambda>s u. workerEntry (workerRowsOf s ws u))) (\<lambda>loaded.
       ebind (saveWorkerHours ws loaded missing) (\<lambda>_.
       eret (\<lambda>u. if u \<in> set missing then Some (loaded u) else cached u))))"

section \<open>Temporary rows, as far as the middleware touches them\<close>

definition tempOnDay :: "hours_env \<Rightarrow> ident \<Rightarrow> instant \<Rightarrow> temp_row \<Rightarrow> bool" where
  "tempOnDay H u d t \<longleftrightarrow> te_user t = Some u \<and> z_sod (he_tz H) (he_serverZone H) d \<le> te_date t \<and>
     te_date t < z_eod (he_tz H) (he_serverZone H) d"

definition deleteTemporaryBusinessHourByWorkerAndDate :: "hours_env \<Rightarrow> ident \<Rightarrow> string \<Rightarrow> unit hours_req" where
  "deleteTemporaryBusinessHourByWorkerAndDate H u date =
     inHours ''TemporaryBusinessHour.deleteTemporaryBusinessHourByWorkerAndDate''
       (case he_parseDate H date of
          None \<Rightarrow> ethrow prismaRefuses
        | Some d \<Rightarrow> emod (\<lambda>s. s\<lparr>sd_temporary := filter (\<lambda>t. \<not> tempOnDay H u d t) (sd_temporary s)\<rparr>))"

definition deleteClosedRecordsByWorkerAndDate :: "hours_env \<Rightarrow> ident \<Rightarrow> string \<Rightarrow> unit hours_req" where
  "deleteClosedRecordsByWorkerAndDate H u date =
     inHours ''TemporaryBusinessHour.deleteClosedRecordsByWorkerAndDate''
       (case he_parseDate H date of
          None \<Rightarrow> ethrow prismaRefuses
        | Some d \<Rightarrow> emod (\<lambda>s. s\<lparr>sd_temporary := filter (\<lambda>t. \<not> (tempOnDay H u d t \<and> te_closed t)) (sd_temporary s)\<rparr>))"

section \<open>The middleware\<close>

text \<open>The times of a body with a professional and a date become instants of that date.\<close>

definition toUtcFromLocal :: "hours_env \<Rightarrow> string \<Rightarrow> string \<Rightarrow> ident \<Rightarrow> instant option" where
  "toUtcFromLocal H date hhmm tz = z_parse (he_tz H) (date @ ''T'' @ hhmm @ '':00'') tz"

definition convertToISOTime :: "hours_env \<Rightarrow> hour_body \<Rightarrow> string + hour_body" where
  "convertToISOTime H b =
     (if isClosed b then Inr (b\<lparr>hb_start := Some None, hb_end := Some None\<rparr>)
      else case (hb_start b, hb_end b) of
        (Some (Some s), Some (Some e)) \<Rightarrow>
          if \<not> given (hb_start b) \<or> \<not> given (hb_end b) then Inr b
          else (case (middlewareToHHmm H s, middlewareToHHmm H e) of
              (Some s', Some e') \<Rightarrow>
                if truthy (hb_user b) \<and> truthy (hb_date b)
                then let tz = trim (if truthy (hb_tz b) then the (hb_tz b) else ''Europe/Madrid'');
                         inst = (\<lambda>h. if he_zoneKnown H tz then toUtcFromLocal H (the (hb_date b)) h tz
                               else he_parseDate H (the (hb_date b) @ ''T'' @ h @ '':00.000Z''))
                     in Inr (b\<lparr>hb_start := Some (Some (TimeDate (inst s'))), hb_end := Some (Some (TimeDate (inst e')))\<rparr>)
                else Inr (b\<lparr>hb_start := Some (Some (TimeText s')), hb_end := Some (Some (TimeText e'))\<rparr>)
            | _ \<Rightarrow> Inl ''BUSINESS_HOUR_INVALID_TIME_FORMAT'')
      | _ \<Rightarrow> Inr b)"

definition handleDeleteClosedRecords :: "hours_env \<Rightarrow> hour_body \<Rightarrow> unit hours_req" where
  "handleDeleteClosedRecords H b =
     (if isClosed b then
        if truthy (hb_user b) \<and> truthy (hb_date b)
        then deleteTemporaryBusinessHourByWorkerAndDate H (the (hb_user b)) (the (hb_date b))
        else if truthy (hb_user b) then deleteWorkerBusinessHourByWorker (hb_day b) (the (hb_user b))
        else deleteBusinessHourByWeekDay (hb_day b) (hb_workspace b)
      else if given (hb_start b) \<and> given (hb_end b) then
        if truthy (hb_user b) \<and> truthy (hb_date b)
        then deleteClosedRecordsByWorkerAndDate H (the (hb_user b)) (the (hb_date b))
        else if truthy (hb_user b) then deleteClosedRecordsByWorker (hb_day b) (the (hb_user b))
        else deleteClosedRecordsByWeekDay (hb_day b) (hb_workspace b)
      else eret ())"

text \<open>The check of a temporary row compares a \<open>Date\<close> with a text column: the client refuses it.\<close>

definition checkOverlappingTemporaryBusinessHour :: "bool hours_req" where
  "checkOverlappingTemporaryBusinessHour =
     inHours ''TemporaryBusinessHour.checkOverlappingTemporaryBusinessHour'' (ethrow prismaRefuses)"

definition timeText :: "time_value option option \<Rightarrow> string" where
  "timeText v = (case v of Some (Some (TimeText s)) \<Rightarrow> s | _ \<Rightarrow> [])"

definition preventOverlapping :: "hour_body \<Rightarrow> ident option \<Rightarrow> bool hours_req" where
  "preventOverlapping b recordId =
     (if given (hb_start b) \<and> given (hb_end b) then
        if truthy (hb_user b) \<and> truthy (hb_date b) then checkOverlappingTemporaryBusinessHour
        else if truthy (hb_user b)
        then checkOverlappingWorkerBusinessHour (timeText (hb_start b)) (timeText (hb_end b)) (hb_day b) (the (hb_user b)) recordId
        else checkOverlappingBusinessHour (timeText (hb_start b)) (timeText (hb_end b)) (hb_day b) (hb_workspace b) recordId
      else eret False)"

text \<open>The answers: the row, a refusal of the schema (400), of the middleware, or an error (500).\<close>

datatype 'a hours_answer = HoursOk 'a | HoursInvalid | HoursRefused string | HoursFailed app_error

definition withMiddleware ::
  "hours_env \<Rightarrow> ident option \<Rightarrow> (hour_body \<Rightarrow> 'a hours_req) \<Rightarrow> hour_body \<Rightarrow> schedule \<Rightarrow> 'a hours_answer \<times> schedule" where
  "withMiddleware H param controller b s =
     (case convertToISOTime H b of
        Inl code \<Rightarrow> (HoursRefused code, s)
      | Inr b1 \<Rightarrow>
          (case handleDeleteClosedRecords H b1 s of
             (Inl err, s1) \<Rightarrow> (HoursRefused ''BUSINESS_HOUR_DELETE_CLOSED_ERROR'', s1)
           | (Inr _, s1) \<Rightarrow>
               (case preventOverlapping b1 (case hb_id b1 of None \<Rightarrow> param | v \<Rightarrow> v) s1 of
                  (Inl err, s2) \<Rightarrow> (HoursRefused ''BUSINESS_HOUR_OVERLAPPING_VALIDATION_ERROR'', s2)
                | (Inr True, s2) \<Rightarrow> (HoursRefused ''BUSINESS_HOUR_OVERLAPPING_SLOT'', s2)
                | (Inr False, s2) \<Rightarrow>
                    (case controller b1 s2 of
                       (Inl err, s3) \<Rightarrow> (HoursFailed err, s3)
                     | (Inr x, s3) \<Rightarrow> (HoursOk x, s3)))))"

section \<open>The routes\<close>

text \<open>\<open>idSchema\<close>: trimmed and not empty.\<close>

definition idSchema :: "ident option \<Rightarrow> ident option option" where
  "idSchema v = (case v of None \<Rightarrow> Some None | Some s \<Rightarrow> if trim s = [] then None else Some (Some (trim s)))"

definition timeSchema :: "time_value option option \<Rightarrow> time_value option option option" where
  "timeSchema v = (case v of
     Some (Some (TimeText s)) \<Rightarrow> if trim s = [] then None else Some (Some (Some (TimeText (trim s))))
   | _ \<Rightarrow> Some v)"

definition hourSchema :: "hour_body \<Rightarrow> hour_body option" where
  "hourSchema b =
     (case (idSchema (hb_id b), idSchema (hb_company b), idSchema (hb_workspace b), timeSchema (hb_start b), timeSchema (hb_end b)) of
        (Some i, Some co, Some ws, Some s, Some e) \<Rightarrow>
          Some (b\<lparr>hb_id := i, hb_company := co, hb_workspace := ws, hb_start := s, hb_end := e\<rparr>)
      | _ \<Rightarrow> None)"

definition addBusinessHourSchema :: "hour_body \<Rightarrow> hour_body option" where
  "addBusinessHourSchema b =
     (case (hourSchema b, idSchema (hb_idWorkspace b)) of
        (Some b', Some ws) \<Rightarrow>
          if hb_day b = None \<or> hb_workspace b' = None \<and> ws = None then None
          else Some (b'\<lparr>hb_idWorkspace := ws, hb_workspace := (case hb_workspace b' of None \<Rightarrow> ws | v \<Rightarrow> v)\<rparr>)
      | _ \<Rightarrow> None)"

definition workerHourSchema :: "hour_body \<Rightarrow> hour_body option" where
  "workerHourSchema b =
     (case (hourSchema b, idSchema (hb_user b)) of
        (Some b', Some u) \<Rightarrow> Some (b'\<lparr>hb_user := u\<rparr>)
      | _ \<Rightarrow> None)"

definition addWorkerBusinessHourSchema :: "hour_body \<Rightarrow> hour_body option" where
  "addWorkerBusinessHourSchema b =
     (case workerHourSchema b of
        None \<Rightarrow> None
      | Some b' \<Rightarrow>
          if hb_user b' = None \<or> hb_company b' = None \<or> hb_workspace b' = None \<or> hb_day b' = None then None else Some b')"

definition withSchema ::
  "(hour_body \<Rightarrow> hour_body option) \<Rightarrow> (hour_body \<Rightarrow> schedule \<Rightarrow> 'a hours_answer \<times> schedule) \<Rightarrow> hour_body \<Rightarrow> schedule
   \<Rightarrow> 'a hours_answer \<times> schedule" where
  "withSchema schema k b s = (case schema b of None \<Rightarrow> (HoursInvalid, s) | Some b' \<Rightarrow> k b' s)"

definition businessAdd :: "hour_body \<Rightarrow> hour_row hours_req" where
  "businessAdd b = ebind (addBusinessHour b) (\<lambda>r.
     ebind (if truthy (hb_workspace b) then deleteBusinessCache (the (hb_workspace b)) else eret ()) (\<lambda>_. eret r))"

definition businessUpdate :: "ident \<Rightarrow> hour_body \<Rightarrow> hour_row hours_req" where
  "businessUpdate param b = ebind (updateBusinessHour (if truthy (hb_id b) then b else b\<lparr>hb_id := Some param\<rparr>)) (\<lambda>r.
     ebind (if truthy (hb_workspace b) then deleteBusinessCache (the (hb_workspace b)) else eret ()) (\<lambda>_. eret r))"

definition workerAdd :: "hour_body \<Rightarrow> hour_row hours_req" where
  "workerAdd b = ebind (addWorkerBusinessHour b) (\<lambda>r.
     ebind (if truthy (hb_workspace b) \<and> truthy (hb_user b) then deleteWorkerCache (hr_workspace r) (hr_user r) else eret ()) (\<lambda>_. eret r))"

definition workerUpdate :: "ident \<Rightarrow> hour_body \<Rightarrow> hour_row hours_req" where
  "workerUpdate param b = ebind (updateWorkerBusinessHour (if truthy (hb_id b) then b else b\<lparr>hb_id := Some param\<rparr>)) (\<lambda>r.
     ebind (if truthy (hb_workspace b) \<and> truthy (hb_user b) then deleteWorkerCache (hr_workspace r) (hr_user r) else eret ()) (\<lambda>_. eret r))"

definition postBusinessHour :: "hours_env \<Rightarrow> hour_body \<Rightarrow> schedule \<Rightarrow> hour_row hours_answer \<times> schedule" where
  "postBusinessHour H = withSchema addBusinessHourSchema (withMiddleware H None businessAdd)"

definition putBusinessHour :: "hours_env \<Rightarrow> ident \<Rightarrow> hour_body \<Rightarrow> schedule \<Rightarrow> hour_row hours_answer \<times> schedule" where
  "putBusinessHour H i = withSchema hourSchema (withMiddleware H (Some i) (businessUpdate i))"

text \<open>The other members of the body of a delete are looked at by the middleware alone.\<close>

definition deleteBusinessHours :: "hours_env \<Rightarrow> ident list \<Rightarrow> hour_body \<Rightarrow> schedule \<Rightarrow> unit hours_answer \<times> schedule" where
  "deleteBusinessHours H idList b s =
     (if idList = [] \<or> list_ex (\<lambda>i. trim i = []) idList then (HoursInvalid, s)
      else withMiddleware H None (\<lambda>_. deleteBusinessHour (map trim idList)) b s)"

definition postWorkerHour :: "hours_env \<Rightarrow> hour_body \<Rightarrow> schedule \<Rightarrow> hour_row hours_answer \<times> schedule" where
  "postWorkerHour H = withSchema addWorkerBusinessHourSchema (withMiddleware H None workerAdd)"

definition putWorkerHour :: "hours_env \<Rightarrow> ident \<Rightarrow> hour_body \<Rightarrow> schedule \<Rightarrow> hour_row hours_answer \<times> schedule" where
  "putWorkerHour H i = withSchema workerHourSchema (withMiddleware H (Some i) (workerUpdate i))"

definition deleteWorkerHours :: "hours_env \<Rightarrow> ident list \<Rightarrow> hour_body \<Rightarrow> schedule \<Rightarrow> unit hours_answer \<times> schedule" where
  "deleteWorkerHours H idList b s =
     (if idList = [] \<or> list_ex (\<lambda>i. trim i = []) idList then (HoursInvalid, s)
      else withMiddleware H None (\<lambda>_. deleteWorkerBusinessHour (map trim idList)) b s)"

end
