(* ===== verification/CalScheduleProps.thy ===== *)
theory CalScheduleProps
  imports CalSchedule
begin

text \<open>
  Properties of the working hours: the ranges of a day stay disjoint and well written under every sequence of
  requests that name their day, the cache of the business holds its rows, the rows are what availability reads; and
  what goes wrong when a request names less, or when the hours of a professional are deleted.
\<close>

section \<open>Times\<close>

definition wellTimed :: "string \<Rightarrow> bool" where
  "wellTimed t \<longleftrightarrow> (\<exists>a b c d. t = [a, b, CHR '':'', c, d] \<and> isDigit a \<and> isDigit b \<and> isDigit c \<and> isDigit d)"

lemma colon_no_digit: "\<not> isDigit (CHR '':'')"
  by (simp add: isDigit_def)

lemma digit_no_space: "isDigit c \<Longrightarrow> \<not> isSpace c"
  by (auto simp: isDigit_def isSpace_def)

lemma trim_wellTimed: "wellTimed t \<Longrightarrow> trim t = t"
  by (auto simp: wellTimed_def trim_def digit_no_space)

lemma serviceToHHmm_wellTimed: "wellTimed t \<Longrightarrow> serviceToHHmm t = Inr t"
  using trim_wellTimed[of t] colon_no_digit
  by (auto simp: wellTimed_def serviceToHHmm_def matchTime_def Let_def padStart2_def)

lemma minutesPart_digits: "minutesPart s = Some m \<Longrightarrow> \<exists>a b. m = [a, b] \<and> isDigit a \<and> isDigit b"
  by (induction s rule: minutesPart.induct) (auto split: if_splits)

lemma padded_wellTimed:
  assumes "matchTime s = Some (h, m)"
  shows "wellTimed (padStart2 h @ '':'' @ m)"
proof -
  have h: "h = takeWhile isDigit s" "h \<noteq> []" "length h \<le> 2" "minutesPart (drop (length h) s) = Some m"
    using assms by (auto simp: matchTime_def Let_def split: if_splits)
  obtain a b where m: "m = [a, b]" "isDigit a" "isDigit b" using minutesPart_digits[OF h(4)] by blast
  have d: "\<forall>c \<in> set h. isDigit c" using h(1) set_takeWhileD by fastforce
  have z: "isDigit (CHR ''0'')" by (simp add: isDigit_def)
  consider x where "h = [x]" | x y where "h = [x, y]"
    using h(2,3) by (cases h; cases "tl h"; cases "tl (tl h)") auto
  then show ?thesis using d m z by cases (auto simp: wellTimed_def padStart2_def)
qed

lemma hhmmOfInstant_wellTimed: "wellTimed (hhmmOfInstant t)"
proof -
  have two: "\<exists>a b. padDigits 2 n = [a, b] \<and> isDigit a \<and> isDigit b" for n
  proof -
    have "length (padDigits 2 n) = 2" by simp
    then obtain a b where p: "padDigits 2 n = [a, b]" by (metis (no_types, opaque_lifting) Suc_1 length_0_conv length_Suc_conv One_nat_def)
    then show ?thesis using padDigits_isDigit[of 2 n] by simp
  qed
  let ?m = "t mod day_ms"
  obtain a b c d where "padDigits 2 (?m div 3600000) = [a, b]" "padDigits 2 (?m div 60000 mod 60) = [c, d]"
    "isDigit a" "isDigit b" "isDigit c" "isDigit d" using two by metis
  then show ?thesis by (auto simp: hhmmOfInstant_def clockField_def wellTimed_def)
qed

lemma middlewareToHHmm_wellTimed: "middlewareToHHmm H v = Some t \<Longrightarrow> wellTimed t"
  by (auto simp: middlewareToHHmm_def Let_def hhmmOfInstant_wellTimed padded_wellTimed[simplified]
      split: time_value.splits option.splits if_splits)

section \<open>The middleware on the hours of the business\<close>

definition inScope :: "hour_body \<Rightarrow> hour_row \<Rightarrow> bool" where
  "inScope b r \<longleftrightarrow> matches (hb_day b) (hr_day r) \<and> matches (hb_workspace b) (hr_workspace r)"

definition timed :: "hour_body \<Rightarrow> bool" where
  "timed b \<longleftrightarrow> given (hb_start b) \<and> given (hb_end b)"

definition clearedBy :: "hour_body \<Rightarrow> hour_row \<Rightarrow> bool" where
  "clearedBy b r \<longleftrightarrow> inScope b r \<and> (isClosed b \<or> timed b \<and> hr_closed r)"

lemma inHours_ok: "m s = (Inr x, t) \<Longrightarrow> inHours name m s = (Inr x, t)"
  by (simp add: inHours_def ecatch_def)

lemma handleDelete_business:
  assumes "\<not> truthy (hb_user b)"
  shows "handleDeleteClosedRecords H b s = (Inr (), s\<lparr>sd_business := filter (\<lambda>r. \<not> clearedBy b r) (sd_business s)\<rparr>)"
proof -
  consider "isClosed b" | "\<not> isClosed b" "timed b" | "\<not> isClosed b" "\<not> timed b" by blast
  then show ?thesis
  proof cases
    case 3
    then have "filter (\<lambda>r. \<not> clearedBy b r) (sd_business s) = sd_business s" by (simp add: clearedBy_def)
    then show ?thesis using 3 assms by (auto simp: handleDeleteClosedRecords_def timed_def)
  qed (use assms in \<open>auto simp: handleDeleteClosedRecords_def timed_def clearedBy_def inScope_def inHours_def ecatch_def
      deleteBusinessHourByWeekDay_def deleteClosedRecordsByWeekDay_def deleteBusinessRows_def conj_assoc\<close>)
qed

text \<open>What the middleware leaves of a body, and what has been checked when the controller runs.\<close>

definition clashFree :: "hour_body \<Rightarrow> ident option \<Rightarrow> hour_row list \<Rightarrow> bool" where
  "clashFree b i rows \<longleftrightarrow> (timed b \<longrightarrow> wellTimed (timeText (hb_start b)) \<and> wellTimed (timeText (hb_end b)) \<and>
     (\<forall>r \<in> set rows. inScope b r \<and> \<not> hr_closed r \<and> (truthy i \<longrightarrow> hr_id r \<noteq> the i) \<longrightarrow>
        \<not> rangeMeets (timeText (hb_start b)) (timeText (hb_end b)) r))"

lemma convert_business:
  assumes "convertToISOTime H b = Inr b1" and "\<not> (truthy (hb_user b) \<and> truthy (hb_date b))"
  shows "isClosed b1 = isClosed b" "hb_day b1 = hb_day b" "hb_workspace b1 = hb_workspace b" "hb_user b1 = hb_user b"
    "hb_id b1 = hb_id b" "hb_closed b1 = hb_closed b" "hb_company b1 = hb_company b"
    "isClosed b \<Longrightarrow> hb_start b1 = Some None \<and> hb_end b1 = Some None"
    "\<not> isClosed b \<Longrightarrow> timed b1 = timed b"
    "timed b1 \<Longrightarrow> wellTimed (timeText (hb_start b1)) \<and> wellTimed (timeText (hb_end b1)) \<and>
       hb_start b1 = Some (Some (TimeText (timeText (hb_start b1)))) \<and> hb_end b1 = Some (Some (TimeText (timeText (hb_end b1))))"
proof -
  let ?begins = "hb_start b" and ?ends = "hb_end b"
  consider (closed) "isClosed b" "b1 = b\<lparr>hb_start := Some None, hb_end := Some None\<rparr>"
    | (same) "\<not> isClosed b" "\<not> timed b" "b1 = b"
    | (texts) s e where "\<not> isClosed b" "timed b" "wellTimed s" "wellTimed e"
        "b1 = b\<lparr>hb_start := Some (Some (TimeText s)), hb_end := Some (Some (TimeText e))\<rparr>"
    using assms
    by (auto simp: convertToISOTime_def timed_def given_def Let_def dest: middlewareToHHmm_wellTimed
        split: if_splits option.splits)
  note cases = this
  show "isClosed b1 = isClosed b" "hb_day b1 = hb_day b" "hb_workspace b1 = hb_workspace b" "hb_user b1 = hb_user b"
    "hb_id b1 = hb_id b" "hb_closed b1 = hb_closed b" "hb_company b1 = hb_company b"
    by (cases rule: cases; simp add: isClosed_def)+
  show "hb_start b1 = Some None \<and> hb_end b1 = Some None" if "isClosed b"
    by (cases rule: cases) (use that in simp_all)
  show "timed b1 = timed b" if "\<not> isClosed b"
    by (cases rule: cases) (use that in \<open>auto simp: timed_def given_def wellTimed_def\<close>)
  show "wellTimed (timeText (hb_start b1)) \<and> wellTimed (timeText (hb_end b1)) \<and>
       hb_start b1 = Some (Some (TimeText (timeText (hb_start b1)))) \<and> hb_end b1 = Some (Some (TimeText (timeText (hb_end b1))))"
    if "timed b1"
    by (cases rule: cases) (use that in \<open>auto simp: timed_def given_def timeText_def\<close>)
qed

lemma overlapCheck_state: "snd (overlapCheck rows P s e i st) = st"
  by (auto simp: overlapCheck_def split: sum.splits)

lemma preventOverlapping_state: "snd (preventOverlapping b i s) = s"
  by (auto simp: preventOverlapping_def checkOverlappingTemporaryBusinessHour_def inHours_def ecatch_def
      checkOverlappingWorkerBusinessHour_def checkOverlappingBusinessHour_def overlapCheck_state)

lemma preventOverlapping_clash:
  assumes "fst (preventOverlapping b i s) = Inr False" and "\<not> truthy (hb_user b)"
    and "timed b \<Longrightarrow> wellTimed (timeText (hb_start b)) \<and> wellTimed (timeText (hb_end b))"
  shows "clashFree b i (sd_business s)"
  using assms
  by (auto simp: preventOverlapping_def clashFree_def timed_def checkOverlappingBusinessHour_def overlapCheck_def
      serviceToHHmm_wellTimed list_ex_iff inScope_def)

definition recordIdOf :: "hour_body \<Rightarrow> ident option \<Rightarrow> ident option" where
  "recordIdOf b param = (case hb_id b of None \<Rightarrow> param | v \<Rightarrow> v)"

definition cleared :: "hour_body \<Rightarrow> schedule \<Rightarrow> schedule" where
  "cleared b s = s\<lparr>sd_business := filter (\<lambda>r. \<not> clearedBy b r) (sd_business s)\<rparr>"

text \<open>A request that passes the middleware reaches the controller on the cleared table, without a clash; any other
  leaves the table as it is or cleared.\<close>

lemma withMiddleware_business:
  assumes "withMiddleware H param k b s = (ans, t)" and "\<not> truthy (hb_user b)"
  obtains (stopped) code where "ans = HoursRefused code" "t = s \<or> (\<exists>b1. convertToISOTime H b = Inr b1 \<and> t = cleared b1 s)"
  | (passed) b1 where "convertToISOTime H b = Inr b1" "clashFree b1 (recordIdOf b1 param) (sd_business (cleared b1 s))"
      "t = snd (k b1 (cleared b1 s))"
      "ans = (case fst (k b1 (cleared b1 s)) of Inl err \<Rightarrow> HoursFailed err | Inr x \<Rightarrow> HoursOk x)"
proof (cases "convertToISOTime H b")
  case (Inl code)
  then show ?thesis using assms stopped by (auto simp: withMiddleware_def)
next
  case (Inr b1)
  have u: "\<not> truthy (hb_user b1)" using convert_business(4)[OF Inr] assms(2) by simp
  let ?r = "recordIdOf b1 param"
  let ?p = "preventOverlapping b1 ?r (cleared b1 s)"
  have t: "snd ?p = cleared b1 s" by (rule preventOverlapping_state)
  have run: "withMiddleware H param k b s = (case ?p of
        (Inl err, s2) \<Rightarrow> (HoursRefused ''BUSINESS_HOUR_OVERLAPPING_VALIDATION_ERROR'', s2)
      | (Inr True, s2) \<Rightarrow> (HoursRefused ''BUSINESS_HOUR_OVERLAPPING_SLOT'', s2)
      | (Inr False, s2) \<Rightarrow> (case k b1 s2 of (Inl err, s3) \<Rightarrow> (HoursFailed err, s3) | (Inr x, s3) \<Rightarrow> (HoursOk x, s3)))"
    unfolding withMiddleware_def Inr recordIdOf_def by (simp add: handleDelete_business[OF u] cleared_def)
  consider err where "fst ?p = Inl err" | "fst ?p = Inr True" | "fst ?p = Inr False"
    by (cases "fst ?p") auto
  then show ?thesis
  proof cases
    case 3
    have "clashFree b1 ?r (sd_business (cleared b1 s))"
      by (rule preventOverlapping_clash[OF 3 u]) (use convert_business(10)[OF Inr] assms(2) in blast)
    moreover have "(ans, t) = (case k b1 (cleared b1 s) of (Inl err, s3) \<Rightarrow> (HoursFailed err, s3) | (Inr x, s3) \<Rightarrow> (HoursOk x, s3))"
      using run 3 t assms(1) by (cases ?p) simp
    ultimately show ?thesis by (intro passed[OF Inr]) (auto split: prod.splits sum.splits)
  qed (use run t assms(1) Inr stopped in \<open>cases ?p; auto\<close>)+
qed

section \<open>The invariant of a table of hours\<close>

definition sameDay :: "hour_row \<Rightarrow> hour_row \<Rightarrow> bool" where
  "sameDay r x \<longleftrightarrow> hr_workspace r = hr_workspace x \<and> hr_day r = hr_day x"

definition hasRange :: "hour_row \<Rightarrow> bool" where
  "hasRange r \<longleftrightarrow> \<not> hr_closed r \<and> hr_start r \<noteq> None \<and> hr_end r \<noteq> None"

definition rowsMeet :: "hour_row \<Rightarrow> hour_row \<Rightarrow> bool" where
  "rowsMeet r x \<longleftrightarrow> hasRange r \<and> hasRange x \<and> rangeMeets (the (hr_start r)) (the (hr_end r)) x"

lemma rowsMeet_sym: "rowsMeet r x = rowsMeet x r"
  by (auto simp: rowsMeet_def hasRange_def rangeMeets_def split: option.splits)

text \<open>On a day of a workspace the ranges do not meet, a closed row stands without ranges, and the times are written
  \<open>HH:mm\<close>.\<close>

definition compatible :: "hour_row \<Rightarrow> hour_row \<Rightarrow> bool" where
  "compatible r x \<longleftrightarrow> (sameDay r x \<longrightarrow> \<not> rowsMeet r x \<and> \<not> (hr_closed r \<and> hasRange x) \<and> \<not> (hr_closed x \<and> hasRange r))"

lemma compatible_sym: "compatible r x = compatible x r"
  by (auto simp: compatible_def rowsMeet_sym sameDay_def)

definition hoursInv :: "hour_row list \<Rightarrow> bool" where
  "hoursInv rows \<longleftrightarrow> distinct (map hr_id rows) \<and>
     (\<forall>r \<in> set rows. \<forall>x \<in> set rows. hr_id r \<noteq> hr_id x \<longrightarrow> compatible r x) \<and>
     (\<forall>r \<in> set rows. hasRange r \<longrightarrow> wellTimed (the (hr_start r)) \<and> wellTimed (the (hr_end r)))"

lemma hoursInv_filter: "hoursInv rows \<Longrightarrow> hoursInv (filter P rows)"
  by (auto simp: hoursInv_def distinct_map_filter)

lemma hoursInv_place:
  assumes "hoursInv rows" and "distinct (map hr_id rows')"
    and "\<And>x. x \<in> set rows' \<Longrightarrow> x = r \<or> x \<in> set rows \<and> hr_id x \<noteq> hr_id r"
    and "\<And>x. x \<in> set rows \<Longrightarrow> hr_id x \<noteq> hr_id r \<Longrightarrow> compatible r x"
    and "hasRange r \<Longrightarrow> wellTimed (the (hr_start r)) \<and> wellTimed (the (hr_end r))"
  shows "hoursInv rows'"
  unfolding hoursInv_def
proof (intro conjI ballI impI)
  fix a b assume ab: "a \<in> set rows'" "b \<in> set rows'" "hr_id a \<noteq> hr_id b"
  show "compatible a b"
    using assms(3)[OF ab(1)] assms(3)[OF ab(2)] ab(3) assms(1,4) compatible_sym by (auto simp: hoursInv_def)
next
  fix a assume a: "a \<in> set rows'" "hasRange a"
  then show "wellTimed (the (hr_start a))" "wellTimed (the (hr_end a))"
    using assms(3)[OF a(1)] assms(1,5) by (auto simp: hoursInv_def)
qed (rule assms(2))

text \<open>A row written from a body that passed the middleware is compatible with what is left of its day.\<close>

definition writesRow :: "hour_body \<Rightarrow> hour_row \<Rightarrow> bool" where
  "writesRow b r \<longleftrightarrow> inScope b r \<and> hb_day b \<noteq> None \<and> hb_workspace b \<noteq> None \<and> (hr_closed r \<longleftrightarrow> isClosed b) \<and>
     (hasRange r \<longrightarrow> timed b \<and> hr_start r = Some (timeText (hb_start b)) \<and> hr_end r = Some (timeText (hb_end b)))"

lemma written_compatible:
  assumes "writesRow b r" and "clashFree b i (sd_business (cleared b s))" and "truthy i \<Longrightarrow> hr_id r = the i"
    and "x \<in> set (sd_business (cleared b s))" and "hr_id x \<noteq> hr_id r"
  shows "compatible r x"
proof -
  have x: "\<not> clearedBy b x" using assms(4) by (simp add: cleared_def)
  have day: "inScope b x" if "sameDay r x" using that assms(1) by (auto simp: writesRow_def inScope_def sameDay_def)
  show ?thesis
    using x day assms(1-3,5) assms(4)
    by (auto simp: compatible_def clearedBy_def writesRow_def clashFree_def rowsMeet_def hasRange_def)
qed

lemma written_times: "writesRow b r \<Longrightarrow> clashFree b i rows \<Longrightarrow> hasRange r \<Longrightarrow>
  wellTimed (the (hr_start r)) \<and> wellTimed (the (hr_end r))"
  by (simp add: writesRow_def clashFree_def)

lemma hoursInv_cleared: "hoursInv (sd_business s) \<Longrightarrow> hoursInv (sd_business (cleared b s))"
  by (simp add: cleared_def hoursInv_filter)

section \<open>The routes keep the invariant\<close>

definition plainTimes :: "hour_body \<Rightarrow> bool" where
  "plainTimes b \<longleftrightarrow> hb_start b \<noteq> Some (Some (TimeText [])) \<and> hb_end b \<noteq> Some (Some (TimeText []))"

lemma hourSchema_plain: "hourSchema b = Some b' \<Longrightarrow> plainTimes b'"
  by (auto simp: hourSchema_def timeSchema_def plainTimes_def split: option.splits time_value.splits if_splits)

lemma hourSchema_keeps: "hourSchema b = Some b' \<Longrightarrow> hb_user b' = hb_user b \<and> hb_day b' = hb_day b \<and> hb_closed b' = hb_closed b"
  by (auto simp: hourSchema_def split: option.splits)

lemma convert_plain:
  assumes "convertToISOTime H b = Inr b1" and "\<not> truthy (hb_user b)" and "plainTimes b"
  shows "plainTimes b1"
  using assms
  by (auto simp: convertToISOTime_def plainTimes_def given_def Let_def dest!: middlewareToHHmm_wellTimed
      simp: wellTimed_def split: if_splits option.splits)

lemma timed_texts:
  assumes "plainTimes b" and "timeColumn (Option.bind (hb_start b) id) = Some (Some s)"
    and "timeColumn (Option.bind (hb_end b) id) = Some (Some e)"
  shows "timed b \<and> timeText (hb_start b) = s \<and> timeText (hb_end b) = e"
  using assms
  by (auto simp: timeColumn_def timed_def given_def plainTimes_def timeText_def
      split: option.splits time_value.splits if_splits bind_splits)

lemma rowOfBody_writes:
  assumes "rowOfBody i b = Some r" and "plainTimes b" and "hb_day b \<noteq> None" and "hb_workspace b \<noteq> None"
  shows "writesRow b r \<and> hr_id r = i"
  using assms timed_texts[OF assms(2)]
  by (auto simp: rowOfBody_def writesRow_def inScope_def hasRange_def isClosed_def matches_def orElse_def split: option.splits)

lemma addBusiness_rows:
  "sd_business (snd (businessAdd b s)) = sd_business s \<or>
   (\<exists>i r. rowOfBody i b = Some r \<and> i \<notin> hr_id ` set (sd_business s) \<and> (\<forall>j. hb_id b = Some j \<longrightarrow> j = i) \<and>
     hb_user b = None \<and> sd_business (snd (businessAdd b s)) = sd_business s @ [r])"
  by (auto simp: businessAdd_def addBusinessHour_def inHours_def ecatch_def ebind_def newHourId_def deleteBusinessCache_def
      split: option.splits if_splits)

text \<open>With a professional in the body the middleware does not touch the hours of the business.\<close>

lemma handleDelete_user: "truthy (hb_user b) \<Longrightarrow> sd_business (snd (handleDeleteClosedRecords H b s)) = sd_business s"
  by (auto simp: handleDeleteClosedRecords_def deleteTemporaryBusinessHourByWorkerAndDate_def
      deleteClosedRecordsByWorkerAndDate_def deleteWorkerBusinessHourByWorker_def deleteClosedRecordsByWorker_def
      deleteWorkerWhere_def deleteWorkerRows_def deleteWorkerCache_def inHours_def ecatch_def ebind_def
      split: option.splits)

lemma convert_user: "convertToISOTime H b = Inr b1 \<Longrightarrow> hb_user b1 = hb_user b"
  by (auto simp: convertToISOTime_def Let_def split: if_splits option.splits)

lemma withMiddleware_user:
  assumes "truthy (hb_user b)" and "\<And>b1 s. hb_user b1 = hb_user b \<Longrightarrow> sd_business (snd (k b1 s)) = sd_business s"
  shows "sd_business (snd (withMiddleware H param k b s)) = sd_business s"
proof (cases "convertToISOTime H b")
  case (Inr b1)
  have u: "hb_user b1 = hb_user b" by (rule convert_user[OF Inr])
  obtain r1 s1 where d: "handleDeleteClosedRecords H b1 s = (r1, s1)" by fastforce
  have s1: "sd_business s1 = sd_business s" using handleDelete_user[of b1 H s] d assms(1) u by simp
  obtain r2 s2 where p: "preventOverlapping b1 (case hb_id b1 of None \<Rightarrow> param | v \<Rightarrow> v) s1 = (r2, s2)" by fastforce
  have s2: "s2 = s1" using preventOverlapping_state[of b1 _ s1] p by (metis snd_conv)
  show ?thesis
    using Inr d p s1 s2 assms(2)[OF u, of s1] unfolding withMiddleware_def
    by (auto split: sum.splits prod.splits bool.splits)
qed (simp add: withMiddleware_def)

lemma post_keeps:
  assumes "hoursInv (sd_business s)"
  shows "hoursInv (sd_business (snd (postBusinessHour H b s)))"
proof (cases "addBusinessHourSchema b")
  case (Some b')
  obtain b0 where b0: "hourSchema b = Some b0"
    and ws: "hb_workspace b' \<noteq> None" and fields: "hb_user b' = hb_user b0" "hb_day b' = hb_day b0" "hb_day b \<noteq> None"
      "hb_start b' = hb_start b0" "hb_end b' = hb_end b0"
    using Some by (auto simp: addBusinessHourSchema_def split: option.splits if_splits)
  have day: "hb_day b' \<noteq> None" and plain: "plainTimes b'"
    using fields hourSchema_keeps[OF b0] hourSchema_plain[OF b0] by (simp_all add: plainTimes_def)
  have run: "postBusinessHour H b s = withMiddleware H None businessAdd b' s"
    using Some by (simp add: postBusinessHour_def withSchema_def)
  show ?thesis
  proof (cases "truthy (hb_user b')")
    case True
    then have "sd_business (snd (withMiddleware H None businessAdd b' s)) = sd_business s"
      by (rule withMiddleware_user) (use True addBusiness_rows in \<open>metis truthy_simps(1)\<close>)
    then show ?thesis using run assms by simp
  next
    case False
    obtain ans t where at: "withMiddleware H None businessAdd b' s = (ans, t)" by fastforce
    then have "hoursInv (sd_business t)" using False
    proof (cases rule: withMiddleware_business)
      case (stopped code)
      then show ?thesis using assms hoursInv_cleared by auto
    next
      case (passed b1)
      note b1 = convert_business[OF passed(1)]
      let ?s = "cleared b1 s"
      have inv: "hoursInv (sd_business ?s)" by (rule hoursInv_cleared[OF assms])
      show ?thesis using addBusiness_rows[of b1 ?s]
      proof (elim disjE exE conjE)
        fix i r assume r: "rowOfBody i b1 = Some r" "i \<notin> hr_id ` set (sd_business ?s)" "\<forall>j. hb_id b1 = Some j \<longrightarrow> j = i"
          "sd_business (snd (businessAdd b1 ?s)) = sd_business ?s @ [r]"
        have w: "writesRow b1 r \<and> hr_id r = i"
          by (rule rowOfBody_writes[OF r(1) convert_plain[OF passed(1) False plain]]) (use b1(2,3) False day ws in auto)
        have "truthy (recordIdOf b1 None) \<Longrightarrow> hr_id r = the (recordIdOf b1 None)"
          using w r(3) by (auto simp: recordIdOf_def split: option.splits)
        moreover have "hr_id x \<noteq> hr_id r" if "x \<in> set (sd_business ?s)" for x using that w r(2) by (metis imageI)
        moreover have "distinct (map hr_id (sd_business ?s @ [r]))" using inv w r(2) by (simp add: hoursInv_def)
        ultimately have "hoursInv (sd_business ?s @ [r])"
          by (intro hoursInv_place[OF inv, where r = r])
            (use w written_compatible[OF _ passed(2)] written_times[OF _ passed(2)] in auto)
        then show ?thesis using passed(3) r(4) by simp
      qed (use passed(3) inv in simp)
    qed
    then show ?thesis using run at by simp
  qed
qed (use assms in \<open>simp add: postBusinessHour_def withSchema_def\<close>)


text \<open>An update that names the day, the workspace and either the closing or both times.\<close>

definition fullBody :: "hour_body \<Rightarrow> bool" where
  "fullBody b \<longleftrightarrow> \<not> truthy (hb_user b) \<and> hb_day b \<noteq> None \<and> truthy (hb_workspace b) \<and>
     (isClosed b \<or> hb_closed b = Some False \<and> timed b)"

lemma updateBusiness_rows:
  "sd_business (snd (businessUpdate param b s)) = sd_business s \<or>
   (\<exists>f. patchRow b = Some f \<and> (\<exists>r \<in> set (sd_business s). hr_id r = (if truthy (hb_id b) then the (hb_id b) else param)) \<and>
     sd_business (snd (businessUpdate param b s)) =
       updateWhere (\<lambda>x. hr_id x = (if truthy (hb_id b) then the (hb_id b) else param)) f (sd_business s))"
  by (auto simp: businessUpdate_def updateBusinessHour_def inHours_def ecatch_def ebind_def deleteBusinessCache_def patchRow_def
      dest!: find_Some_D split: option.splits if_splits)

lemma patchRow_writes:
  assumes "patchRow b = Some f" and "plainTimes b" and "hb_day b \<noteq> None" and "hb_workspace b \<noteq> None"
    and "isClosed b \<and> hb_start b = Some None \<and> hb_end b = Some None \<or> hb_closed b = Some False \<and> timed b"
  shows "writesRow b (f r) \<and> hr_id (f r) = hr_id r"
proof -
  obtain s e where se: "timeColumn (Option.bind (hb_start b) id) = Some s" "timeColumn (Option.bind (hb_end b) id) = Some e"
    using assms(1) by (auto simp: patchRow_def split: option.splits)
  have f: "f r = r\<lparr>hr_user := orElse (hb_user b) (hr_user r), hr_company := orElse (hb_company b) (hr_company r),
            hr_workspace := orElse (hb_workspace b) (hr_workspace r), hr_day := orElse (hb_day b) (hr_day r),
            hr_start := (if hb_start b = None then hr_start r else s),
            hr_end := (if hb_end b = None then hr_end r else e), hr_closed := orElse (hb_closed b) (hr_closed r)\<rparr>"
    using assms(1) se by (auto simp: patchRow_def)
  have sc: "inScope b (f r)" "hr_closed (f r) \<longleftrightarrow> isClosed b" "hr_id (f r) = hr_id r"
    using assms(3-5) by (auto simp: f inScope_def isClosed_def matches_def split: option.splits)
  have "hasRange (f r) \<Longrightarrow> timed b \<and> hr_start (f r) = Some (timeText (hb_start b)) \<and> hr_end (f r) = Some (timeText (hb_end b))"
    using assms(5) se
    by (auto simp: f hasRange_def timed_def given_def timeColumn_def timeText_def split: option.splits time_value.splits if_splits)
  then show ?thesis using sc assms(3,4) by (simp add: writesRow_def)
qed

lemma put_keeps:
  assumes "hoursInv (sd_business s)" and "\<And>b'. hourSchema b = Some b' \<Longrightarrow> fullBody b'" and "i \<noteq> []"
  shows "hoursInv (sd_business (snd (putBusinessHour H i b s)))"
proof (cases "hourSchema b")
  case (Some b')
  have full: "fullBody b'" by (rule assms(2)[OF Some])
  then have nu: "\<not> truthy (hb_user b')" by (simp add: fullBody_def)
  have run: "putBusinessHour H i b s = withMiddleware H (Some i) (businessUpdate i) b' s"
    using Some by (simp add: putBusinessHour_def withSchema_def)
  have idok: "hb_id b' \<noteq> Some []" using Some by (auto simp: hourSchema_def idSchema_def split: option.splits if_splits)
  obtain ans t where at: "withMiddleware H (Some i) (businessUpdate i) b' s = (ans, t)" by fastforce
  then have "hoursInv (sd_business t)" using nu
  proof (cases rule: withMiddleware_business)
    case (stopped code)
    then show ?thesis using assms(1) hoursInv_cleared by auto
  next
    case (passed b1)
    note b1 = convert_business[OF passed(1)]
    let ?s = "cleared b1 s" and ?i = "if truthy (hb_id b1) then the (hb_id b1) else i"
    have inv: "hoursInv (sd_business ?s)" by (rule hoursInv_cleared[OF assms(1)])
    have rid: "recordIdOf b1 (Some i) = Some ?i" using b1(5) nu idok by (cases "hb_id b'") (auto simp: recordIdOf_def)
    have shape: "isClosed b1 \<and> hb_start b1 = Some None \<and> hb_end b1 = Some None \<or> hb_closed b1 = Some False \<and> timed b1"
      using full b1(1,6,8,9) nu by (auto simp: fullBody_def isClosed_def)
    show ?thesis using updateBusiness_rows[of i b1 ?s]
    proof (elim disjE exE conjE bexE)
      fix f r assume r: "patchRow b1 = Some f" "r \<in> set (sd_business ?s)" "hr_id r = ?i"
        "sd_business (snd (businessUpdate i b1 ?s)) = updateWhere (\<lambda>x. hr_id x = ?i) f (sd_business ?s)"
      have "truthy (hb_workspace b1)" using b1(3) nu full by (simp add: fullBody_def)
      then have ne: "hb_day b1 \<noteq> None" "hb_workspace b1 \<noteq> None" using b1(2) nu full truthy_simps(1) by (metis fullBody_def)+
      have w: "writesRow b1 (f x) \<and> hr_id (f x) = hr_id x" for x
        by (rule patchRow_writes[OF r(1) convert_plain[OF passed(1) nu hourSchema_plain[OF Some]] ne shape])
      have one: "x = r" if "x \<in> set (sd_business ?s)" "hr_id x = ?i" for x
        using that r(2,3) inv by (metis hoursInv_def distinct_map inj_onD)
      have "hoursInv (updateWhere (\<lambda>x. hr_id x = ?i) f (sd_business ?s))"
      proof (rule hoursInv_place[OF inv, where r = "f r"])
        show "distinct (map hr_id (updateWhere (\<lambda>x. hr_id x = ?i) f (sd_business ?s)))"
          using map_updateWhere_same[of hr_id f "\<lambda>x. hr_id x = ?i" "sd_business ?s"] w inv by (simp add: hoursInv_def)
        show "x = f r \<or> x \<in> set (sd_business ?s) \<and> hr_id x \<noteq> hr_id (f r)"
          if "x \<in> set (updateWhere (\<lambda>x. hr_id x = ?i) f (sd_business ?s))" for x
          using that one w r(3) by (auto simp: updateWhere_def)
        show "compatible (f r) x" if "x \<in> set (sd_business ?s)" "hr_id x \<noteq> hr_id (f r)" for x
          by (rule written_compatible[OF conjunct1[OF w] passed(2) _ that]) (use rid w r(3) in simp)
        show "wellTimed (the (hr_start (f r))) \<and> wellTimed (the (hr_end (f r)))" if "hasRange (f r)"
          by (rule written_times[OF conjunct1[OF w] passed(2) that])
      qed
      then show ?thesis using passed(3) r(4) by simp
    qed (use passed(3) inv in simp)
  qed
  then show ?thesis using run at by simp
qed (use assms(1) in \<open>simp add: putBusinessHour_def withSchema_def\<close>)


lemma deleteBusiness_rows:
  "sd_business (snd (deleteBusinessHour is s)) = filter (\<lambda>r. hr_id r \<notin> set is) (sd_business s)"
proof -
  have c: "sd_business (snd (deleteBusinessCaches ws s)) = sd_business s" for ws s
    by (induction ws arbitrary: s) (auto simp: ebind_def deleteBusinessCache_def)
  then show ?thesis
    by (auto simp: deleteBusinessHour_def inHours_def ecatch_def ebind_def deleteBusinessRows_def split: prod.splits sum.splits)
      (metis (no_types, lifting) c schedule.select_convs(1) schedule.surjective schedule.update_convs(1) snd_conv)+
qed

text \<open>Routes whose controller only drops rows of the business, or none.\<close>

lemma withMiddleware_drops:
  assumes "hoursInv (sd_business s)"
    and "\<And>b1 s. hb_user b1 = hb_user b \<Longrightarrow> \<exists>P. sd_business (snd (k b1 s)) = filter P (sd_business s)"
  shows "hoursInv (sd_business (snd (withMiddleware H param k b s)))"
proof (cases "convertToISOTime H b")
  case (Inr b1)
  have u: "hb_user b1 = hb_user b" by (rule convert_user[OF Inr])
  obtain r1 s1 where d: "handleDeleteClosedRecords H b1 s = (r1, s1)" by fastforce
  have s1: "hoursInv (sd_business s1)"
  proof (cases "truthy (hb_user b1)")
    case True
    then show ?thesis using handleDelete_user[OF True, of H s] d assms(1) by simp
  next
    case False
    then show ?thesis using handleDelete_business[OF False, of H s] d assms(1) hoursInv_filter by auto
  qed
  obtain r2 s2 where p: "preventOverlapping b1 (case hb_id b1 of None \<Rightarrow> param | v \<Rightarrow> v) s1 = (r2, s2)" by fastforce
  have s2: "s2 = s1" using preventOverlapping_state[of b1 _ s1] p by (metis snd_conv)
  obtain P where "sd_business (snd (k b1 s1)) = filter P (sd_business s1)" using assms(2)[OF u] by blast
  then have "hoursInv (sd_business (snd (k b1 s1)))" using s1 hoursInv_filter by simp
  then have "hoursInv (sd_business (snd (case k b1 s1 of (Inl err, s3) \<Rightarrow> (HoursFailed err, s3) | (Inr x, s3) \<Rightarrow> (HoursOk x, s3))))"
    by (auto split: prod.split sum.split)
  then show ?thesis
    unfolding withMiddleware_def Inr using d p s2 s1 by (cases r1; cases r2) (auto split: bool.split)
qed (use assms(1) in \<open>simp add: withMiddleware_def\<close>)

lemma keeps_rows:
  "sd_business (snd (newHourId i s)) = sd_business s"
  "snd (inHours n m s) = snd (m s)"
  "sd_business (snd (deleteWorkerCache ws u s)) = sd_business s"
  "sd_business (snd (eret x s)) = sd_business s" "sd_business (snd (ethrow e s)) = sd_business s"
  "sd_business (snd (eread f s)) = sd_business s"
  "sd_business (snd (emod (\<lambda>s. s\<lparr>sd_worker := f s\<rparr>) s)) = sd_business s"
  by (auto simp: newHourId_def inHours_def ecatch_def deleteWorkerCache_def split: option.splits prod.splits sum.splits)

lemma createWorkerRow_rows: "sd_business (snd (createWorkerRow b s)) = sd_business s"
  unfolding createWorkerRow_def
  by (auto intro!: ebind_keeps[where k = sd_business] simp: keeps_rows split: option.split)

lemma worker_controllers_rows:
  "sd_business (snd (workerAdd b s)) = sd_business s"
  "sd_business (snd (workerUpdate i b s)) = sd_business s"
  "sd_business (snd (deleteWorkerBusinessHour is s)) = sd_business s"
  unfolding workerAdd_def addWorkerBusinessHour_def workerUpdate_def updateWorkerBusinessHour_def
    deleteWorkerBusinessHour_def deleteWorkerRows_def
  by (auto intro!: ebind_keeps[where k = sd_business] simp: keeps_rows createWorkerRow_rows
      simp del: eff_simps split: option.split)

lemma drops_keep:
  assumes "hoursInv (sd_business s)"
  shows "hoursInv (sd_business (snd (deleteBusinessHours H is b s)))"
    and "hoursInv (sd_business (snd (postWorkerHour H b s)))"
    and "hoursInv (sd_business (snd (putWorkerHour H i b s)))"
    and "hoursInv (sd_business (snd (deleteWorkerHours H is b s)))"
proof -
  have all: "\<exists>P. xs = filter P xs" for xs :: "hour_row list" by (rule exI[of _ "\<lambda>_. True"]) simp
  show "hoursInv (sd_business (snd (deleteBusinessHours H is b s)))"
    unfolding deleteBusinessHours_def
    by (simp add: assms) (intro impI withMiddleware_drops[OF assms], unfold deleteBusiness_rows, blast)
  show "hoursInv (sd_business (snd (postWorkerHour H b s)))"
    unfolding postWorkerHour_def withSchema_def
    by (auto simp: assms worker_controllers_rows all intro!: withMiddleware_drops[OF assms] split: option.split)
  show "hoursInv (sd_business (snd (putWorkerHour H i b s)))"
    unfolding putWorkerHour_def withSchema_def
    by (auto simp: assms worker_controllers_rows all intro!: withMiddleware_drops[OF assms] split: option.split)
  show "hoursInv (sd_business (snd (deleteWorkerHours H is b s)))"
    unfolding deleteWorkerHours_def
    by (auto simp: assms worker_controllers_rows all intro!: withMiddleware_drops[OF assms])
qed

section \<open>Sequences of requests\<close>

text \<open>Every route, with bodies that name day, workspace and times in an update; reads, which fill the caches; and the
  expiry of what is cached.\<close>

inductive hours_step :: "hours_env \<Rightarrow> schedule \<Rightarrow> schedule \<Rightarrow> bool" for H where
  step_post: "hours_step H s (snd (postBusinessHour H b s))"
| step_put: "(\<And>b'. hourSchema b = Some b' \<Longrightarrow> fullBody b') \<Longrightarrow> i \<noteq> [] \<Longrightarrow> hours_step H s (snd (putBusinessHour H i b s))"
| step_delete: "hours_step H s (snd (deleteBusinessHours H is b s))"
| step_postWorker: "hours_step H s (snd (postWorkerHour H b s))"
| step_putWorker: "hours_step H s (snd (putWorkerHour H i b s))"
| step_deleteWorker: "hours_step H s (snd (deleteWorkerHours H is b s))"
| step_read: "hours_step H s (snd (getBusinessHoursFromRedis ws s))"
| step_readWorker: "hours_step H s (snd (getWorkerHoursFromRedis us ws s))"
| step_expire: "hours_step H s (s\<lparr>sd_bizCache := (sd_bizCache s)(ws := None)\<rparr>)"

inductive_cases hours_stepE: "hours_step H s t"

lemma reads_rows:
  "sd_business (snd (getBusinessHoursFromRedis ws s)) = sd_business s"
  "sd_business (snd (getWorkerHoursFromRedis us ws s)) = sd_business s"
proof -
  have save: "sd_business (snd (saveWorkerHours ws f us s)) = sd_business s" for f us s
    by (induction us arbitrary: s) (auto simp: ebind_def)
  show "sd_business (snd (getBusinessHoursFromRedis ws s)) = sd_business s"
    by (auto simp: getBusinessHoursFromRedis_def ebind_def split: option.splits)
  show "sd_business (snd (getWorkerHoursFromRedis us ws s)) = sd_business s"
    unfolding getWorkerHoursFromRedis_def Let_def
    by (intro ebind_keeps[where k = sd_business]) (auto intro!: ebind_keeps[where k = sd_business] simp: save)
qed

lemma hours_step_keeps: "hours_step H s t \<Longrightarrow> hoursInv (sd_business s) \<Longrightarrow> hoursInv (sd_business t)"
  by (induction rule: hours_step.induct) (auto simp: post_keeps put_keeps drops_keep reads_rows)


section \<open>The cache of the business\<close>

definition hoursNow :: "schedule \<Rightarrow> ident \<Rightarrow> business_entry" where
  "hoursNow s ws = businessEntry (businessRowsOf s ws)"

definition bizCoherent :: "schedule \<Rightarrow> bool" where
  "bizCoherent s \<longleftrightarrow> (\<forall>ws m. sd_bizCache s ws = Some m \<longrightarrow> m = hoursNow s ws)"

lemma businessEntry_open: "businessEntry (filter P rows) = businessEntry (filter P' rows)"
  if "\<And>r. r \<in> set rows \<Longrightarrow> \<not> hr_closed r \<Longrightarrow> P r = P' r"
proof
  fix d
  have "rangesOn (filter P rows) d = rangesOn (filter P' rows) d"
    unfolding rangesOn_def filter_filter by (rule arg_cong[where f = "map _"], rule filter_cong) (use that in auto)
  then show "businessEntry (filter P rows) d = businessEntry (filter P' rows) d" by (simp add: businessEntry_def)
qed

text \<open>What a change of the table leaves of other workspaces.\<close>

lemma coherent_change:
  assumes "bizCoherent s" and "\<And>ws m. sd_bizCache t ws = Some m \<Longrightarrow> sd_bizCache s ws = Some m \<and> hoursNow t ws = hoursNow s ws"
  shows "bizCoherent t"
  using assms by (simp add: bizCoherent_def)

lemma hoursNow_append:
  "hr_workspace r \<noteq> ws \<Longrightarrow> sd_business t = sd_business s @ [r] \<Longrightarrow> hoursNow t ws = hoursNow s ws"
  by (simp add: hoursNow_def businessRowsOf_def)

lemma hoursNow_cleared:
  assumes "\<not> isClosed b \<or> hb_workspace b \<noteq> None \<and> the (hb_workspace b) \<noteq> ws"
  shows "hoursNow (cleared b s) ws = hoursNow s ws"
proof -
  have "businessEntry (filter (\<lambda>r. hr_workspace r = ws \<and> hr_deleted r = None \<and> \<not> clearedBy b r) (sd_business s)) =
      businessEntry (filter (\<lambda>r. hr_workspace r = ws \<and> hr_deleted r = None) (sd_business s))"
    by (rule businessEntry_open) (use assms in \<open>auto simp: clearedBy_def inScope_def matches_def split: option.splits\<close>)
  then show ?thesis by (simp add: hoursNow_def businessRowsOf_def cleared_def conj_ac)
qed

lemma businessAdd_ok:
  assumes "businessAdd b s = (Inr r, t)" and "truthy (hb_workspace b)"
  shows "sd_business t = sd_business s @ [r] \<and> hr_workspace r = the (hb_workspace b) \<and>
    sd_bizCache t = (sd_bizCache s)(the (hb_workspace b) := None)"
  using assms
  by (auto simp: businessAdd_def addBusinessHour_def inHours_def ecatch_def ebind_Inr_iff newHourId_def deleteBusinessCache_def
      rowOfBody_def truthy_def split: option.splits if_splits prod.splits sum.splits)

lemma post_coherent:
  assumes "bizCoherent s" and "postBusinessHour H b s = (HoursOk r, t)"
  shows "bizCoherent t"
proof -
  obtain b' where b': "addBusinessHourSchema b = Some b'" and run: "withMiddleware H None businessAdd b' s = (HoursOk r, t)"
    using assms(2) by (auto simp: postBusinessHour_def withSchema_def split: option.splits)
  have ws: "truthy (hb_workspace b')"
    using b' by (auto simp: addBusinessHourSchema_def hourSchema_def idSchema_def split: option.splits if_splits)
  show ?thesis
  proof (cases "truthy (hb_user b')")
    case True
    have "fst (businessAdd b1 s1) \<noteq> Inr x" if "hb_user b1 = hb_user b'" for b1 s1 x
      using that True by (auto simp: businessAdd_def addBusinessHour_def inHours_def ecatch_def ebind_def newHourId_def
          split: option.splits if_splits)
    then show ?thesis using run convert_user[of H b']
      by (auto simp: withMiddleware_def split: sum.splits prod.splits bool.splits) (metis fst_conv)+
  next
    case False
    from run False show ?thesis
    proof (cases rule: withMiddleware_business)
      case (passed b1)
      let ?s = "cleared b1 s"
      have w: "hb_workspace b1 = hb_workspace b'" using convert_business(3)[OF passed(1)] False by simp
      have "businessAdd b1 ?s = (Inr r, t)"
        using passed(3,4) by (cases "businessAdd b1 ?s") (auto split: sum.splits)
      note add = businessAdd_ok[OF this]
      show ?thesis
      proof (rule coherent_change[OF assms(1)])
        fix x m assume "sd_bizCache t x = Some m"
        then have x: "x \<noteq> the (hb_workspace b')" "sd_bizCache s x = Some m"
          using add ws w by (auto simp: cleared_def split: if_splits)
        have "hoursNow t x = hoursNow ?s x" by (rule hoursNow_append) (use add ws w x(1) in auto)
        also have "\<dots> = hoursNow s x" by (rule hoursNow_cleared) (use ws w x(1) in \<open>cases "hb_workspace b'"; simp\<close>)
        finally show "sd_bizCache s x = Some m \<and> hoursNow t x = hoursNow s x" using x(2) by simp
      qed
    qed simp
  qed
qed

lemma deleteCaches_cache:
  "snd (deleteBusinessCaches wss s) = s\<lparr>sd_bizCache := (\<lambda>ws. if ws \<in> set wss then None else sd_bizCache s ws)\<rparr>"
  by (induction wss arbitrary: s) (auto simp: ebind_def deleteBusinessCache_def intro!: arg_cong2[where f = sd_bizCache_update] ext)

lemma deleteBusiness_run:
  "snd (deleteBusinessHour is s) = s\<lparr>sd_business := filter (\<lambda>r. hr_id r \<notin> set is) (sd_business s),
     sd_bizCache := (\<lambda>ws. if \<exists>r \<in> set (sd_business s). hr_id r \<in> set is \<and> hr_workspace r = ws then None else sd_bizCache s ws)\<rparr>"
  by (auto simp: deleteBusinessHour_def keeps_rows(2) ebind_def deleteBusinessRows_def deleteCaches_cache
      intro!: arg_cong2[where f = sd_bizCache_update] ext)

lemma deleteRows_coherent:
  assumes "bizCoherent s"
  shows "bizCoherent (snd (deleteBusinessHour is s))"
proof (rule coherent_change[OF assms])
  fix ws m assume m: "sd_bizCache (snd (deleteBusinessHour is s)) ws = Some m"
  then have "\<forall>r \<in> set (sd_business s). hr_workspace r = ws \<longrightarrow> hr_id r \<notin> set is" and c: "sd_bizCache s ws = Some m"
    by (auto simp: deleteBusiness_run split: if_splits)
  then have "filter (\<lambda>r. hr_workspace r = ws \<and> hr_deleted r = None \<and> hr_id r \<notin> set is) (sd_business s) =
      filter (\<lambda>r. hr_workspace r = ws \<and> hr_deleted r = None) (sd_business s)"
    by (intro filter_cong) auto
  then show "sd_bizCache s ws = Some m \<and> hoursNow (snd (deleteBusinessHour is s)) ws = hoursNow s ws"
    using c by (simp add: deleteBusiness_run hoursNow_def businessRowsOf_def conj_ac)
qed

lemma read_coherent:
  assumes "bizCoherent s"
  shows "fst (getBusinessHoursFromRedis ws s) = Inr (hoursNow s ws) \<and> bizCoherent (snd (getBusinessHoursFromRedis ws s))"
  using assms
  by (auto simp: getBusinessHoursFromRedis_def ebind_def bizCoherent_def hoursNow_def businessRowsOf_def split: option.splits)


section \<open>The default hours of a workspace\<close>

definition goodDraft :: "draft_hour \<Rightarrow> bool" where
  "goodDraft h \<longleftrightarrow> dh_closed h \<or>
     (\<exists>s e. dh_start h = Some s \<and> dh_end h = Some e \<and> wellTimed s \<and> wellTimed e \<and> s < e)"

lemma serviceToHHmm_result: "serviceToHHmm v = Inr t \<Longrightarrow> wellTimed t"
  using padded_wellTimed by (auto simp: serviceToHHmm_def split: option.splits)

lemma normalizeDraft_good: "normalizeDraft d = Inr h \<Longrightarrow> goodDraft h"
  using serviceToHHmm_result
  by (auto simp: normalizeDraft_def goodDraft_def not_le split: option.splits if_splits sum.splits)

lemma mapSum_result: "mapSum f xs = Inr ys \<Longrightarrow> \<forall>y \<in> set ys. \<exists>x. f x = Inr y"
proof (induction xs arbitrary: ys)
  case (Cons x xs)
  then show ?case by (cases "mapSum f xs") (auto split: sum.splits)
qed simp

lemma baseSchedule_good: "\<forall>h \<in> set baseSchedule. goodDraft h"
proof -
  have t: "wellTimed ''09:00''" "wellTimed ''13:00''" "wellTimed ''15:00''" "wellTimed ''20:00''" "wellTimed ''10:00''" "wellTimed ''14:00''"
    by (simp_all add: wellTimed_def isDigit_def)
  have "''09:00'' < ''13:00''" "''15:00'' < ''20:00''" "''10:00'' < ''14:00''" by (simp_all add: less_char_def)
  then show ?thesis using t by (auto simp: baseSchedule_def openDraft_def goodDraft_def)
qed

lemma normalize_good:
  assumes "normalizeInternalBusinessHours items = Inr n"
  shows "orElse n baseSchedule \<noteq> [] \<and> (\<forall>h \<in> set (orElse n baseSchedule). goodDraft h)"
proof (cases n)
  case None
  then show ?thesis using baseSchedule_good by (simp add: baseSchedule_def)
next
  case (Some hs)
  then obtain x xs where items: "items = Some (x # xs)" "mapSum normalizeDraft (x # xs) = Inr hs"
    using assms by (auto simp: normalizeInternalBusinessHours_def split: option.splits list.splits sum.splits)
  then have "hs \<noteq> []" by (cases "mapSum normalizeDraft xs") (auto split: sum.splits)
  then show ?thesis using Some mapSum_result[OF items(2)] normalizeDraft_good by auto
qed

definition rowOfDraft :: "ident \<Rightarrow> ident \<Rightarrow> draft_hour \<Rightarrow> hour_row \<Rightarrow> bool" where
  "rowOfDraft co ws h r \<longleftrightarrow> hr_company r = co \<and> hr_workspace r = ws \<and> hr_deleted r = None \<and>
     hr_day r = orElse (dh_day h) MONDAY \<and> hr_start r = dh_start h \<and> hr_end r = dh_end h \<and> hr_closed r = dh_closed h"

lemma createDrafts_run:
  "\<exists>t new. createDrafts co ws hs s = (Inr (), t) \<and> sd_business t = sd_business s @ new \<and> list_all2 (rowOfDraft co ws) hs new"
proof (induction hs arbitrary: s)
  case (Cons h hs)
  obtain r s1 where r: "createDraft co ws h s = (Inr r, s1)" "sd_business s1 = sd_business s @ [r]" "rowOfDraft co ws h r"
    by (auto simp: createDraft_def ebind_def newHourId_def rowOfDraft_def Let_def)
  obtain t new where "createDrafts co ws hs s1 = (Inr (), t)" "sd_business t = sd_business s1 @ new" "list_all2 (rowOfDraft co ws) hs new"
    using Cons.IH[of s1] by blast
  then show ?case using r by (intro exI[of _ t] exI[of _ "r # new"]) (simp add: ebind_def)
qed simp

lemma set_scheduleOf: "set (scheduleOf ws s) = set (businessRowsOf s ws)"
  by (simp add: scheduleOf_def byStart_def)

lemma scheduleOf_rows: "sd_business s = sd_business t \<Longrightarrow> scheduleOf ws s = scheduleOf ws t"
  by (simp add: scheduleOf_def businessRowsOf_def)

definition generatedRow :: "ident \<Rightarrow> hour_row \<Rightarrow> bool" where
  "generatedRow co r \<longleftrightarrow> hr_company r = co \<and> (hr_closed r \<or>
     (\<exists>s e. hr_start r = Some s \<and> hr_end r = Some e \<and> wellTimed s \<and> wellTimed e \<and> s < e))"

lemma generate_create:
  assumes "scheduleOf ws s = []" and "normalizeInternalBusinessHours items = Inr n"
    and "createDrafts co ws (orElse n baseSchedule) s = (Inr (), t)"
  shows "scheduleOf ws t \<noteq> [] \<and> (\<forall>r \<in> set (scheduleOf ws t). generatedRow co r)"
proof -
  obtain new where new: "sd_business t = sd_business s @ new" "list_all2 (rowOfDraft co ws) (orElse n baseSchedule) new"
    using createDrafts_run[of co ws "orElse n baseSchedule" s] assms(3) by auto
  have "businessRowsOf s ws = []" using assms(1) set_scheduleOf[of ws s] by simp
  moreover have "filter (\<lambda>r. hr_workspace r = ws \<and> hr_deleted r = None) new = new"
    using new(2) by (auto simp: rowOfDraft_def list_all2_conv_all_nth filter_id_conv in_set_conv_nth)
  ultimately have "businessRowsOf t ws = new" using new(1) by (simp add: businessRowsOf_def)
  then have set: "set (scheduleOf ws t) = set new" by (simp add: set_scheduleOf)
  have "new \<noteq> []" using new(2) normalize_good[OF assms(2)] by auto
  moreover have "generatedRow co r" if r: "r \<in> set new" for r
  proof -
    obtain h where "h \<in> set (orElse n baseSchedule)" "rowOfDraft co ws h r"
      using new(2) r by (metis in_set_conv_nth list_all2_conv_all_nth)
    then show ?thesis using normalize_good[OF assms(2)] by (auto simp: generatedRow_def rowOfDraft_def goodDraft_def)
  qed
  ultimately show ?thesis using set by (metis list.set_intros(1) empty_iff list.set(1) list.exhaust)
qed

section \<open>Properties\<close>


definition demo_hours :: hours_env where
  "demo_hours = \<lparr>he_tz = utc_tz, he_now = 0, he_isoDate = utcParse, he_parseDate = (\<lambda>s. utcParse (if length s = 10 then s @ ''T00:00:00'' else s)), he_zoneKnown = (\<lambda>z. True), he_serverZone = ''UTC''\<rparr>"

definition demo_schedule :: schedule where
  "demo_schedule = \<lparr>sd_business = [], sd_worker = [], sd_temporary = [], sd_bizCache = Map.empty, sd_workerCache = Map.empty,
     sd_tempCache = Map.empty,
     sd_db = \<lparr>events = [], groups = [], participants = [], rules = [], idSupply = (\<lambda>n. replicate (Suc n) CHR ''x''), nextId = 0\<rparr>\<rparr>"

definition demo_body :: "week_day option \<Rightarrow> ident option \<Rightarrow> string \<Rightarrow> string \<Rightarrow> bool option \<Rightarrow> hour_body" where
  "demo_body d ws s e c = \<lparr>hb_id = None, hb_user = None, hb_company = Some ''co'', hb_workspace = ws, hb_idWorkspace = None,
     hb_day = d, hb_date = None, hb_tz = None, hb_start = Some (Some (TimeText s)), hb_end = Some (Some (TimeText e)),
     hb_closed = c, hb_other = False\<rparr>"


text \<open>C34: what availability reads of the hours of a business are its rows: the cache, when it holds a value, holds what
  the rows say, and creating, deleting and reading keep it so; the other members of the body of a delete are absent.\<close>
theorem business_cache_coherent:
  assumes "bizCoherent s"
  shows "fst (getBusinessHoursFromRedis ws s) = Inr (hoursNow s ws) \<and> bizCoherent (snd (getBusinessHoursFromRedis ws s)) \<and>
    (\<forall>H b r t. postBusinessHour H b s = (HoursOk r, t) \<longrightarrow> bizCoherent t) \<and>
    (\<forall>H is b. hb_closed b = None \<and> hb_start b = None \<longrightarrow> bizCoherent (snd (deleteBusinessHours H is b s)))"
proof -
  have "bizCoherent (snd (deleteBusinessHours H is b s))" if b: "hb_closed b = None" "hb_start b = None" for H "is" b
  proof -
    have "convertToISOTime H b = Inr b" "handleDeleteClosedRecords H b s = (Inr (), s)" "preventOverlapping b i s = (Inr False, s)" for i
      using b by (simp_all add: convertToISOTime_def isClosed_def handleDeleteClosedRecords_def given_def preventOverlapping_def)
    then have "snd (deleteBusinessHours H is b s) = (if is = [] \<or> list_ex (\<lambda>i. trim i = []) is then s
        else snd (deleteBusinessHour (map trim is) s))"
      by (auto simp: deleteBusinessHours_def withMiddleware_def split: prod.split sum.split)
    then show ?thesis using assms deleteRows_coherent by simp
  qed
  then show ?thesis using read_coherent[OF assms] post_coherent[OF assms] by blast
qed

definition demo_monday :: schedule where
  "demo_monday = snd (getBusinessHoursFromRedis ''w''
     (snd (postBusinessHour demo_hours (demo_body (Some MONDAY) (Some ''w'') ''9:00'' ''13:00'' (Some False)) demo_schedule)))"

theorem business_cache_coherent_witness:
  "bizCoherent demo_monday \<and> hoursNow demo_monday ''w'' MONDAY = Some [(Some ''09:00'', Some ''13:00'')]"
proof
  let ?p = "postBusinessHour demo_hours (demo_body (Some MONDAY) (Some ''w'') ''9:00'' ''13:00'' (Some False)) demo_schedule"
  have "bizCoherent demo_schedule" by (simp add: bizCoherent_def demo_schedule_def)
  moreover obtain r where "fst ?p = HoursOk r"
  proof -
    have "case fst ?p of HoursOk r \<Rightarrow> True | _ \<Rightarrow> False" by code_simp
    then show thesis using that by (cases "fst ?p") auto
  qed
  then have "?p = (HoursOk r, snd ?p)" by (simp add: prod_eq_iff)
  ultimately have "bizCoherent (snd ?p)" using business_cache_coherent by blast
  then show "bizCoherent demo_monday" unfolding demo_monday_def using business_cache_coherent by blast
  show "hoursNow demo_monday ''w'' MONDAY = Some [(Some ''09:00'', Some ''13:00'')]" by code_simp
qed

text \<open>C35: an update that closes days never succeeds when the row it names is among them: the rows of every day and
  workspace the body does not exclude are deleted, the update then fails, and the cache is not told. A body with nothing
  but the closing empties the whole table.\<close>
theorem closing_update_loses_hours:
  assumes "hourSchema b = Some b'" and "isClosed b'" and "\<not> truthy (hb_user b')" and "hb_id b' = None"
    and "r \<in> set (sd_business s)" and "hr_id r = i" and "inScope b' r" and "distinct (map hr_id (sd_business s))"
  shows "\<exists>err t. putBusinessHour H i b s = (HoursFailed err, t) \<and>
    sd_business t = filter (\<lambda>x. \<not> inScope b' x) (sd_business s) \<and> sd_bizCache t = sd_bizCache s \<and>
    (hb_day b' = None \<and> hb_workspace b' = None \<longrightarrow> sd_business t = [])"
proof -
  let ?b = "b'\<lparr>hb_start := Some None, hb_end := Some None\<rparr>"
  have conv: "convertToISOTime H b' = Inr ?b" using assms(2) by (simp add: convertToISOTime_def)
  have u: "\<not> truthy (hb_user ?b)" using assms(3) by simp
  have "clearedBy ?b x = inScope b' x" for x using assms(2) by (simp add: clearedBy_def inScope_def isClosed_def)
  then have rows: "cleared ?b s = s\<lparr>sd_business := filter (\<lambda>x. \<not> inScope b' x) (sd_business s)\<rparr>" by (simp add: cleared_def)
  have prevent: "preventOverlapping ?b v t = (Inr False, t)" for v t by (simp add: preventOverlapping_def given_def)
  have "hr_id x \<noteq> i" if "x \<in> set (sd_business s)" "\<not> inScope b' x" for x
    using that assms(5-8) by (metis distinct_map inj_onD)
  then have gone: "List.find (\<lambda>x. hr_id x = i) (filter (\<lambda>x. \<not> inScope b' x) (sd_business s)) = None"
    by (simp add: find_None_iff_all)
  have "\<exists>err. businessUpdate i ?b (cleared ?b s) = (Inl err, cleared ?b s)"
    using gone assms(4) unfolding rows
    by (auto simp: businessUpdate_def updateBusinessHour_def inHours_def ecatch_def ebind_def split: option.splits)
  then obtain err where "businessUpdate i ?b (cleared ?b s) = (Inl err, cleared ?b s)" by blast
  then have "putBusinessHour H i b s = (HoursFailed err, cleared ?b s)"
    using assms(1) conv prevent handleDelete_business[OF u, of H s]
    by (simp add: putBusinessHour_def withSchema_def withMiddleware_def cleared_def)
  moreover have "hb_day b' = None \<and> hb_workspace b' = None \<Longrightarrow> inScope b' x" for x by (simp add: inScope_def)
  ultimately show ?thesis unfolding rows by auto
qed

definition demo_closing :: hour_body where
  "demo_closing = \<lparr>hb_id = None, hb_user = None, hb_company = None, hb_workspace = None, hb_idWorkspace = None,
     hb_day = None, hb_date = None, hb_tz = None, hb_start = None, hb_end = None, hb_closed = Some True, hb_other = False\<rparr>"

theorem closing_update_loses_hours_witness:
  "sd_business demo_monday \<noteq> [] \<and>
   (\<exists>t :: schedule. sd_business t = [] \<and> sd_bizCache t ''w'' \<noteq> None \<and> (\<exists>err. putBusinessHour demo_hours ''x'' demo_closing demo_monday = (HoursFailed err, t)))"
proof -
  obtain r where rows: "sd_business demo_monday = [r]" "hr_id r = ''x''" and c: "sd_bizCache demo_monday ''w'' \<noteq> None"
  proof -
    have "length (sd_business demo_monday) = 1" "hr_id (hd (sd_business demo_monday)) = ''x''" "sd_bizCache demo_monday ''w'' \<noteq> None"
      by code_simp+
    then show thesis using that by (cases "sd_business demo_monday") auto
  qed
  have "hourSchema demo_closing = Some demo_closing" by (simp add: hourSchema_def idSchema_def timeSchema_def demo_closing_def)
  moreover have "isClosed demo_closing" "\<not> truthy (hb_user demo_closing)" "hb_id demo_closing = None" "inScope demo_closing r"
    by (simp_all add: demo_closing_def isClosed_def inScope_def)
  ultimately show ?thesis
    using closing_update_loses_hours[of demo_closing demo_closing r demo_monday "''x''" demo_hours] rows c
    by (auto simp: demo_closing_def)
qed

text \<open>The hours of a professional that were cached are still served after their rows are deleted.\<close>
theorem deleted_worker_hours_served:
  assumes "sd_workerCache s (ws, u) = Some m" and "hb_closed b = None" and "hb_start b = None"
    and "deleteWorkerHours H is b s = (HoursOk (), t)"
  shows "(\<forall>r \<in> set (sd_worker t). hr_id r \<notin> set (map trim is)) \<and>
    (\<exists>hours. fst (getWorkerHoursFromRedis [u] ws t) = Inr hours \<and> hours u = Some m)"
proof -
  have pass: "convertToISOTime H b = Inr b" "handleDeleteClosedRecords H b s = (Inr (), s)" "preventOverlapping b i s = (Inr False, s)" for i
    using assms(2,3) by (simp_all add: convertToISOTime_def isClosed_def handleDeleteClosedRecords_def given_def preventOverlapping_def)
  then have "t = s\<lparr>sd_worker := filter (\<lambda>r. hr_id r \<notin> set (map trim is)) (sd_worker s)\<rparr>"
    using assms(4) by (auto simp: deleteWorkerHours_def withMiddleware_def deleteWorkerBusinessHour_def inHours_def ecatch_def
        deleteWorkerRows_def split: if_splits)
  then show ?thesis using assms(1) by (auto simp: getWorkerHoursFromRedis_def ebind_def)
qed

definition demo_worker_body :: hour_body where
  "demo_worker_body = (demo_body (Some MONDAY) (Some ''w'') ''9:00'' ''13:00'' (Some False))\<lparr>hb_user := Some ''ana''\<rparr>"

definition demo_worker_schedule :: schedule where
  "demo_worker_schedule = snd (getWorkerHoursFromRedis [''ana''] ''w'' (snd (postWorkerHour demo_hours demo_worker_body demo_schedule)))"

definition demo_empty_body :: hour_body where
  "demo_empty_body = demo_closing\<lparr>hb_closed := None\<rparr>"

theorem deleted_worker_hours_served_witness:
  "\<exists>t :: schedule. sd_worker t = [] \<and> (\<exists>hours m. fst (getWorkerHoursFromRedis [''ana''] ''w'' t) = Inr hours \<and> hours ''ana'' = Some m)"
proof -
  let ?p = "deleteWorkerHours demo_hours [''x''] demo_empty_body demo_worker_schedule"
  have c: "sd_workerCache demo_worker_schedule (''w'', ''ana'') \<noteq> None" and e: "sd_worker (snd ?p) = []" by code_simp+
  obtain m where m: "sd_workerCache demo_worker_schedule (''w'', ''ana'') = Some m" using c by auto
  obtain x where "fst ?p = HoursOk x"
  proof -
    have "case fst ?p of HoursOk r \<Rightarrow> True | _ \<Rightarrow> False" by code_simp
    then show thesis using that by (cases "fst ?p") auto
  qed
  then have run: "?p = (HoursOk (), snd ?p)" by (simp add: prod_eq_iff)
  have b: "hb_closed demo_empty_body = None" "hb_start demo_empty_body = None" by (simp_all add: demo_empty_body_def demo_closing_def)
  show ?thesis using deleted_worker_hours_served[OF m b run] e by (intro exI[of _ "snd ?p"]) auto
qed

text \<open>Generating the hours of a workspace answers what the table then holds: what was there before, untouched, or new
  rows of the company, closed or with an end after their start; an error leaves the table as it was, and the cache of
  the workspace is dropped.\<close>
theorem generated_hours:
  shows "case internalGenerateWorkspaceBusinessHours co ws items s of
      (Inl err, t) \<Rightarrow> sd_business t = sd_business s
    | (Inr (created, rows), t) \<Rightarrow> rows = scheduleOf ws t \<and> rows \<noteq> [] \<and> (created = (scheduleOf ws s = [])) \<and>
        sd_bizCache t ws = None \<and> (if created then list_all (generatedRow co) rows else sd_business t = sd_business s)"
proof (cases "co = [] \<or> ws = []")
  case False
  show ?thesis
  proof (cases "scheduleOf ws s = []")
    case True
    show ?thesis
    proof (cases "normalizeInternalBusinessHours items")
      case (Inr n)
      obtain t new where t: "createDrafts co ws (orElse n baseSchedule) s = (Inr (), t)"
        using createDrafts_run by blast
      have rows: "scheduleOf ws (t\<lparr>sd_bizCache := c\<rparr>) = scheduleOf ws t" for c by (rule scheduleOf_rows) simp
      show ?thesis using generate_create[OF True Inr t] False True Inr t rows
        by (auto simp: internalGenerateWorkspaceBusinessHours_def inHours_def ecatch_def ebind_def deleteBusinessCache_def list_all_iff)
    qed (use False True in \<open>simp add: internalGenerateWorkspaceBusinessHours_def inHours_def ecatch_def ebind_def\<close>)
  next
    case some: False
    have "scheduleOf ws (s\<lparr>sd_bizCache := c\<rparr>) = scheduleOf ws s" for c by (rule scheduleOf_rows) simp
    then show ?thesis using some False
      by (auto simp: internalGenerateWorkspaceBusinessHours_def inHours_def ecatch_def ebind_def deleteBusinessCache_def)
  qed
qed (simp add: internalGenerateWorkspaceBusinessHours_def inHours_def ecatch_def)

text \<open>C40: a time the middleware accepts is written HH:mm, and the check of the service takes it as it is; on texts that
  are no instants the two copies of the normalisation agree.\<close>
theorem times_normalised:
  "(middlewareToHHmm H v = Some t \<longrightarrow> wellTimed t \<and> serviceToHHmm t = Inr t) \<and>
   (\<not> looksLikeISO (trim s) \<longrightarrow> (middlewareToHHmm H (TimeText s) = Some t) = (serviceToHHmm s = Inr t))"
  using middlewareToHHmm_wellTimed serviceToHHmm_wellTimed
  by (auto simp: middlewareToHHmm_def serviceToHHmm_def Let_def split: option.splits)

theorem times_normalised_witness:
  "wellTimed ''09:00'' \<and> serviceToHHmm '' 9:00:30'' = Inr ''09:00''"
proof -
  have "middlewareToHHmm demo_hours (TimeText '' 9:00:30'') = Some ''09:00''" "\<not> looksLikeISO (trim '' 9:00:30'')" by code_simp+
  then show ?thesis using times_normalised[of demo_hours "TimeText '' 9:00:30''" "''09:00''" "'' 9:00:30''"] by blast
qed

end
