(* ===== verification/CalTemporary.thy ===== *)
theory CalTemporary
  imports CalSchedule CalUpsert CalDays
begin

text \<open>
  Temporary hours (\<open>features/temporary-business-hour\<close>): exceptions on one date, each with an event that blocks the
  calendar, their cache, and what availability reads of them (\<open>getTemporaryHoursFromRedis\<close>, with the ranges of
  \<open>all-business-services/interfaces.ts\<close>); the hours services as the parameters of availability.
\<close>

section \<open>Transactions on the schedule\<close>

type_synonym 'a hours_tx = "(schedule, 'a) comp"

definition dbTx :: "'a tx \<Rightarrow> 'a hours_tx" where
  "dbTx m = (\<lambda>s. case m (sd_db s) of Inl e \<Rightarrow> Inl e | Inr (x, d) \<Rightarrow> Inr (x, s\<lparr>sd_db := d\<rparr>))"

definition inTransaction :: "'a hours_tx \<Rightarrow> 'a hours_req" where
  "inTransaction m = (\<lambda>s. case m s of Inl e \<Rightarrow> (Inl e, s) | Inr (x, t) \<Rightarrow> (Inr x, t))"

section \<open>The event of an exception\<close>

record temp_item =
  tp_id :: "ident option"
  tp_user :: "ident option"
  tp_company :: "ident option"
  tp_workspace :: "ident option"
  tp_event :: "ident option"
  tp_date :: "string option"
  tp_title :: "string option"
  tp_description :: "string option"
  tp_start :: "string option option"
  tp_end :: "string option option"
  tp_closed :: "bool option"
  tp_other :: bool

text \<open>\<open>^\d{4}-\d{2}-\d{2}T\<close> texts are instants, \<open>HH:mm\<close> texts are times of the day of the base in the zone of the server.\<close>

definition resolveEventDateTime :: "hours_env \<Rightarrow> instant option \<Rightarrow> string option \<Rightarrow> instant option" where
  "resolveEventDateTime H baseDate value =
     (if \<not> truthy value then None
      else let raw = trim (the value) in
        if raw = [] then None
        else if looksLikeISO raw then he_parseDate H raw
        else case (matchTime raw, baseDate) of
            (Some (h, m), Some b) \<Rightarrow>
              z_parse (he_tz H) (z_date (he_tz H) (he_serverZone H) b @ ''T'' @ padStart2 h @ '':'' @ m) (he_serverZone H)
          | _ \<Rightarrow> None)"

text \<open>What the event is built from: an exception that is being created, or the old one with the changes.\<close>

record block_source =
  bs_title :: "string option"
  bs_description :: "string option"
  bs_user :: "ident option"
  bs_date :: "instant option"
  bs_start :: "string option"
  bs_end :: "string option"
  bs_closed :: bool

definition buildTemporaryBlockEventRange :: "hours_env \<Rightarrow> block_source \<Rightarrow> instant option \<times> instant option \<times> bool" where
  "buildTemporaryBlockEventRange H src =
     (case (resolveEventDateTime H (bs_date src) (bs_start src), resolveEventDateTime H (bs_date src) (bs_end src)) of
        (Some s, Some e) \<Rightarrow>
          if bs_closed src \<or> e \<le> s
          then (map_option (z_sod (he_tz H) (he_serverZone H)) (bs_date src),
                map_option (z_eod (he_tz H) (he_serverZone H)) (bs_date src), True)
          else (Some s, Some e, False)
      | _ \<Rightarrow> (map_option (z_sod (he_tz H) (he_serverZone H)) (bs_date src),
             map_option (z_eod (he_tz H) (he_serverZone H)) (bs_date src), True))"

definition blockTitle :: "block_source \<Rightarrow> string" where
  "blockTitle src = orElse (bs_title src) ''Bloqueo temporal''"

definition createTemporaryBlockEvent :: "hours_env \<Rightarrow> ident \<Rightarrow> ident \<Rightarrow> block_source \<Rightarrow> event_row hours_tx" where
  "createTemporaryBlockEvent H co ws src =
     (case buildTemporaryBlockEventRange H src of
        (Some s, Some e, allDay) \<Rightarrow>
          andThen (dbTx (createGroup None (defaultGroup\<lparr>gr_title := blockTitle src,
              gr_description := Some (orElse (bs_description src) []), gr_company := co, gr_workspace := ws,
              gr_start := s, gr_end := e, gr_status := ACCEPTED\<rparr>))) (\<lambda>g.
          dbTx (createEvent (defaultEvent\<lparr>ev_group := gr_id g, ev_title := blockTitle src,
              ev_description := Some (orElse (bs_description src) []), ev_start := s, ev_end := e,
              ev_user := bs_user src, ev_purpose := TEMPORARY_BLOCK, ev_allDay := allDay, ev_company := co\<rparr>)))
      | _ \<Rightarrow> throw prismaRefuses)"

definition updateTemporaryBlockEvent :: "hours_env \<Rightarrow> ident \<Rightarrow> block_source \<Rightarrow> event_row hours_tx" where
  "updateTemporaryBlockEvent H eventId src =
     (case buildTemporaryBlockEventRange H src of
        (Some s, Some e, allDay) \<Rightarrow>
          andThen (dbTx (updateEvent eventId (\<lambda>x. x\<lparr>ev_title := blockTitle src,
              ev_description := Some (orElse (bs_description src) []), ev_start := s, ev_end := e,
              ev_user := bs_user src, ev_purpose := TEMPORARY_BLOCK, ev_allDay := allDay\<rparr>))) (\<lambda>ev.
          andThen (dbTx (updateGroup (ev_group ev) (\<lambda>g. g\<lparr>gr_title := blockTitle src, gr_start := s, gr_end := e\<rparr>))) (\<lambda>_.
          ret ev))
      | _ \<Rightarrow> throw prismaRefuses)"

text \<open>The events of the rows are deleted, then their groups, as far as nothing is left in them. Deleting an event takes
  the rows that refer to it along.\<close>

definition deleteTemporaryBlockEvents :: "temp_row list \<Rightarrow> unit hours_tx" where
  "deleteTemporaryBlockEvents records =
     (let eventIds = uniq (filter (\<lambda>i. i \<noteq> []) (map te_event records)) in
      if eventIds = [] then ret ()
      else
        andThen (readState (\<lambda>s. uniq (map ev_group (filter (\<lambda>e. ev_id e \<in> set eventIds) (events (sd_db s)))))) (\<lambda>groupIds.
        andThen (modState (\<lambda>s. s\<lparr>sd_db := (sd_db s)\<lparr>events := filter (\<lambda>e. ev_id e \<notin> set eventIds) (events (sd_db s))\<rparr>,
            sd_temporary := filter (\<lambda>t. te_event t \<notin> set eventIds) (sd_temporary s)\<rparr>)) (\<lambda>_.
        modState (\<lambda>s. s\<lparr>sd_db := (sd_db s)\<lparr>groups := filter (\<lambda>g. \<not> (gr_id g \<in> set groupIds \<and>
            (\<forall>e \<in> set (events (sd_db s)). ev_group e \<noteq> gr_id g))) (groups (sd_db s)),
            participants := filter (\<lambda>p. \<not> (pt_group p \<in> set groupIds \<and>
            (\<forall>e \<in> set (events (sd_db s)). ev_group e \<noteq> pt_group p))) (participants (sd_db s))\<rparr>\<rparr>))))"

section \<open>The exceptions\<close>

definition textColumn :: "string option \<Rightarrow> string option option" where
  "textColumn v = (case v of None \<Rightarrow> Some None | Some s \<Rightarrow> if length s \<le> 5 then Some (Some s) else None)"

definition sourceOfItem :: "hours_env \<Rightarrow> temp_item \<Rightarrow> block_source" where
  "sourceOfItem H p = \<lparr>bs_title = tp_title p, bs_description = tp_description p, bs_user = tp_user p,
     bs_date = Option.bind (tp_date p) (he_parseDate H), bs_start = Option.bind (tp_start p) id,
     bs_end = Option.bind (tp_end p) id, bs_closed = orElse (tp_closed p) False\<rparr>"

definition createTempRow :: "hours_env \<Rightarrow> temp_item \<Rightarrow> ident \<Rightarrow> temp_row hours_tx" where
  "createTempRow H p eventId =
     andThen (dbTx freshId) (\<lambda>i.
     case (Option.bind (tp_date p) (he_isoDate H), textColumn (Option.bind (tp_start p) id), textColumn (Option.bind (tp_end p) id)) of
       (Some d, Some s, Some e) \<Rightarrow>
         if tp_other p then throw prismaRefuses
         else let t = \<lparr>te_id = i, te_user = tp_user p, te_company = orElse (tp_company p) [],
                te_workspace = orElse (tp_workspace p) [], te_event = eventId, te_date = d, te_title = tp_title p,
                te_description = tp_description p, te_start = s, te_end = e, te_closed = orElse (tp_closed p) False, te_deleted = None\<rparr>
              in andThen (modState (\<lambda>st. st\<lparr>sd_temporary := sd_temporary st @ [t]\<rparr>)) (\<lambda>_. ret t)
     | _ \<Rightarrow> throw prismaRefuses)"

definition addTemporaryBusinessHour :: "hours_env \<Rightarrow> temp_item \<Rightarrow> (temp_row \<times> event_row) hours_req" where
  "addTemporaryBusinessHour H p = inHours ''TemporaryBusinessHour.addTemporaryBusinessHour'' (inTransaction
     (if \<not> truthy (tp_company p) \<or> \<not> truthy (tp_workspace p)
      then throw (requiredField ''idCompanyFk e idWorkspaceFk son obligatorios para crear el evento'')
      else
        andThen (createTemporaryBlockEvent H (the (tp_company p)) (the (tp_workspace p)) (sourceOfItem H p)) (\<lambda>ev.
        andThen (createTempRow H p (ev_id ev)) (\<lambda>t. ret (t, ev)))))"

definition sourceOfUpdate :: "hours_env \<Rightarrow> temp_row \<Rightarrow> temp_item \<Rightarrow> block_source" where
  "sourceOfUpdate H r p = \<lparr>bs_title = (case tp_title p of None \<Rightarrow> te_title r | v \<Rightarrow> v),
     bs_description = (case tp_description p of None \<Rightarrow> te_description r | v \<Rightarrow> v),
     bs_user = (case tp_user p of None \<Rightarrow> te_user r | v \<Rightarrow> v),
     bs_date = (case tp_date p of None \<Rightarrow> Some (te_date r) | Some d \<Rightarrow> he_parseDate H d),
     bs_start = orElse (tp_start p) (te_start r), bs_end = orElse (tp_end p) (te_end r),
     bs_closed = orElse (tp_closed p) (te_closed r)\<rparr>"

definition patchTempRow :: "hours_env \<Rightarrow> temp_item \<Rightarrow> ident \<Rightarrow> (temp_row \<Rightarrow> temp_row) option" where
  "patchTempRow H p eventId =
     (case (textColumn (Option.bind (tp_start p) id), textColumn (Option.bind (tp_end p) id)) of
        (Some s, Some e) \<Rightarrow>
          if tp_other p \<or> (tp_date p \<noteq> None \<and> he_isoDate H (the (tp_date p)) = None) then None
          else Some (\<lambda>r. r\<lparr>te_user := (case tp_user p of None \<Rightarrow> te_user r | v \<Rightarrow> v),
            te_company := orElse (tp_company p) (te_company r), te_workspace := orElse (tp_workspace p) (te_workspace r),
            te_event := eventId, te_date := orElse (Option.bind (tp_date p) (he_isoDate H)) (te_date r),
            te_title := (case tp_title p of None \<Rightarrow> te_title r | v \<Rightarrow> v),
            te_description := (case tp_description p of None \<Rightarrow> te_description r | v \<Rightarrow> v),
            te_start := (if tp_start p = None then te_start r else s), te_end := (if tp_end p = None then te_end r else e),
            te_closed := orElse (tp_closed p) (te_closed r)\<rparr>)
      | _ \<Rightarrow> None)"

definition updateTemporaryBusinessHour :: "hours_env \<Rightarrow> temp_item \<Rightarrow> (temp_row \<times> event_row) hours_req" where
  "updateTemporaryBusinessHour H p = inHours ''TemporaryBusinessHour.updateTemporaryBusinessHour'' (inTransaction
     (if \<not> truthy (tp_event p) then throw (requiredField ''Debe proporcionar idEventFk para actualizar el registro'')
      else
        andThen (readState (\<lambda>s. List.find (\<lambda>t. te_event t = the (tp_event p)) (sd_temporary s))) (\<lambda>current.
        case current of
          None \<Rightarrow> throw (notFound ''No se encontro el registro a actualizar'')
        | Some r \<Rightarrow>
            andThen (updateTemporaryBlockEvent H (te_event r) (sourceOfUpdate H r p)) (\<lambda>ev.
            case patchTempRow H p (te_event r) of
              None \<Rightarrow> throw prismaRefuses
            | Some f \<Rightarrow>
                andThen (modState (\<lambda>s. s\<lparr>sd_temporary := updateWhere (\<lambda>t. te_id t = te_id r) f (sd_temporary s)\<rparr>)) (\<lambda>_.
                ret (f r, ev))))))"

definition deleteTemporaryBusinessHour :: "ident list \<Rightarrow> unit hours_req" where
  "deleteTemporaryBusinessHour idList = inHours ''TemporaryBusinessHour.deleteTemporaryBusinessHour'' (inTransaction
     (andThen (readState (\<lambda>s. filter (\<lambda>t. te_id t \<in> set idList) (sd_temporary s))) (\<lambda>records.
      andThen (modState (\<lambda>s. s\<lparr>sd_temporary := filter (\<lambda>t. te_id t \<notin> set idList) (sd_temporary s)\<rparr>)) (\<lambda>_.
      deleteTemporaryBlockEvents records))))"

text \<open>All rows of the professional, the workspace and the local day of a row that is named.\<close>

definition sameTempDay :: "hours_env \<Rightarrow> temp_row \<Rightarrow> temp_row \<Rightarrow> bool" where
  "sameTempDay H r t \<longleftrightarrow> te_user t = te_user r \<and> te_workspace t = te_workspace r \<and>
     (let dayStart = z_sod (he_tz H) (he_serverZone H) (te_date r) in
      dayStart \<le> te_date t \<and> te_date t < z_addDays (he_tz H) (he_serverZone H) dayStart 1)"

definition getTemporaryBusinessHoursForDeletion :: "hours_env \<Rightarrow> ident list \<Rightarrow> ident \<Rightarrow> schedule \<Rightarrow> temp_row list" where
  "getTemporaryBusinessHoursForDeletion H idList ws s =
     (let base = filter (\<lambda>t. te_id t \<in> set idList \<and> te_workspace t = ws) (sd_temporary s)
      in filter (\<lambda>t. list_ex (\<lambda>r. sameTempDay H r t) base) (sd_temporary s))"

definition deleteTempCache :: "ident \<Rightarrow> ident \<Rightarrow> unit hours_req" where
  "deleteTempCache ws u = emod (\<lambda>s. s\<lparr>sd_tempCache := (sd_tempCache s)((ws, u) := None)\<rparr>)"

fun deleteTempCaches :: "temp_row list \<Rightarrow> unit hours_req" where
  "deleteTempCaches [] = eret ()"
| "deleteTempCaches (t # ts) = ebind (deleteTempCache (te_workspace t) (orElse (te_user t) ''null'')) (\<lambda>_. deleteTempCaches ts)"

definition deleteTemporaryBusinessHourFromRedis :: "hours_env \<Rightarrow> ident list \<Rightarrow> ident \<Rightarrow> unit hours_req" where
  "deleteTemporaryBusinessHourFromRedis H idList ws = inHours ''TemporaryBusinessHour.deleteTemporaryBusinessHourFromRedis''
     (ebind (eread (getTemporaryBusinessHoursForDeletion H idList ws)) (\<lambda>records.
      ebind (deleteTempCaches records) (\<lambda>_.
      inTransaction
        (andThen (modState (\<lambda>s. s\<lparr>sd_temporary := filter (\<lambda>t. te_id t \<notin> te_id ` set records) (sd_temporary s)\<rparr>)) (\<lambda>_.
         deleteTemporaryBlockEvents records)))))"

section \<open>Ranges of dates\<close>

record hours_range =
  hg_date :: "string option"
  hg_start :: "string option"
  hg_end :: "string option"

text \<open>\<open>moment(s, "YYYY-MM-DD", true)\<close> in the zone of the server.\<close>

definition strictDay :: "hours_env \<Rightarrow> string \<Rightarrow> instant option" where
  "strictDay H s = (if isDayText s then z_parse (he_tz H) (s @ ''T00:00:00'') (he_serverZone H) else None)"

definition serverDate :: "hours_env \<Rightarrow> instant \<Rightarrow> string" where
  "serverDate H t = z_date (he_tz H) (he_serverZone H) t"

definition normalizeRange :: "hours_env \<Rightarrow> hours_range option \<Rightarrow> bool \<Rightarrow> (string \<times> string) option" where
  "normalizeRange H rng autoDefaultIfMissing =
     (case rng of
        None \<Rightarrow>
          if \<not> autoDefaultIfMissing then None
          else Some (serverDate H (z_addDays (he_tz H) (he_serverZone H) (he_now H) (- 1)),
                     serverDate H (z_addDays (he_tz H) (he_serverZone H) (he_now H) 32))
      | Some r \<Rightarrow>
          if truthy (hg_date r) then map_option (\<lambda>d. (serverDate H d, serverDate H d)) (strictDay H (the (hg_date r)))
          else if \<not> truthy (hg_start r) \<or> \<not> truthy (hg_end r) then None
          else (case (strictDay H (the (hg_start r)), strictDay H (the (hg_end r))) of
              (Some s, Some e) \<Rightarrow>
                if z_eod (he_tz H) (he_serverZone H) e < s then None else Some (serverDate H s, serverDate H e)
            | _ \<Rightarrow> None))"

definition listDaysInclusive :: "hours_env \<Rightarrow> string \<Rightarrow> string \<Rightarrow> string list option" where
  "listDaysInclusive H startISO endISO = enumerateDays (he_tz H) (he_serverZone H) startISO endISO"

definition isWithin :: "hours_env \<Rightarrow> string \<Rightarrow> string \<Rightarrow> string \<Rightarrow> bool" where
  "isWithin H dateStr startISO endISO \<longleftrightarrow>
     (case (strictDay H dateStr, strictDay H startISO, strictDay H endISO) of
        (Some d, Some s, Some e) \<Rightarrow>
          s \<le> z_eod (he_tz H) (he_serverZone H) d \<and> z_sod (he_tz H) (he_serverZone H) d \<le> e
      | _ \<Rightarrow> False)"

section \<open>The cache of the exceptions\<close>

text \<open>The strategy gives what is cached inside the default range.\<close>

definition getTemporaryHours :: "hours_env \<Rightarrow> ident \<Rightarrow> ident \<Rightarrow> schedule \<Rightarrow> temporary_entry option" where
  "getTemporaryHours H ws u s =
     map_option (\<lambda>m. case normalizeRange H None True of
         None \<Rightarrow> m
       | Some (a, b) \<Rightarrow> (\<lambda>d. if isWithin H d a b then m d else None)) (sd_tempCache s (ws, u))"

definition saveTemporaryHours :: "ident \<Rightarrow> ident \<Rightarrow> temporary_entry \<Rightarrow> unit hours_req" where
  "saveTemporaryHours ws u m = emod (\<lambda>s. s\<lparr>sd_tempCache := (sd_tempCache s)((ws, u) \<mapsto> m)\<rparr>)"

text \<open>The rows of the days that are missing: up to six by their exact date, else by the range.\<close>

definition tempRowsFor :: "hours_env \<Rightarrow> ident \<Rightarrow> ident \<Rightarrow> string \<times> string \<Rightarrow> string list \<Rightarrow> schedule \<Rightarrow> temp_row list" where
  "tempRowsFor H ws u rng missingDays s =
     filter (\<lambda>t. te_workspace t = ws \<and> te_user t = Some u \<and> te_deleted t = None \<and>
        (if length missingDays \<le> 6 then Some (te_date t) \<in> set (map (he_parseDate H) missingDays)
         else case (strictDay H (fst rng), strictDay H (snd rng)) of
             (Some a, Some b) \<Rightarrow> a \<le> te_date t \<and> te_date t \<le> b
           | _ \<Rightarrow> False)) (sd_temporary s)"

text \<open>One record of the loop: a closed row makes the date null, an open row starts it over as a list.\<close>

definition patchDate :: "hours_env \<Rightarrow> string \<times> string \<Rightarrow> temp_row \<Rightarrow> temporary_entry \<Rightarrow> temporary_entry" where
  "patchDate H rng t m =
     (let d = serverDate H (te_date t) in
      if \<not> isWithin H d (fst rng) (snd rng) then m
      else if te_closed t then m(d \<mapsto> None)
      else if \<not> truthy (te_start t) \<or> \<not> truthy (te_end t) then m
      else m(d \<mapsto> Some ((case m d of Some (Some xs) \<Rightarrow> xs | _ \<Rightarrow> []) @ [(te_start t, te_end t)])))"

definition temporaryHoursOf ::
  "hours_env \<Rightarrow> ident \<Rightarrow> string \<times> string \<Rightarrow> string list \<Rightarrow> ident \<Rightarrow> temporary_entry hours_req" where
  "temporaryHoursOf H ws rng wantedDays u =
     ebind (eread (\<lambda>s. orElse (getTemporaryHours H ws u s) Map.empty)) (\<lambda>cached.
     let missingDays = filter (\<lambda>d. cached d = None) wantedDays in
     ebind (if missingDays = [] then eret cached
       else
         ebind (eread (\<lambda>s. tempRowsFor H ws u rng missingDays s)) (\<lambda>records.
         let patch = fold (patchDate H rng) records Map.empty in
         if list_all (\<lambda>t. patch (serverDate H (te_date t)) = None) records then eret cached
         else ebind (saveTemporaryHours ws u (cached ++ patch)) (\<lambda>_. eret (cached ++ patch)))) (\<lambda>merged.
     eret (\<lambda>d. if d \<in> set wantedDays then merged d else None)))"

fun temporaryHoursOfAll ::
  "(ident \<Rightarrow> temporary_entry hours_req) \<Rightarrow> ident list \<Rightarrow> (ident \<rightharpoonup> temporary_entry) hours_req" where
  "temporaryHoursOfAll f [] = eret Map.empty"
| "temporaryHoursOfAll f (u # us) = ebind (f u) (\<lambda>m. ebind (temporaryHoursOfAll f us) (\<lambda>rest. eret (rest(u \<mapsto> orElse (rest u) m))))"

text \<open>\<open>None\<close>: the enumeration of the days does not end.\<close>

definition getTemporaryHoursFromRedis ::
  "hours_env \<Rightarrow> ident list \<Rightarrow> ident \<Rightarrow> hours_range option \<Rightarrow> (ident \<rightharpoonup> temporary_entry) hours_req option" where
  "getTemporaryHoursFromRedis H userIds ws rng =
     (case normalizeRange H rng True of
        None \<Rightarrow> Some (eret Map.empty)
      | Some (a, b) \<Rightarrow>
          map_option (\<lambda>days. inHours ''TemporaryBusinessHour.getTemporaryHoursFromRedis''
            (temporaryHoursOfAll (temporaryHoursOf H ws (a, b) days) userIds)) (listDaysInclusive H a b))"

section \<open>The routes\<close>

text \<open>The schema trims what is there and refuses what is empty.\<close>

definition textSchema :: "string option option \<Rightarrow> string option option option" where
  "textSchema v = (case v of
     Some (Some s) \<Rightarrow> if trim s = [] then None else Some (Some (Some (trim s)))
   | _ \<Rightarrow> Some v)"

definition temporarySchema :: "temp_item \<Rightarrow> temp_item option" where
  "temporarySchema p =
     (case (idSchema (tp_id p), idSchema (tp_company p), idSchema (tp_workspace p), idSchema (tp_user p), idSchema (tp_event p),
            idSchema (tp_date p), textSchema (tp_start p), textSchema (tp_end p)) of
        (Some i, Some co, Some ws, Some u, Some ev, Some d, Some s, Some e) \<Rightarrow>
          if length (orElse (tp_title p) []) > 120 \<or> length (orElse (tp_description p) []) > 256 then None
          else Some (p\<lparr>tp_id := i, tp_company := co, tp_workspace := ws, tp_user := u, tp_event := ev, tp_date := d,
                      tp_start := s, tp_end := e\<rparr>)
      | _ \<Rightarrow> None)"

definition answered :: "'a hours_req \<Rightarrow> schedule \<Rightarrow> 'a hours_answer \<times> schedule" where
  "answered m s = (case m s of (Inl err, t) \<Rightarrow> (HoursFailed err, t) | (Inr x, t) \<Rightarrow> (HoursOk x, t))"

definition dropTempCacheOf :: "temp_row \<times> event_row \<Rightarrow> (temp_row \<times> event_row) hours_req" where
  "dropTempCacheOf r =
     (if te_workspace (fst r) \<noteq> [] \<and> truthy (te_user (fst r))
      then ebind (deleteTempCache (te_workspace (fst r)) (the (te_user (fst r)))) (\<lambda>_. eret r)
      else eret r)"

definition postTemporaryHour :: "hours_env \<Rightarrow> temp_item \<Rightarrow> schedule \<Rightarrow> (temp_row \<times> event_row) hours_answer \<times> schedule" where
  "postTemporaryHour H p s =
     (case temporarySchema p of
        None \<Rightarrow> (HoursInvalid, s)
      | Some p' \<Rightarrow>
          if tp_company p' = None \<or> tp_workspace p' = None \<or> tp_date p' = None then (HoursInvalid, s)
          else answered (ebind (addTemporaryBusinessHour H p') dropTempCacheOf) s)"

definition putTemporaryHour :: "hours_env \<Rightarrow> ident \<Rightarrow> temp_item \<Rightarrow> schedule \<Rightarrow> (temp_row \<times> event_row) hours_answer \<times> schedule" where
  "putTemporaryHour H i p s =
     (case temporarySchema p of
        None \<Rightarrow> (HoursInvalid, s)
      | Some p' \<Rightarrow>
          answered (ebind (updateTemporaryBusinessHour H (if truthy (tp_id p') then p' else p'\<lparr>tp_id := Some i\<rparr>)) dropTempCacheOf) s)"

definition deleteTemporaryHours :: "hours_env \<Rightarrow> ident list \<Rightarrow> ident \<Rightarrow> schedule \<Rightarrow> unit hours_answer \<times> schedule" where
  "deleteTemporaryHours H idList ws s =
     (if idList = [] \<or> list_ex (\<lambda>i. trim i = []) idList \<or> trim ws = [] then (HoursInvalid, s)
      else answered (deleteTemporaryBusinessHourFromRedis H (map trim idList) (trim ws)) s)"

section \<open>What availability reads\<close>

text \<open>A range as the text of a shift; a missing time reads \<open>null\<close>.\<close>

definition rangeText :: "stored_range \<Rightarrow> shift_text" where
  "rangeText r = (orElse (fst r) ''null'', orElse (snd r) ''null'')"

definition entryView :: "stored_range list option option \<Rightarrow> day_entry" where
  "entryView v = (case v of None \<Rightarrow> Undefined | Some None \<Rightarrow> Null | Some (Some xs) \<Rightarrow> Shifts (map rangeText xs))"

definition businessView :: "schedule \<Rightarrow> ident \<Rightarrow> business_hours" where
  "businessView s ws day =
     (case fst (getBusinessHoursFromRedis ws s) of
        Inl err \<Rightarrow> Undefined
      | Inr m \<Rightarrow> (case dayOfText day of None \<Rightarrow> Undefined | Some d \<Rightarrow> entryView (map_option Some (m d))))"

definition workerView :: "schedule \<Rightarrow> ident list \<Rightarrow> ident \<Rightarrow> worker_hours" where
  "workerView s us ws u day =
     (case fst (getWorkerHoursFromRedis us ws s) of
        Inl err \<Rightarrow> Undefined
      | Inr m \<Rightarrow> (case (m u, dayOfText day) of (Some h, Some d) \<Rightarrow> entryView (h d) | _ \<Rightarrow> Undefined))"

definition temporaryView :: "hours_env \<Rightarrow> schedule \<Rightarrow> ident list \<Rightarrow> ident \<Rightarrow> string \<Rightarrow> temporary_hours" where
  "temporaryView H s us ws date u d =
     (case getTemporaryHoursFromRedis H us ws (Some \<lparr>hg_date = Some date, hg_start = None, hg_end = None\<rparr>) of
        None \<Rightarrow> Undefined
      | Some m \<Rightarrow> (case fst (m s) of Inl err \<Rightarrow> Undefined
                  | Inr f \<Rightarrow> (case f u of None \<Rightarrow> Undefined | Some h \<Rightarrow> entryView (h d))))"

text \<open>The environment of a request to availability, with the hours of the schedule.\<close>

definition withHours :: "hours_env \<Rightarrow> schedule \<Rightarrow> env \<Rightarrow> env" where
  "withHours H s E = E\<lparr>e_business := (\<lambda>co ws. businessView s ws), e_worker := workerView s, e_temporary := temporaryView H s\<rparr>"

end
