(* ===== verification/CalTemporaryProps.thy ===== *)
theory CalTemporaryProps
  imports CalTemporary CalScheduleProps CalDaysProps
begin

text \<open>
  Properties of the temporary hours: every exception has its block in the calendar, under every sequence of requests; an
  exception that opens a date leaves no free window on it, because its own block covers the hours it opens; the hours
  services as the source of what availability uses.
\<close>

section \<open>The block of an exception covers its hours\<close>

lemma wellTimed_match:
  assumes "wellTimed t"
  shows "matchTime (trim t) \<noteq> None \<and> padStart2 (fst (the (matchTime (trim t)))) @ '':'' @ snd (the (matchTime (trim t))) = t \<and>
    \<not> looksLikeISO (trim t) \<and> trim t \<noteq> []"
proof -
  have m: "serviceToHHmm t = Inr t" and tr: "trim t = t" and l: "length t = 5"
    using assms serviceToHHmm_wellTimed trim_wellTimed by (auto simp: wellTimed_def)
  then show ?thesis by (auto simp: serviceToHHmm_def looksLikeISO_def split: option.splits)
qed

lemma resolve_wellTimed:
  assumes "wellTimed t"
  shows "resolveEventDateTime H (Some d) (Some t) = z_parse (he_tz H) (serverDate H d @ ''T'' @ t) (he_serverZone H)"
proof -
  obtain h m where "matchTime (trim t) = Some (h, m)" "padStart2 h @ '':'' @ m = t"
    using wellTimed_match[OF assms] by (cases "matchTime (trim t)") auto
  moreover have "t \<noteq> []" using assms by (auto simp: wellTimed_def)
  ultimately show ?thesis
    using wellTimed_match[OF assms] by (simp add: resolveEventDateTime_def Let_def serverDate_def)
qed

lemma hours_tx_iff:
  "dbTx m s = Inr (x, t) \<longleftrightarrow> (\<exists>d. m (sd_db s) = Inr (x, d) \<and> t = s\<lparr>sd_db := d\<rparr>)"
  "inTransaction n s = (Inr y, t) \<longleftrightarrow> n s = Inr (y, t)"
  "inHours name k s = (Inr z, t) \<longleftrightarrow> k s = (Inr z, t)"
  by (auto simp: dbTx_def inTransaction_def inHours_def ecatch_def split: sum.splits prod.splits)

definition blockGroup :: "ident \<Rightarrow> ident \<Rightarrow> block_source \<Rightarrow> instant \<Rightarrow> instant \<Rightarrow> group_row" where
  "blockGroup co ws src x y = defaultGroup\<lparr>gr_title := blockTitle src,
     gr_description := Some (orElse (bs_description src) []), gr_company := co, gr_workspace := ws,
     gr_start := x, gr_end := y, gr_status := ACCEPTED\<rparr>"

definition blockEvent :: "ident \<Rightarrow> ident \<Rightarrow> block_source \<Rightarrow> instant \<Rightarrow> instant \<Rightarrow> bool \<Rightarrow> event_row" where
  "blockEvent co g src x y allDay = defaultEvent\<lparr>ev_group := g, ev_title := blockTitle src,
     ev_description := Some (orElse (bs_description src) []), ev_start := x, ev_end := y,
     ev_user := bs_user src, ev_purpose := TEMPORARY_BLOCK, ev_allDay := allDay, ev_company := co\<rparr>"

lemma createBlock_iff:
  "createTemporaryBlockEvent H co ws src s = Inr (ev, t) \<longleftrightarrow>
     (\<exists>x y allDay g d1 d2. buildTemporaryBlockEventRange H src = (Some x, Some y, allDay) \<and>
        createGroup None (blockGroup co ws src x y) (sd_db s) = Inr (g, d1) \<and>
        createEvent (blockEvent co (gr_id g) src x y allDay) d1 = Inr (ev, d2) \<and> t = s\<lparr>sd_db := d2\<rparr>)"
  unfolding createTemporaryBlockEvent_def blockGroup_def[symmetric] blockEvent_def[symmetric]
  by (auto simp: andThen_Inr_iff hours_tx_iff split: prod.splits option.splits)

lemma addTemporary_iff:
  "addTemporaryBusinessHour H p s = (Inr (t, ev), s') \<longleftrightarrow> truthy (tp_company p) \<and> truthy (tp_workspace p) \<and>
     (\<exists>s1. createTemporaryBlockEvent H (the (tp_company p)) (the (tp_workspace p)) (sourceOfItem H p) s = Inr (ev, s1) \<and>
        createTempRow H p (ev_id ev) s1 = Inr (t, s'))"
  unfolding addTemporaryBusinessHour_def hours_tx_iff by (auto simp: andThen_Inr_iff)

lemma createTempRow_result:
  assumes "createTempRow H p i s = Inr (t, s')"
  shows "sd_temporary s' = sd_temporary s @ [t] \<and> sd_db s' = (sd_db s)\<lparr>nextId := Suc (nextId (sd_db s))\<rparr> \<and>
    te_id t = idSupply (sd_db s) (nextId (sd_db s)) \<and> te_event t = i \<and> te_user t = tp_user p \<and>
    te_workspace t = orElse (tp_workspace p) [] \<and> te_start t = Option.bind (tp_start p) id \<and> te_end t = Option.bind (tp_end p) id \<and>
    te_closed t = orElse (tp_closed p) False \<and> (\<exists>d. tp_date p = Some d \<and> he_isoDate H d = Some (te_date t)) \<and>
    sd_tempCache s' = sd_tempCache s \<and> te_deleted t = None"
  using assms
  by (auto simp: createTempRow_def dbTx_def freshId_def andThen_Inr_iff textColumn_def Let_def bind_eq_Some_conv
      split: option.splits if_splits)

lemma createBlock_result:
  assumes "createTemporaryBlockEvent H co ws src s = (Inr (ev, t))"
  obtains x y allDay g where "buildTemporaryBlockEventRange H src = (Some x, Some y, allDay)"
    "g = idSupply (sd_db s) (nextId (sd_db s))"
    "ev = (blockEvent co g src x y allDay)\<lparr>ev_id := idSupply (sd_db s) (Suc (nextId (sd_db s)))\<rparr>"
    "t = s\<lparr>sd_db := (sd_db s)\<lparr>groups := groups (sd_db s) @ [(blockGroup co ws src x y)\<lparr>gr_id := g\<rparr>],
        events := events (sd_db s) @ [ev], nextId := Suc (Suc (nextId (sd_db s)))\<rparr>\<rparr>"
  using assms that unfolding createBlock_iff
  by (auto simp: createGroup_def createEvent_def freshId_def andThen_def Let_def)

text \<open>The block is busy time of its professional.\<close>

lemma block_is_busy:
  assumes "createTemporaryBlockEvent H co ws src s = Inr (ev, t)" and "bs_user src = Some u" and "freshSupply (sd_db s)"
  shows "ev \<in> set (events (sd_db t)) \<and> blocksAvailability (sd_db t) ws [u] None ev"
proof -
  obtain x y allDay g where r: "g = idSupply (sd_db s) (nextId (sd_db s))"
    "ev = (blockEvent co g src x y allDay)\<lparr>ev_id := idSupply (sd_db s) (Suc (nextId (sd_db s)))\<rparr>"
    "t = s\<lparr>sd_db := (sd_db s)\<lparr>groups := groups (sd_db s) @ [(blockGroup co ws src x y)\<lparr>gr_id := g\<rparr>],
        events := events (sd_db s) @ [ev], nextId := Suc (Suc (nextId (sd_db s)))\<rparr>\<rparr>"
    by (rule createBlock_result[OF assms(1)])
  have "List.find (\<lambda>z. gr_id z = g) (groups (sd_db s)) = None"
    using fresh_notin(2)[OF assms(3) order_refl] r(1) by (metis (mono_tags, lifting) find_None_iff_all imageI)
  then have "groupById (sd_db t) g = Some ((blockGroup co ws src x y)\<lparr>gr_id := g\<rparr>)"
    by (simp add: r(3) groupById_def find_append)
  then show ?thesis using assms(2)
    by (simp add: r(2,3) blocksAvailability_def groupSat_def blockEvent_def blockGroup_def CANCELLED_STATES_def)
qed

lemma block_range:
  assumes "buildTemporaryBlockEventRange H src = (Some x, Some y, allDay)" and "bs_date src = Some d" and "\<not> bs_closed src"
    and "bs_start src = Some a" and "bs_end src = Some b" and "wellTimed a" and "wellTimed b"
    and "z_parse (he_tz H) (serverDate H d @ ''T'' @ a) (he_serverZone H) = Some i"
    and "z_parse (he_tz H) (serverDate H d @ ''T'' @ b) (he_serverZone H) = Some j" and "i < j"
  shows "x = i \<and> y = j"
  using assms by (auto simp: buildTemporaryBlockEventRange_def resolve_wellTimed split: if_splits)

text \<open>Where an exception is the only thing that opens a date, its block covers all it opens.\<close>

lemma nothing_free:
  assumes "\<And>t. shiftOffers today rounded sh t \<Longrightarrow> covers busy t"
  shows "freeWindows today rounded [sh] busy = []"
proof (rule ccontr)
  assume "freeWindows today rounded [sh] busy \<noteq> []"
  then obtain w where w: "w \<in> set (freeWindows today rounded [sh] busy)" by (meson last_in_set)
  then have "covers (freeWindows today rounded [sh] busy) (wstart w)"
    using freeWindows_proper[OF w] by (auto simp: covers_def inWin_def proper_def intro!: bexI[of _ w])
  then show False using assms unfolding freeWindows_covers by auto
qed

section \<open>Every exception has its block\<close>

definition hasBlock :: "schedule \<Rightarrow> temp_row \<Rightarrow> bool" where
  "hasBlock s t \<longleftrightarrow> (\<exists>e \<in> set (events (sd_db s)). ev_id e = te_event t \<and> ev_user e = te_user t \<and> ev_purpose e = TEMPORARY_BLOCK)"

definition tempInv :: "schedule \<Rightarrow> bool" where
  "tempInv s \<longleftrightarrow> wfDb (sd_db s) \<and> distinct (map te_id (sd_temporary s)) \<and> distinct (map te_event (sd_temporary s)) \<and>
     (\<forall>n \<ge> nextId (sd_db s). idSupply (sd_db s) n \<notin> te_id ` set (sd_temporary s)) \<and>
     (\<forall>t \<in> set (sd_temporary s). te_event t \<noteq> [] \<and> hasBlock s t) \<and> (\<forall>n. idSupply (sd_db s) n \<noteq> [])"

lemma add_tempInv:
  assumes inv: "tempInv s" and add: "addTemporaryBusinessHour H p s = (Inr (t, ev), s')"
  shows "tempInv s'"
proof -
  obtain s1 where b: "createTemporaryBlockEvent H (the (tp_company p)) (the (tp_workspace p)) (sourceOfItem H p) s = Inr (ev, s1)"
    and r: "createTempRow H p (ev_id ev) s1 = Inr (t, s')" using add by (auto simp: addTemporary_iff)
  let ?co = "the (tp_company p)" and ?ws = "the (tp_workspace p)" and ?src = "sourceOfItem H p" and ?d = "sd_db s"
  obtain x y allDay g where blk: "g = idSupply ?d (nextId ?d)"
    "ev = (blockEvent ?co g ?src x y allDay)\<lparr>ev_id := idSupply ?d (Suc (nextId ?d))\<rparr>"
    "s1 = s\<lparr>sd_db := ?d\<lparr>groups := groups ?d @ [(blockGroup ?co ?ws ?src x y)\<lparr>gr_id := g\<rparr>],
        events := events ?d @ [ev], nextId := Suc (Suc (nextId ?d))\<rparr>\<rparr>"
    by (rule createBlock_result[OF b])
  have fs: "freshSupply ?d" and wf: "wfDb ?d" using inv by (auto simp: tempInv_def wfDb_def)
  note row = createTempRow_result[OF r]
  have evid: "ev_id ev = idSupply ?d (Suc (nextId ?d))" "ev_user ev = tp_user p" "ev_purpose ev = TEMPORARY_BLOCK" "ev_group ev = g"
    using blk(2) by (simp_all add: blockEvent_def sourceOfItem_def)
  have ids: "sd_temporary s' = sd_temporary s @ [t]" "te_id t = idSupply ?d (Suc (Suc (nextId ?d)))" "te_event t = ev_id ev"
    "te_user t = tp_user p" "events (sd_db s') = events ?d @ [ev]" "idSupply (sd_db s') = idSupply ?d"
    "nextId (sd_db s') = Suc (Suc (Suc (nextId ?d)))" "groups (sd_db s') = groups ?d @ [(blockGroup ?co ?ws ?src x y)\<lparr>gr_id := g\<rparr>]"
    "participants (sd_db s') = participants ?d"
    using row blk(3) by simp_all
  have inj: "idSupply ?d m \<noteq> idSupply ?d n" if "nextId ?d \<le> m" "nextId ?d \<le> n" "m \<noteq> n" for m n
    using fs that unfolding freshSupply_def by blast
  have evnew: "ev_id ev \<notin> ev_id ` set (events ?d)" and gnew: "g \<notin> gr_id ` set (groups ?d)"
    using fresh_notin(1)[OF fs, of "Suc (nextId ?d)"] fresh_notin(2)[OF fs order_refl] evid blk(1) by auto
  have "freshSupply (sd_db s')"
    unfolding freshSupply_def
  proof (intro conjI allI impI)
    fix n assume n: "nextId (sd_db s') \<le> n"
    then have k: "nextId ?d \<le> n" "n \<noteq> nextId ?d" "n \<noteq> Suc (nextId ?d)" using ids(7) by simp_all
    have "idSupply ?d n \<noteq> g" "idSupply ?d n \<noteq> ev_id ev" using inj k blk(1) evid(1) by auto
    then show "idSupply (sd_db s') n \<notin> ev_id ` set (events (sd_db s')) \<union> gr_id ` set (groups (sd_db s')) \<union>
        pt_id ` set (participants (sd_db s'))"
      using fresh_notin[OF fs k(1)] ids by simp
  next
    fix m n assume "nextId (sd_db s') \<le> m" "nextId (sd_db s') \<le> n" "idSupply (sd_db s') m = idSupply (sd_db s') n"
    then show "m = n" using inj[of m n] ids(6,7) by auto
  qed
  then have wf': "wfDb (sd_db s')"
    using wf evnew gnew evid(4) ids by (auto simp: wfDb_def)
  have old: "te_event r \<noteq> ev_id ev \<and> hasBlock s' r" if "r \<in> set (sd_temporary s)" for r
  proof -
    obtain e where e: "e \<in> set (events ?d)" "ev_id e = te_event r" "ev_user e = te_user r" "ev_purpose e = TEMPORARY_BLOCK"
      using inv \<open>r \<in> set (sd_temporary s)\<close> unfolding tempInv_def hasBlock_def by blast
    then show ?thesis using evnew ids(5) unfolding hasBlock_def by (metis Un_iff imageI set_append)
  qed
  have newb: "hasBlock s' t" unfolding hasBlock_def using evid ids(3-5) by (intro bexI[of _ ev]) simp_all
  have later: "idSupply ?d n \<notin> te_id ` set (sd_temporary s)" if "nextId ?d \<le> n" for n
    using inv that by (simp add: tempInv_def)
  have dist: "distinct (map te_id (sd_temporary s))" "distinct (map te_event (sd_temporary s))"
    and nonempty: "\<forall>r \<in> set (sd_temporary s). te_event r \<noteq> []" "\<forall>n. idSupply ?d n \<noteq> []"
    using inv by (simp_all add: tempInv_def)
  show ?thesis
    unfolding tempInv_def
  proof (intro conjI allI ballI impI)
    show "distinct (map te_id (sd_temporary s'))" using dist(1) later[of "Suc (Suc (nextId ?d))"] ids(1,2) by simp
    have "ev_id ev \<notin> te_event ` set (sd_temporary s)" using old by (metis imageE)
    then show "distinct (map te_event (sd_temporary s'))" using dist(2) ids(1,3) by simp
    show "idSupply (sd_db s') n \<notin> te_id ` set (sd_temporary s')" if "nextId (sd_db s') \<le> n" for n
      using that later[of n] inj[of n "Suc (Suc (nextId ?d))"] ids(1,2,6,7) by simp
    have "te_event t \<noteq> []" using nonempty(2) evid(1) ids(3) by metis
    then show "te_event r \<noteq> []" "hasBlock s' r" if "r \<in> set (sd_temporary s')" for r
      using that ids(1) nonempty(1) old newb by auto
    show "idSupply (sd_db s') n \<noteq> []" for n using nonempty(2) ids(6) by simp
  qed (rule wf')
qed

text \<open>An update changes the row and its event together.\<close>

lemma updateBlock_iff:
  "updateTemporaryBlockEvent H i src s = Inr (ev, t) \<longleftrightarrow>
     (\<exists>x y allDay d1 d2 f h. buildTemporaryBlockEventRange H src = (Some x, Some y, allDay) \<and>
        f = (\<lambda>e. e\<lparr>ev_title := blockTitle src, ev_description := Some (orElse (bs_description src) []), ev_start := x,
              ev_end := y, ev_user := bs_user src, ev_purpose := TEMPORARY_BLOCK, ev_allDay := allDay\<rparr>) \<and>
        h = (\<lambda>g. g\<lparr>gr_title := blockTitle src, gr_start := x, gr_end := y\<rparr>) \<and>
        updateEvent i f (sd_db s) = Inr (ev, d1) \<and> updateGroup (ev_group ev) h d1 = Inr ((), d2) \<and> t = s\<lparr>sd_db := d2\<rparr>)"
  unfolding updateTemporaryBlockEvent_def
  by (auto simp: andThen_Inr_iff hours_tx_iff split: prod.splits option.splits)

lemma update_tempInv:
  assumes inv: "tempInv s" and upd: "updateTemporaryBusinessHour H p s = (Inr (t, ev), s')"
  shows "tempInv s'"
proof -
  obtain r s1 h where r: "r \<in> set (sd_temporary s)"
    and u: "updateTemporaryBlockEvent H (te_event r) (sourceOfUpdate H r p) s = Inr (ev, s1)"
    and h: "patchTempRow H p (te_event r) = Some h"
    and s': "s' = s1\<lparr>sd_temporary := updateWhere (\<lambda>t. te_id t = te_id r) h (sd_temporary s1)\<rparr>"
    using upd unfolding updateTemporaryBusinessHour_def hours_tx_iff
    by (auto simp: andThen_Inr_iff dest!: find_Some_D split: if_splits option.splits)
  obtain x y allDay d1 d2 f k where ran: "f = (\<lambda>e. e\<lparr>ev_title := blockTitle (sourceOfUpdate H r p),
        ev_description := Some (orElse (bs_description (sourceOfUpdate H r p)) []), ev_start := x, ev_end := y,
        ev_user := bs_user (sourceOfUpdate H r p), ev_purpose := TEMPORARY_BLOCK, ev_allDay := allDay\<rparr>)"
    "k = (\<lambda>g. g\<lparr>gr_title := blockTitle (sourceOfUpdate H r p), gr_start := x, gr_end := y\<rparr>)"
    "updateEvent (te_event r) f (sd_db s) = Inr (ev, d1)" "updateGroup (ev_group ev) k d1 = Inr ((), d2)" "s1 = s\<lparr>sd_db := d2\<rparr>"
    using u unfolding updateBlock_iff by blast
  have wf: "wfDb (sd_db s)" using inv by (simp add: tempInv_def)
  have "wfDb d1" by (rule wf_updateEvent[OF wf _ _ ran(3)]) (use wf in \<open>auto simp: ran(1) wfDb_def\<close>)
  then have wf2: "wfDb d2" by (rule wf_updateGroup[OF _ _ ran(4)]) (simp add: ran(2))
  have d1: "events d1 = updateWhere (\<lambda>e. ev_id e = te_event r) f (events (sd_db s))" "idSupply d1 = idSupply (sd_db s)" "nextId d1 = nextId (sd_db s)"
    using ran(3) by (auto simp: updateEvent_def split: option.splits)
  then have d2: "events d2 = updateWhere (\<lambda>e. ev_id e = te_event r) f (events (sd_db s))" "idSupply d2 = idSupply (sd_db s)" "nextId d2 = nextId (sd_db s)"
    using ran(4) by (auto simp: updateGroup_Inr)
  have hk: "te_id (h z) = te_id z" "te_event (h z) = te_event r" "te_user (h z) = (case tp_user p of None \<Rightarrow> te_user z | v \<Rightarrow> v)" for z
    using h by (auto simp: patchTempRow_def split: option.splits if_splits)
  have uniq: "z = r" if "z \<in> set (sd_temporary s)" "te_id z = te_id r \<or> te_event z = te_event r" for z
    using that inv r by (metis tempInv_def distinct_map inj_onD)
  have rows: "sd_temporary s' = map (\<lambda>z. if z = r then h r else z) (sd_temporary s)"
    unfolding s' updateWhere_def using uniq ran(5) by (auto intro!: map_cong)
  have ids: "map te_id (sd_temporary s') = map te_id (sd_temporary s)" "map te_event (sd_temporary s') = map te_event (sd_temporary s)"
    unfolding rows using hk by auto
  have user: "te_user (h r) = bs_user (sourceOfUpdate H r p)" using hk(3)[of r] by (simp add: sourceOfUpdate_def split: option.splits)
  have "te_event z \<noteq> [] \<and> hasBlock s' z" if z: "z \<in> set (sd_temporary s')" for z
  proof -
    obtain z0 where z0: "z0 \<in> set (sd_temporary s)" "z = (if z0 = r then h r else z0)" using z unfolding rows by auto
    obtain e where e: "e \<in> set (events (sd_db s))" "ev_id e = te_event z0" "ev_user e = te_user z0" "ev_purpose e = TEMPORARY_BLOCK"
      using inv z0(1) unfolding tempInv_def hasBlock_def by blast
    let ?e = "if ev_id e = te_event r then f e else e"
    have "?e \<in> set (events (sd_db s'))" using e(1) by (simp add: s' ran(5) d2(1) set_updateWhere)
    moreover have "ev_id ?e = te_event z \<and> ev_user ?e = te_user z \<and> ev_purpose ?e = TEMPORARY_BLOCK"
      using e z0(2) uniq[OF z0(1)] user hk(2) by (auto simp: ran(1))
    moreover have "te_event z \<noteq> []" using inv z0 hk(2) r by (auto simp: tempInv_def)
    ultimately show ?thesis unfolding hasBlock_def by blast
  qed
  moreover have "te_id ` set (sd_temporary s') = te_id ` set (sd_temporary s)" using ids(1) by (metis list.set_map)
  ultimately show ?thesis
    using inv wf2 ids d2 by (simp add: tempInv_def s' ran(5))
qed

text \<open>What a deletion leaves.\<close>

definition goneGroup :: "db \<Rightarrow> ident set \<Rightarrow> ident \<Rightarrow> bool" where
  "goneGroup d is g \<longleftrightarrow> (\<exists>e \<in> set (events d). ev_id e \<in> is \<and> ev_group e = g) \<and>
     (\<forall>e \<in> set (events d). ev_id e \<notin> is \<longrightarrow> ev_group e \<noteq> g)"

lemma deleteBlocks_result:
  assumes "deleteTemporaryBlockEvents records s = Inr ((), t)" and ne: "\<And>r. r \<in> set records \<Longrightarrow> te_event r \<noteq> []"
  shows "sd_temporary t = filter (\<lambda>z. te_event z \<notin> te_event ` set records) (sd_temporary s)"
    and "sd_db t = (sd_db s)\<lparr>events := filter (\<lambda>e. ev_id e \<notin> te_event ` set records) (events (sd_db s)),
      groups := filter (\<lambda>g. \<not> goneGroup (sd_db s) (te_event ` set records) (gr_id g)) (groups (sd_db s)),
      participants := filter (\<lambda>p. \<not> goneGroup (sd_db s) (te_event ` set records) (pt_group p)) (participants (sd_db s))\<rparr>"
proof -
  define ids where "ids = uniq (filter (\<lambda>i. i \<noteq> []) (map te_event records))"
  have ids: "set ids = te_event ` set records" using ne by (auto simp: ids_def)
  then have none: "ids = [] \<Longrightarrow> records = []" by (metis image_is_empty list.set(1) set_empty)
  have "sd_temporary t = filter (\<lambda>z. te_event z \<notin> te_event ` set records) (sd_temporary s) \<and>
    sd_db t = (sd_db s)\<lparr>events := filter (\<lambda>e. ev_id e \<notin> te_event ` set records) (events (sd_db s)),
      groups := filter (\<lambda>g. \<not> goneGroup (sd_db s) (te_event ` set records) (gr_id g)) (groups (sd_db s)),
      participants := filter (\<lambda>p. \<not> goneGroup (sd_db s) (te_event ` set records) (pt_group p)) (participants (sd_db s))\<rparr>"
  proof (cases "ids = []")
    case True
    then have "records = []" "t = s"
      using assms(1) none by (simp_all add: deleteTemporaryBlockEvents_def)
    then show ?thesis by (simp add: goneGroup_def)
  next
    case False
    define gids where "gids = uniq (map ev_group (filter (\<lambda>e. ev_id e \<in> set ids) (events (sd_db s))))"
    have gone: "(i \<in> set gids \<and> (\<forall>e \<in> set (filter (\<lambda>e. ev_id e \<notin> set ids) (events (sd_db s))). ev_group e \<noteq> i)) =
        goneGroup (sd_db s) (set ids) i" for i
      by (auto simp: gids_def goneGroup_def)
    have "t = s\<lparr>sd_temporary := filter (\<lambda>t. te_event t \<notin> set ids) (sd_temporary s),
          sd_db := (sd_db s)\<lparr>events := filter (\<lambda>e. ev_id e \<notin> set ids) (events (sd_db s)),
            groups := filter (\<lambda>g. \<not> (gr_id g \<in> set gids \<and>
              (\<forall>e \<in> set (filter (\<lambda>e. ev_id e \<notin> set ids) (events (sd_db s))). ev_group e \<noteq> gr_id g))) (groups (sd_db s)),
            participants := filter (\<lambda>p. \<not> (pt_group p \<in> set gids \<and>
              (\<forall>e \<in> set (filter (\<lambda>e. ev_id e \<notin> set ids) (events (sd_db s))). ev_group e \<noteq> pt_group p))) (participants (sd_db s))\<rparr>\<rparr>"
      using assms(1) False unfolding deleteTemporaryBlockEvents_def Let_def ids_def[symmetric]
      by (simp add: andThen_apply gids_def[symmetric])
    then show ?thesis unfolding gone unfolding ids by simp
  qed
  then show "sd_temporary t = filter (\<lambda>z. te_event z \<notin> te_event ` set records) (sd_temporary s)"
    "sd_db t = (sd_db s)\<lparr>events := filter (\<lambda>e. ev_id e \<notin> te_event ` set records) (events (sd_db s)),
      groups := filter (\<lambda>g. \<not> goneGroup (sd_db s) (te_event ` set records) (gr_id g)) (groups (sd_db s)),
      participants := filter (\<lambda>p. \<not> goneGroup (sd_db s) (te_event ` set records) (pt_group p)) (participants (sd_db s))\<rparr>"
    by blast+
qed

lemma filtered_wf:
  assumes wf: "wfDb d"
  shows "wfDb (d\<lparr>events := filter (\<lambda>e. ev_id e \<notin> is) (events d), groups := filter (\<lambda>g. \<not> goneGroup d is (gr_id g)) (groups d),
      participants := filter (\<lambda>p. \<not> goneGroup d is (pt_group p)) (participants d)\<rparr>)" (is "wfDb ?d")
proof -
  have keep: "i \<in> gr_id ` set (groups ?d)" if "i \<in> gr_id ` set (groups d)" "\<not> goneGroup d is i" for i using that by auto
  have "\<not> goneGroup d is (ev_group e)" if "e \<in> set (events d)" "ev_id e \<notin> is" for e using that by (auto simp: goneGroup_def)
  then have e: "\<forall>e \<in> set (events ?d). ev_group e \<in> gr_id ` set (groups ?d)" using wf keep by (simp add: wfDb_def)
  have p: "\<forall>p \<in> set (participants ?d). pt_group p \<in> gr_id ` set (groups ?d)" using wf keep by (simp add: wfDb_def)
  have "freshSupply d" using wf by (simp add: wfDb_def)
  then have "freshSupply ?d" unfolding freshSupply_def by simp blast
  then show ?thesis using wf e p unfolding wfDb_def by (simp add: distinct_map_filter)
qed

lemma delete_tempInv:
  assumes inv: "tempInv s" and rec: "set records \<subseteq> set (sd_temporary s)"
    and del: "deleteTemporaryBlockEvents records (s\<lparr>sd_tempCache := c,
        sd_temporary := filter (\<lambda>t. te_id t \<notin> te_id ` set records) (sd_temporary s)\<rparr>) = Inr ((), s')"
  shows "tempInv s' \<and> sd_temporary s' = filter (\<lambda>t. t \<notin> set records) (sd_temporary s) \<and>
    events (sd_db s') = filter (\<lambda>e. ev_id e \<notin> te_event ` set records) (events (sd_db s))"
proof -
  have inj: "z = r" if "z \<in> set (sd_temporary s)" "r \<in> set records" "te_id z = te_id r \<or> te_event z = te_event r" for z r
    using that inv rec by (metis tempInv_def distinct_map inj_onD subsetD)
  have ne: "te_event r \<noteq> []" if "r \<in> set records" for r using inv rec that by (auto simp: tempInv_def)
  note res = deleteBlocks_result[OF del ne, simplified]
  have rows: "sd_temporary s' = filter (\<lambda>t. t \<notin> set records) (sd_temporary s)"
    unfolding res(1) by (rule filter_cong) (use inj in auto)
  have wf': "wfDb (sd_db s')" unfolding res(2) by (rule filtered_wf) (use inv in \<open>simp add: tempInv_def\<close>)
  have "te_event t \<noteq> [] \<and> hasBlock s' t" if t: "t \<in> set (sd_temporary s')" for t
  proof -
    have m: "t \<in> set (sd_temporary s)" "t \<notin> set records" using t rows by auto
    then obtain e where "e \<in> set (events (sd_db s))" "ev_id e = te_event t" "ev_user e = te_user t" "ev_purpose e = TEMPORARY_BLOCK"
      "te_event t \<noteq> []" using inv unfolding tempInv_def hasBlock_def by blast
    moreover have "te_event t \<notin> te_event ` set records" using inj m by fastforce
    ultimately show ?thesis unfolding hasBlock_def res(2) by simp metis
  qed
  moreover have "set (sd_temporary s') \<subseteq> set (sd_temporary s)" using rows by auto
  ultimately have "tempInv s'"
    using inv wf' rows res(2) unfolding tempInv_def by (auto simp: distinct_map_filter)
  then show ?thesis using rows res(2) by simp
qed

section \<open>Sequences of requests\<close>

inductive temp_step :: "hours_env \<Rightarrow> schedule \<Rightarrow> schedule \<Rightarrow> bool" for H where
  temp_post: "temp_step H s (snd (postTemporaryHour H p s))"
| temp_put: "temp_step H s (snd (putTemporaryHour H i p s))"
| temp_delete: "temp_step H s (snd (deleteTemporaryHours H is ws s))"

lemma tempInv_cong:
  "tempInv s \<Longrightarrow> sd_temporary t = sd_temporary s \<Longrightarrow> sd_db t = sd_db s \<Longrightarrow> tempInv t"
  by (simp add: tempInv_def hasBlock_def)

lemma drop_rows:
  "sd_temporary (snd (dropTempCacheOf r s)) = sd_temporary s" "sd_db (snd (dropTempCacheOf r s)) = sd_db s"
  by (simp_all add: dropTempCacheOf_def deleteTempCache_def ebind_def)

lemma transaction_fails: "inHours name (inTransaction m) s = (Inl err, t) \<Longrightarrow> t = s"
  by (auto simp: inHours_def ecatch_def inTransaction_def split: sum.splits prod.splits)

lemma answered_tempInv:
  assumes "tempInv s" and "\<And>err t. m s = (Inl err, t) \<Longrightarrow> t = s" and "\<And>x t. m s = (Inr x, t) \<Longrightarrow> tempInv t"
  shows "tempInv (snd (answered (ebind m dropTempCacheOf) s))"
proof (cases "m s")
  case (Pair r t)
  show ?thesis
  proof (cases r)
    case (Inr x)
    have "tempInv (snd (dropTempCacheOf x t))"
      by (rule tempInv_cong[OF assms(3)]) (use Pair Inr drop_rows in auto)
    then show ?thesis using Pair Inr by (auto simp: answered_def ebind_def split: sum.splits prod.splits)
  qed (use Pair assms(1,2) in \<open>auto simp: answered_def ebind_def\<close>)
qed

lemma deleteTempCaches_state:
  "\<exists>c. deleteTempCaches ts s = (Inr (), s\<lparr>sd_tempCache := c\<rparr>)"
proof (induction ts arbitrary: s)
  case Nil
  show ?case by (rule exI[of _ "sd_tempCache s"]) simp
next
  case (Cons t ts)
  let ?s = "snd (deleteTempCache (te_workspace t) (orElse (te_user t) ''null'') s)"
  obtain c where "deleteTempCaches ts ?s = (Inr (), ?s\<lparr>sd_tempCache := c\<rparr>)" using Cons.IH by blast
  then show ?case by (intro exI[of _ c]) (simp add: ebind_def deleteTempCache_def)
qed

lemma deleteBlocks_total: "\<exists>t. deleteTemporaryBlockEvents records s = Inr ((), t)"
  by (simp add: deleteTemporaryBlockEvents_def Let_def andThen_apply)

lemma deleteFromRedis_run:
  "\<exists>c t. deleteTemporaryBlockEvents (getTemporaryBusinessHoursForDeletion H is ws s)
      (s\<lparr>sd_tempCache := c, sd_temporary := filter (\<lambda>t. te_id t \<notin> te_id ` set (getTemporaryBusinessHoursForDeletion H is ws s)) (sd_temporary s)\<rparr>) = Inr ((), t) \<and>
    deleteTemporaryBusinessHourFromRedis H is ws s = (Inr (), t)"
proof -
  let ?r = "getTemporaryBusinessHoursForDeletion H is ws s"
  obtain c where c: "deleteTempCaches ?r s = (Inr (), s\<lparr>sd_tempCache := c\<rparr>)" using deleteTempCaches_state by blast
  obtain t where t: "deleteTemporaryBlockEvents ?r (s\<lparr>sd_tempCache := c, sd_temporary := filter (\<lambda>t. te_id t \<notin> te_id ` set ?r) (sd_temporary s)\<rparr>) = Inr ((), t)" using deleteBlocks_total by blast
  then have "deleteTemporaryBusinessHourFromRedis H is ws s = (Inr (), t)"
    using c by (simp add: deleteTemporaryBusinessHourFromRedis_def inHours_def ecatch_def ebind_def inTransaction_def andThen_apply)
  with t show ?thesis by blast
qed

lemma temp_step_keeps: "temp_step H s t \<Longrightarrow> tempInv s \<Longrightarrow> tempInv t"
proof (induction rule: temp_step.induct)
  case (temp_post s p)
  have "tempInv (snd (answered (ebind (addTemporaryBusinessHour H p') dropTempCacheOf) s))" for p'
  proof (rule answered_tempInv[OF temp_post])
    show "t = s" if "addTemporaryBusinessHour H p' s = (Inl err, t)" for err t
      using that unfolding addTemporaryBusinessHour_def by (rule transaction_fails)
    show "tempInv t" if "addTemporaryBusinessHour H p' s = (Inr x, t)" for x t
      using add_tempInv[OF temp_post] that by (cases x) blast
  qed
  then show ?case using temp_post by (cases "temporarySchema p") (simp_all add: postTemporaryHour_def)
next
  case (temp_put s i p)
  have "tempInv (snd (answered (ebind (updateTemporaryBusinessHour H p') dropTempCacheOf) s))" for p'
  proof (rule answered_tempInv[OF temp_put])
    show "t = s" if "updateTemporaryBusinessHour H p' s = (Inl err, t)" for err t
      using that unfolding updateTemporaryBusinessHour_def by (rule transaction_fails)
    show "tempInv t" if "updateTemporaryBusinessHour H p' s = (Inr x, t)" for x t
      using update_tempInv[OF temp_put] that by (cases x) blast
  qed
  then show ?case using temp_put by (cases "temporarySchema p") (simp_all add: putTemporaryHour_def)
next
  case (temp_delete s "is" ws)
  have sub: "set (getTemporaryBusinessHoursForDeletion H is' ws' s) \<subseteq> set (sd_temporary s)" for "is'" ws'
    by (auto simp: getTemporaryBusinessHoursForDeletion_def Let_def)
  have "tempInv (snd (answered (deleteTemporaryBusinessHourFromRedis H is' ws') s))" for "is'" ws'
  proof -
    obtain t c where t: "deleteTemporaryBlockEvents (getTemporaryBusinessHoursForDeletion H is' ws' s) (s\<lparr>sd_tempCache := c,
        sd_temporary := filter (\<lambda>t. te_id t \<notin> te_id ` set (getTemporaryBusinessHoursForDeletion H is' ws' s)) (sd_temporary s)\<rparr>) = Inr ((), t)"
      "deleteTemporaryBusinessHourFromRedis H is' ws' s = (Inr (), t)" using deleteFromRedis_run by blast
    have "tempInv t" using delete_tempInv[OF temp_delete sub t(1)] by blast
    then show ?thesis using t(2) by (simp add: answered_def)
  qed
  then show ?case using temp_delete by (simp add: deleteTemporaryHours_def)
qed

section \<open>Properties\<close>

text \<open>C32: under every sequence of requests on the temporary hours each exception has its block in the calendar, an event of
  its professional, and no two share one; the database stays well-formed.\<close>
theorem exceptions_have_blocks:
  assumes "(temp_step H)\<^sup>*\<^sup>* s t" and "tempInv s"
  shows "tempInv t"
  using assms by (induction rule: rtranclp_induct) (auto intro: temp_step_keeps)

definition demo_exception :: temp_item where
  "demo_exception = \<lparr>tp_id = None, tp_user = Some ''ana'', tp_company = Some ''co'', tp_workspace = Some ''w'', tp_event = None,
     tp_date = Some ''1970-01-02T00:00:00.000Z'', tp_title = None, tp_description = None, tp_start = Some (Some ''09:00''),
     tp_end = Some (Some ''12:00''), tp_closed = Some False, tp_other = False\<rparr>"

lemma demo_tempInv: "tempInv demo_schedule"
proof -
  have "freshSupply (sd_db demo_schedule)" by (simp add: demo_schedule_def freshSupply_def)
  then show ?thesis by (simp add: tempInv_def wfDb_def demo_schedule_def)
qed

lemma demo_exception_fields:
  "tp_user demo_exception = Some ''ana''" "tp_company demo_exception = Some ''co''" "tp_workspace demo_exception = Some ''w''"
  "tp_date demo_exception = Some ''1970-01-02T00:00:00.000Z''" "tp_start demo_exception = Some (Some ''09:00'')"
  "tp_end demo_exception = Some (Some ''12:00'')" "tp_closed demo_exception = Some False" "\<not> tp_other demo_exception"
  by (simp_all add: demo_exception_def)

text \<open>What the demo environment reads; the simplifier evaluates these parts.\<close>

lemma demo_env_fields:
  "he_tz demo_hours = utc_tz" "he_serverZone demo_hours = ''UTC''" "he_isoDate demo_hours x = utcParse x"
  "he_parseDate demo_hours x = utcParse (if length x = 10 then x @ ''T00:00:00'' else x)"
  by (simp_all add: demo_hours_def)

lemma utc_reads:
  "z_parse utc_tz x z = utcParse x" "z_sod utc_tz z u = u - u mod day_ms" "z_eod utc_tz z u = u - u mod day_ms + (day_ms - 1)"
  by (simp_all add: utc_tz_def)

lemma utc_second_day: "z_date utc_tz z 86400000 = ''1970-01-02''"
  by (simp add: utc_tz_def) code_simp

lemma demo_iso: "utcParse ''1970-01-02T00:00:00.000Z'' = Some 86400000" "utcParse ''1970-01-02T00:00:00'' = Some 86400000"
  by (simp_all add: utc_simps)

lemma demo_source: "sourceOfItem demo_hours demo_exception = \<lparr>bs_title = None, bs_description = None, bs_user = Some ''ana'',
    bs_date = Some 86400000, bs_start = Some ''09:00'', bs_end = Some ''12:00'', bs_closed = False\<rparr>"
  by (simp add: sourceOfItem_def demo_exception_def demo_env_fields demo_iso)

lemma demo_block_range:
  "buildTemporaryBlockEventRange demo_hours (sourceOfItem demo_hours demo_exception) = (Some 118800000, Some 129600000, False)"
proof -
  have "utcParse ''1970-01-02T09:00'' = Some 118800000" and "utcParse ''1970-01-02T12:00'' = Some 129600000"
    by (simp_all add: utc_simps)
  then show ?thesis
    by (simp add: buildTemporaryBlockEventRange_def demo_source resolveEventDateTime_def looksLikeISO_def matchTime_def isDigit_def
        trim_def isSpace_def padStart2_def demo_env_fields utc_second_day utc_reads)
qed

lemma demo_schedule_fields [simp]:
  "sd_temporary demo_schedule = []" "sd_tempCache demo_schedule = Map.empty" by (simp_all add: demo_schedule_def)

text \<open>The run of the demo exception, by the results of its parts.\<close>

lemma demo_added:
  obtains t ev s' where "addTemporaryBusinessHour demo_hours demo_exception demo_schedule = (Inr (t, ev), s')"
    and "sd_temporary s' = [t]" and "sd_tempCache s' = Map.empty" and "te_user t = Some ''ana''" and "te_workspace t = ''w''"
    and "te_start t = Some ''09:00''" and "te_end t = Some ''12:00''" and "\<not> te_closed t" and "te_date t = 86400000"
    and "te_deleted t = None" and "ev_start ev = 118800000" and "ev_end ev = 129600000"
proof -
  let ?src = "sourceOfItem demo_hours demo_exception"
  have "\<exists>ev s1. createTemporaryBlockEvent demo_hours ''co'' ''w'' ?src demo_schedule = Inr (ev, s1)"
    unfolding createTemporaryBlockEvent_def demo_block_range
    by (simp add: andThen_apply dbTx_def createGroup_def createEvent_def freshId_def Let_def)
  then obtain ev s1 where b: "createTemporaryBlockEvent demo_hours ''co'' ''w'' ?src demo_schedule = Inr (ev, s1)" by blast
  have "\<exists>t s'. createTempRow demo_hours demo_exception (ev_id ev) s1 = Inr (t, s')"
    by (simp add: createTempRow_def demo_exception_fields demo_env_fields demo_iso textColumn_def andThen_apply dbTx_def freshId_def Let_def)
  then obtain t s' where r: "createTempRow demo_hours demo_exception (ev_id ev) s1 = Inr (t, s')" by blast
  have run: "addTemporaryBusinessHour demo_hours demo_exception demo_schedule = (Inr (t, ev), s')"
    using b r by (simp add: addTemporary_iff demo_exception_fields)
  obtain x y allDay g where blk: "buildTemporaryBlockEventRange demo_hours ?src = (Some x, Some y, allDay)"
    "ev = (blockEvent ''co'' g ?src x y allDay)\<lparr>ev_id := idSupply (sd_db demo_schedule) (Suc (nextId (sd_db demo_schedule)))\<rparr>"
    "sd_temporary s1 = []" "sd_tempCache s1 = Map.empty"
    by (rule createBlock_result[OF b]) auto
  note row = createTempRow_result[OF r]
  show thesis
    by (rule that[OF run]) (use row blk demo_iso in \<open>simp_all add: demo_env_fields demo_exception_fields demo_block_range blockEvent_def\<close>)
qed

theorem exceptions_have_blocks_witness:
  "\<exists>t :: schedule. length (sd_temporary t) = 1 \<and> tempInv t"
proof -
  let ?t = "snd (postTemporaryHour demo_hours demo_exception demo_schedule)"
  have sch: "temporarySchema demo_exception = Some demo_exception" by code_simp
  obtain t ev s' where run: "addTemporaryBusinessHour demo_hours demo_exception demo_schedule = (Inr (t, ev), s')"
    and rows: "sd_temporary s' = [t]" by (rule demo_added)
  have "(temp_step demo_hours)\<^sup>*\<^sup>* demo_schedule ?t" by (rule r_into_rtranclp) (rule temp_post)
  then have "tempInv ?t" by (rule exceptions_have_blocks[OF _ demo_tempInv])
  moreover have "length (sd_temporary ?t) = 1"
    using run rows sch drop_rows[of "(t, ev)" s']
    by (simp add: postTemporaryHour_def demo_exception_fields answered_def ebind_def dropTempCacheOf_def deleteTempCache_def)
  ultimately show ?thesis by (intro exI[of _ ?t] conjI)
qed

text \<open>C31: an exception that opens a date to a professional leaves no free window there: the event it creates blocks
  availability, and whatever busy time holds that event covers all the hours the exception opens (the zone of the
  workspace being that of the server).\<close>
theorem opened_date_has_no_room:
  assumes "addTemporaryBusinessHour H p s = (Inr (t, ev), s')" and "freshSupply (sd_db s)"
    and "tp_user p = Some u" and "te_start t = Some a" and "te_end t = Some b" and "wellTimed a" and "wellTimed b" and "\<not> te_closed t"
    and "he_parseDate H (the (tp_date p)) = he_isoDate H (the (tp_date p))"
    and "temporaryView H s' us ws (serverDate H (te_date t)) u (serverDate H (te_date t)) = Shifts [(a, b)]"
    and "win (ev_start ev) (ev_end ev) \<in> set busy"
  shows "blocksAvailability (sd_db s') (te_workspace t) [u] None ev \<and>
    freeWindows today rounded (shiftsOfUser (he_tz H) (he_serverZone H) (serverDate H (te_date t)) weekDay business worker
      (temporaryView H s' us ws (serverDate H (te_date t))) fallback u) busy = []"
proof -
  let ?src = "sourceOfItem H p"
  obtain s1 where b: "createTemporaryBlockEvent H (the (tp_company p)) (the (tp_workspace p)) ?src s = Inr (ev, s1)"
    and r: "createTempRow H p (ev_id ev) s1 = Inr (t, s')" and tr: "truthy (tp_workspace p)"
    using assms(1) by (auto simp: addTemporary_iff)
  note row = createTempRow_result[OF r]
  obtain d where d: "tp_date p = Some d" "he_isoDate H d = Some (te_date t)" using row by blast
  have src: "bs_user ?src = Some u" "bs_date ?src = Some (te_date t)" "\<not> bs_closed ?src" "bs_start ?src = Some a" "bs_end ?src = Some b"
    using assms(3-5,8,9) row d by (auto simp: sourceOfItem_def)
  have ws: "te_workspace t = the (tp_workspace p)" using row tr by (cases "tp_workspace p") auto
  have "sd_db s' = (sd_db s1)\<lparr>nextId := Suc (nextId (sd_db s1))\<rparr>" using row by simp
  then have blk: "blocksAvailability (sd_db s') (te_workspace t) [u] None ev"
    using block_is_busy[OF b src(1) assms(2)] ws by (simp add: blocksAvailability_def groupSat_def groupById_def)
  let ?p = "\<lambda>x. z_parse (he_tz H) (serverDate H (te_date t) @ ''T'' @ x) (he_serverZone H)"
  have "freeWindows today rounded [(?p a, ?p b)] busy = []"
  proof (rule nothing_free)
    fix q assume "shiftOffers today rounded (?p a, ?p b) q"
    then obtain i j where ij: "?p a = Some i" "?p b = Some j" "i \<le> q" "q < j" by (auto simp: shiftOffers_def)
    obtain x y allDay g where blk: "buildTemporaryBlockEventRange H ?src = (Some x, Some y, allDay)"
      "ev = (blockEvent (the (tp_company p)) g ?src x y allDay)\<lparr>ev_id := idSupply (sd_db s) (Suc (nextId (sd_db s)))\<rparr>"
      by (rule createBlock_result[OF b]) blast
    have "x = i \<and> y = j"
      by (rule block_range[OF blk(1) src(2,3,4,5) assms(6,7) ij(1,2)]) (use ij in simp)
    then have "inWin (win (ev_start ev) (ev_end ev)) q" using blk(2) ij by (simp add: inWin_def blockEvent_def)
    then show "covers busy q" using assms(11) by (auto simp: covers_def)
  qed
  then show ?thesis using blk assms(10) by (simp add: shiftsOfUser_def workShifts_def parseShift_def)
qed

lemma demo_view:
  assumes "sd_temporary s' = [t]" and "sd_tempCache s' = Map.empty" and "te_user t = Some ''ana''" and "te_workspace t = ''w''"
    and "te_start t = Some ''09:00''" and "te_end t = Some ''12:00''" and "\<not> te_closed t" and "te_date t = 86400000"
    and "te_deleted t = None"
  shows "temporaryView demo_hours s' [''ana''] ''w'' ''1970-01-02'' ''ana'' ''1970-01-02'' = Shifts [(''09:00'', ''12:00'')]"
proof -
  have day: "isDayText ''1970-01-02''" by (simp add: isDayText_def isDigit_def)
  then have strict: "strictDay demo_hours ''1970-01-02'' = Some 86400000"
    by (simp add: strictDay_def demo_env_fields utc_reads demo_iso)
  have "enumerateFrom utc_tz z (Some 86400000) (Some 86400000) [] = Some [''1970-01-02'']" for z
    by (subst enumerateFrom.simps, subst enumerateFrom.simps)
      (simp add: isAfterDay_def formatDay_def utc_second_day, simp add: utc_tz_def)
  then have days: "listDaysInclusive demo_hours ''1970-01-02'' ''1970-01-02'' = Some [''1970-01-02'']"
    by (simp add: listDaysInclusive_def enumerateDays_def demo_env_fields utc_reads demo_iso)
  show ?thesis
    by (simp add: assms strict days demo_env_fields demo_iso utc_reads utc_second_day serverDate_def normalizeRange_def isWithin_def
        temporaryView_def getTemporaryHoursFromRedis_def temporaryHoursOf_def getTemporaryHours_def tempRowsFor_def
        patchDate_def saveTemporaryHours_def inHours_def ecatch_def ebind_def Let_def entryView_def rangeText_def)
qed

theorem opened_date_has_no_room_witness:
  "\<exists>t :: temp_row. te_start t = Some ''09:00'' \<and> freeWindows False 0 (shiftsOfUser utc_tz ''UTC'' ''1970-01-02'' ''FRIDAY''
      (\<lambda>d. Undefined) (\<lambda>u d. Undefined) (temporaryView demo_hours (snd (addTemporaryBusinessHour demo_hours demo_exception demo_schedule))
        [''ana''] ''w'' ''1970-01-02'') False ''ana'') [win 118800000 129600000] = []"
proof -
  obtain t ev s' where run: "addTemporaryBusinessHour demo_hours demo_exception demo_schedule = (Inr (t, ev), s')"
    and rows: "sd_temporary s' = [t]" "sd_tempCache s' = Map.empty" "te_user t = Some ''ana''" "te_workspace t = ''w''"
      "te_start t = Some ''09:00''" "te_end t = Some ''12:00''" "\<not> te_closed t" "te_date t = 86400000" "te_deleted t = None"
    and ev: "ev_start ev = 118800000" "ev_end ev = 129600000" by (rule demo_added)
  have day: "serverDate demo_hours 86400000 = ''1970-01-02''" by (simp add: serverDate_def demo_env_fields utc_second_day)
  have fresh: "freshSupply (sd_db demo_schedule)" using demo_tempInv by (simp add: tempInv_def wfDb_def)
  have dates: "he_parseDate demo_hours (the (tp_date demo_exception)) = he_isoDate demo_hours (the (tp_date demo_exception))"
    by (simp add: demo_env_fields demo_exception_fields)
  have times: "wellTimed ''09:00''" "wellTimed ''12:00''" by (simp_all add: wellTimed_def isDigit_def)
  have zone: "he_tz demo_hours = utc_tz" "he_serverZone demo_hours = ''UTC''" by (simp_all add: demo_hours_def)
  show ?thesis
    using opened_date_has_no_room[OF run fresh demo_exception_fields(1) rows(5,6) times rows(7) dates, of "[''ana'']" "''w''"
        "[win 118800000 129600000]"] demo_view[OF rows] rows ev zone run
    by (intro exI[of _ t]) (simp add: day)
qed

end
