(* ===== verification/CalGate.thy ===== *)
theory CalGate
  imports CalTimes CalDays CalQuery CalCommand CalStatus CalCrypto
begin

text \<open>
  \<open>booking-guard.middleware.ts\<close>: the guards in front of the endpoints of the client (the shape of the body, the
  workspace and its configuration, the client of the workspace, the rules of time, the limits per client), with the caches
  they use, and \<open>features/event-client/routes.ts\<close> and \<open>features/public-event\<close>: the guards in the order of each route,
  then the controller. A request ends in a refusal of a guard, in the answer of the service, or in an error.
\<close>

section \<open>What the guards read\<close>

text \<open>The numbers of a configuration are whole; a member that is missing or no number is \<open>None\<close>.\<close>

record window_config =
  wn_minLead :: "int option"
  wn_maxAdvance :: "int option"
  wn_cutoff :: "int option"

record limits_config =
  lm_perDay :: "int option"
  lm_concurrent :: "int option"
  lm_maxServices :: "int option"

record config_overrides =
  co_window :: "window_config option"
  co_limits :: "limits_config option"

text \<open>What the services read of the configuration of a workspace.\<close>

record workspace_config =
  wc_window :: "window_config option"
  wc_limits :: "limits_config option"
  wc_resources :: "(ident \<times> rat option) list option"
  wc_align :: "string option"
  wc_step :: "int option"
  wc_useBizFallback :: "bool option"

definition emptyConfig :: workspace_config where
  "emptyConfig = \<lparr>wc_window = None, wc_limits = None, wc_resources = None, wc_align = None, wc_step = None, wc_useBizFallback = None\<rparr>"

datatype raw_config = NoConfig | ConfigText string | ConfigObject workspace_config | ConfigOther

record workspace_brief =
  wb_id :: ident
  wb_timeZone :: ident
  wb_config :: "workspace_config option"
  wb_general :: raw_config
  wb_autoConfirm :: "bool option"

record client_brief =
  cb_id :: ident
  cb_client :: "ident option"
  cb_workspace :: ident
  cb_company :: "ident option"
  cb_banned :: bool
  cb_clientBanned :: bool
  cb_nestedClient :: "ident option"

text \<open>The world of a request with the caches of workspaces and of clients.\<close>

record gate_world =
  gw_world :: world
  gw_workspaces :: "ident \<rightharpoonup> workspace_brief"
  gw_briefs :: "ident \<times> ident \<rightharpoonup> client_brief"
  gw_clientIds :: "ident \<times> ident \<rightharpoonup> ident list"

text \<open>The other services (\<open>None\<close>: the call throws), the environment variables, \<open>JSON.parse\<close> of a configuration.\<close>

record gate_env =
  gt_env :: env
  gt_workspaces :: "ident list \<Rightarrow> workspace_brief list option"
  gt_clients :: "ident list \<Rightarrow> ident \<Rightarrow> client_brief list option"
  gt_createClient :: "ident \<Rightarrow> ident \<Rightarrow> ident \<Rightarrow> client_brief option"
  gt_parseConfig :: "string \<Rightarrow> workspace_config option"
  gt_nodeEnv :: string
  gt_integrations :: "string option"

record raw_attendee =
  ra_service :: "ident option"
  ra_duration :: "int option"
  ra_staff :: "ident option"
  ra_category :: "ident option"

text \<open>The texts of the answers are without their accents.
  A body; a member of another type than the expected one is \<open>None\<close>, as is one that is missing.\<close>

record raw_body =
  rb_company :: "ident option"
  rb_workspace :: "ident option"
  rb_start :: "string option"
  rb_tzClient :: "string option"
  rb_date :: "string option"
  rb_timezone :: "string option"
  rb_time :: "string option"
  rb_attendees :: "raw_attendee list option"
  rb_exclude :: "ident option"
  rb_note :: "string option"
  rb_commentRead :: "bool option"
  rb_customer :: "ident option"
  rb_event :: "ident option"
  rb_deleted :: "ident list option"
  rb_overrides :: "config_overrides option"

record booking_input =
  bi_company :: ident
  bi_workspace :: ident
  bi_start :: string
  bi_tzClient :: ident
  bi_attendees :: "attendee list"
  bi_exclude :: "ident option"
  bi_note :: "string option"
  bi_commentRead :: "bool option"
  bi_customer :: "ident option"
  bi_event :: "ident option"
  bi_deleted :: "ident list option"
  bi_overrides :: "config_overrides option"

record booking_when =
  wh_start :: instant
  wh_end :: instant

record gate_ctx =
  gx_input :: booking_input
  gx_workspace :: workspace_brief
  gx_config :: workspace_config
  gx_tz :: ident

section \<open>Guards\<close>

record refusal =
  rf_status :: int
  rf_code :: string
  rf_message :: string

type_synonym 'a guard = "gate_world \<Rightarrow> (refusal + 'a) \<times> gate_world"

definition pass :: "'a \<Rightarrow> 'a guard" where
  "pass x = (\<lambda>w. (Inr x, w))"

definition thenGuard :: "'a guard \<Rightarrow> ('a \<Rightarrow> 'b guard) \<Rightarrow> 'b guard" where
  "thenGuard m f = (\<lambda>w. case m w of (Inl r, w') \<Rightarrow> (Inl r, w') | (Inr x, w') \<Rightarrow> f x w')"

definition guardCodes :: "(string \<times> string) list" where
  "guardCodes =
     [(''BookingGuards.BaseValidation'', ''MSCAL100''), (''BookingGuards.ResolveWorkspace'', ''MSCAL110''),
      (''BookingGuards.ResolveBookingPage'', ''MSCAL120''), (''BookingGuards.ResolveClientWorkspace'', ''MSCAL130''),
      (''BookingGuards.EnforceTimeRules'', ''MSCAL140''), (''BookingGuards.EnforceUserLimits'', ''MSCAL150''),
      (''BookingGuards.FeatureFlagsAndIdempotency'', ''MSCAL160''), (''BookingGuards.BaseContextSimple'', ''MSCAL170'')]"

definition endBadRequest :: "int \<Rightarrow> string \<Rightarrow> string \<Rightarrow> 'a guard" where
  "endBadRequest status message place =
     (\<lambda>w. (Inl \<lparr>rf_status = status, rf_code = orElse (map_of guardCodes place) ''MSCAL199'', rf_message = message\<rparr>, w))"

subsection \<open>The body\<close>

definition isTimeText :: "string \<Rightarrow> bool" where
  "isTimeText s \<longleftrightarrow> length s = 5 \<and>
     list_all (\<lambda>(c, m). if m = CHR ''d'' then isDigit c else c = m) (zip s ''dd:dd'')"

definition hasNew :: "raw_body \<Rightarrow> bool" where
  "hasNew p \<longleftrightarrow> (case rb_start p of Some s \<Rightarrow> isStartLocalISO s | None \<Rightarrow> False) \<and> rb_tzClient p \<noteq> None"

definition hasLegacy :: "raw_body \<Rightarrow> bool" where
  "hasLegacy p \<longleftrightarrow> (case rb_date p of Some d \<Rightarrow> isDayText d | None \<Rightarrow> False) \<and> rb_timezone p \<noteq> None \<and>
     (truthy (rb_time p) \<longrightarrow> isTimeText (the (rb_time p)))"

definition attendeeOk :: "raw_attendee \<Rightarrow> bool" where
  "attendeeOk a \<longleftrightarrow> truthy (ra_service a) \<and> (case ra_duration a of Some n \<Rightarrow> n > 0 | None \<Rightarrow> False)"

definition attendeeOf :: "raw_attendee \<Rightarrow> attendee" where
  "attendeeOf a = \<lparr>at_service = orElse (ra_service a) [], at_duration = orElse (ra_duration a) 0, at_staff = ra_staff a,
     at_category = ra_category a\<rparr>"

definition firstBad :: "raw_attendee list \<Rightarrow> string" where
  "firstBad as = (case List.find (\<lambda>(i, a). \<not> attendeeOk a) (List.enumerate 0 as) of
     Some (i, a) \<Rightarrow> ''attendees['' @ showNat i @ ''].'' @
       (if truthy (ra_service a) then ''durationMin debe ser > 0'' else ''serviceId es requerido'')
   | None \<Rightarrow> [])"

definition BaseValidationAndNormalize :: "raw_body \<Rightarrow> booking_input guard" where
  "BaseValidationAndNormalize p =
     (let bad = (\<lambda>m. endBadRequest 400 m ''BookingGuards.BaseValidation'') in
      if \<not> truthy (rb_company p) \<or> \<not> truthy (rb_workspace p) then bad ''Faltan idCompany o idWorkspace''
      else if \<not> hasNew p \<and> \<not> hasLegacy p then bad ''Faltan parametros de tiempo: usa startLocalISO + timeZoneClient o bien date(+time) + timezone''
      else if orElse (rb_attendees p) [] = [] then bad ''attendees vacio''
      else if \<not> list_all attendeeOk (the (rb_attendees p)) then bad (firstBad (the (rb_attendees p)))
      else pass \<lparr>bi_company = the (rb_company p), bi_workspace = the (rb_workspace p),
        bi_start = (if hasNew p then the (rb_start p) else the (rb_date p) @ ''T'' @ orElse (rb_time p) ''00:00'' @ '':00''),
        bi_tzClient = (if hasNew p then the (rb_tzClient p) else the (rb_timezone p)),
        bi_attendees = map attendeeOf (the (rb_attendees p)), bi_exclude = rb_exclude p, bi_note = rb_note p,
        bi_commentRead = rb_commentRead p, bi_customer = rb_customer p, bi_event = rb_event p, bi_deleted = rb_deleted p,
        bi_overrides = rb_overrides p\<rparr>)"

text \<open>\<open>BaseContextSimple\<close> keeps only what identifies the client and the event.\<close>

definition BaseContextSimple :: "raw_body \<Rightarrow> booking_input guard" where
  "BaseContextSimple p =
     (let bad = (\<lambda>m. endBadRequest 400 m ''BookingGuards.BaseContextSimple'') in
      if \<not> truthy (rb_workspace p) then bad ''Falta idWorkspace''
      else if \<not> truthy (rb_company p) then bad ''Falta idCompany''
      else if \<not> truthy (rb_customer p) then bad ''Falta customer.id''
      else pass \<lparr>bi_company = the (rb_company p), bi_workspace = the (rb_workspace p), bi_start = [], bi_tzClient = [],
        bi_attendees = [], bi_exclude = None, bi_note = None, bi_commentRead = None, bi_customer = rb_customer p,
        bi_event = rb_event p, bi_deleted = None, bi_overrides = None\<rparr>)"

subsection \<open>The workspace\<close>

definition isDemoConfigOverridesEnabled :: "gate_env \<Rightarrow> bool" where
  "isDemoConfigOverridesEnabled G \<longleftrightarrow> gt_nodeEnv G = ''development'' \<and> map lowerChar (orElse (gt_integrations G) ''http'') = ''mock''"

definition normalizeWorkspaceConfig :: "gate_env \<Rightarrow> raw_config \<Rightarrow> workspace_config" where
  "normalizeWorkspaceConfig G c =
     (case c of ConfigText s \<Rightarrow> if s = [] then emptyConfig else orElse (gt_parseConfig G s) emptyConfig
      | ConfigObject c' \<Rightarrow> c' | _ \<Rightarrow> emptyConfig)"

definition sanitizeDemoConfigOverrides :: "config_overrides option \<Rightarrow> config_overrides option" where
  "sanitizeDemoConfigOverrides raw =
     (case raw of None \<Rightarrow> None
      | Some ov \<Rightarrow>
          let win = Option.bind (co_window ov) (\<lambda>b.
                let b' = \<lparr>wn_minLead = map_option (max 0) (wn_minLead b), wn_maxAdvance = map_option (max 0) (wn_maxAdvance b),
                          wn_cutoff = map_option (\<lambda>n. max 0 (min 23 n)) (wn_cutoff b)\<rparr>
                in if wn_minLead b' = None \<and> wn_maxAdvance b' = None \<and> wn_cutoff b' = None then None else Some b');
              lim = Option.bind (co_limits ov) (\<lambda>l.
                let l' = \<lparr>lm_perDay = map_option (max 0) (lm_perDay l), lm_concurrent = map_option (max 0) (lm_concurrent l),
                          lm_maxServices = map_option (max 1) (lm_maxServices l)\<rparr>
                in if lm_perDay l' = None \<and> lm_concurrent l' = None \<and> lm_maxServices l' = None then None else Some l')
          in if win = None \<and> lim = None then None else Some \<lparr>co_window = win, co_limits = lim\<rparr>)"

definition emptyWindow :: window_config where
  "emptyWindow = \<lparr>wn_minLead = None, wn_maxAdvance = None, wn_cutoff = None\<rparr>"

definition emptyLimits :: limits_config where
  "emptyLimits = \<lparr>lm_perDay = None, lm_concurrent = None, lm_maxServices = None\<rparr>"

text \<open>\<open>{...base, ...overrides}\<close>, member by member.\<close>

definition over :: "'a option \<Rightarrow> 'a option \<Rightarrow> 'a option" where
  "over new old = (case new of None \<Rightarrow> old | v \<Rightarrow> v)"

definition applyOverrides :: "config_overrides \<Rightarrow> workspace_config \<Rightarrow> workspace_config" where
  "applyOverrides ov c =
     (let b = orElse (wc_window c) emptyWindow; nb = orElse (co_window ov) emptyWindow;
          l = orElse (wc_limits c) emptyLimits; nl = orElse (co_limits ov) emptyLimits
      in c\<lparr>wc_window := Some \<lparr>wn_minLead = over (wn_minLead nb) (wn_minLead b),
                wn_maxAdvance = over (wn_maxAdvance nb) (wn_maxAdvance b), wn_cutoff = over (wn_cutoff nb) (wn_cutoff b)\<rparr>,
            wc_limits := Some \<lparr>lm_perDay = over (lm_perDay nl) (lm_perDay l),
                lm_concurrent = over (lm_concurrent nl) (lm_concurrent l), lm_maxServices = over (lm_maxServices nl) (lm_maxServices l)\<rparr>\<rparr>)"

definition setWorkspace :: "workspace_brief \<Rightarrow> gate_world \<Rightarrow> gate_world" where
  "setWorkspace b w = w\<lparr>gw_workspaces := (gw_workspaces w)(wb_id b \<mapsto> b)\<rparr>"

text \<open>\<open>getWorkspacesByIds\<close>: what is cached, then what the auth service answers, which is cached. An error of the
  service is an empty list.\<close>

definition getWorkspacesByIds :: "gate_env \<Rightarrow> ident list \<Rightarrow> gate_world \<Rightarrow> workspace_brief list \<times> gate_world" where
  "getWorkspacesByIds G ids w =
     (let validIds = filter (\<lambda>i. trim i \<noteq> []) ids;
          cached = List.map_filter (gw_workspaces w) validIds;
          missing = filter (\<lambda>i. i \<notin> wb_id ` set cached) validIds
      in if validIds = [] then ([], w)
         else if missing = [] then (List.map_filter (map_of (rev (map (\<lambda>b. (wb_id b, b)) cached))) validIds, w)
         else case gt_workspaces G missing of
             None \<Rightarrow> ([], w)
           | Some fetched \<Rightarrow>
               (List.map_filter (map_of (rev (map (\<lambda>b. (wb_id b, b)) (cached @ fetched)))) validIds, fold setWorkspace fetched w))"

definition lookupWorkspace :: "gate_env \<Rightarrow> ident \<Rightarrow> gate_world \<Rightarrow> workspace_brief option \<times> gate_world" where
  "lookupWorkspace G i w =
     (case gw_workspaces w i of
        Some b \<Rightarrow> (Some b, w)
      | None \<Rightarrow>
          (case getWorkspacesByIds G [i] w of
             ([], w') \<Rightarrow> (None, w')
           | (b # _, w') \<Rightarrow> (Some b, if wb_id b = [] then w' else setWorkspace b w')))"

definition ResolveWorkspace :: "gate_env \<Rightarrow> booking_input \<Rightarrow> gate_ctx guard" where
  "ResolveWorkspace G inp =
     (\<lambda>w. case lookupWorkspace G (bi_workspace inp) w of
        (Some b, w') \<Rightarrow>
          if wb_timeZone b = []
          then endBadRequest 400 ''No se pudo resolver el timezone del workspace'' ''BookingGuards.ResolveWorkspace'' w'
          else let base = normalizeWorkspaceConfig G (wb_general b);
                   cfg = (if isDemoConfigOverridesEnabled G
                          then case sanitizeDemoConfigOverrides (bi_overrides inp) of None \<Rightarrow> base | Some ov \<Rightarrow> applyOverrides ov base
                          else base)
               in pass \<lparr>gx_input = inp, gx_workspace = b, gx_config = cfg, gx_tz = wb_timeZone b\<rparr> w'
      | (None, w') \<Rightarrow>
          endBadRequest 400 ''No se pudo resolver el timezone del workspace'' ''BookingGuards.ResolveWorkspace'' w')"

subsection \<open>The client of the workspace\<close>

definition clientIdOf :: "client_brief \<Rightarrow> ident option" where
  "clientIdOf b = (if truthy (cb_client b) then cb_client b else cb_nestedClient b)"

definition addId :: "ident \<Rightarrow> ident list \<Rightarrow> ident list" where
  "addId i ids = (if i \<in> set ids then ids else ids @ [i])"

definition setClientWorkspace :: "client_brief \<Rightarrow> gate_world \<Rightarrow> gate_world" where
  "setClientWorkspace b w =
     (if \<not> truthy (cb_company b) \<or> cb_id b = [] then w
      else let co = the (cb_company b); w' = w\<lparr>gw_briefs := (gw_briefs w)((co, cb_id b) \<mapsto> b)\<rparr>
           in if truthy (clientIdOf b)
              then let k = (co, the (clientIdOf b))
                   in w'\<lparr>gw_clientIds := (gw_clientIds w)(k \<mapsto> addId (cb_id b) (orElse (gw_clientIds w k) []))\<rparr>
              else w')"

definition getClientWorkspacesByClientId :: "gate_world \<Rightarrow> ident \<Rightarrow> ident \<Rightarrow> client_brief list" where
  "getClientWorkspacesByClientId w idClient idCompany =
     List.map_filter (\<lambda>i. gw_briefs w (idCompany, i)) (orElse (gw_clientIds w (idCompany, idClient)) [])"

text \<open>A \<open>Map\<close> by workspace and id: a key keeps its place and takes the last value.\<close>

definition mergeBriefs :: "client_brief list \<Rightarrow> client_brief list" where
  "mergeBriefs bs = map snd (fold (\<lambda>b. AList.update (cb_workspace b @ '':'' @ cb_id b) b) bs [])"

text \<open>The cache, then always the clients service too.\<close>

definition getClientWorkspacesByClientIds ::
  "gate_env \<Rightarrow> ident list \<Rightarrow> ident \<Rightarrow> gate_world \<Rightarrow> client_brief list \<times> gate_world" where
  "getClientWorkspacesByClientIds G clientIds idCompany w =
     (let valid = filter (\<lambda>i. trim i \<noteq> []) clientIds;
          known = concat (map (\<lambda>c. getClientWorkspacesByClientId w c idCompany) valid)
      in if valid = [] then ([], w)
         else case gt_clients G valid idCompany of
             None \<Rightarrow> ([], w)
           | Some fetched \<Rightarrow> (mergeBriefs (known @ fetched), fold setClientWorkspace fetched w))"

definition createClientWorkspace :: "gate_env \<Rightarrow> ident \<Rightarrow> ident \<Rightarrow> ident \<Rightarrow> gate_world \<Rightarrow> client_brief option \<times> gate_world" where
  "createClientWorkspace G idClient idWorkspace idCompany w =
     (case gt_createClient G idClient idWorkspace idCompany of
        None \<Rightarrow> (None, w)
      | Some b \<Rightarrow> (Some b, setClientWorkspace b w))"

definition ResolveClientWorkspace :: "gate_env \<Rightarrow> gate_ctx \<Rightarrow> customer guard" where
  "ResolveClientWorkspace G ctx =
     (\<lambda>w. let inp = gx_input ctx; bad = (\<lambda>m. endBadRequest 400 m ''BookingGuards.ResolveClientWorkspace'') in
      if \<not> truthy (bi_customer inp) then bad ''No se pudo resolver el cliente'' w
      else if bi_company inp = [] then bad ''No se pudo resolver el company del cliente'' w
      else case (case getClientWorkspacesByClientIds G [the (bi_customer inp)] (bi_company inp) w of
                   ([], w') \<Rightarrow> createClientWorkspace G (the (bi_customer inp)) (bi_workspace inp) (bi_company inp) w'
                 | (b # _, w') \<Rightarrow> (Some b, w')) of
          (None, w') \<Rightarrow> bad ''No se pudo resolver el cliente en el workspace'' w'
        | (Some b, w') \<Rightarrow>
            if cb_id b = [] then bad ''No se pudo resolver el cliente en el workspace'' w'
            else if cb_banned b \<or> cb_clientBanned b then bad ''El cliente esta baneado en el workspace'' w'
            else pass \<lparr>cu_id = (if truthy (cb_client b) then the (cb_client b) else the (bi_customer inp)), cu_clientWs = cb_id b\<rparr> w')"

subsection \<open>The rules of time\<close>

definition EnforceTimeRules :: "gate_env \<Rightarrow> gate_ctx \<Rightarrow> booking_when guard" where
  "EnforceTimeRules G ctx =
     (let Z = e_tz (gt_env G); now = e_now (gt_env G); tz = gx_tz ctx; bw = orElse (wc_window (gx_config ctx)) emptyWindow;
          minLead = max 0 (orElse (wn_minLead bw) 0); maxAdv = max 0 (orElse (wn_maxAdvance bw) 365);
          bad = (\<lambda>m. endBadRequest 400 m ''BookingGuards.EnforceTimeRules'') in
      case z_parse Z (bi_start (gx_input ctx)) (bi_tzClient (gx_input ctx)) of
        None \<Rightarrow> bad ''startLocalISO invalido''
      | Some t \<Rightarrow>
          if z_sod Z tz t < z_sod Z tz now then bad ''El dia seleccionado ya ha pasado en el huso horario del negocio.''
          else if t < addMinutes now minLead then bad ''La hora seleccionada ya no esta disponible por lead time.''
          else if t > z_eod Z tz (z_addDays Z tz now maxAdv) then bad ''Fuera de la ventana de reserva permitida.''
          else pass \<lparr>wh_start = t, wh_end = addMinutes t (sumDurations (bi_attendees (gx_input ctx)))\<rparr>)"

subsection \<open>The limits of a client\<close>

text \<open>The bookings of a client that meet a span: the groups of its active participations, live ones, counted once.\<close>

definition CANCELLED_GROUP_STATUSES :: "event_status list" where
  "CANCELLED_GROUP_STATUSES = [CANCELLED, CANCELLED_BY_CLIENT, CANCELLED_BY_CLIENT_REMOVED]"

definition bookingInSpan :: "instant \<Rightarrow> instant \<Rightarrow> group_row \<Rightarrow> bool" where
  "bookingInSpan s e g \<longleftrightarrow> gr_deleted g = None \<and> gr_start g < e \<and> gr_end g > s \<and> gr_status g \<notin> set CANCELLED_GROUP_STATUSES"

definition bookingIds :: "db \<Rightarrow> ident \<Rightarrow> instant \<Rightarrow> instant \<Rightarrow> ident list" where
  "bookingIds d cws s e =
     uniq (map pt_group (filter (\<lambda>p. pt_clientWs p = Some cws \<and> pt_deleted p = None \<and> pt_group p \<noteq> [] \<and>
       (case groupById d (pt_group p) of Some g \<Rightarrow> bookingInSpan s e g | None \<Rightarrow> False)) (participants d)))"

definition EnforceUserLimits :: "gate_env \<Rightarrow> gate_ctx \<Rightarrow> customer \<Rightarrow> booking_when \<Rightarrow> unit guard" where
  "EnforceUserLimits G ctx cust wh =
     (\<lambda>w. let lim = orElse (wc_limits (gx_config ctx)) emptyLimits; Z = e_tz (gt_env G); d = w_db (gw_world w);
           maxServices = orElse (lm_maxServices lim) 1; perDay = orElse (lm_perDay lim) 1; concurrent = orElse (lm_concurrent lim) 0;
           n = length (bi_attendees (gx_input ctx)); place = ''BookingGuards.EnforceUserLimits'' in
      if maxServices > 0 \<and> int n > maxServices then endBadRequest 400 (''Solo se permiten '' @ showNat (nat maxServices) @ '' servicio(s) por reserva.'') place w
      else
        let day = length (bookingIds d (cu_clientWs cust) (z_sod Z (gx_tz ctx) (wh_start wh)) (z_eod Z (gx_tz ctx) (wh_start wh)));
            same = length (bookingIds d (cu_clientWs cust) (wh_start wh) (wh_end wh));
            reasons = (if perDay > 0 \<and> int day \<ge> perDay then [''Has alcanzado el maximo de reservas por dia ('' @ showNat day @ ''/'' @ showNat (nat perDay) @ '').''] else []) @
                      (if concurrent > 0 \<and> int same \<ge> concurrent then [''Limite de reservas simultaneas alcanzado ('' @ showNat same @ ''/'' @ showNat (nat concurrent) @ '').''] else [])
        in if reasons \<noteq> [] then endBadRequest 409 (joinWith '' '' reasons) place w else pass () w)"

section \<open>Routes\<close>

datatype 'a route_answer = GuardRefused refusal | Answered "'a endpoint_answer" | RouteFailed app_error

definition guarded :: "'a guard \<Rightarrow> ('a \<Rightarrow> gate_world \<Rightarrow> 'b route_answer \<times> gate_world) \<Rightarrow> gate_world \<Rightarrow> 'b route_answer \<times> gate_world" where
  "guarded m k w = (case m w of (Inl r, w') \<Rightarrow> (GuardRefused r, w') | (Inr x, w') \<Rightarrow> k x w')"

text \<open>The controller answers what the service answers; an exception is a 500.\<close>

definition serve :: "'a endpoint_answer req \<Rightarrow> gate_world \<Rightarrow> 'a route_answer \<times> gate_world" where
  "serve m w = (case m (gw_world w) of
     (Inl e, v) \<Rightarrow> (RouteFailed e, w\<lparr>gw_world := v\<rparr>)
   | (Inr a, v) \<Rightarrow> (Answered a, w\<lparr>gw_world := v\<rparr>))"

definition okAnswer :: "string \<Rightarrow> 'a \<Rightarrow> 'a endpoint_answer" where
  "okAnswer message item = \<lparr>ea_status = 200, ea_ok = True, ea_message = message, ea_code = None, ea_item = Some item\<rparr>"

definition badAnswer :: "int \<Rightarrow> string \<Rightarrow> 'a endpoint_answer" where
  "badAnswer status message = \<lparr>ea_status = status, ea_ok = False, ea_message = message, ea_code = None, ea_item = None\<rparr>"

text \<open>What the command service makes of the context. A limit below one admits no booking of a service.\<close>

definition buildServicePayload :: "gate_ctx \<Rightarrow> customer \<Rightarrow> add_input" where
  "buildServicePayload ctx cust =
     (let inp = gx_input ctx in
      \<lparr>in_company = bi_company inp, in_workspace = bi_workspace inp, in_tzClient = bi_tzClient inp, in_start = bi_start inp,
       in_attendees = bi_attendees inp, in_exclude = bi_exclude inp, in_note = bi_note inp, in_commentRead = bi_commentRead inp,
       in_customer = cust, in_source = None\<rparr>)"

definition updatePayload :: "gate_ctx \<Rightarrow> customer \<Rightarrow> update_input" where
  "updatePayload ctx cust =
     (let a = buildServicePayload ctx cust in
      \<lparr>in_company = in_company a, in_workspace = in_workspace a, in_tzClient = in_tzClient a, in_start = in_start a,
       in_attendees = in_attendees a, in_exclude = in_exclude a, in_note = in_note a, in_commentRead = in_commentRead a,
       in_customer = in_customer a, in_source = in_source a, up_event = orElse (bi_event (gx_input ctx)) [],
       up_deleted = orElse (bi_deleted (gx_input ctx)) []\<rparr>)"

definition bookingDeps :: "gate_ctx \<Rightarrow> add_deps" where
  "bookingDeps ctx = \<lparr>dp_tz = gx_tz ctx, dp_weights = wc_resources (gx_config ctx),
     dp_maxServices = map_option nat (Option.bind (wc_limits (gx_config ctx)) lm_maxServices), dp_autoConfirm = None\<rparr>"

text \<open>The guards shared by the routes of the client.\<close>

definition clientOf :: "gate_env \<Rightarrow> booking_input guard \<Rightarrow> (gate_ctx \<times> customer) guard" where
  "clientOf G body =
     thenGuard body (\<lambda>inp.
     thenGuard (ResolveWorkspace G inp) (\<lambda>ctx.
     thenGuard (ResolveClientWorkspace G ctx) (\<lambda>cust. pass (ctx, cust))))"

definition addGuards :: "gate_env \<Rightarrow> raw_body \<Rightarrow> (gate_ctx \<times> customer) guard" where
  "addGuards G p =
     thenGuard (clientOf G (BaseValidationAndNormalize p)) (\<lambda>(ctx, cust).
     thenGuard (EnforceTimeRules G ctx) (\<lambda>wh.
     thenGuard (EnforceUserLimits G ctx cust wh) (\<lambda>_. pass (ctx, cust))))"

definition clientAdd :: "gate_env \<Rightarrow> raw_body \<Rightarrow> gate_world \<Rightarrow> add_response route_answer \<times> gate_world" where
  "clientAdd G p = guarded (addGuards G p) (\<lambda>(ctx, cust).
     serve (addFromWeb (gt_env G) (buildServicePayload ctx cust) (bookingDeps ctx) (wb_autoConfirm (gx_workspace ctx))))"

text \<open>An update is not subject to the limits.\<close>

definition updateGuards :: "gate_env \<Rightarrow> raw_body \<Rightarrow> (gate_ctx \<times> customer) guard" where
  "updateGuards G p =
     thenGuard (clientOf G (BaseValidationAndNormalize p)) (\<lambda>(ctx, cust).
     thenGuard (EnforceTimeRules G ctx) (\<lambda>_. pass (ctx, cust)))"

definition clientUpdate :: "gate_env \<Rightarrow> raw_body \<Rightarrow> gate_world \<Rightarrow> update_item route_answer \<times> gate_world" where
  "clientUpdate G p = guarded (updateGuards G p) (\<lambda>(ctx, cust).
     serve (updateFromWeb (gt_env G) (updatePayload ctx cust) (bookingDeps ctx)))"

text \<open>The identifiers of these two come from the body, not from the context.\<close>

definition clientCancel :: "gate_env \<Rightarrow> raw_body \<Rightarrow> gate_world \<Rightarrow> action_result route_answer \<times> gate_world" where
  "clientCancel G p = guarded (clientOf G (BaseContextSimple p)) (\<lambda>(ctx, cust).
     serve (ebind (cancelEventFromWeb (gt_env G) (rb_event p) (cu_clientWs cust) (the (rb_workspace p)))
              (\<lambda>r. eret (okAnswer ''Evento cancelado'' r))))"

definition clientConfirm :: "gate_env \<Rightarrow> raw_body \<Rightarrow> gate_world \<Rightarrow> action_result route_answer \<times> gate_world" where
  "clientConfirm G p = guarded (clientOf G (BaseContextSimple p)) (\<lambda>(ctx, cust).
     serve (ebind (confirmEventFromWeb (gt_env G) (rb_event p) (cu_clientWs cust) (the (rb_workspace p)))
              (\<lambda>r. eret (okAnswer ''Evento confirmado'' r))))"

definition clientAppointments ::
  "gate_env \<Rightarrow> raw_body \<Rightarrow> booking_scope \<Rightarrow> js_number option \<Rightarrow> js_number option \<Rightarrow> gate_world
   \<Rightarrow> bookings_page route_answer \<times> gate_world" where
  "clientAppointments G p scope page items = guarded (clientOf G (BaseContextSimple p)) (\<lambda>(ctx, cust).
     serve (ebind (eread (\<lambda>w. getFromWeb (w_db w) (e_now (gt_env G)) scope page items (cu_clientWs cust) (bi_workspace (gx_input ctx))))
              (\<lambda>r. eret (okAnswer ''Eventos encontrados'' r))))"

definition clientAppointment_of ::
  "gate_env \<Rightarrow> raw_body \<Rightarrow> ident option \<Rightarrow> gate_world \<Rightarrow> client_appointment route_answer \<times> gate_world" where
  "clientAppointment_of G p bookingId = guarded (clientOf G (BaseContextSimple p)) (\<lambda>(ctx, cust).
     if \<not> truthy bookingId then (\<lambda>w. (Answered (badAnswer 400 ''No se pudo resolver bookingId, idWorkspace o idClientWorkspace''), w))
     else serve (ebind (eread (\<lambda>w. getEventByGroupId (w_db w) (the bookingId) (cu_clientWs cust) (the (rb_workspace p)))) (\<lambda>found.
       eret (case found of None \<Rightarrow> badAnswer 404 ''Cita no encontrada'' | Some b \<Rightarrow> okAnswer ''Cita encontrada'' b))))"

section \<open>Availability\<close>

definition configTimes :: "workspace_config \<Rightarrow> times_config" where
  "configTimes c =
     (let b = orElse (wc_window c) emptyWindow in
      \<lparr>tc_maxAdvanceDays = wn_maxAdvance b, tc_minLeadTimeMin = wn_minLead b, tc_alignMode = wc_align c, tc_stepMinutes = wc_step c,
       tc_resources = map_option (map fst) (wc_resources c), tc_useBizFallback = wc_useBizFallback c\<rparr>)"

definition availableTimesInput :: "raw_body \<Rightarrow> ident option \<Rightarrow> ident \<Rightarrow> times_input" where
  "availableTimesInput p idClient tz =
     \<lparr>ti_company = the (rb_company p), ti_workspace = the (rb_workspace p), ti_tzWorkspace = tz,
      ti_tzClient = orElse (rb_timezone p) [], ti_date = orElse (rb_date p) [],
      ti_attendees = map attendeeOf (orElse (rb_attendees p) []), ti_exclude = rb_exclude p, ti_client = idClient\<rparr>"

definition availableTimes :: "gate_env \<Rightarrow> raw_body \<Rightarrow> ident option \<Rightarrow> gate_world \<Rightarrow> times_answer route_answer \<times> gate_world" where
  "availableTimes G p idClient =
     guarded (thenGuard (BaseValidationAndNormalize p) (ResolveWorkspace G)) (\<lambda>ctx.
       if \<not> (case rb_date p of Some d \<Rightarrow> isDayText d | None \<Rightarrow> False)
       then (\<lambda>w. (Answered (badAnswer 400 ''date debe ser YYYY-MM-DD''), w))
       else if \<not> truthy (rb_timezone p) then (\<lambda>w. (Answered (badAnswer 400 ''Falta timezone''), w))
       else serve (ebind (publicGetAvailableTimeSlots (gt_env G) (availableTimesInput p idClient (gx_tz ctx)) (configTimes (gx_config ctx)))
              (\<lambda>r. eret (okAnswer ''Horarios disponibles'' r))))"

text \<open>The days read the configuration as it is: one that is a text has no members.\<close>

definition daysConfig :: "workspace_brief \<Rightarrow> workspace_config" where
  "daysConfig b = (case wb_config b of Some c \<Rightarrow> c
     | None \<Rightarrow> (case wb_general b of ConfigObject c \<Rightarrow> c | _ \<Rightarrow> emptyConfig))"

definition availableDays ::
  "gate_env \<Rightarrow> raw_body \<Rightarrow> ident option \<Rightarrow> (string \<times> string) option \<Rightarrow> ident \<Rightarrow>
   (ident list \<Rightarrow> ident \<Rightarrow> string \<Rightarrow> string \<Rightarrow> temporary_hours) \<Rightarrow> gate_world
   \<Rightarrow> (day_flag list route_answer \<times> gate_world) option" where
  "availableDays G p idClient rng serverZone temporary w =
     (case getWorkspacesByIds G [orElse (rb_workspace p) []] w of
        ([], w') \<Rightarrow> Some (Answered (badAnswer 400 ''Workspace no encontrado para el idWorkspace enviado''), w')
      | (b # _, w') \<Rightarrow>
          if wb_id b = [] then Some (Answered (badAnswer 400 ''Workspace no encontrado para el idWorkspace enviado''), w')
          else let w1 = setWorkspace b w';
                   inp = \<lparr>di_company = orElse (rb_company p) [], di_workspace = orElse (rb_workspace p) [], di_tzWorkspace = wb_timeZone b,
                          di_range = rng, di_attendees = map attendeeOf (orElse (rb_attendees p) []), di_exclude = rb_exclude p,
                          di_client = idClient, di_serverZone = serverZone, di_temporary = temporary\<rparr>
               in map_option (\<lambda>(r, v). (case r of Inl e \<Rightarrow> RouteFailed e | Inr days \<Rightarrow> Answered (okAnswer ''Dias disponibles'' days),
                      w1\<lparr>gw_world := v\<rparr>))
                  (publicGetAvailableDays (gt_env G) inp (configTimes (daysConfig b)) (gw_world w1)))"

end
