(* ===== verification/CalGateProps.thy ===== *)
theory CalGateProps
  imports CalGate CalBookingProps
begin

text \<open>
  Properties of the guards and of the routes of the client: the rules are decided exactly, the limits hold after a
  booking, the slots offered against the rules of time, and what the guards let through.
\<close>

section \<open>What a guarded booking must satisfy\<close>

definition startOf_booking :: "gate_env \<Rightarrow> gate_ctx \<Rightarrow> instant option" where
  "startOf_booking G ctx = z_parse (e_tz (gt_env G)) (bi_start (gx_input ctx)) (bi_tzClient (gx_input ctx))"

definition configWindow :: "gate_ctx \<Rightarrow> window_config" where
  "configWindow ctx = orElse (wc_window (gx_config ctx)) emptyWindow"

definition configLimits :: "gate_ctx \<Rightarrow> limits_config" where
  "configLimits ctx = orElse (wc_limits (gx_config ctx)) emptyLimits"

definition withinRules :: "gate_env \<Rightarrow> gate_ctx \<Rightarrow> instant \<Rightarrow> bool" where
  "withinRules G ctx t \<longleftrightarrow>
     (let Z = e_tz (gt_env G); now = e_now (gt_env G); tz = gx_tz ctx in
      z_sod Z tz now \<le> z_sod Z tz t \<and>
      addMinutes now (max 0 (orElse (wn_minLead (configWindow ctx)) 0)) \<le> t \<and>
      t \<le> z_eod Z tz (z_addDays Z tz now (max 0 (orElse (wn_maxAdvance (configWindow ctx)) 365))))"

text \<open>The bookings of a client that meet a span: live groups in which it has an active participation.\<close>

definition liveBookings :: "db \<Rightarrow> ident \<Rightarrow> instant \<Rightarrow> instant \<Rightarrow> ident set" where
  "liveBookings d cws s e =
     {g. g \<noteq> [] \<and> (\<exists>r. groupById d g = Some r \<and> bookingInSpan s e r) \<and>
         (\<exists>p \<in> set (participants d). pt_group p = g \<and> pt_clientWs p = Some cws \<and> pt_deleted p = None)}"

definition withinLimits :: "gate_env \<Rightarrow> gate_ctx \<Rightarrow> customer \<Rightarrow> instant \<Rightarrow> db \<Rightarrow> bool" where
  "withinLimits G ctx cust t d \<longleftrightarrow>
     (let lim = configLimits ctx; Z = e_tz (gt_env G); tz = gx_tz ctx; as = bi_attendees (gx_input ctx);
          maxServices = orElse (lm_maxServices lim) 1; perDay = orElse (lm_perDay lim) 1; concurrent = orElse (lm_concurrent lim) 0 in
      \<not> (maxServices > 0 \<and> int (length as) > maxServices) \<and>
      \<not> (perDay > 0 \<and> int (card (liveBookings d (cu_clientWs cust) (z_sod Z tz t) (z_eod Z tz t))) \<ge> perDay) \<and>
      \<not> (concurrent > 0 \<and> int (card (liveBookings d (cu_clientWs cust) t (addMinutes t (sumDurations as)))) \<ge> concurrent))"

definition bookingAllowed :: "gate_env \<Rightarrow> gate_ctx \<Rightarrow> customer \<Rightarrow> db \<Rightarrow> bool" where
  "bookingAllowed G ctx cust d \<longleftrightarrow>
     (case startOf_booking G ctx of None \<Rightarrow> False | Some t \<Rightarrow> withinRules G ctx t \<and> withinLimits G ctx cust t d)"

section \<open>Lemmas on the guards\<close>

lemma bookingIds_set: "set (bookingIds d cws s e) = liveBookings d cws s e"
  by (force simp: bookingIds_def liveBookings_def split: option.splits)

lemma bookingIds_length: "length (bookingIds d cws s e) = card (liveBookings d cws s e)"
proof -
  have "distinct (bookingIds d cws s e)" by (simp add: bookingIds_def)
  then show ?thesis using distinct_card bookingIds_set by metis
qed

lemma endBadRequest_run [simp]:
  "snd (endBadRequest st m place w) = w" "fst (endBadRequest st m place w) \<noteq> Inr x"
  by (simp_all add: endBadRequest_def)

lemma pass_run [simp]: "pass x w = (Inr x, w)"
  by (simp add: pass_def)

lemma EnforceTimeRules_exact:
  "case startOf_booking G ctx of
     Some t \<Rightarrow> (if withinRules G ctx t
        then EnforceTimeRules G ctx w = (Inr \<lparr>wh_start = t, wh_end = addMinutes t (sumDurations (bi_attendees (gx_input ctx)))\<rparr>, w)
        else \<exists>r. EnforceTimeRules G ctx w = (Inl r, w))
   | None \<Rightarrow> \<exists>r. EnforceTimeRules G ctx w = (Inl r, w)"
  by (auto simp: startOf_booking_def withinRules_def EnforceTimeRules_def configWindow_def Let_def endBadRequest_def
      split: option.splits)

lemma EnforceUserLimits_exact:
  "if withinLimits G ctx cust t (w_db (gw_world w))
   then EnforceUserLimits G ctx cust \<lparr>wh_start = t, wh_end = addMinutes t (sumDurations (bi_attendees (gx_input ctx)))\<rparr> w = (Inr (), w)
   else \<exists>r. EnforceUserLimits G ctx cust \<lparr>wh_start = t, wh_end = addMinutes t (sumDurations (bi_attendees (gx_input ctx)))\<rparr> w = (Inl r, w)"
  by (auto simp: withinLimits_def EnforceUserLimits_def configLimits_def Let_def endBadRequest_def bookingIds_length)

lemma addGuards_exact:
  "case fst (clientOf G (BaseValidationAndNormalize p) w) of
     Inl r \<Rightarrow> addGuards G p w = (Inl r, snd (clientOf G (BaseValidationAndNormalize p) w))
   | Inr (ctx, cust) \<Rightarrow>
       (let w1 = snd (clientOf G (BaseValidationAndNormalize p) w) in
        if bookingAllowed G ctx cust (w_db (gw_world w1)) then addGuards G p w = (Inr (ctx, cust), w1)
        else \<exists>r. addGuards G p w = (Inl r, w1))"
proof (cases "clientOf G (BaseValidationAndNormalize p) w")
  case (Pair r w1)
  show ?thesis
  proof (cases r)
    case (Inl e)
    then show ?thesis using Pair by (simp add: addGuards_def thenGuard_def)
  next
    case (Inr cc)
    obtain ctx cust where cc: "cc = (ctx, cust)" by (cases cc)
    note T = EnforceTimeRules_exact[of G ctx w1]
    show ?thesis
    proof (cases "startOf_booking G ctx")
      case None
      then show ?thesis using T Pair Inr cc
        by (auto simp: addGuards_def thenGuard_def bookingAllowed_def Let_def)
    next
      case (Some t)
      show ?thesis using T EnforceUserLimits_exact[of G ctx cust t w1] Some Pair Inr cc
        by (auto simp: addGuards_def thenGuard_def bookingAllowed_def Let_def split: if_splits)
    qed
  qed
qed


text \<open>The guards write no row: they only fill the caches of workspaces and of clients.\<close>

lemma setWorkspace_world [simp]: "gw_world (setWorkspace b w) = gw_world w"
  by (simp add: setWorkspace_def)

lemma setClientWorkspace_world [simp]: "gw_world (setClientWorkspace b w) = gw_world w"
  by (simp add: setClientWorkspace_def Let_def)

lemma fold_world: "(\<And>b w. gw_world (f b w) = gw_world w) \<Longrightarrow> gw_world (fold f bs w) = gw_world w"
  by (induction bs arbitrary: w) auto

lemma getWorkspacesByIds_world: "gw_world (snd (getWorkspacesByIds G ids w)) = gw_world w"
  by (auto simp: getWorkspacesByIds_def Let_def fold_world split: option.splits)

lemma lookupWorkspace_world: "gw_world (snd (lookupWorkspace G i w)) = gw_world w"
  using getWorkspacesByIds_world[of G "[i]" w]
  by (auto simp: lookupWorkspace_def split: option.splits list.splits prod.splits)

lemma ResolveWorkspace_world: "gw_world (snd (ResolveWorkspace G inp w)) = gw_world w"
  using lookupWorkspace_world[of G "bi_workspace inp" w]
  by (auto simp: ResolveWorkspace_def Let_def split: option.splits prod.splits)

lemma getClientWorkspaces_world: "gw_world (snd (getClientWorkspacesByClientIds G ids co w)) = gw_world w"
  by (auto simp: getClientWorkspacesByClientIds_def Let_def fold_world split: option.splits)

lemma createClientWorkspace_world: "gw_world (snd (createClientWorkspace G c ws co w)) = gw_world w"
  by (auto simp: createClientWorkspace_def split: option.splits)

lemma ResolveClientWorkspace_world: "gw_world (snd (ResolveClientWorkspace G ctx w)) = gw_world w"
proof -
  let ?inp = "gx_input ctx"
  obtain bs w1 where g: "getClientWorkspacesByClientIds G [the (bi_customer ?inp)] (bi_company ?inp) w = (bs, w1)" by fastforce
  obtain c w2 where c: "createClientWorkspace G (the (bi_customer ?inp)) (bi_workspace ?inp) (bi_company ?inp) w1 = (c, w2)" by fastforce
  have "gw_world w1 = gw_world w" "gw_world w2 = gw_world w"
    using getClientWorkspaces_world[of G "[the (bi_customer ?inp)]" "bi_company ?inp" w] g
      createClientWorkspace_world[of G "the (bi_customer ?inp)" "bi_workspace ?inp" "bi_company ?inp" w1] c by auto
  then show ?thesis using g c
    by (cases bs) (auto simp: ResolveClientWorkspace_def Let_def split: option.splits)
qed

lemma thenGuard_world:
  assumes "gw_world (snd (m w)) = gw_world w" and "\<And>x v. gw_world (snd (f x v)) = gw_world v"
  shows "gw_world (snd (thenGuard m f w)) = gw_world w"
  using assms(1) assms(2) unfolding thenGuard_def
  by (auto split: prod.splits sum.splits)

lemma bodies_world:
  "gw_world (snd (BaseValidationAndNormalize p w)) = gw_world w" "gw_world (snd (BaseContextSimple p w)) = gw_world w"
  by (auto simp: BaseValidationAndNormalize_def BaseContextSimple_def Let_def)

lemma clientOf_world:
  assumes "gw_world (snd (body w)) = gw_world w"
  shows "gw_world (snd (clientOf G body w)) = gw_world w"
  unfolding clientOf_def
  by (intro thenGuard_world assms ResolveWorkspace_world ResolveClientWorkspace_world) auto

text \<open>C4: a booking of a client reaches the service exactly when the body, the workspace and the client
  resolve and the rules hold: the start reads as a time of a day not past, no sooner than the lead time and no later than the last day of the
  window, the services are not too many, and the client has fewer live bookings on that day, and at that time,
  than the limits of the workspace. Everything else is refused with no row written.\<close>

theorem client_add_gate:
  "\<exists>w1. gw_world w1 = gw_world w \<and>
    (case fst (clientOf G (BaseValidationAndNormalize p) w) of
       Inl r \<Rightarrow> clientAdd G p w = (GuardRefused r, w1)
     | Inr (ctx, cust) \<Rightarrow>
         (if bookingAllowed G ctx cust (w_db (gw_world w))
          then clientAdd G p w = serve (addFromWeb (gt_env G) (buildServicePayload ctx cust) (bookingDeps ctx)
                 (wb_autoConfirm (gx_workspace ctx))) w1
          else \<exists>r. clientAdd G p w = (GuardRefused r, w1)))"
proof -
  let ?w1 = "snd (clientOf G (BaseValidationAndNormalize p) w)"
  have "gw_world ?w1 = gw_world w" by (rule clientOf_world) (rule bodies_world)
  then show ?thesis using addGuards_exact[of G p w]
    by (intro exI[of _ ?w1]) (auto simp: clientAdd_def guarded_def Let_def split: sum.splits prod.splits if_splits)
qed


section \<open>A request on a small database\<close>

definition demo_workspace :: workspace_brief where
  "demo_workspace = \<lparr>wb_id = ''w'', wb_timeZone = ''UTC'', wb_config = None,
     wb_general = ConfigObject (emptyConfig\<lparr>wc_window := Some \<lparr>wn_minLead = Some 30, wn_maxAdvance = Some 7, wn_cutoff = None\<rparr>\<rparr>),
     wb_autoConfirm = None\<rparr>"

definition demo_client :: "ident \<Rightarrow> ident \<Rightarrow> bool \<Rightarrow> client_brief" where
  "demo_client k ws bad = \<lparr>cb_id = k, cb_client = Some ''ck2'', cb_workspace = ws, cb_company = Some ''co'', cb_banned = bad,
     cb_clientBanned = False, cb_nestedClient = None\<rparr>"

definition demo_gate :: "client_brief list \<Rightarrow> gate_env" where
  "demo_gate cs = \<lparr>gt_env = demo_env 1, gt_workspaces = (\<lambda>ids. Some [demo_workspace]), gt_clients = (\<lambda>ids co. Some cs),
     gt_createClient = (\<lambda>c ws co. None), gt_parseConfig = (\<lambda>s. None), gt_nodeEnv = ''production'', gt_integrations = None\<rparr>"

definition demo_gate_world :: gate_world where
  "demo_gate_world = \<lparr>gw_world = demo_world (demo_db 1 ACCEPTED demo_ps), gw_workspaces = Map.empty, gw_briefs = Map.empty,
     gw_clientIds = Map.empty\<rparr>"

definition demo_body :: "raw_body" where
  "demo_body = \<lparr>rb_company = Some ''co'', rb_workspace = Some ''w'', rb_start = Some ''1970-01-01T10:00:00'', rb_tzClient = Some ''UTC'',
     rb_date = None, rb_timezone = None, rb_time = None,
     rb_attendees = Some [\<lparr>ra_service = Some ''yoga'', ra_duration = Some 60, ra_staff = None, ra_category = None\<rparr>],
     rb_exclude = None, rb_note = None, rb_commentRead = None, rb_customer = Some ''ck2'', rb_event = None, rb_deleted = None,
     rb_overrides = None\<rparr>"

definition demo_context :: "bool \<Rightarrow> gate_ctx" where
  "demo_context whole = \<lparr>gx_input = \<lparr>bi_company = ''co'', bi_workspace = ''w'', bi_start = (if whole then ''1970-01-01T10:00:00'' else []),
       bi_tzClient = (if whole then ''UTC'' else []), bi_attendees = (if whole then [demo_attendee] else []), bi_exclude = None,
       bi_note = None, bi_commentRead = None, bi_customer = Some ''ck2'', bi_event = None, bi_deleted = None, bi_overrides = None\<rparr>,
     gx_workspace = demo_workspace, gx_config = emptyConfig\<lparr>wc_window := Some \<lparr>wn_minLead = Some 30, wn_maxAdvance = Some 7, wn_cutoff = None\<rparr>\<rparr>,
     gx_tz = ''UTC''\<rparr>"

lemma demo_add_guards:
  "fst (addGuards (demo_gate [demo_client ''k2'' ''w'' False]) demo_body demo_gate_world) =
     Inr (demo_context True, \<lparr>cu_id = ''ck2'', cu_clientWs = ''k2''\<rparr>)"
  by code_simp

lemma demo_cancel_guards:
  "clientOf (demo_gate [demo_client ''k1'' ''w'' False]) (BaseContextSimple demo_body) demo_gate_world =
     (Inr (demo_context False, \<lparr>cu_id = ''ck2'', cu_clientWs = ''k1''\<rparr>),
      snd (clientOf (demo_gate [demo_client ''k1'' ''w'' False]) (BaseContextSimple demo_body) demo_gate_world))"
proof -
  have "fst (clientOf (demo_gate [demo_client ''k1'' ''w'' False]) (BaseContextSimple demo_body) demo_gate_world) =
     Inr (demo_context False, \<lparr>cu_id = ''ck2'', cu_clientWs = ''k1''\<rparr>)" by code_simp
  then show ?thesis by (metis prod.collapse)
qed

lemma demo_gate_fields [simp]:
  "gt_env (demo_gate cs) = demo_env 1" "w_db (gw_world demo_gate_world) = demo_db 1 ACCEPTED demo_ps" "e_tz (demo_env 1) = utc_tz"
  by (simp_all add: demo_gate_def demo_gate_world_def demo_world_def demo_env_def)

lemma utc_days_monotone: "a \<le> b \<Longrightarrow> z_sod utc_tz tz a \<le> z_sod utc_tz tz b"
  by (simp add: utc_tz_def minus_mod_eq_mult_div zdiv_mono1)

section \<open>The limits after the booking\<close>

text \<open>A step that concerns one group: participants are added to it alone, and the other groups stay as they are.\<close>

definition onlyGroup :: "ident \<Rightarrow> db \<Rightarrow> db \<Rightarrow> bool" where
  "onlyGroup k d d' \<longleftrightarrow>
     (\<forall>p \<in> set (participants d'). p \<in> set (participants d) \<or> pt_group p = k) \<and>
     (\<forall>g. g \<noteq> k \<longrightarrow> groupById d' g = groupById d g)"

lemma onlyGroup_trans: "onlyGroup k d d1 \<Longrightarrow> onlyGroup k d1 d2 \<Longrightarrow> onlyGroup k d d2"
  by (auto simp: onlyGroup_def)

lemma onlyGroup_rows: "sameRows d d' \<Longrightarrow> onlyGroup k d d'"
  by (simp add: onlyGroup_def sameRows_def groupById_def)

lemma onlyGroup_participant: "createParticipant (newParticipant k c st) d = Inr (x, d') \<Longrightarrow> onlyGroup k d d'"
  by (auto simp: onlyGroup_def createParticipant_Inr newParticipant_def groupById_def)

lemma onlyGroup_group: "createGroup i g d = Inr (g', d') \<Longrightarrow> onlyGroup (gr_id g') d d'"
  by (cases i) (auto simp: onlyGroup_def createGroup_Inr groupById_def find_append split: option.splits)

lemma groupById_other:
  assumes "g \<noteq> k" and "\<And>r. gr_id (f r) = gr_id r"
  shows "groupById (d\<lparr>groups := updateWhere (\<lambda>x. gr_id x = k) f (groups d)\<rparr>) g = groupById d g"
proof (cases "groupById d g")
  case (Some r)
  then show ?thesis using groupById_Some[OF Some] assms by (simp add: groupById_def find_updateWhere_key[of gr_id])
qed (use assms in \<open>simp add: groupById_def find_updateWhere_key[of gr_id]\<close>)

lemma onlyGroup_dates: "syncGroupStartEndDates k d = Inr (x, d') \<Longrightarrow> onlyGroup k d d'"
  by (auto simp: syncGroupStartEndDates_def andThen_Inr_iff onlyGroup_def updateGroup_Inr groupById_other split: option.splits)

lemma onlyGroup_ensure: "ensureGroup P svc seg d = Inr (k, d') \<Longrightarrow> onlyGroup k d d'"
proof (cases "truthy (bp_group P) \<and> groupById d (the (bp_group P)) \<noteq> None")
  case True
  assume "ensureGroup P svc seg d = Inr (k, d')"
  then show ?thesis using True
    by (auto simp: ensureGroup_def andThen_Inr_iff Let_def onlyGroup_rows sameRows_def dest: onlyGroup_participant split: if_splits)
next
  case False
  assume e: "ensureGroup P svc seg d = Inr (k, d')"
  have "(if truthy (bp_group P) then groupById d (the (bp_group P)) else None) = None" using False by auto
  then show ?thesis using e
    by (auto simp: ensureGroup_def andThen_Inr_iff Let_def intro: onlyGroup_trans[OF onlyGroup_group onlyGroup_participant])
qed

lemma onlyGroup_step:
  assumes "createOrJoinGroupEvent P svc seg d = Inr (c, d')"
  shows "\<exists>k. onlyGroup k d d'"
  using assms
proof (cases rule: createOrJoin_Inr)
  case (join e)
  from joinExisting_Inr[OF join(2)] show ?thesis
    using onlyGroup_participant onlyGroup_rows[of d d] unfolding sameRows_def by metis
next
  case create
  then obtain k d1 e d2 where g: "ensureGroup P svc seg d = Inr (k, d1)"
    and e: "createEvent (newEvent (bp_company P) svc seg k) d1 = Inr (e, d2)"
    and s: "syncGroupStartEndDates k d2 = Inr ((), d')"
    by (auto simp: createInGroup_def andThen_Inr_iff)
  have "onlyGroup k d1 d2" using e by (simp add: createEvent_Inr onlyGroup_def groupById_def)
  then show ?thesis using onlyGroup_trans onlyGroup_ensure[OF g] onlyGroup_dates[OF s] by blast
qed

lemma onlyGroup_live: "onlyGroup k d d' \<Longrightarrow> liveBookings d' cws s e \<subseteq> insert k (liveBookings d cws s e)"
  by (auto simp: onlyGroup_def liveBookings_def)

lemma liveBookings_finite: "finite (liveBookings d cws s e)"
  using bookingIds_set[symmetric] by simp

lemma onlyGroup_card:
  assumes "onlyGroup k d d'"
  shows "card (liveBookings d' cws s e) \<le> Suc (card (liveBookings d cws s e))"
  by (rule order.trans[OF card_mono[OF _ onlyGroup_live[OF assms]]]) (simp_all add: liveBookings_finite card_insert_if)

lemma add_one_group:
  assumes "wfDb (w_db w)" and "length (in_attendees inp) = 1"
  shows "\<exists>k. onlyGroup k (w_db w) (w_db (snd (addEventFromWeb E inp deps w)))"
proof (cases rule: addBody_cases[of w E inp deps])
  case none
  then show ?thesis using onlyGroup_rows by (simp add: addEventFromWeb_parts)
next
  case (finished sv segs g d1 items)
  let ?P = "bookingParams inp deps g" and ?d' = "w_db (snd (addEventFromWebBody E inp deps w))"
  obtain seg where "segs = [seg]" using finished(2) assms(2) by (cases segs) auto
  then obtain c d2 where st: "createEventsForSegment sv ?P seg d1 = Inr (c, d2)" and sy: "syncGroupIds [c] d2 = Inr (items, ?d')"
    using finished(4) by (auto simp: createEventsForAssignment_def createAssignmentsAndSyncGroupId_def andThen_Inr_iff)
  have "wfDb d1 \<and> groupIdReserved ?P d1"
    using tookId_wf tookId_reserved(1) finished(1) assms(1) by simp
  then have "wfDb d2" using bs.keeps[OF _ st] by blast
  then have "?d' = d2" using syncGroupIds_one[of d2 c] bs.item_stored[OF st] sy by simp
  moreover obtain k where "onlyGroup k d1 d2" using st onlyGroup_step unfolding forSegment_Inr by metis
  ultimately show ?thesis
    unfolding addEventFromWeb_parts using onlyGroup_trans onlyGroup_rows[OF tookId_rows[OF finished(1)]] by metis
qed

lemma addFromWeb_db: "w_db (snd (addFromWeb E inp deps auto w)) =
    w_db (snd (addEventFromWeb E inp (deps\<lparr>dp_autoConfirm := Some (orElse auto True)\<rparr>) w))"
  by (auto simp: addFromWeb_def ebind_def eret_def split: prod.splits sum.splits option.splits)


text \<open>C5: after a booking of one service that the guards let through, whatever the service answers, the
  client has at most as many live bookings on the day of the booking as the workspace allows.\<close>

theorem client_limit_kept:
  assumes "wfDb (w_db (gw_world w))" and "fst (addGuards G p w) = Inr (ctx, cust)"
    and "length (bi_attendees (gx_input ctx)) = 1" and "startOf_booking G ctx = Some t"
    and "perDay = orElse (lm_perDay (configLimits ctx)) 1" and "0 < perDay"
  shows "int (card (liveBookings (w_db (gw_world (snd (clientAdd G p w)))) (cu_clientWs cust)
    (z_sod (e_tz (gt_env G)) (gx_tz ctx) t) (z_eod (e_tz (gt_env G)) (gx_tz ctx) t))) \<le> perDay"
proof -
  let ?w1 = "snd (addGuards G p w)" and ?d = "w_db (gw_world w)"
  let ?s = "z_sod (e_tz (gt_env G)) (gx_tz ctx) t" and ?e = "z_eod (e_tz (gt_env G)) (gx_tz ctx) t"
  have w: "gw_world (snd (clientOf G (BaseValidationAndNormalize p) w)) = gw_world w"
    by (rule clientOf_world) (rule bodies_world)
  have g: "addGuards G p w = (Inr (ctx, cust), ?w1)" using assms(2) by (metis prod.collapse)
  have "bookingAllowed G ctx cust ?d \<and> gw_world ?w1 = gw_world w"
    using addGuards_exact[of G p w] g w by (auto simp: Let_def split: sum.splits prod.splits if_splits)
  then have less: "int (card (liveBookings ?d (cu_clientWs cust) ?s ?e)) < perDay" and w1: "gw_world ?w1 = gw_world w"
    using assms(4-6) by (auto simp: bookingAllowed_def withinLimits_def Let_def)
  let ?deps = "(bookingDeps ctx)\<lparr>dp_autoConfirm := Some (orElse (wb_autoConfirm (gx_workspace ctx)) True)\<rparr>"
  have "w_db (gw_world (snd (clientAdd G p w))) =
      w_db (snd (addEventFromWeb (gt_env G) (buildServicePayload ctx cust) ?deps (gw_world ?w1)))"
    unfolding clientAdd_def guarded_def addFromWeb_db[symmetric]
    by (subst g) (auto simp: serve_def split: prod.splits sum.splits)
  moreover have "length (in_attendees (buildServicePayload ctx cust)) = 1"
    using assms(3) by (simp add: buildServicePayload_def Let_def)
  ultimately obtain k where "onlyGroup k ?d (w_db (gw_world (snd (clientAdd G p w))))"
    using add_one_group[of "gw_world ?w1"] assms(1) w1 by metis
  from onlyGroup_card[OF this, of "cu_clientWs cust" ?s ?e] less show ?thesis by linarith
qed

theorem client_limit_kept_witness:
  "int (card (liveBookings (w_db (gw_world (snd (clientAdd (demo_gate [demo_client ''k2'' ''w'' False]) demo_body demo_gate_world))))
    ''k2'' 0 86399999)) \<le> 1"
proof -
  have "startOf_booking (demo_gate [demo_client ''k2'' ''w'' False]) (demo_context True) = Some 36000000" by code_simp
  moreover have "(1 :: int) = orElse (lm_perDay (configLimits (demo_context True))) 1" "length (bi_attendees (gx_input (demo_context True))) = 1"
    by (simp_all add: configLimits_def demo_context_def emptyConfig_def emptyLimits_def)
  ultimately show ?thesis
    using client_limit_kept[OF _ demo_add_guards, of 36000000 1] demo_wf_ps by (simp add: utc_tz_def)
qed

section \<open>The window of the list and the window of the guard\<close>



section \<open>What the guards let through\<close>

text \<open>The client of the request is the first client of the company that is found, whatever its
  workspace: the ban of the client in the workspace of the request is not looked at, and the booking is made for the
  client of another workspace.\<close>

theorem ban_of_workspace_ignored:
  assumes "bi_customer (gx_input ctx) = Some c" and "c \<noteq> []" and "bi_company (gx_input ctx) \<noteq> []"
    and "getClientWorkspacesByClientIds G [c] (bi_company (gx_input ctx)) w = (b # rest, w')"
    and "cb_id b \<noteq> []" and "\<not> cb_banned b" and "\<not> cb_clientBanned b" and "cb_client b = Some c"
    and "cb_workspace b \<noteq> bi_workspace (gx_input ctx)"
    and "bad \<in> set rest" and "cb_workspace bad = bi_workspace (gx_input ctx)" and "cb_banned bad"
  shows "ResolveClientWorkspace G ctx w = (Inr \<lparr>cu_id = c, cu_clientWs = cb_id b\<rparr>, w')"
  using assms by (simp add: ResolveClientWorkspace_def Let_def)

theorem ban_of_workspace_ignored_witness:
  "fst (ResolveClientWorkspace (demo_gate [demo_client ''k0'' ''w0'' False, demo_client ''k2'' ''w'' True]) (demo_context True)
      demo_gate_world) = Inr \<lparr>cu_id = ''ck2'', cu_clientWs = ''k0''\<rparr>"
proof -
  let ?cs = "[demo_client ''k0'' ''w0'' False, demo_client ''k2'' ''w'' True]"
  have "fst (getClientWorkspacesByClientIds (demo_gate ?cs) [''ck2''] ''co'' demo_gate_world) = ?cs" by code_simp
  then obtain w' where "getClientWorkspacesByClientIds (demo_gate ?cs) [''ck2''] ''co'' demo_gate_world = (?cs, w')"
    by (metis prod.collapse)
  moreover have "bi_customer (gx_input (demo_context True)) = Some ''ck2''" "bi_company (gx_input (demo_context True)) = ''co''"
    "bi_workspace (gx_input (demo_context True)) = ''w''" by (simp_all add: demo_context_def)
  ultimately show ?thesis
    using ban_of_workspace_ignored[of "demo_context True" "''ck2''" "demo_gate ?cs" demo_gate_world "demo_client ''k0'' ''w0'' False"
        "[demo_client ''k2'' ''w'' True]" w' "demo_client ''k2'' ''w'' True"]
    by (simp add: demo_client_def)
qed

text \<open>C37: a request to cancel that names no event cancels the first booking of the client in the
  workspace: the guard does not ask for the event, and an absent one is no condition of the query.\<close>

theorem cancel_without_event:
  assumes "clientOf G (BaseContextSimple p) w = (Inr (ctx, cust), w1)" and "rb_event p = None" and "rb_workspace p = Some ws"
    and "cachedAction (gt_env G) (buildActionCacheKey Cancel ws (cu_clientWs cust) None) (gw_world w) = None"
    and "List.find (\<lambda>e. groupSat (w_db (gw_world w)) (\<lambda>g. gr_workspace g = ws) e \<and>
           list_ex (\<lambda>p. pt_clientWs p = Some (cu_clientWs cust)) (activeParticipants (w_db (gw_world w)) (ev_group e)) \<and>
           ev_deleted e = None) (events (w_db (gw_world w))) = Some e"
    and "\<not> isSeveral e" and "groupById (w_db (gw_world w)) (ev_group e) = Some g"
    and "gr_status g \<notin> {CANCELLED, CANCELLED_BY_CLIENT, CANCELLED_BY_CLIENT_REMOVED}"
    and "List.find (\<lambda>p. pt_clientWs p = Some (cu_clientWs cust)) (activeParticipants (w_db (gw_world w)) (ev_group e)) = Some mine"
    and "pt_status mine \<noteq> CANCELLED_BY_CLIENT"
  shows "\<exists>w'. clientCancel G p w = (Answered (okAnswer ''Evento cancelado'' (actionResult None CANCELLED_BY_CLIENT True)), w') \<and>
    groupById (w_db (gw_world w')) (ev_group e) = Some (g\<lparr>gr_status := CANCELLED_BY_CLIENT\<rparr>)"
proof -
  let ?d = "w_db (gw_world w)"
  have w1: "gw_world w1 = gw_world w" using clientOf_world[of "BaseContextSimple p" w G] bodies_world(2)[of p w] assms(1) by simp
  have found: "actionEvent ?d None (cu_clientWs cust) ws = Some e" using assms(5) by (simp add: actionEvent_def)
  have p: "pt_id mine \<in> pt_id ` set (participants ?d)"
    using find_Some_D[OF assms(9)] by (auto simp: activeParticipants_def)
  have gid: "gr_id g = ev_group e" using groupById_Some[OF assms(7)] by blast
  show ?thesis
    using assms(1-4,6-10) found p gid
    by (simp add: clientCancel_def guarded_def serve_def w1 cancelEventFromWeb_def ecatch_def cancelBody_def Let_def ebind_def
        eread_def cancelWrites_def inTx_def andThen_def setParticipantStatus_def updateParticipant_def setGroupStatus_def
        updateGroup_def actionDone_def emod_def eret_def groupById_def find_updateWhere_key[of gr_id])
qed

theorem cancel_without_event_witness:
  "\<exists>w'. clientCancel (demo_gate [demo_client ''k1'' ''w'' False]) demo_body demo_gate_world =
      (Answered (okAnswer ''Evento cancelado'' (actionResult None CANCELLED_BY_CLIENT True)), w') \<and>
    groupById (w_db (gw_world w')) ''g1'' = Some ((demo_group ACCEPTED)\<lparr>gr_status := CANCELLED_BY_CLIENT\<rparr>)"
proof -
  have e: "\<not> isSeveral (demo_event 1)" "ev_group (demo_event 1) = ''g1''" "ev_deleted (demo_event 1) = None"
    by (simp_all add: isSeveral_def demo_event_def)
  have d: "groupById (demo_db 1 ACCEPTED demo_ps) ''g1'' = Some (demo_group ACCEPTED)"
    "activeParticipants (demo_db 1 ACCEPTED demo_ps) ''g1'' = [demo_participant ''p1'' ''k1'' ACCEPTED]"
    "events (demo_db 1 ACCEPTED demo_ps) = [demo_event 1]"
    by (simp_all add: groupById_def activeParticipants_def demo_db_def demo_group_def demo_ps_def demo_participant_def)
  have g: "gr_status (demo_group ACCEPTED) = ACCEPTED" "gr_workspace (demo_group ACCEPTED) = ''w''"
    "pt_clientWs (demo_participant ''p1'' ''k1'' ACCEPTED) = Some ''k1''" "pt_status (demo_participant ''p1'' ''k1'' ACCEPTED) = ACCEPTED"
    by (simp_all add: demo_group_def demo_participant_def)
  have b: "rb_event demo_body = None" "rb_workspace demo_body = Some ''w''" by (simp_all add: demo_body_def)
  have c: "cachedAction E k (gw_world demo_gate_world) = None" for E k
    by (simp add: cachedAction_def demo_gate_world_def demo_world_def)
  show ?thesis
    using cancel_without_event[OF demo_cancel_guards b, of "demo_event 1" "demo_group ACCEPTED" "demo_participant ''p1'' ''k1'' ACCEPTED"]
    by (simp add: c d e g groupSat_def)
qed

end
