(* ===== verification/CalAbsence.thy ===== *)
theory CalAbsence
  imports CalTemporary
begin

text \<open>
  Absences of the professionals (\<open>features/worker-absence\<close>, \<open>worker-absence.middleware.ts\<close>): each has an event over its
  days; the middleware deletes the exceptions of the hours that lie in them. The state adds the table of the
  absences to the schedule; deleting events takes along the rows that refer to them.
\<close>

section \<open>State\<close>

record absence_row =
  ab_id :: ident
  ab_user :: "ident option"
  ab_company :: ident
  ab_workspace :: ident
  ab_title :: "string option"
  ab_description :: "string option"
  ab_event :: ident
  ab_start :: instant
  ab_end :: instant
  ab_purpose :: purpose_type
  ab_deleted :: "instant option"

record office =
  of_schedule :: schedule
  of_absences :: "absence_row list"

type_synonym 'a office_tx = "(office, 'a) comp"
type_synonym 'a office_req = "(office, 'a) eff"

text \<open>\<open>moment(s)\<close> of a text, in the zone of the server; \<open>None\<close> when invalid.\<close>

record office_env =
  oe_hours :: hours_env
  oe_moment :: "string \<Rightarrow> instant option"

definition onSchedule :: "'a hours_tx \<Rightarrow> 'a office_tx" where
  "onSchedule m = (\<lambda>s. case m (of_schedule s) of Inl e \<Rightarrow> Inl e | Inr (x, t) \<Rightarrow> Inr (x, s\<lparr>of_schedule := t\<rparr>))"

definition officeDb :: "office \<Rightarrow> db" where
  "officeDb s = sd_db (of_schedule s)"

definition inOffice :: "string \<Rightarrow> 'a office_tx \<Rightarrow> 'a office_req" where
  "inOffice name m = (\<lambda>s. case m s of Inl e \<Rightarrow> (Inl (Wrapped name e), s) | Inr (x, t) \<Rightarrow> (Inr x, t))"

text \<open>\<open>event.deleteMany\<close>: the exceptions and the absences of the events go with them.\<close>

definition deleteEventRows :: "(event_row \<Rightarrow> bool) \<Rightarrow> unit office_tx" where
  "deleteEventRows P = modState (\<lambda>s.
     let c = of_schedule s; d = sd_db c; gone = ev_id ` set (filter P (events d)) in
     s\<lparr>of_schedule := c\<lparr>sd_temporary := filter (\<lambda>t. te_event t \<notin> gone) (sd_temporary c),
         sd_db := d\<lparr>events := filter (\<lambda>e. \<not> P e) (events d)\<rparr>\<rparr>,
       of_absences := filter (\<lambda>a. ab_event a \<notin> gone) (of_absences s)\<rparr>)"

section \<open>The service\<close>

text \<open>A body. \<open>ai_other\<close>: members that are no columns.\<close>

record absence_item =
  ai_id :: "ident option"
  ai_event :: "ident option"
  ai_user :: "ident option"
  ai_company :: "ident option"
  ai_workspace :: "ident option"
  ai_title :: "string option"
  ai_description :: "string option"
  ai_start :: "string option"
  ai_end :: "string option"
  ai_purpose :: "purpose_type option"
  ai_other :: bool

definition firstDay :: "office_env \<Rightarrow> absence_item \<Rightarrow> instant option" where
  "firstDay Q p = map_option (z_sod (he_tz (oe_hours Q)) (he_serverZone (oe_hours Q))) (Option.bind (ai_start p) (oe_moment Q))"

definition lastDay :: "office_env \<Rightarrow> absence_item \<Rightarrow> instant option" where
  "lastDay Q p = map_option (z_eod (he_tz (oe_hours Q)) (he_serverZone (oe_hours Q))) (Option.bind (ai_end p) (oe_moment Q))"

definition absenceGroup :: "absence_item \<Rightarrow> instant \<Rightarrow> instant \<Rightarrow> group_row" where
  "absenceGroup p s e = defaultGroup\<lparr>gr_title := orElse (ai_title p) ''Ausencia'', gr_company := orElse (ai_company p) [],
     gr_workspace := the (ai_workspace p), gr_start := s, gr_end := e\<rparr>"

definition absenceEvent :: "absence_item \<Rightarrow> instant \<Rightarrow> instant \<Rightarrow> ident \<Rightarrow> event_row" where
  "absenceEvent p s e g = defaultEvent\<lparr>ev_group := g, ev_title := orElse (ai_title p) ''Ausencia'',
     ev_description := ai_description p, ev_start := s, ev_end := e, ev_user := ai_user p,
     ev_purpose := orElse (ai_purpose p) APPOINTMENT, ev_allDay := True, ev_company := orElse (ai_company p) []\<rparr>"

definition createAbsenceRow :: "absence_item \<Rightarrow> instant \<Rightarrow> instant \<Rightarrow> ident \<Rightarrow> absence_row office_tx" where
  "createAbsenceRow p s e eventId =
     andThen (case ai_id p of Some i \<Rightarrow> ret i | None \<Rightarrow> onSchedule (dbTx freshId)) (\<lambda>i.
     andThen (readState (\<lambda>st. i \<in> ab_id ` set (of_absences st))) (\<lambda>taken.
     if ai_other p then throw prismaRefuses
     else if taken then throw (PrismaError ''P2002'')
     else let a = \<lparr>ab_id = i, ab_user = ai_user p, ab_company = orElse (ai_company p) [], ab_workspace = the (ai_workspace p),
            ab_title = ai_title p, ab_description = ai_description p, ab_event = eventId, ab_start = s, ab_end = e,
            ab_purpose = orElse (ai_purpose p) SICK_LEAVE, ab_deleted = None\<rparr>
          in andThen (modState (\<lambda>st. st\<lparr>of_absences := of_absences st @ [a]\<rparr>)) (\<lambda>_. ret a)))"

definition addWorkerAbsence :: "office_env \<Rightarrow> absence_item \<Rightarrow> (absence_row \<times> event_row) office_req" where
  "addWorkerAbsence Q p = inOffice ''WorkerAbsenceService.addWorkerAbsence''
     (if \<not> truthy (ai_workspace p)
      then throw (requiredField ''El idWorkspaceFk es requerido para obtener el calendario'')
      else case (firstDay Q p, lastDay Q p) of
        (Some s, Some e) \<Rightarrow>
          andThen (onSchedule (dbTx (createGroup None (absenceGroup p s e)))) (\<lambda>g.
          andThen (onSchedule (dbTx (createEvent (absenceEvent p s e (gr_id g))))) (\<lambda>ev.
          andThen (createAbsenceRow p s e (ev_id ev)) (\<lambda>a. ret (a, ev))))
      | _ \<Rightarrow> throw prismaRefuses)"

text \<open>The absence an update names, by its id or by its event.\<close>

definition namedAbsence :: "absence_item \<Rightarrow> (ident \<times> ident) office_tx" where
  "namedAbsence p =
     (if \<not> truthy (ai_id p) \<and> truthy (ai_event p)
      then andThen (readState (\<lambda>s. List.find (\<lambda>a. ab_event a = the (ai_event p)) (of_absences s))) (\<lambda>found.
             case found of None \<Rightarrow> throw (notFound ''No se encontro ausencia asociada al evento especificado'')
             | Some a \<Rightarrow> ret (ab_id a, ab_event a))
      else if truthy (ai_id p)
      then andThen (readState (\<lambda>s. List.find (\<lambda>a. ab_id a = the (ai_id p)) (of_absences s))) (\<lambda>found.
             case found of
               Some a \<Rightarrow> if ab_event a = [] then throw (notFound ''No se encontro el evento asociado a la ausencia'')
                         else ret (the (ai_id p), ab_event a)
             | None \<Rightarrow> throw (notFound ''No se encontro el evento asociado a la ausencia''))
      else throw (requiredField ''Debe proporcionar id o idEventFk para actualizar la ausencia''))"

definition absenceEventPatch :: "absence_item \<Rightarrow> instant \<Rightarrow> instant \<Rightarrow> event_row \<Rightarrow> event_row" where
  "absenceEventPatch p s e x = x\<lparr>ev_title := orElse (ai_title p) ''Ausencia'',
     ev_description := (case ai_description p of None \<Rightarrow> ev_description x | v \<Rightarrow> v), ev_start := s, ev_end := e,
     ev_purpose := orElse (ai_purpose p) (ev_purpose x), ev_allDay := True\<rparr>"

definition patchAbsence :: "absence_item \<Rightarrow> instant \<Rightarrow> instant \<Rightarrow> absence_row \<Rightarrow> absence_row" where
  "patchAbsence p s e a = a\<lparr>ab_user := (case ai_user p of None \<Rightarrow> ab_user a | v \<Rightarrow> v),
     ab_company := orElse (ai_company p) (ab_company a), ab_workspace := orElse (ai_workspace p) (ab_workspace a),
     ab_title := (case ai_title p of None \<Rightarrow> ab_title a | v \<Rightarrow> v),
     ab_description := (case ai_description p of None \<Rightarrow> ab_description a | v \<Rightarrow> v),
     ab_event := orElse (ai_event p) (ab_event a), ab_start := s, ab_end := e, ab_purpose := orElse (ai_purpose p) (ab_purpose a)\<rparr>"

definition updateAbsenceRow :: "absence_item \<Rightarrow> instant \<Rightarrow> instant \<Rightarrow> ident \<Rightarrow> absence_row office_tx" where
  "updateAbsenceRow p s e i =
     andThen (readState (\<lambda>st. (List.find (\<lambda>a. ab_id a = i) (of_absences st),
         case ai_event p of None \<Rightarrow> True | Some x \<Rightarrow> eventById (officeDb st) x \<noteq> None))) (\<lambda>(found, eventExists).
     if ai_other p then throw prismaRefuses
     else case found of
       None \<Rightarrow> throw (PrismaError ''P2025'')
     | Some a \<Rightarrow>
         if \<not> eventExists then throw (PrismaError ''P2003'')
         else andThen (modState (\<lambda>st. st\<lparr>of_absences := updateWhere (\<lambda>a. ab_id a = i) (patchAbsence p s e) (of_absences st)\<rparr>))
                (\<lambda>_. ret (patchAbsence p s e a)))"

text \<open>The event takes the dates; neither its professional nor its group is changed.\<close>

definition updateWorkerAbsence :: "office_env \<Rightarrow> absence_item \<Rightarrow> (absence_row \<times> event_row) office_req" where
  "updateWorkerAbsence Q p = inOffice ''WorkerAbsenceService.updateWorkerAbsence''
     (andThen (namedAbsence p) (\<lambda>(i, eventId).
      case (firstDay Q p, lastDay Q p) of
        (Some s, Some e) \<Rightarrow>
          andThen (onSchedule (dbTx (updateEvent eventId (absenceEventPatch p s e)))) (\<lambda>ev.
          andThen (updateAbsenceRow p s e i) (\<lambda>a. ret (a, ev)))
      | _ \<Rightarrow> throw prismaRefuses))"

definition deleteWorkerAbsence :: "ident list \<Rightarrow> nat office_req" where
  "deleteWorkerAbsence idList = inOffice ''WorkerAbsenceService.deleteWorkerAbsence''
     (andThen (readState (\<lambda>s. filter (\<lambda>a. ab_id a \<in> set idList) (of_absences s))) (\<lambda>absences.
      andThen (modState (\<lambda>s. s\<lparr>of_absences := filter (\<lambda>a. ab_id a \<notin> set idList) (of_absences s)\<rparr>)) (\<lambda>_.
      andThen (deleteEventRows (\<lambda>e. ev_id e \<in> ab_event ` set absences)) (\<lambda>_.
      ret (length absences)))))"

definition checkOverlappingAbsences :: "ident \<Rightarrow> instant \<Rightarrow> instant \<Rightarrow> office \<Rightarrow> bool" where
  "checkOverlappingAbsences u s e st =
     list_ex (\<lambda>a. ab_user a = Some u \<and> ab_deleted a = None \<and> ab_start a \<le> e \<and> ab_end a \<ge> s) (of_absences st)"

definition getCompanyAbsences :: "ident \<Rightarrow> office \<Rightarrow> absence_row list" where
  "getCompanyAbsences co st = sort_key ab_start (filter (\<lambda>a. ab_company a = co \<and> ab_deleted a = None) (of_absences st))"

section \<open>The middleware and the routes\<close>

text \<open>The exceptions of the days are deleted by a raw statement: nothing else changes.\<close>

definition cleanExceptionDate :: "office_env \<Rightarrow> absence_item \<Rightarrow> office \<Rightarrow> (string + unit) \<times> office" where
  "cleanExceptionDate Q p s =
     (if \<not> truthy (ai_user p) then (Inl ''El idUserFk es obligatorio'', s)
      else if \<not> truthy (ai_start p) then (Inl ''La startDate es obligatoria'', s)
      else if \<not> truthy (ai_end p) then (Inl ''La endDate es obligatoria'', s)
      else case (firstDay Q p, lastDay Q p) of
        (Some a, Some b) \<Rightarrow>
          (Inr (), s\<lparr>of_schedule := (of_schedule s)\<lparr>sd_temporary := filter
             (\<lambda>t. \<not> (te_user t = ai_user p \<and> a \<le> te_date t \<and> te_date t \<le> b)) (sd_temporary (of_schedule s))\<rparr>\<rparr>)
      | _ \<Rightarrow> (Inl ''Error interno del servidor'', s))"

definition absenceSchema :: "absence_item \<Rightarrow> absence_item option" where
  "absenceSchema p =
     (case (idSchema (ai_id p), idSchema (ai_event p), idSchema (ai_user p), idSchema (ai_company p), idSchema (ai_workspace p),
            idSchema (ai_start p), idSchema (ai_end p)) of
        (Some i, Some ev, Some u, Some co, Some ws, Some s, Some e) \<Rightarrow>
          if length (orElse (ai_title p) []) > 120 \<or> length (orElse (ai_description p) []) > 256 then None
          else Some (p\<lparr>ai_id := i, ai_event := ev, ai_user := u, ai_company := co, ai_workspace := ws, ai_start := s, ai_end := e\<rparr>)
      | _ \<Rightarrow> None)"

definition addAbsenceSchema :: "absence_item \<Rightarrow> absence_item option" where
  "addAbsenceSchema p = (case absenceSchema p of
     Some q \<Rightarrow> if ai_user q = None \<or> ai_company q = None \<or> ai_workspace q = None \<or> ai_start q = None \<or> ai_end q = None then None
               else Some q
   | None \<Rightarrow> None)"

definition updateAbsenceSchema :: "absence_item \<Rightarrow> absence_item option" where
  "updateAbsenceSchema p = (case absenceSchema p of
     Some q \<Rightarrow> if ai_user q = None \<or> ai_start q = None \<or> ai_end q = None \<or> ai_id q = None \<and> ai_event q = None then None
               else Some q
   | None \<Rightarrow> None)"

definition withAbsenceMiddleware ::
  "office_env \<Rightarrow> (absence_item \<Rightarrow> absence_item option) \<Rightarrow> (absence_item \<Rightarrow> 'a office_req) \<Rightarrow> absence_item \<Rightarrow> office
   \<Rightarrow> 'a hours_answer \<times> office" where
  "withAbsenceMiddleware Q schema controller p s =
     (case schema p of
        None \<Rightarrow> (HoursInvalid, s)
      | Some q \<Rightarrow>
          (case cleanExceptionDate Q q s of
             (Inl m, t) \<Rightarrow> (HoursRefused m, t)
           | (Inr _, t) \<Rightarrow> (case controller q t of (Inl e, v) \<Rightarrow> (HoursFailed e, v) | (Inr x, v) \<Rightarrow> (HoursOk x, v))))"

definition postAbsence :: "office_env \<Rightarrow> absence_item \<Rightarrow> office \<Rightarrow> (absence_row \<times> event_row) hours_answer \<times> office" where
  "postAbsence Q = withAbsenceMiddleware Q addAbsenceSchema (\<lambda>q. addWorkerAbsence Q (q\<lparr>ai_event := None\<rparr>))"

definition putAbsence :: "office_env \<Rightarrow> absence_item \<Rightarrow> office \<Rightarrow> (absence_row \<times> event_row) hours_answer \<times> office" where
  "putAbsence Q = withAbsenceMiddleware Q updateAbsenceSchema (updateWorkerAbsence Q)"

definition deleteAbsences :: "ident list \<Rightarrow> office \<Rightarrow> nat hours_answer \<times> office" where
  "deleteAbsences idList s =
     (if idList = [] \<or> list_ex (\<lambda>i. trim i = []) idList then (HoursInvalid, s)
      else case deleteWorkerAbsence (map trim idList) s of (Inl e, t) \<Rightarrow> (HoursFailed e, t) | (Inr n, t) \<Rightarrow> (HoursOk n, t))"

end
