(* ===== verification/CalAbsenceProps.thy ===== *)
theory CalAbsenceProps
  imports CalAbsence CalTemporaryProps
begin

text \<open>
  Properties of the absences: an absence takes the free time of its days; moved to another professional it goes on taking
  that of the first; and the exceptions it deletes leave their blocks in the calendar.
\<close>

section \<open>Lemmas on the operations\<close>

lemma office_iff:
  "inOffice name m s = (Inr x, t) \<longleftrightarrow> m s = Inr (x, t)"
  "onSchedule n s = Inr (y, t) \<longleftrightarrow> (\<exists>c. n (of_schedule s) = Inr (y, c) \<and> t = s\<lparr>of_schedule := c\<rparr>)"
  by (auto simp: inOffice_def onSchedule_def split: sum.splits prod.splits)

lemma createAbsenceRow_result:
  assumes "createAbsenceRow p s e i st = Inr (a, st')"
  shows "ab_event a = i \<and> ab_start a = s \<and> ab_end a = e \<and> ab_user a = ai_user p \<and> ab_workspace a = the (ai_workspace p) \<and>
    of_absences st' = of_absences st @ [a] \<and>
    (\<exists>n. of_schedule st' = (of_schedule st)\<lparr>sd_db := (officeDb st)\<lparr>nextId := n\<rparr>\<rparr>)"
proof (cases "ai_id p")
  case None
  then show ?thesis using assms
    by (auto simp: createAbsenceRow_def andThen_Inr_iff office_iff hours_tx_iff freshId_def officeDb_def Let_def split: if_splits)
next
  case (Some j)
  have "of_schedule st = (of_schedule st)\<lparr>sd_db := (officeDb st)\<lparr>nextId := nextId (officeDb st)\<rparr>\<rparr>" by (simp add: officeDb_def)
  then show ?thesis using assms Some
    by (auto simp: createAbsenceRow_def andThen_Inr_iff Let_def split: if_splits intro!: exI[of _ "nextId (officeDb st)"])
qed

text \<open>What a creation adds.\<close>

lemma addAbsence_result:
  assumes "addWorkerAbsence Q p st = (Inr (a, ev), st')"
  obtains s e g n where "firstDay Q p = Some s" "lastDay Q p = Some e" "g = idSupply (officeDb st) (nextId (officeDb st))"
    "ev = (absenceEvent p s e g)\<lparr>ev_id := idSupply (officeDb st) (Suc (nextId (officeDb st)))\<rparr>"
    "ab_event a = ev_id ev" "ab_start a = s" "ab_end a = e" "ab_user a = ai_user p" "ab_workspace a = the (ai_workspace p)"
    "of_absences st' = of_absences st @ [a]"
    "of_schedule st' = (of_schedule st)\<lparr>sd_db := (officeDb st)\<lparr>groups := groups (officeDb st) @ [(absenceGroup p s e)\<lparr>gr_id := g\<rparr>],
       events := events (officeDb st) @ [ev], nextId := n\<rparr>\<rparr>"
proof -
  obtain s e gr c1 c2 where d: "firstDay Q p = Some s" "lastDay Q p = Some e"
    and g: "createGroup None (absenceGroup p s e) (officeDb st) = Inr (gr, c1)"
    and v: "createEvent (absenceEvent p s e (gr_id gr)) c1 = Inr (ev, c2)"
    and r: "createAbsenceRow p s e (ev_id ev) (st\<lparr>of_schedule := (of_schedule st)\<lparr>sd_db := c2\<rparr>\<rparr>) = Inr (a, st')"
    using assms unfolding addWorkerAbsence_def office_iff
    by (auto simp: andThen_Inr_iff office_iff hours_tx_iff officeDb_def split: option.splits if_splits)
  note row = createAbsenceRow_result[OF r]
  obtain n where n: "of_schedule st' = (of_schedule st)\<lparr>sd_db := c2\<lparr>nextId := n\<rparr>\<rparr>"
    using row by (auto simp: officeDb_def)
  have "c2\<lparr>nextId := n\<rparr> = (officeDb st)\<lparr>groups := groups (officeDb st) @ [(absenceGroup p s e)\<lparr>gr_id := gr_id gr\<rparr>],
       events := events (officeDb st) @ [ev], nextId := n\<rparr>"
    "gr_id gr = idSupply (officeDb st) (nextId (officeDb st))"
    "ev = (absenceEvent p s e (gr_id gr))\<lparr>ev_id := idSupply (officeDb st) (Suc (nextId (officeDb st)))\<rparr>"
    using g v by (auto simp: createGroup_Inr createEvent_Inr)
  then show thesis using that[of s e "gr_id gr" n] d row n by simp
qed

lemma add_keeps_exceptions:
  "sd_temporary (of_schedule (snd (addWorkerAbsence Q p st))) = sd_temporary (of_schedule st) \<and>
   set (events (officeDb st)) \<subseteq> set (events (officeDb (snd (addWorkerAbsence Q p st))))"
proof (cases "addWorkerAbsence Q p st")
  case (Pair r st')
  show ?thesis
  proof (cases r)
    case (Inl err)
    then show ?thesis using Pair by (auto simp: addWorkerAbsence_def inOffice_def split: sum.splits)
  next
    case (Inr x)
    then obtain a ev where "addWorkerAbsence Q p st = (Inr (a, ev), st')" using Pair by (cases x) auto
    then show ?thesis by (rule addAbsence_result) (auto simp: Pair officeDb_def)
  qed
qed

lemma updateAbsence_run:
  assumes "namedAbsence p s = Inr ((i, x), s)" and "firstDay Q p = Some b" and "lastDay Q p = Some e"
    and "eventById (officeDb s) x = Some old" and "List.find (\<lambda>a. ab_id a = i) (of_absences s) = Some a"
    and "ai_event p = None" and "\<not> ai_other p"
  shows "\<exists>y t. updateWorkerAbsence Q p s = (Inr y, t)"
  using assms unfolding updateWorkerAbsence_def office_iff officeDb_def
  by (simp add: andThen_apply onSchedule_def dbTx_def updateEvent_def updateAbsenceRow_def)

section \<open>An absence on a small office\<close>

definition demo_office_env :: office_env where
  "demo_office_env = \<lparr>oe_hours = demo_hours, oe_moment = he_parseDate demo_hours\<rparr>"

definition demo_absence :: "ident option \<Rightarrow> absence_item" where
  "demo_absence i = \<lparr>ai_id = i, ai_event = None, ai_user = Some ''ana'', ai_company = Some ''co'', ai_workspace = Some ''w'', ai_title = None,
     ai_description = None, ai_start = Some ''1970-01-02'', ai_end = Some ''1970-01-02'', ai_purpose = Some VACATION, ai_other = False\<rparr>"

definition demo_office :: "schedule \<Rightarrow> office" where
  "demo_office c = \<lparr>of_schedule = c, of_absences = []\<rparr>"

lemma demo_absence_days:
  "firstDay demo_office_env (demo_absence i) = Some 86400000" "lastDay demo_office_env (demo_absence i) = Some 172799999"
  by (simp_all add: firstDay_def lastDay_def demo_absence_def demo_office_env_def demo_env_fields utc_reads demo_iso)

lemma demo_absence_fields:
  "ai_user (demo_absence i) = Some ''ana''" "ai_workspace (demo_absence i) = Some ''w''" "ai_id (demo_absence i) = i"
  "ai_event (demo_absence i) = None" "\<not> ai_other (demo_absence i)" "of_schedule (demo_office c) = c" "of_absences (demo_office c) = []"
  by (simp_all add: demo_absence_def demo_office_def)

lemma demo_absence_added:
  obtains a ev s' where "addWorkerAbsence demo_office_env (demo_absence None) (demo_office demo_schedule) = (Inr (a, ev), s')"
proof -
  have "\<exists>x t. addWorkerAbsence demo_office_env (demo_absence None) (demo_office demo_schedule) = (Inr x, t)"
    unfolding addWorkerAbsence_def office_iff
    by (simp add: demo_absence_days demo_absence_fields andThen_apply onSchedule_def dbTx_def createGroup_def createEvent_def
        createAbsenceRow_def freshId_def Let_def)
  then show thesis using that by fast
qed

lemma demo_fresh_office: "freshSupply (officeDb (demo_office demo_schedule))"
  using demo_tempInv by (simp add: officeDb_def demo_absence_fields tempInv_def wfDb_def)

section \<open>Properties\<close>

text \<open>An absence takes the time of its professional: its event blocks availability in the
  workspace, and no hours inside its days have a free window as long as that event is among the busy ones.\<close>

theorem absence_takes_its_days:
  assumes "addWorkerAbsence Q p s = (Inr (a, ev), s')" and "freshSupply (officeDb s)" and "ai_user p = Some u"
    and "\<forall>(i, j) \<in> set shifts. (\<forall>x. i = Some x \<longrightarrow> ab_start a \<le> x) \<and> (\<forall>y. j = Some y \<longrightarrow> y \<le> ab_end a)"
    and "win (ev_start ev) (ev_end ev) \<in> set busy"
  shows "blocksAvailability (officeDb s') (ab_workspace a) [u] None ev \<and> freeWindows today rounded shifts busy = []"
proof -
  obtain x y g n where r: "g = idSupply (officeDb s) (nextId (officeDb s))"
    "ev = (absenceEvent p x y g)\<lparr>ev_id := idSupply (officeDb s) (Suc (nextId (officeDb s)))\<rparr>"
    "ab_start a = x" "ab_end a = y" "ab_workspace a = the (ai_workspace p)"
    "of_schedule s' = (of_schedule s)\<lparr>sd_db := (officeDb s)\<lparr>groups := groups (officeDb s) @ [(absenceGroup p x y)\<lparr>gr_id := g\<rparr>],
       events := events (officeDb s) @ [ev], nextId := n\<rparr>\<rparr>"
    by (rule addAbsence_result[OF assms(1)])
  have "List.find (\<lambda>z. gr_id z = g) (groups (officeDb s)) = None"
    using fresh_notin(2)[OF assms(2) order_refl] r(1) by (metis (mono_tags, lifting) find_None_iff_all imageI)
  then have "groupById (officeDb s') g = Some ((absenceGroup p x y)\<lparr>gr_id := g\<rparr>)"
    by (simp add: r(6) officeDb_def groupById_def find_append)
  then have "blocksAvailability (officeDb s') (ab_workspace a) [u] None ev"
    using assms(3) by (simp add: blocksAvailability_def groupSat_def r(2,5) absenceEvent_def absenceGroup_def defaultGroup_def CANCELLED_STATES_def)
  moreover have "freeWindows today rounded shifts busy = []"
  proof (rule ccontr)
    assume "freeWindows today rounded shifts busy \<noteq> []"
    then obtain w where w: "w \<in> set (freeWindows today rounded shifts busy)" by (meson last_in_set)
    then have "covers (freeWindows today rounded shifts busy) (wstart w)"
      using freeWindows_proper[OF w] by (auto simp: covers_def inWin_def proper_def intro!: bexI[of _ w])
    then obtain sh where sh: "sh \<in> set shifts" "shiftOffers today rounded sh (wstart w)" and no: "\<not> covers busy (wstart w)"
      unfolding freeWindows_covers by blast
    obtain i j where "sh = (Some i, Some j)" "i \<le> wstart w" "wstart w < j" using sh(2) by (auto simp: shiftOffers_def)
    then have "inWin (win (ev_start ev) (ev_end ev)) (wstart w)"
      using assms(4) sh(1) r(2-4) by (fastforce simp: inWin_def absenceEvent_def)
    then show False using no assms(5) by (auto simp: covers_def)
  qed
  ultimately show ?thesis by simp
qed

theorem absence_takes_its_days_witness:
  "\<exists>a :: absence_row. ab_user a = Some ''ana'' \<and> freeWindows False 0 [(Some 118800000, Some 129600000)] [win 86400000 172799999] = []"
proof -
  obtain a ev s' where run: "addWorkerAbsence demo_office_env (demo_absence None) (demo_office demo_schedule) = (Inr (a, ev), s')"
    by (rule demo_absence_added)
  have r: "ab_start a = 86400000" "ab_end a = 172799999" "ab_user a = Some ''ana''" "ev_start ev = 86400000" "ev_end ev = 172799999"
    by (rule addAbsence_result[OF run], simp add: demo_absence_days demo_absence_fields absenceEvent_def)+
  show ?thesis
    using absence_takes_its_days[OF run demo_fresh_office demo_absence_fields(1), of "[(Some 118800000, Some 129600000)]" "[win 86400000 172799999]"] r
    by (intro exI[of _ a]) simp
qed

text \<open>C38: an absence that is given to another professional goes on taking the time of the first: its
  event keeps its professional, so it blocks no time of the new one.\<close>

theorem absence_keeps_first_worker:
  assumes "updateWorkerAbsence Q p s = (Inr (a, ev), s')" and "namedAbsence p s = Inr ((i, x), s)"
    and "eventById (officeDb s) x = Some old" and "ev_user old = Some u" and "ai_user p = Some v" and "u \<noteq> v"
  shows "ab_user a = Some v \<and> ev_user ev = Some u \<and> \<not> blocksAvailability (officeDb s') ws [v] None ev"
proof -
  obtain b e c where "firstDay Q p = Some b" "lastDay Q p = Some e"
    and ev: "updateEvent x (absenceEventPatch p b e) (officeDb s) = Inr (ev, c)"
    and row: "updateAbsenceRow p b e i (s\<lparr>of_schedule := (of_schedule s)\<lparr>sd_db := c\<rparr>\<rparr>) = Inr (a, s')"
    using assms(1,2) unfolding updateWorkerAbsence_def office_iff
    by (auto simp: andThen_Inr_iff office_iff hours_tx_iff officeDb_def split: option.splits)
  have "ev_user ev = Some u" using ev assms(3,4) by (auto simp: updateEvent_def absenceEventPatch_def)
  moreover have "ab_user a = Some v" using row assms(5)
    by (auto simp: updateAbsenceRow_def andThen_Inr_iff patchAbsence_def split: option.splits if_splits)
  ultimately show ?thesis using assms(6) by (simp add: blocksAvailability_def)
qed

theorem absence_keeps_first_worker_witness:
  "\<exists>(a :: absence_row) (ev :: event_row). ab_user a = Some ''ana'' \<and> ev_user ev = Some ''bea''"
proof -
  define x where "x = defaultEvent\<lparr>ev_id := ''e'', ev_user := Some ''bea''\<rparr>"
  define a where "a = \<lparr>ab_id = ''a'', ab_user = Some ''bea'', ab_company = ''co'', ab_workspace = ''w'', ab_title = None, ab_description = None,
     ab_event = ''e'', ab_start = 86400000, ab_end = 172799999, ab_purpose = VACATION, ab_deleted = None\<rparr>"
  define s where "s = \<lparr>of_schedule = demo_schedule\<lparr>sd_db := (sd_db demo_schedule)\<lparr>events := [x]\<rparr>\<rparr>, of_absences = [a]\<rparr>"
  have x: "ev_id x = ''e''" "ev_user x = Some ''bea''" by (simp_all add: x_def)
  have a: "ab_id a = ''a''" "ab_event a = ''e''" by (simp_all add: a_def)
  have s: "of_absences s = [a]" "events (officeDb s) = [x]" by (simp_all add: s_def officeDb_def)
  have n: "namedAbsence (demo_absence (Some ''a'')) s = Inr ((''a'', ''e''), s)"
    by (simp add: namedAbsence_def demo_absence_fields andThen_apply s a)
  have e: "eventById (officeDb s) ''e'' = Some x" by (simp add: eventById_def s x)
  have f: "List.find (\<lambda>a. ab_id a = ''a'') (of_absences s) = Some a" by (simp add: s a)
  obtain b ev t where run: "updateWorkerAbsence demo_office_env (demo_absence (Some ''a'')) s = (Inr (b, ev), t)"
    using updateAbsence_run[OF n demo_absence_days e f demo_absence_fields(4,5)] by fast
  have "''bea'' \<noteq> ''ana''" by simp
  then have "ab_user b = Some ''ana'' \<and> ev_user ev = Some ''bea''"
    using absence_keeps_first_worker[OF run n e x(2) demo_absence_fields(1)] by blast
  then show ?thesis by blast
qed

text \<open>C39: an absence over the day of an exception of the hours deletes the exception and leaves the event
  that blocks the calendar for it, whether the absence is then created or not.\<close>

theorem absence_orphans_blocks:
  assumes "addAbsenceSchema p = Some q" and "t \<in> set (sd_temporary (of_schedule s))" and "hasBlock (of_schedule s) t"
    and "te_user t = ai_user q" and "truthy (ai_user q)" and "firstDay Q q = Some a" and "lastDay Q q = Some b"
    and "a \<le> te_date t" and "te_date t \<le> b"
  shows "t \<notin> set (sd_temporary (of_schedule (snd (postAbsence Q p s)))) \<and> hasBlock (of_schedule (snd (postAbsence Q p s))) t"
proof -
  let ?r = "q\<lparr>ai_event := None\<rparr>"
  let ?c = "(of_schedule s)\<lparr>sd_temporary := filter (\<lambda>t. \<not> (te_user t = ai_user q \<and> a \<le> te_date t \<and> te_date t \<le> b)) (sd_temporary (of_schedule s))\<rparr>"
  have given: "x \<noteq> []" if "idSchema v = Some (Some x)" for v x using that by (auto simp: idSchema_def split: option.splits if_splits)
  have "truthy (ai_start q) \<and> truthy (ai_end q)"
    using assms(1) by (auto simp: addAbsenceSchema_def absenceSchema_def split: option.splits if_splits dest: given)
  then have "cleanExceptionDate Q q s = (Inr (), s\<lparr>of_schedule := ?c\<rparr>)"
    using assms(5-7) by (simp add: cleanExceptionDate_def)
  then have "snd (postAbsence Q p s) = snd (addWorkerAbsence Q ?r (s\<lparr>of_schedule := ?c\<rparr>))"
    using assms(1) by (simp add: postAbsence_def withAbsenceMiddleware_def split: prod.splits sum.splits)
  then have "sd_temporary (of_schedule (snd (postAbsence Q p s))) = sd_temporary ?c"
    "set (events (sd_db (of_schedule s))) \<subseteq> set (events (sd_db (of_schedule (snd (postAbsence Q p s)))))"
    using add_keeps_exceptions[of Q ?r "s\<lparr>of_schedule := ?c\<rparr>"] by (simp_all add: officeDb_def)
  then show ?thesis using assms(3,4,8,9) by (auto simp: hasBlock_def)
qed


theorem absence_orphans_blocks_witness:
  "\<exists>(t :: temp_row) c. te_user t = Some ''ana'' \<and> t \<notin> set (sd_temporary c) \<and> hasBlock c t"
proof -
  obtain t ev c where run: "addTemporaryBusinessHour demo_hours demo_exception demo_schedule = (Inr (t, ev), c)"
    and rows: "sd_temporary c = [t]" "te_user t = Some ''ana''" "te_date t = 86400000"
    by (rule demo_added)
  have "hasBlock c t" using add_tempInv[OF demo_tempInv run] rows(1) by (simp add: tempInv_def)
  moreover have "addAbsenceSchema (demo_absence None) = Some (demo_absence None)" by code_simp
  ultimately show ?thesis
    using absence_orphans_blocks[of "demo_absence None" "demo_absence None" t "demo_office c" demo_office_env 86400000 172799999] rows
    by (intro exI[of _ t] exI[of _ "of_schedule (snd (postAbsence demo_office_env (demo_absence None) (demo_office c)))"])
      (simp add: demo_absence_days demo_absence_fields)
qed

end
