(* ===== verification/CalWaitList.thy ===== *)
theory CalWaitList
  imports CalSchedule
begin

text \<open>
  The wait list (\<open>wait-list.service.ts\<close>, \<open>wait-list.controller.ts\<close>) and the job that reminds the clients on it
  (\<open>wait-list-cron.service.ts\<close>). The reminder itself is a line on the console.
\<close>

section \<open>State\<close>

record wait_row =
  wl_id :: ident
  wl_client :: ident
  wl_workspace :: ident
  wl_start :: instant
  wl_end :: instant
  wl_sent :: bool
  wl_sentDate :: "instant option"
  wl_vip :: int
  wl_created :: instant
  wl_deleted :: "instant option"

record wait_world =
  ww_db :: db
  ww_rows :: "wait_row list"

type_synonym 'a wait_tx = "(wait_world, 'a) comp"
type_synonym 'a wait_req = "(wait_world, 'a) eff"

text \<open>The clock and the reading of a date by Prisma (\<open>None\<close>: refused).\<close>

record wait_env =
  we_now :: instant
  we_date :: "string \<Rightarrow> instant option"

text \<open>A body. \<open>wb_other\<close>: a member that is no column or has another type. \<open>Some None\<close>: null.\<close>

record wait_body =
  wb_id :: "ident option"
  wb_client :: "ident option"
  wb_workspace :: "ident option"
  wb_start :: "string option"
  wb_end :: "string option"
  wb_sent :: "bool option"
  wb_sentDate :: "string option option"
  wb_vip :: "int option"
  wb_deleted :: "string option option"
  wb_other :: bool

datatype 'a wait_answer = WaitOk 'a | WaitRefused string | WaitFailed app_error

definition waitCall :: "string \<Rightarrow> 'a wait_tx \<Rightarrow> 'a wait_req" where
  "waitCall name m = (\<lambda>s. case m s of Inl e \<Rightarrow> (Inl (Wrapped name e), s) | Inr (x, t) \<Rightarrow> (Inr x, t))"

definition answerWait :: "'a wait_req \<Rightarrow> wait_world \<Rightarrow> 'a wait_answer \<times> wait_world" where
  "answerWait m s = (case m s of (Inl e, t) \<Rightarrow> (WaitFailed e, t) | (Inr x, t) \<Rightarrow> (WaitOk x, t))"

section \<open>The service\<close>

text \<open>A date column that may be null: absent, null, or a date that is read.\<close>

definition readNullable :: "wait_env \<Rightarrow> instant option \<Rightarrow> string option option \<Rightarrow> instant option option" where
  "readNullable W old v =
     (case v of None \<Rightarrow> Some old | Some None \<Rightarrow> Some None | Some (Some t) \<Rightarrow> map_option Some (we_date W t))"

definition readDate :: "wait_env \<Rightarrow> instant \<Rightarrow> string option \<Rightarrow> instant option" where
  "readDate W old v = (case v of None \<Rightarrow> Some old | Some t \<Rightarrow> we_date W t)"

definition addWaitList :: "wait_env \<Rightarrow> wait_body \<Rightarrow> wait_row wait_req" where
  "addWaitList W b = waitCall ''WaitListService.addWaitList''
     (case (wb_client b, wb_workspace b, Option.bind (wb_start b) (we_date W), Option.bind (wb_end b) (we_date W),
            readNullable W None (wb_sentDate b), readNullable W None (wb_deleted b)) of
        (Some c, Some ws, Some s, Some e, Some sd, Some del) \<Rightarrow>
          if wb_other b then throw prismaRefuses
          else andThen (case wb_id b of Some i \<Rightarrow> ret i
                 | None \<Rightarrow> (\<lambda>w. case freshId (ww_db w) of Inl x \<Rightarrow> Inl x | Inr (i, d) \<Rightarrow> Inr (i, w\<lparr>ww_db := d\<rparr>))) (\<lambda>i.
               andThen (readState (\<lambda>w. i \<in> wl_id ` set (ww_rows w))) (\<lambda>taken.
               if taken then throw (PrismaError ''P2002'')
               else let r = \<lparr>wl_id = i, wl_client = c, wl_workspace = ws, wl_start = s, wl_end = e,
                      wl_sent = orElse (wb_sent b) False, wl_sentDate = sd, wl_vip = orElse (wb_vip b) 0,
                      wl_created = we_now W, wl_deleted = del\<rparr>
                    in andThen (modState (\<lambda>w. w\<lparr>ww_rows := ww_rows w @ [r]\<rparr>)) (\<lambda>_. ret r)))
      | _ \<Rightarrow> throw prismaRefuses)"

definition getWaitListById :: "ident \<Rightarrow> wait_world \<Rightarrow> wait_row option" where
  "getWaitListById i w = List.find (\<lambda>r. wl_id r = i) (ww_rows w)"

definition byVip :: "wait_row list \<Rightarrow> wait_row list" where
  "byVip rows = sort_key (\<lambda>r. - wl_vip r) (sort_key wl_created rows)"

definition getWaitListByWorkspace :: "ident \<Rightarrow> wait_world \<Rightarrow> wait_row list" where
  "getWaitListByWorkspace ws w = byVip (filter (\<lambda>r. wl_workspace r = ws \<and> wl_deleted r = None) (ww_rows w))"

definition patchWait :: "wait_env \<Rightarrow> wait_body \<Rightarrow> wait_row \<Rightarrow> wait_row option" where
  "patchWait W b r =
     (case (readDate W (wl_start r) (wb_start b), readDate W (wl_end r) (wb_end b),
            if wb_sent b = Some True \<and> \<not> truthy (orElse (wb_sentDate b) None) then Some (Some (we_now W))
            else readNullable W (wl_sentDate r) (wb_sentDate b),
            readNullable W (wl_deleted r) (wb_deleted b)) of
        (Some s, Some e, Some sd, Some del) \<Rightarrow>
          Some (r\<lparr>wl_client := orElse (wb_client b) (wl_client r), wl_workspace := orElse (wb_workspace b) (wl_workspace r),
            wl_start := s, wl_end := e, wl_sent := orElse (wb_sent b) (wl_sent r), wl_sentDate := sd,
            wl_vip := orElse (wb_vip b) (wl_vip r), wl_deleted := del\<rparr>)
      | _ \<Rightarrow> None)"

text \<open>Whether the dates of a body are read does not depend on the row.\<close>

definition blankWait :: wait_row where
  "blankWait = \<lparr>wl_id = [], wl_client = [], wl_workspace = [], wl_start = 0, wl_end = 0, wl_sent = False, wl_sentDate = None,
     wl_vip = 0, wl_created = 0, wl_deleted = None\<rparr>"

definition setRow :: "ident \<Rightarrow> wait_row \<Rightarrow> wait_world \<Rightarrow> wait_world" where
  "setRow i r w = w\<lparr>ww_rows := updateWhere (\<lambda>x. wl_id x = i) (\<lambda>_. r) (ww_rows w)\<rparr>"

definition updateWaitList :: "wait_env \<Rightarrow> wait_body \<Rightarrow> wait_row wait_req" where
  "updateWaitList W b = waitCall ''WaitListService.updateWaitList''
     (case wb_id b of
        None \<Rightarrow> throw prismaRefuses
      | Some i \<Rightarrow>
          if wb_other b then throw prismaRefuses
          else andThen (readState (getWaitListById i)) (\<lambda>found.
            case found of
              None \<Rightarrow> throw (if patchWait W b blankWait = None then prismaRefuses else PrismaError ''P2025'')
            | Some r \<Rightarrow>
                (case patchWait W b r of
                   None \<Rightarrow> throw prismaRefuses
                 | Some r' \<Rightarrow> andThen (modState (setRow i r')) (\<lambda>_. ret r'))))"

definition deleteWaitList :: "wait_env \<Rightarrow> ident list \<Rightarrow> nat wait_req" where
  "deleteWaitList W idList = waitCall ''WaitListService.deleteWaitList''
     (andThen (readState (\<lambda>w. length (filter (\<lambda>r. wl_id r \<in> set idList) (ww_rows w)))) (\<lambda>n.
      andThen (modState (\<lambda>w. w\<lparr>ww_rows := updateWhere (\<lambda>r. wl_id r \<in> set idList) (\<lambda>r. r\<lparr>wl_deleted := Some (we_now W)\<rparr>) (ww_rows w)\<rparr>)) (\<lambda>_.
      ret n)))"

definition isPending :: "instant \<Rightarrow> wait_row \<Rightarrow> bool" where
  "isPending now r \<longleftrightarrow> wl_deleted r = None \<and> \<not> wl_sent r \<and> wl_end r \<ge> now"

definition getPendingWaitList :: "instant \<Rightarrow> nat \<Rightarrow> wait_world \<Rightarrow> wait_row list" where
  "getPendingWaitList now limit w = take limit (byVip (filter (isPending now) (ww_rows w)))"

definition countCurrentWindowByClientAndWorkspace :: "instant \<Rightarrow> ident \<Rightarrow> ident \<Rightarrow> wait_world \<Rightarrow> nat" where
  "countCurrentWindowByClientAndWorkspace now c ws w =
     length (filter (\<lambda>r. wl_client r = c \<and> wl_workspace r = ws \<and> wl_deleted r = None \<and> wl_start r \<le> now \<and> wl_end r \<ge> now) (ww_rows w))"

definition getPendingCountByClientAndWorkspace :: "instant \<Rightarrow> ident \<Rightarrow> ident \<Rightarrow> wait_world \<Rightarrow> nat" where
  "getPendingCountByClientAndWorkspace now c ws w =
     length (filter (\<lambda>r. wl_client r = c \<and> wl_workspace r = ws \<and> isPending now r) (ww_rows w))"

definition hasAvailability :: "instant \<Rightarrow> db \<Rightarrow> wait_row \<Rightarrow> bool" where
  "hasAvailability now d item \<longleftrightarrow>
     (if wl_end item < now then False
      else \<not> list_ex (\<lambda>e. ev_deleted e = None \<and> ev_start e < wl_end item \<and> ev_end e > wl_start item \<and>
             (wl_client item \<noteq> [] \<longrightarrow> ev_user e = Some (wl_client item)) \<and>
             groupSat d (\<lambda>g. gr_workspace g = wl_workspace item \<and> gr_deleted g = None) e) (events d))"

definition markSent :: "instant \<Rightarrow> wait_row \<Rightarrow> wait_row" where
  "markSent now r = r\<lparr>wl_sent := True, wl_sentDate := Some now\<rparr>"

definition markMessageSent :: "wait_env \<Rightarrow> ident \<Rightarrow> wait_row wait_req" where
  "markMessageSent W i = waitCall ''WaitListService.markMessageSent''
     (andThen (readState (getWaitListById i)) (\<lambda>found.
      case found of
        None \<Rightarrow> throw (PrismaError ''P2025'')
      | Some r \<Rightarrow> andThen (modState (setRow i (markSent (we_now W) r))) (\<lambda>_. ret (markSent (we_now W) r))))"

section \<open>The job\<close>

fun remindEach :: "wait_env \<Rightarrow> wait_row list \<Rightarrow> unit wait_req" where
  "remindEach W [] = eret ()"
| "remindEach W (item # rest) =
     ebind (eread (\<lambda>w. hasAvailability (we_now W) (ww_db w) item)) (\<lambda>free.
     if \<not> free then remindEach W rest
     else ebind (markMessageSent W (wl_id item)) (\<lambda>_. remindEach W rest))"

definition processPendingWaitList :: "wait_env \<Rightarrow> nat \<Rightarrow> unit wait_req" where
  "processPendingWaitList W batchSize =
     ebind (eread (getPendingWaitList (we_now W) batchSize)) (\<lambda>pending.
     if pending = [] then eret () else remindEach W pending)"

section \<open>The controller\<close>

definition waitAdd :: "wait_env \<Rightarrow> wait_body \<Rightarrow> wait_world \<Rightarrow> wait_row wait_answer \<times> wait_world" where
  "waitAdd W b w =
     (if truthy (wb_client b) \<and> truthy (wb_workspace b) \<and>
         countCurrentWindowByClientAndWorkspace (we_now W) (the (wb_client b)) (the (wb_workspace b)) w \<ge> 5
      then (WaitRefused ''Limite de waitlist alcanzado para la fecha actual'', w)
      else answerWait (addWaitList W b) w)"

definition waitUpdate :: "wait_env \<Rightarrow> ident \<Rightarrow> wait_body \<Rightarrow> wait_world \<Rightarrow> wait_row wait_answer \<times> wait_world" where
  "waitUpdate W param b = answerWait (updateWaitList W
     (if \<not> truthy (wb_id b) \<and> param \<noteq> [] then b\<lparr>wb_id := Some param\<rparr> else b))"

definition waitDelete :: "wait_env \<Rightarrow> ident list \<Rightarrow> wait_world \<Rightarrow> nat wait_answer \<times> wait_world" where
  "waitDelete W idList = answerWait (deleteWaitList W idList)"

definition waitPendingCount :: "wait_env \<Rightarrow> ident option \<Rightarrow> ident option \<Rightarrow> wait_world \<Rightarrow> nat wait_answer" where
  "waitPendingCount W c ws w =
     (if \<not> truthy c \<or> \<not> truthy ws then WaitRefused ''idClient and idWorkspace are required''
      else WaitOk (getPendingCountByClientAndWorkspace (we_now W) (the c) (the ws) w))"

end
