(* ===== verification/CalWaitProps.thy ===== *)
theory CalWaitProps
  imports CalWaitList CalDemo
begin

text \<open>
  Properties of the wait list: what one run of the job does, and that every entry is reminded in its turn, after at most
  as many runs as there are batches before it, whatever the events of the workspace are.
\<close>

section \<open>One run\<close>

lemma same_row: "distinct (map k xs) \<Longrightarrow> x \<in> set xs \<Longrightarrow> y \<in> set xs \<Longrightarrow> k x = k y \<Longrightarrow> x = y"
  by (metis distinct_map inj_onD)

lemma markSent_simps [simp]:
  "wl_id (markSent now r) = wl_id r" "wl_client (markSent now r) = wl_client r" "wl_sent (markSent now r)"
  "wl_end (markSent now r) = wl_end r" "wl_deleted (markSent now r) = wl_deleted r"
  by (simp_all add: markSent_def)

lemma markMessageSent_row:
  assumes "distinct (map wl_id (ww_rows w))" and "item \<in> set (ww_rows w)"
  shows "markMessageSent W (wl_id item) w =
    (Inr (markSent (we_now W) item), w\<lparr>ww_rows := updateWhere (\<lambda>r. r = item) (markSent (we_now W)) (ww_rows w)\<rparr>)"
proof -
  have "getWaitListById (wl_id item) w = Some item"
  proof (cases "getWaitListById (wl_id item) w")
    case None
    then show ?thesis using assms(2) by (auto simp: getWaitListById_def find_None_iff_all)
  next
    case (Some x)
    then have "x \<in> set (ww_rows w)" "wl_id x = wl_id item" by (auto simp: getWaitListById_def dest: find_Some_D)
    then show ?thesis using same_row[OF assms(1) _ assms(2)] Some by simp
  qed
  moreover have "updateWhere (\<lambda>x. wl_id x = wl_id item) (\<lambda>_. markSent (we_now W) item) (ww_rows w) =
      updateWhere (\<lambda>r. r = item) (markSent (we_now W)) (ww_rows w)"
    using assms by (auto simp: updateWhere_def dest: same_row)
  ultimately show ?thesis
    by (simp add: markMessageSent_def waitCall_def andThen_apply setRow_def)
qed

lemma remindEach_rows:
  assumes "distinct (map wl_id (ww_rows w))" and "set items \<subseteq> set (ww_rows w)" and "distinct items"
  shows "remindEach W items w = (Inr (), w\<lparr>ww_rows := updateWhere
    (\<lambda>r. r \<in> set items \<and> hasAvailability (we_now W) (ww_db w) r) (markSent (we_now W)) (ww_rows w)\<rparr>)"
  using assms
proof (induction items arbitrary: w)
  case Nil
  then show ?case by (simp add: updateWhere_def)
next
  case (Cons item rest)
  let ?now = "we_now W"
  show ?case
  proof (cases "hasAvailability ?now (ww_db w) item")
    case False
    have "updateWhere (\<lambda>r. r \<in> set (item # rest) \<and> hasAvailability ?now (ww_db w) r) (markSent ?now) (ww_rows w) =
        updateWhere (\<lambda>r. r \<in> set rest \<and> hasAvailability ?now (ww_db w) r) (markSent ?now) (ww_rows w)"
      using False by (auto simp: updateWhere_def)
    then show ?thesis using Cons.IH[of w] Cons.prems False by (simp add: ebind_def)
  next
    case True
    let ?w = "w\<lparr>ww_rows := updateWhere (\<lambda>r. r = item) (markSent ?now) (ww_rows w)\<rparr>"
    have ids: "map wl_id (ww_rows ?w) = map wl_id (ww_rows w)" by (simp add: map_updateWhere_same)
    have rest: "set rest \<subseteq> set (ww_rows ?w)" using Cons.prems(2,3) by (auto simp: set_updateWhere)
    have marked: "markSent ?now item \<notin> set rest"
    proof
      assume "markSent ?now item \<in> set rest"
      then have "markSent ?now item = item" using same_row[OF Cons.prems(1)] Cons.prems(2) by fastforce
      then show False using \<open>markSent ?now item \<in> set rest\<close> Cons.prems(3) by simp
    qed
    have "updateWhere (\<lambda>r. r \<in> set rest \<and> hasAvailability ?now (ww_db w) r) (markSent ?now) (ww_rows ?w) =
        updateWhere (\<lambda>r. r \<in> set (item # rest) \<and> hasAvailability ?now (ww_db w) r) (markSent ?now) (ww_rows w)"
      using True Cons.prems(3) marked by (auto simp: updateWhere_def)
    then show ?thesis
      using Cons.IH[of ?w] Cons.prems ids rest True markMessageSent_row[OF Cons.prems(1), of item W]
      by (simp add: ebind_def)
  qed
qed

lemma pending_rows: "set (getPendingWaitList now n w) \<subseteq> set (filter (isPending now) (ww_rows w))"
  using set_take_subset[of n "byVip (filter (isPending now) (ww_rows w))"] by (auto simp: getPendingWaitList_def byVip_def)

lemma byVip_facts: "byVip (filter P xs) = filter P (byVip xs)" "set (byVip xs) = set xs" "distinct (byVip xs) = distinct xs"
  by (simp_all add: byVip_def filter_sort)

lemma job_rows:
  assumes "distinct (map wl_id (ww_rows w))"
  shows "processPendingWaitList W n w = (Inr (), w\<lparr>ww_rows := updateWhere
    (\<lambda>r. r \<in> set (getPendingWaitList (we_now W) n w) \<and> hasAvailability (we_now W) (ww_db w) r) (markSent (we_now W)) (ww_rows w)\<rparr>)"
proof -
  have "distinct (getPendingWaitList (we_now W) n w)"
    using assms by (simp add: getPendingWaitList_def byVip_facts(3) distinct_map)
  moreover have "set (getPendingWaitList (we_now W) n w) \<subseteq> set (ww_rows w)" using pending_rows by fastforce
  ultimately show ?thesis
    using remindEach_rows[OF assms] by (simp add: processPendingWaitList_def ebind_def updateWhere_def)
qed

section \<open>Several runs\<close>

fun waitRuns :: "nat \<Rightarrow> wait_env list \<Rightarrow> wait_world \<Rightarrow> wait_world" where
  "waitRuns n [] w = w"
| "waitRuns n (W # Ws) w = waitRuns n Ws (snd (processPendingWaitList W n w))"

lemma job_keeps:
  assumes "distinct (map wl_id (ww_rows w))" and "snd (processPendingWaitList W n w) = t"
  shows "distinct (map wl_id (ww_rows t))" "ww_db t = ww_db w" "wl_client ` set (ww_rows t) = wl_client ` set (ww_rows w)"
    "x \<in> set (ww_rows w) \<Longrightarrow> wl_sent x \<Longrightarrow> x \<in> set (ww_rows t)"
proof -
  have t: "t = w\<lparr>ww_rows := updateWhere (\<lambda>r. r \<in> set (getPendingWaitList (we_now W) n w) \<and> hasAvailability (we_now W) (ww_db w) r)
      (markSent (we_now W)) (ww_rows w)\<rparr>"
    using assms job_rows[OF assms(1), of W n] by simp
  show "distinct (map wl_id (ww_rows t))" using assms(1) by (simp add: t map_updateWhere_same)
  show "ww_db t = ww_db w" by (simp add: t)
  have "map wl_client (ww_rows t) = map wl_client (ww_rows w)" by (simp add: t map_updateWhere_same)
  then show "wl_client ` set (ww_rows t) = wl_client ` set (ww_rows w)" by (metis list.set_map)
  show "x \<in> set (ww_rows t)" if "x \<in> set (ww_rows w)" "wl_sent x"
  proof -
    have "x \<notin> set (getPendingWaitList (we_now W) n w)" using that(2) pending_rows[of "we_now W" n w] by (auto simp: isPending_def)
    then show ?thesis using that(1) by (force simp: t set_updateWhere)
  qed
qed

lemma runs_keep_sent:
  "distinct (map wl_id (ww_rows w)) \<Longrightarrow> x \<in> set (ww_rows w) \<Longrightarrow> wl_sent x \<Longrightarrow> x \<in> set (ww_rows (waitRuns n Ws w))"
  by (induction Ws arbitrary: w) (simp_all add: job_keeps[OF _ refl])

lemma take_filter_mem: "x \<in> set (take m xs) \<Longrightarrow> Q x \<Longrightarrow> x \<in> set (take m (filter Q xs))"
proof (induction xs arbitrary: m)
  case (Cons y ys)
  have more: "set (take k zs) \<subseteq> set (take (Suc k) zs)" for k and zs :: "'a list" by (rule set_take_subset_set_take) simp
  show ?case
  proof (cases m)
    case 0
    then show ?thesis using Cons.prems by simp
  next
    case (Suc k)
    then show ?thesis using Cons.prems Cons.IH[of k] more[of k "filter Q ys"] by auto
  qed
qed simp

lemma filter_notin_take: "distinct xs \<Longrightarrow> filter (\<lambda>x. x \<notin> set (take n xs)) xs = drop n xs"
proof -
  assume "distinct xs"
  then have "filter (\<lambda>x. x \<notin> set (take n xs)) (drop n xs) = drop n xs"
    using set_take_disj_set_drop_if_distinct[of xs n n] by (auto simp: filter_id_conv)
  moreover have "filter (\<lambda>x. x \<notin> set (take n xs)) xs = filter (\<lambda>x. x \<notin> set (take n xs)) (take n xs @ drop n xs)" by simp
  ultimately show ?thesis by (simp only: filter_append) simp
qed

text \<open>Nobody on the list has the identifier of a professional.\<close>

definition clientsOnly :: "wait_world \<Rightarrow> bool" where
  "clientsOnly w \<longleftrightarrow> (\<forall>c \<in> wl_client ` set (ww_rows w). c \<noteq> [] \<and> Some c \<notin> ev_user ` set (events (ww_db w)))"

lemma clientsOnly_available: "clientsOnly w \<Longrightarrow> r \<in> set (ww_rows w) \<Longrightarrow> isPending now r \<Longrightarrow> hasAvailability now (ww_db w) r"
  by (auto simp: clientsOnly_def hasAvailability_def isPending_def list_ex_iff image_iff) (metis)

text \<open>What is pending after a run: the rest of the queue, less what has passed.\<close>

lemma pending_after:
  assumes "distinct (map wl_id (ww_rows w))" and "clientsOnly w" and "we_now W \<le> now"
  shows "byVip (filter (isPending now) (ww_rows (snd (processPendingWaitList W n w)))) =
    filter (\<lambda>r. now \<le> wl_end r) (drop n (byVip (filter (isPending (we_now W)) (ww_rows w))))"
proof -
  let ?q = "byVip (filter (isPending (we_now W)) (ww_rows w))"
  have avail: "r \<in> set (take n ?q) \<and> hasAvailability (we_now W) (ww_db w) r \<longleftrightarrow> r \<in> set (take n ?q)" for r
    using clientsOnly_available[OF assms(2), of r "we_now W"] in_set_takeD[of r n ?q] by (auto simp: byVip_facts(2))
  have rows: "ww_rows (snd (processPendingWaitList W n w)) = updateWhere (\<lambda>r. r \<in> set (take n ?q)) (markSent (we_now W)) (ww_rows w)"
    by (simp add: job_rows[OF assms(1)] getPendingWaitList_def avail)
  have "filter (isPending now) (updateWhere (\<lambda>r. r \<in> S) (markSent t) xs) = filter (\<lambda>r. r \<notin> S \<and> isPending now r) xs" for S t xs
    by (induction xs) (auto simp: isPending_def)
  then have "byVip (filter (isPending now) (ww_rows (snd (processPendingWaitList W n w)))) =
      filter (\<lambda>r. r \<notin> set (take n ?q) \<and> isPending now r) (byVip (ww_rows w))"
    by (simp add: rows byVip_facts(1))
  also have "\<dots> = filter (\<lambda>r. now \<le> wl_end r) (filter (\<lambda>r. r \<notin> set (take n ?q)) ?q)"
    using assms(3) by (auto simp: byVip_facts(1) isPending_def intro!: filter_cong)
  also have "filter (\<lambda>r. r \<notin> set (take n ?q)) ?q = drop n ?q"
    using assms(1) by (intro filter_notin_take) (simp add: byVip_facts(3) distinct_map)
  finally show ?thesis .
qed

lemma reminded_in_batch:
  assumes "distinct (map wl_id (ww_rows w))" and "clientsOnly w"
    and "r \<in> set (take n (byVip (filter (isPending (we_now W)) (ww_rows w))))"
  shows "\<exists>x \<in> set (ww_rows (snd (processPendingWaitList W n w))). wl_id x = wl_id r \<and> wl_sent x"
proof -
  have "r \<in> set (ww_rows w)" "isPending (we_now W) r" using assms(3) by (auto dest!: in_set_takeD simp: byVip_facts(2))
  then have "markSent (we_now W) r \<in> set (ww_rows (snd (processPendingWaitList W n w)))"
    using assms clientsOnly_available by (simp add: job_rows[OF assms(1)] getPendingWaitList_def set_updateWhere)
  then show ?thesis by (intro bexI[of _ "markSent (we_now W) r"]) simp_all
qed

text \<open>Two clients wait for a time in which the only professional is booked.\<close>

definition demo_entry :: "ident \<Rightarrow> int \<Rightarrow> wait_row" where
  "demo_entry i vip = \<lparr>wl_id = i, wl_client = ''c'', wl_workspace = ''w'', wl_start = 32400000, wl_end = 36000000, wl_sent = False,
     wl_sentDate = None, wl_vip = vip, wl_created = 0, wl_deleted = None\<rparr>"

definition demo_wait :: wait_world where
  "demo_wait = \<lparr>ww_db = demo_db 1 ACCEPTED [], ww_rows = [demo_entry ''a'' 1, demo_entry ''b'' 0]\<rparr>"

definition demo_wait_env :: "instant \<Rightarrow> wait_env" where
  "demo_wait_env now = \<lparr>we_now = now, we_date = \<lambda>_. None\<rparr>"

section \<open>Properties\<close>

text \<open>C28: every entry of the wait list is reminded in its turn: one that is pending with fewer than
  \<open>k * n\<close> entries before it (by VIP level, then by age) is marked as reminded after \<open>k\<close> runs of the job with batches of
  \<open>n\<close>, if its window has not passed by then and no client has the identifier of a professional. No hypothesis speaks
  of free time: the check of the job compares the client with the professional of the events, so the reminder "there is a
  gap" is sent when all professionals are booked.\<close>

theorem wait_reminded_in_turn:
  assumes "distinct (map wl_id (ww_rows w))" and "clientsOnly w" and "sorted (map we_now (W # Ws))"
    and "r \<in> set (take (length (W # Ws) * n) (byVip (filter (isPending (we_now W)) (ww_rows w))))"
    and "\<forall>V \<in> set Ws. we_now V \<le> wl_end r"
  shows "\<exists>x \<in> set (ww_rows (waitRuns n (W # Ws) w)). wl_id x = wl_id r \<and> wl_sent x"
  using assms
proof (induction Ws arbitrary: W w)
  case Nil
  then show ?case by (auto simp: reminded_in_batch)
next
  case (Cons V Vs)
  let ?t = "snd (processPendingWaitList W n w)"
  let ?q = "byVip (filter (isPending (we_now W)) (ww_rows w))"
  note kept = job_keeps[OF Cons.prems(1) refl, where W = W and n = n]
  show ?case
  proof (cases "r \<in> set (take n ?q)")
    case True
    then obtain x where "x \<in> set (ww_rows ?t)" "wl_id x = wl_id r" "wl_sent x"
      using reminded_in_batch[OF Cons.prems(1,2)] by blast
    then show ?thesis using runs_keep_sent[OF kept(1)] by (metis waitRuns.simps(2))
  next
    case False
    then have "r \<in> set (take (length (V # Vs) * n) (drop n ?q))"
      using Cons.prems(4) take_add[of n "length (V # Vs) * n" ?q] by (auto simp: algebra_simps)
    moreover have "we_now W \<le> we_now V" "we_now V \<le> wl_end r" using Cons.prems(3,5) by auto
    ultimately have "r \<in> set (take (length (V # Vs) * n) (byVip (filter (isPending (we_now V)) (ww_rows ?t))))"
      using pending_after[OF Cons.prems(1,2)] take_filter_mem by metis
    moreover have "clientsOnly ?t" using Cons.prems(2) kept(2,3) by (simp add: clientsOnly_def)
    ultimately show ?thesis using Cons.IH[OF kept(1)] Cons.prems(3,5) by simp
  qed
qed

theorem wait_reminded_in_turn_witness:
  "\<exists>x \<in> set (ww_rows (waitRuns 1 [demo_wait_env 5, demo_wait_env 35] demo_wait)). wl_id x = ''b'' \<and> wl_sent x"
  using wait_reminded_in_turn[of demo_wait "demo_wait_env 5" "[demo_wait_env 35]" "demo_entry ''b'' 0" 1]
  by (simp add: demo_wait_def demo_wait_env_def demo_entry_def clientsOnly_def demo_db_def demo_event_def byVip_def isPending_def)

text \<open>A run of the job marks exactly the entries of its batch for which the check finds no event, leaves
  every other entry as it is, and answers without an error: nobody is reminded twice.\<close>

theorem wait_run_exact:
  assumes "distinct (map wl_id (ww_rows w))" and "processPendingWaitList W n w = (res, t)"
  shows "res = Inr () \<and> ww_db t = ww_db w \<and> length (ww_rows t) = length (ww_rows w) \<and>
    (\<forall>k < length (ww_rows w). let r = ww_rows w ! k; now = we_now W in
       ww_rows t ! k = (if r \<in> set (getPendingWaitList now n w) \<and> hasAvailability now (ww_db w) r then markSent now r else r) \<and>
       (wl_sent r \<longrightarrow> ww_rows t ! k = r))"
proof -
  have t: "res = Inr ()" "t = w\<lparr>ww_rows := updateWhere (\<lambda>r. r \<in> set (getPendingWaitList (we_now W) n w) \<and>
      hasAvailability (we_now W) (ww_db w) r) (markSent (we_now W)) (ww_rows w)\<rparr>"
    using assms(2) job_rows[OF assms(1), of W n] by simp_all
  have "wl_sent r \<Longrightarrow> r \<notin> set (getPendingWaitList (we_now W) n w)" for r
    using pending_rows[of "we_now W" n w] by (auto simp: isPending_def)
  then show ?thesis by (auto simp: t updateWhere_def Let_def)
qed

theorem wait_run_exact_witness:
  "ww_rows (snd (processPendingWaitList (demo_wait_env 5) 1 demo_wait)) ! 0 = markSent 5 (demo_entry ''a'' 1)"
proof -
  obtain res t where run: "processPendingWaitList (demo_wait_env 5) 1 demo_wait = (res, t)" by fastforce
  have "distinct (map wl_id (ww_rows demo_wait))" by (simp add: demo_wait_def demo_entry_def)
  note exact = wait_run_exact[OF this run]
  have rows: "ww_rows demo_wait = [demo_entry ''a'' 1, demo_entry ''b'' 0]" "we_now (demo_wait_env 5) = 5"
    by (simp_all add: demo_wait_def demo_wait_env_def)
  have "getPendingWaitList 5 1 demo_wait = [demo_entry ''a'' 1]"
    by (simp add: getPendingWaitList_def rows byVip_def isPending_def demo_entry_def)
  moreover have "hasAvailability 5 (ww_db demo_wait) (demo_entry ''a'' 1)"
    by (simp add: hasAvailability_def demo_entry_def demo_wait_def demo_db_def demo_event_def)
  ultimately show ?thesis using exact by (simp add: run[simplified] rows All_less_Suc Let_def)
qed

end
