(* ===== verification/CalMessages.thy ===== *)
theory CalMessages
  imports CalAbsence CalRoundRobin CalGuard
begin

text \<open>
  The messages of RabbitMQ (\<open>services/@rabbitmq\<close>): the reliability keys on Redis
  (\<open>message-reliability.strategy.ts\<close>), the consumer of deletions (\<open>deleteRecordsSoft.consumer.ts\<close>) with its retries, the
  consumer that updates services in events, and the dead letters with their replay.
  The transport of the broker is a parameter: what is published is kept in the state.
\<close>

section \<open>Messages\<close>

datatype delete_table = Companies | Workspaces | UserWorkspacesByWorkspace | UserWorkspacesByWorkspaceHard | UserWorkspacesByUser
  | ClientWorkspaces | Clients | Users | UsersEventDeleteDefinitive | CalendarEvents

definition deleteTables :: "(string \<times> delete_table) list" where
  "deleteTables =
     [(''companies'', Companies), (''workspaces'', Workspaces), (''userWorkspaces-byWorkspace'', UserWorkspacesByWorkspace),
      (''userWorkspaces-byWorkspace-hard'', UserWorkspacesByWorkspaceHard), (''userWorkspaces-byUser'', UserWorkspacesByUser),
      (''clientWorkspaces'', ClientWorkspaces), (''clients'', Clients), (''users'', Users),
      (''usersEventDeleteDefinitive'', UsersEventDeleteDefinitive), (''calendarEvents'', CalendarEvents)]"

text \<open>What is no text is \<open>None\<close>.\<close>

record delete_request =
  dr_table :: "string option"
  dr_ids :: "string option list option"
  dr_relation :: "ident option"

record service_update =
  su_id :: "ident option"
  su_name :: "string option"
  su_price :: "rat option"
  su_discount :: "rat option"
  su_duration :: "int option"
  su_notify :: bool

datatype mq_body = DeleteBody delete_request | ServiceBody "service_update option"

text \<open>A header that is no finite number is \<open>None\<close>.\<close>

record mq_death =
  dh_queue :: "string option"
  dh_count :: "int option"
  dh_reason :: "string option"

record mq_headers =
  mh_retry :: "int option"
  mh_deaths :: "mq_death list option"
  mh_firstReason :: "string option"
  mh_other :: "(string \<times> string) list"

record mq_message =
  mm_body :: mq_body
  mm_headers :: mq_headers

record envelope =
  en_exchange :: string
  en_key :: string
  en_message :: mq_message

datatype dead_status = DeadPending | Replayed | ReplayFailed

record dead_row =
  dl_id :: ident
  dl_queue :: string
  dl_exchange :: string
  dl_key :: string
  dl_sourceKey :: "string option"
  dl_consumer :: string
  dl_body :: mq_body
  dl_headers :: mq_headers
  dl_retries :: int
  dl_error :: "string option"
  dl_status :: dead_status
  dl_replays :: nat
  dl_lastReplay :: "instant option"
  dl_lastRole :: "string option"
  dl_lastError :: "app_error option"
  dl_created :: instant
  dl_deleted :: "instant option"

record mq_world =
  mw_office :: office
  mw_redis :: redis
  mw_published :: "envelope list"
  mw_sent :: "(ident \<times> string) list"
  mw_dead :: "dead_row list"

type_synonym 'a mq_req = "(mq_world, 'a) eff"

text \<open>The digest of the content, what fails (a transaction on some ids, a publication, a notification, storing a dead
  letter) and the configuration.\<close>

record mq_env =
  me_now :: instant
  me_digest :: "mq_body \<Rightarrow> string"
  me_dbFails :: "ident list \<Rightarrow> app_error option"
  me_publishFails :: "envelope \<Rightarrow> app_error option"
  me_notifyFails :: "ident \<Rightarrow> string \<Rightarrow> app_error option"
  me_deadFails :: "app_error option"
  me_chunk :: nat
  me_maxIds :: nat
  me_maxRetries :: int
  me_lockTtl :: int
  me_processedTtl :: int

datatype delivery = Acked | DeadLettered

section \<open>Reliability\<close>

definition keyLock :: "string \<Rightarrow> string \<Rightarrow> string" where
  "keyLock scope digest = ''messageReliability:'' @ scope @ '':lock:'' @ digest"

definition keyProcessed :: "string \<Rightarrow> string \<Rightarrow> string" where
  "keyProcessed scope digest = ''messageReliability:'' @ scope @ '':processed:'' @ digest"

definition isMessageProcessed :: "mq_env \<Rightarrow> string \<Rightarrow> string \<Rightarrow> bool mq_req" where
  "isMessageProcessed E scope digest = eread (\<lambda>w. redisGet (me_now E) (keyProcessed scope digest) (mw_redis w) = Some (RText ''1''))"

definition markMessageProcessed :: "mq_env \<Rightarrow> string \<Rightarrow> string \<Rightarrow> unit mq_req" where
  "markMessageProcessed E scope digest = emod (\<lambda>w. w\<lparr>mw_redis :=
     redisSet (me_now E) (keyProcessed scope digest) (RText ''1'') (Some (me_processedTtl E)) (mw_redis w)\<rparr>)"

definition acquireMessageLock :: "mq_env \<Rightarrow> string \<Rightarrow> string \<Rightarrow> bool mq_req" where
  "acquireMessageLock E scope digest =
     (\<lambda>w. let (ok, r) = redisSetIfNotExists (me_now E) (keyLock scope digest) (RText ''1'') (me_lockTtl E) (mw_redis w)
          in (Inr ok, w\<lparr>mw_redis := r\<rparr>))"

definition releaseMessageLock :: "string \<Rightarrow> string \<Rightarrow> unit mq_req" where
  "releaseMessageLock scope digest = emod (\<lambda>w. w\<lparr>mw_redis := redisDelete (keyLock scope digest) (mw_redis w)\<rparr>)"

definition publishToExchange :: "mq_env \<Rightarrow> envelope \<Rightarrow> unit mq_req" where
  "publishToExchange E en =
     (case me_publishFails E en of
        Some err \<Rightarrow> ethrow err
      | None \<Rightarrow> emod (\<lambda>w. w\<lparr>mw_published := mw_published w @ [en]\<rparr>))"

text \<open>The number of retries: the header, else the count of the first death in a retry queue, else of the first death.\<close>

definition occursIn :: "string \<Rightarrow> string \<Rightarrow> bool" where
  "occursIn needle s \<longleftrightarrow> list_ex (\<lambda>i. take (length needle) (drop i s) = needle) [0..<Suc (length s)]"

definition deathCount :: "mq_death list \<Rightarrow> int" where
  "deathCount deaths =
     (case deaths of
        [] \<Rightarrow> 0
      | d # _ \<Rightarrow>
          let r = orElse (List.find (\<lambda>x. case dh_queue x of Some q \<Rightarrow> occursIn ''.retry'' q | None \<Rightarrow> False) deaths) d
          in (case dh_count r of Some c \<Rightarrow> if c > 0 then c else 0 | None \<Rightarrow> 0))"

definition getRetryCount :: "mq_headers \<Rightarrow> int" where
  "getRetryCount h =
     (case mh_retry h of
        Some n \<Rightarrow> if n \<ge> 0 then n else deathCount (orElse (mh_deaths h) [])
      | None \<Rightarrow> deathCount (orElse (mh_deaths h) []))"

definition sanitizeHeaders :: "mq_headers \<Rightarrow> mq_headers" where
  "sanitizeHeaders h = h\<lparr>mh_retry := None, mh_deaths := None, mh_firstReason := None\<rparr>"

definition deathReason :: "mq_death list \<Rightarrow> string option" where
  "deathReason deaths =
     (case deaths of
        [] \<Rightarrow> None
      | d # _ \<Rightarrow> (case dh_reason d of Some r \<Rightarrow> if trim r \<noteq> [] then Some r else None | None \<Rightarrow> None))"

definition extractDeadLetterReason :: "mq_headers \<Rightarrow> string option" where
  "extractDeadLetterReason h =
     (case mh_firstReason h of
        Some r \<Rightarrow> if trim r \<noteq> [] then Some r else deathReason (orElse (mh_deaths h) [])
      | None \<Rightarrow> deathReason (orElse (mh_deaths h) []))"

text \<open>What both consumers do around their work: a message that was processed or is being processed is acknowledged;
  an error publishes the message for a retry, until there are no more.\<close>

definition reliably :: "mq_env \<Rightarrow> string \<Rightarrow> mq_message \<Rightarrow> int \<Rightarrow> envelope \<Rightarrow> unit mq_req \<Rightarrow> delivery mq_req" where
  "reliably E scope msg maxRetries retry work =
     (let digest = me_digest E (mm_body msg) in
      ebind (isMessageProcessed E scope digest) (\<lambda>done.
      if done then eret Acked
      else ebind (acquireMessageLock E scope digest) (\<lambda>locked.
        if \<not> locked then eret Acked
        else ebind (ecatch
            (ebind work (\<lambda>_. ebind (markMessageProcessed E scope digest) (\<lambda>_. eret Acked)))
            (\<lambda>err.
              if getRetryCount (mm_headers msg) \<ge> maxRetries then eret DeadLettered
              else ecatch (ebind (publishToExchange E retry) (\<lambda>_. eret Acked)) (\<lambda>err. eret DeadLettered)))
          (\<lambda>d. ebind (releaseMessageLock scope digest) (\<lambda>_. eret d)))))"

definition withRetry :: "mq_headers \<Rightarrow> int \<Rightarrow> mq_headers" where
  "withRetry h n = (sanitizeHeaders h)\<lparr>mh_retry := Some n\<rparr>"

section \<open>Deleting records\<close>

definition deleteExchange :: string where "deleteExchange = ''pubsub_delete_exchange''"
definition deleteKey :: string where "deleteKey = ''delete.calendar''"
definition deleteKeyRetry :: string where "deleteKeyRetry = deleteKey @ ''.retry''"
definition deleteDLQ :: string where "deleteDLQ = ''pubsub_delete_calendar_queue.dlq''"

fun chunkArray :: "nat \<Rightarrow> 'a list \<Rightarrow> 'a list list" where
  "chunkArray n [] = []"
| "chunkArray n (x # xs) = (x # take (n - 1) xs) # chunkArray n (drop (n - 1) xs)"

definition validateIdsAreStrings :: "string option list option \<Rightarrow> string list option" where
  "validateIdsAreStrings v =
     (case v of
        None \<Rightarrow> None
      | Some ids \<Rightarrow>
          if ids = [] \<or> list_ex (\<lambda>i. case i of None \<Rightarrow> True | Some t \<Rightarrow> trim t = []) ids then None else Some (map the ids))"

definition isDeleteRecordsTable :: "string option \<Rightarrow> delete_table option" where
  "isDeleteRecordsTable v = Option.bind v (map_of deleteTables)"

text \<open>\<open>updateMany\<close> of the rows that are not deleted, by table.\<close>

definition stampHours :: "instant \<Rightarrow> (hour_row \<Rightarrow> bool) \<Rightarrow> hour_row list \<Rightarrow> hour_row list" where
  "stampHours now P = updateWhere (\<lambda>r. P r \<and> hr_deleted r = None) (\<lambda>r. r\<lparr>hr_deleted := Some now\<rparr>)"

definition stampTemporary :: "instant \<Rightarrow> (temp_row \<Rightarrow> bool) \<Rightarrow> temp_row list \<Rightarrow> temp_row list" where
  "stampTemporary now P = updateWhere (\<lambda>r. P r \<and> te_deleted r = None) (\<lambda>r. r\<lparr>te_deleted := Some now\<rparr>)"

definition stampAbsences :: "instant \<Rightarrow> (absence_row \<Rightarrow> bool) \<Rightarrow> absence_row list \<Rightarrow> absence_row list" where
  "stampAbsences now P = updateWhere (\<lambda>r. P r \<and> ab_deleted r = None) (\<lambda>r. r\<lparr>ab_deleted := Some now\<rparr>)"

definition stampGroups :: "instant \<Rightarrow> (group_row \<Rightarrow> bool) \<Rightarrow> db \<Rightarrow> db" where
  "stampGroups now P d = d\<lparr>groups := updateWhere (\<lambda>g. P g \<and> gr_deleted g = None) (\<lambda>g. g\<lparr>gr_deleted := Some now\<rparr>) (groups d)\<rparr>"

definition stampEvents :: "instant \<Rightarrow> (event_row \<Rightarrow> bool) \<Rightarrow> db \<Rightarrow> db" where
  "stampEvents now P d = d\<lparr>events := updateWhere (\<lambda>e. P e \<and> ev_deleted e = None) (\<lambda>e. e\<lparr>ev_deleted := Some now\<rparr>) (events d)\<rparr>"

definition stampParticipants :: "instant \<Rightarrow> (participant_row \<Rightarrow> bool) \<Rightarrow> db \<Rightarrow> db" where
  "stampParticipants now P d = d\<lparr>participants :=
     updateWhere (\<lambda>p. P p \<and> pt_deleted p = None) (\<lambda>p. p\<lparr>pt_deleted := Some now\<rparr>) (participants d)\<rparr>"

definition groupOfSat :: "db \<Rightarrow> (group_row \<Rightarrow> bool) \<Rightarrow> participant_row \<Rightarrow> bool" where
  "groupOfSat d P p = (case groupById d (pt_group p) of None \<Rightarrow> False | Some g \<Rightarrow> P g)"

definition onOfficeDb :: "(db \<Rightarrow> db) \<Rightarrow> office \<Rightarrow> office" where
  "onOfficeDb f s = s\<lparr>of_schedule := (of_schedule s)\<lparr>sd_db := f (officeDb s)\<rparr>\<rparr>"

text \<open>A group that is not deleted and satisfies a condition; one that has not ended.\<close>

definition liveGroup :: "(group_row \<Rightarrow> bool) \<Rightarrow> group_row \<Rightarrow> bool" where
  "liveGroup P g \<longleftrightarrow> P g \<and> gr_deleted g = None"

definition openGroup :: "instant \<Rightarrow> (group_row \<Rightarrow> bool) \<Rightarrow> group_row \<Rightarrow> bool" where
  "openGroup now P g \<longleftrightarrow> P g \<and> gr_deleted g = None \<and> gr_end g > now"

definition deleteCompanies :: "instant \<Rightarrow> ident list \<Rightarrow> office \<Rightarrow> office" where
  "deleteCompanies now batch s =
     (let c = of_schedule s; d1 = stampGroups now (\<lambda>g. gr_company g \<in> set batch) (sd_db c);
          d2 = stampEvents now (groupSat d1 (liveGroup (\<lambda>g. gr_company g \<in> set batch))) d1;
          d3 = stampParticipants now (groupOfSat d2 (liveGroup (\<lambda>g. gr_company g \<in> set batch))) d2
      in s\<lparr>of_schedule := c\<lparr>sd_business := stampHours now (\<lambda>r. hr_company r \<in> set batch) (sd_business c),
             sd_worker := stampHours now (\<lambda>r. hr_company r \<in> set batch) (sd_worker c),
             sd_temporary := stampTemporary now (\<lambda>r. te_company r \<in> set batch) (sd_temporary c), sd_db := d3\<rparr>,
           of_absences := stampAbsences now (\<lambda>r. ab_company r \<in> set batch) (of_absences s)\<rparr>)"

definition deleteWorkspaces :: "instant \<Rightarrow> ident list \<Rightarrow> office \<Rightarrow> office" where
  "deleteWorkspaces now batch s =
     (let c = of_schedule s; d1 = stampGroups now (\<lambda>g. gr_workspace g \<in> set batch) (sd_db c);
          d2 = stampEvents now (groupSat d1 (liveGroup (\<lambda>g. gr_workspace g \<in> set batch))) d1;
          d3 = stampParticipants now (groupOfSat d2 (liveGroup (\<lambda>g. gr_workspace g \<in> set batch))) d2
      in s\<lparr>of_schedule := c\<lparr>sd_business := stampHours now (\<lambda>r. hr_workspace r \<in> set batch) (sd_business c),
             sd_worker := stampHours now (\<lambda>r. hr_workspace r \<in> set batch) (sd_worker c),
             sd_temporary := stampTemporary now (\<lambda>r. te_workspace r \<in> set batch) (sd_temporary c), sd_db := d3\<rparr>,
           of_absences := stampAbsences now (\<lambda>r. ab_workspace r \<in> set batch) (of_absences s)\<rparr>)"

text \<open>Clients leave their bookings that have not ended; bookings without participants are deleted.\<close>

definition leaveBookings :: "instant \<Rightarrow> (participant_row \<Rightarrow> bool) \<Rightarrow> db \<Rightarrow> db" where
  "leaveBookings now P d =
     (let leaves = (\<lambda>p. P p \<and> pt_deleted p = None \<and> groupOfSat d (openGroup now (\<lambda>_. True)) p);
          affected = uniq (map pt_group (filter leaves (participants d)))
      in if affected = [] then d
         else let d1 = stampParticipants now leaves d;
                  empty = map gr_id (filter (\<lambda>g. gr_id g \<in> set affected \<and> openGroup now (\<lambda>_. True) g \<and>
                    activeParticipants d1 (gr_id g) = []) (groups d1))
              in if empty = [] then d1
                 else stampEvents now (\<lambda>e. ev_group e \<in> set empty) (stampGroups now (\<lambda>g. gr_id g \<in> set empty) d1))"

definition deleteClientWorkspaces :: "instant \<Rightarrow> ident list \<Rightarrow> office \<Rightarrow> office" where
  "deleteClientWorkspaces now batch = onOfficeDb (leaveBookings now (\<lambda>p. pt_clientWs p \<in> Some ` set batch))"

definition deleteClients :: "instant \<Rightarrow> ident list \<Rightarrow> office \<Rightarrow> office" where
  "deleteClients now batch = onOfficeDb (leaveBookings now (\<lambda>p. pt_client p \<in> Some ` set batch))"

definition dropEvents :: "(event_row \<Rightarrow> bool) \<Rightarrow> office \<Rightarrow> office" where
  "dropEvents P s = (case deleteEventRows P s of Inr (_, t) \<Rightarrow> t | Inl _ \<Rightarrow> s)"

definition detachUsers :: "(event_row \<Rightarrow> bool) \<Rightarrow> office \<Rightarrow> office" where
  "detachUsers P = onOfficeDb (\<lambda>d. d\<lparr>events := updateWhere P (\<lambda>e. e\<lparr>ev_user := None\<rparr>) (events d)\<rparr>)"

definition deleteUsers :: "instant \<Rightarrow> ident list \<Rightarrow> office \<Rightarrow> office" where
  "deleteUsers now batch s =
     (let s1 = dropEvents (\<lambda>e. ev_user e \<in> Some ` set batch \<and> ev_purpose e \<noteq> APPOINTMENT \<and> ev_deleted e = None) s;
          s2 = detachUsers (\<lambda>e. ev_user e \<in> Some ` set batch) s1; c = of_schedule s2
      in s2\<lparr>of_schedule := c\<lparr>sd_worker := stampHours now (\<lambda>r. hr_user r \<in> set batch) (sd_worker c),
             sd_temporary := stampTemporary now (\<lambda>r. te_user r \<in> Some ` set batch) (sd_temporary c)\<rparr>,
           of_absences := stampAbsences now (\<lambda>r. ab_user r \<in> Some ` set batch) (of_absences s2)\<rparr>)"

text \<open>\<open>deleteMany\<close> of the hours, the exceptions and the absences of users in workspaces.\<close>

definition dropHours :: "(ident option \<Rightarrow> ident \<Rightarrow> bool) \<Rightarrow> office \<Rightarrow> office" where
  "dropHours P s =
     (let c = of_schedule s
      in s\<lparr>of_schedule := c\<lparr>sd_worker := filter (\<lambda>r. \<not> P (Some (hr_user r)) (hr_workspace r)) (sd_worker c),
             sd_temporary := filter (\<lambda>r. \<not> P (te_user r) (te_workspace r)) (sd_temporary c)\<rparr>,
           of_absences := filter (\<lambda>r. \<not> P (ab_user r) (ab_workspace r)) (of_absences s)\<rparr>)"

text \<open>An undefined member of \<open>where\<close> is no condition.\<close>

definition related :: "ident option \<Rightarrow> ident option \<Rightarrow> bool" where
  "related rel v \<longleftrightarrow> rel = None \<or> v = rel"

definition userInWorkspaces :: "instant \<Rightarrow> ident option \<Rightarrow> ident list \<Rightarrow> db \<Rightarrow> event_row \<Rightarrow> bool" where
  "userInWorkspaces now rel batch d e \<longleftrightarrow> related rel (ev_user e) \<and> ev_deleted e = None \<and>
     groupSat d (openGroup now (\<lambda>g. gr_workspace g \<in> set batch)) e"

definition leaveWorkspaces :: "instant \<Rightarrow> ident option \<Rightarrow> ident list \<Rightarrow> office \<Rightarrow> office" where
  "leaveWorkspaces now rel batch s = dropHours (\<lambda>u ws. related rel u \<and> ws \<in> set batch)
     (detachUsers (userInWorkspaces now rel batch (officeDb s)) s)"

definition leaveWorkspacesHard :: "instant \<Rightarrow> ident option \<Rightarrow> ident list \<Rightarrow> office \<Rightarrow> office" where
  "leaveWorkspacesHard now rel batch s = dropHours (\<lambda>u ws. related rel u \<and> ws \<in> set batch)
     (dropEvents (userInWorkspaces now rel batch (officeDb s)) s)"

definition removeUsers :: "ident option \<Rightarrow> ident list \<Rightarrow> office \<Rightarrow> office" where
  "removeUsers rel batch s = dropHours (\<lambda>u ws. u \<in> Some ` set batch \<and> related rel (Some ws))
     (dropEvents (\<lambda>e. ev_user e \<in> Some ` set batch \<and>
        groupSat (officeDb s) (liveGroup (\<lambda>g. related rel (Some (gr_workspace g)))) e \<and>
        ev_purpose e \<noteq> APPOINTMENT \<and> ev_deleted e = None) s)"

definition eraseUsers :: "ident list \<Rightarrow> office \<Rightarrow> office" where
  "eraseUsers batch s = dropHours (\<lambda>u ws. u \<in> Some ` set batch) (dropEvents (\<lambda>e. ev_user e \<in> Some ` set batch) s)"

fun deleteBatch :: "delete_table \<Rightarrow> instant \<Rightarrow> ident option \<Rightarrow> ident list \<Rightarrow> office \<Rightarrow> office" where
  "deleteBatch Companies now rel batch = deleteCompanies now batch"
| "deleteBatch Workspaces now rel batch = deleteWorkspaces now batch"
| "deleteBatch ClientWorkspaces now rel batch = deleteClientWorkspaces now batch"
| "deleteBatch Clients now rel batch = deleteClients now batch"
| "deleteBatch Users now rel batch = deleteUsers now batch"
| "deleteBatch UserWorkspacesByWorkspace now rel batch = leaveWorkspaces now rel batch"
| "deleteBatch UserWorkspacesByWorkspaceHard now rel batch = leaveWorkspacesHard now rel batch"
| "deleteBatch UserWorkspacesByUser now rel batch = removeUsers rel batch"
| "deleteBatch UsersEventDeleteDefinitive now rel batch = eraseUsers batch"
| "deleteBatch CalendarEvents now rel batch = id"

fun deleteBatches :: "mq_env \<Rightarrow> delete_table \<Rightarrow> ident option \<Rightarrow> ident list list \<Rightarrow> unit mq_req" where
  "deleteBatches E table rel [] = eret ()"
| "deleteBatches E table rel (batch # rest) =
     (case me_dbFails E batch of
        Some err \<Rightarrow> ethrow err
      | None \<Rightarrow> ebind (emod (\<lambda>w. w\<lparr>mw_office := deleteBatch table (me_now E) rel batch (mw_office w)\<rparr>)) (\<lambda>_.
          deleteBatches E table rel rest))"

definition chunkMessage :: "delete_request \<Rightarrow> int \<Rightarrow> string list \<Rightarrow> envelope" where
  "chunkMessage r retries chunk = \<lparr>en_exchange = deleteExchange, en_key = deleteKey,
     en_message = \<lparr>mm_body = DeleteBody (r\<lparr>dr_ids := Some (map Some chunk)\<rparr>),
       mm_headers = \<lparr>mh_retry = Some retries, mh_deaths = None, mh_firstReason = None, mh_other = []\<rparr>\<rparr>\<rparr>"

fun publishAll :: "mq_env \<Rightarrow> envelope list \<Rightarrow> unit mq_req" where
  "publishAll E [] = eret ()"
| "publishAll E (en # rest) = ebind (publishToExchange E en) (\<lambda>_. publishAll E rest)"

definition deleteWork :: "mq_env \<Rightarrow> delete_request \<Rightarrow> delete_table \<Rightarrow> string list \<Rightarrow> int \<Rightarrow> unit mq_req" where
  "deleteWork E r table ids retries =
     (if length ids > me_maxIds E then publishAll E (map (chunkMessage r retries) (chunkArray (me_maxIds E) ids))
      else if table = CalendarEvents then eret ()
      else deleteBatches E table (dr_relation r) (chunkArray (me_chunk E) ids))"

definition deleteRecordsConsumer :: "mq_env \<Rightarrow> delete_request \<Rightarrow> mq_message \<Rightarrow> delivery mq_req" where
  "deleteRecordsConsumer E r msg =
     (case (isDeleteRecordsTable (dr_table r), validateIdsAreStrings (dr_ids r)) of
        (Some table, Some ids) \<Rightarrow>
          let retries = getRetryCount (mm_headers msg) in
          reliably E ''deleteSOFTRecords'' msg (me_maxRetries E)
            \<lparr>en_exchange = deleteExchange, en_key = deleteKeyRetry,
              en_message = msg\<lparr>mm_headers := withRetry (mm_headers msg) (retries + 1)\<rparr>\<rparr>
            (deleteWork E r table ids retries)
      | _ \<Rightarrow> eret DeadLettered)"

end
