(* ===== verification/CalDeadLetters.thy ===== *)
theory CalDeadLetters
  imports CalMessages
begin

text \<open>
  The consumer that updates the services in the events (\<open>updateServiceInEvent.consumer.ts\<close>), the dead letters
  (\<open>dead-letter-message.service.ts\<close>, \<open>features/dead-letter-management\<close>), and the broker as the consumers
  configure it: a retry comes back to the queue, a refused message goes to the queue of the dead letters.
\<close>

section \<open>Services in events\<close>

definition serviceExchange :: string where "serviceExchange = ''pubsub_update_service_in_event_exchange''"
definition serviceKey :: string where "serviceKey = ''pubsub_update_service_in_event_rk''"
definition serviceKeyRetry :: string where "serviceKeyRetry = serviceKey @ ''.retry''"
definition serviceDLQ :: string where "serviceDLQ = ''pubsub_update_service_in_event_dlq''"

definition usesService :: "instant \<Rightarrow> ident \<Rightarrow> event_row \<Rightarrow> bool" where
  "usesService now i e \<longleftrightarrow> ev_service e = Some i \<and> ev_end e > now \<and> ev_deleted e = None"

definition withService :: "service_update \<Rightarrow> event_row \<Rightarrow> event_row" where
  "withService u e = e\<lparr>ev_nameSnap := (case su_name u of None \<Rightarrow> ev_nameSnap e | v \<Rightarrow> v),
     ev_priceSnap := (case su_price u of None \<Rightarrow> ev_priceSnap e | v \<Rightarrow> v),
     ev_discountSnap := (case su_discount u of None \<Rightarrow> ev_discountSnap e | v \<Rightarrow> v),
     ev_durationSnap := (case su_duration u of None \<Rightarrow> ev_durationSnap e | v \<Rightarrow> v)\<rparr>"

fun notifyGroups :: "mq_env \<Rightarrow> ident list \<Rightarrow> unit mq_req" where
  "notifyGroups E [] = eret ()"
| "notifyGroups E (g # gs) =
     (case me_notifyFails E g ''update'' of
        Some err \<Rightarrow> ethrow err
      | None \<Rightarrow> ebind (emod (\<lambda>w. w\<lparr>mw_sent := mw_sent w @ [(g, ''update'')]\<rparr>)) (\<lambda>_. notifyGroups E gs))"

definition serviceWork :: "mq_env \<Rightarrow> service_update \<Rightarrow> ident \<Rightarrow> unit mq_req" where
  "serviceWork E u i =
     (case me_dbFails E [i] of
        Some err \<Rightarrow> ethrow err
      | None \<Rightarrow>
          ebind (eread (\<lambda>w. filter (usesService (me_now E) i) (events (officeDb (mw_office w))))) (\<lambda>evs.
          ebind (emod (\<lambda>w. w\<lparr>mw_office := onOfficeDb (\<lambda>d. d\<lparr>events := updateWhere (usesService (me_now E) i) (withService u) (events d)\<rparr>)
            (mw_office w)\<rparr>)) (\<lambda>_.
          if su_notify u \<and> evs \<noteq> [] then notifyGroups E (uniq (map ev_group evs)) else eret ())))"

definition updateServiceInEventConsumer :: "mq_env \<Rightarrow> service_update option \<Rightarrow> mq_message \<Rightarrow> delivery mq_req" where
  "updateServiceInEventConsumer E payload msg =
     (case payload of
        Some u \<Rightarrow>
          if truthy (su_id u)
          then reliably E ''updateServiceInEvent'' msg 5
            \<lparr>en_exchange = serviceExchange, en_key = serviceKeyRetry,
              en_message = msg\<lparr>mm_headers := withRetry (mm_headers msg) (getRetryCount (mm_headers msg) + 1)\<rparr>\<rparr>
            (serviceWork E u (the (su_id u)))
          else eret DeadLettered
      | None \<Rightarrow> eret DeadLettered)"

section \<open>Dead letters\<close>

definition registerMessage :: "mq_env \<Rightarrow> dead_row \<Rightarrow> ident mq_req" where
  "registerMessage E row =
     (case me_deadFails E of
        Some err \<Rightarrow> ethrow err
      | None \<Rightarrow> (\<lambda>w. case freshId (officeDb (mw_office w)) of
          Inl err \<Rightarrow> (Inl err, w)
        | Inr (i, d) \<Rightarrow> (Inr i, w\<lparr>mw_office := onOfficeDb (\<lambda>_. d) (mw_office w), mw_dead := mw_dead w @ [row\<lparr>dl_id := i\<rparr>]\<rparr>)))"

definition deadRow :: "mq_env \<Rightarrow> string \<Rightarrow> string \<Rightarrow> string \<Rightarrow> string \<Rightarrow> string option \<Rightarrow> mq_message \<Rightarrow> dead_row" where
  "deadRow E queue exchange key consumer source msg =
     \<lparr>dl_id = [], dl_queue = queue, dl_exchange = exchange, dl_key = key, dl_sourceKey = source, dl_consumer = consumer,
      dl_body = mm_body msg, dl_headers = mm_headers msg, dl_retries = getRetryCount (mm_headers msg),
      dl_error = extractDeadLetterReason (mm_headers msg), dl_status = DeadPending, dl_replays = 0, dl_lastReplay = None,
      dl_lastRole = None, dl_lastError = None, dl_created = me_now E, dl_deleted = None\<rparr>"

text \<open>An error of the registration is only logged; the message is acknowledged.\<close>

definition deleteDLQConsumer :: "mq_env \<Rightarrow> string option \<Rightarrow> mq_message \<Rightarrow> unit mq_req" where
  "deleteDLQConsumer E source msg =
     ecatch (ebind (registerMessage E (deadRow E deleteDLQ deleteExchange deleteKey ''deleteSOFTRecordsConsumer''
       (Some (orElse source deleteDLQ)) msg)) (\<lambda>_. eret ())) (\<lambda>_. eret ())"

definition serviceDLQConsumer :: "mq_env \<Rightarrow> string option \<Rightarrow> mq_message \<Rightarrow> unit mq_req" where
  "serviceDLQConsumer E source msg =
     ecatch (ebind (registerMessage E (deadRow E serviceDLQ serviceExchange serviceKey ''updateServiceInEventConsumer''
       (Some (orElse source (serviceKey @ ''.dlq''))) msg)) (\<lambda>_. eret ())) (\<lambda>_. eret ())"

record dead_page =
  dp_rows :: "dead_row list"
  dp_page :: int
  dp_itemsPerPage :: int
  dp_totalItems :: int
  dp_totalPages :: int

definition listMessages :: "int option \<Rightarrow> int option \<Rightarrow> dead_status option \<Rightarrow> string option \<Rightarrow> dead_row list \<Rightarrow> dead_page" where
  "listMessages page perPage status consumer rows =
     (let p = max 1 (orElse page 1); n = min 100 (max 1 (orElse perPage 20));
          found = filter (\<lambda>r. dl_deleted r = None \<and> (status \<noteq> None \<longrightarrow> status = Some (dl_status r)) \<and>
            (truthy consumer \<longrightarrow> consumer = Some (dl_consumer r))) rows;
          total = int (length found)
      in \<lparr>dp_rows = take (nat n) (drop (nat ((p - 1) * n)) (sort_key (\<lambda>r. - dl_created r) found)), dp_page = p,
          dp_itemsPerPage = n, dp_totalItems = total, dp_totalPages = max 1 (ceilDiv total n)\<rparr>)"

fun setHeader :: "string \<Rightarrow> string \<Rightarrow> (string \<times> string) list \<Rightarrow> (string \<times> string) list" where
  "setHeader k v [] = [(k, v)]"
| "setHeader k v ((a, b) # rest) = (if a = k then (k, v) # rest else (a, b) # setHeader k v rest)"

definition replayHeaders :: "mq_env \<Rightarrow> dead_row \<Rightarrow> mq_headers" where
  "replayHeaders E row = (let h = sanitizeHeaders (dl_headers row) in
     h\<lparr>mh_other := setHeader ''x-replay-at'' (toISOString (me_now E)) (setHeader ''x-replay-from-dlq-id'' (dl_id row) (mh_other h))\<rparr>)"

definition afterReplay :: "mq_env \<Rightarrow> string \<Rightarrow> app_error option \<Rightarrow> dead_row \<Rightarrow> dead_row" where
  "afterReplay E role err r = r\<lparr>dl_status := (if err = None then Replayed else ReplayFailed), dl_replays := Suc (dl_replays r),
     dl_lastReplay := Some (me_now E), dl_lastRole := Some role, dl_lastError := err\<rparr>"

definition setDead :: "ident \<Rightarrow> (dead_row \<Rightarrow> dead_row) \<Rightarrow> unit mq_req" where
  "setDead i f = emod (\<lambda>w. w\<lparr>mw_dead := updateWhere (\<lambda>r. dl_id r = i) f (mw_dead w)\<rparr>)"

record replay_result =
  rp_id :: ident
  rp_status :: dead_status
  rp_replays :: nat
  rp_key :: string
  rp_exchange :: string

definition replayMessage :: "mq_env \<Rightarrow> ident \<Rightarrow> string \<Rightarrow> replay_result option mq_req" where
  "replayMessage E i role =
     ebind (eread (\<lambda>w. List.find (\<lambda>r. dl_id r = i \<and> dl_deleted r = None) (mw_dead w))) (\<lambda>found.
     case found of
       None \<Rightarrow> eret None
     | Some row \<Rightarrow>
         ecatch
           (ebind (publishToExchange E \<lparr>en_exchange = dl_exchange row, en_key = dl_key row,
              en_message = \<lparr>mm_body = dl_body row, mm_headers = replayHeaders E row\<rparr>\<rparr>) (\<lambda>_.
            ebind (setDead (dl_id row) (afterReplay E role None)) (\<lambda>_.
            eret (Some \<lparr>rp_id = dl_id row, rp_status = Replayed, rp_replays = Suc (dl_replays row), rp_key = dl_key row,
              rp_exchange = dl_exchange row\<rparr>))))
           (\<lambda>err. ebind (setDead (dl_id row) (afterReplay E role (Some err))) (\<lambda>_. ethrow err)))"

text \<open>The promise of the replay is returned without waiting for it, so its error is not wrapped.\<close>

definition replayDeadLetterMessage :: "mq_env \<Rightarrow> ident \<Rightarrow> string \<Rightarrow> replay_result option mq_req" where
  "replayDeadLetterMessage E i role =
     (if i = [] then ethrow (Wrapped ''DeadLetterManagementCommandService.replayDeadLetterMessage''
         (PlainError ''El id del mensaje DLQ es requerido''))
      else replayMessage E i role)"

datatype 'a dead_answer = DeadOk 'a | DeadInvalid | DeadForbidden | DeadNotFound | DeadFailed app_error

definition allowedRole :: "string \<Rightarrow> bool" where
  "allowedRole role \<longleftrightarrow> role \<in> {''ROLE_SUPER_ADMIN'', ''ROLE_DEVELOPER''}"

definition postReplay :: "mq_env \<Rightarrow> ident \<Rightarrow> string \<Rightarrow> mq_world \<Rightarrow> replay_result dead_answer \<times> mq_world" where
  "postReplay E i role w =
     (if trim i = [] then (DeadInvalid, w)
      else if \<not> allowedRole role then (DeadForbidden, w)
      else case replayDeadLetterMessage E (trim i) role w of
        (Inl err, w') \<Rightarrow> (DeadFailed err, w')
      | (Inr None, w') \<Rightarrow> (DeadNotFound, w')
      | (Inr (Some x), w') \<Rightarrow> (DeadOk x, w'))"

definition validDeadQuery :: "int option \<Rightarrow> int option \<Rightarrow> string option \<Rightarrow> bool" where
  "validDeadQuery page perPage consumer \<longleftrightarrow> orElse page 1 \<in> {1..500} \<and> orElse perPage 1 \<in> {1..100} \<and>
     (case consumer of None \<Rightarrow> True | Some c \<Rightarrow> trim c \<noteq> [] \<and> length (trim c) \<le> 120)"

definition getDeadMessages ::
  "int option \<Rightarrow> int option \<Rightarrow> dead_status option \<Rightarrow> string option \<Rightarrow> string \<Rightarrow> mq_world \<Rightarrow> dead_page dead_answer" where
  "getDeadMessages page perPage status consumer role w =
     (if \<not> validDeadQuery page perPage consumer then DeadInvalid
      else if \<not> allowedRole role then DeadForbidden
      else DeadOk (listMessages page perPage status (map_option trim consumer) (mw_dead w)))"

section \<open>The broker\<close>

text \<open>The queue of deletions: messages that wait, and those that were refused. What a delivery publishes to the exchange of the
  deletions comes to the queue, a retry after its delay; the clock and the failures are those of the delivery.\<close>

record broker =
  bk_queue :: "mq_message list"
  bk_dead :: "mq_message list"
  bk_world :: mq_world

definition toDeleteQueue :: "envelope \<Rightarrow> bool" where
  "toDeleteQueue en \<longleftrightarrow> en_exchange en = deleteExchange \<and> en_key en \<in> {deleteKey, deleteKeyRetry}"

definition consume :: "mq_env \<Rightarrow> mq_message \<Rightarrow> delivery mq_req" where
  "consume E msg = (case mm_body msg of
     DeleteBody r \<Rightarrow> deleteRecordsConsumer E r msg
   | ServiceBody _ \<Rightarrow> eret DeadLettered)"

definition deliverNext :: "mq_env \<Rightarrow> broker \<Rightarrow> broker" where
  "deliverNext E b =
     (case bk_queue b of
        [] \<Rightarrow> b
      | msg # rest \<Rightarrow>
          let before = length (mw_published (bk_world b)); (r, w) = consume E msg (bk_world b) in
          b\<lparr>bk_queue := rest @ map en_message (filter toDeleteQueue (drop before (mw_published w))),
            bk_dead := (if r = Inr Acked then bk_dead b else bk_dead b @ [msg]), bk_world := w\<rparr>)"

end
