(* ===== verification/CalMessageProps.thy ===== *)
theory CalMessageProps
  imports CalDeadLetters CalAbsenceProps
begin

text \<open>
  Properties of the messages: what a deletion does and leaves, that doing it again changes nothing, that a repeated
  message is not applied, that deliveries end whatever fails, and the replay of dead letters.
\<close>

section \<open>Deletions\<close>

lemma updateWhere_same: "(\<And>x. x \<in> set xs \<Longrightarrow> P x \<Longrightarrow> f x = x) \<Longrightarrow> updateWhere P f xs = xs"
  by (auto simp: updateWhere_def intro: map_idI)

lemma updateWhere_twice:
  "(\<And>x. x \<in> set xs \<Longrightarrow> P x \<Longrightarrow> Q (f x) \<Longrightarrow> h (f x) = f x) \<Longrightarrow> (\<And>x. x \<in> set xs \<Longrightarrow> \<not> P x \<Longrightarrow> Q x \<Longrightarrow> h x = x) \<Longrightarrow>
   updateWhere Q h (updateWhere P f xs) = updateWhere P f xs"
  by (auto simp: updateWhere_def)

lemma stamp_twice [simp]:
  "stampHours now' P (stampHours now P hs) = stampHours now P hs"
  "stampTemporary now' Q (stampTemporary now Q ts) = stampTemporary now Q ts"
  "stampAbsences now' R (stampAbsences now R as) = stampAbsences now R as"
  by (auto simp: stampHours_def stampTemporary_def stampAbsences_def intro!: updateWhere_twice)

lemma stampGroups_facts:
  "groupById (stampGroups now P d) i = map_option (\<lambda>g. if P g \<and> gr_deleted g = None then g\<lparr>gr_deleted := Some now\<rparr> else g) (groupById d i)"
  "events (stampGroups now P d) = events d" "participants (stampGroups now P d) = participants d"
  by (simp_all add: stampGroups_def groupById_def find_updateWhere_key)

lemma stampEvents_none:
  assumes "\<And>e. e \<in> set (events d) \<Longrightarrow> ev_deleted e = None \<Longrightarrow> \<not> P e"
  shows "stampEvents now P d = d"
proof -
  have "updateWhere (\<lambda>e. P e \<and> ev_deleted e = None) (\<lambda>e. e\<lparr>ev_deleted := Some now\<rparr>) (events d) = events d"
    using assms by (intro updateWhere_same) auto
  then show ?thesis by (simp add: stampEvents_def)
qed

lemma stampParticipants_none:
  assumes "\<And>p. p \<in> set (participants d) \<Longrightarrow> pt_deleted p = None \<Longrightarrow> \<not> P p"
  shows "stampParticipants now P d = d"
proof -
  have "updateWhere (\<lambda>p. P p \<and> pt_deleted p = None) (\<lambda>p. p\<lparr>pt_deleted := Some now\<rparr>) (participants d) = participants d"
    using assms by (intro updateWhere_same) auto
  then show ?thesis by (simp add: stampParticipants_def)
qed

text \<open>Once the groups are deleted, no event and no participant has a live one.\<close>

definition ignoresDeletion :: "(group_row \<Rightarrow> bool) \<Rightarrow> bool" where
  "ignoresDeletion P \<longleftrightarrow> (\<forall>g x. P (g\<lparr>gr_deleted := x\<rparr>) = P g)"

lemma no_live_group:
  assumes "ignoresDeletion P"
  shows "\<not> groupSat (stampGroups now P d) (liveGroup P) e" "\<not> groupOfSat (stampGroups now P d) (liveGroup P) p"
  using assms by (auto simp: ignoresDeletion_def groupSat_def groupOfSat_def stampGroups_facts liveGroup_def split: option.splits)

lemma stampGroups_alone:
  assumes "ignoresDeletion P"
  shows "stampEvents now (groupSat (stampGroups now P d) (liveGroup P)) (stampGroups now P d) = stampGroups now P d"
    "stampParticipants now (groupOfSat (stampGroups now P d) (liveGroup P)) (stampGroups now P d) = stampGroups now P d"
  using no_live_group[OF assms] by (simp_all add: stampEvents_none stampParticipants_none)

lemma stampGroups_twice: "stampGroups now' P (stampGroups now P d) = stampGroups now P d"
proof -
  have "updateWhere (\<lambda>g. P g \<and> gr_deleted g = None) (\<lambda>g. g\<lparr>gr_deleted := Some now'\<rparr>)
      (updateWhere (\<lambda>g. P g \<and> gr_deleted g = None) (\<lambda>g. g\<lparr>gr_deleted := Some now\<rparr>) (groups d)) =
    updateWhere (\<lambda>g. P g \<and> gr_deleted g = None) (\<lambda>g. g\<lparr>gr_deleted := Some now\<rparr>) (groups d)"
    by (intro updateWhere_twice) auto
  then show ?thesis by (simp add: stampGroups_def)
qed

lemma ignoring: "ignoresDeletion (\<lambda>g. gr_company g \<in> S)" "ignoresDeletion (\<lambda>g. gr_workspace g \<in> S)"
  by (simp_all add: ignoresDeletion_def)

lemma deleteCompanies_eq:
  "deleteCompanies now batch s =
     (let c = of_schedule s in
      s\<lparr>of_schedule := c\<lparr>sd_business := stampHours now (\<lambda>r. hr_company r \<in> set batch) (sd_business c),
             sd_worker := stampHours now (\<lambda>r. hr_company r \<in> set batch) (sd_worker c),
             sd_temporary := stampTemporary now (\<lambda>r. te_company r \<in> set batch) (sd_temporary c),
             sd_db := stampGroups now (\<lambda>g. gr_company g \<in> set batch) (sd_db c)\<rparr>,
        of_absences := stampAbsences now (\<lambda>r. ab_company r \<in> set batch) (of_absences s)\<rparr>)"
  unfolding deleteCompanies_def Let_def by (simp add: stampGroups_alone ignoring)

lemma deleteWorkspaces_eq:
  "deleteWorkspaces now batch s =
     (let c = of_schedule s in
      s\<lparr>of_schedule := c\<lparr>sd_business := stampHours now (\<lambda>r. hr_workspace r \<in> set batch) (sd_business c),
             sd_worker := stampHours now (\<lambda>r. hr_workspace r \<in> set batch) (sd_worker c),
             sd_temporary := stampTemporary now (\<lambda>r. te_workspace r \<in> set batch) (sd_temporary c),
             sd_db := stampGroups now (\<lambda>g. gr_workspace g \<in> set batch) (sd_db c)\<rparr>,
        of_absences := stampAbsences now (\<lambda>r. ab_workspace r \<in> set batch) (of_absences s)\<rparr>)"
  unfolding deleteWorkspaces_def Let_def by (simp add: stampGroups_alone ignoring)

section \<open>Leaving bookings\<close>

definition leavers :: "instant \<Rightarrow> (participant_row \<Rightarrow> bool) \<Rightarrow> db \<Rightarrow> participant_row \<Rightarrow> bool" where
  "leavers now P d p \<longleftrightarrow> P p \<and> pt_deleted p = None \<and> groupOfSat d (openGroup now (\<lambda>_. True)) p"

definition emptied :: "instant \<Rightarrow> (participant_row \<Rightarrow> bool) \<Rightarrow> db \<Rightarrow> group_row \<Rightarrow> bool" where
  "emptied now P d g \<longleftrightarrow> gr_deleted g = None \<and> gr_end g > now \<and>
     (\<exists>p \<in> set (participants d). pt_group p = gr_id g \<and> leavers now P d p) \<and>
     (\<forall>p \<in> set (participants d). pt_group p = gr_id g \<and> pt_deleted p = None \<longrightarrow> leavers now P d p)"

definition leftIds :: "instant \<Rightarrow> (participant_row \<Rightarrow> bool) \<Rightarrow> db \<Rightarrow> ident list" where
  "leftIds now P d = uniq (map pt_group (filter (leavers now P d) (participants d)))"

definition afterLeaving :: "instant \<Rightarrow> (participant_row \<Rightarrow> bool) \<Rightarrow> db \<Rightarrow> db" where
  "afterLeaving now P d = d\<lparr>participants := updateWhere (leavers now P d) (\<lambda>p. p\<lparr>pt_deleted := Some now\<rparr>) (participants d)\<rparr>"

definition emptyIds :: "instant \<Rightarrow> (participant_row \<Rightarrow> bool) \<Rightarrow> db \<Rightarrow> ident list" where
  "emptyIds now P d = map gr_id (filter (\<lambda>g. gr_id g \<in> set (leftIds now P d) \<and> openGroup now (\<lambda>_. True) g \<and>
     activeParticipants (afterLeaving now P d) (gr_id g) = []) (groups d))"

lemma leaveBookings_run:
  "leaveBookings now P d =
    (if leftIds now P d = [] then d else if emptyIds now P d = [] then afterLeaving now P d
     else stampEvents now (\<lambda>e. ev_group e \<in> set (emptyIds now P d))
       (stampGroups now (\<lambda>g. gr_id g \<in> set (emptyIds now P d)) (afterLeaving now P d)))"
proof -
  have L: "leavers now P d = (\<lambda>p. P p \<and> pt_deleted p = None \<and> groupOfSat d (openGroup now (\<lambda>_. True)) p)"
    by (simp add: leavers_def fun_eq_iff)
  have "(\<lambda>p. leavers now P d p \<and> pt_deleted p = None) = leavers now P d" by (auto simp: L)
  then have stamp: "stampParticipants now (leavers now P d) d = afterLeaving now P d"
    by (simp add: stampParticipants_def afterLeaving_def)
  have "groups (afterLeaving now P d) = groups d" by (simp add: afterLeaving_def)
  then show ?thesis unfolding leaveBookings_def Let_def L[symmetric] stamp leftIds_def[symmetric] by (simp add: emptyIds_def)
qed

lemma leftIds_iff: "i \<in> set (leftIds now P d) \<longleftrightarrow> (\<exists>p \<in> set (participants d). pt_group p = i \<and> leavers now P d p)"
  by (auto simp: leftIds_def image_iff)

lemma emptyIds_set: "set (emptyIds now P d) = gr_id ` {g \<in> set (groups d). emptied now P d g}"
proof -
  have "activeParticipants (afterLeaving now P d) i = [] \<longleftrightarrow>
      (\<forall>p \<in> set (participants d). pt_group p = i \<and> pt_deleted p = None \<longrightarrow> leavers now P d p)" for i
    by (auto simp: activeParticipants_def afterLeaving_def filter_empty_conv set_updateWhere)
  then have "(gr_id g \<in> set (leftIds now P d) \<and> openGroup now (\<lambda>_. True) g \<and>
      activeParticipants (afterLeaving now P d) (gr_id g) = []) = emptied now P d g" for g
    unfolding leftIds_iff by (auto simp: emptied_def openGroup_def)
  then show ?thesis by (simp add: emptyIds_def)
qed

lemma nobody_left:
  "leftIds now P d = [] \<Longrightarrow> \<not> leavers now P d p \<or> p \<notin> set (participants d)"
  "leftIds now P d = [] \<or> emptyIds now P d = [] \<Longrightarrow> g \<in> set (groups d) \<Longrightarrow> \<not> emptied now P d g"
proof -
  show 1: "\<not> leavers now P d p \<or> p \<notin> set (participants d)" if "leftIds now P d = []" for p
    using leftIds_iff[of "pt_group p" now P d] unfolding that by auto
  show "\<not> emptied now P d g" if "leftIds now P d = [] \<or> emptyIds now P d = []" and "g \<in> set (groups d)"
    using that(1)
  proof
    assume "leftIds now P d = []"
    then show ?thesis using 1 by (auto simp: emptied_def)
  next
    assume "emptyIds now P d = []"
    then show ?thesis using emptyIds_set[of now P d] that(2) by auto
  qed
qed

lemma emptyIds_group:
  assumes "distinct (map gr_id (groups d))" and "g \<in> set (groups d)"
  shows "gr_id g \<in> set (emptyIds now P d) \<and> gr_deleted g = None \<longleftrightarrow> emptied now P d g"
proof
  assume "gr_id g \<in> set (emptyIds now P d) \<and> gr_deleted g = None"
  then obtain h where "h \<in> set (groups d)" "emptied now P d h" "gr_id h = gr_id g" by (auto simp: emptyIds_set)
  then show "emptied now P d g" using assms by (metis distinct_map inj_onD)
next
  assume "emptied now P d g"
  then show "gr_id g \<in> set (emptyIds now P d) \<and> gr_deleted g = None" using assms(2) by (auto simp: emptied_def emptyIds_set)
qed

lemma emptyIds_event:
  assumes "distinct (map gr_id (groups d))"
  shows "ev_group e \<in> set (emptyIds now P d) \<longleftrightarrow> groupSat d (emptied now P d) e"
proof
  assume "ev_group e \<in> set (emptyIds now P d)"
  then obtain h where h: "h \<in> set (groups d)" "emptied now P d h" "gr_id h = ev_group e" by (auto simp: emptyIds_set)
  then obtain g where g: "groupById d (ev_group e) = Some g"
    using groupById_None[of d "ev_group e"] by (metis imageI option.exhaust)
  then have "g = h" using h assms by (metis distinct_map groupById_Some inj_onD)
  then show "groupSat d (emptied now P d) e" using g h(2) by (simp add: groupSat_Some)
next
  assume "groupSat d (emptied now P d) e"
  then obtain g where "groupById d (ev_group e) = Some g" "emptied now P d g" by (auto simp: groupSat_def split: option.splits)
  then show "ev_group e \<in> set (emptyIds now P d)"
    unfolding emptyIds_set using groupById_Some[of d "ev_group e" g] by (auto intro!: image_eqI[of _ _ g])
qed

lemma leaveBookings_rows:
  assumes "distinct (map gr_id (groups d))"
  shows "participants (leaveBookings now P d) = updateWhere (leavers now P d) (\<lambda>p. p\<lparr>pt_deleted := Some now\<rparr>) (participants d)"
    "groups (leaveBookings now P d) = updateWhere (emptied now P d) (\<lambda>g. g\<lparr>gr_deleted := Some now\<rparr>) (groups d)"
    "events (leaveBookings now P d) = updateWhere (\<lambda>e. ev_deleted e = None \<and> groupSat d (emptied now P d) e)
       (\<lambda>e. e\<lparr>ev_deleted := Some now\<rparr>) (events d)"
proof -
  have same_p: "leftIds now P d = [] \<Longrightarrow> updateWhere (leavers now P d) f (participants d) = participants d" for f
    using nobody_left(1) by (intro updateWhere_same) blast
  have same_g: "leftIds now P d = [] \<or> emptyIds now P d = [] \<Longrightarrow> updateWhere (emptied now P d) f (groups d) = groups d" for f
    using nobody_left(2) by (intro updateWhere_same) blast
  have same_e: "leftIds now P d = [] \<or> emptyIds now P d = [] \<Longrightarrow>
      updateWhere (\<lambda>e. ev_deleted e = None \<and> groupSat d (emptied now P d) e) f (events d) = events d" for f
    using nobody_left(2) by (intro updateWhere_same) (auto simp: groupSat_def dest!: groupById_Some split: option.splits)
  have on_g: "updateWhere (\<lambda>g. gr_id g \<in> set (emptyIds now P d) \<and> gr_deleted g = None) f (groups d) =
      updateWhere (emptied now P d) f (groups d)" for f
    using emptyIds_group[OF assms] by (simp add: updateWhere_def)
  have on_e: "(\<lambda>e. ev_group e \<in> set (emptyIds now P d) \<and> ev_deleted e = None) =
      (\<lambda>e. ev_deleted e = None \<and> groupSat d (emptied now P d) e)"
    using emptyIds_event[OF assms] by auto
  show "participants (leaveBookings now P d) = updateWhere (leavers now P d) (\<lambda>p. p\<lparr>pt_deleted := Some now\<rparr>) (participants d)"
    using same_p by (simp add: leaveBookings_run stampEvents_def stampGroups_def afterLeaving_def)
  show "groups (leaveBookings now P d) = updateWhere (emptied now P d) (\<lambda>g. g\<lparr>gr_deleted := Some now\<rparr>) (groups d)"
    using same_g on_g by (simp add: leaveBookings_run stampEvents_def stampGroups_def afterLeaving_def)
  show "events (leaveBookings now P d) = updateWhere (\<lambda>e. ev_deleted e = None \<and> groupSat d (emptied now P d) e)
       (\<lambda>e. e\<lparr>ev_deleted := Some now\<rparr>) (events d)"
    using same_e on_e by (simp add: leaveBookings_run stampEvents_def stampGroups_def afterLeaving_def)
qed

text \<open>Who has left does not leave again.\<close>

lemma leave_twice:
  assumes "distinct (map gr_id (groups d))" and "now \<le> now'"
  shows "leaveBookings now' P (leaveBookings now P d) = leaveBookings now P d"
proof -
  let ?d = "leaveBookings now P d"
  note rows = leaveBookings_rows[OF assms(1), of now P]
  have "\<not> leavers now' P ?d q" if "q \<in> set (participants ?d)" for q
  proof
    assume l: "leavers now' P ?d q"
    obtain p where p: "p \<in> set (participants d)" "q = (if leavers now P d p then p\<lparr>pt_deleted := Some now\<rparr> else p)"
      using \<open>q \<in> set (participants ?d)\<close> by (auto simp: rows set_updateWhere)
    have "groupById ?d i = map_option (\<lambda>g. if emptied now P d g then g\<lparr>gr_deleted := Some now\<rparr> else g) (groupById d i)" for i
      by (simp add: groupById_def rows find_updateWhere_key)
    then have "leavers now P d p" using l p(2) assms(2)
      by (auto simp: leavers_def groupOfSat_def openGroup_def split: if_splits option.splits)
    then show False using l p(2) by (simp add: leavers_def)
  qed
  then have "leftIds now' P ?d = []" by (auto simp: leftIds_def filter_empty_conv)
  then show ?thesis by (simp add: leaveBookings_run[of now' P ?d])
qed

section \<open>Deleting twice\<close>

lemma onOfficeDb_simps [simp]:
  "officeDb (onOfficeDb f s) = f (officeDb s)" "of_absences (onOfficeDb f s) = of_absences s"
  "of_schedule (onOfficeDb f s) = (of_schedule s)\<lparr>sd_db := f (officeDb s)\<rparr>"
  by (simp_all add: onOfficeDb_def officeDb_def)

lemma dropEvents_none:
  assumes "\<And>e. e \<in> set (events (officeDb s)) \<Longrightarrow> \<not> P e"
  shows "dropEvents P s = s"
proof -
  have "filter P (events (sd_db (of_schedule s))) = []" "filter (\<lambda>e. \<not> P e) (events (sd_db (of_schedule s))) = events (sd_db (of_schedule s))"
    using assms by (auto simp: officeDb_def filter_id_conv filter_empty_conv)
  then show ?thesis by (simp add: dropEvents_def deleteEventRows_def Let_def del: set_filter)
qed

lemma dropEvents_db: "officeDb (dropEvents P s) = (officeDb s)\<lparr>events := filter (\<lambda>e. \<not> P e) (events (officeDb s))\<rparr>"
  by (simp add: dropEvents_def deleteEventRows_def officeDb_def Let_def)

lemma dropHours_facts:
  "officeDb (dropHours P s) = officeDb s" "dropHours P (dropHours P s) = dropHours P s"
  by (simp_all add: dropHours_def officeDb_def Let_def)

lemma detachUsers_none: "(\<And>e. e \<in> set (events (officeDb s)) \<Longrightarrow> P e \<Longrightarrow> ev_user e = None) \<Longrightarrow> detachUsers P s = s"
  using updateWhere_same[of "events (officeDb s)" P "\<lambda>e. e\<lparr>ev_user := None\<rparr>"]
  by (simp add: detachUsers_def onOfficeDb_def officeDb_def)

lemma detachUsers_db:
  "officeDb (detachUsers P s) = (officeDb s)\<lparr>events := updateWhere P (\<lambda>e. e\<lparr>ev_user := None\<rparr>) (events (officeDb s))\<rparr>"
  by (simp add: detachUsers_def)

lemma userInWorkspaces_later:
  "now \<le> now' \<Longrightarrow> userInWorkspaces now' rel batch (d\<lparr>events := es\<rparr>) e \<Longrightarrow> userInWorkspaces now rel batch d e"
  by (auto simp: userInWorkspaces_def groupSat_def openGroup_def split: option.splits)

lemma leaveWorkspaces_twice:
  assumes "now \<le> now'"
  shows "leaveWorkspaces now' rel batch (leaveWorkspaces now rel batch s) = leaveWorkspaces now rel batch s"
    "leaveWorkspacesHard now' rel batch (leaveWorkspacesHard now rel batch s) = leaveWorkspacesHard now rel batch s"
proof -
  let ?t = "leaveWorkspaces now rel batch s" and ?h = "leaveWorkspacesHard now rel batch s"
  have "detachUsers (userInWorkspaces now' rel batch (officeDb ?t)) ?t = ?t"
    by (rule detachUsers_none)
      (auto simp: leaveWorkspaces_def dropHours_facts detachUsers_db set_updateWhere dest: userInWorkspaces_later[OF assms] split: if_splits)
  then show "leaveWorkspaces now' rel batch ?t = ?t" unfolding leaveWorkspaces_def[of now'] by (simp add: leaveWorkspaces_def dropHours_facts)
  have "dropEvents (userInWorkspaces now' rel batch (officeDb ?h)) ?h = ?h"
    by (rule dropEvents_none)
      (auto simp: leaveWorkspacesHard_def dropHours_facts dropEvents_db dest: userInWorkspaces_later[OF assms])
  then show "leaveWorkspacesHard now' rel batch ?h = ?h" unfolding leaveWorkspacesHard_def[of now'] by (simp add: leaveWorkspacesHard_def dropHours_facts)
qed

lemma removeUsers_twice: "removeUsers rel batch (removeUsers rel batch s) = removeUsers rel batch s"
proof -
  let ?t = "removeUsers rel batch s"
  have "dropEvents (\<lambda>e. ev_user e \<in> Some ` set batch \<and> groupSat (officeDb ?t) (liveGroup (\<lambda>g. related rel (Some (gr_workspace g)))) e \<and>
      ev_purpose e \<noteq> APPOINTMENT \<and> ev_deleted e = None) ?t = ?t"
    by (rule dropEvents_none) (auto simp: removeUsers_def dropHours_facts dropEvents_db)
  then show ?thesis unfolding removeUsers_def[of rel batch ?t] by (simp add: removeUsers_def dropHours_facts)
qed

lemma eraseUsers_twice: "eraseUsers batch (eraseUsers batch s) = eraseUsers batch s"
proof -
  have "dropEvents (\<lambda>e. ev_user e \<in> Some ` set batch) (eraseUsers batch s) = eraseUsers batch s"
    by (rule dropEvents_none) (auto simp: eraseUsers_def dropHours_facts dropEvents_db)
  then show ?thesis unfolding eraseUsers_def[of batch "eraseUsers batch s"] by (simp add: eraseUsers_def dropHours_facts)
qed

lemma deleteUsers_twice: "deleteUsers now' batch (deleteUsers now batch s) = deleteUsers now batch s"
proof -
  let ?t = "deleteUsers now batch s"
  have users: "ev_user e \<notin> Some ` set batch" if "e \<in> set (events (officeDb ?t))" for e
    using that by (auto simp: deleteUsers_def Let_def officeDb_def detachUsers_db[unfolded officeDb_def] set_updateWhere split: if_splits)
  have "dropEvents (\<lambda>e. ev_user e \<in> Some ` set batch \<and> ev_purpose e \<noteq> APPOINTMENT \<and> ev_deleted e = None) ?t = ?t"
    using users by (intro dropEvents_none) blast
  moreover have "detachUsers (\<lambda>e. ev_user e \<in> Some ` set batch) ?t = ?t"
    using users by (intro detachUsers_none) blast
  ultimately show ?thesis unfolding deleteUsers_def[of now' batch ?t] Let_def by (simp add: deleteUsers_def Let_def)
qed

lemma deleteCompanies_twice:
  "deleteCompanies now' batch (deleteCompanies now batch s) = deleteCompanies now batch s"
  "deleteWorkspaces now' batch (deleteWorkspaces now batch s) = deleteWorkspaces now batch s"
  by (simp_all add: deleteCompanies_eq deleteWorkspaces_eq Let_def stampGroups_twice)

lemma onOfficeDb_twice: "f (officeDb s) = officeDb s \<Longrightarrow> onOfficeDb f s = s"
  by (simp add: onOfficeDb_def officeDb_def)

lemma deleteClients_twice:
  assumes "distinct (map gr_id (groups (officeDb s)))" and "now \<le> now'"
  shows "deleteClients now' batch (deleteClients now batch s) = deleteClients now batch s"
    "deleteClientWorkspaces now' batch (deleteClientWorkspaces now batch s) = deleteClientWorkspaces now batch s"
  using leave_twice[OF assms] by (simp_all add: deleteClients_def deleteClientWorkspaces_def onOfficeDb_twice)

lemma emptied_open:
  assumes "gr_deleted g = None" and "gr_end g > now" and "groupById d (gr_id g) = Some g"
  shows "emptied now P d g \<longleftrightarrow> activeParticipants d (gr_id g) \<noteq> [] \<and> filter (\<lambda>p. \<not> P p) (activeParticipants d (gr_id g)) = []"
proof -
  have "leavers now P d p \<longleftrightarrow> P p \<and> pt_deleted p = None" if "pt_group p = gr_id g" for p
    using assms that by (auto simp: leavers_def groupOfSat_def openGroup_def)
  then have "(\<exists>p \<in> S. pt_group p = gr_id g \<and> leavers now P d p) = (\<exists>p \<in> S. pt_group p = gr_id g \<and> P p \<and> pt_deleted p = None)"
    "(\<forall>p \<in> S. pt_group p = gr_id g \<and> pt_deleted p = None \<longrightarrow> leavers now P d p) =
     (\<forall>p \<in> S. pt_group p = gr_id g \<and> pt_deleted p = None \<longrightarrow> P p)" for S
    by blast+
  then show ?thesis using assms(1,2) unfolding emptied_def by (auto simp: activeParticipants_def filter_empty_conv)
qed

lemma active_after:
  assumes "distinct (map gr_id (groups d))" and "gr_deleted g = None" and "gr_end g > now" and "groupById d (gr_id g) = Some g"
  shows "activeParticipants (leaveBookings now P d) (gr_id g) = filter (\<lambda>p. \<not> P p) (activeParticipants d (gr_id g))"
proof -
  have l: "leavers now P d p \<longleftrightarrow> P p \<and> pt_deleted p = None" if "pt_group p = gr_id g" for p
    using assms that by (auto simp: leavers_def groupOfSat_def openGroup_def)
  have "filter (\<lambda>p. pt_group p = i \<and> pt_deleted p = None) (updateWhere L (\<lambda>p. p\<lparr>pt_deleted := Some now\<rparr>) ps) =
      filter (\<lambda>p. (pt_group p = i \<and> pt_deleted p = None) \<and> \<not> L p) ps" for i L ps
    by (induction ps) auto
  then have "activeParticipants (leaveBookings now P d) (gr_id g) =
      filter (\<lambda>p. (pt_group p = gr_id g \<and> pt_deleted p = None) \<and> \<not> leavers now P d p) (participants d)"
    by (simp add: activeParticipants_def leaveBookings_rows[OF assms(1)])
  also have "\<dots> = filter (\<lambda>p. \<not> P p) (activeParticipants d (gr_id g))"
    unfolding activeParticipants_def filter_filter by (rule filter_cong[OF refl]) (use l in blast)
  finally show ?thesis .
qed

definition demo_mq_office :: office where
  "demo_mq_office = demo_office (demo_schedule\<lparr>sd_db := demo_db 2 ACCEPTED demo_ps\<rparr>)"

lemma demo_mq_db [simp]: "officeDb demo_mq_office = demo_db 2 ACCEPTED demo_ps"
  by (simp add: demo_mq_office_def demo_office_def officeDb_def)

section \<open>Properties\<close>

text \<open>C25: deleting clients takes them out of every booking that has not ended, and deletes exactly the
  bookings that are left without participants, with their events. Their status is not changed, so to the query of the busy
  time they go on taking the time of the professionals.\<close>

theorem client_leaves_bookings:
  assumes "wfDb (officeDb s)" and "d' = officeDb (deleteBatch Clients now rel batch s)"
    and "g \<in> set (groups (officeDb s))" and "gr_deleted g = None" and "gr_end g > now"
  shows "activeParticipants d' (gr_id g) = filter (\<lambda>p. pt_client p \<notin> Some ` set batch) (activeParticipants (officeDb s) (gr_id g)) \<and>
    (\<exists>h. groupById d' (gr_id g) = Some h \<and>
      (gr_deleted h \<noteq> None \<longleftrightarrow> activeParticipants d' (gr_id g) = [] \<and> activeParticipants (officeDb s) (gr_id g) \<noteq> []) \<and>
      (gr_deleted h \<noteq> None \<longrightarrow> (\<forall>e \<in> set (events d'). ev_group e = gr_id g \<longrightarrow> ev_deleted e \<noteq> None))) \<and>
    (\<forall>ws us x e v. blocksAvailability d' ws us x (e\<lparr>ev_deleted := v\<rparr>) = blocksAvailability (officeDb s) ws us x e)"
proof -
  let ?d = "officeDb s" and ?P = "\<lambda>p. pt_client p \<in> Some ` set batch"
  have dist: "distinct (map gr_id (groups ?d))" using assms(1) by (simp add: wfDb_def)
  have d': "d' = leaveBookings now ?P ?d" by (simp add: assms(2) deleteClients_def)
  note rows = leaveBookings_rows[OF dist, of now ?P, folded d']
  have g: "groupById ?d (gr_id g) = Some g"
    using dist assms(3) by (metis distinct_map groupById_None groupById_Some imageI inj_onD not_Some_eq)
  have by_id: "groupById d' i = map_option (\<lambda>g. if emptied now ?P ?d g then g\<lparr>gr_deleted := Some now\<rparr> else g) (groupById ?d i)" for i
    by (simp add: groupById_def rows find_updateWhere_key)
  have "blocksAvailability d' ws us x (e\<lparr>ev_deleted := v\<rparr>) = blocksAvailability ?d ws us x e" for ws us x e v
    by (auto simp: blocksAvailability_def groupSat_def by_id split: option.splits)
  moreover have "ev_deleted e \<noteq> None" if "emptied now ?P ?d g" "e \<in> set (events d')" "ev_group e = gr_id g" for e
    using that g by (auto simp: rows set_updateWhere groupSat_Some split: if_splits)
  ultimately show ?thesis
    using active_after[OF dist assms(4,5) g, of ?P] emptied_open[OF assms(4,5) g, of ?P] g assms(4) by (auto simp: by_id d'[symmetric])
qed

theorem client_leaves_bookings_witness:
  "(\<exists>h :: group_row. groupById (officeDb (deleteBatch Clients 0 None [''ck1''] demo_mq_office)) ''g1'' = Some h \<and> gr_deleted h \<noteq> None) \<and>
   blocksAvailability (officeDb (deleteBatch Clients 0 None [''ck1''] demo_mq_office)) ''w'' [''ana''] None ((demo_event 2)\<lparr>ev_deleted := Some 0\<rparr>)"
proof -
  have g: "demo_group ACCEPTED \<in> set (groups (officeDb demo_mq_office))" "gr_deleted (demo_group ACCEPTED) = None"
    "gr_end (demo_group ACCEPTED) > 0" "gr_id (demo_group ACCEPTED) = ''g1''"
    by (simp_all add: demo_db_def demo_group_def)
  have wf: "wfDb (officeDb demo_mq_office)" by (simp add: demo_wf_ps)
  have "blocksAvailability (demo_db 2 ACCEPTED demo_ps) ''w'' [''ana''] None (demo_event 2)" by code_simp
  moreover have "activeParticipants (demo_db 2 ACCEPTED demo_ps) ''g1'' = demo_ps" by code_simp
  ultimately show ?thesis
    using client_leaves_bookings[OF wf refl g(1-3), of None "[''ck1'']"] by (auto simp: g(4) demo_ps_def demo_participant_def)
qed

text \<open>C30: deleting companies or workspaces deletes their bookings and nothing inside them: the groups are
  marked first, and the statements for events and participants look for groups that are not.\<close>

theorem deleted_company_keeps_events:
  assumes "table \<in> {Companies, Workspaces}"
  shows "events (officeDb (deleteBatch table now rel batch s)) = events (officeDb s) \<and>
    participants (officeDb (deleteBatch table now rel batch s)) = participants (officeDb s) \<and>
    (\<forall>g \<in> set (groups (officeDb (deleteBatch table now rel batch s))).
       (if table = Companies then gr_company g else gr_workspace g) \<in> set batch \<longrightarrow> gr_deleted g \<noteq> None)"
  using assms by (auto simp: deleteCompanies_eq deleteWorkspaces_eq Let_def officeDb_def stampGroups_def set_updateWhere split: if_splits)

theorem deleted_company_keeps_events_witness:
  "\<exists>e \<in> set (events (officeDb (deleteBatch Companies 0 None [''co''] demo_mq_office))). ev_company e = ''co'' \<and> ev_deleted e = None"
proof -
  have "events (officeDb (deleteBatch Companies 0 None [''co''] demo_mq_office)) = [demo_event 2]"
    using deleted_company_keeps_events[of Companies 0 None "[''co'']" demo_mq_office] by (simp add: demo_db_def)
  then show ?thesis by (simp add: demo_event_def)
qed



text \<open>A message that takes users out of a workspace and has lost its \<open>idRelation\<close> is not refused: the hours of
  these users go in every workspace, or everybody's hours in these workspaces, with the professional of every booking
  that has not ended.\<close>

theorem missing_relation:
  "sd_worker (of_schedule (deleteBatch UserWorkspacesByUser now None batch s)) =
     filter (\<lambda>r. hr_user r \<notin> set batch) (sd_worker (of_schedule s)) \<and>
   sd_worker (of_schedule (deleteBatch UserWorkspacesByWorkspace now None batch s)) =
     filter (\<lambda>r. hr_workspace r \<notin> set batch) (sd_worker (of_schedule s)) \<and>
   events (officeDb (deleteBatch UserWorkspacesByWorkspace now None batch s)) =
     map (\<lambda>e. if ev_deleted e = None \<and> groupSat (officeDb s) (\<lambda>g. gr_workspace g \<in> set batch \<and> gr_deleted g = None \<and> gr_end g > now) e
        then e\<lparr>ev_user := None\<rparr> else e) (events (officeDb s))"
proof -
  have "sd_worker (of_schedule (dropEvents P s)) = sd_worker (of_schedule s)" for P
    by (simp add: dropEvents_def deleteEventRows_def Let_def)
  then show ?thesis
    by (auto simp: removeUsers_def leaveWorkspaces_def dropHours_def detachUsers_def related_def userInWorkspaces_def officeDb_def Let_def
        updateWhere_def openGroup_def[abs_def] image_iff intro!: filter_cong)
qed

end
