(* ===== verification/CalDeliveryProps.thy ===== *)
theory CalDeliveryProps
  imports CalMessageProps
begin

text \<open>
  Properties of the deliveries: a message with the content of one that was applied is dropped, deliveries come to an
  end whatever fails, and what was refused can be replayed as it was.
\<close>

section \<open>What a delivery publishes\<close>

lemma reliability_steps:
  "isMessageProcessed E scope digest w = (Inr (redisGet (me_now E) (keyProcessed scope digest) (mw_redis w) = Some (RText ''1'')), w)"
  "markMessageProcessed E scope digest w = (Inr (), w\<lparr>mw_redis :=
     redisSet (me_now E) (keyProcessed scope digest) (RText ''1'') (Some (me_processedTtl E)) (mw_redis w)\<rparr>)"
  "acquireMessageLock E scope digest w =
     (Inr (fst (redisSetIfNotExists (me_now E) (keyLock scope digest) (RText ''1'') (me_lockTtl E) (mw_redis w))),
      w\<lparr>mw_redis := snd (redisSetIfNotExists (me_now E) (keyLock scope digest) (RText ''1'') (me_lockTtl E) (mw_redis w))\<rparr>)"
  "releaseMessageLock scope digest w = (Inr (), w\<lparr>mw_redis := redisDelete (keyLock scope digest) (mw_redis w)\<rparr>)"
  "publishToExchange E en w = (case me_publishFails E en of Some err \<Rightarrow> (Inl err, w) | None \<Rightarrow> (Inr (), w\<lparr>mw_published := mw_published w @ [en]\<rparr>))"
  by (simp_all add: isMessageProcessed_def markMessageProcessed_def acquireMessageLock_def releaseMessageLock_def publishToExchange_def
      split: prod.splits option.splits)

definition publishes :: "unit mq_req \<Rightarrow> (envelope list \<Rightarrow> bool) \<Rightarrow> bool" where
  "publishes m Q \<longleftrightarrow> (\<forall>w. \<exists>ps. mw_published (snd (m w)) = mw_published w @ ps \<and> Q ps)"

lemma reliably_publishes:
  assumes "publishes work Q" and "Q []"
  obtains ps more where "mw_published (snd (reliably E scope msg R retry work w)) = mw_published w @ ps @ more" "Q ps"
    "more = [] \<or> more = [retry] \<and> getRetryCount (mm_headers msg) < R"
proof -
  let ?lock = "redisSetIfNotExists (me_now E) (keyLock scope (me_digest E (mm_body msg))) (RText ''1'') (me_lockTtl E) (mw_redis w)"
  obtain ps where ps: "mw_published (snd (work (w\<lparr>mw_redis := snd ?lock\<rparr>))) = mw_published w @ ps" "Q ps"
    using assms(1) unfolding publishes_def by (metis (no_types, lifting) mq_world.select_convs(3) mq_world.surjective mq_world.update_convs(2))
  obtain res w2 where run: "work (w\<lparr>mw_redis := snd ?lock\<rparr>) = (res, w2)" by fastforce
  note steps = reliably_def ebind_def ecatch_def reliability_steps Let_def
  consider (over) "redisGet (me_now E) (keyProcessed scope (me_digest E (mm_body msg))) (mw_redis w) = Some (RText ''1'') \<or> \<not> fst ?lock"
    | (failed) err where "redisGet (me_now E) (keyProcessed scope (me_digest E (mm_body msg))) (mw_redis w) \<noteq> Some (RText ''1'')" "fst ?lock" "res = Inl err"
    | (applied) "redisGet (me_now E) (keyProcessed scope (me_digest E (mm_body msg))) (mw_redis w) \<noteq> Some (RText ''1'')" "fst ?lock" "res = Inr ()"
    by (cases res) auto
  then show thesis
  proof cases
    case over
    then have "mw_published (snd (reliably E scope msg R retry work w)) = mw_published w" by (auto simp: steps)
    then show thesis using that[of "[]" "[]"] assms(2) by simp
  next
    case failed
    show thesis
    proof (cases "getRetryCount (mm_headers msg) \<ge> R \<or> me_publishFails E retry \<noteq> None")
      case True
      then have "mw_published (snd (reliably E scope msg R retry work w)) = mw_published w @ ps"
        using failed run ps(1) by (auto simp: steps)
      then show thesis using that[of ps "[]"] ps(2) by simp
    next
      case False
      then have "mw_published (snd (reliably E scope msg R retry work w)) = mw_published w @ ps @ [retry]"
        using failed run ps(1) by (auto simp: steps)
      then show thesis using that[of ps "[retry]"] ps(2) False by simp
    qed
  next
    case applied
    then have "mw_published (snd (reliably E scope msg R retry work w)) = mw_published w @ ps"
      using run ps(1) by (simp add: steps)
    then show thesis using that[of ps "[]"] ps(2) by simp
  qed
qed

lemma publishAll_publishes: "publishes (publishAll E ens) (\<lambda>ps. \<exists>k. ps = take k ens)"
  unfolding publishes_def
proof
  fix w
  show "\<exists>ps. mw_published (snd (publishAll E ens w)) = mw_published w @ ps \<and> (\<exists>k. ps = take k ens)"
  proof (induction ens arbitrary: w)
    case (Cons en ens)
    show ?case
    proof (cases "me_publishFails E en")
      case None
      obtain k where "mw_published (snd (publishAll E ens (w\<lparr>mw_published := mw_published w @ [en]\<rparr>))) = mw_published w @ en # take k ens"
        using Cons[of "w\<lparr>mw_published := mw_published w @ [en]\<rparr>"] by auto
      then show ?thesis using None by (auto simp: ebind_def reliability_steps intro!: exI[of _ "Suc k"])
    next
      case (Some err)
      then show ?thesis by (auto simp: ebind_def reliability_steps intro!: exI[of _ "0::nat"])
    qed
  qed simp
qed

lemma deleteBatches_publishes: "mw_published (snd (deleteBatches E table rel bs w)) = mw_published w"
  by (induction bs arbitrary: w) (auto simp: ebind_def split: option.splits)

definition splitOf :: "nat \<Rightarrow> delete_request \<Rightarrow> string list \<Rightarrow> int \<Rightarrow> envelope list" where
  "splitOf M r ids n = (if length ids > M then map (chunkMessage r n) (chunkArray M ids) else [])"

lemma deleteWork_publishes: "publishes (deleteWork E r table ids n) (\<lambda>ps. \<exists>k. ps = take k (splitOf (me_maxIds E) r ids n))"
  using publishAll_publishes[of E "map (chunkMessage r n) (chunkArray (me_maxIds E) ids)"]
  by (auto simp: deleteWork_def splitOf_def publishes_def deleteBatches_publishes)

section \<open>A measure of the deliveries that are left\<close>

primrec attempts :: "nat \<Rightarrow> nat \<Rightarrow> nat" where
  "attempts c 0 = Suc c"
| "attempts c (Suc a) = Suc (c * Suc (Suc a) + attempts c a)"

lemma attempts_one [simp]: "attempts 0 a = Suc a"
  by (induction a) auto

definition chunksOf :: "nat \<Rightarrow> delete_request \<Rightarrow> nat" where
  "chunksOf M r = (case validateIdsAreStrings (dr_ids r) of Some ids \<Rightarrow> length (splitOf M r ids 0) | None \<Rightarrow> 0)"

definition triesLeft :: "int \<Rightarrow> mq_message \<Rightarrow> nat" where
  "triesLeft R msg = nat (R - getRetryCount (mm_headers msg))"

definition msgWeight :: "nat \<Rightarrow> int \<Rightarrow> mq_message \<Rightarrow> nat" where
  "msgWeight M R msg = (case mm_body msg of DeleteBody r \<Rightarrow> attempts (chunksOf M r) (triesLeft R msg) | ServiceBody _ \<Rightarrow> 1)"

lemma getRetryCount_nonneg: "getRetryCount h \<ge> 0"
  by (auto simp: getRetryCount_def deathCount_def Let_def split: option.splits list.splits)

lemma getRetryCount_simps [simp]:
  "n \<ge> 0 \<Longrightarrow> getRetryCount (withRetry h n) = n" "getRetryCount (sanitizeHeaders h) = 0"
  by (simp_all add: getRetryCount_def withRetry_def sanitizeHeaders_def deathCount_def)

lemma chunk_small: "M > 0 \<Longrightarrow> c \<in> set (chunkArray M xs) \<Longrightarrow> length c \<le> M"
  by (induction M xs rule: chunkArray.induct) auto

lemma chunk_weight:
  assumes "M > 0" and "n \<ge> 0" and "c \<in> set (chunkArray M ids)"
  shows "msgWeight M R (en_message (chunkMessage r n c)) \<le> Suc (nat (R - n))"
proof -
  have "map (the \<circ> Some) c = c" by simp
  then have "chunksOf M (r\<lparr>dr_ids := Some (map Some c)\<rparr>) = 0"
    using chunk_small[OF assms(1,3)] by (auto simp: chunksOf_def validateIdsAreStrings_def splitOf_def split: option.splits)
  then show ?thesis using assms(2) by (simp add: msgWeight_def chunkMessage_def triesLeft_def getRetryCount_def)
qed

lemma sum_bounded: "(\<And>x. x \<in> set xs \<Longrightarrow> f x \<le> b) \<Longrightarrow> sum_list (map f xs) \<le> length xs * (b::nat)"
  by (induction xs) (auto simp: add_mono)

lemma sum_filter_le: "sum_list (map f (filter P xs)) \<le> sum_list (map (f :: 'a \<Rightarrow> nat) xs)"
  by (induction xs) auto

lemma split_weight:
  assumes "M > 0" and "n \<ge> 0"
  shows "sum_list (map (msgWeight M R \<circ> en_message) (take k (splitOf M r ids n))) \<le> length (splitOf M r ids n) * Suc (nat (R - n))"
proof -
  have "sum_list (map (msgWeight M R \<circ> en_message) (take k (splitOf M r ids n))) \<le> length (take k (splitOf M r ids n)) * Suc (nat (R - n))"
    by (rule sum_bounded) (auto simp: splitOf_def dest!: in_set_takeD intro!: chunk_weight[OF assms] split: if_splits)
  also have "\<dots> \<le> length (splitOf M r ids n) * Suc (nat (R - n))" by (intro mult_right_mono) auto
  finally show ?thesis .
qed

text \<open>What a delivery publishes weighs less than the message.\<close>

lemma delivery_weight:
  assumes "me_maxIds E = M" and "me_maxRetries E = R" and "M > 0"
  obtains new where "mw_published (snd (consume E msg w)) = mw_published w @ new"
    "sum_list (map (msgWeight M R \<circ> en_message) new) < msgWeight M R msg"
proof -
  have pos: "msgWeight M R msg > 0"
    by (cases "triesLeft R msg") (auto simp: msgWeight_def split: mq_body.splits)
  show thesis
  proof (cases "mm_body msg")
    case (ServiceBody u)
    then show thesis using that[of "[]"] pos by (simp add: consume_def)
  next
    case (DeleteBody r)
    show thesis
    proof (cases "isDeleteRecordsTable (dr_table r) = None \<or> validateIdsAreStrings (dr_ids r) = None")
      case True
      then show thesis using that[of "[]"] pos DeleteBody by (auto simp: consume_def deleteRecordsConsumer_def split: option.splits)
    next
      case False
      then obtain table ids where ok: "isDeleteRecordsTable (dr_table r) = Some table" "validateIdsAreStrings (dr_ids r) = Some ids" by auto
      let ?n = "getRetryCount (mm_headers msg)" and ?c = "chunksOf M r"
      let ?retry = "\<lparr>en_exchange = deleteExchange, en_key = deleteKeyRetry, en_message = msg\<lparr>mm_headers := withRetry (mm_headers msg) (?n + 1)\<rparr>\<rparr>"
      have c: "length (splitOf M r ids ?n) = ?c" by (simp add: chunksOf_def ok splitOf_def)
      have n: "?n \<ge> 0" by (rule getRetryCount_nonneg)
      obtain ps more where run: "mw_published (snd (consume E msg w)) = mw_published w @ ps @ more"
          "\<exists>k. ps = take k (splitOf M r ids ?n)" "more = [] \<or> more = [?retry] \<and> ?n < R"
        using reliably_publishes[OF deleteWork_publishes[of E r table ids ?n], of E "''deleteSOFTRecords''" msg R ?retry w] assms(1,2)
        by (auto simp: consume_def DeleteBody deleteRecordsConsumer_def ok Let_def)
      have ps: "sum_list (map (msgWeight M R \<circ> en_message) ps) \<le> ?c * Suc (nat (R - ?n))"
        using run(2) split_weight[OF assms(3) n, of R _ r ids] by (auto simp: c)
      have "sum_list (map (msgWeight M R \<circ> en_message) (ps @ more)) < attempts ?c (triesLeft R msg)"
        using run(3)
      proof
        assume "more = []"
        then show ?thesis using ps by (cases "nat (R - ?n)") (auto simp: triesLeft_def)
      next
        assume more: "more = [?retry] \<and> ?n < R"
        then obtain a where a: "nat (R - ?n) = Suc a" "nat (R - (?n + 1)) = a" by (cases "nat (R - ?n)") auto
        have "msgWeight M R (en_message ?retry) = attempts ?c a"
          using n a(2) by (simp add: msgWeight_def DeleteBody triesLeft_def)
        then show ?thesis using ps more a(1) by (simp add: triesLeft_def)
      qed
      then show thesis using that[of "ps @ more"] run(1) DeleteBody by (simp add: msgWeight_def)
    qed
  qed
qed

lemma delivery_decreases:
  assumes "me_maxIds E = M" and "me_maxRetries E = R" and "M > 0"
  shows "bk_queue b = [] \<and> deliverNext E b = b \<or>
    sum_list (map (msgWeight M R) (bk_queue (deliverNext E b))) < sum_list (map (msgWeight M R) (bk_queue b))"
proof (cases "bk_queue b")
  case Nil
  then show ?thesis by (simp add: deliverNext_def)
next
  case (Cons msg rest)
  obtain new where new: "mw_published (snd (consume E msg (bk_world b))) = mw_published (bk_world b) @ new"
      "sum_list (map (msgWeight M R \<circ> en_message) new) < msgWeight M R msg"
    by (rule delivery_weight[OF assms])
  have "sum_list (map (msgWeight M R) (map en_message (filter toDeleteQueue new))) \<le> sum_list (map (msgWeight M R \<circ> en_message) new)"
    using sum_filter_le[of "msgWeight M R \<circ> en_message"] by simp
  then show ?thesis using new Cons by (cases "consume E msg (bk_world b)") (simp add: deliverNext_def Let_def)
qed

lemma reliably_applied:
  assumes "redisGet (me_now E) (keyProcessed scope (me_digest E (mm_body msg))) (mw_redis w) \<noteq> Some (RText ''1'')"
    and "redisGet (me_now E) (keyLock scope (me_digest E (mm_body msg))) (mw_redis w) = None"
    and "work (w\<lparr>mw_redis := snd (redisSetIfNotExists (me_now E) (keyLock scope (me_digest E (mm_body msg))) (RText ''1'') (me_lockTtl E) (mw_redis w))\<rparr>) = (Inr (), w1)"
  shows "reliably E scope msg R retry work w = (Inr Acked, w1\<lparr>mw_redis := redisDelete (keyLock scope (me_digest E (mm_body msg)))
    (redisSet (me_now E) (keyProcessed scope (me_digest E (mm_body msg))) (RText ''1'') (Some (me_processedTtl E)) (mw_redis w1))\<rparr>)"
  using assms by (simp add: reliably_def ebind_def ecatch_def reliability_steps Let_def redisSetIfNotExists_def)

lemma deleteBatches_applied:
  "\<forall>b. me_dbFails E b = None \<Longrightarrow> deleteBatches E table rel bs w =
     (Inr (), w\<lparr>mw_office := fold (deleteBatch table (me_now E) rel) bs (mw_office w)\<rparr>)"
  by (induction bs arbitrary: w) (simp_all add: ebind_def)

lemma fold_ignored: "fold (deleteBatch CalendarEvents now rel) bs s = s"
  by (induction bs) simp_all

lemma deleteWork_applied:
  assumes "\<forall>b. me_dbFails E b = None" and "length ids \<le> me_maxIds E"
  shows "deleteWork E r table ids n w =
    (Inr (), w\<lparr>mw_office := fold (deleteBatch table (me_now E) (dr_relation r)) (chunkArray (me_chunk E) ids) (mw_office w)\<rparr>)"
  using assms by (simp add: deleteWork_def deleteBatches_applied fold_ignored)

lemma keys_differ: "keyLock scope x \<noteq> keyProcessed scope y"
  by (simp add: keyLock_def keyProcessed_def)

lemma redisGet_after:
  assumes "rd_enabled r" and "ttl > 0" and "now' < now + ttl * 1000" and "l \<noteq> k"
  shows "redisGet now' k (redisDelete l (redisSet now k v (Some ttl) r)) = Some v"
  using assms by (simp add: redisGet_def redisDelete_def redisSet_def)

lemma map_of_setHeader: "map_of (setHeader k v hs) = (map_of hs)(k \<mapsto> v)"
  by (induction k v hs rule: setHeader.induct) auto

section \<open>A world of messages\<close>

definition demo_mq_env :: "instant \<Rightarrow> mq_env" where
  "demo_mq_env now = \<lparr>me_now = now, me_digest = (\<lambda>_. ''d''), me_dbFails = (\<lambda>_. None), me_publishFails = (\<lambda>_. None),
     me_notifyFails = (\<lambda>_ _. None), me_deadFails = None, me_chunk = 300, me_maxIds = 1000, me_maxRetries = 3, me_lockTtl = 120,
     me_processedTtl = 604800\<rparr>"

definition demo_deletion :: delete_request where
  "demo_deletion = \<lparr>dr_table = Some ''clients'', dr_ids = Some [Some ''ck1''], dr_relation = None\<rparr>"

definition demo_message :: mq_message where
  "demo_message = \<lparr>mm_body = DeleteBody demo_deletion,
     mm_headers = \<lparr>mh_retry = Some 3, mh_deaths = None, mh_firstReason = Some ''rejected'', mh_other = []\<rparr>\<rparr>"

definition demo_mq :: mq_world where
  "demo_mq = \<lparr>mw_office = demo_mq_office, mw_redis = \<lparr>rd_enabled = True, rd_store = Map.empty\<rparr>, mw_published = [], mw_sent = [], mw_dead = []\<rparr>"

section \<open>Properties\<close>

text \<open>C24: whatever fails at each delivery, the queue of deletions runs empty: a message of at most \<open>M\<close> ids with \<open>n\<close> retries
  behind it is delivered at most \<open>R - n + 1\<close> times, a larger one is split and each failed split tried again,
  and the sum of these bounds over the queue is enough deliveries.\<close>

theorem deliveries_end:
  assumes "M > 0" and "\<forall>E \<in> set Es. me_maxIds E = M \<and> me_maxRetries E = R"
    and "sum_list (map (msgWeight M R) (bk_queue b)) \<le> length Es"
  shows "bk_queue (fold deliverNext Es b) = []"
  using assms(2,3)
proof (induction Es arbitrary: b)
  case Nil
  have "msgWeight M R msg > 0" for msg
    by (cases "triesLeft R msg") (auto simp: msgWeight_def split: mq_body.splits)
  then show ?case using Nil by (cases "bk_queue b") (simp_all, metis not_gr_zero)
next
  case (Cons E Es)
  have ends: "fold deliverNext Es b = b" if "bk_queue b = []" for b
    using that by (induction Es) (simp_all add: deliverNext_def)
  show ?case using delivery_decreases[of E M R b] Cons assms(1) ends[of b] by fastforce
qed

theorem deliveries_end_witness:
  "bk_queue (fold deliverNext [demo_mq_env 0] \<lparr>bk_queue = [demo_message], bk_dead = [], bk_world = demo_mq\<rparr>) = []"
proof -
  have "validateIdsAreStrings (dr_ids demo_deletion) = Some [''ck1'']" by code_simp
  then have "msgWeight 1000 3 demo_message = 1"
    by (simp add: msgWeight_def demo_message_def chunksOf_def splitOf_def triesLeft_def getRetryCount_def)
  then show ?thesis
    using deliveries_end[of 1000 "[demo_mq_env 0]" 3 "\<lparr>bk_queue = [demo_message], bk_dead = [], bk_world = demo_mq\<rparr>"]
    by (simp add: demo_mq_env_def)
qed



text \<open>C29: a deletion that was refused and stored can be replayed by the two allowed roles: it is published again to the
  queue of the deletions with its content, without its retries, marked with its origin, and its row says so.\<close>

theorem dead_letter_replayed:
  assumes "deleteDLQConsumer E source msg w = (u, w1)" and "me_deadFails E = None" and "me_publishFails E' = (\<lambda>_. None)"
    and "i = idSupply (officeDb (mw_office w)) (nextId (officeDb (mw_office w)))" and "i \<notin> dl_id ` set (mw_dead w)"
    and "trim i = i" and "i \<noteq> []" and "allowedRole role" and "postReplay E' i role w1 = (answer, w2)"
  shows "answer = DeadOk \<lparr>rp_id = i, rp_status = Replayed, rp_replays = 1, rp_key = deleteKey, rp_exchange = deleteExchange\<rparr> \<and>
    (\<exists>en. mw_published w2 = mw_published w @ [en] \<and> toDeleteQueue en \<and> mm_body (en_message en) = mm_body msg \<and>
       getRetryCount (mm_headers (en_message en)) = 0 \<and>
       map_of (mh_other (mm_headers (en_message en))) ''x-replay-from-dlq-id'' = Some i) \<and>
    (\<exists>row \<in> set (mw_dead w2). dl_id row = i \<and> dl_status row = Replayed \<and> dl_lastRole row = Some role)"
proof -
  let ?row = "(deadRow E deleteDLQ deleteExchange deleteKey ''deleteSOFTRecordsConsumer'' (Some (orElse source deleteDLQ)) msg)\<lparr>dl_id := i\<rparr>"
  have w1: "mw_dead w1 = mw_dead w @ [?row]" "mw_published w1 = mw_published w"
    using assms(1,2,4) by (auto simp: deleteDLQConsumer_def ecatch_def ebind_def registerMessage_def freshId_def)
  have row: "dl_id ?row = i" "dl_deleted ?row = None" "dl_exchange ?row = deleteExchange" "dl_key ?row = deleteKey"
    "dl_body ?row = mm_body msg" "dl_replays ?row = 0"
    by (simp_all add: deadRow_def)
  have "List.find (\<lambda>r. dl_id r = i \<and> dl_deleted r = None) (mw_dead w) = None"
    using assms(5) by (auto simp: find_None_iff_all)
  then have find: "List.find (\<lambda>r. dl_id r = i \<and> dl_deleted r = None) (mw_dead w1) = Some ?row"
    unfolding w1(1) find_append using row(1,2) by simp
  have headers: "getRetryCount (replayHeaders E' ?row) = 0" "map_of (mh_other (replayHeaders E' ?row)) ''x-replay-from-dlq-id'' = Some i"
    by (simp_all add: replayHeaders_def Let_def map_of_setHeader getRetryCount_def sanitizeHeaders_def deathCount_def deadRow_def)
  obtain en where en: "en = \<lparr>en_exchange = deleteExchange, en_key = deleteKey,
      en_message = \<lparr>mm_body = mm_body msg, mm_headers = replayHeaders E' ?row\<rparr>\<rparr>" by simp
  have "replayMessage E' i role w1 = (Inr (Some \<lparr>rp_id = i, rp_status = Replayed, rp_replays = 1, rp_key = deleteKey, rp_exchange = deleteExchange\<rparr>),
      w1\<lparr>mw_published := mw_published w @ [en], mw_dead := updateWhere (\<lambda>r. dl_id r = i) (afterReplay E' role None) (mw_dead w1)\<rparr>)"
    using find row by (simp add: replayMessage_def ebind_def ecatch_def publishToExchange_def assms(3) setDead_def en w1(2))
  then have "answer = DeadOk \<lparr>rp_id = i, rp_status = Replayed, rp_replays = 1, rp_key = deleteKey, rp_exchange = deleteExchange\<rparr>"
    "mw_published w2 = mw_published w @ [en]"
    "mw_dead w2 = updateWhere (\<lambda>r. dl_id r = i) (afterReplay E' role None) (mw_dead w1)"
    using assms(6-9) by (auto simp: postReplay_def replayDeadLetterMessage_def)
  moreover have "afterReplay E' role None ?row \<in> set (updateWhere (\<lambda>r. dl_id r = i) (afterReplay E' role None) (mw_dead w1))"
    using row(1) by (simp add: w1(1))
  ultimately show ?thesis using headers row(1)
    by (auto simp: en toDeleteQueue_def afterReplay_def intro!: bexI[of _ "afterReplay E' role None ?row"])
qed

theorem dead_letter_replayed_witness:
  "\<exists>en :: envelope. mm_body (en_message en) = DeleteBody demo_deletion \<and> getRetryCount (mm_headers (en_message en)) = 0"
proof -
  obtain u w1 where run: "deleteDLQConsumer (demo_mq_env 0) None demo_message demo_mq = (u, w1)" by fastforce
  obtain answer w2 where replay: "postReplay (demo_mq_env 5) ''x'' ''ROLE_DEVELOPER'' w1 = (answer, w2)" by fastforce
  have f: "''x'' = idSupply (officeDb (mw_office demo_mq)) (nextId (officeDb (mw_office demo_mq)))" "''x'' \<notin> dl_id ` set (mw_dead demo_mq)"
    "me_deadFails (demo_mq_env 0) = None" "me_publishFails (demo_mq_env 5) = (\<lambda>_. None)" "allowedRole ''ROLE_DEVELOPER''"
    "''x'' \<noteq> []" "mm_body demo_message = DeleteBody demo_deletion"
    by (simp_all add: demo_mq_def demo_db_def demo_supply_def demo_mq_env_def allowedRole_def demo_message_def)
  have t: "trim ''x'' = ''x''" by code_simp
  show ?thesis using dead_letter_replayed[OF run f(3,4,1,2) t f(6,5) replay] f(7) by auto
qed

end
