(* ===== verification/Spec2Isabelle.thy ===== *)
theory Spec2Isabelle
  imports CalPrelude CalTime CalWindows CalSlots CalHours CalAssign CalRoundRobin CalHold CalDomain CalDb CalAvailability CalBooking CalBookingTx CalWeb CalUpdate CalFlows CalCommand CalQuery CalDemo CalAvailProps CalBookingProps CalUpdateProps CalWf CalRebuildProps CalEditProps CalStatus CalStatusProps CalPlatform CalPlatformProps CalUpsert CalUpsertProps CalGuard CalCrypto CalCryptoProps CalTimes CalTimesProps CalDays CalDaysProps CalSchedule CalScheduleProps CalTemporary CalTemporaryProps CalGate CalGateProps CalAbsence CalAbsenceProps CalWaitList CalWaitProps CalMessages CalDeadLetters CalMessageProps CalDeliveryProps
begin

text \<open>
  A verification development for the calendar microservice (\<open>src/src\<close>, TypeScript over Express, Prisma and Redis).

  The service keeps the bookings of companies with several workspaces. A booking is a row of \<open>GroupEvents\<close> with its
  events (one per service, each given by a professional) and its participants. Clients see the free time of
  the professionals, book, move and cancel from the web; the staff edits bookings on the platform; hours of
  the business, of the professionals and of single dates say when somebody works. The development models these operations
  from the request, behind its guards, to the rows they write, and proves what they promise and where they do not.

  \<^bold>\<open>How the parts meet.\<close> A request of a client passes the guards (\<open>CalGate\<close>), which resolve the workspace, its
  configuration and the client, and check the rules of time and the limits. The command service (\<open>CalCommand\<close>) calls the write
  services. These read the services, the eligible professionals, the hours and the busy events (\<open>CalAvailability\<close>,
  \<open>CalHours\<close>), compute free windows (\<open>CalWindows\<close>), choose professionals by backtracking (\<open>CalAssign\<close>) or by weighted
  round robin with holds on Redis (\<open>CalRoundRobin\<close>), and write events, groups and participants in a transaction (\<open>CalBooking\<close>,
  \<open>CalBookingTx\<close>, \<open>CalUpdate\<close>). The lists of slots and of days (\<open>CalTimes\<close>, \<open>CalDays\<close>) read the same
  data. The hours come from tables that have their own routes and caches (\<open>CalSchedule\<close>, \<open>CalTemporary\<close>).

  \<^bold>\<open>Shared layers\<close>
  \<^item> \<open>CalPrelude\<close>: identifiers, errors, state with errors (a transaction \<open>'a tx\<close> is a function of the database whose error
    discards the state; a request \<open>'a req\<close> is a function of the world whose error keeps it), generic lemmas and the
    collections \<open>after_rules\<close> and \<open>keeps_db\<close>.
  \<^item> \<open>CalTime\<close>: instants in milliseconds, the functions of moment-timezone as the parameter \<open>tzlib\<close>, its laws \<open>tz_ok\<close>, the instance
    \<open>utc_tz\<close>, and the ISO text of an instant.
  \<^item> \<open>CalDb\<close>, \<open>CalWf\<close>: the tables of \<open>prisma/schema.prisma\<close> as lists of records, the calls of Prisma that are used, and
    well-formedness \<open>wfDb\<close> (unique identifiers, every event and participant has its group, fresh supply).
  \<^item> \<open>CalDemo\<close>: the small database and environment of the witnesses.

  \<^bold>\<open>Availability\<close>
  \<^item> \<open>CalWindows\<close>, \<open>CalSlots\<close>, \<open>CalHours\<close>, \<open>CalAssign\<close>: \<open>services/@database/event/availability-special.service.ts\<close>
    (subtracting busy time, merging, index ranges and alignment on the grid, the precedence of the three sources of hours,
    \<open>assignSequentially_SPECIAL\<close>). Shown: free windows cover exactly the free instants; the search is sound and
    complete for plans; the clock is rounded within one step.
  \<^item> \<open>CalAvailability\<close>, \<open>CalAvailProps\<close>: \<open>bookingPage.ms.ts\<close>, \<open>getInfoServices.ts\<close>,
    \<open>event-client-availability.service.ts\<close>, the busy query. Shown: a slot in a window of the context meets no event
    that the query sees; the two builders of the context agree.
  \<^item> \<open>CalRoundRobin\<close>, \<open>CalHold\<close>: \<open>round-robin.strategy.ts\<close> over \<open>redis.service.ts\<close>. Shown: fairness of the smooth weighted
    choice over any number of picks; the hold as two steps under interleaving (a step relation), where it does not exclude,
    and with the atomic operation, where it does.
  \<^item> \<open>CalTimes\<close>, \<open>CalTimesProps\<close>: \<open>event-times.service.ts\<close>. \<open>CalDays\<close>, \<open>CalDaysProps\<close>: \<open>publicGetAvailableDays\<close> of
    \<open>eventv2.service.ts\<close> with \<open>event-availability.ts\<close>. Shown: what is offered is exactly what fits; when the enumeration of days ends.

  \<^bold>\<open>Bookings of clients\<close> (\<open>features/event-client\<close>)
  \<^item> \<open>CalDomain\<close>: the policies and strategies of \<open>domain\<close>.
  \<^item> \<open>CalBooking\<close>, \<open>CalBookingTx\<close>, \<open>CalWeb\<close>, \<open>CalBookingProps\<close>: \<open>booking.persistence.ts\<close> and
    \<open>event-client-write.service.ts\<close>. Shown: no professional is booked twice, rows stay consistent, all or nothing, the capacity
    of classes.
  \<^item> \<open>CalUpdate\<close>, \<open>CalFlows\<close>, \<open>CalUpdateProps\<close>, \<open>CalRebuildProps\<close>, \<open>CalEditProps\<close>:
    \<open>event-client-update.persistence.ts\<close>, \<open>event-client-update-write.service.ts\<close> and its three flows. Shown: the same for
    updates, and the class edit that breaks it.
  \<^item> \<open>CalCommand\<close>, \<open>CalQuery\<close>: the command and query services. \<open>CalGuard\<close>: \<open>request-idempotency.middleware.ts\<close>.
  \<^item> \<open>CalGate\<close>, \<open>CalGateProps\<close>: \<open>booking-guard.middleware.ts\<close>, the caches of workspaces and clients, the routes and
    controllers of clients and of public availability. Shown: the guards decide their rules exactly and write nothing, the limit of the
    day holds after a booking, the window of the guard against that of the list, and what passes that should not.
  \<^item> \<open>CalCrypto\<close>, \<open>CalCryptoProps\<close>: \<open>clientDataCrypto.ts\<close> and the Prisma middleware of \<open>prisma.ts\<close>. Shown: what is
    stored is encrypted and reads back.

  \<^bold>\<open>The platform\<close> (\<open>features/event-platform\<close>)
  \<^item> \<open>CalStatus\<close>, \<open>CalStatusProps\<close>: the status machine. \<open>CalPlatform\<close>, \<open>CalPlatformProps\<close>: edits, splits and deletions.
    \<open>CalUpsert\<close>, \<open>CalUpsertProps\<close>: \<open>upsertEvent.service.ts\<close>, as a refinement of the payload.

  \<^bold>\<open>Hours\<close>
  \<^item> \<open>CalSchedule\<close>, \<open>CalScheduleProps\<close>: \<open>features/business-hour\<close>, \<open>features/worker-business-hour\<close>, their
    schemas, routes, middleware and caches. \<open>CalTemporary\<close>, \<open>CalTemporaryProps\<close>: \<open>features/temporary-business-hour\<close> with the
    events that block the calendar. Shown: invariants under every sequence of requests, coherence of the cache, what requests lose.
  \<^item> \<open>CalAbsence\<close>, \<open>CalAbsenceProps\<close>: \<open>features/worker-absence\<close> with its middleware. Shown: an absence takes the time
    of its days; whom it blocks after an update; the blocks that its deletion of exceptions leaves.
  \<^item> \<open>CalWaitList\<close>, \<open>CalWaitProps\<close>: the wait list and its job (\<open>wait-list-cron.service.ts\<close>). Shown: what a run does
    exactly; every entry is reminded in its turn.

  \<^bold>\<open>Messages\<close> (\<open>services/@rabbitmq/pubsub\<close>)
  \<^item> \<open>CalMessages\<close>, \<open>CalMessageProps\<close>: the reliability keys of a message and \<open>deleteRecordsSoft.consumer.ts\<close>, one function for
    each of its tables. Shown: what the deletion of clients does to bookings, that a deletion done twice is a deletion,
    what a deletion of companies leaves and what a message without its relation does.
  \<^item> \<open>CalDeadLetters\<close>, \<open>CalDeliveryProps\<close>: \<open>updateServiceInEvent.consumer.ts\<close>, the dead letters and their replay, and the
    queue as the consumers configure it. Shown: deliveries end whatever fails (a measure of the retries and splits that are left), a message
    with the content of an applied one is dropped, a replay is what was refused.

  \<^bold>\<open>Interfaces.\<close> Where several operations share a contract it is a locale, interpreted on the definitions of the model:
  \<open>booking_step\<close> and its extension \<open>booking_step_live\<close> in \<open>CalBookingTx\<close> (the step of one segment: keeps an invariant, only
  appends) on create-or-join; \<open>staff_chooser\<close> in \<open>CalDomain\<close> (a choice among the eligible) on the choosers of create
  and update. Elsewhere a state is passed through one chain of calls, and its invariant goes with the calls (\<open>preserves\<close>, \<open>after\<close>).

  \<^bold>\<open>Bounds and fuel.\<close> Loops over lists are structural. The smooth round robin, the sweeps and the grid are proved for all lengths.
  The enumeration of days is \<open>partial_function (option)\<close>: a text that is no date makes it run for ever, which is the value
  \<open>None\<close>, and returning is a theorem. No definition takes fuel.

  \<^bold>\<open>What is assumed.\<close> The zone functions obey \<open>tz_ok\<close> (the day holds the instant, clearing the seconds goes to the start of the
  minute), and \<open>days_ok\<close> and \<open>calendar_ok\<close> where days are enumerated or dates stored; \<open>utc_tz\<close> satisfies them. The
  cipher inverts itself; a digest is a function. Other services (services of a workspace, workspaces, clients) are parameters that may
  throw. Weights are rationals, the numbers of a configuration whole. Texts are ASCII where bytes matter; answers are without accents.
  A request sees one clock, and the members of a \<open>Promise.all\<close> run in order. Transactions run one at a time; what can happen
  between two requests is modelled where it matters (the hold). Entries of caches expire between requests where stated.

  \<^bold>\<open>Not modelled.\<close> The older generation of the same operations (\<open>client-event.service.ts\<close> and the other functions of
  \<open>eventv2.service.ts\<close>, with the controllers of \<open>controllers/event\<close>): no mounted route calls them. The texts of
  notifications, the transport of RabbitMQ (expiry, lengths of queues, connections) and its consumers that nothing starts, HTTP clients, tokens, images, cron and the server start: input and
  output around libraries. Recurrence rules: the strategies are commented out. Generic listing helpers build queries for Prisma. The mock
  mode of integrations and the seed are data for development.
\<close>

end
